(* ===== verification/Prelude.thy ===== *)
theory Prelude
  imports Main "HOL-Library.Char_ord" "HOL-Library.List_Lexorder"
begin

text \<open>
  Values of the source language and the helper lemmas every component shares.

  \<^item> A JavaScript string is a \<open>string\<close>; the characters of the model are the code
    units 0 to 255, and letter case is the ASCII one.
  \<^item> A \<open>bigint\<close> and an integer \<open>number\<close> are both \<open>int\<close>. The only place where the
    source cares about the width of a \<open>number\<close> is \<open>safeIntegerNumber\<close>, modelled by
    \<open>safe_integer_number\<close>.
  \<^item> Strings are ordered by code units, as \<open><\<close> orders them in JavaScript. A collation of the
    database that an \<open>orderBy\<close> uses is modelled by the same order.
  \<^item> A \<open>Date\<close> is its instant in milliseconds since the epoch.
  \<^item> A tenant context carries a non-empty tenant id: the middleware of
    \<open>apps/api/src/tenancy\<close> builds no other, so that \<open>requireTenantId\<close> does not throw.
  \<^item> An exception is a value of \<open>app_error\<close>: one constructor per exception class the
    source throws, with its message.
\<close>

section \<open>Errors\<close>

datatype app_error =
    NotFound string
  | Conflict string
  | BadRequest string
  | Forbidden string
  | Unauthorized string
  | ServiceUnavailable string
  | BadGateway string
  | Range_Error string
  | Plain_Error string
  | UniqueViolation          \<comment> \<open>Prisma \<open>P2002\<close>\<close>
  | RecordMissing            \<comment> \<open>Prisma \<open>P2025\<close>\<close>

type_synonym uuid = string
type_synonym instant = int

section \<open>JSON values\<close>

datatype json =
    JNull
  | JBool bool
  | JNum int
  | JStr string
  | JArr "json list"
  | JObj "(string \<times> json) list"

section \<open>Rule collections\<close>

named_theorems keeps_intros "programs that leave a view of the state alone"
named_theorems hoare_intros "rules for invariants of programs"
named_theorems atomic_intros "rules for programs that change the database only where they return"

section \<open>Strings\<close>

definition is_space :: "char \<Rightarrow> bool" where
  "is_space c \<longleftrightarrow> (let n = (of_char c :: nat) in 9 \<le> n \<and> n \<le> 13 \<or> n = 32 \<or> n = 160)"

definition js_trim :: "string \<Rightarrow> string" where
  "js_trim s = rev (dropWhile is_space (rev (dropWhile is_space s)))"

definition upper_char :: "char \<Rightarrow> char" where
  "upper_char c = (let n = (of_char c :: nat) in if 97 \<le> n \<and> n \<le> 122 then char_of (n - 32) else c)"

definition js_upper :: "string \<Rightarrow> string" where
  "js_upper s = map upper_char s"

definition is_digit :: "char \<Rightarrow> bool" where
  "is_digit c \<longleftrightarrow> (let n = (of_char c :: nat) in 48 \<le> n \<and> n \<le> 57)"

definition is_upper :: "char \<Rightarrow> bool" where
  "is_upper c \<longleftrightarrow> (let n = (of_char c :: nat) in 65 \<le> n \<and> n \<le> 90)"

definition digit_value :: "char \<Rightarrow> int" where
  "digit_value c = int (of_char c) - 48"

definition digit_char :: "nat \<Rightarrow> char" where
  "digit_char d = char_of (if d < 10 then 48 + d else 87 + d)"

fun show_base :: "nat \<Rightarrow> nat \<Rightarrow> string" where
  "show_base b n =
     (if b < 2 \<or> n < b then [digit_char n] else show_base b (n div b) @ [digit_char (n mod b)])"

declare show_base.simps [simp del]

definition show_int :: "int \<Rightarrow> string" where
  "show_int i = (if i < 0 then ''-'' @ show_base 10 (nat (- i)) else show_base 10 (nat i))"

definition pad_start :: "nat \<Rightarrow> char \<Rightarrow> string \<Rightarrow> string" where
  "pad_start n c s = replicate (n - length s) c @ s"

section \<open>Sets kept in insertion order\<close>

text \<open>The members of \<open>new Set(xs)\<close> in the order JavaScript iterates over them.\<close>

definition js_set :: "'a list \<Rightarrow> 'a list" where
  "js_set xs = rev (remdups (rev xs))"

lemma set_js_set [simp]: "set (js_set xs) = set xs"
  by (simp add: js_set_def)

lemma distinct_js_set [simp]: "distinct (js_set xs)"
  by (simp add: js_set_def)

lemma length_js_set: "length (js_set xs) = card (set xs)"
  by (simp add: js_set_def length_remdups_card_conv)

lemma length_js_set_eq_iff: "length (js_set xs) = length xs \<longleftrightarrow> distinct xs"
  by (metis length_js_set card_distinct distinct_card)

section \<open>Calendar\<close>

text \<open>
  \<open>Date.prototype.getUTCFullYear\<close>: the proleptic Gregorian year of an instant, by the
  count of days from 1 March of year 0.
\<close>

definition utc_year :: "instant \<Rightarrow> int" where
  "utc_year ms =
     (let z = ms div 86400000 + 719468;
          era = z div 146097;
          doe = z mod 146097;
          yoe = (doe - doe div 1460 + doe div 36524 - doe div 146096) div 365;
          doy = doe - (365 * yoe + yoe div 4 - yoe div 100);
          mp = (5 * doy + 2) div 153
      in yoe + era * 400 + (if mp < 10 then 0 else 1))"

section \<open>Integers a JavaScript number represents\<close>

definition max_safe_integer :: int where
  "max_safe_integer = 2 ^ 53 - 1"

definition safe_integer :: "int \<Rightarrow> bool" where
  "safe_integer v \<longleftrightarrow> \<bar>v\<bar> \<le> max_safe_integer"

text \<open>
  \<open>Number(value)\<close> is exact up to \<open>2 ^ 53\<close> in absolute value and rounds to at least
  \<open>2 ^ 53\<close> beyond, so that \<open>Number.isSafeInteger(Number(value))\<close> holds exactly when
  \<open>safe_integer value\<close> does, and then the conversion is the identity.
\<close>

definition safe_integer_number :: "int \<Rightarrow> string \<Rightarrow> app_error + int" where
  "safe_integer_number v label =
     (if safe_integer v then Inr v
      else Inl (Range_Error (label @ '' exceeds JavaScript's safe integer range'')))"

lemma safe_integer_number_Inr [simp]:
  "safe_integer_number v l = Inr w \<longleftrightarrow> safe_integer v \<and> w = v"
  by (auto simp: safe_integer_number_def)

text \<open>\<open>map\<close> with a function that can throw: the first exception ends it.\<close>

fun sequence_results :: "(app_error + 'a) list \<Rightarrow> app_error + 'a list" where
  "sequence_results [] = Inr []"
| "sequence_results (r # rs) =
     (case r of Inl e \<Rightarrow> Inl e
      | Inr x \<Rightarrow> (case sequence_results rs of Inl e \<Rightarrow> Inl e | Inr xs \<Rightarrow> Inr (x # xs)))"

lemma sequence_results_Inr: "sequence_results rs = Inr xs \<longleftrightarrow> rs = map Inr xs"
proof (induction rs arbitrary: xs)
  case Nil
  then show ?case by auto
next
  case (Cons r rs)
  have step: "sequence_results (r # rs) = Inr xs \<longleftrightarrow>
      (\<exists>y ys. r = Inr y \<and> sequence_results rs = Inr ys \<and> xs = y # ys)"
    by (auto split: sum.splits)
  show ?case unfolding step Cons.IH by (auto simp: Cons_eq_map_conv)
qed

section \<open>Tenant context and principal\<close>

record tenant_context =
  ctx_tenantId :: uuid
  ctx_actorId :: "uuid option"
  ctx_correlationId :: uuid

record auth_principal =
  pr_userId :: uuid
  pr_tenantId :: uuid
  pr_sessionId :: uuid
  pr_roles :: "string list"
  pr_permissions :: "string list"

section \<open>Shared lemmas\<close>

lemma find_None_iff': "List.find P xs = None \<longleftrightarrow> (\<forall>x\<in>set xs. \<not> P x)"
  by (auto simp: find_None_iff)

lemma find_SomeI: "x \<in> set xs \<Longrightarrow> P x \<Longrightarrow> \<exists>y. List.find P xs = Some y"
  by (induction xs) auto

lemma find_SomeD: "List.find P xs = Some x \<Longrightarrow> x \<in> set xs \<and> P x"
  by (induction xs) (auto split: if_splits)

lemma find_append: "List.find P (xs @ ys) = (case List.find P xs of None \<Rightarrow> List.find P ys | r \<Rightarrow> r)"
  by (induction xs) auto

lemma sum_list_filter_split:
  "(sum_list (map f (filter P xs)) :: int) =
     sum_list (map f (filter (\<lambda>x. P x \<and> Q x) xs)) + sum_list (map f (filter (\<lambda>x. P x \<and> \<not> Q x) xs))"
  by (induction xs) auto

lemma sum_list_nonneg_map: "(\<And>x. x \<in> set xs \<Longrightarrow> 0 \<le> f x) \<Longrightarrow> 0 \<le> (sum_list (map f xs) :: int)"
  by (induction xs) auto

end
