(* ===== verification/Program.thy ===== *)
theory Program
  imports Prelude
begin

text \<open>
  The effects of the source: asynchronous code that reads and writes the database,
  throws, catches and runs database transactions.

  A program maps a state to a result and a state; an exception keeps the state it was
  thrown in, because writes made outside a transaction stay. \<open>transaction\<close> puts the
  database back when its body throws. The state of every component extends \<open>runtime\<close>,
  which holds what a transaction never undoes: the sources of \<open>randomUUID()\<close> and of
  \<open>new Date()\<close>, both parameters of the model, with the number of values drawn so far,
  and the requests sent to external providers.
\<close>

section \<open>State every component shares\<close>

datatype external_call =
    AuthorizePayment string int string string  \<comment> \<open>token, amount, currency, idempotency key\<close>
  | VoidPayment string
  | OpenCheckout string string int string      \<comment> \<open>provider, key, amount, currency\<close>
  | SubmitRefund string string int string      \<comment> \<open>provider, reference, amount, key\<close>
  | RequestLabel string string string int      \<comment> \<open>shipment, carrier, service level, weight\<close>
  | HeadObject string                          \<comment> \<open>object key\<close>
  | CopyObject string string                   \<comment> \<open>from, to\<close>
  | DeleteObject string
  | ScanDocument string
  | QueueEvent uuid uuid string int string json uuid "uuid option"
      \<comment> \<open>job id, tenant, type, version, subject, payload, correlation and causation id\<close>

record runtime =
  uuid_source :: "nat \<Rightarrow> uuid"
  uuids_drawn :: nat
  clock :: "nat \<Rightarrow> instant"
  clock_reads :: nat
  external_calls :: "external_call list"

type_synonym ('s, 'a) prog = "'s \<Rightarrow> (app_error + 'a) \<times> 's"

section \<open>Program constructors\<close>

definition ret :: "'a \<Rightarrow> ('s, 'a) prog" where
  "ret x = (\<lambda>s. (Inr x, s))"

definition throw :: "app_error \<Rightarrow> ('s, 'a) prog" where
  "throw e = (\<lambda>s. (Inl e, s))"

definition seq :: "('s, 'a) prog \<Rightarrow> ('a \<Rightarrow> ('s, 'b) prog) \<Rightarrow> ('s, 'b) prog" where
  "seq m f = (\<lambda>s. case m s of (Inl e, t) \<Rightarrow> (Inl e, t) | (Inr x, t) \<Rightarrow> f x t)"

definition reads :: "('s \<Rightarrow> 'a) \<Rightarrow> ('s, 'a) prog" where
  "reads f = (\<lambda>s. (Inr (f s), s))"

definition writes :: "('s \<Rightarrow> 's) \<Rightarrow> ('s, unit) prog" where
  "writes f = (\<lambda>s. (Inr (), f s))"

definition ensure :: "bool \<Rightarrow> app_error \<Rightarrow> ('s, unit) prog" where
  "ensure b e = (if b then ret () else throw e)"

definition require :: "'a option \<Rightarrow> app_error \<Rightarrow> ('s, 'a) prog" where
  "require r e = (case r of None \<Rightarrow> throw e | Some x \<Rightarrow> ret x)"

definition lift_result :: "app_error + 'a \<Rightarrow> ('s, 'a) prog" where
  "lift_result r = (case r of Inl e \<Rightarrow> throw e | Inr x \<Rightarrow> ret x)"

definition when_do :: "bool \<Rightarrow> ('s, unit) prog \<Rightarrow> ('s, unit) prog" where
  "when_do b m = (if b then m else ret ())"

definition catch :: "('s, 'a) prog \<Rightarrow> (app_error \<Rightarrow> ('s, 'a) prog) \<Rightarrow> ('s, 'a) prog" where
  "catch m h = (\<lambda>s. case m s of (Inl e, t) \<Rightarrow> h e t | (Inr x, t) \<Rightarrow> (Inr x, t))"

text \<open>\<open>finally_do m h\<close>: \<open>h\<close> runs after \<open>m\<close> in both cases; its own exception wins.\<close>

definition finally_do :: "('s, 'a) prog \<Rightarrow> ('s, unit) prog \<Rightarrow> ('s, 'a) prog" where
  "finally_do m h = (\<lambda>s. case m s of (r, t) \<Rightarrow>
     (case h t of (Inl e, u) \<Rightarrow> (Inl e, u) | (Inr _, u) \<Rightarrow> (r, u)))"

definition transaction :: "('m runtime_scheme, 'a) prog \<Rightarrow> ('m runtime_scheme, 'a) prog" where
  "transaction m = (\<lambda>s. case m s of
       (Inl e, t) \<Rightarrow> (Inl e, runtime.more_update (\<lambda>_. runtime.more s) t)
     | (Inr x, t) \<Rightarrow> (Inr x, t))"

fun for_each :: "'x list \<Rightarrow> ('x \<Rightarrow> ('s, unit) prog) \<Rightarrow> ('s, unit) prog" where
  "for_each [] f = ret ()"
| "for_each (x # xs) f = seq (f x) (\<lambda>_. for_each xs f)"

fun fold_each :: "'x list \<Rightarrow> 'acc \<Rightarrow> ('x \<Rightarrow> 'acc \<Rightarrow> ('s, 'acc) prog) \<Rightarrow> ('s, 'acc) prog" where
  "fold_each [] a f = ret a"
| "fold_each (x # xs) a f = seq (f x a) (\<lambda>b. fold_each xs b f)"

section \<open>Sources of identifiers and time\<close>

definition random_uuid :: "('m runtime_scheme, uuid) prog" where
  "random_uuid = (\<lambda>s. (Inr (uuid_source s (uuids_drawn s)), s\<lparr>uuids_drawn := Suc (uuids_drawn s)\<rparr>))"

definition now :: "('m runtime_scheme, instant) prog" where
  "now = (\<lambda>s. (Inr (clock s (clock_reads s)), s\<lparr>clock_reads := Suc (clock_reads s)\<rparr>))"

definition send :: "external_call \<Rightarrow> ('m runtime_scheme, unit) prog" where
  "send c = writes (\<lambda>s. s\<lparr>external_calls := external_calls s @ [c]\<rparr>)"

section \<open>Evaluation and inversion\<close>

lemmas prog_defs = ret_def throw_def seq_def reads_def writes_def ensure_def require_def
  lift_result_def when_do_def catch_def finally_do_def random_uuid_def now_def send_def

lemma ret_run [simp]: "ret x s = (Inr x, s)"
  by (simp add: ret_def)

lemma throw_run [simp]: "throw e s = (Inl e, s)"
  by (simp add: throw_def)

lemma reads_run [simp]: "reads f s = (Inr (f s), s)"
  by (simp add: reads_def)

lemma writes_run [simp]: "writes f s = (Inr (), f s)"
  by (simp add: writes_def)

lemma seq_Inr [simp]:
  "seq m f s = (Inr y, u) \<longleftrightarrow> (\<exists>x t. m s = (Inr x, t) \<and> f x t = (Inr y, u))"
  by (auto simp: seq_def split: prod.splits sum.splits)

lemma seq_Inl [simp]:
  "seq m f s = (Inl e, u) \<longleftrightarrow> m s = (Inl e, u) \<or> (\<exists>x t. m s = (Inr x, t) \<and> f x t = (Inl e, u))"
  by (auto simp: seq_def split: prod.splits sum.splits)

lemma seq_run: "m s = (Inr x, t) \<Longrightarrow> seq m f s = f x t"
  by (simp add: seq_def)

lemma seq_run_throw: "m s = (Inl e, t) \<Longrightarrow> seq m f s = (Inl e, t)"
  by (simp add: seq_def)

lemma ensure_Inr [simp]: "ensure b e s = (Inr x, t) \<longleftrightarrow> b \<and> t = s"
  by (auto simp: ensure_def)

lemma ensure_Inl [simp]: "ensure b e s = (Inl e', t) \<longleftrightarrow> \<not> b \<and> e' = e \<and> t = s"
  by (auto simp: ensure_def)

lemma require_Inr [simp]: "require r e s = (Inr x, t) \<longleftrightarrow> r = Some x \<and> t = s"
  by (auto simp: require_def split: option.splits)

lemma require_Inl [simp]: "require r e s = (Inl e', t) \<longleftrightarrow> r = None \<and> e' = e \<and> t = s"
  by (auto simp: require_def split: option.splits)

lemma lift_result_Inr [simp]: "lift_result r s = (Inr x, t) \<longleftrightarrow> r = Inr x \<and> t = s"
  by (auto simp: lift_result_def split: sum.splits)

lemma lift_result_Inl [simp]: "lift_result r s = (Inl e, t) \<longleftrightarrow> r = Inl e \<and> t = s"
  by (auto simp: lift_result_def split: sum.splits)

lemma when_do_Inr [simp]:
  "when_do b m s = (Inr x, t) \<longleftrightarrow> (if b then m s = (Inr x, t) else t = s)"
  by (auto simp: when_do_def)

lemma transaction_Inr [simp]: "transaction m s = (Inr x, t) \<longleftrightarrow> m s = (Inr x, t)"
  by (auto simp: transaction_def split: prod.splits sum.splits)

lemma random_uuid_Inr [simp]:
  "random_uuid s = (Inr u, t) \<longleftrightarrow>
     u = uuid_source s (uuids_drawn s) \<and> t = s\<lparr>uuids_drawn := Suc (uuids_drawn s)\<rparr>"
  by (auto simp: random_uuid_def)

lemma now_Inr [simp]:
  "now s = (Inr u, t) \<longleftrightarrow> u = clock s (clock_reads s) \<and> t = s\<lparr>clock_reads := Suc (clock_reads s)\<rparr>"
  by (auto simp: now_def)

lemma transaction_rolls_back:
  "transaction m s = (Inl e, t) \<Longrightarrow> runtime.more t = runtime.more s"
  by (auto simp: transaction_def split: prod.splits sum.splits)

section \<open>Views a program keeps\<close>

text \<open>
  \<open>keeps v m\<close>: whatever \<open>m\<close> returns or throws, the view \<open>v\<close> of the state is what it
  was. It composes over every constructor, so that a program built from steps that keep a
  view keeps it by the rules of \<open>keeps_intros\<close> alone.
\<close>

definition keeps :: "('s \<Rightarrow> 'v) \<Rightarrow> ('s, 'a) prog \<Rightarrow> bool" where
  "keeps v m \<longleftrightarrow> (\<forall>s. v (snd (m s)) = v s)"

lemma keepsD: "keeps v m \<Longrightarrow> m s = (r, t) \<Longrightarrow> v t = v s"
  by (metis keeps_def snd_conv)

lemma keeps_ret [keeps_intros]: "keeps v (ret x)"
  by (simp add: keeps_def)

lemma keeps_throw [keeps_intros]: "keeps v (throw e)"
  by (simp add: keeps_def)

lemma keeps_reads [keeps_intros]: "keeps v (reads f)"
  by (simp add: keeps_def)

lemma keeps_seq [keeps_intros]: "keeps v m \<Longrightarrow> (\<And>x. keeps v (f x)) \<Longrightarrow> keeps v (seq m f)"
  by (auto simp: keeps_def seq_def split: prod.splits sum.splits) (metis snd_conv)+

lemma keeps_ensure [keeps_intros]: "keeps v (ensure b e)"
  by (simp add: keeps_def ensure_def)

lemma keeps_require [keeps_intros]: "keeps v (require r e)"
  by (simp add: keeps_def require_def split: option.splits)

lemma keeps_lift_result [keeps_intros]: "keeps v (lift_result r)"
  by (simp add: keeps_def lift_result_def split: sum.splits)

lemma keeps_when_do [keeps_intros]: "keeps v m \<Longrightarrow> keeps v (when_do b m)"
  by (simp add: keeps_def when_do_def)

lemma keeps_if [keeps_intros]: "keeps v m \<Longrightarrow> keeps v n \<Longrightarrow> keeps v (if b then m else n)"
  by simp

lemma keeps_option [keeps_intros]:
  "keeps v m \<Longrightarrow> (\<And>x. keeps v (f x)) \<Longrightarrow> keeps v (case r of None \<Rightarrow> m | Some x \<Rightarrow> f x)"
  by (simp split: option.splits)

lemma keeps_prod [keeps_intros]:
  "(\<And>a b. keeps v (f a b)) \<Longrightarrow> keeps v (case p of (a, b) \<Rightarrow> f a b)"
  by (simp split: prod.splits)

lemma keeps_catch [keeps_intros]: "keeps v m \<Longrightarrow> (\<And>e. keeps v (h e)) \<Longrightarrow> keeps v (catch m h)"
  by (auto simp: keeps_def catch_def split: prod.splits sum.splits) (metis snd_conv)+

lemma keeps_finally [keeps_intros]: "keeps v m \<Longrightarrow> keeps v h \<Longrightarrow> keeps v (finally_do m h)"
  by (auto simp: keeps_def finally_do_def split: prod.splits sum.splits) (metis snd_conv)+

lemma keeps_for_each [keeps_intros]: "(\<And>x. keeps v (f x)) \<Longrightarrow> keeps v (for_each xs f)"
  by (induction xs) (auto intro: keeps_intros)

lemma keeps_fold_each [keeps_intros]: "(\<And>x a. keeps v (f x a)) \<Longrightarrow> keeps v (fold_each xs a f)"
  by (induction xs arbitrary: a) (auto intro: keeps_intros)

lemma keeps_transaction [keeps_intros]:
  assumes "\<And>s t. runtime.more t = runtime.more s \<Longrightarrow> v t = v s" and "keeps v m"
  shows "keeps v (transaction m)"
  unfolding keeps_def
proof
  fix s
  obtain r t where run: "m s = (r, t)" by fastforce
  show "v (snd (transaction m s)) = v s"
  proof (cases r)
    case (Inl e)
    then have "runtime.more (snd (transaction m s)) = runtime.more s"
      by (simp add: transaction_def run)
    then show ?thesis by (rule assms(1))
  next
    case (Inr x)
    then show ?thesis using keepsD [OF assms(2) run] by (simp add: transaction_def run)
  qed
qed

lemma keeps_writes: "(\<And>s. v (f s) = v s) \<Longrightarrow> keeps v (writes f)"
  by (simp add: keeps_def)

section \<open>Predicates a program maintains\<close>

text \<open>
  \<open>always P m\<close>: from a state that satisfies \<open>P\<close>, the state \<open>m\<close> ends in satisfies \<open>P\<close>,
  whether it returns or throws.
\<close>

definition always :: "('s \<Rightarrow> bool) \<Rightarrow> ('s, 'a) prog \<Rightarrow> bool" where
  "always P m \<longleftrightarrow> (\<forall>s. P s \<longrightarrow> P (snd (m s)))"

lemma alwaysD: "always P m \<Longrightarrow> P s \<Longrightarrow> m s = (r, t) \<Longrightarrow> P t"
  by (metis always_def snd_conv)

lemma alwaysI: "(\<And>s r t. P s \<Longrightarrow> m s = (r, t) \<Longrightarrow> P t) \<Longrightarrow> always P m"
  by (metis always_def prod.collapse)

lemma always_ret [hoare_intros]: "always P (ret x)"
  by (simp add: always_def)

lemma always_throw [hoare_intros]: "always P (throw e)"
  by (simp add: always_def)

lemma always_reads [hoare_intros]: "always P (reads f)"
  by (simp add: always_def)

lemma always_seq [hoare_intros]: "always P m \<Longrightarrow> (\<And>x. always P (f x)) \<Longrightarrow> always P (seq m f)"
  by (auto simp: always_def seq_def split: prod.splits sum.splits)

lemma always_ensure [hoare_intros]: "always P (ensure b e)"
  by (simp add: always_def ensure_def)

lemma always_require [hoare_intros]: "always P (require r e)"
  by (simp add: always_def require_def split: option.splits)

lemma always_lift_result [hoare_intros]: "always P (lift_result r)"
  by (simp add: always_def lift_result_def split: sum.splits)

lemma always_when_do [hoare_intros]: "always P m \<Longrightarrow> always P (when_do b m)"
  by (simp add: always_def when_do_def)

lemma always_if [hoare_intros]: "always P m \<Longrightarrow> always P n \<Longrightarrow> always P (if b then m else n)"
  by simp

lemma always_option [hoare_intros]:
  "always P m \<Longrightarrow> (\<And>x. always P (f x)) \<Longrightarrow> always P (case r of None \<Rightarrow> m | Some x \<Rightarrow> f x)"
  by (simp split: option.splits)

lemma always_catch [hoare_intros]: "always P m \<Longrightarrow> (\<And>e. always P (h e)) \<Longrightarrow> always P (catch m h)"
  by (auto simp: always_def catch_def split: prod.splits sum.splits)

lemma always_finally [hoare_intros]: "always P m \<Longrightarrow> always P h \<Longrightarrow> always P (finally_do m h)"
  by (auto simp: always_def finally_do_def split: prod.splits sum.splits)

lemma always_for_each [hoare_intros]: "(\<And>x. always P (f x)) \<Longrightarrow> always P (for_each xs f)"
  by (induction xs) (auto intro: hoare_intros)

lemma always_keeps: "keeps v m \<Longrightarrow> always (\<lambda>s. Q (v s)) m"
  by (simp add: always_def keeps_def)

lemma always_ensure_seq: "(b \<Longrightarrow> always P (f ())) \<Longrightarrow> always P (seq (ensure b e) f)"
  by (auto simp: always_def seq_def ensure_def ret_def throw_def)

lemma always_lift_seq: "(\<And>x. r = Inr x \<Longrightarrow> always P (f x)) \<Longrightarrow> always P (seq (lift_result r) f)"
  by (auto simp: always_def seq_def lift_result_def ret_def throw_def split: sum.splits)

lemma always_prod [hoare_intros]:
  "(\<And>a b. always P (f a b)) \<Longrightarrow> always P (case p of (a, b) \<Rightarrow> f a b)"
  by (simp split: prod.splits)

lemma always_transactionI:
  assumes "\<And>s t. runtime.more t = runtime.more s \<Longrightarrow> P s \<Longrightarrow> P t"
    and "\<And>s y t. P s \<Longrightarrow> m s = (Inr y, t) \<Longrightarrow> P t"
  shows "always P (transaction m)"
proof (rule alwaysI)
  fix s r t
  assume start: "P s" and run: "transaction m s = (r, t)"
  show "P t"
  proof (cases r)
    case (Inl e)
    with run have "runtime.more t = runtime.more s" by (blast dest: transaction_rolls_back)
    then show ?thesis using start by (rule assms(1))
  next
    case (Inr y)
    with run have "m s = (Inr y, t)" by simp
    then show ?thesis by (rule assms(2) [OF start])
  qed
qed

lemma catch_Inr: "catch m h s = (Inr x, t) \<longleftrightarrow>
    m s = (Inr x, t) \<or> (\<exists>e u. m s = (Inl e, u) \<and> h e u = (Inr x, t))"
  by (auto simp: catch_def split: prod.splits sum.splits)

section \<open>Views a program preserves where it returns\<close>

text \<open>
  \<open>preserves v m\<close>: where \<open>m\<close> returns, the view \<open>v\<close> is what it was, although single steps
  of \<open>m\<close> may change it. It is what a transaction body owes an invariant.
\<close>

definition preserves :: "('s \<Rightarrow> 'v) \<Rightarrow> ('s, 'a) prog \<Rightarrow> bool" where
  "preserves v m \<longleftrightarrow> (\<forall>s x t. m s = (Inr x, t) \<longrightarrow> v t = v s)"

lemma preservesD: "preserves v m \<Longrightarrow> m s = (Inr x, t) \<Longrightarrow> v t = v s"
  by (simp add: preserves_def)

lemma preservesI: "(\<And>s x t. m s = (Inr x, t) \<Longrightarrow> v t = v s) \<Longrightarrow> preserves v m"
  by (simp add: preserves_def)

lemma preserves_keeps: "keeps v m \<Longrightarrow> preserves v m"
  by (auto simp: preserves_def dest: keepsD)

lemma preserves_throw: "preserves v (throw e)"
  by (simp add: preserves_def)

lemma preserves_seq: "preserves v m \<Longrightarrow> (\<And>x. preserves v (f x)) \<Longrightarrow> preserves v (seq m f)"
  by (auto simp: preserves_def)

lemma preserves_if: "preserves v m \<Longrightarrow> preserves v n \<Longrightarrow> preserves v (if b then m else n)"
  by simp

lemma preserves_when_do: "preserves v m \<Longrightarrow> preserves v (when_do b m)"
  by (simp add: preserves_def)

lemma preserves_option:
  "preserves v m \<Longrightarrow> (\<And>x. preserves v (f x)) \<Longrightarrow> preserves v (case r of None \<Rightarrow> m | Some x \<Rightarrow> f x)"
  by (simp split: option.splits)

lemma preserves_prod:
  "(\<And>a b. preserves v (f a b)) \<Longrightarrow> preserves v (case p of (a, b) \<Rightarrow> f a b)"
  by (simp split: prod.splits)

lemma preserves_for_each: "(\<And>x. preserves v (f x)) \<Longrightarrow> preserves v (for_each xs f)"
  by (induction xs) (simp_all add: preserves_seq preserves_keeps keeps_ret)

lemma preserves_fold_each: "(\<And>x a. preserves v (f x a)) \<Longrightarrow> preserves v (fold_each xs a f)"
  by (induction xs arbitrary: a) (simp_all add: preserves_seq preserves_keeps keeps_ret)

lemma preserves_transaction: "preserves v m \<Longrightarrow> preserves v (transaction m)"
  by (simp add: preserves_def)

lemmas preserves_intros = preserves_throw preserves_if preserves_when_do preserves_option preserves_prod
  preserves_for_each preserves_fold_each preserves_transaction

section \<open>Atomic programs\<close>

text \<open>
  \<open>atomic m\<close>: where \<open>m\<close> throws, the database is what it was. A transaction is atomic; so is
  a program that only reads before a single atomic step at its end.
\<close>

definition atomic :: "('m runtime_scheme, 'a) prog \<Rightarrow> bool" where
  "atomic m \<longleftrightarrow> (\<forall>s e t. m s = (Inl e, t) \<longrightarrow> runtime.more t = runtime.more s)"

lemma atomicD: "atomic m \<Longrightarrow> m s = (Inl e, t) \<Longrightarrow> runtime.more t = runtime.more s"
  by (simp add: atomic_def)

lemma atomic_transaction [atomic_intros]: "atomic (transaction m)"
  by (auto simp: atomic_def dest: transaction_rolls_back)

lemma atomic_keeps: "keeps runtime.more m \<Longrightarrow> atomic m"
  by (auto simp: atomic_def dest: keepsD)

lemma atomic_seq [atomic_intros]:
  "keeps runtime.more m \<Longrightarrow> (\<And>x. atomic (f x)) \<Longrightarrow> atomic (seq m f)"
  by (auto simp: atomic_def dest: keepsD)

lemma atomic_if [atomic_intros]: "atomic m \<Longrightarrow> atomic n \<Longrightarrow> atomic (if b then m else n)"
  by simp

lemma atomic_option [atomic_intros]:
  "atomic m \<Longrightarrow> (\<And>x. atomic (f x)) \<Longrightarrow> atomic (case r of None \<Rightarrow> m | Some x \<Rightarrow> f x)"
  by (simp split: option.splits)

lemma atomic_catch [atomic_intros]:
  "atomic m \<Longrightarrow> (\<And>e. keeps runtime.more (h e)) \<Longrightarrow> atomic (catch m h)"
  by (fastforce simp: atomic_def catch_def split: prod.splits sum.splits dest: keepsD)

lemmas atomic_basics [atomic_intros] =
  keeps_ret [THEN atomic_keeps] keeps_throw [THEN atomic_keeps] keeps_reads [THEN atomic_keeps]
  keeps_ensure [THEN atomic_keeps] keeps_require [THEN atomic_keeps]
  keeps_lift_result [THEN atomic_keeps]

lemma always_atomic:
  assumes "atomic m" and "\<And>s t. runtime.more t = runtime.more s \<Longrightarrow> P s \<Longrightarrow> P t"
    and "\<And>s x t. P s \<Longrightarrow> m s = (Inr x, t) \<Longrightarrow> P t"
  shows "always P m"
proof (rule alwaysI)
  fix s r t assume P: "P s" and run: "m s = (r, t)"
  show "P t"
  proof (cases r)
    case (Inl e)
    then have "runtime.more t = runtime.more s" using run by (auto intro: atomicD [OF assms(1)])
    then show ?thesis using P by (rule assms(2))
  next
    case (Inr x)
    with run have "m s = (Inr x, t)" by simp
    with P show ?thesis by (rule assms(3))
  qed
qed

text \<open>
  The contract of a transaction body towards an invariant of the database: where the body
  returns, the invariant holds again. The transaction then maintains it in every case,
  because a body that throws leaves the database as it was.
\<close>

locale atomic_invariant =
  fixes P :: "'m runtime_scheme \<Rightarrow> bool"
    and body :: "'x \<Rightarrow> ('m runtime_scheme, 'a) prog"
  assumes database_only: "runtime.more t = runtime.more s \<Longrightarrow> P s \<Longrightarrow> P t"
    and body_maintains: "P s \<Longrightarrow> body x s = (Inr y, t) \<Longrightarrow> P t"
begin

lemma transaction_maintains:
  assumes "P s" and "transaction (body x) s = (r, t)"
  shows "P t"
proof (cases r)
  case (Inl e)
  with assms show ?thesis by (blast intro: database_only dest: transaction_rolls_back)
next
  case (Inr y)
  with assms show ?thesis by (auto intro: body_maintains)
qed

lemma always_transaction: "always P (transaction (body x))"
  by (auto intro: alwaysI transaction_maintains)

end

section \<open>Idempotent commands\<close>

text \<open>
  The contract of an operation with an idempotency key. \<open>lookup\<close> finds the stored outcome of
  the key; \<open>accepted\<close> are the checks the operation makes before it looks. Where the operation
  returns, the outcome is on record; where the outcome is on record, the operation answers
  from it (\<open>again\<close> marks the answer as a replay) and changes nothing.
\<close>

locale idempotent_command =
  fixes run :: "'x \<Rightarrow> ('s, 'a) prog"
    and lookup :: "'x \<Rightarrow> 's \<Rightarrow> 'a option"
    and accepted :: "'x \<Rightarrow> 's \<Rightarrow> bool"
    and again :: "'a \<Rightarrow> 'a"
  assumes recorded: "run x s = (Inr y, t) \<Longrightarrow> accepted x t \<and> lookup x t = Some (again y)"
    and replayed: "accepted x s \<Longrightarrow> lookup x s = Some y \<Longrightarrow> run x s = (Inr y, s)"
begin

lemma run_again: "run x s = (Inr y, t) \<Longrightarrow> run x t = (Inr (again y), t)"
  by (metis recorded replayed)

lemma run_many:
  assumes "run x s = (Inr y, t)"
  shows "((\<lambda>u. snd (run x u)) ^^ n) t = t"
  using run_again [OF assms] by (induction n) simp_all

end

section \<open>A fresh runtime\<close>

text \<open>
  The start of the concrete runs: identifiers are the numerals 0, 1, 2 and so on, and each
  reading of the clock is a millisecond later than the one before.
\<close>

definition fresh_runtime :: runtime where
  "fresh_runtime = \<lparr>uuid_source = show_base 10, uuids_drawn = 0, clock = int, clock_reads = 0,
     external_calls = []\<rparr>"

definition returned :: "'e + 'a \<Rightarrow> bool" where
  "returned r \<longleftrightarrow> (case r of Inl _ \<Rightarrow> False | Inr _ \<Rightarrow> True)"

definition answer :: "'e + 'a \<Rightarrow> 'a" where
  "answer r = (case r of Inr x \<Rightarrow> x)"

lemma returned_run: "returned (fst (m s)) \<Longrightarrow> m s = (Inr (answer (fst (m s))), snd (m s))"
  by (cases "m s") (auto simp: returned_def answer_def split: sum.splits)

end
