(* ===== verification/Store.thy ===== *)
theory Store
  imports Program
begin

text \<open>
  Tables. A table of \<open>packages/database/prisma/schema.prisma\<close> is a list of rows in the
  order they were created, which is the order of \<open>createdAt\<close>. Each operation of this
  theory is one query shape of the repositories: \<open>findFirst\<close> and \<open>findUnique\<close>
  (\<open>find_row\<close>), \<open>findMany\<close> (\<open>find_rows\<close>), \<open>count\<close>, \<open>create\<close> with the unique keys of the
  schema (\<open>create_row\<close>), \<open>update\<close> by a unique key (\<open>update_row\<close>), \<open>updateMany\<close> and a raw
  conditional \<open>UPDATE\<close> (\<open>update_many\<close>, which returns the number of rows), \<open>upsert\<close> and
  \<open>deleteMany\<close>.

  A table is given by its two record operations, the selector and the update of the
  state record. The locale \<open>row_store\<close> is the contract a component relies on when it
  reads a table back after a write; every component interprets it for its tables.
\<close>

fun update_first :: "('r \<Rightarrow> bool) \<Rightarrow> ('r \<Rightarrow> 'r) \<Rightarrow> 'r list \<Rightarrow> 'r list" where
  "update_first P f [] = []"
| "update_first P f (r # rs) = (if P r then f r # rs else r # update_first P f rs)"

definition update_where :: "('r \<Rightarrow> bool) \<Rightarrow> ('r \<Rightarrow> 'r) \<Rightarrow> 'r list \<Rightarrow> 'r list" where
  "update_where P f rs = map (\<lambda>r. if P r then f r else r) rs"

type_synonym ('s, 'r) modifier = "('r list \<Rightarrow> 'r list) \<Rightarrow> 's \<Rightarrow> 's"

definition find_row :: "('s \<Rightarrow> 'r list) \<Rightarrow> ('r \<Rightarrow> bool) \<Rightarrow> ('s, 'r option) prog" where
  "find_row rows P = reads (\<lambda>s. List.find P (rows s))"

definition find_rows :: "('s \<Rightarrow> 'r list) \<Rightarrow> ('r \<Rightarrow> bool) \<Rightarrow> ('s, 'r list) prog" where
  "find_rows rows P = reads (\<lambda>s. filter P (rows s))"

definition count_rows :: "('s \<Rightarrow> 'r list) \<Rightarrow> ('r \<Rightarrow> bool) \<Rightarrow> ('s, nat) prog" where
  "count_rows rows P = reads (\<lambda>s. length (filter P (rows s)))"

definition create_row ::
  "('s \<Rightarrow> 'r list) \<Rightarrow> ('s, 'r) modifier \<Rightarrow> ('r \<Rightarrow> 'r \<Rightarrow> bool) \<Rightarrow> 'r \<Rightarrow> ('s, 'r) prog" where
  "create_row rows modify clash r = (\<lambda>s.
     if list_ex (clash r) (rows s) then (Inl UniqueViolation, s)
     else (Inr r, modify (\<lambda>rs. rs @ [r]) s))"

definition update_row ::
  "('s \<Rightarrow> 'r list) \<Rightarrow> ('s, 'r) modifier \<Rightarrow> ('r \<Rightarrow> bool) \<Rightarrow> ('r \<Rightarrow> 'r) \<Rightarrow> ('s, 'r) prog" where
  "update_row rows modify P f = (\<lambda>s. case List.find P (rows s) of
       None \<Rightarrow> (Inl RecordMissing, s)
     | Some r \<Rightarrow> (Inr (f r), modify (update_first P f) s))"

definition update_many ::
  "('s \<Rightarrow> 'r list) \<Rightarrow> ('s, 'r) modifier \<Rightarrow> ('r \<Rightarrow> bool) \<Rightarrow> ('r \<Rightarrow> 'r) \<Rightarrow> ('s, nat) prog" where
  "update_many rows modify P f = (\<lambda>s.
     (Inr (length (filter P (rows s))), modify (update_where P f) s))"

definition upsert_row ::
  "('s \<Rightarrow> 'r list) \<Rightarrow> ('s, 'r) modifier \<Rightarrow> ('r \<Rightarrow> 'r \<Rightarrow> bool) \<Rightarrow> ('r \<Rightarrow> bool) \<Rightarrow> ('r \<Rightarrow> 'r) \<Rightarrow> 'r
     \<Rightarrow> ('s, 'r) prog" where
  "upsert_row rows modify clash P f r = (\<lambda>s. case List.find P (rows s) of
       None \<Rightarrow> create_row rows modify clash r s
     | Some x \<Rightarrow> (Inr (f x), modify (update_first P f) s))"

text \<open>
  An \<open>updateMany\<close> that writes a column of a unique key: the database refuses it when two rows of
  the new table clash.
\<close>

fun clash_free :: "('r \<Rightarrow> 'r \<Rightarrow> bool) \<Rightarrow> 'r list \<Rightarrow> bool" where
  "clash_free clash [] \<longleftrightarrow> True"
| "clash_free clash (r # rs) \<longleftrightarrow> \<not> list_ex (clash r) rs \<and> clash_free clash rs"

definition update_unique ::
  "('s \<Rightarrow> 'r list) \<Rightarrow> ('s, 'r) modifier \<Rightarrow> ('r \<Rightarrow> 'r \<Rightarrow> bool) \<Rightarrow> ('r \<Rightarrow> bool) \<Rightarrow> ('r \<Rightarrow> 'r) \<Rightarrow> ('s, nat) prog" where
  "update_unique rows modify clash P f = (\<lambda>s.
     if clash_free clash (update_where P f (rows s)) then update_many rows modify P f s
     else (Inl UniqueViolation, s))"

definition delete_many ::
  "('s \<Rightarrow> 'r list) \<Rightarrow> ('s, 'r) modifier \<Rightarrow> ('r \<Rightarrow> bool) \<Rightarrow> ('s, nat) prog" where
  "delete_many rows modify P = (\<lambda>s.
     (Inr (length (filter P (rows s))), modify (filter (\<lambda>r. \<not> P r)) s))"

section \<open>Inversion of each query\<close>

lemma find_row_Inr [simp]: "find_row rows P s = (Inr x, t) \<longleftrightarrow> x = List.find P (rows s) \<and> t = s"
  by (auto simp: find_row_def)

lemma find_row_Inl [simp]: "find_row rows P s \<noteq> (Inl e, t)"
  by (simp add: find_row_def)

lemma find_rows_Inr [simp]: "find_rows rows P s = (Inr x, t) \<longleftrightarrow> x = filter P (rows s) \<and> t = s"
  by (auto simp: find_rows_def)

lemma count_rows_Inr [simp]:
  "count_rows rows P s = (Inr x, t) \<longleftrightarrow> x = length (filter P (rows s)) \<and> t = s"
  by (auto simp: count_rows_def)

lemma create_row_Inr [simp]:
  "create_row rows modify clash r s = (Inr x, t) \<longleftrightarrow>
     (\<forall>y\<in>set (rows s). \<not> clash r y) \<and> x = r \<and> t = modify (\<lambda>rs. rs @ [r]) s"
  by (auto simp: create_row_def list_ex_iff)

lemma create_row_Inl [simp]:
  "create_row rows modify clash r s = (Inl e, t) \<longleftrightarrow>
     (\<exists>y\<in>set (rows s). clash r y) \<and> e = UniqueViolation \<and> t = s"
  by (auto simp: create_row_def list_ex_iff)

lemma update_row_Inr [simp]:
  "update_row rows modify P f s = (Inr x, t) \<longleftrightarrow>
     (\<exists>r. List.find P (rows s) = Some r \<and> x = f r) \<and> t = modify (update_first P f) s"
  by (auto simp: update_row_def split: option.splits)

lemma update_many_Inr [simp]:
  "update_many rows modify P f s = (Inr n, t) \<longleftrightarrow>
     n = length (filter P (rows s)) \<and> t = modify (update_where P f) s"
  by (auto simp: update_many_def)

lemma update_unique_Inr [simp]:
  "update_unique rows modify clash P f s = (Inr n, t) \<longleftrightarrow>
     clash_free clash (update_where P f (rows s)) \<and> n = length (filter P (rows s)) \<and> t = modify (update_where P f) s"
  by (auto simp: update_unique_def)

lemma upsert_row_Inr:
  "upsert_row rows modify clash P f r s = (Inr x, t) \<longleftrightarrow>
     (case List.find P (rows s) of
        None \<Rightarrow> (\<forall>y\<in>set (rows s). \<not> clash r y) \<and> x = r \<and> t = modify (\<lambda>rs. rs @ [r]) s
      | Some y \<Rightarrow> x = f y \<and> t = modify (update_first P f) s)"
  by (auto simp: upsert_row_def create_row_def list_ex_iff split: option.splits)

lemma delete_many_Inr [simp]:
  "delete_many rows modify P s = (Inr n, t) \<longleftrightarrow>
     n = length (filter P (rows s)) \<and> t = modify (filter (\<lambda>r. \<not> P r)) s"
  by (auto simp: delete_many_def)

section \<open>Queries keep every view their table is not part of\<close>

lemma keeps_find_row [keeps_intros]: "keeps v (find_row rows P)"
  by (simp add: find_row_def keeps_reads)

lemma keeps_find_rows [keeps_intros]: "keeps v (find_rows rows P)"
  by (simp add: find_rows_def keeps_reads)

lemma keeps_count_rows [keeps_intros]: "keeps v (count_rows rows P)"
  by (simp add: count_rows_def keeps_reads)

lemma keeps_create_row [keeps_intros]:
  "(\<And>f s. v (modify f s) = v s) \<Longrightarrow> keeps v (create_row rows modify clash r)"
  by (simp add: keeps_def create_row_def)

lemma keeps_update_row [keeps_intros]:
  "(\<And>f s. v (modify f s) = v s) \<Longrightarrow> keeps v (update_row rows modify P f)"
  by (simp add: keeps_def update_row_def split: option.splits)

lemma keeps_update_many [keeps_intros]:
  "(\<And>f s. v (modify f s) = v s) \<Longrightarrow> keeps v (update_many rows modify P f)"
  by (simp add: keeps_def update_many_def)

lemma keeps_upsert_row [keeps_intros]:
  "(\<And>f s. v (modify f s) = v s) \<Longrightarrow> keeps v (upsert_row rows modify clash P f r)"
  by (simp add: keeps_def upsert_row_def create_row_def split: option.splits)

lemma keeps_update_unique [keeps_intros]:
  "(\<And>f s. v (modify f s) = v s) \<Longrightarrow> keeps v (update_unique rows modify clash P f)"
  by (simp add: keeps_def update_unique_def update_many_def)

lemma keeps_delete_many [keeps_intros]:
  "(\<And>f s. v (modify f s) = v s) \<Longrightarrow> keeps v (delete_many rows modify P)"
  by (simp add: keeps_def delete_many_def)

lemma keeps_random_uuid [keeps_intros]:
  "(\<And>f s. v (uuids_drawn_update f s) = v s) \<Longrightarrow> keeps v random_uuid"
  by (simp add: keeps_def random_uuid_def)

lemma keeps_now [keeps_intros]: "(\<And>f s. v (clock_reads_update f s) = v s) \<Longrightarrow> keeps v now"
  by (simp add: keeps_def now_def)

lemma keeps_send [keeps_intros]: "(\<And>f s. v (external_calls_update f s) = v s) \<Longrightarrow> keeps v (send c)"
  by (simp add: keeps_def send_def)

text \<open>A query that throws has changed nothing.\<close>

lemma atomic_create_row [atomic_intros]: "atomic (create_row rows modify clash r)"
  by (auto simp: atomic_def)

lemma atomic_update_row [atomic_intros]: "atomic (update_row rows modify P f)"
  by (auto simp: atomic_def update_row_def split: option.splits)

lemma atomic_update_many [atomic_intros]: "atomic (update_many rows modify P f)"
  by (auto simp: atomic_def update_many_def)

lemma atomic_update_unique [atomic_intros]: "atomic (update_unique rows modify clash P f)"
  by (auto simp: atomic_def update_unique_def update_many_def split: if_splits)

lemma atomic_upsert_row [atomic_intros]: "atomic (upsert_row rows modify clash P f r)"
  by (auto simp: atomic_def upsert_row_def create_row_def split: option.splits if_splits)

section \<open>Lists of rows\<close>

lemma length_update_first [simp]: "length (update_first P f rs) = length rs"
  by (induction rs) auto

lemma length_update_where [simp]: "length (update_where P f rs) = length rs"
  by (simp add: update_where_def)

lemma set_update_first: "set (update_first P f rs) \<subseteq> set rs \<union> f ` {r \<in> set rs. P r}"
  by (induction rs) auto

lemma map_update_first:
  "(\<And>r. g (f r) = g r) \<Longrightarrow> map g (update_first P f rs) = map g rs"
  by (induction rs) auto

lemma map_update_where:
  "(\<And>r. g (f r) = g r) \<Longrightarrow> map g (update_where P f rs) = map g rs"
  by (simp add: update_where_def)

lemma sum_update_first:
  assumes "List.find P rs = Some r"
  shows "(sum_list (map w (update_first P f rs)) :: int) = sum_list (map w rs) + (w (f r) - w r)"
  using assms by (induction rs) (auto split: if_splits)

lemma sum_update_where:
  "(sum_list (map w (update_where P f rs)) :: int) =
     sum_list (map w rs) + sum_list (map (\<lambda>r. w (f r) - w r) (filter P rs))"
  by (induction rs) (auto simp: update_where_def)

lemma find_update_first:
  assumes "List.find P rs = Some r" and "P (f r)"
  shows "List.find P (update_first P f rs) = Some (f r)"
  using assms by (induction rs) (auto split: if_splits)

lemma find_update_first_other:
  assumes "\<And>r. P r \<Longrightarrow> \<not> Q r" and "\<And>r. P r \<Longrightarrow> \<not> Q (f r)"
  shows "List.find Q (update_first P f rs) = List.find Q rs"
  using assms by (induction rs) auto

lemma find_update_where_other:
  assumes "\<And>r. P r \<Longrightarrow> \<not> Q r" and "\<And>r. P r \<Longrightarrow> \<not> Q (f r)"
  shows "List.find Q (update_where P f rs) = List.find Q rs"
  using assms by (induction rs) (auto simp: update_where_def)

lemma filter_update_first_other:
  assumes "\<And>r. P r \<Longrightarrow> \<not> Q r" and "\<And>r. P r \<Longrightarrow> \<not> Q (f r)"
  shows "filter Q (update_first P f rs) = filter Q rs"
  using assms by (induction rs) auto

lemma in_update_first: "x \<in> set rs \<Longrightarrow> \<not> P x \<Longrightarrow> x \<in> set (update_first P f rs)"
  by (induction rs) auto

lemma in_update_first_hit:
  assumes "x \<in> set rs" and "P x" and "\<And>y. y \<in> set rs \<Longrightarrow> P y \<Longrightarrow> y = x"
  shows "f x \<in> set (update_first P f rs)"
  using assms
proof (induction rs)
  case Nil
  then show ?case by simp
next
  case (Cons a rs)
  show ?case
  proof (cases "P a")
    case True
    with Cons.prems(3) have "a = x" by simp
    with Cons.prems(2) show ?thesis by simp
  next
    case False
    with Cons.prems(1,2) have "x \<in> set rs" by auto
    moreover have "y = x" if "y \<in> set rs" "P y" for y
      using that by (intro Cons.prems(3)) simp_all
    ultimately have "f x \<in> set (update_first P f rs)" using Cons.IH Cons.prems(2) by blast
    with False show ?thesis by simp
  qed
qed

lemma distinct_mapD: "distinct (map f xs) \<Longrightarrow> x \<in> set xs \<Longrightarrow> y \<in> set xs \<Longrightarrow> f x = f y \<Longrightarrow> x = y"
  by (simp add: distinct_map inj_on_def)

lemma update_where_none: "\<forall>r\<in>set rs. \<not> P r \<Longrightarrow> update_where P f rs = rs"
  by (simp add: update_where_def map_idI)

lemma filter_length_1D: "length (filter P rs) = 1 \<Longrightarrow> \<exists>r. filter P rs = [r] \<and> r \<in> set rs \<and> P r"
proof -
  assume "length (filter P rs) = 1"
  then obtain r where r: "filter P rs = [r]" by (auto simp: length_Suc_conv)
  then have "r \<in> set (filter P rs)" by simp
  then have "r \<in> set rs \<and> P r" by (simp only: set_filter mem_Collect_eq)
  with r show ?thesis by blast
qed

lemma distinct_found: "distinct (map f xs) \<Longrightarrow> x \<in> set xs \<Longrightarrow> List.find (\<lambda>y. f y = f x) xs = Some x"
proof (induction xs)
  case (Cons a xs)
  then show ?case by (cases "f a = f x") (auto dest: distinct_mapD)
qed simp

lemma update_first_map:
  "distinct (map key xs) \<Longrightarrow> update_first (\<lambda>x. key x = i) f xs = map (\<lambda>x. if key x = i then f x else x) xs"
proof (induction xs)
  case (Cons a xs)
  show ?case
  proof (cases "key a = i")
    case True
    with Cons.prems have "\<forall>x\<in>set xs. key x \<noteq> i" by (metis distinct.simps(2) image_eqI list.map(2) list.set_map)
    then have "map (\<lambda>x. if key x = i then f x else x) xs = xs" by (simp add: map_idI)
    with True show ?thesis by simp
  qed (use Cons in simp)
qed simp

section \<open>The contract of a table\<close>

locale row_store =
  fixes rows :: "'s \<Rightarrow> 'r list"
    and modify :: "('r list \<Rightarrow> 'r list) \<Rightarrow> 's \<Rightarrow> 's"
  assumes rows_modify: "rows (modify f s) = f (rows s)"
    and modify_id: "modify (\<lambda>rs. rs) s = s"
begin

lemma created_row_is_found:
  assumes "create_row rows modify clash r s = (Inr x, t)" and "P r" and "\<And>y. y \<in> set (rows s) \<Longrightarrow> \<not> P y"
  shows "List.find P (rows t) = Some r"
proof -
  from assms(3) have "List.find P (rows s) = None" by (simp add: find_None_iff')
  with assms(1,2) show ?thesis by (auto simp: rows_modify find_append)
qed

lemma created_row_is_last:
  assumes "create_row rows modify clash r s = (Inr x, t)"
  shows "rows t = rows s @ [r]"
  using assms by (auto simp: rows_modify)

lemma updated_row_is_found:
  assumes "update_row rows modify P f s = (Inr x, t)" and "\<And>r. P r \<Longrightarrow> P (f r)"
  shows "List.find P (rows t) = Some x"
proof -
  from assms(1) obtain r where r: "List.find P (rows s) = Some r" "x = f r"
    and t: "t = modify (update_first P f) s" by auto
  from r(1) assms(2) have "P (f r)" by (blast dest: find_SomeD)
  with r show ?thesis by (simp add: t rows_modify find_update_first)
qed

lemma update_none_is_identity:
  assumes "update_many rows modify P f s = (Inr 0, t)"
  shows "rows t = rows s"
  using assms by (auto simp: rows_modify update_where_none filter_empty_conv)

lemma upserted_row_is_found:
  assumes "upsert_row rows modify clash P f r s = (Inr x, t)" and "\<And>r. P r \<Longrightarrow> P (f r)" and "P r"
  shows "List.find P (rows t) = Some x"
proof (cases "List.find P (rows s)")
  case None
  with assms(1,3) show ?thesis by (simp add: upsert_row_Inr rows_modify find_append)
next
  case (Some y)
  with assms(2) have "P (f y)" by (blast dest: find_SomeD)
  with Some assms(1) show ?thesis by (simp add: upsert_row_Inr rows_modify find_update_first)
qed

end

end
