(* ===== verification/Events.thy ===== *)
theory Events
  imports Store
begin

text \<open>
  The two append-only tables every module writes: \<open>AuditEvent\<close> and \<open>OutboxEvent\<close> of
  \<open>packages/database/prisma/schema.prisma\<close>. Columns the program neither reads nor sets
  (\<open>createdAt\<close>, \<open>updatedAt\<close>) are left out; rows stay in creation order.
\<close>

datatype outbox_status = OB_PENDING | OB_PROCESSING | OB_PUBLISHED | OB_FAILED

record audit_event =
  au_id :: uuid
  au_tenantId :: uuid
  au_actorId :: "uuid option"
  au_actorType :: string
  au_action :: string
  au_entityType :: string
  au_entityId :: uuid
  au_reason :: "string option"
  au_requestId :: uuid
  au_correlationId :: uuid
  au_metadata :: "json option"
  au_authenticationMethod :: "string option"

record outbox_event =
  ob_id :: uuid
  ob_tenantId :: uuid
  ob_type :: string
  ob_eventVersion :: int
  ob_subject :: string
  ob_payload :: json
  ob_correlationId :: uuid
  ob_causationId :: "uuid option"
  ob_status :: outbox_status
  ob_attempts :: int
  ob_availableAt :: instant
  ob_publishedAt :: "instant option"
  ob_lastErrorCode :: "string option"

record events_db = runtime +
  audits :: "audit_event list"
  outbox :: "outbox_event list"

definition same_audit :: "audit_event \<Rightarrow> audit_event \<Rightarrow> bool" where
  "same_audit a b \<longleftrightarrow> au_id a = au_id b"

definition same_outbox :: "outbox_event \<Rightarrow> outbox_event \<Rightarrow> bool" where
  "same_outbox a b \<longleftrightarrow> ob_id a = ob_id b"

text \<open>
  \<open>auditEvent.create\<close>: the modules differ in the reason, the metadata and the
  authentication method they record; request and correlation id are both the context's.
\<close>

definition audit_as ::
  "tenant_context \<Rightarrow> auth_principal \<Rightarrow> string \<Rightarrow> string \<Rightarrow> uuid \<Rightarrow> string option \<Rightarrow> json option
     \<Rightarrow> string option \<Rightarrow> ('m events_db_scheme, audit_event) prog"
where
  "audit_as ctx pr action entityType entityId reason metadata method =
     seq random_uuid (\<lambda>i.
     create_row audits audits_update same_audit
       \<lparr>au_id = i, au_tenantId = ctx_tenantId ctx, au_actorId = Some (pr_userId pr),
        au_actorType = ''USER'', au_action = action, au_entityType = entityType,
        au_entityId = entityId, au_reason = reason, au_requestId = ctx_correlationId ctx,
        au_correlationId = ctx_correlationId ctx, au_metadata = metadata,
        au_authenticationMethod = method\<rparr>)"

text \<open>
  \<open>outboxEvent.create\<close> with the defaults of the schema: version 1, status \<open>PENDING\<close>, no
  attempts, available from the time of the insert.
\<close>

definition publish ::
  "uuid \<Rightarrow> string \<Rightarrow> string \<Rightarrow> json \<Rightarrow> uuid \<Rightarrow> ('m events_db_scheme, outbox_event) prog"
where
  "publish tenant type subject payload correlation =
     seq random_uuid (\<lambda>i.
     seq now (\<lambda>created.
     create_row outbox outbox_update same_outbox
       \<lparr>ob_id = i, ob_tenantId = tenant, ob_type = type, ob_eventVersion = 1,
        ob_subject = subject, ob_payload = payload, ob_correlationId = correlation,
        ob_causationId = None, ob_status = OB_PENDING, ob_attempts = 0, ob_availableAt = created,
        ob_publishedAt = None, ob_lastErrorCode = None\<rparr>))"

interpretation audits: row_store audits audits_update
  by unfold_locales simp_all

interpretation outbox: row_store outbox outbox_update
  by unfold_locales simp_all

lemma keeps_audit_as [keeps_intros]:
  "(\<And>f s. v (uuids_drawn_update f s) = v s) \<Longrightarrow> (\<And>f s. v (audits_update f s) = v s) \<Longrightarrow>
   keeps v (audit_as ctx pr action entityType entityId reason metadata method)"
  unfolding audit_as_def by (intro keeps_intros)

lemma keeps_publish [keeps_intros]:
  "(\<And>f s. v (uuids_drawn_update f s) = v s) \<Longrightarrow> (\<And>f s. v (clock_reads_update f s) = v s) \<Longrightarrow>
   (\<And>f s. v (outbox_update f s) = v s) \<Longrightarrow>
   keeps v (publish tenant type subject payload correlation)"
  unfolding publish_def by (intro keeps_intros)

lemma publish_appends:
  assumes "publish tenant type subject payload correlation s = (Inr e, t)"
  shows "outbox t = outbox s @ [e] \<and> ob_tenantId e = tenant \<and> ob_type e = type
    \<and> ob_subject e = subject \<and> ob_payload e = payload \<and> ob_status e = OB_PENDING"
  using assms by (auto simp: publish_def)

definition fresh_events :: events_db where
  "fresh_events = runtime.extend fresh_runtime (events_db.fields [] [])"

end
