(* ===== verification/Catalog.thy ===== *)
theory Catalog
  imports Events
begin

text \<open>
  \<open>apps/api/src/catalog\<close>: stores, partners, products with their variants, and the offers
  a store sells. The offer is the unit a cart line points at; its \<open>version\<close> and price are
  what the checkout compares against.
\<close>

section \<open>Rows\<close>

datatype store_status = ST_DRAFT | ST_ACTIVE | ST_SUSPENDED
datatype partner_status = PS_ACTIVE | PS_SUSPENDED
datatype catalog_status = CS_DRAFT | CS_ACTIVE | CS_ARCHIVED
datatype offer_status = OS_DRAFT | OS_ACTIVE | OS_SUSPENDED

record store =
  st_id :: uuid
  st_tenantId :: uuid
  st_key :: string
  st_name :: string
  st_status :: store_status
  st_defaultCurrency :: string
  st_version :: int
  st_deletedAt :: "instant option"

record partner =
  pt_id :: uuid
  pt_tenantId :: uuid
  pt_key :: string
  pt_name :: string
  pt_status :: partner_status

record product =
  pd_id :: uuid
  pd_tenantId :: uuid
  pd_storeId :: uuid
  pd_supplierId :: uuid
  pd_slug :: string
  pd_title :: string
  pd_status :: catalog_status
  pd_version :: int
  pd_deletedAt :: "instant option"

record product_variant =
  pv_id :: uuid
  pv_tenantId :: uuid
  pv_productId :: uuid
  pv_sku :: string
  pv_title :: string
  pv_status :: catalog_status
  pv_version :: int
  pv_deletedAt :: "instant option"

record offer =
  of_id :: uuid
  of_tenantId :: uuid
  of_storeId :: uuid
  of_variantId :: uuid
  of_sellerId :: uuid
  of_supplierId :: uuid
  of_currency :: string
  of_priceMinor :: int
  of_compareAtMinor :: "int option"
  of_minimumQuantity :: int
  of_status :: offer_status
  of_availableFrom :: "instant option"
  of_availableTo :: "instant option"
  of_version :: int

record catalog_db = events_db +
  stores :: "store list"
  sellers :: "partner list"
  suppliers :: "partner list"
  products :: "product list"
  variants :: "product_variant list"
  offers :: "offer list"

text \<open>\<open>@@unique([tenantId, storeId, variantId, sellerId])\<close> and the primary key.\<close>

definition same_offer :: "offer \<Rightarrow> offer \<Rightarrow> bool" where
  "same_offer a b \<longleftrightarrow> of_id a = of_id b
     \<or> of_tenantId a = of_tenantId b \<and> of_storeId a = of_storeId b
       \<and> of_variantId a = of_variantId b \<and> of_sellerId a = of_sellerId b"

text \<open>The product a variant belongs to: the relation \<open>product\<close> of \<open>ProductVariant\<close>.\<close>

definition product_of :: "'m catalog_db_scheme \<Rightarrow> product_variant \<Rightarrow> product option" where
  "product_of s v = List.find (\<lambda>p. pd_id p = pv_productId v) (products s)"

definition variant_of :: "'m catalog_db_scheme \<Rightarrow> uuid \<Rightarrow> product_variant option" where
  "variant_of s i = List.find (\<lambda>v. pv_id v = i) (variants s)"

definition store_of :: "'m catalog_db_scheme \<Rightarrow> uuid \<Rightarrow> store option" where
  "store_of s i = List.find (\<lambda>x. st_id x = i) (stores s)"

section \<open>Offers\<close>

definition catalog_audit ::
  "tenant_context \<Rightarrow> auth_principal \<Rightarrow> string \<Rightarrow> string \<Rightarrow> uuid \<Rightarrow> ('m events_db_scheme, audit_event) prog"
where
  "catalog_audit ctx pr action entityType entityId =
     audit_as ctx pr action entityType entityId None None (Some ''BEARER'')"

record create_offer_dto =
  co_storeId :: uuid
  co_variantId :: uuid
  co_sellerId :: uuid
  co_supplierId :: uuid
  co_currency :: string
  co_priceMinor :: int
  co_compareAtMinor :: "int option"
  co_minimumQuantity :: "int option"

text \<open>
  \<open>CatalogRepository.createOffer\<close>. The four lookups run before any of them is tested, as
  \<open>Promise.all\<close> does; a unique violation of the insert or of the audit row becomes a
  conflict, as in \<open>rethrowUnique\<close>. The view \<open>this.offer\<close> converts the two prices.
\<close>

definition offer_view :: "offer \<Rightarrow> ('s, offer) prog" where
  "offer_view f =
     seq (lift_result (safe_integer_number (of_priceMinor f) ''Offer price'')) (\<lambda>_.
     seq (lift_result (case of_compareAtMinor f of None \<Rightarrow> Inr 0
            | Some c \<Rightarrow> safe_integer_number c ''Offer comparison price'')) (\<lambda>_.
     ret f))"

definition create_offer ::
  "tenant_context \<Rightarrow> auth_principal \<Rightarrow> create_offer_dto \<Rightarrow> ('m catalog_db_scheme, offer) prog"
where
  "create_offer ctx pr dto =
     seq (find_row stores (\<lambda>x. st_id x = co_storeId dto \<and> st_tenantId x = ctx_tenantId ctx
            \<and> st_deletedAt x = None)) (\<lambda>sto.
     seq (reads (\<lambda>s. List.find (\<lambda>v. pv_id v = co_variantId dto \<and> pv_tenantId v = ctx_tenantId ctx
            \<and> pv_deletedAt v = None
            \<and> (case product_of s v of None \<Rightarrow> False
               | Some p \<Rightarrow> pd_storeId p = co_storeId dto \<and> pd_supplierId p = co_supplierId dto))
            (variants s))) (\<lambda>var.
     seq (find_row sellers (\<lambda>x. pt_id x = co_sellerId dto \<and> pt_tenantId x = ctx_tenantId ctx
            \<and> pt_status x = PS_ACTIVE)) (\<lambda>sel.
     seq (find_row suppliers (\<lambda>x. pt_id x = co_supplierId dto \<and> pt_tenantId x = ctx_tenantId ctx
            \<and> pt_status x = PS_ACTIVE)) (\<lambda>sup.
     seq (ensure (sto \<noteq> None \<and> var \<noteq> None \<and> sel \<noteq> None \<and> sup \<noteq> None)
            (NotFound ''Resource not found'')) (\<lambda>_.
     catch
       (seq random_uuid (\<lambda>i.
        seq (create_row offers offers_update same_offer
          \<lparr>of_id = i, of_tenantId = ctx_tenantId ctx, of_storeId = co_storeId dto,
           of_variantId = co_variantId dto, of_sellerId = co_sellerId dto,
           of_supplierId = co_supplierId dto, of_currency = co_currency dto,
           of_priceMinor = co_priceMinor dto, of_compareAtMinor = co_compareAtMinor dto,
           of_minimumQuantity = (case co_minimumQuantity dto of None \<Rightarrow> 1 | Some q \<Rightarrow> q),
           of_status = OS_DRAFT, of_availableFrom = None, of_availableTo = None,
           of_version = 1\<rparr>) (\<lambda>created.
        seq (catalog_audit ctx pr ''offer.created'' ''OFFER'' (of_id created)) (\<lambda>_.
        offer_view created))))
       (\<lambda>e. throw (if e = UniqueViolation
                   then Conflict ''An offer already exists for this seller and variant'' else e)))))))"

text \<open>\<open>CatalogRepository.publishOffer\<close>.\<close>

definition publish_offer ::
  "tenant_context \<Rightarrow> auth_principal \<Rightarrow> uuid \<Rightarrow> ('m catalog_db_scheme, offer) prog"
where
  "publish_offer ctx pr offerId = transaction (
     seq (reads (\<lambda>s. List.find (\<lambda>f. of_id f = offerId \<and> of_tenantId f = ctx_tenantId ctx
            \<and> of_status f \<in> {OS_DRAFT, OS_SUSPENDED}
            \<and> (case store_of s (of_storeId f) of None \<Rightarrow> False
               | Some x \<Rightarrow> st_status x = ST_ACTIVE \<and> st_deletedAt x = None)
            \<and> (case variant_of s (of_variantId f) of None \<Rightarrow> False
               | Some v \<Rightarrow> pv_status v = CS_ACTIVE \<and> pv_deletedAt v = None
                   \<and> (case product_of s v of None \<Rightarrow> False | Some p \<Rightarrow> pd_status p = CS_ACTIVE)))
            (offers s))) (\<lambda>found.
     seq (require found (NotFound ''Resource not found'')) (\<lambda>f.
     seq (update_row offers offers_update (\<lambda>x. of_id x = of_id f)
            (\<lambda>x. x\<lparr>of_status := OS_ACTIVE, of_version := of_version x + 1\<rparr>)) (\<lambda>published.
     seq (catalog_audit ctx pr ''offer.published'' ''OFFER'' (of_id f)) (\<lambda>_.
     seq (publish (ctx_tenantId ctx) ''catalog.offer.published.v1'' (''offer/'' @ of_id f)
            (JObj [(''offerId'', JStr (of_id f)), (''storeId'', JStr (of_storeId f)),
                   (''variantId'', JStr (of_variantId f))]) (ctx_correlationId ctx)) (\<lambda>_.
     offer_view published))))))"

interpretation offers: row_store offers offers_update
  by unfold_locales simp_all

interpretation variants: row_store variants variants_update
  by unfold_locales simp_all

definition fresh_catalog :: catalog_db where
  "fresh_catalog = events_db.extend fresh_events (catalog_db.fields [] [] [] [] [] [])"

definition some_context :: tenant_context where
  "some_context = \<lparr>ctx_tenantId = ''tenant'', ctx_actorId = Some ''user'', ctx_correlationId = ''corr''\<rparr>"

definition some_principal :: auth_principal where
  "some_principal = \<lparr>pr_userId = ''user'', pr_tenantId = ''tenant'', pr_sessionId = ''session'',
     pr_roles = [], pr_permissions = []\<rparr>"

end
