(* ===== verification/Inventory.thy ===== *)
theory Inventory
  imports Catalog
begin

text \<open>
  Stock: items, balances per state, the append-only stock ledger, reservations and feeds.

  Every module moves stock the same way: a conditional \<open>UPDATE\<close> that takes a quantity
  from one balance, an \<open>upsert\<close> that adds it to another, and ledger entries for both.
  The operations here are \<open>CommerceRepository.inventoryFeed\<close>, \<open>inventory\<close> and
  \<open>inventoryReconciliation\<close> (\<open>apps/api/src/commerce/commerce.repository.ts\<close>) and
  \<open>ReservationExpirySweeper.releaseBatch\<close> (\<open>apps/worker/src/worker.services.ts\<close>).

  The invariant of the component is what \<open>docs/architecture/adr/0006-ledgers.md\<close> asks for:
  each balance equals the sum of its ledger entries (\<open>reconciled\<close>), and no balance is
  negative (\<open>stock_nonnegative\<close>).
\<close>

section \<open>Rows\<close>

datatype inventory_state =
    EXPECTED | INBOUND | RECEIVING | ON_HAND | RESERVED | ALLOCATED | PICKED | PACKED | SHIPPED
  | IN_TRANSIT | RETURN_EXPECTED | RETURNED | INSPECTION_PENDING | QUARANTINED | DAMAGED
  | EXPIRED | RECALLED | LOST | VIRTUAL | BACKORDERED

record inventory_item =
  ii_id :: uuid
  ii_tenantId :: uuid
  ii_sku :: string
  ii_facilityId :: uuid
  ii_productRef :: uuid
  ii_allowNegative :: bool
  ii_version :: int

record inventory_balance =
  ib_id :: uuid
  ib_tenantId :: uuid
  ib_inventoryItemId :: uuid
  ib_state :: inventory_state
  ib_quantity :: int
  ib_version :: int

record stock_ledger_entry =
  le_id :: uuid
  le_tenantId :: uuid
  le_inventoryItemId :: uuid
  le_state :: inventory_state
  le_quantityDelta :: int
  le_operation :: string
  le_reasonCode :: string
  le_sourceType :: string
  le_sourceId :: uuid
  le_idempotencyKey :: string
  le_correlationId :: uuid
  le_actorId :: "uuid option"

record inventory_reservation =
  ir_id :: uuid
  ir_tenantId :: uuid
  ir_inventoryItemId :: uuid
  ir_demandType :: string
  ir_demandId :: uuid
  ir_quantity :: int
  ir_expiresAt :: instant
  ir_releasedAt :: "instant option"
  ir_allocatedAt :: "instant option"

record inventory_feed_row =
  fe_id :: uuid
  fe_tenantId :: uuid
  fe_inventoryItemId :: uuid
  fe_source :: string
  fe_externalKey :: string
  fe_quantity :: int

record inventory_db = catalog_db +
  items :: "inventory_item list"
  balances :: "inventory_balance list"
  ledger :: "stock_ledger_entry list"
  reservations :: "inventory_reservation list"
  feeds :: "inventory_feed_row list"

section \<open>Unique keys\<close>

definition same_item :: "inventory_item \<Rightarrow> inventory_item \<Rightarrow> bool" where
  "same_item a b \<longleftrightarrow> ii_id a = ii_id b
     \<or> ii_tenantId a = ii_tenantId b \<and> ii_facilityId a = ii_facilityId b \<and> ii_sku a = ii_sku b"

definition balance_key :: "uuid \<Rightarrow> uuid \<Rightarrow> inventory_state \<Rightarrow> inventory_balance \<Rightarrow> bool" where
  "balance_key tenant item st b \<longleftrightarrow>
     ib_tenantId b = tenant \<and> ib_inventoryItemId b = item \<and> ib_state b = st"

definition same_balance :: "inventory_balance \<Rightarrow> inventory_balance \<Rightarrow> bool" where
  "same_balance a b \<longleftrightarrow> ib_id a = ib_id b
     \<or> balance_key (ib_tenantId a) (ib_inventoryItemId a) (ib_state a) b"

definition same_entry :: "stock_ledger_entry \<Rightarrow> stock_ledger_entry \<Rightarrow> bool" where
  "same_entry a b \<longleftrightarrow> le_id a = le_id b
     \<or> le_tenantId a = le_tenantId b \<and> le_idempotencyKey a = le_idempotencyKey b"

definition same_reservation :: "inventory_reservation \<Rightarrow> inventory_reservation \<Rightarrow> bool" where
  "same_reservation a b \<longleftrightarrow> ir_id a = ir_id b"

definition same_feed :: "inventory_feed_row \<Rightarrow> inventory_feed_row \<Rightarrow> bool" where
  "same_feed a b \<longleftrightarrow> fe_id a = fe_id b
     \<or> fe_tenantId a = fe_tenantId b \<and> fe_source a = fe_source b
       \<and> fe_externalKey a = fe_externalKey b"

interpretation items: row_store items items_update
  by unfold_locales simp_all

interpretation balances: row_store balances balances_update
  by unfold_locales simp_all

interpretation ledger: row_store ledger ledger_update
  by unfold_locales simp_all

interpretation reservations: row_store reservations reservations_update
  by unfold_locales simp_all

interpretation feeds: row_store feeds feeds_update
  by unfold_locales simp_all

section \<open>Steps every stock movement is made of\<close>

text \<open>
  \<open>UPDATE InventoryBalance SET quantity = quantity - q, version = version + 1 WHERE ... AND
  quantity >= q\<close>: the number of rows it changed.
\<close>

definition take_balance ::
  "uuid \<Rightarrow> uuid \<Rightarrow> inventory_state \<Rightarrow> int \<Rightarrow> ('m inventory_db_scheme, nat) prog"
where
  "take_balance tenant item st q =
     update_many balances balances_update (\<lambda>b. balance_key tenant item st b \<and> ib_quantity b \<ge> q)
       (\<lambda>b. b\<lparr>ib_quantity := ib_quantity b - q, ib_version := ib_version b + 1\<rparr>)"

text \<open>\<open>inventoryBalance.upsert\<close> with \<open>quantity: { increment: q }\<close>.\<close>

definition add_balance ::
  "uuid \<Rightarrow> uuid \<Rightarrow> inventory_state \<Rightarrow> int \<Rightarrow> ('m inventory_db_scheme, inventory_balance) prog"
where
  "add_balance tenant item st q =
     seq random_uuid (\<lambda>i.
     upsert_row balances balances_update same_balance (balance_key tenant item st)
       (\<lambda>b. b\<lparr>ib_quantity := ib_quantity b + q, ib_version := ib_version b + 1\<rparr>)
       \<lparr>ib_id = i, ib_tenantId = tenant, ib_inventoryItemId = item, ib_state = st,
        ib_quantity = q, ib_version = 1\<rparr>)"

text \<open>\<open>stockLedgerEntry.create\<close>; \<open>createMany\<close> is one \<open>append_entry\<close> per row of \<open>data\<close>.\<close>

definition append_entry ::
  "uuid \<Rightarrow> uuid \<Rightarrow> inventory_state \<Rightarrow> int \<Rightarrow> string \<Rightarrow> string \<Rightarrow> string \<Rightarrow> uuid \<Rightarrow> string \<Rightarrow> uuid
     \<Rightarrow> uuid option \<Rightarrow> ('m inventory_db_scheme, stock_ledger_entry) prog"
where
  "append_entry tenant item st delta operation reason sourceType sourceId key correlation actor =
     seq random_uuid (\<lambda>i.
     create_row ledger ledger_update same_entry
       \<lparr>le_id = i, le_tenantId = tenant, le_inventoryItemId = item, le_state = st,
        le_quantityDelta = delta, le_operation = operation, le_reasonCode = reason,
        le_sourceType = sourceType, le_sourceId = sourceId, le_idempotencyKey = key,
        le_correlationId = correlation, le_actorId = actor\<rparr>)"

section \<open>Inventory feed\<close>

record inventory_feed_dto =
  if_variantId :: uuid
  if_facilityId :: uuid
  if_source :: string
  if_externalKey :: string
  if_quantity :: int

record inventory_feed_result =
  fr_id :: uuid
  fr_inventoryItemId :: uuid
  fr_variantId :: uuid
  fr_sku :: string
  fr_facilityId :: uuid
  fr_quantity :: int
  fr_idempotentReplay :: bool

text \<open>\<open>inventoryFeedView\<close>: the stored feed with the item it is about.\<close>

definition inventory_feed_view ::
  "inventory_feed_row \<Rightarrow> inventory_item \<Rightarrow> bool \<Rightarrow> app_error + inventory_feed_result"
where
  "inventory_feed_view f i replay =
     (case safe_integer_number (fe_quantity f) ''Inventory feed quantity'' of
        Inl e \<Rightarrow> Inl e
      | Inr q \<Rightarrow> Inr \<lparr>fr_id = fe_id f, fr_inventoryItemId = ii_id i, fr_variantId = ii_productRef i,
          fr_sku = ii_sku i, fr_facilityId = ii_facilityId i, fr_quantity = q,
          fr_idempotentReplay = replay\<rparr>)"

text \<open>The branch of \<open>inventoryFeed\<close> for a key that was not used before.\<close>

definition apply_inventory_feed ::
  "tenant_context \<Rightarrow> auth_principal \<Rightarrow> inventory_feed_dto
     \<Rightarrow> ('m inventory_db_scheme, inventory_feed_result) prog"
where
  "apply_inventory_feed ctx pr dto =
     seq (reads (\<lambda>s. List.find (\<lambda>v. pv_id v = if_variantId dto \<and> pv_tenantId v = ctx_tenantId ctx
            \<and> pv_status v = CS_ACTIVE \<and> pv_deletedAt v = None
            \<and> (case product_of s v of None \<Rightarrow> False
               | Some p \<Rightarrow> pd_status p = CS_ACTIVE \<and> pd_deletedAt p = None)) (variants s))) (\<lambda>found.
     seq (require found (NotFound ''Resource not found'')) (\<lambda>variant.
     seq random_uuid (\<lambda>itemId.
     seq (upsert_row items items_update same_item
            (\<lambda>i. ii_tenantId i = ctx_tenantId ctx \<and> ii_facilityId i = if_facilityId dto
               \<and> ii_sku i = pv_sku variant)
            (\<lambda>i. i\<lparr>ii_productRef := pv_id variant, ii_version := ii_version i + 1\<rparr>)
            \<lparr>ii_id = itemId, ii_tenantId = ctx_tenantId ctx, ii_sku = pv_sku variant,
             ii_facilityId = if_facilityId dto, ii_productRef = pv_id variant,
             ii_allowNegative = False, ii_version = 1\<rparr>) (\<lambda>item.
     seq (find_row balances (balance_key (ctx_tenantId ctx) (ii_id item) ON_HAND)) (\<lambda>current.
     seq (ret (if_quantity dto - (case current of None \<Rightarrow> 0 | Some b \<Rightarrow> ib_quantity b))) (\<lambda>delta.
     seq random_uuid (\<lambda>balanceId.
     seq (upsert_row balances balances_update same_balance
            (balance_key (ctx_tenantId ctx) (ii_id item) ON_HAND)
            (\<lambda>b. b\<lparr>ib_quantity := if_quantity dto, ib_version := ib_version b + 1\<rparr>)
            \<lparr>ib_id = balanceId, ib_tenantId = ctx_tenantId ctx, ib_inventoryItemId = ii_id item,
             ib_state = ON_HAND, ib_quantity = if_quantity dto, ib_version = 1\<rparr>) (\<lambda>_.
     seq random_uuid (\<lambda>feedId.
     seq (create_row feeds feeds_update same_feed
            \<lparr>fe_id = feedId, fe_tenantId = ctx_tenantId ctx, fe_inventoryItemId = ii_id item,
             fe_source = if_source dto, fe_externalKey = if_externalKey dto,
             fe_quantity = if_quantity dto\<rparr>) (\<lambda>feed.
     seq (when_do (delta \<noteq> 0)
            (seq (append_entry (ctx_tenantId ctx) (ii_id item) ON_HAND delta ''FEED'' ''INVENTORY_FEED''
               ''INVENTORY_FEED'' (fe_id feed)
               (''feed:'' @ if_source dto @ '':'' @ if_externalKey dto)
               (ctx_correlationId ctx) (Some (pr_userId pr))) (\<lambda>_. ret ()))) (\<lambda>_.
     seq (audit_as ctx pr ''inventory.feed.applied'' ''INVENTORY_ITEM'' (ii_id item) None None
            (Some ''SESSION'')) (\<lambda>_.
     seq (lift_result (safe_integer_number delta ''Inventory feed delta'')) (\<lambda>deltaNumber.
     seq (publish (ctx_tenantId ctx) ''inventory.balance.changed.v1''
            (''inventory-item/'' @ ii_id item)
            (JObj [(''inventoryItemId'', JStr (ii_id item)), (''variantId'', JStr (pv_id variant)),
                   (''quantity'', JNum (if_quantity dto)), (''delta'', JNum deltaNumber)])
            (ctx_correlationId ctx)) (\<lambda>_.
     ret \<lparr>fr_id = fe_id feed, fr_inventoryItemId = ii_id item, fr_variantId = pv_id variant,
          fr_sku = ii_sku item, fr_facilityId = ii_facilityId item, fr_quantity = if_quantity dto,
          fr_idempotentReplay = False\<rparr>))))))))))))))"

definition inventory_feed_tx ::
  "tenant_context \<Rightarrow> auth_principal \<Rightarrow> inventory_feed_dto
     \<Rightarrow> ('m inventory_db_scheme, inventory_feed_result) prog"
where
  "inventory_feed_tx ctx pr dto =
     seq (find_row feeds (\<lambda>f. fe_tenantId f = ctx_tenantId ctx \<and> fe_source f = if_source dto
            \<and> fe_externalKey f = if_externalKey dto)) (\<lambda>prior.
     case prior of
       Some f \<Rightarrow>
         seq (find_row items (\<lambda>i. ii_id i = fe_inventoryItemId f)) (\<lambda>found.
         seq (require found RecordMissing) (\<lambda>item.
         seq (ensure (fe_quantity f = if_quantity dto)
                (Conflict ''Inventory feed key was already used with another quantity'')) (\<lambda>_.
         lift_result (inventory_feed_view f item True))))
     | None \<Rightarrow> apply_inventory_feed ctx pr dto)"

definition inventory_feed ::
  "tenant_context \<Rightarrow> auth_principal \<Rightarrow> inventory_feed_dto
     \<Rightarrow> ('m inventory_db_scheme, inventory_feed_result) prog"
where
  "inventory_feed ctx pr dto = transaction (inventory_feed_tx ctx pr dto)"

section \<open>Views\<close>

text \<open>
  \<open>CommerceRepository.inventory\<close>: one row per item, with its balances by state. The source
  orders the rows by \<open>updatedAt\<close>, a column the model leaves out; here they stay in table order.
\<close>

record inventory_row =
  iv_id :: uuid
  iv_sku :: string
  iv_variantId :: uuid
  iv_facilityId :: uuid
  iv_version :: int
  iv_balances :: "(inventory_state \<times> int) list"

definition inventory ::
  "tenant_context \<Rightarrow> ('m inventory_db_scheme, inventory_row list) prog"
where
  "inventory ctx = seq (reads (\<lambda>s. sequence_results (map (\<lambda>i.
       case sequence_results (map (\<lambda>b.
              case safe_integer_number (ib_quantity b) ''Inventory balance'' of
                Inl e \<Rightarrow> Inl e | Inr q \<Rightarrow> Inr (ib_state b, q))
              (filter (\<lambda>b. ib_inventoryItemId b = ii_id i) (balances s))) of
         Inl e \<Rightarrow> Inl e
       | Inr bs \<Rightarrow> Inr \<lparr>iv_id = ii_id i, iv_sku = ii_sku i, iv_variantId = ii_productRef i,
           iv_facilityId = ii_facilityId i, iv_version = ii_version i, iv_balances = bs\<rparr>)
       (filter (\<lambda>i. ii_tenantId i = ctx_tenantId ctx) (items s))))) lift_result"

text \<open>
  \<open>CommerceRepository.inventoryReconciliation\<close>: for each item and each state that occurs in
  its balances or its ledger, the balance, the ledger total and their difference.
\<close>

record reconciliation_row =
  rr_inventoryItemId :: uuid
  rr_sku :: string
  rr_facilityId :: uuid
  rr_state :: inventory_state
  rr_balance :: int
  rr_ledgerTotal :: int
  rr_difference :: int
  rr_reconciled :: bool

record reconciliation_report =
  rp_reconciled :: bool
  rp_mismatches :: nat
  rp_results :: "reconciliation_row list"

definition reconcile_state ::
  "inventory_item \<Rightarrow> inventory_balance list \<Rightarrow> stock_ledger_entry list \<Rightarrow> inventory_state
     \<Rightarrow> app_error + reconciliation_row"
where
  "reconcile_state i bs es st =
     (let balance = (case List.find (\<lambda>b. ib_state b = st) bs of None \<Rightarrow> 0 | Some b \<Rightarrow> ib_quantity b);
          total = foldl (\<lambda>acc e. acc + le_quantityDelta e) 0 (filter (\<lambda>e. le_state e = st) es)
      in case safe_integer_number balance ''Inventory reconciliation balance'' of
           Inl e \<Rightarrow> Inl e
         | Inr b \<Rightarrow>
             (case safe_integer_number total ''Inventory reconciliation ledger total'' of
                Inl e \<Rightarrow> Inl e
              | Inr l \<Rightarrow>
                  (case safe_integer_number (balance - total)
                          ''Inventory reconciliation difference'' of
                     Inl e \<Rightarrow> Inl e
                   | Inr d \<Rightarrow> Inr \<lparr>rr_inventoryItemId = ii_id i, rr_sku = ii_sku i,
                       rr_facilityId = ii_facilityId i, rr_state = st, rr_balance = b,
                       rr_ledgerTotal = l, rr_difference = d, rr_reconciled = (balance = total)\<rparr>)))"

definition inventory_reconciliation ::
  "tenant_context \<Rightarrow> ('m inventory_db_scheme, reconciliation_report) prog"
where
  "inventory_reconciliation ctx =
     seq (reads (\<lambda>s. sequence_results (concat (map (\<lambda>i.
            let bs = filter (\<lambda>b. ib_inventoryItemId b = ii_id i) (balances s);
                es = filter (\<lambda>e. le_inventoryItemId e = ii_id i) (ledger s)
            in map (reconcile_state i bs es) (js_set (map ib_state bs @ map le_state es)))
            (sort_key ii_sku (filter (\<lambda>i. ii_tenantId i = ctx_tenantId ctx) (items s))))))) (\<lambda>rows.
     seq (lift_result rows) (\<lambda>results.
     ret \<lparr>rp_reconciled = list_all rr_reconciled results,
          rp_mismatches = length (filter (\<lambda>r. \<not> rr_reconciled r) results),
          rp_results = results\<rparr>))"

section \<open>Expiry of reservations\<close>

text \<open>
  \<open>ReservationExpirySweeper.releaseBatch\<close>: at most 100 expired reservations, each released
  in a transaction of its own, oldest expiry first. A reservation that was allocated or
  released in the meantime is left alone. An exception ends the batch.
\<close>

definition release_reservation_tx :: "inventory_reservation \<Rightarrow> ('m inventory_db_scheme, unit) prog" where
  "release_reservation_tx r =
     seq now (\<lambda>expiry.
     seq now (\<lambda>released.
     seq (update_many reservations reservations_update
            (\<lambda>x. ir_id x = ir_id r \<and> ir_tenantId x = ir_tenantId r \<and> ir_releasedAt x = None
               \<and> ir_allocatedAt x = None \<and> ir_expiresAt x \<le> expiry)
            (\<lambda>x. x\<lparr>ir_releasedAt := Some released\<rparr>)) (\<lambda>claimed.
     when_do (claimed = 1)
       (seq (take_balance (ir_tenantId r) (ir_inventoryItemId r) RESERVED (ir_quantity r)) (\<lambda>changed.
        seq (ensure (changed = 1)
               (Plain_Error (''Reservation '' @ ir_id r @ '' has no matching reserved balance''))) (\<lambda>_.
        seq (add_balance (ir_tenantId r) (ir_inventoryItemId r) ON_HAND (ir_quantity r)) (\<lambda>_.
        seq random_uuid (\<lambda>correlation.
        seq (append_entry (ir_tenantId r) (ir_inventoryItemId r) RESERVED (- ir_quantity r)
               ''RELEASE'' ''RESERVATION_EXPIRED'' ''INVENTORY_RESERVATION'' (ir_id r)
               (''expiry:'' @ ir_id r @ '':reserved'') correlation None) (\<lambda>_.
        seq (append_entry (ir_tenantId r) (ir_inventoryItemId r) ON_HAND (ir_quantity r)
               ''RELEASE'' ''RESERVATION_EXPIRED'' ''INVENTORY_RESERVATION'' (ir_id r)
               (''expiry:'' @ ir_id r @ '':on-hand'') correlation None) (\<lambda>_.
        seq (publish (ir_tenantId r) ''inventory.reservation.expired.v1''
               (''inventory-reservation/'' @ ir_id r)
               (JObj [(''reservationId'', JStr (ir_id r)),
                      (''inventoryItemId'', JStr (ir_inventoryItemId r)),
                      (''quantity'', JStr (show_int (ir_quantity r)))]) correlation) (\<lambda>_.
        ret ())))))))))))"

definition release_reservation :: "inventory_reservation \<Rightarrow> ('m inventory_db_scheme, unit) prog" where
  "release_reservation r = transaction (release_reservation_tx r)"

definition release_batch :: "('m inventory_db_scheme, unit) prog" where
  "release_batch =
     seq now (\<lambda>expiry.
     seq (find_rows reservations (\<lambda>x. ir_expiresAt x \<le> expiry \<and> ir_releasedAt x = None
            \<and> ir_allocatedAt x = None)) (\<lambda>expired.
     for_each (take 100 (sort_key ir_expiresAt expired)) release_reservation))"

definition fresh_inventory :: inventory_db where
  "fresh_inventory = catalog_db.extend fresh_catalog (inventory_db.fields [] [] [] [] [])"

end
