(* ===== verification/Finance.thy ===== *)
theory Finance
  imports Inventory
begin

text \<open>
  The double-entry journal and the partner settlements:
  \<open>apps/api/src/returns-finance/returns-finance.repository.ts\<close>, methods \<open>postJournal\<close>,
  \<open>postJournalInTransaction\<close>, \<open>reverseJournal\<close>, \<open>calculateSettlement\<close>,
  \<open>approveSettlement\<close>, \<open>paySettlement\<close> and \<open>reconcile\<close>. The billing module writes
  journals of its own through the same \<open>journalEntry.create\<close>, here \<open>create_journal\<close>.
\<close>

section \<open>Rows\<close>

record financial_account =
  fa_id :: uuid
  fa_tenantId :: uuid
  fa_code :: string
  fa_name :: string
  fa_type :: string
  fa_currency :: string
  fa_active :: bool

record journal_entry =
  je_id :: uuid
  je_tenantId :: uuid
  je_number :: string
  je_sourceType :: string
  je_sourceId :: uuid
  je_description :: string
  je_status :: string
  je_currency :: string
  je_idempotencyKey :: string
  je_reversalOfId :: "uuid option"
  je_postedBy :: uuid
  je_postedAt :: instant

record journal_line =
  jl_id :: uuid
  jl_tenantId :: uuid
  jl_journalEntryId :: uuid
  jl_accountId :: uuid
  jl_debitMinor :: int
  jl_creditMinor :: int
  jl_memo :: "string option"

record settlement =
  se_id :: uuid
  se_tenantId :: uuid
  se_partnerKind :: string
  se_partnerId :: uuid
  se_periodStart :: instant
  se_periodEnd :: instant
  se_currency :: string
  se_status :: string
  se_grossMinor :: int
  se_feesMinor :: int
  se_reserveMinor :: int
  se_adjustmentMinor :: int
  se_netMinor :: int
  se_approvedBy :: "uuid option"
  se_approvedAt :: "instant option"
  se_paidAt :: "instant option"
  se_version :: int

record settlement_line =
  sl_id :: uuid
  sl_tenantId :: uuid
  sl_settlementId :: uuid
  sl_journalEntryId :: uuid
  sl_kind :: string
  sl_amountMinor :: int

record reconciliation_run =
  rc_id :: uuid
  rc_tenantId :: uuid
  rc_providerKey :: string
  rc_periodStart :: instant
  rc_periodEnd :: instant
  rc_currency :: string
  rc_expectedMinor :: int
  rc_providerMinor :: int
  rc_differenceMinor :: int
  rc_status :: string
  rc_evidence :: "json option"
  rc_createdBy :: uuid

record finance_db = inventory_db +
  accounts :: "financial_account list"
  journals :: "journal_entry list"
  journal_lines :: "journal_line list"
  settlements :: "settlement list"
  settlement_lines :: "settlement_line list"
  reconciliation_runs :: "reconciliation_run list"

definition same_journal :: "journal_entry \<Rightarrow> journal_entry \<Rightarrow> bool" where
  "same_journal a b \<longleftrightarrow> je_id a = je_id b
     \<or> je_tenantId a = je_tenantId b
       \<and> (je_number a = je_number b \<or> je_idempotencyKey a = je_idempotencyKey b)"

definition same_journal_line :: "journal_line \<Rightarrow> journal_line \<Rightarrow> bool" where
  "same_journal_line a b \<longleftrightarrow> jl_id a = jl_id b"

definition same_settlement :: "settlement \<Rightarrow> settlement \<Rightarrow> bool" where
  "same_settlement a b \<longleftrightarrow> se_id a = se_id b"

definition same_settlement_line :: "settlement_line \<Rightarrow> settlement_line \<Rightarrow> bool" where
  "same_settlement_line a b \<longleftrightarrow> sl_id a = sl_id b
     \<or> sl_tenantId a = sl_tenantId b \<and> sl_journalEntryId a = sl_journalEntryId b"

definition same_run :: "reconciliation_run \<Rightarrow> reconciliation_run \<Rightarrow> bool" where
  "same_run a b \<longleftrightarrow> rc_id a = rc_id b"

interpretation journals: row_store journals journals_update
  by unfold_locales simp_all

interpretation journal_lines: row_store journal_lines journal_lines_update
  by unfold_locales simp_all

interpretation settlements: row_store settlements settlements_update
  by unfold_locales simp_all

section \<open>Posting\<close>

record journal_line_dto =
  jd_accountId :: uuid
  jd_debitMinor :: int
  jd_creditMinor :: int
  jd_memo :: "string option"

record post_journal_dto =
  pj_sourceType :: string
  pj_sourceId :: uuid
  pj_description :: string
  pj_currency :: string
  pj_idempotencyKey :: string
  pj_reversalOfId :: "uuid option"
  pj_lines :: "journal_line_dto list"

text \<open>
  \<open>journalEntry.create\<close> with nested \<open>lines: { create: ... }\<close>: the entry, with the status
  and posting time the schema defaults to, then its lines in order.
\<close>

definition create_journal_line ::
  "uuid \<Rightarrow> uuid \<Rightarrow> journal_line_dto \<Rightarrow> ('m finance_db_scheme, unit) prog"
where
  "create_journal_line tenant entryId line =
     seq random_uuid (\<lambda>i.
     seq (create_row journal_lines journal_lines_update same_journal_line
            \<lparr>jl_id = i, jl_tenantId = tenant, jl_journalEntryId = entryId,
             jl_accountId = jd_accountId line, jl_debitMinor = jd_debitMinor line,
             jl_creditMinor = jd_creditMinor line, jl_memo = jd_memo line\<rparr>) (\<lambda>_.
     ret ()))"

definition create_journal ::
  "uuid \<Rightarrow> uuid \<Rightarrow> string \<Rightarrow> uuid \<Rightarrow> post_journal_dto \<Rightarrow> ('m finance_db_scheme, journal_entry) prog"
where
  "create_journal i tenant number postedBy dto =
     seq now (\<lambda>postedAt.
     seq (create_row journals journals_update same_journal
            \<lparr>je_id = i, je_tenantId = tenant, je_number = number, je_sourceType = pj_sourceType dto,
             je_sourceId = pj_sourceId dto, je_description = pj_description dto,
             je_status = ''POSTED'', je_currency = pj_currency dto,
             je_idempotencyKey = pj_idempotencyKey dto, je_reversalOfId = pj_reversalOfId dto,
             je_postedBy = postedBy, je_postedAt = postedAt\<rparr>) (\<lambda>entry.
     seq (for_each (pj_lines dto) (create_journal_line tenant i)) (\<lambda>_.
     ret entry)))"

text \<open>\<open>postJournalInTransaction\<close>.\<close>

definition post_journal_in_transaction ::
  "tenant_context \<Rightarrow> auth_principal \<Rightarrow> post_journal_dto \<Rightarrow> ('m finance_db_scheme, journal_entry) prog"
where
  "post_journal_in_transaction ctx pr dto =
     (let debit = sum_list (map jd_debitMinor (pj_lines dto));
          credit = sum_list (map jd_creditMinor (pj_lines dto));
          accountIds = map jd_accountId (pj_lines dto)
      in seq (ensure (\<not> (debit \<le> 0 \<or> debit \<noteq> credit))
                (Conflict ''Journal debits and credits must be equal and non-zero'')) (\<lambda>_.
         seq (ensure (\<not> list_ex (\<lambda>l. (jd_debitMinor l > 0) = (jd_creditMinor l > 0)) (pj_lines dto))
                (Conflict ''Each journal line must contain exactly one side'')) (\<lambda>_.
         seq (find_rows accounts (\<lambda>a. fa_tenantId a = ctx_tenantId ctx \<and> fa_id a \<in> set accountIds
                \<and> fa_currency a = js_upper (pj_currency dto) \<and> fa_active a)) (\<lambda>found.
         seq (ensure (length found = length (js_set accountIds)) (NotFound ''Resource not found'')) (\<lambda>_.
         seq (find_row journals (\<lambda>j. je_tenantId j = ctx_tenantId ctx
                \<and> je_idempotencyKey j = pj_idempotencyKey dto)) (\<lambda>existing.
         case existing of
           Some j \<Rightarrow> ret j
         | None \<Rightarrow>
             seq random_uuid (\<lambda>i.
             create_journal i (ctx_tenantId ctx) (''JE-'' @ js_upper (take 8 i)) (pr_userId pr)
               (dto\<lparr>pj_currency := js_upper (pj_currency dto)\<rparr>))))))))"

definition post_journal ::
  "tenant_context \<Rightarrow> auth_principal \<Rightarrow> post_journal_dto \<Rightarrow> ('m finance_db_scheme, journal_entry) prog"
where
  "post_journal ctx pr dto = transaction (post_journal_in_transaction ctx pr dto)"

text \<open>
  \<open>reverseJournal\<close>: a journal that is itself a reversal is refused; every other posted
  journal is answered by a new one with the two sides of each line swapped.
\<close>

record reverse_journal_dto =
  rj_idempotencyKey :: string
  rj_reason :: string

definition reversal_line :: "string \<Rightarrow> journal_line \<Rightarrow> app_error + journal_line_dto" where
  "reversal_line number l =
     (case safe_integer_number (jl_creditMinor l) ''Journal credit'' of
        Inl e \<Rightarrow> Inl e
      | Inr d \<Rightarrow>
          (case safe_integer_number (jl_debitMinor l) ''Journal debit'' of
             Inl e \<Rightarrow> Inl e
           | Inr c \<Rightarrow> Inr \<lparr>jd_accountId = jl_accountId l, jd_debitMinor = d, jd_creditMinor = c,
               jd_memo = Some (''Reversal of '' @ number)\<rparr>))"

definition reverse_journal ::
  "tenant_context \<Rightarrow> auth_principal \<Rightarrow> uuid \<Rightarrow> reverse_journal_dto
     \<Rightarrow> ('m finance_db_scheme, journal_entry) prog"
where
  "reverse_journal ctx pr entryId dto =
     seq (find_row journals (\<lambda>j. je_id j = entryId \<and> je_tenantId j = ctx_tenantId ctx
            \<and> je_status j = ''POSTED'')) (\<lambda>found.
     seq (require found (NotFound ''Resource not found'')) (\<lambda>entry.
     seq (find_rows journal_lines (\<lambda>l. jl_journalEntryId l = je_id entry)) (\<lambda>lines.
     seq (ensure (je_reversalOfId entry = None)
            (Conflict ''A reversal cannot be reversed directly'')) (\<lambda>_.
     transaction (
       seq (lift_result (sequence_results (map (reversal_line (je_number entry)) lines))) (\<lambda>swapped.
       post_journal_in_transaction ctx pr
         \<lparr>pj_sourceType = ''JOURNAL_REVERSAL'', pj_sourceId = je_id entry,
          pj_description = rj_reason dto, pj_currency = je_currency entry,
          pj_idempotencyKey = rj_idempotencyKey dto, pj_reversalOfId = Some (je_id entry),
          pj_lines = swapped\<rparr>))))))"

section \<open>Settlements\<close>

record calculate_settlement_dto =
  cs_partnerKind :: string
  cs_partnerId :: uuid
  cs_periodStart :: instant
  cs_periodEnd :: instant
  cs_currency :: string
  cs_reserveMinor :: int
  cs_adjustmentMinor :: int

text \<open>
  The payable of one journal: credits minus debits of its lines on accounts with code 2000.
\<close>

definition payable_line :: "'m finance_db_scheme \<Rightarrow> journal_line \<Rightarrow> int" where
  "payable_line s l =
     (case List.find (\<lambda>a. fa_id a = jl_accountId l) (accounts s) of
        None \<Rightarrow> 0
      | Some a \<Rightarrow> if fa_code a = ''2000'' then jl_creditMinor l - jl_debitMinor l else 0)"

definition journal_payable :: "'m finance_db_scheme \<Rightarrow> journal_entry \<Rightarrow> int" where
  "journal_payable s j = sum_list (map (payable_line s)
     (filter (\<lambda>l. jl_journalEntryId l = je_id j) (journal_lines s)))"

definition unsettled_journal ::
  "tenant_context \<Rightarrow> calculate_settlement_dto \<Rightarrow> 'm finance_db_scheme \<Rightarrow> journal_entry \<Rightarrow> bool"
where
  "unsettled_journal ctx dto s j \<longleftrightarrow>
     je_tenantId j = ctx_tenantId ctx \<and> je_currency j = js_upper (cs_currency dto)
     \<and> je_status j = ''POSTED'' \<and> cs_periodStart dto \<le> je_postedAt j
     \<and> je_postedAt j < cs_periodEnd dto \<and> je_sourceId j = cs_partnerId dto
     \<and> list_all (\<lambda>l. sl_journalEntryId l \<noteq> je_id j) (settlement_lines s)"

definition create_settlement_line ::
  "uuid \<Rightarrow> uuid \<Rightarrow> journal_entry \<times> int \<Rightarrow> ('m finance_db_scheme, unit) prog"
where
  "create_settlement_line tenant settlementId jp =
     seq random_uuid (\<lambda>i.
     seq (create_row settlement_lines settlement_lines_update same_settlement_line
            \<lparr>sl_id = i, sl_tenantId = tenant, sl_settlementId = settlementId,
             sl_journalEntryId = je_id (fst jp), sl_kind = je_sourceType (fst jp),
             sl_amountMinor = snd jp\<rparr>) (\<lambda>_.
     ret ()))"

text \<open>
  \<open>calculateSettlement\<close>. \<open>settlement.create\<close> with its nested lines is one atomic query; a
  journal that is settled already violates the unique key of \<open>SettlementLine\<close>.
\<close>

definition settlement_fees :: "int \<Rightarrow> int" where
  "settlement_fees gross = (if gross > 0 then gross * 3 div 100 else 0)"

definition create_settlement ::
  "tenant_context \<Rightarrow> calculate_settlement_dto \<Rightarrow> int \<Rightarrow> int \<Rightarrow> int \<Rightarrow> (journal_entry \<times> int) list
     \<Rightarrow> ('m finance_db_scheme, settlement) prog"
where
  "create_settlement ctx dto gross fees net payables = transaction (
     seq random_uuid (\<lambda>i.
     seq (create_row settlements settlements_update same_settlement
            \<lparr>se_id = i, se_tenantId = ctx_tenantId ctx, se_partnerKind = cs_partnerKind dto,
             se_partnerId = cs_partnerId dto, se_periodStart = cs_periodStart dto,
             se_periodEnd = cs_periodEnd dto, se_currency = js_upper (cs_currency dto),
             se_status = ''CALCULATED'', se_grossMinor = gross, se_feesMinor = fees,
             se_reserveMinor = cs_reserveMinor dto, se_adjustmentMinor = cs_adjustmentMinor dto,
             se_netMinor = net, se_approvedBy = None, se_approvedAt = None, se_paidAt = None,
             se_version = 1\<rparr>) (\<lambda>created.
     seq (for_each payables (create_settlement_line (ctx_tenantId ctx) i)) (\<lambda>_.
     ret created))))"

definition calculate_settlement ::
  "tenant_context \<Rightarrow> calculate_settlement_dto \<Rightarrow> ('m finance_db_scheme, settlement) prog"
where
  "calculate_settlement ctx dto =
     seq (ensure (\<not> cs_periodStart dto \<ge> cs_periodEnd dto)
            (Conflict ''Settlement period is invalid'')) (\<lambda>_.
     seq (reads (\<lambda>s. map (\<lambda>j. (j, journal_payable s j))
            (filter (unsettled_journal ctx dto s) (journals s)))) (\<lambda>payables.
     seq (ret (sum_list (map snd payables))) (\<lambda>gross.
     seq (ensure (length payables \<noteq> 0)
            (Conflict ''No unsettled journals exist for this period'')) (\<lambda>_.
     seq (ret (settlement_fees gross)) (\<lambda>fees.
     seq (ret (gross - fees - cs_reserveMinor dto + cs_adjustmentMinor dto)) (\<lambda>net.
     seq (ensure (\<not> net < 0) (Conflict ''Settlement net amount cannot be negative'')) (\<lambda>_.
     catch (create_settlement ctx dto gross fees net payables)
       (\<lambda>e. throw (if e = UniqueViolation
                   then Conflict ''One or more journals were already settled'' else e)))))))))"

definition approve_settlement ::
  "tenant_context \<Rightarrow> auth_principal \<Rightarrow> uuid \<Rightarrow> ('m finance_db_scheme, settlement) prog"
where
  "approve_settlement ctx pr settlementId =
     seq (find_row settlements (\<lambda>x. se_id x = settlementId \<and> se_tenantId x = ctx_tenantId ctx
            \<and> se_status x = ''CALCULATED'')) (\<lambda>found.
     seq (require found (NotFound ''Resource not found'')) (\<lambda>se.
     seq now (\<lambda>approvedAt.
     update_row settlements settlements_update (\<lambda>x. se_id x = se_id se)
       (\<lambda>x. x\<lparr>se_status := ''APPROVED'', se_approvedBy := Some (pr_userId pr),
              se_approvedAt := Some approvedAt, se_version := se_version x + 1\<rparr>))))"

text \<open>\<open>paySettlement\<close>; \<open>production\<close> is \<open>process.env.NODE_ENV === 'production'\<close>.\<close>

definition pay_settlement ::
  "bool \<Rightarrow> tenant_context \<Rightarrow> uuid \<Rightarrow> ('m finance_db_scheme, settlement) prog"
where
  "pay_settlement production ctx settlementId =
     seq (ensure (\<not> production) (ServiceUnavailable
            ''A production settlement-payout provider must be configured before marking payouts paid'')) (\<lambda>_.
     seq (find_row settlements (\<lambda>x. se_id x = settlementId \<and> se_tenantId x = ctx_tenantId ctx
            \<and> se_status x = ''APPROVED'')) (\<lambda>found.
     seq (require found (NotFound ''Resource not found'')) (\<lambda>se.
     seq now (\<lambda>paidAt.
     update_row settlements settlements_update (\<lambda>x. se_id x = se_id se)
       (\<lambda>x. x\<lparr>se_status := ''PAID'', se_paidAt := Some paidAt, se_version := se_version x + 1\<rparr>)))))"

record reconcile_dto =
  rd_providerKey :: string
  rd_periodStart :: instant
  rd_periodEnd :: instant
  rd_currency :: string
  rd_expectedMinor :: int
  rd_providerMinor :: int
  rd_evidence :: "json option"

definition reconcile ::
  "tenant_context \<Rightarrow> auth_principal \<Rightarrow> reconcile_dto \<Rightarrow> ('m finance_db_scheme, reconciliation_run) prog"
where
  "reconcile ctx pr dto =
     (let difference = rd_providerMinor dto - rd_expectedMinor dto
      in seq random_uuid (\<lambda>i.
         create_row reconciliation_runs reconciliation_runs_update same_run
           \<lparr>rc_id = i, rc_tenantId = ctx_tenantId ctx, rc_providerKey = rd_providerKey dto,
            rc_periodStart = rd_periodStart dto, rc_periodEnd = rd_periodEnd dto,
            rc_currency = js_upper (rd_currency dto), rc_expectedMinor = rd_expectedMinor dto,
            rc_providerMinor = rd_providerMinor dto, rc_differenceMinor = difference,
            rc_status = (if difference = 0 then ''MATCHED'' else ''EXCEPTION''),
            rc_evidence = rd_evidence dto, rc_createdBy = pr_userId pr\<rparr>))"

definition fresh_finance :: finance_db where
  "fresh_finance = inventory_db.extend fresh_inventory (finance_db.fields [] [] [] [] [] [])"

end
