(* ===== verification/Books.thy ===== *)
theory Books
  imports Finance
begin

text \<open>
  What the finance component promises. The books are balanced entry by entry
  (\<open>balanced_books\<close>), posted journals are never changed, a reversal nets its journal to zero
  on every account, each settlement is the sum of its lines less fees and reserve and never
  negative, no journal is settled twice (\<open>settlement_books\<close>), and a settlement only moves from
  calculated to approved to paid. The step relation \<open>finance_step\<close> is any call of the
  component, refused or not; the invariants hold along every run of it.
\<close>


section \<open>Debits and credits of an entry\<close>

definition line_net :: "journal_line \<Rightarrow> int" where
  "line_net l = jl_debitMinor l - jl_creditMinor l"

definition entry_net :: "journal_line list \<Rightarrow> uuid \<Rightarrow> int" where
  "entry_net ls e = sum_list (map line_net (filter (\<lambda>l. jl_journalEntryId l = e) ls))"

definition balanced_books :: "'m finance_db_scheme \<Rightarrow> bool" where
  "balanced_books s \<longleftrightarrow> (\<forall>e. entry_net (journal_lines s) e = 0)"

definition account_total :: "journal_line list \<Rightarrow> uuid \<Rightarrow> int" where
  "account_total ls a = sum_list (map line_net (filter (\<lambda>l. jl_accountId l = a) ls))"

definition line_dto :: "journal_line \<Rightarrow> journal_line_dto" where
  "line_dto l = \<lparr>jd_accountId = jl_accountId l, jd_debitMinor = jl_debitMinor l,
     jd_creditMinor = jl_creditMinor l, jd_memo = jl_memo l\<rparr>"

lemma entry_net_append: "entry_net (ls @ ms) e = entry_net ls e + entry_net ms e"
  by (simp add: entry_net_def)

lemma account_total_append: "account_total (ls @ ms) a = account_total ls a + account_total ms a"
  by (simp add: account_total_def)

lemma create_journal_line_effect:
  assumes "create_journal_line tenant e d s = (Inr u, t)"
  shows "\<exists>l. journal_lines t = journal_lines s @ [l] \<and> line_dto l = d
    \<and> jl_journalEntryId l = e \<and> jl_tenantId l = tenant \<and> journals t = journals s"
  using assms by (auto simp: create_journal_line_def line_dto_def)

lemma create_lines:
  assumes "for_each ds (create_journal_line tenant e) s = (Inr u, t)"
  shows "\<exists>ls. journal_lines t = journal_lines s @ ls \<and> map line_dto ls = ds
    \<and> (\<forall>l\<in>set ls. jl_journalEntryId l = e \<and> jl_tenantId l = tenant) \<and> journals t = journals s"
  using assms
proof (induction ds arbitrary: s)
  case Nil
  then show ?case by simp
next
  case (Cons d ds)
  from Cons.prems obtain w where one: "create_journal_line tenant e d s = (Inr (), w)"
    and run: "for_each ds (create_journal_line tenant e) w = (Inr u, t)"
    by auto
  from create_journal_line_effect [OF one] obtain l where
    w: "journal_lines w = journal_lines s @ [l]" "line_dto l = d"
      "jl_journalEntryId l = e" "jl_tenantId l = tenant" "journals w = journals s" by blast
  from Cons.IH [OF run] obtain ls where "journal_lines t = journal_lines w @ ls" "map line_dto ls = ds"
    "\<forall>l\<in>set ls. jl_journalEntryId l = e \<and> jl_tenantId l = tenant" "journals t = journals w" by blast
  with w show ?case by (intro exI [of _ "l # ls"]) auto
qed

lemma create_journal_effect:
  assumes "create_journal i tenant number postedBy dto s = (Inr j, t)"
  shows "\<exists>ls. journal_lines t = journal_lines s @ ls \<and> map line_dto ls = pj_lines dto
    \<and> (\<forall>l\<in>set ls. jl_journalEntryId l = i \<and> jl_tenantId l = tenant)
    \<and> journals t = journals s @ [j] \<and> je_id j = i \<and> je_tenantId j = tenant
    \<and> je_idempotencyKey j = pj_idempotencyKey dto \<and> je_currency j = pj_currency dto
    \<and> je_reversalOfId j = pj_reversalOfId dto \<and> je_status j = ''POSTED''
    \<and> je_sourceId j = pj_sourceId dto \<and> je_sourceType j = pj_sourceType dto
    \<and> je_id j \<notin> je_id ` set (journals s)"
  using assms unfolding create_journal_def
  by (auto dest!: create_lines simp: same_journal_def)

lemma line_net_dto: "line_net l = jd_debitMinor (line_dto l) - jd_creditMinor (line_dto l)"
  by (simp add: line_net_def line_dto_def)

lemma sum_line_net: "sum_list (map line_net ls) =
   sum_list (map jd_debitMinor (map line_dto ls)) - sum_list (map jd_creditMinor (map line_dto ls))"
  by (induction ls) (auto simp: line_net_dto)

lemma entry_net_new:
  assumes "\<forall>l\<in>set ls. jl_journalEntryId l = i"
  shows "entry_net ls e = (if e = i then sum_list (map line_net ls) else 0)"
  using assms by (induction ls) (auto simp: entry_net_def)

lemma create_journal_books:
  assumes "create_journal i tenant number postedBy dto s = (Inr j, t)"
    and "sum_list (map jd_debitMinor (pj_lines dto)) = sum_list (map jd_creditMinor (pj_lines dto))"
  shows "entry_net (journal_lines t) = entry_net (journal_lines s)"
proof -
  from create_journal_effect [OF assms(1)] obtain ls where
    ls: "journal_lines t = journal_lines s @ ls" "map line_dto ls = pj_lines dto"
      "\<forall>l\<in>set ls. jl_journalEntryId l = i" by blast
  from assms(2) have "sum_list (map line_net ls) = 0"
    unfolding sum_line_net ls(2) by simp
  then show ?thesis by (simp add: fun_eq_iff ls(1) entry_net_append entry_net_new [OF ls(3)])
qed

lemma post_journal_cases:
  assumes "post_journal_in_transaction ctx pr dto s = (Inr j, t)"
  shows "sum_list (map jd_debitMinor (pj_lines dto)) = sum_list (map jd_creditMinor (pj_lines dto))
    \<and> 0 < sum_list (map jd_debitMinor (pj_lines dto))
    \<and> (\<forall>l\<in>set (pj_lines dto). (jd_debitMinor l > 0) \<noteq> (jd_creditMinor l > 0))
    \<and> (List.find (\<lambda>j. je_tenantId j = ctx_tenantId ctx \<and> je_idempotencyKey j = pj_idempotencyKey dto)
          (journals s) = Some j \<and> t = s
     \<or> List.find (\<lambda>j. je_tenantId j = ctx_tenantId ctx \<and> je_idempotencyKey j = pj_idempotencyKey dto)
          (journals s) = None
       \<and> create_journal (uuid_source s (uuids_drawn s)) (ctx_tenantId ctx)
           (''JE-'' @ js_upper (take 8 (uuid_source s (uuids_drawn s)))) (pr_userId pr)
           (dto\<lparr>pj_currency := js_upper (pj_currency dto)\<rparr>)
           (s\<lparr>uuids_drawn := Suc (uuids_drawn s)\<rparr>) = (Inr j, t))"
  using assms unfolding post_journal_in_transaction_def Let_def
  by (auto simp: list_ex_iff split: option.splits)

lemma post_journal_in_transaction_books:
  assumes "post_journal_in_transaction ctx pr dto s = (Inr j, t)"
  shows "entry_net (journal_lines t) = entry_net (journal_lines s)"
  using post_journal_cases [OF assms] by (auto dest: create_journal_books)


lemma finance_more:
  "runtime.more t = runtime.more s \<Longrightarrow> journals t = journals s \<and> journal_lines t = journal_lines s
     \<and> settlements t = settlements s \<and> settlement_lines t = settlement_lines s \<and> accounts t = accounts s"
  by (cases s; cases t) simp

text \<open>What \<open>reverseJournal\<close> passes on: the lines with their sides swapped.\<close>

lemma reversal_lines:
  assumes "sequence_results (map (reversal_line number) ls) = Inr ds"
  shows "map (\<lambda>d. (jd_accountId d, jd_debitMinor d, jd_creditMinor d)) ds =
         map (\<lambda>l. (jl_accountId l, jl_creditMinor l, jl_debitMinor l)) ls"
  using assms
proof (induction ls arbitrary: ds)
  case Nil
  then show ?case by simp
next
  case (Cons l ls)
  then show ?case by (auto simp: reversal_line_def safe_integer_number_def split: sum.splits if_splits)
qed

lemma account_total_dtos:
  "account_total ls a =
     sum_list (map (\<lambda>(i, d, c). if i = a then d - c else 0)
       (map (\<lambda>d. (jd_accountId d, jd_debitMinor d, jd_creditMinor d)) (map line_dto ls)))"
  by (induction ls) (auto simp: account_total_def line_net_def line_dto_def)

lemma account_total_swapped:
  "sum_list (map (\<lambda>(i, d, c). if i = a then d - c else 0)
       (map (\<lambda>l. (jl_accountId l, jl_creditMinor l, jl_debitMinor l)) ls)) = - account_total ls a"
  by (induction ls) (auto simp: account_total_def line_net_def)

lemma reverse_journal_cases:
  assumes "reverse_journal ctx pr entryId dto s = (Inr r, t)"
  shows "\<exists>j ds. List.find (\<lambda>j. je_id j = entryId \<and> je_tenantId j = ctx_tenantId ctx
            \<and> je_status j = ''POSTED'') (journals s) = Some j
    \<and> je_reversalOfId j = None
    \<and> sequence_results (map (reversal_line (je_number j))
        (filter (\<lambda>l. jl_journalEntryId l = entryId) (journal_lines s))) = Inr ds
    \<and> post_journal_in_transaction ctx pr
         \<lparr>pj_sourceType = ''JOURNAL_REVERSAL'', pj_sourceId = entryId,
          pj_description = rj_reason dto, pj_currency = je_currency j,
          pj_idempotencyKey = rj_idempotencyKey dto, pj_reversalOfId = Some entryId,
          pj_lines = ds\<rparr> s = (Inr r, t)"
  using assms unfolding reverse_journal_def
  by (auto dest: find_SomeD)

lemma reverse_journal_nets:
  assumes "reverse_journal ctx pr entryId dto s = (Inr r, t)"
    and "\<forall>j\<in>set (journals s). \<not> (je_tenantId j = ctx_tenantId ctx \<and> je_idempotencyKey j = rj_idempotencyKey dto)"
  shows "\<exists>ls. journal_lines t = journal_lines s @ ls \<and> journals t = journals s @ [r]
    \<and> je_reversalOfId r = Some entryId
    \<and> (\<forall>a. account_total ls a =
          - account_total (filter (\<lambda>l. jl_journalEntryId l = entryId) (journal_lines s)) a)"
proof -
  let ?ls = "filter (\<lambda>l. jl_journalEntryId l = entryId) (journal_lines s)"
  from reverse_journal_cases [OF assms(1)] obtain j :: journal_entry and ds where
    ds: "sequence_results (map (reversal_line (je_number j)) ?ls) = Inr ds"
    and post: "post_journal_in_transaction ctx pr
         \<lparr>pj_sourceType = ''JOURNAL_REVERSAL'', pj_sourceId = entryId,
          pj_description = rj_reason dto, pj_currency = je_currency j,
          pj_idempotencyKey = rj_idempotencyKey dto, pj_reversalOfId = Some entryId,
          pj_lines = ds\<rparr> s = (Inr r, t)" by blast
  from post_journal_cases [OF post] assms(2) obtain i n dto' s' where
    run: "create_journal i (ctx_tenantId ctx) n (pr_userId pr) dto' s' = (Inr r, t)"
    and "pj_lines dto' = ds" "pj_reversalOfId dto' = Some entryId"
      "journals s' = journals s" "journal_lines s' = journal_lines s"
    by (auto dest: find_SomeD)
  with create_journal_effect [OF run] obtain ls where
    ls: "journal_lines t = journal_lines s @ ls" "map line_dto ls = ds"
      "journals t = journals s @ [r]" "je_reversalOfId r = Some entryId" by auto
  have "account_total ls a = - account_total ?ls a" for a
    unfolding account_total_dtos [of ls] ls(2) reversal_lines [OF ds] account_total_swapped ..
  with ls show ?thesis by blast
qed



section \<open>Settlements\<close>

definition settlement_total :: "settlement_line list \<Rightarrow> uuid \<Rightarrow> int" where
  "settlement_total ls i = sum_list (map sl_amountMinor (filter (\<lambda>l. sl_settlementId l = i) ls))"

definition sound_settlement :: "settlement_line list \<Rightarrow> settlement \<Rightarrow> bool" where
  "sound_settlement ls x \<longleftrightarrow>
     se_grossMinor x = settlement_total ls (se_id x)
     \<and> se_feesMinor x = settlement_fees (se_grossMinor x)
     \<and> se_netMinor x = se_grossMinor x - se_feesMinor x - se_reserveMinor x + se_adjustmentMinor x
     \<and> 0 \<le> se_netMinor x"

definition settled_journals :: "settlement_line list \<Rightarrow> (uuid \<times> uuid) list" where
  "settled_journals ls = map (\<lambda>l. (sl_tenantId l, sl_journalEntryId l)) ls"

definition settlement_books :: "'m finance_db_scheme \<Rightarrow> bool" where
  "settlement_books s \<longleftrightarrow>
     (\<forall>x\<in>set (settlements s). sound_settlement (settlement_lines s) x)
     \<and> (\<forall>l\<in>set (settlement_lines s). sl_settlementId l \<in> se_id ` set (settlements s))
     \<and> distinct (map se_id (settlements s))
     \<and> distinct (settled_journals (settlement_lines s))"

lemma create_settlement_line_effect:
  assumes "create_settlement_line tenant i jp s = (Inr u, t)"
  shows "\<exists>l. settlement_lines t = settlement_lines s @ [l] \<and> settlements t = settlements s
    \<and> journals t = journals s \<and> journal_lines t = journal_lines s
    \<and> sl_settlementId l = i \<and> sl_tenantId l = tenant \<and> sl_journalEntryId l = je_id (fst jp)
    \<and> sl_amountMinor l = snd jp
    \<and> (tenant, je_id (fst jp)) \<notin> set (settled_journals (settlement_lines s))"
  using assms by (auto simp: create_settlement_line_def same_settlement_line_def settled_journals_def)

lemma create_settlement_lines:
  assumes "for_each jps (create_settlement_line tenant i) s = (Inr u, t)"
    and "distinct (settled_journals (settlement_lines s))"
  shows "\<exists>ls. settlement_lines t = settlement_lines s @ ls \<and> settlements t = settlements s
    \<and> journals t = journals s \<and> journal_lines t = journal_lines s
    \<and> (\<forall>l\<in>set ls. sl_settlementId l = i)
    \<and> map sl_journalEntryId ls = map (je_id \<circ> fst) jps \<and> map sl_amountMinor ls = map snd jps
    \<and> distinct (settled_journals (settlement_lines t))"
  using assms
proof (induction jps arbitrary: s)
  case Nil
  then show ?case by simp
next
  case (Cons jp jps)
  from Cons.prems(1) obtain w where one: "create_settlement_line tenant i jp s = (Inr (), w)"
    and run: "for_each jps (create_settlement_line tenant i) w = (Inr u, t)"
    by auto
  from create_settlement_line_effect [OF one] obtain l where
    l: "settlement_lines w = settlement_lines s @ [l]" "settlements w = settlements s"
      "journals w = journals s" "journal_lines w = journal_lines s"
      "sl_settlementId l = i" "sl_tenantId l = tenant" "sl_journalEntryId l = je_id (fst jp)"
      "sl_amountMinor l = snd jp"
      "(tenant, je_id (fst jp)) \<notin> set (settled_journals (settlement_lines s))" by blast
  then have "distinct (settled_journals (settlement_lines w))"
    using Cons.prems(2) by (simp add: settled_journals_def)
  from Cons.IH [OF run this] obtain ls where
    "settlement_lines t = settlement_lines w @ ls" "settlements t = settlements w"
    "journals t = journals w" "journal_lines t = journal_lines w"
    "\<forall>l\<in>set ls. sl_settlementId l = i" "map sl_journalEntryId ls = map (je_id \<circ> fst) jps"
    "map sl_amountMinor ls = map snd jps" "distinct (settled_journals (settlement_lines t))" by blast
  with l show ?case by (intro exI [of _ "l # ls"]) auto
qed

lemma settlement_total_append:
  "settlement_total (ls @ ms) i = settlement_total ls i + settlement_total ms i"
  by (simp add: settlement_total_def)

lemma settlement_total_new:
  "\<forall>l\<in>set ls. sl_settlementId l = i \<Longrightarrow>
   settlement_total ls k = (if k = i then sum_list (map sl_amountMinor ls) else 0)"
  by (induction ls) (auto simp: settlement_total_def)

text \<open>What \<open>settlement.create\<close> with its nested lines does where it returns.\<close>

lemma create_settlement_effect:
  assumes "create_settlement ctx dto gross fees net jps s = (Inr x, t)"
    and "distinct (settled_journals (settlement_lines s))"
  shows "\<exists>ls. settlement_lines t = settlement_lines s @ ls \<and> settlements t = settlements s @ [x]
    \<and> journals t = journals s \<and> journal_lines t = journal_lines s
    \<and> (\<forall>l\<in>set ls. sl_settlementId l = se_id x)
    \<and> map sl_journalEntryId ls = map (je_id \<circ> fst) jps \<and> map sl_amountMinor ls = map snd jps
    \<and> distinct (settled_journals (settlement_lines t))
    \<and> se_id x \<notin> se_id ` set (settlements s)
    \<and> se_grossMinor x = gross \<and> se_feesMinor x = fees \<and> se_netMinor x = net
    \<and> se_reserveMinor x = cs_reserveMinor dto \<and> se_adjustmentMinor x = cs_adjustmentMinor dto
    \<and> se_status x = ''CALCULATED'' \<and> se_tenantId x = ctx_tenantId ctx"
  using assms unfolding create_settlement_def
  by (auto dest!: create_settlement_lines simp: same_settlement_def)

lemma calculate_settlement_cases:
  assumes "calculate_settlement ctx dto s = (Inr x, t)"
  shows "\<exists>jps. jps = map (\<lambda>j. (j, journal_payable s j)) (filter (unsettled_journal ctx dto s) (journals s))
    \<and> jps \<noteq> []
    \<and> 0 \<le> sum_list (map snd jps) - settlement_fees (sum_list (map snd jps))
           - cs_reserveMinor dto + cs_adjustmentMinor dto
    \<and> create_settlement ctx dto (sum_list (map snd jps)) (settlement_fees (sum_list (map snd jps)))
          (sum_list (map snd jps) - settlement_fees (sum_list (map snd jps))
           - cs_reserveMinor dto + cs_adjustmentMinor dto) jps s = (Inr x, t)"
  using assms unfolding calculate_settlement_def by (simp add: catch_Inr)

lemma sound_settlement_grows:
  assumes "sound_settlement ls x" and "\<forall>l\<in>set ms. sl_settlementId l \<noteq> se_id x"
  shows "sound_settlement (ls @ ms) x"
proof -
  from assms(2) have "settlement_total ms (se_id x) = 0"
    by (induction ms) (auto simp: settlement_total_def)
  with assms(1) show ?thesis by (auto simp: sound_settlement_def settlement_total_append)
qed

lemma calculate_settlement_books:
  assumes "calculate_settlement ctx dto s = (Inr x, t)" and "settlement_books s"
  shows "settlement_books t \<and> sound_settlement (settlement_lines t) x
    \<and> settlements t = settlements s @ [x]"
proof -
  from calculate_settlement_cases [OF assms(1)] obtain jps where
    net: "0 \<le> sum_list (map snd jps) - settlement_fees (sum_list (map snd jps))
           - cs_reserveMinor dto + cs_adjustmentMinor dto"
    and run: "create_settlement ctx dto (sum_list (map snd jps)) (settlement_fees (sum_list (map snd jps)))
          (sum_list (map snd jps) - settlement_fees (sum_list (map snd jps))
           - cs_reserveMinor dto + cs_adjustmentMinor dto) jps s = (Inr x, t)" by blast
  from assms(2) have "distinct (settled_journals (settlement_lines s))"
    by (simp add: settlement_books_def)
  from create_settlement_effect [OF run this] obtain ls where
    ls: "settlement_lines t = settlement_lines s @ ls" "settlements t = settlements s @ [x]"
      "\<forall>l\<in>set ls. sl_settlementId l = se_id x" "map sl_amountMinor ls = map snd jps"
      "distinct (settled_journals (settlement_lines t))" "se_id x \<notin> se_id ` set (settlements s)"
      "se_grossMinor x = sum_list (map snd jps)"
      "se_feesMinor x = settlement_fees (sum_list (map snd jps))"
      "se_netMinor x = sum_list (map snd jps) - settlement_fees (sum_list (map snd jps))
           - cs_reserveMinor dto + cs_adjustmentMinor dto"
      "se_reserveMinor x = cs_reserveMinor dto" "se_adjustmentMinor x = cs_adjustmentMinor dto" by blast
  have "settlement_total (settlement_lines s) (se_id x) = 0"
  proof -
    from assms(2) ls(6) have "\<forall>l\<in>set (settlement_lines s). sl_settlementId l \<noteq> se_id x"
      unfolding settlement_books_def by metis
    then have "filter (\<lambda>l. sl_settlementId l = se_id x) (settlement_lines s) = []"
      by (simp add: filter_empty_conv)
    then show ?thesis by (simp add: settlement_total_def)
  qed
  then have x: "sound_settlement (settlement_lines t) x"
    using ls net by (simp add: sound_settlement_def settlement_total_append settlement_total_new [OF ls(3)])
  moreover have "\<forall>y\<in>set (settlements s). sound_settlement (settlement_lines t) y"
  proof
    fix y assume y: "y \<in> set (settlements s)"
    with ls(6) have "se_id x \<noteq> se_id y" by auto
    with ls(3) have "\<forall>l\<in>set ls. sl_settlementId l \<noteq> se_id y" by auto
    with y assms(2) show "sound_settlement (settlement_lines t) y"
      unfolding ls(1) by (intro sound_settlement_grows) (auto simp: settlement_books_def)
  qed
  ultimately show ?thesis using assms(2) ls by (auto simp: settlement_books_def)
qed


lemma settlement_books_update:
  assumes "settlement_books s"
    and "settlements t = update_first P f (settlements s)" "settlement_lines t = settlement_lines s"
    and "\<And>x. se_id (f x) = se_id x"
    and "\<And>ls x. sound_settlement ls x \<Longrightarrow> sound_settlement ls (f x)"
  shows "settlement_books t"
proof -
  have ids: "map se_id (settlements t) = map se_id (settlements s)"
    unfolding assms(2) using assms(4) by (rule map_update_first)
  then have "se_id ` set (settlements t) = se_id ` set (settlements s)"
    by (metis list.set_map)
  with ids assms(1,3) have "\<forall>l\<in>set (settlement_lines t). sl_settlementId l \<in> se_id ` set (settlements t)"
    "distinct (map se_id (settlements t))" "distinct (settled_journals (settlement_lines t))"
    by (simp_all add: settlement_books_def)
  moreover have "\<forall>x\<in>set (settlements t). sound_settlement (settlement_lines t) x"
    using assms(1,2,3,5) set_update_first [of P f "settlements s"]
    by (auto simp: settlement_books_def)
  ultimately show ?thesis by (simp add: settlement_books_def)
qed

lemma settlement_books_more:
  "runtime.more t = runtime.more s \<Longrightarrow> settlement_books s \<Longrightarrow> settlement_books t"
  by (auto dest: finance_more simp: settlement_books_def)

lemma approve_settlement_effect:
  assumes "approve_settlement ctx pr i s = (Inr y, t)"
  shows "\<exists>x f. List.find (\<lambda>x. se_id x = i \<and> se_tenantId x = ctx_tenantId ctx \<and> se_status x = ''CALCULATED'')
            (settlements s) = Some x
    \<and> f = (\<lambda>x. x\<lparr>se_status := ''APPROVED'', se_approvedBy := Some (pr_userId pr),
              se_approvedAt := Some (clock s (clock_reads s)), se_version := se_version x + 1\<rparr>)
    \<and> settlements t = update_first (\<lambda>x. se_id x = i) f (settlements s)
    \<and> settlement_lines t = settlement_lines s \<and> journals t = journals s
    \<and> journal_lines t = journal_lines s"
  using assms by (auto simp: approve_settlement_def dest: find_SomeD)

lemma pay_settlement_effect:
  assumes "pay_settlement production ctx i s = (Inr y, t)"
  shows "\<exists>x f. List.find (\<lambda>x. se_id x = i \<and> se_tenantId x = ctx_tenantId ctx \<and> se_status x = ''APPROVED'')
            (settlements s) = Some x \<and> \<not> production
    \<and> f = (\<lambda>x. x\<lparr>se_status := ''PAID'', se_paidAt := Some (clock s (clock_reads s)),
              se_version := se_version x + 1\<rparr>)
    \<and> settlements t = update_first (\<lambda>x. se_id x = i) f (settlements s)
    \<and> settlement_lines t = settlement_lines s \<and> journals t = journals s
    \<and> journal_lines t = journal_lines s"
  using assms by (auto simp: pay_settlement_def dest: find_SomeD)

section \<open>Every operation is atomic\<close>

lemma atomic_post_journal: "atomic (post_journal ctx pr dto)"
  unfolding post_journal_def by (intro atomic_intros)

lemma atomic_reverse_journal: "atomic (reverse_journal ctx pr i dto)"
  unfolding reverse_journal_def by (intro atomic_intros keeps_intros)

lemma atomic_calculate_settlement: "atomic (calculate_settlement ctx dto)"
  unfolding calculate_settlement_def create_settlement_def by (intro atomic_intros keeps_intros)

lemma atomic_approve_settlement: "atomic (approve_settlement ctx pr i)"
  unfolding approve_settlement_def by (intro atomic_intros keeps_intros) simp

lemma atomic_pay_settlement: "atomic (pay_settlement production ctx i)"
  unfolding pay_settlement_def by (intro atomic_intros keeps_intros) simp

lemma atomic_reconcile: "atomic (reconcile ctx pr dto)"
  unfolding reconcile_def Let_def by (intro atomic_intros keeps_intros) simp

lemmas finance_atomic = atomic_post_journal atomic_reverse_journal atomic_calculate_settlement
  atomic_approve_settlement atomic_pay_settlement atomic_reconcile

section \<open>Runs\<close>

inductive finance_step :: "bool \<Rightarrow> 'm finance_db_scheme \<Rightarrow> 'm finance_db_scheme \<Rightarrow> bool"
  for production where
  Post: "post_journal ctx pr dto s = (r1, t) \<Longrightarrow> finance_step production s t"
| Reverse: "reverse_journal ctx pr i rdto s = (r1, t) \<Longrightarrow> finance_step production s t"
| Calculate: "calculate_settlement ctx cdto s = (r2, t) \<Longrightarrow> finance_step production s t"
| Approve: "approve_settlement ctx pr i s = (r2, t) \<Longrightarrow> finance_step production s t"
| Pay: "pay_settlement production ctx i s = (r2, t) \<Longrightarrow> finance_step production s t"
| Reconcile: "reconcile ctx pr ddto s = (r3, t) \<Longrightarrow> finance_step production s t"

inductive_cases finance_stepE: "finance_step production s t"

text \<open>
  One step either leaves the database alone (every refusal does) or has one of the effects
  below on the tables the invariants speak of.
\<close>

definition finance_invariant :: "'m finance_db_scheme \<Rightarrow> bool" where
  "finance_invariant s \<longleftrightarrow> balanced_books s \<and> settlement_books s"

lemma finance_invariant_more:
  "runtime.more t = runtime.more s \<Longrightarrow> finance_invariant s \<Longrightarrow> finance_invariant t"
  by (auto dest: finance_more simp: finance_invariant_def settlement_books_def balanced_books_def)

lemma post_journal_settlements:
  assumes "post_journal_in_transaction ctx pr dto s = (Inr j, t)"
  shows "settlements t = settlements s \<and> settlement_lines t = settlement_lines s"
proof -
  have "keeps (\<lambda>s. (settlements s, settlement_lines s)) (post_journal_in_transaction ctx pr dto)"
    unfolding post_journal_in_transaction_def create_journal_def create_journal_line_def Let_def
    by (intro keeps_intros) simp_all
  then show ?thesis using assms by (auto dest: keepsD)
qed

lemma always_post_journal: "always finance_invariant (post_journal ctx pr dto)"
proof (rule always_atomic [OF atomic_post_journal finance_invariant_more])
  fix s t :: "'m finance_db_scheme" and j
  assume inv: "finance_invariant s" and "post_journal ctx pr dto s = (Inr j, t)"
  then have run: "post_journal_in_transaction ctx pr dto s = (Inr j, t)"
    by (simp add: post_journal_def)
  show "finance_invariant t"
    using inv post_journal_in_transaction_books [OF run] post_journal_settlements [OF run]
    by (simp add: finance_invariant_def balanced_books_def settlement_books_def)
qed

lemma always_reverse_journal: "always finance_invariant (reverse_journal ctx pr i dto)"
proof (rule always_atomic [OF atomic_reverse_journal finance_invariant_more])
  fix s t :: "'m finance_db_scheme" and j
  assume inv: "finance_invariant s" and "reverse_journal ctx pr i dto s = (Inr j, t)"
  then obtain dto' where run: "post_journal_in_transaction ctx pr dto' s = (Inr j, t)"
    by (blast dest: reverse_journal_cases)
  show "finance_invariant t"
    using inv post_journal_in_transaction_books [OF run] post_journal_settlements [OF run]
    by (simp add: finance_invariant_def balanced_books_def settlement_books_def)
qed

lemma always_calculate_settlement: "always finance_invariant (calculate_settlement ctx dto)"
proof (rule always_atomic [OF atomic_calculate_settlement finance_invariant_more])
  fix s t :: "'m finance_db_scheme" and x
  assume inv: "finance_invariant s" and run: "calculate_settlement ctx dto s = (Inr x, t)"
  have "keeps journal_lines (calculate_settlement ctx dto :: ('m finance_db_scheme, settlement) prog)"
    unfolding calculate_settlement_def create_settlement_def create_settlement_line_def
    by (intro keeps_intros) (auto dest: finance_more)
  with run have "journal_lines t = journal_lines s" by (auto dest: keepsD)
  with inv calculate_settlement_books [OF run] show "finance_invariant t"
    by (simp add: finance_invariant_def balanced_books_def)
qed

lemma always_approve_settlement: "always finance_invariant (approve_settlement ctx pr i)"
proof (rule always_atomic [OF atomic_approve_settlement finance_invariant_more])
  fix s t :: "'m finance_db_scheme" and y
  assume inv: "finance_invariant s" and run: "approve_settlement ctx pr i s = (Inr y, t)"
  from approve_settlement_effect [OF run] inv show "finance_invariant t"
    by (auto simp: finance_invariant_def balanced_books_def sound_settlement_def
        elim!: settlement_books_update)
qed

lemma always_pay_settlement: "always finance_invariant (pay_settlement production ctx i)"
proof (rule always_atomic [OF atomic_pay_settlement finance_invariant_more])
  fix s t :: "'m finance_db_scheme" and y
  assume inv: "finance_invariant s" and run: "pay_settlement production ctx i s = (Inr y, t)"
  from pay_settlement_effect [OF run] inv show "finance_invariant t"
    by (auto simp: finance_invariant_def balanced_books_def sound_settlement_def
        elim!: settlement_books_update)
qed

lemma always_reconcile: "always finance_invariant (reconcile ctx pr dto)"
  by (rule always_atomic [OF atomic_reconcile finance_invariant_more])
    (auto simp: reconcile_def finance_invariant_def balanced_books_def settlement_books_def)

lemmas finance_always = always_post_journal always_reverse_journal always_calculate_settlement
  always_approve_settlement always_pay_settlement always_reconcile

lemma finance_step_invariant: "finance_step production s t \<Longrightarrow> finance_invariant s \<Longrightarrow> finance_invariant t"
  by (erule finance_stepE) (blast dest: finance_always [THEN alwaysD])+

section \<open>The life of a settlement\<close>

definition same_money :: "settlement \<Rightarrow> settlement \<Rightarrow> bool" where
  "same_money x y \<longleftrightarrow> se_id y = se_id x \<and> se_tenantId y = se_tenantId x
     \<and> se_partnerId y = se_partnerId x \<and> se_currency y = se_currency x
     \<and> se_grossMinor y = se_grossMinor x \<and> se_feesMinor y = se_feesMinor x
     \<and> se_reserveMinor y = se_reserveMinor x \<and> se_adjustmentMinor y = se_adjustmentMinor x
     \<and> se_netMinor y = se_netMinor x"

inductive settlement_step :: "settlement \<Rightarrow> settlement \<Rightarrow> bool" where
  Approved: "se_status x = ''CALCULATED'' \<Longrightarrow> se_status y = ''APPROVED'' \<Longrightarrow> same_money x y \<Longrightarrow>
    se_version y = se_version x + 1 \<Longrightarrow> settlement_step x y"
| Paid: "se_status x = ''APPROVED'' \<Longrightarrow> se_status y = ''PAID'' \<Longrightarrow> same_money x y \<Longrightarrow>
    se_version y = se_version x + 1 \<Longrightarrow> settlement_step x y"

inductive_simps settlement_step_simps: "settlement_step x y"

lemma paid_is_final: "settlement_step\<^sup>*\<^sup>* x y \<Longrightarrow> se_status x = ''PAID'' \<Longrightarrow> y = x"
  by (erule converse_rtranclpE) (auto simp: settlement_step_simps)

lemma steps_same_money: "settlement_step\<^sup>*\<^sup>* x y \<Longrightarrow> same_money x y"
  by (induction rule: rtranclp_induct) (auto simp: settlement_step_simps same_money_def)

definition settlement_lives :: "settlement \<Rightarrow> 'm finance_db_scheme \<Rightarrow> bool" where
  "settlement_lives x t \<longleftrightarrow> (\<exists>y\<in>set (settlements t). settlement_step\<^sup>*\<^sup>* x y)"

lemma settlement_livesI: "x \<in> set (settlements s) \<Longrightarrow> settlements t = settlements s \<Longrightarrow> settlement_lives x t"
  by (auto simp: settlement_lives_def)

lemma updated_settlement_advances:
  assumes "List.find Q (settlements s) = Some z" and "\<And>x. Q x \<Longrightarrow> se_id x = i"
    and "settlements t = update_first (\<lambda>x. se_id x = i) f (settlements s)"
    and "settlement_step z (f z)"
    and "distinct (map se_id (settlements s))" and "x \<in> set (settlements s)"
  shows "settlement_lives x t"
proof (cases "se_id x = i")
  case True
  from assms(1,2) have z: "z \<in> set (settlements s)" "se_id z = i" by (auto dest: find_SomeD)
  have unique: "y = x" if "y \<in> set (settlements s)" "se_id y = i" for y
    using distinct_mapD [OF assms(5) that(1) assms(6)] that(2) True by simp
  from unique [OF z] have "z = x" .
  moreover have "f x \<in> set (settlements t)"
    unfolding assms(3) by (rule in_update_first_hit [where P = "\<lambda>x. se_id x = i"]) (fact assms(6) True unique)+
  ultimately show ?thesis using assms(4) by (auto simp: settlement_lives_def)
next
  case False
  with assms(3,6) have "x \<in> set (settlements t)" by (simp add: in_update_first)
  then show ?thesis by (auto simp: settlement_lives_def)
qed

definition journals_grow :: "'m finance_db_scheme \<Rightarrow> 'm finance_db_scheme \<Rightarrow> bool" where
  "journals_grow s t \<longleftrightarrow> (\<exists>js ls. journals t = journals s @ js \<and> journal_lines t = journal_lines s @ ls)"

lemma journals_growI: "journals t = journals s \<Longrightarrow> journal_lines t = journal_lines s \<Longrightarrow> journals_grow s t"
  by (simp add: journals_grow_def)

lemma journals_grow_trans: "journals_grow s t \<Longrightarrow> journals_grow t u \<Longrightarrow> journals_grow s u"
  by (auto simp: journals_grow_def)

lemma post_journal_grows:
  assumes "post_journal_in_transaction ctx pr dto s = (Inr j, t)"
  shows "journals_grow s t"
  using post_journal_cases [OF assms]
  by (auto simp: journals_grow_def dest!: create_journal_effect)

lemma finance_step_journals:
  assumes "finance_step production s t"
  shows "journals_grow s t"
  using assms
proof cases
  case (Post ctx pr dto r)
  show ?thesis
  proof (cases r)
    case (Inl e)
    with Post have "runtime.more t = runtime.more s" by (blast dest: atomic_post_journal [THEN atomicD])
    then show ?thesis by (auto dest: finance_more intro: journals_growI)
  next
    case (Inr j)
    with Post show ?thesis by (auto simp: post_journal_def intro: post_journal_grows)
  qed
next
  case (Reverse ctx pr i rdto r)
  show ?thesis
  proof (cases r)
    case (Inl e)
    with Reverse have "runtime.more t = runtime.more s" by (blast dest: atomic_reverse_journal [THEN atomicD])
    then show ?thesis by (auto dest: finance_more intro: journals_growI)
  next
    case (Inr j)
    with Reverse show ?thesis by (blast dest: reverse_journal_cases intro: post_journal_grows)
  qed
next
  case (Calculate ctx cdto r)
  have "keeps (\<lambda>s. (journals s, journal_lines s))
      (calculate_settlement ctx cdto :: ('m finance_db_scheme, settlement) prog)"
    unfolding calculate_settlement_def create_settlement_def create_settlement_line_def
    by (intro keeps_intros) (auto dest: finance_more)
  with Calculate show ?thesis by (auto dest: keepsD intro: journals_growI)
next
  case (Approve ctx pr i r)
  have "keeps (\<lambda>s. (journals s, journal_lines s))
      (approve_settlement ctx pr i :: ('m finance_db_scheme, settlement) prog)"
    unfolding approve_settlement_def by (intro keeps_intros) simp_all
  with Approve show ?thesis by (auto dest: keepsD intro: journals_growI)
next
  case (Pay ctx i r)
  have "keeps (\<lambda>s. (journals s, journal_lines s))
      (pay_settlement production ctx i :: ('m finance_db_scheme, settlement) prog)"
    unfolding pay_settlement_def by (intro keeps_intros) simp_all
  with Pay show ?thesis by (auto dest: keepsD intro: journals_growI)
next
  case (Reconcile ctx pr ddto r)
  have "keeps (\<lambda>s. (journals s, journal_lines s))
      (reconcile ctx pr ddto :: ('m finance_db_scheme, reconciliation_run) prog)"
    unfolding reconcile_def Let_def by (intro keeps_intros) simp_all
  with Reconcile show ?thesis by (auto dest: keepsD intro: journals_growI)
qed

lemma approve_settlement_lives:
  assumes "approve_settlement ctx pr i s = (Inr z, t)" and "settlement_books s" and "x \<in> set (settlements s)"
  shows "settlement_lives x t"
proof -
  from approve_settlement_effect [OF assms(1)] obtain y f where
    y: "List.find (\<lambda>x. se_id x = i \<and> se_tenantId x = ctx_tenantId ctx \<and> se_status x = ''CALCULATED'')
            (settlements s) = Some y"
    and f: "f = (\<lambda>x. x\<lparr>se_status := ''APPROVED'', se_approvedBy := Some (pr_userId pr),
              se_approvedAt := Some (clock s (clock_reads s)), se_version := se_version x + 1\<rparr>)"
    and t: "settlements t = update_first (\<lambda>x. se_id x = i) f (settlements s)" by blast
  have "settlement_step y (f y)"
    using find_SomeD [OF y] by (simp add: f settlement_step_simps same_money_def)
  with y t assms(2,3) show ?thesis
    by (intro updated_settlement_advances [OF y _ t]) (simp_all add: settlement_books_def)
qed

lemma pay_settlement_lives:
  assumes "pay_settlement production ctx i s = (Inr z, t)" and "settlement_books s" and "x \<in> set (settlements s)"
  shows "settlement_lives x t"
proof -
  from pay_settlement_effect [OF assms(1)] obtain y f where
    y: "List.find (\<lambda>x. se_id x = i \<and> se_tenantId x = ctx_tenantId ctx \<and> se_status x = ''APPROVED'')
            (settlements s) = Some y"
    and f: "f = (\<lambda>x. x\<lparr>se_status := ''PAID'', se_paidAt := Some (clock s (clock_reads s)),
              se_version := se_version x + 1\<rparr>)"
    and t: "settlements t = update_first (\<lambda>x. se_id x = i) f (settlements s)" by blast
  have "settlement_step y (f y)"
    using find_SomeD [OF y] by (simp add: f settlement_step_simps same_money_def)
  with y t assms(2,3) show ?thesis
    by (intro updated_settlement_advances [OF y _ t]) (simp_all add: settlement_books_def)
qed

lemma refused_settlement_lives:
  "atomic m \<Longrightarrow> m s = (Inl e, t) \<Longrightarrow> x \<in> set (settlements s) \<Longrightarrow> settlement_lives x t"
  by (auto dest!: atomicD dest: finance_more intro: settlement_livesI)

lemma posted_settlement_lives:
  "post_journal_in_transaction ctx pr dto s = (Inr j, t) \<Longrightarrow> x \<in> set (settlements s) \<Longrightarrow>
   settlement_lives x t"
  by (auto dest!: post_journal_settlements intro: settlement_livesI)

lemma finance_step_settlement:
  assumes "finance_step production s t" and "settlement_books s" and "x \<in> set (settlements s)"
  shows "settlement_lives x t"
  using assms(1)
proof cases
  case (Post ctx pr dto r)
  with assms(3) show ?thesis
    by (cases r) (auto simp: post_journal_def intro: posted_settlement_lives
        refused_settlement_lives [OF atomic_post_journal [unfolded post_journal_def]])
next
  case (Reverse ctx pr i rdto r)
  with assms(3) show ?thesis
    by (cases r) (blast dest: reverse_journal_cases intro: posted_settlement_lives
        refused_settlement_lives [OF atomic_reverse_journal])+
next
  case (Calculate ctx cdto r)
  show ?thesis
  proof (cases r)
    case (Inl e)
    with Calculate assms(3) show ?thesis
      by (blast intro: refused_settlement_lives [OF atomic_calculate_settlement])
  next
    case (Inr z)
    with Calculate calculate_settlement_books [of ctx cdto s z t] assms(2,3) show ?thesis
      by (auto simp: settlement_lives_def)
  qed
next
  case (Approve ctx pr i r)
  with assms show ?thesis
    by (cases r) (blast intro: approve_settlement_lives
        refused_settlement_lives [OF atomic_approve_settlement])+
next
  case (Pay ctx i r)
  with assms show ?thesis
    by (cases r) (blast intro: pay_settlement_lives
        refused_settlement_lives [OF atomic_pay_settlement])+
next
  case (Reconcile ctx pr ddto r)
  have "keeps settlements (reconcile ctx pr ddto :: ('m finance_db_scheme, reconciliation_run) prog)"
    unfolding reconcile_def Let_def by (intro keeps_intros) simp_all
  with Reconcile assms(3) show ?thesis by (auto dest: keepsD intro: settlement_livesI)
qed

lemma finance_run:
  assumes "(finance_step production)\<^sup>*\<^sup>* s t" and "finance_invariant s"
  shows "finance_invariant t \<and> journals_grow s t \<and> (\<forall>x\<in>set (settlements s). settlement_lives x t)"
  using assms(1)
proof (induction rule: rtranclp_induct)
  case base
  show ?case using assms(2) by (auto intro: journals_growI settlement_livesI)
next
  case (step t u)
  then have inv: "finance_invariant t" by blast
  then have books: "settlement_books t" by (simp add: finance_invariant_def)
  have "settlement_lives x u" if "x \<in> set (settlements s)" for x
  proof -
    from step.IH that obtain y where "y \<in> set (settlements t)" "settlement_step\<^sup>*\<^sup>* x y"
      by (auto simp: settlement_lives_def)
    with finance_step_settlement [OF step.hyps(2) books] show ?thesis
      by (metis settlement_lives_def rtranclp_trans)
  qed
  then show ?case
    using step.IH finance_step_invariant [OF step.hyps(2) inv]
      finance_step_journals [OF step.hyps(2)] journals_grow_trans by blast
qed


section \<open>Posting is idempotent\<close>

definition key_taken :: "tenant_context \<times> auth_principal \<times> post_journal_dto \<Rightarrow> 'm finance_db_scheme
    \<Rightarrow> journal_entry option" where
  "key_taken = (\<lambda>(ctx, pr, dto) s. List.find (\<lambda>j. je_tenantId j = ctx_tenantId ctx
     \<and> je_idempotencyKey j = pj_idempotencyKey dto) (journals s))"

definition postable :: "tenant_context \<times> auth_principal \<times> post_journal_dto \<Rightarrow> 'm finance_db_scheme \<Rightarrow> bool" where
  "postable = (\<lambda>(ctx, pr, dto) s.
     sum_list (map jd_debitMinor (pj_lines dto)) = sum_list (map jd_creditMinor (pj_lines dto))
     \<and> 0 < sum_list (map jd_debitMinor (pj_lines dto))
     \<and> (\<forall>l\<in>set (pj_lines dto). (jd_debitMinor l > 0) \<noteq> (jd_creditMinor l > 0))
     \<and> length (filter (\<lambda>a. fa_tenantId a = ctx_tenantId ctx \<and> fa_id a \<in> set (map jd_accountId (pj_lines dto))
           \<and> fa_currency a = js_upper (pj_currency dto) \<and> fa_active a) (accounts s))
       = length (js_set (map jd_accountId (pj_lines dto))))"

lemma post_journal_accounts:
  assumes "post_journal ctx pr dto s = (r, t)"
  shows "accounts t = accounts s"
proof -
  have "keeps accounts (post_journal ctx pr dto :: ('m finance_db_scheme, journal_entry) prog)"
    unfolding post_journal_def post_journal_in_transaction_def create_journal_def
      create_journal_line_def Let_def
    by (intro keeps_intros) (auto dest: finance_more)
  with assms show ?thesis by (auto dest: keepsD)
qed

lemma post_journal_postable:
  assumes "post_journal ctx pr dto s = (Inr j, t)"
  shows "postable (ctx, pr, dto) s"
  using assms unfolding post_journal_def post_journal_in_transaction_def Let_def postable_def
  by (auto simp: list_ex_iff)

lemma post_journal_replayed:
  assumes "postable (ctx, pr, dto) s" and "key_taken (ctx, pr, dto) s = Some j"
  shows "post_journal ctx pr dto s = (Inr j, s)"
  using assms unfolding post_journal_def post_journal_in_transaction_def Let_def postable_def key_taken_def
  by (auto simp: list_ex_iff)

interpretation posting: idempotent_command
  "\<lambda>(ctx, pr, dto). post_journal ctx pr dto" key_taken postable "\<lambda>j. j"
proof (unfold_locales, goal_cases)
  case (1 x s j t)
  obtain ctx pr dto where x: "x = (ctx, pr, dto)" by (cases x)
  from 1 have run: "post_journal ctx pr dto s = (Inr j, t)" by (simp add: x)
  have "key_taken (ctx, pr, dto) t = Some j"
    using post_journal_cases [of ctx pr dto s j t] run
    by (auto simp: post_journal_def key_taken_def find_append dest!: create_journal_effect)
  moreover have "postable (ctx, pr, dto) t"
    using post_journal_postable [OF run] post_journal_accounts [OF run] by (simp add: postable_def)
  ultimately show ?case by (simp add: x)
next
  case (2 x s j)
  then show ?case by (cases x) (simp add: post_journal_replayed)
qed

section \<open>Concrete books\<close>

definition account_row :: "string \<Rightarrow> string \<Rightarrow> financial_account" where
  "account_row i code = \<lparr>fa_id = i, fa_tenantId = ''tenant'', fa_code = code, fa_name = code,
     fa_type = ''ASSET'', fa_currency = ''EUR'', fa_active = True\<rparr>"

definition some_books :: finance_db where
  "some_books = fresh_finance\<lparr>accounts := [account_row ''cash'' ''1000'', account_row ''payable'' ''2000'']\<rparr>"

definition sale_journal :: post_journal_dto where
  "sale_journal = \<lparr>pj_sourceType = ''SALE'', pj_sourceId = ''seller'', pj_description = ''sale'',
     pj_currency = ''eur'', pj_idempotencyKey = ''key-1'', pj_reversalOfId = None, pj_lines =
       [\<lparr>jd_accountId = ''cash'', jd_debitMinor = 500, jd_creditMinor = 0, jd_memo = None\<rparr>,
        \<lparr>jd_accountId = ''payable'', jd_debitMinor = 0, jd_creditMinor = 500, jd_memo = None\<rparr>]\<rparr>"

definition sale_posted :: finance_db where
  "sale_posted = snd (post_journal some_context some_principal sale_journal some_books)"

definition sale_period :: calculate_settlement_dto where
  "sale_period = \<lparr>cs_partnerKind = ''SELLER'', cs_partnerId = ''seller'', cs_periodStart = 0,
     cs_periodEnd = 10, cs_currency = ''eur'', cs_reserveMinor = 20, cs_adjustmentMinor = 0\<rparr>"

definition sale_settled :: finance_db where
  "sale_settled = snd (calculate_settlement some_context sale_period sale_posted)"

definition sale_approved :: finance_db where
  "sale_approved = snd (approve_settlement some_context some_principal ''3'' sale_settled)"

lemma some_books_invariant: "finance_invariant some_books"
  by (simp add: finance_invariant_def balanced_books_def settlement_books_def some_books_def
      entry_net_def settled_journals_def fresh_finance_def finance_db.defs inventory_db.defs)

lemma sale_steps:
  "finance_step False some_books sale_posted"
  "finance_step False sale_posted sale_settled"
  "finance_step False sale_settled sale_approved"
  unfolding sale_posted_def sale_settled_def sale_approved_def
  by (rule Post Calculate Approve, rule surjective_pairing)+

lemma sale_run:
  "(finance_step False)\<^sup>*\<^sup>* some_books sale_settled"
  "(finance_step False)\<^sup>*\<^sup>* sale_settled sale_approved"
  "(finance_step False)\<^sup>*\<^sup>* some_books sale_approved"
proof -
  show settled: "(finance_step False)\<^sup>*\<^sup>* some_books sale_settled"
    using sale_steps(1,2) by (rule converse_rtranclp_into_rtranclp [OF _ r_into_rtranclp])
  show "(finance_step False)\<^sup>*\<^sup>* sale_settled sale_approved"
    using sale_steps(3) by (rule r_into_rtranclp)
  then show "(finance_step False)\<^sup>*\<^sup>* some_books sale_approved"
    by (rule rtranclp_trans [OF settled])
qed

text \<open>What the calculation and the approval of the settlement leave behind, in one evaluation.\<close>

definition sale_scene :: "(app_error + settlement) \<times> finance_db \<Rightarrow> bool" where
  "sale_scene run \<longleftrightarrow> (case run of (Inr x, s) \<Rightarrow> se_grossMinor x = 500
       \<and> (case approve_settlement some_context some_principal ''3'' s of (r, t) \<Rightarrow>
            length (journal_lines t) = 2
            \<and> map (\<lambda>x. (se_status x, se_netMinor x)) (settlements t) = [(''APPROVED'', 465)])
     | _ \<Rightarrow> False)"

lemma sale_scene_holds: "sale_scene (calculate_settlement some_context sale_period sale_posted)"
  by code_simp

lemma sale_settled_run:
  "calculate_settlement some_context sale_period sale_posted =
     (Inr (answer (fst (calculate_settlement some_context sale_period sale_posted))), sale_settled)"
  "se_grossMinor (answer (fst (calculate_settlement some_context sale_period sale_posted))) = 500"
  "length (journal_lines sale_approved) = 2"
  "map (\<lambda>x. (se_status x, se_netMinor x)) (settlements sale_approved) = [(''APPROVED'', 465)]"
  using sale_scene_holds unfolding sale_approved_def sale_settled_def sale_scene_def
  by (auto simp: answer_def split: prod.splits sum.splits)

section \<open>Properties\<close>

text \<open>
  C11. Along every run of the finance operations, refused calls included, the books stay
  balanced entry by entry, every settlement is the sum of its lines less fees and reserve
  and not negative, and no journal belongs to two settlements.
\<close>

theorem finance_run_keeps_books:
  assumes "(finance_step production)\<^sup>*\<^sup>* s t" and "finance_invariant s"
  shows "finance_invariant t"
  using finance_run [OF assms] by blast

theorem finance_run_keeps_books_witness:
  "finance_invariant sale_approved \<and> length (journal_lines sale_approved) = 2
     \<and> map (\<lambda>x. (se_status x, se_netMinor x)) (settlements sale_approved) = [(''APPROVED'', 465)]"
proof (intro conjI)
  show "finance_invariant sale_approved"
    by (rule finance_run_keeps_books [OF sale_run(3) some_books_invariant])
  show "length (journal_lines sale_approved) = 2" by (rule sale_settled_run(3))
  show "map (\<lambda>x. (se_status x, se_netMinor x)) (settlements sale_approved) = [(''APPROVED'', 465)]"
    by (rule sale_settled_run(4))
qed

text \<open>
  A settlement only ever moves from calculated to approved to paid, with its money
  unchanged and its version counted; once paid, it is never touched again.
\<close>

theorem settlement_life:
  assumes "(finance_step production)\<^sup>*\<^sup>* s t" and "finance_invariant s" and "x \<in> set (settlements s)"
  shows "\<exists>y\<in>set (settlements t). settlement_step\<^sup>*\<^sup>* x y \<and> same_money x y
    \<and> (se_status x = ''PAID'' \<longrightarrow> y = x)"
proof -
  from finance_run [OF assms(1,2)] assms(3) obtain y
    where "y \<in> set (settlements t)" "settlement_step\<^sup>*\<^sup>* x y" by (auto simp: settlement_lives_def)
  then show ?thesis using steps_same_money paid_is_final by blast
qed

text \<open>
  A posted journal is immutable: every run of the finance operations only appends
  entries and lines.
\<close>

theorem journals_only_appended:
  assumes "(finance_step production)\<^sup>*\<^sup>* s t"
  shows "\<exists>js ls. journals t = journals s @ js \<and> journal_lines t = journal_lines s @ ls"
proof -
  have "journals_grow s t"
    using assms
    by (induction rule: rtranclp_induct) (blast intro: journals_growI journals_grow_trans finance_step_journals)+
  then show ?thesis by (simp add: journals_grow_def)
qed

text \<open>
  C21. A reversal under a new key appends one entry that points at its original, and the new
  lines net the original to zero on every account.
\<close>

theorem reversal_nets_to_zero:
  assumes "reverse_journal ctx pr entryId dto s = (Inr r, t)"
    and "\<forall>j\<in>set (journals s). \<not> (je_tenantId j = ctx_tenantId ctx \<and> je_idempotencyKey j = rj_idempotencyKey dto)"
  shows "\<exists>ls. journal_lines t = journal_lines s @ ls \<and> journals t = journals s @ [r]
    \<and> je_reversalOfId r = Some entryId
    \<and> (\<forall>a. account_total ls a =
          - account_total (filter (\<lambda>l. jl_journalEntryId l = entryId) (journal_lines s)) a)"
  by (rule reverse_journal_nets [OF assms])

definition sale_reversal :: reverse_journal_dto where
  "sale_reversal = \<lparr>rj_idempotencyKey = ''key-2'', rj_reason = ''returned''\<rparr>"

lemma settled_by_lines:
  assumes "map sl_journalEntryId ls = map (je_id \<circ> fst) (map (\<lambda>j. (j, f j)) js)" and "j \<in> set js"
  shows "\<exists>l\<in>set ls. sl_journalEntryId l = je_id j"
proof -
  from assms(1) have "map sl_journalEntryId ls = map je_id js" by (simp add: comp_def)
  then have "sl_journalEntryId ` set ls = je_id ` set js" by (metis list.set_map)
  with assms(2) show ?thesis by force
qed




theorem reversal_nets_to_zero_witness:
  "\<exists>(r :: journal_entry) ls. journal_lines (snd (reverse_journal some_context some_principal ''0'' sale_reversal sale_posted))
      = journal_lines sale_posted @ ls \<and> je_reversalOfId r = Some ''0''
    \<and> (\<forall>a. account_total ls a =
          - account_total (filter (\<lambda>l. jl_journalEntryId l = ''0'') (journal_lines sale_posted)) a)"
proof -
  let ?m = "reverse_journal some_context some_principal ''0'' sale_reversal"
  have "?m sale_posted = (Inr (answer (fst (?m sale_posted))), snd (?m sale_posted))"
    by (rule returned_run) code_simp
  moreover have "\<forall>j\<in>set (journals sale_posted). \<not> (je_tenantId j = ctx_tenantId some_context
      \<and> je_idempotencyKey j = rj_idempotencyKey sale_reversal)"
    by code_simp
  ultimately show ?thesis by (blast dest: reversal_nets_to_zero)
qed

text \<open>
  Posting is idempotent in its key: repeated, the same command answers the entry it
  posted the first time and leaves the whole state as it is.
\<close>

theorem posting_is_idempotent:
  assumes "post_journal ctx pr dto s = (Inr j, t)"
  shows "post_journal ctx pr dto t = (Inr j, t) \<and> ((\<lambda>u. snd (post_journal ctx pr dto u)) ^^ n) t = t"
  using posting.run_again [of "(ctx, pr, dto)" s j t] posting.run_many [of "(ctx, pr, dto)" s j t n] assms
  by simp


end
