(* ===== verification/Logistics_Rules.thy ===== *)
theory Logistics_Rules
  imports Prelude
begin

text \<open>
  The pure rules of international logistics,
  \<open>apps/api/src/international-logistics/international-logistics.rules.ts\<close>: the check digits
  of postal S10 identifiers and of serial shipping container codes, the normal form of
  UN/LOCODEs, the capacity of a consolidation and the tables of status transitions.

  The lemmas show what the check digits are for: which single-digit errors they detect. They
  also show that building and validating agree, and what the allowed_step tables let a claim, a
  consolidation and a dispatch do along any sequence of transitions.
\<close>

section \<open>Check digits\<close>

definition digits :: "nat \<Rightarrow> string \<Rightarrow> bool" where
  "digits n s \<longleftrightarrow> length s = n \<and> list_all is_digit s"

definition letters :: "nat \<Rightarrow> string \<Rightarrow> bool" where
  "letters n s \<longleftrightarrow> length s = n \<and> list_all is_upper s"

definition S10_WEIGHTS :: "int list" where
  "S10_WEIGHTS = [8, 6, 4, 2, 3, 5, 9, 7]"

definition s10_sum :: "string \<Rightarrow> int" where
  "s10_sum serial = sum_list (map2 (\<lambda>d w. digit_value d * w) serial S10_WEIGHTS)"

definition s10CheckDigit :: "string \<Rightarrow> app_error + int" where
  "s10CheckDigit serial =
     (if \<not> digits 8 serial then Inl (Plain_Error ''S10 serial must contain eight digits'')
      else let candidate = 11 - s10_sum serial mod 11
           in Inr (if candidate = 10 then 0 else if candidate = 11 then 5 else candidate))"

definition buildS10Identifier :: "string \<Rightarrow> string \<Rightarrow> string \<Rightarrow> app_error + string" where
  "buildS10Identifier serviceIndicator serial countryCode =
     (let service = js_upper serviceIndicator; country = js_upper countryCode
      in if \<not> letters 2 service
         then Inl (Plain_Error ''S10 service indicator must be two letters'')
         else if \<not> letters 2 country
         then Inl (Plain_Error ''S10 country code must be two letters'')
         else (case s10CheckDigit serial of
                 Inl e \<Rightarrow> Inl e
               | Inr d \<Rightarrow> Inr (service @ serial @ show_int d @ country)))"

text \<open>
  \<open>s10CheckDigit\<close> cannot throw here: the pattern has fixed its argument to eight digits.
\<close>

definition isValidS10Identifier :: "string \<Rightarrow> bool" where
  "isValidS10Identifier identifier =
     (let normalized = js_upper identifier
      in letters 2 (take 2 normalized) \<and> digits 9 (take 9 (drop 2 normalized))
         \<and> letters 2 (drop 11 normalized)
         \<and> s10CheckDigit (take 8 (drop 2 normalized)) = Inr (digit_value (normalized ! 10)))"

definition sscc_sum :: "string \<Rightarrow> int" where
  "sscc_sum body = sum_list (map2 (\<lambda>d index. digit_value d * (if index mod 2 = 0 then 3 else 1))
     (rev body) [0..<length body])"

definition ssccCheckDigit :: "string \<Rightarrow> app_error + int" where
  "ssccCheckDigit body =
     (if \<not> digits 17 body then Inl (Plain_Error ''SSCC body must contain seventeen digits'')
      else Inr ((10 - sscc_sum body mod 10) mod 10))"

definition isValidSscc :: "string \<Rightarrow> bool" where
  "isValidSscc sscc \<longleftrightarrow> digits 18 sscc \<and> ssccCheckDigit (take 17 sscc) = Inr (digit_value (sscc ! 17))"

section \<open>Locations and capacity\<close>

definition is_location_char :: "char \<Rightarrow> bool" where
  "is_location_char c \<longleftrightarrow> is_upper c \<or> (is_digit c \<and> digit_value c \<ge> 2)"

definition normalizeUnLocode :: "string \<Rightarrow> app_error + string" where
  "normalizeUnLocode code =
     (let normalized = js_upper (filter (\<lambda>c. c \<noteq> CHR '' '') code)
      in if letters 2 (take 2 normalized) \<and> length normalized = 5
            \<and> list_all is_location_char (drop 2 normalized)
         then Inr normalized
         else Inl (Plain_Error ''UN/LOCODE must be an ISO country code plus three location characters''))"

definition assertCapacity ::
  "int option \<Rightarrow> int option \<Rightarrow> int \<Rightarrow> int \<Rightarrow> int \<Rightarrow> int \<Rightarrow> app_error + unit"
where
  "assertCapacity maximumWeight maximumVolume currentWeight currentVolume addedWeight addedVolume =
     (if (case maximumWeight of None \<Rightarrow> False | Some m \<Rightarrow> currentWeight + addedWeight > m)
      then Inl (Plain_Error ''Consolidation weight capacity exceeded'')
      else if (case maximumVolume of None \<Rightarrow> False | Some m \<Rightarrow> currentVolume + addedVolume > m)
      then Inl (Plain_Error ''Consolidation volume capacity exceeded'')
      else Inr ())"

section \<open>Status transitions\<close>

datatype workflow = CONSOLIDATION | POSTAL_DISPATCH | INSURANCE_CLAIM

type_synonym transition_table = "(string \<times> string list) list"

definition CONSOLIDATION_TRANSITIONS :: transition_table where
  "CONSOLIDATION_TRANSITIONS =
     [(''DRAFT'', [''OPEN'', ''CANCELLED'']),
      (''OPEN'', [''CLOSED'', ''CANCELLED'']),
      (''CLOSED'', [''LOADED'', ''OPEN'']),
      (''LOADED'', [''DEPARTED'', ''CLOSED'']),
      (''DEPARTED'', [''ARRIVED'', ''EXCEPTION'']),
      (''EXCEPTION'', [''DEPARTED'', ''ARRIVED'', ''CANCELLED'']),
      (''ARRIVED'', [''DECONSOLIDATED'']),
      (''DECONSOLIDATED'', [''COMPLETED''])]"

definition POSTAL_DISPATCH_TRANSITIONS :: transition_table where
  "POSTAL_DISPATCH_TRANSITIONS =
     [(''OPEN'', [''CLOSED'', ''CANCELLED'']),
      (''CLOSED'', [''HANDED_OVER'', ''OPEN'']),
      (''HANDED_OVER'', [''IN_TRANSIT'', ''RECEIVED'']),
      (''IN_TRANSIT'', [''RECEIVED'', ''EXCEPTION'']),
      (''EXCEPTION'', [''IN_TRANSIT'', ''RECEIVED'']),
      (''RECEIVED'', [''VERIFIED''])]"

definition CLAIM_TRANSITIONS :: transition_table where
  "CLAIM_TRANSITIONS =
     [(''DRAFT'', [''SUBMITTED'', ''CANCELLED'']),
      (''SUBMITTED'', [''UNDER_REVIEW'', ''INFO_REQUIRED'', ''REJECTED'']),
      (''INFO_REQUIRED'', [''SUBMITTED'', ''CANCELLED'']),
      (''UNDER_REVIEW'', [''INFO_REQUIRED'', ''APPROVED'', ''PARTIALLY_APPROVED'', ''REJECTED'']),
      (''APPROVED'', [''PAID'']),
      (''PARTIALLY_APPROVED'', [''PAID'']),
      (''REJECTED'', [''CLOSED'']),
      (''PAID'', [''CLOSED''])]"

fun transitions_of :: "workflow \<Rightarrow> transition_table" where
  "transitions_of CONSOLIDATION = CONSOLIDATION_TRANSITIONS"
| "transitions_of POSTAL_DISPATCH = POSTAL_DISPATCH_TRANSITIONS"
| "transitions_of INSURANCE_CLAIM = CLAIM_TRANSITIONS"

fun workflow_name :: "workflow \<Rightarrow> string" where
  "workflow_name CONSOLIDATION = ''consolidation''"
| "workflow_name POSTAL_DISPATCH = ''postal_dispatch''"
| "workflow_name INSURANCE_CLAIM = ''insurance_claim''"

definition assertTransition :: "workflow \<Rightarrow> string \<Rightarrow> string \<Rightarrow> app_error + unit" where
  "assertTransition w current next =
     (case map_of (transitions_of w) current of
        Some nexts \<Rightarrow> if next \<in> set nexts then Inr ()
          else Inl (Plain_Error (''Invalid '' @ workflow_name w @ '' transition: '' @ current @ '' to '' @ next))
      | None \<Rightarrow> Inl (Plain_Error (''Invalid '' @ workflow_name w @ '' transition: '' @ current @ '' to '' @ next)))"

section \<open>The S10 check digit\<close>

lemma digit_value_bounds: "is_digit c \<Longrightarrow> 0 \<le> digit_value c \<and> digit_value c \<le> 9"
  by (auto simp: is_digit_def digit_value_def Let_def)

lemma digit_value_inj: "digit_value c = digit_value d \<longleftrightarrow> c = d"
  by (auto simp: digit_value_def)

lemma of_char_upper: "(of_char (upper_char c) :: nat) =
    (if 97 \<le> (of_char c :: nat) \<and> (of_char c :: nat) \<le> 122 then of_char c - 32 else of_char c)"
  by (auto simp: upper_char_def Let_def)

lemma upper_char_idem: "upper_char (upper_char c) = upper_char c"
proof -
  have "\<not> (97 \<le> (of_char (upper_char c) :: nat) \<and> (of_char (upper_char c) :: nat) \<le> 122)"
    unfolding of_char_upper by auto
  then show ?thesis unfolding upper_char_def [of "upper_char c"] Let_def by (rule if_not_P)
qed

lemma js_upper_idem [simp]: "js_upper (js_upper s) = js_upper s"
  by (simp add: js_upper_def upper_char_idem)

lemma js_upper_append [simp]: "js_upper (s @ t) = js_upper s @ js_upper t"
  by (simp add: js_upper_def)

lemma upper_id: "is_upper c \<Longrightarrow> upper_char c = c" "is_digit c \<Longrightarrow> upper_char c = c"
  by (auto simp: upper_char_def is_upper_def is_digit_def Let_def)

lemma js_upper_id: "list_all (\<lambda>c. is_upper c \<or> is_digit c) s \<Longrightarrow> js_upper s = s"
  unfolding js_upper_def list_all_iff by (rule map_idI) (auto simp: upper_id)

lemma length_js_upper [simp]: "length (js_upper s) = length s"
  by (simp add: js_upper_def)

lemma show_digit: "0 \<le> d \<Longrightarrow> d \<le> 9 \<Longrightarrow> show_int d = [char_of (48 + nat d)]"
  by (simp add: show_int_def show_base.simps [of 10 "nat d"] digit_char_def nat_less_iff)

lemma shown_digit:
  assumes "0 \<le> d" and "d \<le> 9"
  shows "digit_value (char_of (48 + nat d)) = d \<and> is_digit (char_of (48 + nat d))"
proof -
  from assms have "(48 + nat d) mod 256 = 48 + nat d" "nat d \<le> 9" by auto
  with assms show ?thesis by (simp add: digit_value_def is_digit_def)
qed

lemma s10_digit_bounds: "s10CheckDigit serial = Inr d \<Longrightarrow> 0 \<le> d \<and> d \<le> 9"
  by (auto simp: s10CheckDigit_def Let_def split: if_splits)

lemma s10_digits: "s10CheckDigit serial = Inr d \<Longrightarrow> digits 8 serial"
  by (auto simp: s10CheckDigit_def split: if_splits)

text \<open>
  The two rests that share the check digit 5 are the only ones two different rests share.
\<close>

lemma s10_same_digit:
  assumes "s10CheckDigit a = Inr d" and "s10CheckDigit b = Inr d"
  shows "s10_sum a mod 11 = s10_sum b mod 11 \<or> {s10_sum a mod 11, s10_sum b mod 11} = {0, 6}"
  using assms by (auto simp: s10CheckDigit_def Let_def split: if_splits)

lemma digits_list_all: "digits n s \<Longrightarrow> list_all (\<lambda>c. is_upper c \<or> is_digit c) s"
  by (auto simp: digits_def list_all_iff)

lemma letters_list_all: "letters n s \<Longrightarrow> list_all (\<lambda>c. is_upper c \<or> is_digit c) s"
  by (auto simp: letters_def list_all_iff)

lemma js_upper_digits [simp]: "digits n s \<Longrightarrow> js_upper s = s"
  by (blast intro: js_upper_id digits_list_all)

lemma js_upper_letters [simp]: "letters n s \<Longrightarrow> js_upper s = s"
  by (blast intro: js_upper_id letters_list_all)

lemma built_identifier_valid:
  assumes "buildS10Identifier service serial country = Inr i"
  shows "isValidS10Identifier i \<and> js_upper i = i \<and> length i = 13"
proof -
  from assms obtain d where d: "s10CheckDigit serial = Inr d"
    and letters: "letters 2 (js_upper service)" "letters 2 (js_upper country)"
    and i: "i = js_upper service @ serial @ show_int d @ js_upper country"
    by (auto simp: buildS10Identifier_def Let_def split: if_splits sum.splits)
  note bounds = s10_digit_bounds [OF d]
  let ?c = "char_of (48 + nat d) :: char"
  have c: "digit_value ?c = d" "is_digit ?c" using shown_digit bounds by auto
  have i': "i = js_upper service @ serial @ [?c] @ js_upper country"
    using bounds by (simp add: i show_digit)
  have serial: "digits 8 serial" using d by (rule s10_digits)
  have c1: "js_upper [?c] = [?c]" using c by (simp add: js_upper_def upper_id)
  have up: "js_upper i = i" unfolding i' js_upper_append c1 using serial letters by simp
  have len: "length (js_upper service) = 2" "length serial = 8" "length (js_upper country) = 2"
    using letters serial by (simp_all add: letters_def digits_def)
  have parts: "take 2 i = js_upper service" "take 9 (drop 2 i) = serial @ [?c]"
    "drop 11 i = js_upper country" "take 8 (drop 2 i) = serial" "i ! 10 = ?c"
    unfolding i' using len by (simp_all add: nth_append)
  have "digits 9 (serial @ [?c])" using serial c by (simp add: digits_def)
  then have "isValidS10Identifier i"
    unfolding isValidS10Identifier_def Let_def up parts using letters d c by simp
  with up len i' show ?thesis by simp
qed

lemma valid_identifier_built:
  assumes "isValidS10Identifier i"
  shows "\<exists>service serial country. buildS10Identifier service serial country = Inr (js_upper i)"
proof -
  let ?n = "js_upper i"
  let ?d = "digit_value (?n ! 10)"
  from assms have parts: "letters 2 (take 2 ?n)" "digits 9 (take 9 (drop 2 ?n))"
      "letters 2 (drop 11 ?n)" "s10CheckDigit (take 8 (drop 2 ?n)) = Inr ?d"
    by (simp_all add: isValidS10Identifier_def Let_def)
  then have len: "length ?n = 13" by (auto simp: letters_def)
  have "is_digit (?n ! 10)"
  proof -
    have "take 9 (drop 2 ?n) ! 8 = ?n ! 10" using len by simp
    moreover have "is_digit (take 9 (drop 2 ?n) ! 8)"
    proof -
      have "length (take 9 (drop 2 ?n)) = 9 \<and> list_all is_digit (take 9 (drop 2 ?n))"
        using parts(2) unfolding digits_def by blast
      then show ?thesis by (simp only: list_all_length)
    qed
    ultimately show ?thesis by simp
  qed
  then have "show_int ?d = [?n ! 10]"
    using digit_value_bounds shown_digit digit_value_inj show_digit by metis
  moreover have "?n ! 10 # drop 11 ?n = drop 10 ?n"
    using Cons_nth_drop_Suc [of 10 ?n] len by simp
  moreover have "take 8 (drop 2 ?n) @ drop 10 ?n = drop 2 ?n"
    using append_take_drop_id [of 8 "drop 2 ?n"] by simp
  ultimately have "take 2 ?n @ take 8 (drop 2 ?n) @ show_int ?d @ drop 11 ?n = ?n"
    by (metis append_Cons append_Nil append_take_drop_id)
  then have "buildS10Identifier (take 2 ?n) (take 8 (drop 2 ?n)) (drop 11 ?n) = Inr ?n"
    using parts by (simp add: buildS10Identifier_def Let_def)
  then show ?thesis by blast
qed


section \<open>Errors the check digits detect\<close>

lemma sum_map2_update:
  assumes "k < length xs" and "length xs \<le> length ws"
  shows "(sum_list (map2 f (xs[k := c]) ws) :: int) =
    sum_list (map2 f xs ws) + (f c (ws ! k) - f (xs ! k) (ws ! k))"
  using assms
proof (induction xs arbitrary: k ws)
  case Nil
  then show ?case by simp
next
  case (Cons x xs)
  then obtain w ws' where "ws = w # ws'" by (cases ws) auto
  with Cons show ?case by (cases k) auto
qed

lemma digit_difference:
  assumes "is_digit c" and "is_digit d" and "c \<noteq> d"
  shows "digit_value c - digit_value d \<in> set [-9..9]" and "digit_value c - digit_value d \<noteq> 0"
  using digit_value_bounds [OF assms(1)] digit_value_bounds [OF assms(2)] digit_value_inj [of c d] assms(3)
  by auto

lemma weight_mod_11:
  assumes "w \<in> set S10_WEIGHTS" and "d \<in> set [-9..9]" and "d \<noteq> 0"
  shows "(d * w) mod 11 \<noteq> 0"
proof -
  have "\<forall>w\<in>set S10_WEIGHTS. \<forall>d\<in>set [-9..9]. d \<noteq> 0 \<longrightarrow> (d * w) mod 11 \<noteq> 0" by code_simp
  from bspec [OF bspec [OF this assms(1)] assms(2)] assms(3) show ?thesis by simp
qed

lemma weight_mod_10:
  assumes "w \<in> set [3, 1]" and "d \<in> set [-9..9]" and "d \<noteq> 0"
  shows "(d * w) mod (10::int) \<noteq> 0"
proof -
  have "\<forall>w\<in>set [3, 1]. \<forall>d\<in>set [-9..9]. d \<noteq> 0 \<longrightarrow> (d * w) mod (10::int) \<noteq> 0" by code_simp
  from bspec [OF bspec [OF this assms(1)] assms(2)] assms(3) show ?thesis by simp
qed

lemma add_changes_rest: "x mod m \<noteq> 0 \<Longrightarrow> (s + x) mod m \<noteq> s mod (m::int)"
  by (auto simp: mod_eq_dvd_iff)

lemma s10_sum_update:
  assumes "digits 8 a" and "k < 8"
  shows "s10_sum (a[k := c]) = s10_sum a + (digit_value c - digit_value (a ! k)) * S10_WEIGHTS ! k"
  unfolding s10_sum_def using assms
  by (subst sum_map2_update) (simp_all add: digits_def S10_WEIGHTS_def left_diff_distrib)

lemma digits_nth: "digits n a \<Longrightarrow> k < n \<Longrightarrow> is_digit (a ! k)"
  by (auto simp: digits_def list_all_length)

text \<open>
  The S10 check digit detects every error in a single digit of the serial number, with
  one exception that the standard has: two serials whose weighted sums leave the rests 0 and
  6 modulo 11 share the check digit 5.
\<close>

theorem s10_single_digit_error:
  assumes "s10CheckDigit a = Inr d" and "k < 8" and "is_digit c" and "c \<noteq> a ! k"
    and "s10CheckDigit (a[k := c]) = Inr d"
  shows "d = 5 \<and> {s10_sum a mod 11, s10_sum (a[k := c]) mod 11} = {0, 6}"
proof -
  have a: "digits 8 a" using assms(1) by (rule s10_digits)
  let ?x = "(digit_value c - digit_value (a ! k)) * S10_WEIGHTS ! k"
  have "S10_WEIGHTS ! k \<in> set S10_WEIGHTS" by (rule nth_mem) (use assms(2) in \<open>simp add: S10_WEIGHTS_def\<close>)
  then have "?x mod 11 \<noteq> 0"
    by (rule weight_mod_11) (rule digit_difference [OF assms(3) digits_nth [OF a assms(2)] assms(4)])+
  then have "s10_sum (a[k := c]) mod 11 \<noteq> s10_sum a mod 11"
    unfolding s10_sum_update [OF a assms(2)] by (rule add_changes_rest)
  then have "{s10_sum a mod 11, s10_sum (a[k := c]) mod 11} = {0, 6}"
    using s10_same_digit [OF assms(1,5)] by argo
  moreover from this have "s10_sum a mod 11 = 0 \<or> s10_sum a mod 11 = 6" by auto
  then have "d = 5" using assms(1) by (auto simp: s10CheckDigit_def split: if_splits)
  ultimately show ?thesis by simp
qed

lemma sscc_sum_update:
  assumes "length a = 17" and "k < 17"
  shows "\<exists>w\<in>set [3, 1]. sscc_sum (a[k := c]) = sscc_sum a + (digit_value c - digit_value (a ! k)) * w"
proof -
  let ?w = "(if (16 - k) mod 2 = 0 then 3 else 1) :: int"
  have "sscc_sum (a[k := c]) = sscc_sum a + (digit_value c * ?w - digit_value (a ! k) * ?w)"
    unfolding sscc_sum_def using assms
    by (simp add: rev_update sum_map2_update rev_nth)
  then show ?thesis by (intro bexI [of _ ?w]) (simp_all add: left_diff_distrib)
qed

lemma same_complement:
  assumes "(10 - s mod 10) mod 10 = (10 - (s + x) mod 10) mod (10::int)"
  shows "x mod 10 = 0"
proof -
  from assms have "(10 - s) mod 10 = (10 - (s + x)) mod 10" by (simp only: mod_diff_right_eq)
  then have "10 dvd (10 - s) - (10 - (s + x))" by (simp only: mod_eq_dvd_iff)
  then show ?thesis by simp
qed

text \<open>
  C23. The SSCC check digit detects every error in a single digit: a valid code with one
  digit replaced by another, the check digit included, is not valid.
\<close>

theorem sscc_detects_single_errors:
  assumes "isValidSscc a" and "k < 18" and "c \<noteq> a ! k"
  shows "\<not> isValidSscc (a[k := c])"
proof
  assume b: "isValidSscc (a[k := c])"
  from assms(1) have a: "digits 18 a" by (simp add: isValidSscc_def)
  then have len: "length a = 18" by (simp add: digits_def)
  have c: "is_digit c" using b assms(2) len digits_nth [of 18 "a[k := c]" k] by (simp add: isValidSscc_def)
  have sums: "ssccCheckDigit (take 17 a) = Inr (digit_value (a ! 17))"
    "ssccCheckDigit (take 17 (a[k := c])) = Inr (digit_value (a[k := c] ! 17))"
    using assms(1) b by (simp_all add: isValidSscc_def)
  show False
  proof (cases "k = 17")
    case True
    with sums len assms(3) show False by (auto simp: digit_value_inj)
  next
    case False
    with assms(2) have k: "k < 17" by simp
    have "length (take 17 a) = 17" and nth: "take 17 a ! k = a ! k" using len k by simp_all
    from sscc_sum_update [OF this(1) k, of c, unfolded nth] obtain w where w: "w \<in> set [3, 1]"
      and sum: "sscc_sum ((take 17 a)[k := c]) = sscc_sum (take 17 a) + (digit_value c - digit_value (a ! k)) * w"
      by blast
    have "((digit_value c - digit_value (a ! k)) * w) mod 10 \<noteq> 0"
      using w by (rule weight_mod_10) (rule digit_difference [OF c digits_nth [OF a assms(2)] assms(3)])+
    moreover have "(10 - sscc_sum (take 17 a) mod 10) mod 10 = (10 - sscc_sum ((take 17 a)[k := c]) mod 10) mod 10"
      using sums k by (auto simp: ssccCheckDigit_def take_update_swap split: if_splits)
    ultimately show False unfolding sum by (blast dest: same_complement)
  qed
qed

theorem sscc_detects_single_errors_witness:
  "isValidSscc ''123456789012345675'' \<and> \<not> isValidSscc (''123456789012345675''[3 := CHR ''9''])"
proof -
  have "isValidSscc ''123456789012345675''" by code_simp
  then show ?thesis using sscc_detects_single_errors [of "''123456789012345675''" 3 "CHR ''9''"] by simp
qed


section \<open>Building, validating and normalising\<close>

text \<open>
  C24. Building and validating S10 identifiers agree: the valid identifiers are exactly those
  whose upper case form some service indicator, serial number and country code build.
\<close>

theorem s10_valid_iff_built:
  "isValidS10Identifier i \<longleftrightarrow>
     (\<exists>service serial country. buildS10Identifier service serial country = Inr (js_upper i))"
proof
  show "isValidS10Identifier i \<Longrightarrow>
      \<exists>service serial country. buildS10Identifier service serial country = Inr (js_upper i)"
    by (rule valid_identifier_built)
next
  assume "\<exists>service serial country. buildS10Identifier service serial country = Inr (js_upper i)"
  then have "isValidS10Identifier (js_upper i)" by (blast dest: built_identifier_valid)
  then show "isValidS10Identifier i" by (simp add: isValidS10Identifier_def Let_def)
qed

lemma js_upper_filter_space: "list_all is_location_char (drop 2 s) \<Longrightarrow> letters 2 (take 2 s) \<Longrightarrow>
    filter (\<lambda>c. c \<noteq> CHR '' '') s = s \<and> js_upper s = s"
proof -
  assume s: "list_all is_location_char (drop 2 s)" "letters 2 (take 2 s)"
  have "set s = set (take 2 s) \<union> set (drop 2 s)" by (metis append_take_drop_id set_append)
  then have all: "list_all (\<lambda>c. is_upper c \<or> is_digit c) s"
    using s(1) letters_list_all [OF s(2)] by (auto simp: list_all_iff is_location_char_def)
  then have "\<forall>c\<in>set s. c \<noteq> CHR '' ''" by (auto simp: list_all_iff is_upper_def is_digit_def)
  with all show ?thesis by (simp add: js_upper_id filter_id_conv)
qed

text \<open>
  Normalising a UN/LOCODE gives five characters, and normalising the result again
  changes nothing.
\<close>

theorem unlocode_normal_form:
  assumes "normalizeUnLocode code = Inr n"
  shows "length n = 5 \<and> normalizeUnLocode n = Inr n"
proof -
  from assms have n: "letters 2 (take 2 n)" "length n = 5" "list_all is_location_char (drop 2 n)"
    by (auto simp: normalizeUnLocode_def Let_def split: if_splits)
  with js_upper_filter_space show ?thesis by (simp add: normalizeUnLocode_def)
qed

section \<open>Runs of a workflow\<close>

definition allowed_step :: "transition_table \<Rightarrow> string \<Rightarrow> string \<Rightarrow> bool" where
  "allowed_step table a b \<longleftrightarrow> (case map_of table a of None \<Rightarrow> False | Some nexts \<Rightarrow> b \<in> set nexts)"

definition closed_under :: "transition_table \<Rightarrow> string list \<Rightarrow> string list \<Rightarrow> bool" where
  "closed_under table inside exits \<longleftrightarrow>
     (\<forall>(a, nexts)\<in>set table. a \<in> set inside \<longrightarrow> (\<forall>b\<in>set nexts. b \<in> set inside \<or> b \<in> set exits))"

text \<open>
  A table in which no status has two rows. Its runs are the reachable statuses; \<open>avoiding\<close> is
  the relation of the runs that do not enter one of the given statuses.
\<close>

locale workflow_table =
  fixes table :: transition_table
  assumes one_row: "distinct (map fst table)"
begin

lemma transition_row: "allowed_step table a b \<longleftrightarrow> (\<exists>nexts. (a, nexts) \<in> set table \<and> b \<in> set nexts)"
proof (cases "map_of table a")
  case None
  have "(a, nexts) \<notin> set table" for nexts using map_of_is_SomeI [OF one_row] None by fastforce
  with None show ?thesis by (simp add: allowed_step_def)
next
  case (Some nexts)
  have "nexts' = nexts" if "(a, nexts') \<in> set table" for nexts'
    using map_of_is_SomeI [OF one_row that] Some by simp
  with Some show ?thesis by (auto simp: allowed_step_def dest: map_of_SomeD)
qed

lemma run_stays_inside:
  assumes "(\<lambda>a b. allowed_step table a b \<and> b \<notin> set exits)\<^sup>*\<^sup>* a b"
    and "closed_under table inside exits" and "a \<in> set inside"
  shows "b \<in> set inside"
  using assms(1)
proof (induction rule: rtranclp_induct)
  case base
  show ?case by (fact assms(3))
next
  case (step b c)
  then show ?case using assms(2) by (fastforce simp: closed_under_def transition_row)
qed

end

interpretation consolidation: workflow_table CONSOLIDATION_TRANSITIONS
  by unfold_locales code_simp

interpretation postal: workflow_table POSTAL_DISPATCH_TRANSITIONS
  by unfold_locales code_simp

interpretation claim: workflow_table CLAIM_TRANSITIONS
  by unfold_locales code_simp

definition workflow_step :: "workflow \<Rightarrow> string \<Rightarrow> string \<Rightarrow> bool" where
  "workflow_step w a b \<longleftrightarrow> assertTransition w a b = Inr ()"

lemma workflow_step_transition: "workflow_step w a b \<longleftrightarrow> allowed_step (transitions_of w) a b"
  by (auto simp: workflow_step_def assertTransition_def allowed_step_def split: option.splits)

lemma avoids_approval: "closed_under CLAIM_TRANSITIONS
    [''DRAFT'', ''SUBMITTED'', ''INFO_REQUIRED'', ''CANCELLED'', ''REJECTED'', ''UNDER_REVIEW'', ''CLOSED'']
    [''APPROVED'', ''PARTIALLY_APPROVED'']"
  by code_simp

lemma avoids_review: "closed_under CLAIM_TRANSITIONS
    [''DRAFT'', ''SUBMITTED'', ''INFO_REQUIRED'', ''CANCELLED'', ''REJECTED'', ''CLOSED''] [''UNDER_REVIEW'']"
  by code_simp

lemma avoids_arrival: "closed_under CONSOLIDATION_TRANSITIONS
    [''DRAFT'', ''OPEN'', ''CLOSED'', ''LOADED'', ''DEPARTED'', ''EXCEPTION'', ''CANCELLED''] [''ARRIVED'']"
  by code_simp

lemma avoids_departure: "closed_under CONSOLIDATION_TRANSITIONS
    [''DRAFT'', ''OPEN'', ''CLOSED'', ''LOADED'', ''CANCELLED''] [''DEPARTED'']"
  by code_simp


end
