(* ===== verification/Json.thy ===== *)
theory Json
  imports Prelude
begin

text \<open>
  \<open>JSON.stringify\<close>: the text of a JSON value, without white space, the entries of an object
  in the order they were written.
\<close>

text \<open>\<open>JSON.stringify\<close> of a string.\<close>

definition hex2 :: "nat \<Rightarrow> string" where
  "hex2 n = [digit_char (n div 16), digit_char (n mod 16)]"

definition json_char :: "char \<Rightarrow> string" where
  "json_char c = (let n = (of_char c :: nat)
     in if n = 34 \<or> n = 92 then [char_of (92 :: nat), c]
        else if n = 8 then [char_of (92 :: nat), CHR ''b'']
        else if n = 9 then [char_of (92 :: nat), CHR ''t'']
        else if n = 10 then [char_of (92 :: nat), CHR ''n'']
        else if n = 12 then [char_of (92 :: nat), CHR ''f'']
        else if n = 13 then [char_of (92 :: nat), CHR ''r'']
        else if n < 32 then [char_of (92 :: nat)] @ ''u00'' @ hex2 n
        else [c])"

definition json_string :: "string \<Rightarrow> string" where
  "json_string s = [char_of (34 :: nat)] @ concat (map json_char s) @ [char_of (34 :: nat)]"

fun join :: "string \<Rightarrow> string list \<Rightarrow> string" where
  "join sep [] = []"
| "join sep [x] = x"
| "join sep (x # y # ys) = x @ sep @ join sep (y # ys)"

fun stringify :: "json \<Rightarrow> string" where
  "stringify JNull = ''null''"
| "stringify (JBool b) = (if b then ''true'' else ''false'')"
| "stringify (JNum n) = show_int n"
| "stringify (JStr s) = json_string s"
| "stringify (JArr xs) = ''['' @ join '','' (map stringify xs) @ '']''"
| "stringify (JObj es) = ''{'' @ join '','' (map (\<lambda>(k, v). json_string k @ '':'' @ stringify v) es) @ ''}''"

end
