(* ===== verification/Optimizer.thy ===== *)
theory Optimizer
  imports Program Json "HOL-Library.Multiset"
begin

text \<open>
  Ranking of alternatives: the lane optimizer
  \<open>apps/api/src/optimization/deterministic-optimizer.service.ts\<close> and the stock and routing
  rules of \<open>packages/logistics-engine/src/index.ts\<close>.

  Both rank with \<open>Array.prototype.sort\<close>, which is stable, and both break ties with
  \<open>localeCompare\<close>, a comparison of the language's library that depends on the locale: it is
  the parameter \<open>collate\<close> of the definitions. The locale \<open>comparison\<close> is the contract a
  comparator has to meet for the sort to mean anything; \<open>code_unit_order\<close> is the instance the
  concrete runs use.
\<close>

section \<open>Comparators and stable sorting\<close>

type_synonym 'a comparator = "'a \<Rightarrow> 'a \<Rightarrow> int"

fun insert_by :: "'a comparator \<Rightarrow> 'a \<Rightarrow> 'a list \<Rightarrow> 'a list" where
  "insert_by cmp x [] = [x]"
| "insert_by cmp x (y # ys) = (if cmp x y \<le> 0 then x # y # ys else y # insert_by cmp x ys)"

fun js_sort :: "'a comparator \<Rightarrow> 'a list \<Rightarrow> 'a list" where
  "js_sort cmp [] = []"
| "js_sort cmp (x # xs) = insert_by cmp x (js_sort cmp xs)"

text \<open>\<open>a || b\<close> on numbers: the first one that is not zero.\<close>

definition or_else :: "int \<Rightarrow> int \<Rightarrow> int" where
  "or_else a b = (if a \<noteq> 0 then a else b)"

definition code_unit_order :: "string comparator" where
  "code_unit_order a b = (if a = b then 0 else if a < b then - 1 else 1)"

lemma mset_insert_by [simp]: "mset (insert_by cmp x xs) = add_mset x (mset xs)"
  by (induction xs) auto

lemma mset_js_sort [simp]: "mset (js_sort cmp xs) = mset xs"
  by (induction xs) auto

lemma set_js_sort [simp]: "set (js_sort cmp xs) = set xs"
  by (metis mset_js_sort set_mset_mset)

lemma length_js_sort [simp]: "length (js_sort cmp xs) = length xs"
  by (metis mset_js_sort size_mset)

locale comparison =
  fixes cmp :: "'a comparator"
  assumes opposite: "cmp x y \<le> 0 \<longleftrightarrow> 0 \<le> cmp y x"
    and trans: "cmp x y \<le> 0 \<Longrightarrow> cmp y z \<le> 0 \<Longrightarrow> cmp x z \<le> 0"
begin

lemma total: "cmp x y \<le> 0 \<or> cmp y x \<le> 0"
  using opposite [of x y] by linarith

lemma self: "cmp x x = 0"
  using opposite [of x x] by linarith

lemma zero_sym: "cmp x y = 0 \<longleftrightarrow> cmp y x = 0"
  using opposite [of x y] opposite [of y x] by linarith

lemma sorted_insert_by:
  "sorted_wrt (\<lambda>a b. cmp a b \<le> 0) xs \<Longrightarrow> sorted_wrt (\<lambda>a b. cmp a b \<le> 0) (insert_by cmp x xs)"
proof (induction xs)
  case Nil
  then show ?case by simp
next
  case (Cons y ys)
  have set: "set (insert_by cmp x ys) = insert x (set ys)"
    by (metis mset_insert_by set_mset_add_mset_insert set_mset_mset)
  show ?case
  proof (cases "cmp x y \<le> 0")
    case True
    with Cons.prems show ?thesis by (auto intro: trans)
  next
    case False
    with total have "cmp y x \<le> 0" by blast
    with Cons False set show ?thesis by auto
  qed
qed

lemma sorted_js_sort: "sorted_wrt (\<lambda>a b. cmp a b \<le> 0) (js_sort cmp xs)"
  by (induction xs) (auto intro: sorted_insert_by)

lemma strict_left: "cmp x y < 0 \<Longrightarrow> cmp y z \<le> 0 \<Longrightarrow> cmp x z < 0"
  using trans [of x y z] trans [of y z x] opposite [of x z] opposite [of z x] opposite [of x y] opposite [of y x]
  by linarith

lemma strict_right: "cmp x y \<le> 0 \<Longrightarrow> cmp y z < 0 \<Longrightarrow> cmp x z < 0"
  using trans [of x y z] trans [of z x y] opposite [of x z] opposite [of z x] opposite [of z y] opposite [of y z]
  by linarith

lemma zero_trans: "cmp x y = 0 \<Longrightarrow> cmp y z = 0 \<Longrightarrow> cmp x z = 0"
  using trans [of x y z] trans [of z y x] zero_sym [of x y] zero_sym [of y z] opposite [of z x]
  by linarith

text \<open>The sort is stable: what compares equal keeps its order.\<close>

lemma stable_insert_by:
  "cmp x z = 0 \<Longrightarrow> filter (\<lambda>a. cmp a z = 0) (insert_by cmp x ys) = x # filter (\<lambda>a. cmp a z = 0) ys"
proof (induction ys)
  case Nil
  then show ?case by simp
next
  case (Cons y ys)
  have "cmp x y \<le> 0" if "cmp y z = 0"
    using trans [of x z y] Cons.prems that zero_sym [of y z] by simp
  with Cons show ?case by auto
qed

lemma stable_insert_by_other:
  "cmp x z \<noteq> 0 \<Longrightarrow> filter (\<lambda>a. cmp a z = 0) (insert_by cmp x ys) = filter (\<lambda>a. cmp a z = 0) ys"
  by (induction ys) auto

lemma stable_js_sort: "filter (\<lambda>a. cmp a z = 0) (js_sort cmp xs) = filter (\<lambda>a. cmp a z = 0) xs"
  by (induction xs) (auto simp: stable_insert_by stable_insert_by_other)

text \<open>
  Lists that hold the same elements sort to the same list where the comparator tells the
  elements apart.
\<close>

lemma sorted_same:
  assumes "sorted_wrt (\<lambda>a b. cmp a b \<le> 0) xs" and "sorted_wrt (\<lambda>a b. cmp a b \<le> 0) ys"
    and "mset xs = mset ys" and "\<And>a b. a \<in> set xs \<Longrightarrow> b \<in> set xs \<Longrightarrow> cmp a b = 0 \<Longrightarrow> a = b"
  shows "xs = ys"
  using assms
proof (induction xs arbitrary: ys)
  case Nil
  then show ?case by simp
next
  case (Cons x xs)
  then obtain y ys' where ys: "ys = y # ys'" by (cases ys) auto
  from Cons.prems(3) have sets: "set (x # xs) = set ys" by (metis set_mset_mset)
  have "y \<in> set (x # xs)" "x \<in> set (y # ys')" using sets ys by auto
  then have "cmp x y \<le> 0" and "cmp y x \<le> 0"
    using Cons.prems(1,2) ys self by auto
  then have "cmp x y = 0" using opposite [of x y] opposite [of y x] by linarith
  then have "x = y" using Cons.prems(4) [of x y] sets ys by auto
  moreover have "xs = ys'"
  proof (rule Cons.IH)
    show "mset xs = mset ys'" using Cons.prems(3) ys \<open>x = y\<close> by simp
  qed (use Cons.prems ys in auto)
  ultimately show ?case using ys by simp
qed

lemma js_sort_same:
  assumes "mset xs = mset ys" and "\<And>a b. a \<in> set xs \<Longrightarrow> b \<in> set xs \<Longrightarrow> cmp a b = 0 \<Longrightarrow> a = b"
  shows "js_sort cmp xs = js_sort cmp ys"
  using assms by (intro sorted_same sorted_js_sort) auto

end

interpretation code_unit: comparison code_unit_order
  by unfold_locales (auto simp: code_unit_order_def split: if_splits)

lemma or_else_le: "or_else a b \<le> 0 \<longleftrightarrow> a < 0 \<or> a = 0 \<and> b \<le> 0"
  by (auto simp: or_else_def)

lemma or_else_ge: "0 \<le> or_else a b \<longleftrightarrow> 0 < a \<or> a = 0 \<and> 0 \<le> b"
  by (auto simp: or_else_def)

lemma comparison_or_else:
  assumes f: "comparison f" and g: "comparison g"
  shows "comparison (\<lambda>x y. or_else (f x y) (g x y))"
proof
  fix x y z
  show "or_else (f x y) (g x y) \<le> 0 \<longleftrightarrow> 0 \<le> or_else (f y x) (g y x)"
    unfolding or_else_le or_else_ge
    using comparison.opposite [OF f, of x y] comparison.opposite [OF f, of y x]
      comparison.opposite [OF g, of x y] by linarith
  assume "or_else (f x y) (g x y) \<le> 0" "or_else (f y z) (g y z) \<le> 0"
  then show "or_else (f x z) (g x z) \<le> 0"
    unfolding or_else_le
    using comparison.strict_left [OF f, of x y z] comparison.strict_right [OF f, of x y z]
      comparison.zero_trans [OF f, of x y z] comparison.trans [OF g, of x y z] by linarith
qed

lemma comparison_on: "comparison cmp \<Longrightarrow> comparison (\<lambda>x y. cmp (key x) (key y))"
  unfolding comparison_def by blast

lemma comparison_difference: "comparison (\<lambda>x y. key x - key y)"
  by unfold_locales auto

section \<open>The lane optimizer\<close>

record lane =
  ln_from :: string
  ln_to :: string
  ln_carrierKey :: string
  ln_capacity :: int
  ln_costMinor :: int
  ln_carbonGrams :: int
  ln_slaHours :: int

record lane_weights =
  lw_cost :: int
  lw_carbon :: int
  lw_sla :: int

record recommendation =
  rn_rank :: nat
  rn_plan :: lane
  rn_score :: int
  rn_forecast_costMinor :: int
  rn_forecast_carbonGrams :: int
  rn_forecast_slaHours :: int
  rn_algorithmVersion :: string
  rn_weightedInputs :: lane_weights
  rn_satisfiedConstraints :: "(string \<times> json) list"
  rn_claim :: string

definition numberConstraint :: "json option \<Rightarrow> int option" where
  "numberConstraint value = (case value of Some (JNum n) \<Rightarrow> Some n | _ \<Rightarrow> None)"

definition feasible_lane :: "(string \<times> json) list \<Rightarrow> lane \<Rightarrow> bool" where
  "feasible_lane constraints l \<longleftrightarrow>
     ln_capacity l \<ge> (case numberConstraint (map_of constraints ''minimumCapacity'') of
                         None \<Rightarrow> 0 | Some m \<Rightarrow> m)
     \<and> (case numberConstraint (map_of constraints ''maxCostMinor'') of
          None \<Rightarrow> True | Some m \<Rightarrow> ln_costMinor l \<le> m)
     \<and> (case numberConstraint (map_of constraints ''maxCarbonGrams'') of
          None \<Rightarrow> True | Some m \<Rightarrow> ln_carbonGrams l \<le> m)
     \<and> (case numberConstraint (map_of constraints ''maxSlaHours'') of
          None \<Rightarrow> True | Some m \<Rightarrow> ln_slaHours l \<le> m)"

definition lane_score :: "lane_weights \<Rightarrow> lane \<Rightarrow> int" where
  "lane_score w l = ln_costMinor l * lw_cost w + ln_carbonGrams l * lw_carbon w
     + ln_slaHours l * lw_sla w"

definition scored_lane :: "lane_weights \<Rightarrow> lane \<Rightarrow> app_error + lane \<times> int" where
  "scored_lane w l =
     (case safe_integer_number (lane_score w l) ''Optimization score'' of
        Inl e \<Rightarrow> Inl e | Inr score \<Rightarrow> Inr (l, score))"

definition lane_order :: "string comparator \<Rightarrow> (lane \<times> int) comparator" where
  "lane_order collate left right =
     or_else (snd left - snd right)
       (or_else (ln_costMinor (fst left) - ln_costMinor (fst right))
         (or_else (collate (ln_carrierKey (fst left)) (ln_carrierKey (fst right)))
           (or_else (collate (ln_from (fst left)) (ln_from (fst right)))
             (collate (ln_to (fst left)) (ln_to (fst right))))))"

definition recommendation_of ::
  "lane_weights \<Rightarrow> (string \<times> json) list \<Rightarrow> nat \<Rightarrow> lane \<times> int \<Rightarrow> recommendation"
where
  "recommendation_of w constraints index candidate =
     \<lparr>rn_rank = index + 1, rn_plan = fst candidate, rn_score = snd candidate,
      rn_forecast_costMinor = ln_costMinor (fst candidate),
      rn_forecast_carbonGrams = ln_carbonGrams (fst candidate),
      rn_forecast_slaHours = ln_slaHours (fst candidate),
      rn_algorithmVersion = ''weighted-lane-ranking-v1'', rn_weightedInputs = w,
      rn_satisfiedConstraints = constraints,
      rn_claim = ''Deterministic feasible alternative; mathematical optimality is not claimed.''\<rparr>"

definition recommend ::
  "string comparator \<Rightarrow> lane list \<Rightarrow> lane_weights \<Rightarrow> (string \<times> json) list
     \<Rightarrow> app_error + recommendation list"
where
  "recommend collate lanes w constraints =
     (case sequence_results (map (scored_lane w) (filter (feasible_lane constraints) lanes)) of
        Inl e \<Rightarrow> Inl e
      | Inr scored \<Rightarrow>
          (let best = take 5 (js_sort (lane_order collate) scored)
           in Inr (map2 (recommendation_of w constraints) [0..<length best] best)))"

lemma comparison_lane_order: "comparison collate \<Longrightarrow> comparison (lane_order collate)"
  unfolding lane_order_def
  by (rule comparison_or_else comparison_difference comparison_on; assumption?)+

lemma scored_lane_Inr: "scored_lane w l = Inr p \<longleftrightarrow> safe_integer (lane_score w l) \<and> p = (l, lane_score w l)"
  by (auto simp: scored_lane_def safe_integer_number_def)

lemma scored_lanes:
  "sequence_results (map (scored_lane w) ls) = Inr scored \<longleftrightarrow>
     scored = map (\<lambda>l. (l, lane_score w l)) ls \<and> (\<forall>l\<in>set ls. safe_integer (lane_score w l))"
  unfolding sequence_results_Inr
proof (induction ls arbitrary: scored)
  case Nil
  then show ?case by simp
next
  case (Cons l ls)
  show ?case
    by (cases scored) (auto simp: Cons.IH scored_lane_Inr)
qed

lemma scored_lane_Inl: "scored_lane w l = Inl e \<Longrightarrow>
    e = Range_Error (''Optimization score'' @ '' exceeds JavaScript's safe integer range'')"
  by (auto simp only: scored_lane_def safe_integer_number_def sum.case sum.inject sum.distinct split: if_splits)

lemma scored_error:
  assumes "sequence_results (map (scored_lane w) ls) = Inl e"
  shows "e = Range_Error (''Optimization score'' @ '' exceeds JavaScript's safe integer range'')"
  using assms
proof (induction ls)
  case Nil
  then show ?case by simp
next
  case (Cons l ls)
  show ?case
  proof (cases "scored_lane w l")
    case (Inl e')
    with Cons.prems have "e = e'" by simp
    with scored_lane_Inl [OF Inl] show ?thesis by simp
  next
    case (Inr p)
    with Cons.prems have "sequence_results (map (scored_lane w) ls) = Inl e"
      by (simp split: sum.splits)
    then show ?thesis by (rule Cons.IH)
  qed
qed

lemma map2_upt: "map2 f [0..<length xs] xs = map (\<lambda>i. f i (xs ! i)) [0..<length xs]"
  by (rule nth_equalityI) simp_all

definition ranked_lanes ::
  "string comparator \<Rightarrow> lane list \<Rightarrow> lane_weights \<Rightarrow> (string \<times> json) list \<Rightarrow> (lane \<times> int) list"
where
  "ranked_lanes collate lanes w constraints = js_sort (lane_order collate)
     (map (\<lambda>l. (l, lane_score w l)) (filter (feasible_lane constraints) lanes))"

lemma recommend_eq:
  "recommend collate lanes w constraints = Inr rs \<longleftrightarrow>
     (\<forall>l\<in>set (filter (feasible_lane constraints) lanes). safe_integer (lane_score w l))
     \<and> rs = map2 (recommendation_of w constraints) [0..<length (take 5 (ranked_lanes collate lanes w constraints))]
              (take 5 (ranked_lanes collate lanes w constraints))"
  (is "_ \<longleftrightarrow> ?safe \<and> _")
proof -
  let ?scored = "map (\<lambda>l. (l, lane_score w l)) (filter (feasible_lane constraints) lanes)"
  show ?thesis
  proof (cases ?safe)
    case True
    then have "sequence_results (map (scored_lane w) (filter (feasible_lane constraints) lanes)) = Inr ?scored"
      by (simp add: scored_lanes)
    with True show ?thesis by (auto simp: recommend_def ranked_lanes_def Let_def)
  next
    case False
    then have "sequence_results (map (scored_lane w) (filter (feasible_lane constraints) lanes)) \<noteq> Inr scored" for scored
      by (simp add: scored_lanes)
    with False show ?thesis by (auto simp: recommend_def split: sum.splits)
  qed
qed

lemma recommend_Inr:
  assumes "recommend collate lanes w constraints = Inr rs"
  shows "map rn_rank rs = [1..<Suc (length rs)]"
    and "map (\<lambda>r. (rn_plan r, rn_score r)) rs = take 5 (ranked_lanes collate lanes w constraints)"
proof -
  let ?best = "take 5 (ranked_lanes collate lanes w constraints)"
  from assms have rs: "rs = map2 (recommendation_of w constraints) [0..<length ?best] ?best"
    by (simp add: recommend_eq)
  have "map rn_rank rs = map Suc [0..<length ?best]"
    by (rule nth_equalityI) (simp_all add: rs recommendation_of_def)
  moreover have "length rs = length ?best" unfolding rs by simp
  ultimately show "map rn_rank rs = [1..<Suc (length rs)]" by (simp add: map_Suc_upt)
  show "map (\<lambda>r. (rn_plan r, rn_score r)) rs = ?best"
    by (rule nth_equalityI) (simp_all add: rs recommendation_of_def)
qed

lemma ranked_lanes_scores:
  assumes "comparison collate"
  shows "sorted (map snd (ranked_lanes collate lanes w constraints))"
proof -
  have "sorted_wrt (\<lambda>a b. lane_order collate a b \<le> 0) (ranked_lanes collate lanes w constraints)"
    unfolding ranked_lanes_def by (rule comparison.sorted_js_sort [OF comparison_lane_order [OF assms]])
  then have "sorted_wrt (\<lambda>a b. snd a \<le> snd b) (ranked_lanes collate lanes w constraints)"
    by (rule sorted_wrt_mono_rel [rotated]) (auto simp: lane_order_def or_else_le)
  then show ?thesis by (simp add: sorted_wrt_map)
qed

text \<open>
  C22. The recommendations are the feasible lanes with the lowest weighted scores: at most
  five, ranked from one, with non-decreasing scores, each a feasible lane with its own score,
  and every feasible lane left out scores at least as much as every lane recommended.
\<close>

theorem recommends_the_best:
  assumes "recommend collate lanes w constraints = Inr rs" and "comparison collate"
  shows "\<exists>rest. mset (filter (feasible_lane constraints) lanes) = mset (map rn_plan rs) + mset rest
    \<and> length rs = min 5 (length (filter (feasible_lane constraints) lanes))
    \<and> map rn_rank rs = [1..<Suc (length rs)]
    \<and> (\<forall>r\<in>set rs. rn_score r = lane_score w (rn_plan r))
    \<and> sorted (map rn_score rs)
    \<and> (\<forall>r\<in>set rs. \<forall>l\<in>set rest. rn_score r \<le> lane_score w l)"
proof -
  let ?ls = "filter (feasible_lane constraints) lanes"
  let ?ranked = "ranked_lanes collate lanes w constraints"
  note best = recommend_Inr [OF assms(1)]
  have set: "set ?ranked = (\<lambda>l. (l, lane_score w l)) ` set ?ls"
    by (simp add: ranked_lanes_def)
  have plans: "map rn_plan rs = map fst (take 5 ?ranked)" and scores: "map rn_score rs = map snd (take 5 ?ranked)"
    unfolding best(2) [symmetric] by simp_all
  have "mset (map fst ?ranked) = mset ?ls"
    unfolding ranked_lanes_def mset_map mset_js_sort by (simp add: multiset.map_comp comp_def)
  then have "mset ?ls = mset (map fst (take 5 ?ranked @ drop 5 ?ranked))" by simp
  then have split: "mset ?ls = mset (map rn_plan rs) + mset (map fst (drop 5 ?ranked))"
    unfolding plans by (simp only: map_append mset_append)
  have len: "length rs = min 5 (length ?ls)"
    using arg_cong [OF plans, of length] by (simp add: ranked_lanes_def)
  have own: "\<forall>r\<in>set rs. rn_score r = lane_score w (rn_plan r)"
  proof
    fix r assume "r \<in> set rs"
    then have "(rn_plan r, rn_score r) \<in> set (take 5 ?ranked)" unfolding best(2) [symmetric] by auto
    then have "(rn_plan r, rn_score r) \<in> set ?ranked" by (rule in_set_takeD)
    then show "rn_score r = lane_score w (rn_plan r)" unfolding set by auto
  qed
  have sorted: "sorted (map snd (take 5 ?ranked) @ map snd (drop 5 ?ranked))"
    using ranked_lanes_scores [OF assms(2)] by (metis append_take_drop_id map_append)
  have "\<forall>r\<in>set rs. \<forall>l\<in>set (map fst (drop 5 ?ranked)). rn_score r \<le> lane_score w l"
  proof (intro ballI)
    fix r l assume "r \<in> set rs" "l \<in> set (map fst (drop 5 ?ranked))"
    then have "rn_score r \<in> set (map snd (take 5 ?ranked))" unfolding scores [symmetric] by simp
    moreover from \<open>l \<in> _\<close> obtain q where "q \<in> set (drop 5 ?ranked)" "l = fst q" by auto
    moreover from this have "q \<in> set ?ranked" by (blast dest: in_set_dropD)
    then have "snd q = lane_score w (fst q)" unfolding set by auto
    moreover have "\<forall>x\<in>set (map snd (take 5 ?ranked)). \<forall>y\<in>set (map snd (drop 5 ?ranked)). x \<le> y"
      using sorted unfolding sorted_append by blast
    ultimately show "rn_score r \<le> lane_score w l" by (metis image_eqI list.set_map)
  qed
  moreover have "sorted (map rn_score rs)" using sorted unfolding scores by (simp only: sorted_append)
  ultimately show ?thesis using split len own best(1) by blast
qed

text \<open>
  The recommendations do not depend on the order in which the lanes are given, as long
  as no two different feasible lanes tie in score, cost, carrier and both ends.
\<close>

theorem recommend_ignores_order:
  assumes "comparison collate" and "mset lanes = mset lanes'"
    and "\<forall>l\<in>set lanes. \<forall>k\<in>set lanes. feasible_lane constraints l \<and> feasible_lane constraints k
      \<and> lane_order collate (l, lane_score w l) (k, lane_score w k) = 0 \<longrightarrow> l = k"
  shows "recommend collate lanes w constraints = recommend collate lanes' w constraints"
proof -
  have sets: "set lanes = set lanes'" using assms(2) by (rule mset_eq_setD)
  have "ranked_lanes collate lanes w constraints = ranked_lanes collate lanes' w constraints"
    unfolding ranked_lanes_def
    by (rule comparison.js_sort_same [OF comparison_lane_order [OF assms(1)]])
      (use assms(2,3) in \<open>auto simp: mset_filter\<close>)
  then have same: "recommend collate lanes w constraints = Inr rs \<longleftrightarrow> recommend collate lanes' w constraints = Inr rs" for rs
    unfolding recommend_eq by (simp add: sets)
  have error: "recommend collate ls w constraints = Inl e \<Longrightarrow>
      e = Range_Error (''Optimization score'' @ '' exceeds JavaScript's safe integer range'')" for ls e
    by (auto simp: recommend_def split: sum.splits dest: scored_error)
  show ?thesis
    by (cases "recommend collate lanes w constraints"; cases "recommend collate lanes' w constraints")
      (use same error in auto)
qed


definition some_lane :: "string \<Rightarrow> int \<Rightarrow> int \<Rightarrow> lane" where
  "some_lane carrier capacity cost = \<lparr>ln_from = ''HAM'', ln_to = ''ROT'', ln_carrierKey = carrier,
     ln_capacity = capacity, ln_costMinor = cost, ln_carbonGrams = 10, ln_slaHours = 24\<rparr>"

definition some_lanes :: "lane list" where
  "some_lanes = [some_lane ''a'' 5 300, some_lane ''b'' 1 100, some_lane ''c'' 9 200, some_lane ''d'' 9 250,
     some_lane ''e'' 9 260, some_lane ''f'' 9 270, some_lane ''g'' 9 280]"

definition some_weights :: lane_weights where
  "some_weights = \<lparr>lw_cost = 2, lw_carbon = 1, lw_sla = 1\<rparr>"

definition some_constraints :: "(string \<times> json) list" where
  "some_constraints = [(''minimumCapacity'', JNum 5)]"

definition some_recommendations :: "recommendation list" where
  "some_recommendations = answer (recommend code_unit_order some_lanes some_weights some_constraints)"

theorem recommends_the_best_witness:
  "\<exists>rest. mset (filter (feasible_lane some_constraints) some_lanes) = mset (map rn_plan some_recommendations) + mset rest
    \<and> map (ln_carrierKey \<circ> rn_plan) some_recommendations = [''c'', ''d'', ''e'', ''f'', ''g'']
    \<and> (\<forall>r\<in>set some_recommendations. \<forall>l\<in>set rest. rn_score r \<le> lane_score some_weights l)"
proof -
  have "recommend code_unit_order some_lanes some_weights some_constraints = Inr some_recommendations"
  proof -
    have "returned (recommend code_unit_order some_lanes some_weights some_constraints)" by code_simp
    then show ?thesis by (auto simp: some_recommendations_def returned_def answer_def split: sum.splits)
  qed
  from recommends_the_best [OF this code_unit.comparison_axioms] obtain rest :: "lane list"
    where "mset (filter (feasible_lane some_constraints) some_lanes) = mset (map rn_plan some_recommendations) + mset rest"
      "\<forall>r\<in>set some_recommendations. \<forall>l\<in>set rest. rn_score r \<le> lane_score some_weights l" by blast
  moreover have "map (ln_carrierKey \<circ> rn_plan) some_recommendations = [''c'', ''d'', ''e'', ''f'', ''g'']" by code_simp
  ultimately show ?thesis by (intro exI [of _ rest] conjI)
qed

section \<open>Canonical JSON\<close>

definition entry_order :: "string comparator \<Rightarrow> (string \<times> 'v) comparator" where
  "entry_order collate left right = collate (fst left) (fst right)"

text \<open>
  \<open>canonicalJson\<close>. The entries of an object are sorted by their keys alone, so that rendering
  their values before or after the sort is the same.
\<close>

fun canonicalJson :: "string comparator \<Rightarrow> json \<Rightarrow> string" where
  "canonicalJson collate JNull = ''null''"
| "canonicalJson collate (JBool b) = (if b then ''true'' else ''false'')"
| "canonicalJson collate (JNum n) = show_int n"
| "canonicalJson collate (JStr s) = json_string s"
| "canonicalJson collate (JArr vs) = ''['' @ join '','' (map (canonicalJson collate) vs) @ '']''"
| "canonicalJson collate (JObj es) = ''{'' @ join '',''
     (map (\<lambda>(key, entry). json_string key @ '':'' @ entry)
       (js_sort (entry_order collate) (map (\<lambda>e. (fst e, canonicalJson collate (snd e))) es))) @ ''}''"

text \<open>Values that differ in the order of the entries of their objects only.\<close>

inductive same_json :: "json \<Rightarrow> json \<Rightarrow> bool" where
  Same: "same_json v v"
| Arrays: "list_all2 same_json vs ws \<Longrightarrow> same_json (JArr vs) (JArr ws)"
| Objects: "list_all2 (\<lambda>e f. fst e = fst f \<and> same_json (snd e) (snd f)) es fs \<Longrightarrow>
    distinct (map fst es) \<Longrightarrow> mset fs = mset gs \<Longrightarrow> same_json (JObj es) (JObj gs)"

inductive_cases same_jsonE: "same_json v w"

lemma entry_comparison: "comparison collate \<Longrightarrow> comparison (entry_order collate)"
  unfolding entry_order_def by (rule comparison_on)




section \<open>The logistics engine\<close>

datatype stock_state =
    EN_EXPECTED | EN_INBOUND | EN_ON_HAND | EN_RESERVED | EN_ALLOCATED | EN_QUARANTINED
  | EN_DAMAGED | EN_EXPIRED | EN_RECALLED

fun stock_state_name :: "stock_state \<Rightarrow> string" where
  "stock_state_name EN_EXPECTED = ''EXPECTED''"
| "stock_state_name EN_INBOUND = ''INBOUND''"
| "stock_state_name EN_ON_HAND = ''ON_HAND''"
| "stock_state_name EN_RESERVED = ''RESERVED''"
| "stock_state_name EN_ALLOCATED = ''ALLOCATED''"
| "stock_state_name EN_QUARANTINED = ''QUARANTINED''"
| "stock_state_name EN_DAMAGED = ''DAMAGED''"
| "stock_state_name EN_EXPIRED = ''EXPIRED''"
| "stock_state_name EN_RECALLED = ''RECALLED''"

text \<open>
  \<open>applyStockDelta\<close>; the exception class \<open>InventoryInvariantError\<close> is a plain error with its
  message.
\<close>

definition applyStockDelta ::
  "(stock_state \<Rightarrow> int) \<Rightarrow> stock_state \<times> int \<Rightarrow> bool \<Rightarrow> app_error + (stock_state \<Rightarrow> int)"
where
  "applyStockDelta current delta allowNegative =
     (let next = current(fst delta := current (fst delta) + snd delta)
      in if \<not> allowNegative \<and> next (fst delta) < 0
         then Inl (Plain_Error (stock_state_name (fst delta) @ '' stock cannot become negative''))
         else Inr next)"

fun apply_stock_deltas ::
  "(stock_state \<Rightarrow> int) \<Rightarrow> (stock_state \<times> int) list \<Rightarrow> app_error + (stock_state \<Rightarrow> int)"
where
  "apply_stock_deltas current [] = Inr current"
| "apply_stock_deltas current (d # ds) =
     (case applyStockDelta current d False of Inl e \<Rightarrow> Inl e | Inr next \<Rightarrow> apply_stock_deltas next ds)"

lemma applyStockDelta_Inr:
  "applyStockDelta current d False = Inr next \<longleftrightarrow>
     0 \<le> current (fst d) + snd d \<and> next = current(fst d := current (fst d) + snd d)"
  by (auto simp: applyStockDelta_def Let_def)

text \<open>
  A sequence of stock deltas that is accepted leaves every state at its start plus the
  sum of its deltas, and no state that started without a negative stock ends with one.
\<close>

theorem stock_deltas_add_up:
  assumes "apply_stock_deltas current ds = Inr final" and "\<forall>st. 0 \<le> current st"
  shows "final st = current st + sum_list (map snd (filter (\<lambda>d. fst d = st) ds)) \<and> 0 \<le> final st"
  using assms
proof (induction ds arbitrary: current)
  case Nil
  then show ?case by simp
next
  case (Cons d ds)
  from Cons.prems(1) obtain m where m: "applyStockDelta current d False = Inr m"
    and rest: "apply_stock_deltas m ds = Inr final"
    by (auto split: sum.splits)
  from m Cons.prems(2) have "\<forall>st. 0 \<le> m st" by (auto simp: applyStockDelta_Inr)
  from Cons.IH [OF rest this] m show ?case by (auto simp: applyStockDelta_Inr)
qed

text \<open>
  \<open>scoreRoutingCandidates\<close>. The weights and scores of the source are numbers of any size and
  fraction; here they are integers, without the rounding of floating point.
\<close>

record routing_weights =
  rw_promise :: int
  rw_capacity :: int
  rw_cost :: int
  rw_risk :: int
  rw_carbon :: int

record routing_candidate =
  rd_id :: string
  rd_legallyEligible :: bool
  rd_inventoryAvailable :: bool
  rd_promiseScore :: int
  rd_capacityScore :: int
  rd_costScore :: int
  rd_riskScore :: int
  rd_carbonScore :: int

record scored_routing_candidate = routing_candidate +
  rd_score :: int
  rd_reasonCodes :: "string list"

definition routing_score :: "routing_weights \<Rightarrow> routing_candidate \<Rightarrow> int" where
  "routing_score w c = rd_promiseScore c * rw_promise w + rd_capacityScore c * rw_capacity w
     + rd_costScore c * rw_cost w + rd_riskScore c * rw_risk w + rd_carbonScore c * rw_carbon w"

definition score_candidate :: "routing_weights \<Rightarrow> routing_candidate \<Rightarrow> scored_routing_candidate" where
  "score_candidate w c =
     \<lparr>rd_id = rd_id c, rd_legallyEligible = rd_legallyEligible c,
      rd_inventoryAvailable = rd_inventoryAvailable c, rd_promiseScore = rd_promiseScore c,
      rd_capacityScore = rd_capacityScore c, rd_costScore = rd_costScore c,
      rd_riskScore = rd_riskScore c, rd_carbonScore = rd_carbonScore c,
      rd_score = routing_score w c,
      rd_reasonCodes = [''LEGAL_ELIGIBLE'', ''INVENTORY_AVAILABLE'', ''WEIGHTED_POLICY_V1'']\<rparr>"

definition routing_order :: "string comparator \<Rightarrow> scored_routing_candidate comparator" where
  "routing_order collate left right =
     or_else (rd_score right - rd_score left) (collate (rd_id left) (rd_id right))"

definition scoreRoutingCandidates ::
  "string comparator \<Rightarrow> routing_candidate list \<Rightarrow> routing_weights \<Rightarrow> scored_routing_candidate list"
where
  "scoreRoutingCandidates collate candidates w =
     js_sort (routing_order collate)
       (map (score_candidate w)
         (filter (\<lambda>c. rd_legallyEligible c \<and> rd_inventoryAvailable c) candidates))"

lemma comparison_routing_order: "comparison collate \<Longrightarrow> comparison (routing_order collate)"
proof -
  assume c: "comparison collate"
  have "comparison (\<lambda>l r :: scored_routing_candidate. rd_score r - rd_score l)" by unfold_locales auto
  then show ?thesis
    unfolding routing_order_def by (rule comparison_or_else [OF _ comparison_on [OF c]])
qed

lemma routing_is_sorted:
  "comparison collate \<Longrightarrow>
   sorted_wrt (\<lambda>a b. rd_score b \<le> rd_score a) (scoreRoutingCandidates collate candidates w)"
  unfolding scoreRoutingCandidates_def
  by (rule sorted_wrt_mono_rel [OF _ comparison.sorted_js_sort [OF comparison_routing_order]])
    (auto simp: routing_order_def or_else_le)

end
