(* ===== verification/Billing.thy ===== *)
theory Billing
  imports Finance
begin

text \<open>
  Invoices, payment sessions, provider events, refunds and credit notes:
  \<open>apps/api/src/billing/billing.service.ts\<close>, \<open>invoice-issuance.ts\<close> and the entry points
  of \<open>payment-provider.service.ts\<close>.

  The payment providers are parameters: \<open>payment_port\<close> holds their answers to a checkout and
  to a refund request, indexed by the number of requests sent before, the verdict on a webhook
  signature and the parsed body of a webhook. The mock provider is code of the repository and
  is modelled. A stored error is the exception itself, where the source stores its message cut
  to 1000 characters.
\<close>

section \<open>Rows\<close>

record billing_invoice =
  bi_id :: uuid
  bi_tenantId :: uuid
  bi_number :: string
  bi_customerId :: "uuid option"
  bi_businessAccountId :: "uuid option"
  bi_commerceOrderId :: "uuid option"
  bi_sourceType :: string
  bi_sourceId :: uuid
  bi_status :: string
  bi_currency :: string
  bi_subtotalMinor :: int
  bi_taxMinor :: int
  bi_totalMinor :: int
  bi_paidMinor :: int
  bi_creditedMinor :: int
  bi_billingSnapshot :: json
  bi_dueAt :: instant
  bi_paidAt :: "instant option"
  bi_version :: int

record invoice_line =
  il_id :: uuid
  il_tenantId :: uuid
  il_invoiceId :: uuid
  il_kind :: string
  il_description :: string
  il_quantity :: int
  il_unitMinor :: int
  il_totalMinor :: int
  il_taxMinor :: int

record payment_schedule =
  is_id :: uuid
  is_tenantId :: uuid
  is_invoiceId :: uuid
  is_kind :: string
  is_amountMinor :: int
  is_paidMinor :: int
  is_creditedMinor :: int
  is_dueAt :: instant
  is_status :: string
  is_sequence :: int
  is_checkoutLockKey :: "string option"
  is_checkoutLockUntil :: "instant option"

record payment_session =
  ps_id :: uuid
  ps_tenantId :: uuid
  ps_scheduleId :: uuid
  ps_provider :: string
  ps_providerReference :: string
  ps_status :: string
  ps_amountMinor :: int
  ps_currency :: string
  ps_checkoutUrl :: string
  ps_idempotencyKey :: string
  ps_expiresAt :: instant
  ps_completedAt :: "instant option"

record payment_event =
  pe_id :: uuid
  pe_tenantId :: uuid
  pe_sessionId :: "uuid option"
  pe_provider :: string
  pe_providerEventId :: string
  pe_eventType :: string
  pe_payloadHash :: string
  pe_payload :: json
  pe_status :: string
  pe_error :: "app_error option"
  pe_processedAt :: "instant option"

record payment_allocation =
  pa_id :: uuid
  pa_tenantId :: uuid
  pa_invoiceId :: uuid
  pa_scheduleId :: uuid
  pa_sessionId :: uuid
  pa_amountMinor :: int
  pa_currency :: string

record payment_refund =
  rf_id :: uuid
  rf_tenantId :: uuid
  rf_invoiceId :: uuid
  rf_sessionId :: uuid
  rf_idempotencyKey :: string
  rf_providerReference :: "string option"
  rf_amountMinor :: int
  rf_reason :: string
  rf_status :: string
  rf_requestedBy :: uuid
  rf_completedAt :: "instant option"
  rf_appliedAt :: "instant option"
  rf_lastError :: "app_error option"

record credit_note_row =
  cn_id :: uuid
  cn_tenantId :: uuid
  cn_invoiceId :: uuid
  cn_number :: string
  cn_idempotencyKey :: "string option"
  cn_amountMinor :: int
  cn_reason :: string
  cn_issuedBy :: uuid

record document_sequence =
  dq_id :: uuid
  dq_tenantId :: uuid
  dq_kind :: string
  dq_year :: int
  dq_nextValue :: int

record business_member =
  bm_tenantId :: uuid
  bm_accountId :: uuid
  bm_userId :: uuid

record business_account =
  ba_id :: uuid
  ba_tenantId :: uuid
  ba_key :: string
  ba_name :: string
  ba_currency :: string
  ba_creditLimitMinor :: int
  ba_paymentTermsDays :: int
  ba_approvalMinor :: int
  ba_status :: string
  ba_version :: int

record billing_profile =
  bp_id :: uuid
  bp_tenantId :: uuid
  bp_legalName :: string
  bp_taxIdentifier :: "string option"
  bp_address :: json

text \<open>A booking of \<open>Freight\<close>, which a payment of its invoice confirms.\<close>

record freight_booking =
  fb_id :: uuid
  fb_tenantId :: uuid
  fb_requestId :: uuid
  fb_quoteId :: uuid
  fb_number :: string
  fb_status :: string
  fb_customerId :: uuid
  fb_businessAccountId :: "uuid option"
  fb_invoiceId :: "uuid option"
  fb_confirmedAt :: "instant option"
  fb_dispatchedAt :: "instant option"
  fb_deliveredAt :: "instant option"
  fb_completedAt :: "instant option"
  fb_version :: int

text \<open>An insurance policy, which a payment activates.\<close>

record insurance_policy =
  ip_id :: uuid
  ip_tenantId :: uuid
  ip_status :: string
  ip_version :: int
  ip_quoteId :: uuid
  ip_requestId :: uuid
  ip_bookingId :: "uuid option"
  ip_policyNumber :: string
  ip_certificateNumber :: string
  ip_currency :: string
  ip_insuredValueMinor :: int
  ip_premiumMinor :: int
  ip_deductible :: json
  ip_clauses :: json
  ip_exclusions :: "json option"
  ip_coverageStartAt :: instant
  ip_coverageEndAt :: instant

record billing_db = finance_db +
  invoices :: "billing_invoice list"
  invoice_lines :: "invoice_line list"
  schedules :: "payment_schedule list"
  sessions :: "payment_session list"
  payment_events :: "payment_event list"
  allocations :: "payment_allocation list"
  refunds :: "payment_refund list"
  credit_notes :: "credit_note_row list"
  document_sequences :: "document_sequence list"
  business_members :: "business_member list"
  business_accounts :: "business_account list"
  billing_profiles :: "billing_profile list"
  freight_bookings :: "freight_booking list"
  insurance_policies :: "insurance_policy list"

section \<open>Unique keys\<close>

definition same_invoice :: "billing_invoice \<Rightarrow> billing_invoice \<Rightarrow> bool" where
  "same_invoice a b \<longleftrightarrow> bi_id a = bi_id b
     \<or> bi_tenantId a = bi_tenantId b
       \<and> (bi_number a = bi_number b
          \<or> bi_sourceType a = bi_sourceType b \<and> bi_sourceId a = bi_sourceId b)"

definition same_invoice_line :: "invoice_line \<Rightarrow> invoice_line \<Rightarrow> bool" where
  "same_invoice_line a b \<longleftrightarrow> il_id a = il_id b"

definition same_schedule :: "payment_schedule \<Rightarrow> payment_schedule \<Rightarrow> bool" where
  "same_schedule a b \<longleftrightarrow> is_id a = is_id b
     \<or> is_tenantId a = is_tenantId b \<and> is_invoiceId a = is_invoiceId b \<and> is_sequence a = is_sequence b"

definition same_session :: "payment_session \<Rightarrow> payment_session \<Rightarrow> bool" where
  "same_session a b \<longleftrightarrow> ps_id a = ps_id b
     \<or> ps_provider a = ps_provider b \<and> ps_providerReference a = ps_providerReference b
     \<or> ps_tenantId a = ps_tenantId b \<and> ps_idempotencyKey a = ps_idempotencyKey b"

definition same_payment_event :: "payment_event \<Rightarrow> payment_event \<Rightarrow> bool" where
  "same_payment_event a b \<longleftrightarrow> pe_id a = pe_id b
     \<or> pe_provider a = pe_provider b \<and> pe_providerEventId a = pe_providerEventId b"

definition same_allocation :: "payment_allocation \<Rightarrow> payment_allocation \<Rightarrow> bool" where
  "same_allocation a b \<longleftrightarrow> pa_id a = pa_id b
     \<or> pa_tenantId a = pa_tenantId b \<and> pa_sessionId a = pa_sessionId b"

definition same_refund :: "payment_refund \<Rightarrow> payment_refund \<Rightarrow> bool" where
  "same_refund a b \<longleftrightarrow> rf_id a = rf_id b
     \<or> rf_tenantId a = rf_tenantId b \<and> rf_idempotencyKey a = rf_idempotencyKey b"

definition same_credit_note :: "credit_note_row \<Rightarrow> credit_note_row \<Rightarrow> bool" where
  "same_credit_note a b \<longleftrightarrow> cn_id a = cn_id b
     \<or> cn_tenantId a = cn_tenantId b
       \<and> (cn_number a = cn_number b
          \<or> cn_idempotencyKey a \<noteq> None \<and> cn_idempotencyKey a = cn_idempotencyKey b)"

definition same_sequence :: "document_sequence \<Rightarrow> document_sequence \<Rightarrow> bool" where
  "same_sequence a b \<longleftrightarrow> dq_id a = dq_id b
     \<or> dq_tenantId a = dq_tenantId b \<and> dq_kind a = dq_kind b \<and> dq_year a = dq_year b"

interpretation invoices: row_store invoices invoices_update
  by unfold_locales simp_all

interpretation schedules: row_store schedules schedules_update
  by unfold_locales simp_all

interpretation sessions: row_store sessions sessions_update
  by unfold_locales simp_all

interpretation payment_events: row_store payment_events payment_events_update
  by unfold_locales simp_all

interpretation allocations: row_store allocations allocations_update
  by unfold_locales simp_all

interpretation refunds: row_store refunds refunds_update
  by unfold_locales simp_all

interpretation credit_notes: row_store credit_notes credit_notes_update
  by unfold_locales simp_all

interpretation document_sequences: row_store document_sequences document_sequences_update
  by unfold_locales simp_all

section \<open>Amounts and numbers\<close>

definition safeMoneyNumber :: "int \<Rightarrow> app_error + int" where
  "safeMoneyNumber amount =
     (if safe_integer amount then Inr amount
      else Inl (Conflict ''Amount exceeds the supported payment range''))"

definition formatMinor :: "int \<Rightarrow> string" where
  "formatMinor amount =
     (let sign = (if amount < 0 then ''-'' else ''''); absolute = \<bar>amount\<bar>
      in sign @ show_int (absolute div 100) @ ''.'' @ pad_start 2 CHR ''0'' (show_int (absolute mod 100)))"

text \<open>\<open>nextInvoiceNumber\<close>: the number the sequence of the year stood at before.\<close>

definition nextInvoiceNumber :: "uuid \<Rightarrow> ('m billing_db_scheme, string) prog" where
  "nextInvoiceNumber tenant =
     seq now (\<lambda>today.
     seq random_uuid (\<lambda>i.
     seq (upsert_row document_sequences document_sequences_update same_sequence
            (\<lambda>q. dq_tenantId q = tenant \<and> dq_kind q = ''INVOICE'' \<and> dq_year q = utc_year today)
            (\<lambda>q. q\<lparr>dq_nextValue := dq_nextValue q + 1\<rparr>)
            \<lparr>dq_id = i, dq_tenantId = tenant, dq_kind = ''INVOICE'', dq_year = utc_year today,
             dq_nextValue = 2\<rparr>) (\<lambda>sequence.
     ret (''INV-'' @ show_int (utc_year today) @ ''-''
          @ pad_start 6 CHR ''0'' (show_int (dq_nextValue sequence - 1))))))"

section \<open>Providers\<close>

record session_input =
  si_provider :: string
  si_idempotencyKey :: string
  si_amountMinor :: int
  si_currency :: string
  si_invoiceId :: uuid
  si_invoiceNumber :: string

record provider_session =
  pv_reference :: string
  pv_checkoutUrl :: string
  pv_expiresAt :: instant

record refund_input =
  ri_refundId :: uuid
  ri_provider :: string
  ri_providerReference :: string
  ri_amountMinor :: int
  ri_reason :: string
  ri_idempotencyKey :: string

record provider_object =
  po_id :: "string option"
  po_status :: "string option"
  po_payment_status :: "string option"
  po_refund_id :: "string option"   \<comment> \<open>\<open>metadata.logicommerce_refund_id\<close>\<close>

record provider_event =
  ev_id :: "string option"
  ev_type :: "string option"
  ev_eventType :: "string option"
  ev_status :: "string option"
  ev_refunds :: "(string option \<times> string option) list option"
  ev_object :: "provider_object option"
  ev_payload :: json

text \<open>
  What the service gets from outside: the environment (\<open>production\<close>, base URL), the answers
  of the providers, the verdicts on signatures, the parser of the bodies and the digest.
\<close>

record payment_port =
  pp_production :: bool
  pp_baseUrl :: string
  pp_open :: "session_input \<Rightarrow> nat \<Rightarrow> app_error + provider_session"
  pp_refund :: "refund_input \<Rightarrow> nat \<Rightarrow> app_error + (string \<times> string)"  \<comment> \<open>reference, status\<close>
  pp_verifyStripe :: "string \<Rightarrow> string \<Rightarrow> app_error + bool"
  pp_verifyCoinbase :: "string \<Rightarrow> string \<Rightarrow> (string \<times> string) list \<Rightarrow> app_error + bool"
  pp_parse :: "string \<Rightarrow> provider_event option"
  pp_sha256 :: "string \<Rightarrow> string"
  pp_payloadHash :: "json \<Rightarrow> string"

text \<open>\<open>PaymentProviderService.createSession\<close>.\<close>

definition provider_createSession ::
  "payment_port \<Rightarrow> session_input \<Rightarrow> ('m runtime_scheme, provider_session) prog"
where
  "provider_createSession port input =
     (if si_provider input = ''MOCK'' then
        seq (ensure (\<not> pp_production port) (ServiceUnavailable ''Mock payments are disabled'')) (\<lambda>_.
        seq random_uuid (\<lambda>i.
        seq now (\<lambda>today.
        ret \<lparr>pv_reference = ''mock_'' @ i,
             pv_checkoutUrl = pp_baseUrl port @ ''/freight?mockPayment='' @ ''mock_'' @ i,
             pv_expiresAt = today + 30 * 60000\<rparr>)))
      else
        seq (reads (\<lambda>s. length (external_calls s))) (\<lambda>n.
        seq (send (OpenCheckout (si_provider input) (si_idempotencyKey input) (si_amountMinor input)
               (si_currency input))) (\<lambda>_.
        lift_result (pp_open port input n))))"

text \<open>\<open>PaymentProviderService.refund\<close>: the reference of the provider and a status.\<close>

definition provider_refund ::
  "payment_port \<Rightarrow> refund_input \<Rightarrow> ('m runtime_scheme, string \<times> string) prog"
where
  "provider_refund port input =
     (if ri_provider input = ''MOCK'' then
        seq random_uuid (\<lambda>i. ret (''mockrefund_'' @ i, ''COMPLETED''))
      else
        seq (reads (\<lambda>s. length (external_calls s))) (\<lambda>n.
        seq (send (SubmitRefund (ri_provider input) (ri_providerReference input) (ri_amountMinor input)
               (ri_idempotencyKey input))) (\<lambda>_.
        lift_result (pp_refund port input n))))"

section \<open>Reading an invoice\<close>

definition businessAccountIds ::
  "tenant_context \<Rightarrow> auth_principal \<Rightarrow> ('m billing_db_scheme, uuid list) prog"
where
  "businessAccountIds ctx pr = reads (\<lambda>s. map bm_accountId
     (filter (\<lambda>m. bm_tenantId m = ctx_tenantId ctx \<and> bm_userId m = pr_userId pr) (business_members s)))"

definition visible_invoice :: "auth_principal \<Rightarrow> bool \<Rightarrow> uuid list \<Rightarrow> billing_invoice \<Rightarrow> bool" where
  "visible_invoice pr all accountIds b \<longleftrightarrow>
     all \<or> bi_customerId b = Some (pr_userId pr)
     \<or> (case bi_businessAccountId b of None \<Rightarrow> False | Some a \<Rightarrow> a \<in> set accountIds)"

definition invoice ::
  "tenant_context \<Rightarrow> auth_principal \<Rightarrow> uuid \<Rightarrow> bool \<Rightarrow> ('m billing_db_scheme, billing_invoice) prog"
where
  "invoice ctx pr invoiceId all =
     seq (if all then ret [] else businessAccountIds ctx pr) (\<lambda>accountIds.
     seq (find_row invoices (\<lambda>b. bi_id b = invoiceId \<and> bi_tenantId b = ctx_tenantId ctx
            \<and> visible_invoice pr all accountIds b)) (\<lambda>found.
     require found (NotFound ''Resource not found'')))"

definition schedules_of :: "uuid \<Rightarrow> ('m billing_db_scheme, payment_schedule list) prog" where
  "schedules_of invoiceId = find_rows schedules (\<lambda>x. is_invoiceId x = invoiceId)"

definition find_account :: "uuid \<Rightarrow> string \<Rightarrow> string \<Rightarrow> ('m finance_db_scheme, financial_account option) prog" where
  "find_account tenant code currency = find_row accounts (\<lambda>a. fa_tenantId a = tenant
     \<and> fa_code a = code \<and> fa_currency a = currency \<and> fa_active a)"

section \<open>Capturing a payment\<close>

definition now_if :: "bool \<Rightarrow> ('m runtime_scheme, instant option) prog" where
  "now_if b = (if b then seq now (\<lambda>t. ret (Some t)) else ret None)"

definition is_mock_event :: "string \<Rightarrow> bool" where
  "is_mock_event eventId \<longleftrightarrow> take 11 eventId = ''mock-event-''"

text \<open>The event row that a capture which is not a mock one marks as processed.\<close>

definition event_processed ::
  "uuid \<Rightarrow> (payment_event \<Rightarrow> payment_event) \<Rightarrow> ('m billing_db_scheme, unit) prog"
where
  "event_processed eventId f =
     when_do (\<not> is_mock_event eventId)
       (seq now (\<lambda>processed.
        seq (update_row payment_events payment_events_update (\<lambda>e. pe_id e = eventId)
               (\<lambda>e. f (e\<lparr>pe_status := ''PROCESSED'', pe_processedAt := Some processed\<rparr>))) (\<lambda>_.
        ret ())))"

text \<open>Two lines over one amount: the journals of payments, refunds and credit notes.\<close>

definition two_line_journal ::
  "string \<Rightarrow> uuid \<Rightarrow> string \<Rightarrow> string \<Rightarrow> string \<Rightarrow> uuid \<Rightarrow> uuid \<Rightarrow> int \<Rightarrow> post_journal_dto"
where
  "two_line_journal sourceType sourceId description currency key debitAccount creditAccount amount =
     \<lparr>pj_sourceType = sourceType, pj_sourceId = sourceId, pj_description = description,
      pj_currency = currency, pj_idempotencyKey = key, pj_reversalOfId = None, pj_lines =
        [\<lparr>jd_accountId = debitAccount, jd_debitMinor = amount, jd_creditMinor = 0, jd_memo = None\<rparr>,
         \<lparr>jd_accountId = creditAccount, jd_debitMinor = 0, jd_creditMinor = amount, jd_memo = None\<rparr>]\<rparr>"

definition system_user :: uuid where
  "system_user = ''00000000-0000-4000-8000-000000000000''"

text \<open>The source documents a payment of their invoice moves on.\<close>

definition confirm_source ::
  "payment_session \<Rightarrow> billing_invoice \<Rightarrow> bool \<Rightarrow> ('m billing_db_scheme, unit) prog"
where
  "confirm_source session b fullyPaid =
     seq (when_do (bi_sourceType b = ''FREIGHT_BOOKING'')
            (seq (schedules_of (bi_id b)) (\<lambda>all.
             when_do (case sort_key is_sequence all of [] \<Rightarrow> False | first # _ \<Rightarrow> is_id first = ps_scheduleId session)
               (seq now (\<lambda>confirmed.
                seq (update_many freight_bookings freight_bookings_update
                       (\<lambda>f. fb_id f = bi_sourceId b \<and> fb_tenantId f = ps_tenantId session
                          \<and> fb_status f = ''AWAITING_PAYMENT'')
                       (\<lambda>f. f\<lparr>fb_status := ''CONFIRMED'', fb_confirmedAt := Some confirmed,
                              fb_version := fb_version f + 1\<rparr>)) (\<lambda>_.
                ret ())))))) (\<lambda>_.
     when_do (bi_sourceType b = ''CARGO_INSURANCE'' \<and> fullyPaid)
       (seq (update_many insurance_policies insurance_policies_update
               (\<lambda>f. ip_id f = bi_sourceId b \<and> ip_tenantId f = ps_tenantId session
                  \<and> ip_status f = ''AWAITING_PAYMENT'')
               (\<lambda>f. f\<lparr>ip_status := ''ACTIVE'', ip_version := ip_version f + 1\<rparr>)) (\<lambda>_.
        ret ())))"

text \<open>The part of \<open>processSuccessfulPayment\<close> after the check for an earlier allocation.\<close>

definition capture_payment ::
  "payment_session \<Rightarrow> payment_schedule \<Rightarrow> billing_invoice \<Rightarrow> string \<Rightarrow> json \<Rightarrow> ('m billing_db_scheme, unit) prog"
where
  "capture_payment session schedule b eventId evidence =
     (let amount = ps_amountMinor session;
          fullyPaid = (bi_paidMinor b + amount + bi_creditedMinor b \<ge> bi_totalMinor b)
      in
      seq (ensure (\<not> amount > is_amountMinor schedule - is_paidMinor schedule - is_creditedMinor schedule)
             (Conflict ''Captured payment exceeds the remaining schedule balance and requires reconciliation'')) (\<lambda>_.
      seq random_uuid (\<lambda>allocationId.
      seq (create_row allocations allocations_update same_allocation
             \<lparr>pa_id = allocationId, pa_tenantId = ps_tenantId session, pa_invoiceId = bi_id b,
              pa_scheduleId = ps_scheduleId session, pa_sessionId = ps_id session,
              pa_amountMinor = amount, pa_currency = ps_currency session\<rparr>) (\<lambda>_.
      seq now (\<lambda>completed.
      seq (update_row sessions sessions_update (\<lambda>x. ps_id x = ps_id session)
             (\<lambda>x. x\<lparr>ps_status := ''COMPLETED'', ps_completedAt := Some completed\<rparr>)) (\<lambda>_.
      seq (update_row schedules schedules_update (\<lambda>x. is_id x = ps_scheduleId session)
             (\<lambda>x. x\<lparr>is_paidMinor := is_paidMinor x + amount, is_checkoutLockKey := None,
                    is_checkoutLockUntil := None,
                    is_status := (if is_paidMinor schedule + is_creditedMinor schedule + amount
                                     \<ge> is_amountMinor schedule then ''PAID'' else ''PARTIALLY_PAID'')\<rparr>)) (\<lambda>_.
      seq (now_if fullyPaid) (\<lambda>paidAt.
      seq (update_row invoices invoices_update (\<lambda>x. bi_id x = bi_id b)
             (\<lambda>x. x\<lparr>bi_paidMinor := bi_paidMinor x + amount,
                    bi_status := (if fullyPaid then ''PAID'' else ''PARTIALLY_PAID''),
                    bi_paidAt := paidAt, bi_version := bi_version x + 1\<rparr>)) (\<lambda>_.
      seq (confirm_source session b fullyPaid) (\<lambda>_.
      seq (find_account (ps_tenantId session) ''1000'' (bi_currency b)) (\<lambda>cash.
      seq (find_account (ps_tenantId session) ''1100'' (bi_currency b)) (\<lambda>receivable.
      seq (require cash (ServiceUnavailable ''Finance chart is not configured for this currency'')) (\<lambda>cash.
      seq (require receivable (ServiceUnavailable ''Finance chart is not configured for this currency'')) (\<lambda>receivable.
      seq random_uuid (\<lambda>journalId.
      seq (create_journal journalId (ps_tenantId session) (''PAY-'' @ js_upper (take 8 journalId))
             (case bi_customerId b of None \<Rightarrow> system_user | Some c \<Rightarrow> c)
             (two_line_journal ''PAYMENT'' (ps_id session) (''Payment for '' @ bi_number b) (bi_currency b)
                (''payment:'' @ ps_id session) (fa_id cash) (fa_id receivable) amount)) (\<lambda>_.
      seq (lift_result (safeMoneyNumber amount)) (\<lambda>amountNumber.
      seq random_uuid (\<lambda>correlation.
      seq (publish (ps_tenantId session) ''billing.payment.received.v1'' (''invoice/'' @ bi_id b)
             (JObj [(''invoiceId'', JStr (bi_id b)), (''paymentSessionId'', JStr (ps_id session)),
                    (''amountMinor'', JNum amountNumber), (''evidence'', evidence)]) correlation) (\<lambda>_.
      event_processed eventId (\<lambda>e. e))))))))))))))))))))"

definition process_successful_payment_tx ::
  "uuid \<Rightarrow> string \<Rightarrow> json \<Rightarrow> ('m billing_db_scheme, unit) prog"
where
  "process_successful_payment_tx sessionId eventId evidence =
     seq (find_row sessions (\<lambda>x. ps_id x = sessionId)) (\<lambda>found.
     seq (require found (NotFound ''Payment session not found'')) (\<lambda>session.
     seq (find_row schedules (\<lambda>x. is_id x = ps_scheduleId session)) (\<lambda>schedule.
     seq (require schedule RecordMissing) (\<lambda>schedule.
     seq (find_row invoices (\<lambda>x. bi_id x = is_invoiceId schedule)) (\<lambda>b.
     seq (require b RecordMissing) (\<lambda>b.
     seq (count_rows allocations (\<lambda>a. pa_sessionId a = sessionId)) (\<lambda>allocated.
     if allocated > 0 then event_processed eventId (\<lambda>e. e\<lparr>pe_error := None\<rparr>)
     else capture_payment session schedule b eventId evidence)))))))"

definition process_successful_payment ::
  "uuid \<Rightarrow> string \<Rightarrow> json \<Rightarrow> ('m billing_db_scheme, unit) prog"
where
  "process_successful_payment sessionId eventId evidence =
     transaction (process_successful_payment_tx sessionId eventId evidence)"

section \<open>Payment sessions\<close>

record create_session_dto =
  cp_provider :: string
  cp_scheduleId :: "uuid option"

definition normalized_key :: "string \<Rightarrow> app_error + string" where
  "normalized_key idempotencyKey =
     (let key = js_trim idempotencyKey
      in if length key < 8 \<or> length key > 160
         then Inl (Conflict ''A valid Idempotency-Key header is required'') else Inr key)"

definition assert_session_replay ::
  "payment_session \<Rightarrow> payment_schedule list \<Rightarrow> create_session_dto \<Rightarrow> app_error + payment_session"
where
  "assert_session_replay session scheds input =
     (if \<not> list_ex (\<lambda>x. is_id x = ps_scheduleId session) scheds \<or> ps_provider session \<noteq> cp_provider input
         \<or> (cp_scheduleId input \<noteq> None \<and> cp_scheduleId input \<noteq> Some (ps_scheduleId session))
      then Inl (Conflict ''Idempotency-Key was already used for another payment request'')
      else Inr session)"

definition session_by_key ::
  "tenant_context \<Rightarrow> string \<Rightarrow> ('m billing_db_scheme, payment_session option) prog"
where
  "session_by_key ctx key = find_row sessions
     (\<lambda>x. ps_tenantId x = ctx_tenantId ctx \<and> ps_idempotencyKey x = key)"

definition outstanding :: "payment_schedule \<Rightarrow> int" where
  "outstanding x = is_amountMinor x - is_paidMinor x - is_creditedMinor x"

text \<open>Writing \<open>checkoutLockUntil\<close> under the lock of this key, or releasing it.\<close>

definition update_lock ::
  "tenant_context \<Rightarrow> uuid \<Rightarrow> string \<Rightarrow> (payment_schedule \<Rightarrow> payment_schedule) \<Rightarrow> ('m billing_db_scheme, nat) prog"
where
  "update_lock ctx scheduleId key f = update_many schedules schedules_update
     (\<lambda>x. is_id x = scheduleId \<and> is_tenantId x = ctx_tenantId ctx \<and> is_checkoutLockKey x = Some key) f"

definition release_lock :: "tenant_context \<Rightarrow> uuid \<Rightarrow> string \<Rightarrow> ('m billing_db_scheme, unit) prog" where
  "release_lock ctx scheduleId key =
     seq (update_lock ctx scheduleId key
            (\<lambda>x. x\<lparr>is_checkoutLockKey := None, is_checkoutLockUntil := None\<rparr>)) (\<lambda>_. ret ())"

definition unlocked :: "instant \<Rightarrow> payment_schedule \<Rightarrow> bool" where
  "unlocked today x \<longleftrightarrow> is_checkoutLockKey x = None
     \<or> (case is_checkoutLockUntil x of None \<Rightarrow> False | Some u \<Rightarrow> u \<le> today)"

text \<open>
  The body of the \<open>try\<close> up to the point where the lock is retained: the session, whether it
  was created here, and \<open>retainScheduleLock\<close>.
\<close>

definition open_session ::
  "payment_port \<Rightarrow> tenant_context \<Rightarrow> billing_invoice \<Rightarrow> payment_schedule list \<Rightarrow> payment_schedule \<Rightarrow> string
     \<Rightarrow> create_session_dto \<Rightarrow> ('m billing_db_scheme, payment_session \<times> bool \<times> bool) prog"
where
  "open_session port ctx b scheds schedule key input =
     seq (find_row schedules (\<lambda>x. is_id x = is_id schedule \<and> is_tenantId x = ctx_tenantId ctx)) (\<lambda>current.
     seq (ensure (case current of None \<Rightarrow> False | Some x \<Rightarrow> is_status x \<noteq> ''PAID'')
            (Conflict ''Payment schedule is already paid'')) (\<lambda>_.
     seq (require current RecordMissing) (\<lambda>x.
     seq (ensure (\<not> outstanding x \<le> 0) (Conflict ''Payment schedule is already paid'')) (\<lambda>_.
     seq (lift_result (safeMoneyNumber (outstanding x))) (\<lambda>remaining.
     seq now (\<lambda>today.
     seq (find_row sessions (\<lambda>p. ps_tenantId p = ctx_tenantId ctx \<and> ps_scheduleId p = is_id schedule
            \<and> ps_status p = ''PENDING'' \<and> ps_expiresAt p > today)) (\<lambda>active.
     seq (ensure (active = None)
            (Conflict ''This payment schedule already has an active checkout session'')) (\<lambda>_.
     seq (provider_createSession port
            \<lparr>si_provider = cp_provider input, si_idempotencyKey = key, si_amountMinor = remaining,
             si_currency = bi_currency b, si_invoiceId = bi_id b, si_invoiceNumber = bi_number b\<rparr>) (\<lambda>opened.
     seq random_uuid (\<lambda>i.
     seq (catch
            (seq (create_row sessions sessions_update same_session
                   \<lparr>ps_id = i, ps_tenantId = ctx_tenantId ctx, ps_scheduleId = is_id schedule,
                    ps_provider = cp_provider input, ps_providerReference = pv_reference opened,
                    ps_status = ''PENDING'', ps_amountMinor = remaining, ps_currency = bi_currency b,
                    ps_checkoutUrl = pv_checkoutUrl opened, ps_idempotencyKey = key,
                    ps_expiresAt = pv_expiresAt opened, ps_completedAt = None\<rparr>) (\<lambda>p. ret (p, True)))
            (\<lambda>e. if e \<noteq> UniqueViolation then throw e
                 else seq (session_by_key ctx key) (\<lambda>concurrent.
                      seq (require concurrent
                             (Conflict ''A conflicting payment session already exists'')) (\<lambda>concurrent.
                      seq (lift_result (assert_session_replay concurrent scheds input)) (\<lambda>p.
                      ret (p, False)))))) (\<lambda>(p, createdHere).
     if ps_status p = ''PENDING'' then
       seq (update_lock ctx (is_id schedule) key (\<lambda>x. x\<lparr>is_checkoutLockUntil := Some (ps_expiresAt p)\<rparr>)) (\<lambda>retained.
       seq (ensure (retained = 1) (Conflict ''Payment schedule checkout lock was lost'')) (\<lambda>_.
       ret (p, createdHere, True)))
     else ret (p, createdHere, False))))))))))))"

definition finish_session ::
  "create_session_dto \<Rightarrow> payment_session \<Rightarrow> bool \<Rightarrow> ('m billing_db_scheme, payment_session option) prog"
where
  "finish_session input p createdHere =
     (if cp_provider input = ''MOCK'' \<and> createdHere then
        seq (process_successful_payment (ps_id p) (''mock-event-'' @ ps_id p)
               (JObj [(''source'', JStr ''development-mock'')])) (\<lambda>_.
        find_row sessions (\<lambda>x. ps_id x = ps_id p))
      else ret (Some p))"

text \<open>
  The \<open>try\<close> block with its \<open>finally\<close>: the lock is released unless it was retained.
\<close>

definition session_under_lock ::
  "payment_port \<Rightarrow> tenant_context \<Rightarrow> billing_invoice \<Rightarrow> payment_schedule list \<Rightarrow> payment_schedule \<Rightarrow> string
     \<Rightarrow> create_session_dto \<Rightarrow> ('m billing_db_scheme, payment_session option) prog"
where
  "session_under_lock port ctx b scheds schedule key input =
     seq (catch (open_session port ctx b scheds schedule key input)
            (\<lambda>e. seq (release_lock ctx (is_id schedule) key) (\<lambda>_. throw e))) (\<lambda>(p, createdHere, retained).
     finally_do (finish_session input p createdHere)
       (when_do (\<not> retained) (release_lock ctx (is_id schedule) key)))"

definition create_payment_session ::
  "payment_port \<Rightarrow> tenant_context \<Rightarrow> auth_principal \<Rightarrow> uuid \<Rightarrow> string \<Rightarrow> create_session_dto
     \<Rightarrow> ('m billing_db_scheme, payment_session option) prog"
where
  "create_payment_session port ctx pr invoiceId idempotencyKey input =
     seq (lift_result (normalized_key idempotencyKey)) (\<lambda>key.
     seq (invoice ctx pr invoiceId False) (\<lambda>b.
     seq (schedules_of (bi_id b)) (\<lambda>scheds.
     seq (session_by_key ctx key) (\<lambda>existing.
     case existing of
       Some p \<Rightarrow> seq (lift_result (assert_session_replay p scheds input)) (\<lambda>p. ret (Some p))
     | None \<Rightarrow>
         seq (ensure (bi_status b \<notin> {''PAID'', ''VOID''})
                (Conflict ''Invoice does not accept another payment'')) (\<lambda>_.
         seq (require (case cp_scheduleId input of
                Some i \<Rightarrow> List.find (\<lambda>x. is_id x = i) scheds
              | None \<Rightarrow> List.find (\<lambda>x. is_status x \<noteq> ''PAID'') scheds)
                (Conflict ''No payable schedule remains'')) (\<lambda>schedule.
         seq (ensure (\<not> outstanding schedule \<le> 0) (Conflict ''Payment schedule is already paid'')) (\<lambda>_.
         seq now (\<lambda>today.
         seq now (\<lambda>later.
         seq (update_many schedules schedules_update
                (\<lambda>x. is_id x = is_id schedule \<and> is_tenantId x = ctx_tenantId ctx \<and> unlocked today x)
                (\<lambda>x. x\<lparr>is_checkoutLockKey := Some key, is_checkoutLockUntil := Some (later + 120000)\<rparr>)) (\<lambda>locked.
         if locked \<noteq> 1 then
           seq (session_by_key ctx key) (\<lambda>concurrent.
           case concurrent of
             Some p \<Rightarrow> seq (lift_result (assert_session_replay p scheds input)) (\<lambda>p. ret (Some p))
           | None \<Rightarrow> throw (Conflict ''This payment schedule is creating another checkout session''))
         else session_under_lock port ctx b scheds schedule key input))))))))))"

section \<open>Refunds\<close>

text \<open>\<open>applyRefund\<close>.\<close>

definition refund_invoice_status :: "billing_invoice \<Rightarrow> int \<Rightarrow> instant \<Rightarrow> string" where
  "refund_invoice_status b paid today =
     (if paid + bi_creditedMinor b \<ge> bi_totalMinor b then ''PAID''
      else if paid > 0 \<or> bi_creditedMinor b > 0 then ''PARTIALLY_PAID''
      else if bi_dueAt b < today then ''OVERDUE'' else ''ISSUED'')"

definition refund_schedule_status :: "payment_schedule \<Rightarrow> int \<Rightarrow> string" where
  "refund_schedule_status x paid =
     (if paid + is_creditedMinor x \<ge> is_amountMinor x then ''PAID''
      else if paid > 0 \<or> is_creditedMinor x > 0 then ''PARTIALLY_PAID'' else ''DUE'')"

definition book_refund ::
  "payment_refund \<Rightarrow> payment_session \<Rightarrow> payment_schedule \<Rightarrow> billing_invoice \<Rightarrow> ('m billing_db_scheme, unit) prog"
where
  "book_refund r session schedule b =
     (let paid = bi_paidMinor b - rf_amountMinor r;
          schedulePaid = is_paidMinor schedule - rf_amountMinor r;
          settled = (paid + bi_creditedMinor b \<ge> bi_totalMinor b)
      in
      seq now (\<lambda>today.
      seq (find_account (rf_tenantId r) ''1100'' (bi_currency b)) (\<lambda>receivable.
      seq (find_account (rf_tenantId r) ''1000'' (bi_currency b)) (\<lambda>cash.
      seq (require receivable (ServiceUnavailable ''Finance chart is not configured for this currency'')) (\<lambda>receivable.
      seq (require cash (ServiceUnavailable ''Finance chart is not configured for this currency'')) (\<lambda>cash.
      seq (update_row schedules schedules_update (\<lambda>x. is_id x = ps_scheduleId session)
             (\<lambda>x. x\<lparr>is_paidMinor := schedulePaid,
                    is_status := refund_schedule_status schedule schedulePaid\<rparr>)) (\<lambda>_.
      seq (update_row invoices invoices_update (\<lambda>x. bi_id x = rf_invoiceId r)
             (\<lambda>x. x\<lparr>bi_paidMinor := paid, bi_status := refund_invoice_status b paid today,
                    bi_paidAt := (if settled then bi_paidAt b else None),
                    bi_version := bi_version x + 1\<rparr>)) (\<lambda>_.
      seq random_uuid (\<lambda>journalId.
      seq (create_journal journalId (rf_tenantId r) (''REF-'' @ js_upper (take 8 journalId)) (rf_requestedBy r)
             (two_line_journal ''PAYMENT_REFUND'' (rf_id r) (''Refund for '' @ bi_number b) (bi_currency b)
                (''payment-refund:'' @ rf_id r) (fa_id receivable) (fa_id cash) (rf_amountMinor r))) (\<lambda>_.
      seq (lift_result (safeMoneyNumber (rf_amountMinor r))) (\<lambda>amountNumber.
      seq random_uuid (\<lambda>correlation.
      seq (publish (rf_tenantId r) ''billing.payment.refunded.v1'' (''invoice/'' @ rf_invoiceId r)
             (JObj [(''invoiceId'', JStr (rf_invoiceId r)), (''paymentSessionId'', JStr (rf_sessionId r)),
                    (''refundId'', JStr (rf_id r)), (''amountMinor'', JNum amountNumber)]) correlation) (\<lambda>_.
      ret ())))))))))))))"

definition settle_refund ::
  "payment_refund \<Rightarrow> payment_session \<Rightarrow> payment_schedule \<Rightarrow> billing_invoice \<Rightarrow> ('m billing_db_scheme, unit) prog"
where
  "settle_refund r session schedule b =
     (if rf_status r \<noteq> ''COMPLETED'' then ret ()
      else
        seq (ensure (\<not> (bi_paidMinor b < rf_amountMinor r \<or> is_paidMinor schedule < rf_amountMinor r))
               (Conflict ''Refund would make an allocated payment negative'')) (\<lambda>_.
        seq now (\<lambda>applied.
        seq (update_many refunds refunds_update
               (\<lambda>x. rf_id x = rf_id r \<and> rf_status x = ''COMPLETED'' \<and> rf_appliedAt x = None)
               (\<lambda>x. x\<lparr>rf_appliedAt := Some applied\<rparr>)) (\<lambda>claimed.
        if claimed \<noteq> 1 then ret () else book_refund r session schedule b))))"

definition apply_refund_tx :: "uuid \<Rightarrow> ('m billing_db_scheme, unit) prog" where
  "apply_refund_tx refundId =
     seq (find_row refunds (\<lambda>r. rf_id r = refundId)) (\<lambda>found.
     case found of
       None \<Rightarrow> ret ()
     | Some r \<Rightarrow>
         seq (find_row invoices (\<lambda>b. bi_id b = rf_invoiceId r)) (\<lambda>b.
         seq (require b RecordMissing) (\<lambda>b.
         seq (find_row sessions (\<lambda>p. ps_id p = rf_sessionId r)) (\<lambda>session.
         seq (require session RecordMissing) (\<lambda>session.
         seq (find_row schedules (\<lambda>x. is_id x = ps_scheduleId session)) (\<lambda>schedule.
         seq (require schedule RecordMissing) (\<lambda>schedule.
         settle_refund r session schedule b)))))))"

definition apply_refund :: "uuid \<Rightarrow> ('m billing_db_scheme, unit) prog" where
  "apply_refund refundId = transaction (apply_refund_tx refundId)"

record refund_dto =
  rp_amountMinor :: int
  rp_reason :: string

definition assert_refund_replay :: "payment_refund \<Rightarrow> uuid \<Rightarrow> refund_dto \<Rightarrow> app_error + payment_refund" where
  "assert_refund_replay r sessionId input =
     (if rf_sessionId r \<noteq> sessionId \<or> rf_amountMinor r \<noteq> rp_amountMinor input \<or> rf_reason r \<noteq> rp_reason input
      then Inl (Conflict ''Idempotency-Key was already used for another refund request'') else Inr r)"

definition refund_by_key ::
  "tenant_context \<Rightarrow> string \<Rightarrow> ('m billing_db_scheme, payment_refund option) prog"
where
  "refund_by_key ctx key = find_row refunds
     (\<lambda>r. rf_tenantId r = ctx_tenantId ctx \<and> rf_idempotencyKey r = key)"

text \<open>The serializable transaction that records the intent to refund.\<close>

definition intend_refund_tx ::
  "tenant_context \<Rightarrow> auth_principal \<Rightarrow> uuid \<Rightarrow> string \<Rightarrow> refund_dto \<Rightarrow> ('m billing_db_scheme, payment_refund) prog"
where
  "intend_refund_tx ctx pr sessionId key input =
     seq (refund_by_key ctx key) (\<lambda>replay.
     case replay of
       Some r \<Rightarrow> ret r
     | None \<Rightarrow>
         seq (find_row sessions (\<lambda>p. ps_id p = sessionId \<and> ps_tenantId p = ctx_tenantId ctx
                \<and> ps_status p = ''COMPLETED'')) (\<lambda>session.
         seq (require session (NotFound ''Resource not found'')) (\<lambda>session.
         seq (find_row schedules (\<lambda>x. is_id x = ps_scheduleId session)) (\<lambda>schedule.
         seq (require schedule RecordMissing) (\<lambda>schedule.
         seq (find_rows refunds (\<lambda>r. rf_sessionId r = sessionId \<and> rf_status r \<noteq> ''FAILED'')) (\<lambda>reserved.
         seq (ensure (\<not> rp_amountMinor input + sum_list (map rf_amountMinor reserved) > ps_amountMinor session)
                (Conflict ''Refund exceeds the captured payment'')) (\<lambda>_.
         seq random_uuid (\<lambda>i.
         seq (create_row refunds refunds_update same_refund
                \<lparr>rf_id = i, rf_tenantId = ctx_tenantId ctx, rf_invoiceId = is_invoiceId schedule,
                 rf_sessionId = sessionId, rf_idempotencyKey = key, rf_providerReference = None,
                 rf_amountMinor = rp_amountMinor input, rf_reason = rp_reason input,
                 rf_status = ''PENDING'', rf_requestedBy = pr_userId pr, rf_completedAt = None,
                 rf_appliedAt = None, rf_lastError = None\<rparr>) (\<lambda>r.
         seq (audit_as ctx pr ''billing.refund.requested'' ''PAYMENT_REFUND'' (rf_id r) (Some (rp_reason input))
                (Some (JObj [(''sessionId'', JStr sessionId), (''amountMinor'', JNum (rp_amountMinor input))])) None) (\<lambda>_.
         ret r))))))))))"

definition submit_refund ::
  "payment_port \<Rightarrow> tenant_context \<Rightarrow> payment_session \<Rightarrow> payment_refund \<Rightarrow> string
     \<Rightarrow> ('m billing_db_scheme, payment_refund) prog"
where
  "submit_refund port ctx session intent key =
     seq (lift_result (safeMoneyNumber (rf_amountMinor intent))) (\<lambda>amount.
     seq (provider_refund port
            \<lparr>ri_refundId = rf_id intent, ri_provider = ps_provider session,
             ri_providerReference = ps_providerReference session, ri_amountMinor = amount,
             ri_reason = rf_reason intent, ri_idempotencyKey = key\<rparr>) (\<lambda>(reference, status).
     seq (now_if (status = ''COMPLETED'')) (\<lambda>completed.
     seq (update_row refunds refunds_update (\<lambda>r. rf_id r = rf_id intent)
            (\<lambda>r. r\<lparr>rf_providerReference := Some reference, rf_status := status, rf_lastError := None,
                   rf_completedAt := completed\<rparr>)) (\<lambda>r.
     seq (when_do (status = ''COMPLETED'') (apply_refund (rf_id r))) (\<lambda>_.
     ret r)))))"

text \<open>What follows the intent: the request to the provider and its outcome.\<close>

definition continue_refund ::
  "payment_port \<Rightarrow> tenant_context \<Rightarrow> uuid \<Rightarrow> string \<Rightarrow> refund_dto \<Rightarrow> payment_refund
     \<Rightarrow> ('m billing_db_scheme, payment_refund) prog"
where
  "continue_refund port ctx sessionId key input intent =
     seq (lift_result (assert_refund_replay intent sessionId input)) (\<lambda>_.
     seq (find_row sessions (\<lambda>p. ps_id p = sessionId \<and> ps_tenantId p = ctx_tenantId ctx
            \<and> ps_status p = ''COMPLETED'')) (\<lambda>session.
     seq (require session (NotFound ''Resource not found'')) (\<lambda>session.
     catch (submit_refund port ctx session intent key)
       (\<lambda>e. seq (update_many refunds refunds_update
                   (\<lambda>r. rf_id r = rf_id intent \<and> rf_tenantId r = ctx_tenantId ctx \<and> rf_providerReference r = None)
                   (\<lambda>r. r\<lparr>rf_lastError := Some e\<rparr>)) (\<lambda>_.
            throw e)))))"

definition refund ::
  "payment_port \<Rightarrow> tenant_context \<Rightarrow> auth_principal \<Rightarrow> uuid \<Rightarrow> string \<Rightarrow> refund_dto
     \<Rightarrow> ('m billing_db_scheme, payment_refund) prog"
where
  "refund port ctx pr sessionId idempotencyKey input =
     seq (lift_result (normalized_key idempotencyKey)) (\<lambda>key.
     seq (refund_by_key ctx key) (\<lambda>prior.
     seq (case prior of None \<Rightarrow> ret ()
          | Some r \<Rightarrow> seq (lift_result (assert_refund_replay r sessionId input)) (\<lambda>_. ret ())) (\<lambda>_.
     case prior of
       Some r \<Rightarrow>
         if rf_providerReference r \<noteq> None \<or> rf_status r \<noteq> ''PENDING'' then
           seq (when_do (rf_status r = ''COMPLETED'' \<and> rf_appliedAt r = None) (apply_refund (rf_id r))) (\<lambda>_.
           seq (find_row refunds (\<lambda>x. rf_id x = rf_id r)) (\<lambda>found.
           require found RecordMissing))
         else continue_refund port ctx sessionId key input r
     | None \<Rightarrow>
         seq (catch (transaction (intend_refund_tx ctx pr sessionId key input))
                (\<lambda>e. seq (refund_by_key ctx key) (\<lambda>concurrent.
                     case concurrent of Some r \<Rightarrow> ret r | None \<Rightarrow> throw e))) (\<lambda>intent.
         continue_refund port ctx sessionId key input intent))))"

section \<open>Credit notes\<close>

record credit_note_dto =
  nd_amountMinor :: int
  nd_reason :: string

definition assert_credit_note_replay ::
  "credit_note_row \<Rightarrow> uuid \<Rightarrow> credit_note_dto \<Rightarrow> app_error + credit_note_row"
where
  "assert_credit_note_replay n invoiceId input =
     (if cn_invoiceId n \<noteq> invoiceId \<or> cn_amountMinor n \<noteq> nd_amountMinor input \<or> cn_reason n \<noteq> nd_reason input
      then Inl (Conflict ''Idempotency-Key was already used for another credit-note request'') else Inr n)"

definition credit_note_by_key ::
  "tenant_context \<Rightarrow> string \<Rightarrow> ('m billing_db_scheme, credit_note_row option) prog"
where
  "credit_note_by_key ctx key = find_row credit_notes
     (\<lambda>n. cn_tenantId n = ctx_tenantId ctx \<and> cn_idempotencyKey n = Some key)"

text \<open>One turn of the loop over the schedules; \<open>unallocated = 0\<close> is its \<open>break\<close>.\<close>

definition credit_schedule ::
  "tenant_context \<Rightarrow> payment_schedule \<Rightarrow> int \<Rightarrow> ('m billing_db_scheme, int) prog"
where
  "credit_schedule ctx x unallocated =
     (if unallocated = 0 then ret 0
      else if outstanding x \<le> 0 then ret unallocated
      else
        (let applied = (if outstanding x < unallocated then outstanding x else unallocated);
             settled = (is_paidMinor x + is_creditedMinor x + applied \<ge> is_amountMinor x)
         in seq now (\<lambda>today.
            seq (update_many schedules schedules_update
                   (\<lambda>y. is_id y = is_id x \<and> is_tenantId y = ctx_tenantId ctx \<and> unlocked today y)
                   (\<lambda>y. y\<lparr>is_creditedMinor := is_creditedMinor y + applied,
                          is_status := (if settled then ''PAID'' else ''PARTIALLY_PAID'')\<rparr>)) (\<lambda>credited.
            seq (ensure (credited = 1) (Conflict ''Invoice has an active checkout session'')) (\<lambda>_.
            ret (unallocated - applied))))))"

definition issue_credit_note ::
  "tenant_context \<Rightarrow> auth_principal \<Rightarrow> billing_invoice \<Rightarrow> string \<Rightarrow> credit_note_dto
     \<Rightarrow> ('m billing_db_scheme, credit_note_row) prog"
where
  "issue_credit_note ctx pr b key input =
     (let amount = nd_amountMinor input in
      seq (ensure (\<not> bi_creditedMinor b + amount > bi_totalMinor b)
             (Conflict ''Credit notes exceed invoice total'')) (\<lambda>_.
      seq (find_account (ctx_tenantId ctx) ''5000'' (bi_currency b)) (\<lambda>adjustment.
      seq (find_account (ctx_tenantId ctx) ''1100'' (bi_currency b)) (\<lambda>receivable.
      seq (require adjustment (ServiceUnavailable ''Finance chart is not configured for this currency'')) (\<lambda>adjustment.
      seq (require receivable (ServiceUnavailable ''Finance chart is not configured for this currency'')) (\<lambda>receivable.
      seq random_uuid (\<lambda>i.
      seq now (\<lambda>today.
      seq (create_row credit_notes credit_notes_update same_credit_note
             \<lparr>cn_id = i, cn_tenantId = ctx_tenantId ctx, cn_invoiceId = bi_id b,
              cn_number = ''CRN-'' @ show_int (utc_year today) @ ''-'' @ js_upper (take 8 i),
              cn_idempotencyKey = Some key, cn_amountMinor = amount, cn_reason = nd_reason input,
              cn_issuedBy = pr_userId pr\<rparr>) (\<lambda>note.
      seq (schedules_of (bi_id b)) (\<lambda>scheds.
      seq (fold_each (sort_key is_sequence scheds) amount (credit_schedule ctx)) (\<lambda>unallocated.
      seq (ensure (unallocated = 0) (Conflict ''Credit note exceeds the unpaid scheduled balance'')) (\<lambda>_.
      seq (update_row invoices invoices_update (\<lambda>x. bi_id x = bi_id b)
             (\<lambda>x. x\<lparr>bi_creditedMinor := bi_creditedMinor x + amount,
                    bi_status := (if bi_paidMinor b + bi_creditedMinor b + amount \<ge> bi_totalMinor b
                                  then ''PAID'' else ''PARTIALLY_PAID''),
                    bi_version := bi_version x + 1\<rparr>)) (\<lambda>_.
      seq random_uuid (\<lambda>journalId.
      seq (create_journal journalId (ctx_tenantId ctx) (''CRN-'' @ js_upper (take 8 journalId)) (pr_userId pr)
             (two_line_journal ''CREDIT_NOTE'' (cn_id note)
                (''Credit note '' @ cn_number note @ '' for '' @ bi_number b) (bi_currency b)
                (''credit-note:'' @ cn_id note) (fa_id adjustment) (fa_id receivable) amount)) (\<lambda>_.
      seq (audit_as ctx pr ''billing.credit-note.issued'' ''CREDIT_NOTE'' (cn_id note) (Some (nd_reason input))
             (Some (JObj [(''invoiceId'', JStr (bi_id b)), (''amountMinor'', JNum (nd_amountMinor input))])) None) (\<lambda>_.
      seq (publish (ctx_tenantId ctx) ''billing.credit-note.issued.v1'' (''invoice/'' @ bi_id b)
             (JObj [(''invoiceId'', JStr (bi_id b)), (''creditNoteId'', JStr (cn_id note)),
                    (''amountMinor'', JNum (nd_amountMinor input))]) (ctx_correlationId ctx)) (\<lambda>_.
      ret note)))))))))))))))))"

definition credit_note_tx ::
  "tenant_context \<Rightarrow> auth_principal \<Rightarrow> uuid \<Rightarrow> string \<Rightarrow> credit_note_dto
     \<Rightarrow> ('m billing_db_scheme, credit_note_row) prog"
where
  "credit_note_tx ctx pr invoiceId key input =
     seq (find_row invoices (\<lambda>b. bi_id b = invoiceId \<and> bi_tenantId b = ctx_tenantId ctx
            \<and> bi_status b \<noteq> ''VOID'')) (\<lambda>found.
     seq (require found (NotFound ''Resource not found'')) (\<lambda>b.
     seq (credit_note_by_key ctx key) (\<lambda>replay.
     case replay of
       Some n \<Rightarrow> lift_result (assert_credit_note_replay n invoiceId input)
     | None \<Rightarrow> issue_credit_note ctx pr b key input)))"

definition credit_note ::
  "tenant_context \<Rightarrow> auth_principal \<Rightarrow> uuid \<Rightarrow> string \<Rightarrow> credit_note_dto
     \<Rightarrow> ('m billing_db_scheme, credit_note_row) prog"
where
  "credit_note ctx pr invoiceId idempotencyKey input =
     seq (lift_result (normalized_key idempotencyKey)) (\<lambda>key.
     seq (invoice ctx pr invoiceId True) (\<lambda>_.
     seq (credit_note_by_key ctx key) (\<lambda>prior.
     case prior of
       Some n \<Rightarrow> lift_result (assert_credit_note_replay n invoiceId input)
     | None \<Rightarrow>
         catch (transaction (credit_note_tx ctx pr invoiceId key input))
           (\<lambda>e. seq (credit_note_by_key ctx key) (\<lambda>concurrent.
                case concurrent of
                  Some n \<Rightarrow> lift_result (assert_credit_note_replay n invoiceId input)
                | None \<Rightarrow> throw e)))))"

section \<open>Provider events\<close>

datatype receipt = Received | Ignored | Duplicate

record event_input =
  ei_provider :: string
  ei_eventId :: string
  ei_eventType :: string
  ei_providerReference :: string
  ei_success :: bool
  ei_failed :: bool
  ei_payload :: json
  ei_refunds :: "(string option \<times> string option) list option"

definition store_event ::
  "payment_port \<Rightarrow> uuid \<Rightarrow> uuid \<Rightarrow> string \<Rightarrow> string \<Rightarrow> string \<Rightarrow> json \<Rightarrow> ('m billing_db_scheme, payment_event) prog"
where
  "store_event port tenant sessionId provider eventId eventType payload =
     seq random_uuid (\<lambda>i.
     upsert_row payment_events payment_events_update same_payment_event
       (\<lambda>e. pe_provider e = provider \<and> pe_providerEventId e = eventId) (\<lambda>e. e)
       \<lparr>pe_id = i, pe_tenantId = tenant, pe_sessionId = Some sessionId, pe_provider = provider,
        pe_providerEventId = eventId, pe_eventType = eventType,
        pe_payloadHash = pp_payloadHash port payload, pe_payload = payload,
        pe_status = ''RECEIVED'', pe_error = None, pe_processedAt = None\<rparr>)"

text \<open>
  The claim on a stored event, the work on it and the mark it leaves behind where the work
  throws: shared by the two kinds of events.
\<close>

definition claim_event ::
  "string \<Rightarrow> payment_event \<Rightarrow> ('m billing_db_scheme, unit) prog \<Rightarrow> ('m billing_db_scheme, receipt) prog"
where
  "claim_event busy event work =
     (if pe_status event = ''PROCESSED'' then ret Duplicate
      else
        seq (update_many payment_events payment_events_update
               (\<lambda>e. pe_id e = pe_id event \<and> pe_status e \<in> {''RECEIVED'', ''FAILED''})
               (\<lambda>e. e\<lparr>pe_status := ''PROCESSING'', pe_error := None\<rparr>)) (\<lambda>claimed.
        seq (ensure (claimed = 1) (ServiceUnavailable busy)) (\<lambda>_.
        seq (catch work
               (\<lambda>e. seq (update_many payment_events payment_events_update
                           (\<lambda>x. pe_id x = pe_id event \<and> pe_status x = ''PROCESSING'')
                           (\<lambda>x. x\<lparr>pe_status := ''FAILED'', pe_error := Some e\<rparr>)) (\<lambda>_.
                    throw e))) (\<lambda>_.
        ret Received))))"

definition mark_processed :: "payment_event \<Rightarrow> ('m billing_db_scheme, unit) prog" where
  "mark_processed event =
     seq now (\<lambda>processed.
     seq (update_row payment_events payment_events_update (\<lambda>e. pe_id e = pe_id event)
            (\<lambda>e. e\<lparr>pe_status := ''PROCESSED'', pe_processedAt := Some processed\<rparr>)) (\<lambda>_.
     ret ()))"

definition reconcile_coinbase_refund ::
  "uuid \<Rightarrow> string option \<times> string option \<Rightarrow> ('m billing_db_scheme, unit) prog"
where
  "reconcile_coinbase_refund tenant providerRefund =
     (case fst providerRefund of
        None \<Rightarrow> ret ()
      | Some reference \<Rightarrow>
          if reference = '''' then ret ()
          else
            seq (find_row refunds (\<lambda>r. rf_tenantId r = tenant \<and> rf_providerReference r = Some reference)) (\<lambda>found.
            case found of
              None \<Rightarrow> ret ()
            | Some r \<Rightarrow>
                if snd providerRefund = Some ''COMPLETED'' then
                  seq now (\<lambda>completed.
                  seq (update_many refunds refunds_update
                         (\<lambda>x. rf_id x = rf_id r \<and> rf_tenantId x = tenant \<and> rf_status x \<noteq> ''COMPLETED'')
                         (\<lambda>x. x\<lparr>rf_status := ''COMPLETED'', rf_completedAt := Some completed,
                                rf_lastError := None\<rparr>)) (\<lambda>_.
                  apply_refund (rf_id r)))
                else if snd providerRefund = Some ''FAILED'' then
                  seq (update_many refunds refunds_update
                         (\<lambda>x. rf_id x = rf_id r \<and> rf_tenantId x = tenant \<and> rf_status x \<noteq> ''COMPLETED'')
                         (\<lambda>x. x\<lparr>rf_status := ''FAILED'',
                                rf_lastError := Some (Plain_Error ''Provider reported a failed refund'')\<rparr>)) (\<lambda>_.
                  ret ())
                else ret ()))"

definition fail_session :: "payment_session \<Rightarrow> payment_event \<Rightarrow> ('m billing_db_scheme, unit) prog" where
  "fail_session session event = transaction (
     seq (update_many sessions sessions_update
            (\<lambda>x. ps_id x = ps_id session \<and> ps_status x = ''PENDING'') (\<lambda>x. x\<lparr>ps_status := ''FAILED''\<rparr>)) (\<lambda>_.
     seq (update_many schedules schedules_update
            (\<lambda>x. is_id x = ps_scheduleId session \<and> is_tenantId x = ps_tenantId session
               \<and> is_checkoutLockKey x = Some (ps_idempotencyKey session))
            (\<lambda>x. x\<lparr>is_checkoutLockKey := None, is_checkoutLockUntil := None\<rparr>)) (\<lambda>_.
     mark_processed event)))"

definition receive_provider_event ::
  "payment_port \<Rightarrow> event_input \<Rightarrow> ('m billing_db_scheme, receipt) prog"
where
  "receive_provider_event port input =
     seq (ensure (ei_eventId input \<noteq> '''' \<and> ei_providerReference input \<noteq> '''')
            (Conflict ''Payment event identity is missing'')) (\<lambda>_.
     seq (find_row sessions (\<lambda>p. ps_provider p = ei_provider input
            \<and> ps_providerReference p = ei_providerReference input)) (\<lambda>found.
     case found of
       None \<Rightarrow> ret Ignored
     | Some session \<Rightarrow>
         seq (store_event port (ps_tenantId session) (ps_id session) (ei_provider input)
                (ei_eventId input) (ei_eventType input) (ei_payload input)) (\<lambda>event.
         claim_event ''Payment event is already being processed'' event
           (if ei_success input then
              process_successful_payment (ps_id session) (pe_id event) (ei_payload input)
            else if ei_failed input then fail_session session event
            else
              seq (when_do (ei_provider input = ''COINBASE'')
                     (case ei_refunds input of
                        None \<Rightarrow> ret ()
                      | Some rs \<Rightarrow> for_each rs (reconcile_coinbase_refund (ps_tenantId session)))) (\<lambda>_.
              mark_processed event)))))"

record refund_event_input =
  re_eventId :: string
  re_eventType :: string
  re_providerReference :: string
  re_localRefundId :: "uuid option"
  re_status :: string
  re_payload :: json

definition stripe_refund_work ::
  "refund_event_input \<Rightarrow> payment_refund \<Rightarrow> payment_event \<Rightarrow> ('m billing_db_scheme, unit) prog"
where
  "stripe_refund_work input r event =
     seq (if re_status input = ''succeeded'' then
            seq now (\<lambda>completed.
            seq (update_many refunds refunds_update
                   (\<lambda>x. rf_id x = rf_id r \<and> rf_tenantId x = rf_tenantId r \<and> rf_status x \<noteq> ''COMPLETED'')
                   (\<lambda>x. x\<lparr>rf_providerReference := Some (re_providerReference input), rf_status := ''COMPLETED'',
                          rf_completedAt := Some completed, rf_lastError := None\<rparr>)) (\<lambda>_.
            apply_refund (rf_id r)))
          else if re_status input = ''failed'' \<or> re_status input = ''canceled'' then
            seq (update_many refunds refunds_update
                   (\<lambda>x. rf_id x = rf_id r \<and> rf_tenantId x = rf_tenantId r \<and> rf_status x \<noteq> ''COMPLETED'')
                   (\<lambda>x. x\<lparr>rf_providerReference := Some (re_providerReference input), rf_status := ''FAILED'',
                          rf_lastError := Some (Plain_Error (''Stripe reported refund status '' @ re_status input))\<rparr>)) (\<lambda>_.
            ret ())
          else if rf_providerReference r = None \<or> rf_providerReference r = Some '''' then
            seq (update_many refunds refunds_update
                   (\<lambda>x. rf_id x = rf_id r \<and> rf_tenantId x = rf_tenantId r \<and> rf_providerReference x = None)
                   (\<lambda>x. x\<lparr>rf_providerReference := Some (re_providerReference input)\<rparr>)) (\<lambda>_.
            ret ())
          else ret ()) (\<lambda>_.
     mark_processed event)"

definition receive_stripe_refund_event ::
  "payment_port \<Rightarrow> refund_event_input \<Rightarrow> ('m billing_db_scheme, receipt) prog"
where
  "receive_stripe_refund_event port input =
     seq (ensure (re_eventId input \<noteq> '''' \<and> re_providerReference input \<noteq> '''')
            (Conflict ''Refund event identity is missing'')) (\<lambda>_.
     seq (reads (\<lambda>s. List.find (\<lambda>r. (rf_providerReference r = Some (re_providerReference input)
               \<or> re_localRefundId input = Some (rf_id r))
            \<and> (case List.find (\<lambda>p. ps_id p = rf_sessionId r) (sessions s) of
                 None \<Rightarrow> False | Some p \<Rightarrow> ps_provider p = ''STRIPE'')) (refunds s))) (\<lambda>found.
     case found of
       None \<Rightarrow> ret Ignored
     | Some r \<Rightarrow>
         seq (ensure (\<not> (case rf_providerReference r of None \<Rightarrow> False
                | Some x \<Rightarrow> x \<noteq> '''' \<and> x \<noteq> re_providerReference input))
                (Conflict ''Refund event does not match the stored provider reference'')) (\<lambda>_.
         seq (store_event port (rf_tenantId r) (rf_sessionId r) ''STRIPE'' (re_eventId input)
                (re_eventType input) (re_payload input)) (\<lambda>event.
         claim_event ''Refund event is already being processed'' event (stripe_refund_work input r event)))))"

section \<open>Webhooks\<close>

definition or_empty :: "string option \<Rightarrow> string" where
  "or_empty x = (case x of None \<Rightarrow> '''' | Some s \<Rightarrow> s)"

definition object_field :: "provider_event \<Rightarrow> (provider_object \<Rightarrow> string option) \<Rightarrow> string option" where
  "object_field e f = (case ev_object e of None \<Rightarrow> None | Some x \<Rightarrow> f x)"

definition parse_provider_event :: "payment_port \<Rightarrow> string \<Rightarrow> app_error + provider_event" where
  "parse_provider_event port body = (case pp_parse port body of
     None \<Rightarrow> Inl (BadRequest ''Payment webhook payload must be valid JSON'') | Some e \<Rightarrow> Inr e)"

definition stripe_webhook ::
  "payment_port \<Rightarrow> string \<Rightarrow> string \<Rightarrow> ('m billing_db_scheme, receipt) prog"
where
  "stripe_webhook port body signature =
     seq (lift_result (pp_verifyStripe port body signature)) (\<lambda>valid.
     seq (ensure valid (Unauthorized ''Invalid Stripe webhook signature'')) (\<lambda>_.
     seq (lift_result (parse_provider_event port body)) (\<lambda>event.
     if or_empty (ev_type event) \<in> {''refund.created'', ''refund.updated'', ''refund.failed'', ''charge.refund.updated''}
     then receive_stripe_refund_event port
       \<lparr>re_eventId = or_empty (ev_id event), re_eventType = or_empty (ev_type event),
        re_providerReference = or_empty (object_field event po_id),
        re_localRefundId = (case object_field event po_refund_id of Some i \<Rightarrow> if i = '''' then None else Some i | None \<Rightarrow> None),
        re_status = or_empty (object_field event po_status), re_payload = ev_payload event\<rparr>
     else receive_provider_event port
       \<lparr>ei_provider = ''STRIPE'', ei_eventId = or_empty (ev_id event),
        ei_eventType = or_empty (ev_type event), ei_providerReference = or_empty (object_field event po_id),
        ei_success = (or_empty (ev_type event) \<in> {''checkout.session.completed'', ''checkout.session.async_payment_succeeded''}
          \<and> object_field event po_payment_status = Some ''paid''),
        ei_failed = (or_empty (ev_type event) \<in> {''checkout.session.expired'', ''checkout.session.async_payment_failed''}),
        ei_payload = ev_payload event, ei_refunds = None\<rparr>)))"

definition coinbase_webhook ::
  "payment_port \<Rightarrow> string \<Rightarrow> string \<Rightarrow> (string \<times> string) list \<Rightarrow> ('m billing_db_scheme, receipt) prog"
where
  "coinbase_webhook port body signature headers =
     seq (lift_result (pp_verifyCoinbase port body signature headers)) (\<lambda>valid.
     seq (ensure valid (Unauthorized ''Invalid Coinbase webhook signature'')) (\<lambda>_.
     seq (lift_result (parse_provider_event port body)) (\<lambda>event.
     receive_provider_event port
       \<lparr>ei_provider = ''COINBASE'', ei_eventId = ''payload-'' @ pp_sha256 port body,
        ei_eventType = or_empty (ev_eventType event), ei_providerReference = or_empty (ev_id event),
        ei_success = (ev_eventType event = Some ''checkout.payment.success''
          \<or> or_empty (ev_eventType event) = '''' \<and> ev_status event = Some ''COMPLETED''),
        ei_failed = (or_empty (ev_eventType event) \<in> {''checkout.payment.failed'', ''checkout.payment.expired''}
          \<or> or_empty (ev_eventType event) = '''' \<and> or_empty (ev_status event) \<in> {''FAILED'', ''EXPIRED''}),
        ei_payload = ev_payload event, ei_refunds = ev_refunds event\<rparr>)))"

definition fresh_billing :: billing_db where
  "fresh_billing = finance_db.extend fresh_finance
     (billing_db.fields [] [] [] [] [] [] [] [] [] [] [] [] [] [])"

end
