(* ===== verification/Payments.thy ===== *)
theory Payments
  imports Billing Books
begin

text \<open>
  Money owed and paid. The tables of \<open>Billing\<close> stay sound along every call of the payment
  service: what is paid and credited on a schedule is never negative and never exceeds its
  amount, and every journal entry the service posts is balanced. The lemmas follow the
  operations: \<open>capture_tables\<close> and \<open>book_refund_tables\<close> say what the two money movements
  write, \<open>capture_sound\<close>, \<open>settle_refund_sound\<close> and \<open>issue_credit_note_sound\<close> that they
  keep the tables sound, and the \<open>always_\<close> lemmas lift this to every entry point, errors and
  roll-backs included.
\<close>

section \<open>The tables of money owed and paid\<close>

definition pay_tables ::
  "'m billing_db_scheme \<Rightarrow> payment_schedule list \<times> payment_session list \<times> payment_refund list"
where
  "pay_tables s = (schedules s, sessions s, refunds s)"

lemma keeps_create_journal [keeps_intros]:
  assumes "\<And>f s. v (uuids_drawn_update f s) = v s" and "\<And>f s. v (clock_reads_update f s) = v s"
    and "\<And>f s. v (journals_update f s) = v s" and "\<And>f s. v (journal_lines_update f s) = v s"
  shows "keeps v (create_journal i tenant number postedBy dto)"
  unfolding create_journal_def create_journal_line_def by (intro keeps_intros assms)

lemma keeps_find_account [keeps_intros]: "keeps v (find_account tenant code currency)"
  unfolding find_account_def by (intro keeps_intros)

lemma keeps_now_if [keeps_intros]: "(\<And>f s. v (clock_reads_update f s) = v s) \<Longrightarrow> keeps v (now_if b)"
  unfolding now_if_def by (intro keeps_intros)

lemma keeps_event_processed [keeps_intros]:
  "(\<And>f s. v (clock_reads_update f s) = v s) \<Longrightarrow> (\<And>f s. v (payment_events_update f s) = v s) \<Longrightarrow>
   keeps v (event_processed e f)"
  unfolding event_processed_def by (intro keeps_intros)

lemma keeps_confirm_source [keeps_intros]:
  "(\<And>f s. v (clock_reads_update f s) = v s) \<Longrightarrow> (\<And>f s. v (freight_bookings_update f s) = v s) \<Longrightarrow>
   (\<And>f s. v (insurance_policies_update f s) = v s) \<Longrightarrow> keeps v (confirm_source p b full)"
  unfolding confirm_source_def schedules_of_def by (intro keeps_intros)

definition captured_schedule :: "payment_schedule \<Rightarrow> int \<Rightarrow> payment_schedule \<Rightarrow> payment_schedule" where
  "captured_schedule schedule amount x = x\<lparr>is_paidMinor := is_paidMinor x + amount, is_checkoutLockKey := None,
     is_checkoutLockUntil := None, is_status := (if is_paidMinor schedule + is_creditedMinor schedule + amount
       \<ge> is_amountMinor schedule then ''PAID'' else ''PARTIALLY_PAID'')\<rparr>"

lemma pay_steps:
  "keeps pay_tables (create_journal i tenant number postedBy dto)"
  "keeps pay_tables (event_processed e f)" "keeps pay_tables (confirm_source p b full)"
  "keeps pay_tables (publish ta ty su pa co)" "keeps pay_tables (now_if c)"
  "keeps pay_tables (create_row allocations allocations_update same_allocation r)"
  "keeps pay_tables (update_row invoices invoices_update P g)"
  "keeps pay_tables (audit_as ctx pr a et ei re me au)"
  "keeps pay_tables (update_row payment_events payment_events_update Q h)"
  "keeps pay_tables (update_many payment_events payment_events_update Q h)"
  "keeps pay_tables (create_row credit_notes credit_notes_update same_credit_note n)"
  by (intro keeps_intros; simp add: pay_tables_def)+

lemma pay_updates:
  "update_row schedules schedules_update P g s = (Inr x, t) \<Longrightarrow>
     pay_tables t = (update_first P g (schedules s), sessions s, refunds s)"
  "update_row sessions sessions_update Q h s = (Inr p, t) \<Longrightarrow>
     pay_tables t = (schedules s, update_first Q h (sessions s), refunds s)"
  by (auto simp: pay_tables_def)

lemmas pay_stepsD = pay_steps [THEN keepsD, unfolded pay_tables_def prod.inject]
  pay_updates [unfolded pay_tables_def prod.inject]

definition completed_session :: "instant \<Rightarrow> payment_session \<Rightarrow> payment_session" where
  "completed_session c p = p\<lparr>ps_status := ''COMPLETED'', ps_completedAt := Some c\<rparr>"

lemma capture_tables:
  assumes "capture_payment p x b eventId evidence s = (Inr (), t)"
  shows "ps_amountMinor p \<le> outstanding x
    \<and> (\<exists>c. pay_tables t = (update_first (\<lambda>y. is_id y = ps_scheduleId p) (captured_schedule x (ps_amountMinor p)) (schedules s),
         update_first (\<lambda>q. ps_id q = ps_id p) (completed_session c) (sessions s), refunds s))"
  using assms unfolding capture_payment_def Let_def find_account_def
  by (auto simp: pay_tables_def captured_schedule_def [abs_def] completed_session_def [abs_def] outstanding_def
      simp del: create_row_Inr update_row_Inr dest!: pay_stepsD)

lemma book_refund_tables:
  assumes "book_refund r p x b s = (Inr (), t)"
  shows "pay_tables t = (update_first (\<lambda>y. is_id y = ps_scheduleId p)
      (\<lambda>y. y\<lparr>is_paidMinor := is_paidMinor x - rf_amountMinor r,
            is_status := refund_schedule_status x (is_paidMinor x - rf_amountMinor r)\<rparr>) (schedules s), sessions s, refunds s)"
  using assms unfolding book_refund_def Let_def find_account_def
  by (auto simp: pay_tables_def simp del: create_row_Inr update_row_Inr dest!: pay_stepsD)

text \<open>Every operation posts balanced journals only.\<close>

definition entry_nets :: "'m finance_db_scheme \<Rightarrow> uuid \<Rightarrow> int" where
  "entry_nets s = entry_net (journal_lines s)"

lemma two_line_journal_nets:
  "preserves entry_nets (create_journal i tenant number postedBy (two_line_journal st si d cur k da ca m))"
  by (rule preservesI) (auto simp: entry_nets_def two_line_journal_def dest!: create_journal_books)

lemma capture_nets: "preserves entry_nets (capture_payment p x b e evi)"
  unfolding capture_payment_def Let_def
  by (intro preserves_seq two_line_journal_nets;
      (rule preserves_keeps, (intro keeps_intros; simp add: entry_nets_def; fail)))

lemma book_refund_nets: "preserves entry_nets (book_refund r p x b)"
  unfolding book_refund_def Let_def
  by (intro preserves_seq two_line_journal_nets;
      (rule preserves_keeps, (intro keeps_intros; simp add: entry_nets_def; fail)))

lemma issue_credit_note_nets: "preserves entry_nets (issue_credit_note ctx pr b key input)"
  unfolding issue_credit_note_def credit_schedule_def schedules_of_def Let_def
  by (intro preserves_seq two_line_journal_nets;
      (rule preserves_keeps, (intro keeps_intros; simp add: entry_nets_def; fail)))


section \<open>Sound billing tables\<close>

definition sound_schedule :: "payment_schedule \<Rightarrow> bool" where
  "sound_schedule x \<longleftrightarrow> 0 \<le> is_paidMinor x \<and> 0 \<le> is_creditedMinor x
     \<and> is_paidMinor x + is_creditedMinor x \<le> is_amountMinor x"

definition pay_sound ::
  "payment_schedule list \<times> payment_session list \<times> payment_refund list \<Rightarrow> bool"
where
  "pay_sound v \<longleftrightarrow> (case v of (xs, ps, rs) \<Rightarrow> distinct (map is_id xs) \<and> list_all sound_schedule xs
     \<and> list_all (\<lambda>p. 0 \<le> ps_amountMinor p) ps \<and> list_all (\<lambda>r. 0 \<le> rf_amountMinor r) rs)"

definition billing_sound :: "'m billing_db_scheme \<Rightarrow> bool" where
  "billing_sound s \<longleftrightarrow> pay_sound (pay_tables s) \<and> entry_nets s = (\<lambda>_. 0)"

lemma billing_sound_books: "billing_sound s \<Longrightarrow> balanced_books s"
  by (simp add: billing_sound_def balanced_books_def entry_nets_def fun_eq_iff)

lemma billing_more:
  "runtime.more t = runtime.more s \<Longrightarrow>
   schedules t = schedules s \<and> sessions t = sessions s \<and> refunds t = refunds s \<and> journal_lines t = journal_lines s
   \<and> invoices t = invoices s \<and> allocations t = allocations s \<and> journals t = journals s"
  by (cases s; cases t) simp

lemma billing_sound_more: "runtime.more t = runtime.more s \<Longrightarrow> billing_sound s \<Longrightarrow> billing_sound t"
  using billing_more [of t s] by (simp add: billing_sound_def pay_tables_def entry_nets_def)

lemma sound_keeps:
  "keeps pay_tables m \<Longrightarrow> keeps entry_nets m \<Longrightarrow> m s = (r, t) \<Longrightarrow> billing_sound s \<Longrightarrow> billing_sound t"
  by (simp add: billing_sound_def keepsD [of pay_tables m s r t] keepsD [of entry_nets m s r t])

lemma list_all_update_first:
  "list_all P xs \<Longrightarrow> (\<And>x. x \<in> set xs \<Longrightarrow> Q x \<Longrightarrow> P x \<Longrightarrow> P (f x)) \<Longrightarrow> list_all P (update_first Q f xs)"
  by (induction xs) auto

lemma list_all_update_where:
  "list_all P xs \<Longrightarrow> (\<And>x. x \<in> set xs \<Longrightarrow> Q x \<Longrightarrow> P x \<Longrightarrow> P (f x)) \<Longrightarrow> list_all P (update_where Q f xs)"
  by (induction xs) (auto simp: update_where_def)

lemma found_unique:
  "distinct (map f xs) \<Longrightarrow> List.find (\<lambda>x. f x = i) xs = Some x \<Longrightarrow> y \<in> set xs \<Longrightarrow> f y = i \<Longrightarrow> y = x"
  using distinct_mapD [of f xs y x] find_SomeD [of "\<lambda>x. f x = i" xs x] by simp

lemma pay_sound_schedule:
  assumes "pay_sound (xs, ps, rs)" and "List.find (\<lambda>y. is_id y = i) xs = Some x"
    and "sound_schedule (f x)" and "\<And>y. is_id (f y) = is_id y"
    and "list_all (\<lambda>p. 0 \<le> ps_amountMinor p) ps'"
  shows "pay_sound (update_first (\<lambda>y. is_id y = i) f xs, ps', rs)"
proof -
  have xs: "distinct (map is_id xs)" "list_all sound_schedule xs" and rs: "list_all (\<lambda>r. 0 \<le> rf_amountMinor r) rs"
    using assms(1) by (simp_all add: pay_sound_def)
  have "list_all sound_schedule (update_first (\<lambda>y. is_id y = i) f xs)"
    by (rule list_all_update_first [OF xs(2)]) (use found_unique [OF xs(1) assms(2)] assms(3) in blast)
  moreover have "map is_id (update_first (\<lambda>y. is_id y = i) f xs) = map is_id xs"
    by (rule map_update_first) (rule assms(4))
  ultimately show ?thesis using xs(1) rs assms(5) by (simp add: pay_sound_def)
qed

lemma capture_sound:
  assumes "billing_sound s" and "process_successful_payment_tx i e evi s = (Inr (), t)"
  shows "billing_sound t"
proof -
  have marked: "keeps pay_tables (event_processed e f)" "keeps entry_nets (event_processed e f)" for f
    by (intro keeps_intros; simp add: pay_tables_def entry_nets_def)+
  from assms(2) consider f where "event_processed e f s = (Inr (), t)"
    | p x b where "p \<in> set (sessions s)" "List.find (\<lambda>y. is_id y = ps_scheduleId p) (schedules s) = Some x"
      "capture_payment p x b e evi s = (Inr (), t)"
    by (auto simp: process_successful_payment_tx_def split: if_splits dest: find_SomeD)
  then show ?thesis
  proof cases
    case 1
    then show ?thesis using assms(1) by (rule sound_keeps [OF marked])
  next
    case 2
    from capture_tables [OF 2(3)] obtain c where le: "ps_amountMinor p \<le> outstanding x"
      and t: "pay_tables t = (update_first (\<lambda>y. is_id y = ps_scheduleId p) (captured_schedule x (ps_amountMinor p)) (schedules s),
         update_first (\<lambda>q. ps_id q = ps_id p) (completed_session c) (sessions s), refunds s)" by blast
    from assms(1) have s: "pay_sound (schedules s, sessions s, refunds s)" by (simp add: billing_sound_def pay_tables_def)
    with 2 have "0 \<le> ps_amountMinor p" "sound_schedule x"
      by (auto simp: pay_sound_def list_all_iff dest: find_SomeD)
    with le have "sound_schedule (captured_schedule x (ps_amountMinor p) x)"
      by (simp add: sound_schedule_def captured_schedule_def outstanding_def)
    moreover have "list_all (\<lambda>p. 0 \<le> ps_amountMinor p)
        (update_first (\<lambda>q. ps_id q = ps_id p) (completed_session c) (sessions s))"
      by (rule list_all_update_first) (use s in \<open>simp_all add: pay_sound_def completed_session_def\<close>)
    ultimately have "pay_sound (pay_tables t)" unfolding t
      by (intro pay_sound_schedule [OF s 2(2)]) (simp_all add: captured_schedule_def)
    moreover have "entry_nets t = entry_nets s" using preservesD [OF capture_nets 2(3)] .
    ultimately show ?thesis using assms(1) by (simp add: billing_sound_def)
  qed
qed

lemma settle_refund_sound:
  assumes "billing_sound s" and "settle_refund r p x b s = (Inr (), t)" and "r \<in> set (refunds s)"
    and "List.find (\<lambda>y. is_id y = ps_scheduleId p) (schedules s) = Some x"
  shows "billing_sound t"
proof -
  from assms(1) have s: "pay_sound (schedules s, sessions s, refunds s)" by (simp add: billing_sound_def pay_tables_def)
  define u where "u = refunds_update (update_where
      (\<lambda>x. rf_id x = rf_id r \<and> rf_status x = ''COMPLETED'' \<and> rf_appliedAt x = None)
      (\<lambda>x. x\<lparr>rf_appliedAt := Some (clock s (clock_reads s))\<rparr>)) (s\<lparr>clock_reads := Suc (clock_reads s)\<rparr>)"
  have "list_all (\<lambda>r. 0 \<le> rf_amountMinor r) (refunds u)"
    unfolding u_def by (simp, rule list_all_update_where) (use s in \<open>simp_all add: pay_sound_def\<close>)
  then have u: "billing_sound u" "pay_tables u = (schedules s, sessions s, refunds u)"
    using assms(1) s by (simp_all add: u_def billing_sound_def pay_sound_def pay_tables_def entry_nets_def)
  from assms(2) consider "t = s" | "t = u"
    | "\<not> is_paidMinor x < rf_amountMinor r" "book_refund r p x b u = (Inr (), t)"
    unfolding settle_refund_def u_def by (auto split: if_splits)
  then show ?thesis
  proof cases
    case 3
    from s assms(3,4) have "sound_schedule x" "0 \<le> rf_amountMinor r"
      by (auto simp: pay_sound_def list_all_iff dest: find_SomeD)
    with 3(1) have "sound_schedule (x\<lparr>is_paidMinor := is_paidMinor x - rf_amountMinor r,
        is_status := refund_schedule_status x (is_paidMinor x - rf_amountMinor r)\<rparr>)"
      by (simp add: sound_schedule_def)
    moreover have "pay_sound (schedules s, sessions s, refunds u)" using u by (simp add: billing_sound_def)
    moreover have "list_all (\<lambda>p. 0 \<le> ps_amountMinor p) (sessions s)" using s by (simp add: pay_sound_def)
    moreover have "schedules u = schedules s \<and> sessions u = sessions s" using u(2) by (simp add: pay_tables_def)
    ultimately have "pay_sound (pay_tables t)" using book_refund_tables [OF 3(2)]
      by (simp add: pay_sound_schedule [OF _ assms(4)])
    moreover have "entry_nets t = entry_nets u" using preservesD [OF book_refund_nets 3(2)] .
    ultimately show ?thesis using u(1) by (simp add: billing_sound_def)
  qed (use assms(1) u in simp_all)
qed

lemma apply_refund_sound:
  assumes "billing_sound s" and "apply_refund_tx i s = (Inr (), t)"
  shows "billing_sound t"
  using assms(2) settle_refund_sound [OF assms(1)] assms(1)
  by (auto simp: apply_refund_tx_def split: option.splits dest: find_SomeD)

section \<open>Credit notes\<close>

lemma credit_schedule_sound:
  assumes "pay_sound (pay_tables s)" and "x \<in> set (schedules s)" and "0 \<le> m"
    and "credit_schedule ctx x m s = (Inr m', t)"
  shows "pay_sound (pay_tables t) \<and> 0 \<le> m'
    \<and> (\<forall>y\<in>set (schedules s). is_id y \<noteq> is_id x \<longrightarrow> y \<in> set (schedules t))"
proof (cases "m = 0 \<or> outstanding x \<le> 0")
  case True
  with assms show ?thesis by (auto simp: credit_schedule_def split: if_splits)
next
  case False
  define a where "a = (if outstanding x < m then outstanding x else m)"
  define f :: "payment_schedule \<Rightarrow> payment_schedule" where "f = (\<lambda>y. y\<lparr>is_creditedMinor := is_creditedMinor y + a, is_status :=
      (if is_paidMinor x + is_creditedMinor x + a \<ge> is_amountMinor x then ''PAID'' else ''PARTIALLY_PAID'')\<rparr>)"
  from False assms(3) have a: "0 \<le> a" "a \<le> outstanding x" "0 \<le> m - a" by (auto simp: a_def)
  from assms(4) False obtain Q where t: "schedules t = update_where (\<lambda>y. is_id y = is_id x \<and> Q y) f (schedules s)"
    and rest: "sessions t = sessions s" "refunds t = refunds s" "m' = m - a"
    by (auto simp: credit_schedule_def Let_def a_def f_def conj_assoc)
  have s: "distinct (map is_id (schedules s))" "list_all sound_schedule (schedules s)"
    using assms(1) by (simp_all add: pay_sound_def pay_tables_def)
  have "list_all sound_schedule (schedules t)" unfolding t
  proof (rule list_all_update_where [OF s(2)])
    fix y
    assume y: "y \<in> set (schedules s)" "is_id y = is_id x \<and> Q y" "sound_schedule y"
    then have "y = x" using distinct_mapD [OF s(1) y(1) assms(2)] by simp
    with y(3) a show "sound_schedule (f y)" by (simp add: f_def sound_schedule_def outstanding_def)
  qed
  moreover have "map is_id (schedules t) = map is_id (schedules s)"
    unfolding t by (rule map_update_where) (simp add: f_def)
  moreover have "y \<in> set (schedules t)" if "y \<in> set (schedules s)" "is_id y \<noteq> is_id x" for y
    using that by (force simp: t update_where_def)
  ultimately show ?thesis using assms(1) a s(1) rest by (simp add: pay_sound_def pay_tables_def)
qed

lemma credit_schedules_sound:
  assumes "fold_each xs m (credit_schedule ctx) s = (Inr m', t)"
    and "pay_sound (pay_tables s)" and "set xs \<subseteq> set (schedules s)" and "distinct (map is_id xs)" and "0 \<le> m"
  shows "pay_sound (pay_tables t)"
  using assms
proof (induction xs arbitrary: m s)
  case Nil
  then show ?case by simp
next
  case (Cons x xs)
  from Cons.prems(1) obtain m1 u where step: "credit_schedule ctx x m s = (Inr m1, u)"
    and rest: "fold_each xs m1 (credit_schedule ctx) u = (Inr m', t)" by auto
  from credit_schedule_sound [OF Cons.prems(2) _ Cons.prems(5) step] Cons.prems(3)
  have u: "pay_sound (pay_tables u)" "0 \<le> m1" "\<forall>y\<in>set (schedules s). is_id y \<noteq> is_id x \<longrightarrow> y \<in> set (schedules u)"
    by auto
  have "y \<in> set (schedules u)" if "y \<in> set xs" for y
  proof -
    have "is_id y \<noteq> is_id x" using that Cons.prems(4) by (metis distinct.simps(2) image_eqI list.map(2) list.set_map)
    with u(3) that Cons.prems(3) show ?thesis by auto
  qed
  then have "set xs \<subseteq> set (schedules u)" by blast
  with u Cons.prems(4) show ?case by (intro Cons.IH [OF rest]) auto
qed

lemma issue_credit_note_sound:
  fixes s :: "'m billing_db_scheme"
  assumes "billing_sound s" and "0 \<le> nd_amountMinor input" and "issue_credit_note ctx pr b key input s = (Inr n, t)"
  shows "billing_sound t"
proof -
  from assms(3) obtain u u' :: "'m billing_db_scheme" and m' where u: "pay_tables u = pay_tables s"
    and fold: "fold_each (sort_key is_sequence (filter (\<lambda>x. is_invoiceId x = bi_id b) (schedules s)))
      (nd_amountMinor input) (credit_schedule ctx) u = (Inr m', u')"
    and t: "pay_tables t = pay_tables u'"
    unfolding issue_credit_note_def Let_def find_account_def schedules_of_def
    by (auto simp: pay_tables_def simp del: create_row_Inr update_row_Inr dest!: pay_stepsD)
  have s: "distinct (map is_id (schedules s))" using assms(1) by (simp add: billing_sound_def pay_sound_def pay_tables_def)
  have "distinct (map is_id (sort_key is_sequence (filter (\<lambda>x. is_invoiceId x = bi_id b) (schedules s))))"
    using s by (simp add: distinct_map inj_on_def)
  then have "pay_sound (pay_tables u')" using u assms(1,2)
    by (intro credit_schedules_sound [OF fold]) (auto simp: billing_sound_def pay_tables_def)
  moreover have "entry_nets t = entry_nets s" using preservesD [OF issue_credit_note_nets assms(3)] .
  ultimately show ?thesis using assms(1) t by (simp add: billing_sound_def)
qed

section \<open>What every invariant of the tables owes the operations\<close>

text \<open>
  The payment service changes its tables in few ways: checkout locks, states of sessions and
  refunds, new sessions and refunds, and the three transactions that move money. A predicate
  that only looks at \<open>billing_view\<close> and survives those survives every entry point.
\<close>

definition billing_view :: "'m billing_db_scheme \<Rightarrow> payment_schedule list \<times> payment_session list \<times> payment_refund list
    \<times> billing_invoice list \<times> payment_allocation list \<times> journal_line list" where
  "billing_view s = (schedules s, sessions s, refunds s, invoices s, allocations s, journal_lines s)"

definition lock_free :: "payment_schedule \<Rightarrow> payment_schedule" where
  "lock_free x = x\<lparr>is_checkoutLockKey := None, is_checkoutLockUntil := None\<rparr>"

definition session_terms :: "payment_session \<Rightarrow> payment_session" where
  "session_terms p = p\<lparr>ps_status := [], ps_completedAt := None\<rparr>"

definition refund_terms :: "payment_refund \<Rightarrow> payment_refund" where
  "refund_terms r = r\<lparr>rf_providerReference := None, rf_status := [], rf_completedAt := None, rf_lastError := None\<rparr>"

lemmas row_terms = lock_free_def session_terms_def refund_terms_def

lemma always_updates:
  "(\<And>s. P s \<Longrightarrow> P (modify (update_where Q f) s)) \<Longrightarrow> always P (update_many rows modify Q f)"
  "(\<And>s. P s \<Longrightarrow> P (modify (update_first Q f) s)) \<Longrightarrow> always P (update_row rows modify Q f)"
  "(\<And>s. P s \<Longrightarrow> \<forall>y\<in>set (rows s). \<not> clash r y \<Longrightarrow> P (modify (\<lambda>rs. rs @ [r]) s)) \<Longrightarrow>
     always P (create_row rows modify clash r)"
  by (auto simp: always_def update_many_def update_row_def create_row_def list_ex_iff split: option.splits)

locale billing_invariant =
  fixes P :: "'m billing_db_scheme \<Rightarrow> bool"
  assumes viewed: "billing_view t = billing_view s \<Longrightarrow> P s \<Longrightarrow> P t"
    and locking: "(\<And>x. lock_free (f x) = lock_free x) \<Longrightarrow> P s \<Longrightarrow> P (schedules_update (update_where Q f) s)"
    and session_moved: "(\<And>p. session_terms (g p) = session_terms p) \<Longrightarrow> P s \<Longrightarrow>
          P (sessions_update (update_where R g) s)"
    and refund_moved: "(\<And>r. refund_terms (h r) = refund_terms r) \<Longrightarrow> P s \<Longrightarrow>
          P (refunds_update (update_where S h) s)"
    and refund_answered: "(\<And>r. refund_terms (h r) = refund_terms r) \<Longrightarrow> P s \<Longrightarrow>
          P (refunds_update (update_first S h) s)"
    and session_opened: "0 \<le> ps_amountMinor p \<Longrightarrow> P s \<Longrightarrow> P (sessions_update (\<lambda>ps. ps @ [p]) s)"
    and refund_intended: "0 \<le> rf_amountMinor r \<Longrightarrow> rf_appliedAt r = None \<Longrightarrow> \<forall>y\<in>set (refunds s). rf_id y \<noteq> rf_id r \<Longrightarrow>
          P s \<Longrightarrow> P (refunds_update (\<lambda>rs. rs @ [r]) s)"
    and captures: "P s \<Longrightarrow> process_successful_payment_tx i e evi s = (Inr (), t) \<Longrightarrow> P t"
    and applies: "P s \<Longrightarrow> apply_refund_tx i s = (Inr (), t) \<Longrightarrow> P t"
    and credits: "0 \<le> nd_amountMinor nd \<Longrightarrow> P s \<Longrightarrow> issue_credit_note ctx pr b key nd s = (Inr n, t) \<Longrightarrow> P t"
begin

lemma untouched: "runtime.more t = runtime.more s \<Longrightarrow> P s \<Longrightarrow> P t"
  by (rule viewed [of t s]) (simp_all add: billing_view_def billing_more [of t s])

lemma always_viewed: "keeps billing_view m \<Longrightarrow> always P m"
  by (rule alwaysI) (blast intro: viewed dest: keepsD)

lemma always_capture: "always P (process_successful_payment i e evi)"
  unfolding process_successful_payment_def by (rule always_transactionI [OF untouched]) (auto intro: captures)

lemma always_apply_refund: "always P (apply_refund i)"
  unfolding apply_refund_def by (rule always_transactionI [OF untouched]) (auto intro: applies)

lemma always_schedules:
  "(\<And>x. lock_free (f x) = lock_free x) \<Longrightarrow> always P (update_many schedules schedules_update Q f)"
  by (intro always_updates locking)

lemma always_sessions:
  "(\<And>p. session_terms (g p) = session_terms p) \<Longrightarrow> always P (update_many sessions sessions_update R g)"
  by (intro always_updates session_moved)

lemma always_refunds:
  "(\<And>r. refund_terms (h r) = refund_terms r) \<Longrightarrow> always P (update_many refunds refunds_update S h)"
  "(\<And>r. refund_terms (h r) = refund_terms r) \<Longrightarrow> always P (update_row refunds refunds_update S h)"
  by (intro always_updates refund_moved refund_answered; assumption)+

lemma always_new_session:
  "0 \<le> ps_amountMinor p \<Longrightarrow> always P (create_row sessions sessions_update same_session p)"
  by (rule always_updates) (rule session_opened)

lemma always_new_refund:
  "0 \<le> rf_amountMinor r \<Longrightarrow> rf_appliedAt r = None \<Longrightarrow> always P (create_row refunds refunds_update same_refund r)"
  by (rule always_updates) (rule refund_intended; auto simp: same_refund_def)

lemmas always_tables = always_schedules always_sessions always_refunds

lemma always_reading:
  "always P now" "always P random_uuid" "always P (send c)"
  "always P (now_if b)" "always P (find_row rows C)" "always P (find_rows rows C)"
  "always P (invoice ctx pr i al)" "always P (schedules_of i)"
  "always P (session_by_key ctx key)" "always P (refund_by_key ctx key)"
  "always P (credit_note_by_key ctx key)" "always P (audit_as ctx pr a et ei re me au)"
  "always P (provider_createSession port si)" "always P (provider_refund port ri)"
  "always P (mark_processed event)" "always P (store_event port i j pr' e ty pa)"
  "always P (update_many payment_events payment_events_update D k)"
  unfolding invoice_def businessAccountIds_def schedules_of_def session_by_key_def refund_by_key_def
    credit_note_by_key_def provider_createSession_def provider_refund_def now_if_def mark_processed_def
    store_event_def
  by (rule always_viewed; intro keeps_intros; simp add: billing_view_def)+

lemmas always_steps = hoare_intros always_reading always_tables always_capture always_apply_refund

lemma always_claim_event: "always P work \<Longrightarrow> always P (claim_event busy e work)"
  unfolding claim_event_def by (intro always_steps)

lemma always_fail_session: "always P (fail_session p e)"
  unfolding fail_session_def
proof (rule always_transactionI [OF untouched])
  fix s t and y
  let ?m = "seq (update_many sessions sessions_update
            (\<lambda>x. ps_id x = ps_id p \<and> ps_status x = ''PENDING'') (\<lambda>x. x\<lparr>ps_status := ''FAILED''\<rparr>)) (\<lambda>_.
     seq (update_many schedules schedules_update
            (\<lambda>x. is_id x = ps_scheduleId p \<and> is_tenantId x = ps_tenantId p
               \<and> is_checkoutLockKey x = Some (ps_idempotencyKey p))
            (\<lambda>x. x\<lparr>is_checkoutLockKey := None, is_checkoutLockUntil := None\<rparr>)) (\<lambda>_.
     mark_processed e))"
  have "always P ?m" by (intro always_steps) (simp_all add: row_terms)
  then show "P s \<Longrightarrow> ?m s = (Inr y, t) \<Longrightarrow> P t" by (rule alwaysD)
qed

lemma always_reconcile_refund: "always P (reconcile_coinbase_refund tenant r)"
  unfolding reconcile_coinbase_refund_def by (intro always_steps) (simp_all add: row_terms)

lemma always_receive_provider_event: "always P (receive_provider_event port input)"
  unfolding receive_provider_event_def
  by (intro always_steps always_claim_event always_fail_session always_reconcile_refund)

lemma always_stripe_refund_work: "always P (stripe_refund_work input r e)"
  unfolding stripe_refund_work_def by (intro always_steps) (simp_all add: row_terms)

lemma always_stripe_refund_event: "always P (receive_stripe_refund_event port input)"
  unfolding receive_stripe_refund_event_def
  by (intro always_steps always_claim_event always_stripe_refund_work)

lemma always_stripe_webhook: "always P (stripe_webhook port body sig)"
  unfolding stripe_webhook_def
  by (intro hoare_intros always_receive_provider_event always_stripe_refund_event)

lemma always_coinbase_webhook: "always P (coinbase_webhook port body sig headers)"
  unfolding coinbase_webhook_def by (intro hoare_intros always_receive_provider_event)

lemma always_open_session: "always P (open_session port ctx b scheds schedule key input)"
  unfolding open_session_def update_lock_def
  by (intro always_ensure_seq always_lift_seq always_steps always_new_session;
      simp add: safeMoneyNumber_def row_terms split: if_splits)

lemma always_finish_session: "always P (finish_session input p createdHere)"
  unfolding finish_session_def by (intro always_steps)

lemma always_session_under_lock: "always P (session_under_lock port ctx b scheds schedule key input)"
  unfolding session_under_lock_def release_lock_def update_lock_def
  by (intro always_open_session always_finish_session always_steps; simp add: row_terms)

lemma always_create_payment_session: "always P (create_payment_session port ctx pr i key input)"
  unfolding create_payment_session_def
  by (intro always_session_under_lock always_steps; simp add: row_terms)

lemma always_intend_refund:
  assumes "0 \<le> rp_amountMinor input"
  shows "always P (transaction (intend_refund_tx ctx pr i key input))"
proof (rule always_transactionI [OF untouched])
  fix s y t
  have "always P (intend_refund_tx ctx pr i key input)"
    unfolding intend_refund_tx_def by (intro always_steps always_new_refund) (simp_all add: assms)
  then show "P s \<Longrightarrow> intend_refund_tx ctx pr i key input s = (Inr y, t) \<Longrightarrow> P t" by (rule alwaysD)
qed

lemma always_submit_refund: "always P (submit_refund port ctx p r key)"
  unfolding submit_refund_def by (intro always_steps) (simp_all add: row_terms)

lemma always_continue_refund: "always P (continue_refund port ctx i key input r)"
  unfolding continue_refund_def by (intro always_steps always_submit_refund) (simp_all add: row_terms)

lemma always_refund: "0 \<le> rp_amountMinor input \<Longrightarrow> always P (refund port ctx pr i key input)"
  unfolding refund_def by (intro always_steps always_intend_refund always_continue_refund)

lemma always_credit_note:
  assumes "0 \<le> nd_amountMinor input"
  shows "always P (credit_note ctx pr i key input)"
proof -
  have body: "P t" if "P s" and "credit_note_tx ctx pr i k input s = (Inr y, t)" for k s y t
    using that(2) credits [OF assms that(1)] that(1)
    by (auto simp: credit_note_tx_def credit_note_by_key_def split: option.splits)
  have "always P (transaction (credit_note_tx ctx pr i k input))" for k
    by (rule always_transactionI [OF untouched]) (blast intro: body)+
  then show ?thesis unfolding credit_note_def by (intro always_steps)
qed

end

section \<open>Runs of the payment service\<close>

text \<open>
  A run is a sequence of calls, each of which may return or throw. The amounts of a refund and
  of a credit note are at least one by the validation of \<open>billing.dto.ts\<close>.
\<close>

inductive billing_step :: "payment_port \<Rightarrow> 'm billing_db_scheme \<Rightarrow> 'm billing_db_scheme \<Rightarrow> bool" for port where
  opened: "create_payment_session port ctx pr i key dto s = (ra, t) \<Longrightarrow> billing_step port s t"
| refunded: "1 \<le> rp_amountMinor rdto \<Longrightarrow> refund port ctx pr i key rdto s = (rb, t) \<Longrightarrow> billing_step port s t"
| credited: "1 \<le> nd_amountMinor ndto \<Longrightarrow> credit_note ctx pr i key ndto s = (rc, t) \<Longrightarrow> billing_step port s t"
| stripe: "stripe_webhook port body sig s = (rd, t) \<Longrightarrow> billing_step port s t"
| coinbase: "coinbase_webhook port body sig headers s = (rd, t) \<Longrightarrow> billing_step port s t"

context billing_invariant
begin

lemma step_maintains:
  assumes "billing_step port s t" and "P s"
  shows "P t"
  using assms(1)
proof cases
  case (opened ctx pr i key dto ra)
  show ?thesis by (rule alwaysD [OF always_create_payment_session assms(2) opened])
next
  case (refunded rdto ctx pr i key rb)
  have "0 \<le> rp_amountMinor rdto" using refunded(1) by simp
  then show ?thesis by (rule alwaysD [OF always_refund assms(2) refunded(2)])
next
  case (credited ndto ctx pr i key rc)
  have "0 \<le> nd_amountMinor ndto" using credited(1) by simp
  then show ?thesis by (rule alwaysD [OF always_credit_note assms(2) credited(2)])
next
  case (stripe body sig rd)
  show ?thesis by (rule alwaysD [OF always_stripe_webhook assms(2) stripe])
next
  case (coinbase body sig headers rd)
  show ?thesis by (rule alwaysD [OF always_coinbase_webhook assms(2) coinbase])
qed

lemma run_maintains: "(billing_step port)\<^sup>*\<^sup>* s t \<Longrightarrow> P s \<Longrightarrow> P t"
  by (induction rule: rtranclp_induct) (blast intro: step_maintains)+

end

text \<open>Sound tables are such an invariant.\<close>

lemma sound_row:
  assumes "lock_free x = lock_free y"
  shows "sound_schedule x = sound_schedule y \<and> is_id x = is_id y"
  using assms by (cases x; cases y) (simp add: lock_free_def sound_schedule_def)

lemma session_terms_amount: "session_terms p = session_terms q \<Longrightarrow> ps_amountMinor p = ps_amountMinor q"
  by (cases p; cases q) (simp add: session_terms_def)

lemma refund_terms_fields:
  "refund_terms r = refund_terms q \<Longrightarrow> rf_amountMinor r = rf_amountMinor q \<and> rf_id r = rf_id q
     \<and> rf_appliedAt r = rf_appliedAt q \<and> rf_invoiceId r = rf_invoiceId q"
  by (cases r; cases q) (simp add: refund_terms_def)

interpretation sound: billing_invariant billing_sound
proof unfold_locales
  fix s t :: "'m billing_db_scheme"
  show "billing_view t = billing_view s \<Longrightarrow> billing_sound s \<Longrightarrow> billing_sound t"
    by (simp add: billing_view_def billing_sound_def pay_tables_def entry_nets_def)
next
  fix f Q and s :: "'m billing_db_scheme"
  assume "\<And>x. lock_free (f x) = lock_free x" and s: "billing_sound s"
  then have "sound_schedule (f x) = sound_schedule x \<and> is_id (f x) = is_id x" for x by (blast dest: sound_row)
  with s show "billing_sound (schedules_update (update_where Q f) s)"
    by (auto simp: billing_sound_def pay_sound_def pay_tables_def entry_nets_def map_update_where
        intro!: list_all_update_where)
next
  fix g R and s :: "'m billing_db_scheme"
  assume "\<And>p. session_terms (g p) = session_terms p" and s: "billing_sound s"
  then have "ps_amountMinor (g p) = ps_amountMinor p" for p by (blast dest: session_terms_amount)
  with s show "billing_sound (sessions_update (update_where R g) s)"
    by (auto simp: billing_sound_def pay_sound_def pay_tables_def entry_nets_def intro!: list_all_update_where)
next
  fix h S and s :: "'m billing_db_scheme"
  assume "\<And>r. refund_terms (h r) = refund_terms r" and s: "billing_sound s"
  then have h: "rf_amountMinor (h r) = rf_amountMinor r" for r by (blast dest: refund_terms_fields)
  show "billing_sound (refunds_update (update_where S h) s)" "billing_sound (refunds_update (update_first S h) s)"
    using s h by (auto simp: billing_sound_def pay_sound_def pay_tables_def entry_nets_def
        intro!: list_all_update_where list_all_update_first)
next
  fix s t :: "'m billing_db_scheme" and i :: uuid and e :: string and evi
  show "billing_sound s \<Longrightarrow> process_successful_payment_tx i e evi s = (Inr (), t) \<Longrightarrow> billing_sound t"
    by (rule capture_sound)
next
  fix s t :: "'m billing_db_scheme" and i
  show "billing_sound s \<Longrightarrow> apply_refund_tx i s = (Inr (), t) \<Longrightarrow> billing_sound t" by (rule apply_refund_sound)
next
  fix s t :: "'m billing_db_scheme" and nd ctx pr b key n
  show "0 \<le> nd_amountMinor nd \<Longrightarrow> billing_sound s \<Longrightarrow> issue_credit_note ctx pr b key nd s = (Inr n, t) \<Longrightarrow> billing_sound t"
    by (rule issue_credit_note_sound)
qed (simp_all add: billing_sound_def pay_sound_def pay_tables_def entry_nets_def)


section \<open>What an invoice is paid is what was captured less what was refunded\<close>

definition captured :: "payment_allocation list \<Rightarrow> uuid \<Rightarrow> int" where
  "captured as i = sum_list (map (\<lambda>a. if pa_invoiceId a = i then pa_amountMinor a else 0) as)"

definition given_back :: "payment_refund list \<Rightarrow> uuid \<Rightarrow> int" where
  "given_back rs i = sum_list (map (\<lambda>r. if rf_invoiceId r = i \<and> rf_appliedAt r \<noteq> None then rf_amountMinor r else 0) rs)"

definition invoice_ledger :: "'m billing_db_scheme \<Rightarrow> bool" where
  "invoice_ledger s \<longleftrightarrow> distinct (map bi_id (invoices s)) \<and> distinct (map rf_id (refunds s))
     \<and> (\<forall>b\<in>set (invoices s). bi_paidMinor b = captured (allocations s) (bi_id b) - given_back (refunds s) (bi_id b))"

definition ledger_tables ::
  "'m billing_db_scheme \<Rightarrow> billing_invoice list \<times> payment_allocation list \<times> payment_refund list"
where
  "ledger_tables s = (invoices s, allocations s, refunds s)"

lemma ledger_steps:
  "keeps ledger_tables (create_journal i tenant number postedBy dto)"
  "keeps ledger_tables (event_processed e f)" "keeps ledger_tables (confirm_source p b full)"
  "keeps ledger_tables (publish ta ty su pa co)" "keeps ledger_tables (now_if c)"
  "keeps ledger_tables (update_row sessions sessions_update P g)"
  "keeps ledger_tables (update_row schedules schedules_update Q h)"
  "keeps ledger_tables (audit_as ctx pr a et ei re me au)"
  "keeps ledger_tables (create_row credit_notes credit_notes_update same_credit_note n)"
  by (intro keeps_intros; simp add: ledger_tables_def)+

lemma ledger_updates:
  "update_row invoices invoices_update P g s = (Inr x, t) \<Longrightarrow>
     ledger_tables t = (update_first P g (invoices s), allocations s, refunds s)"
  "create_row allocations allocations_update same_allocation a s = (Inr a', t) \<Longrightarrow>
     ledger_tables t = (invoices s, allocations s @ [a], refunds s)"
  by (auto simp: ledger_tables_def)

lemmas ledger_stepsD = ledger_steps [THEN keepsD, unfolded ledger_tables_def prod.inject]
  ledger_updates [unfolded ledger_tables_def prod.inject]

lemma capture_ledger:
  assumes "capture_payment p x b eventId evidence s = (Inr (), t)"
  shows "\<exists>a g. allocations t = allocations s @ [a] \<and> pa_invoiceId a = bi_id b \<and> pa_amountMinor a = ps_amountMinor p
    \<and> pa_sessionId a = ps_id p \<and> refunds t = refunds s \<and> invoices t = update_first (\<lambda>y. bi_id y = bi_id b) g (invoices s)
    \<and> (\<forall>y. bi_paidMinor (g y) = bi_paidMinor y + ps_amountMinor p \<and> bi_id (g y) = bi_id y)"
  using assms unfolding capture_payment_def Let_def find_account_def
  by (auto simp del: create_row_Inr update_row_Inr dest!: ledger_stepsD) (fastforce)+

lemma book_refund_ledger:
  assumes "book_refund r p x b s = (Inr (), t)"
  shows "\<exists>g. allocations t = allocations s \<and> refunds t = refunds s
    \<and> invoices t = update_first (\<lambda>y. bi_id y = rf_invoiceId r) g (invoices s)
    \<and> (\<forall>y. bi_paidMinor (g y) = bi_paidMinor b - rf_amountMinor r \<and> bi_id (g y) = bi_id y)"
  using assms unfolding book_refund_def Let_def find_account_def
  by (auto simp del: create_row_Inr update_row_Inr dest!: ledger_stepsD)

lemma keeps_credit_schedule_ledger: "keeps ledger_tables (credit_schedule ctx x m)"
  unfolding credit_schedule_def Let_def by (intro keeps_intros; simp add: ledger_tables_def)

lemma credit_note_ledger:
  assumes "issue_credit_note ctx pr b key nd s = (Inr n, t)"
  shows "\<exists>g. allocations t = allocations s \<and> refunds t = refunds s
    \<and> invoices t = update_first (\<lambda>y. bi_id y = bi_id b) g (invoices s)
    \<and> (\<forall>y. bi_paidMinor (g y) = bi_paidMinor y \<and> bi_id (g y) = bi_id y)"
  using assms unfolding issue_credit_note_def Let_def find_account_def schedules_of_def
  by (auto simp del: create_row_Inr update_row_Inr
      dest!: ledger_stepsD keepsD [OF keeps_fold_each [OF keeps_credit_schedule_ledger], unfolded ledger_tables_def prod.inject])

lemma ledger_invoice_update:
  assumes "distinct (map bi_id bs)" and "\<forall>b\<in>set bs. bi_paidMinor b = paid (bi_id b)"
    and "List.find (\<lambda>y. bi_id y = i) bs = Some b"
    and "bi_paidMinor (g b) = paid' i" and "\<And>y. bi_id (g y) = bi_id y" and "\<And>j. j \<noteq> i \<Longrightarrow> paid' j = paid j"
  shows "distinct (map bi_id (update_first (\<lambda>y. bi_id y = i) g bs))
    \<and> (\<forall>b\<in>set (update_first (\<lambda>y. bi_id y = i) g bs). bi_paidMinor b = paid' (bi_id b))"
proof -
  have "list_all (\<lambda>b. bi_paidMinor b = paid' (bi_id b)) (update_first (\<lambda>y. bi_id y = i) g bs)"
    if "distinct (map bi_id bs)" "\<forall>b\<in>set bs. bi_paidMinor b = paid (bi_id b)"
      "List.find (\<lambda>y. bi_id y = i) bs = Some b" for bs
    using that
  proof (induction bs)
    case (Cons y bs)
    have "bi_id y \<notin> bi_id ` set bs" using Cons.prems(1) by simp
    then have rest: "bi_id z \<noteq> i" if "bi_id y = i" "z \<in> set bs" for z using that by (metis imageI)
    show ?case
    proof (cases "bi_id y = i")
      case True
      with Cons.prems have "y = b" by simp
      then show ?thesis using True rest [OF True] Cons.prems(2) assms(4-6) by (simp add: list_all_iff)
    next
      case False
      then show ?thesis using Cons assms(6) by simp
    qed
  qed simp
  with assms map_update_first [of bi_id g] show ?thesis by (simp add: list_all_iff)
qed

lemma captured_append: "captured (as @ [a]) i = captured as i + (if pa_invoiceId a = i then pa_amountMinor a else 0)"
  by (simp add: captured_def)

lemma capture_keeps_ledger:
  assumes "invoice_ledger s" and "process_successful_payment_tx i e evi s = (Inr (), t)"
  shows "invoice_ledger t"
proof -
  have marked: "keeps ledger_tables (event_processed e f)" for f by (rule ledger_steps)
  from assms(2) consider f where "event_processed e f s = (Inr (), t)"
    | p x b where "List.find (\<lambda>y. bi_id y = is_invoiceId x) (invoices s) = Some b" "capture_payment p x b e evi s = (Inr (), t)"
    by (auto simp: process_successful_payment_tx_def split: if_splits)
  then show ?thesis
  proof cases
    case 1
    then show ?thesis using assms(1) keepsD [OF marked 1] by (simp add: invoice_ledger_def ledger_tables_def)
  next
    case 2
    then have "is_invoiceId x = bi_id b" by (auto dest: find_SomeD)
    with 2(1) have b: "List.find (\<lambda>y. bi_id y = bi_id b) (invoices s) = Some b" by simp
    with assms(1) have paid: "bi_paidMinor b = captured (allocations s) (bi_id b) - given_back (refunds s) (bi_id b)"
      by (auto simp: invoice_ledger_def dest: find_SomeD)
    from capture_ledger [OF 2(2)] obtain a g where t: "allocations t = allocations s @ [a]" "pa_invoiceId a = bi_id b"
      "pa_amountMinor a = ps_amountMinor p" "refunds t = refunds s"
      "invoices t = update_first (\<lambda>y. bi_id y = bi_id b) g (invoices s)"
      "\<And>y. bi_paidMinor (g y) = bi_paidMinor y + ps_amountMinor p" "\<And>y. bi_id (g y) = bi_id y" by blast
    have "distinct (map bi_id (invoices t)) \<and> (\<forall>b\<in>set (invoices t).
        bi_paidMinor b = captured (allocations t) (bi_id b) - given_back (refunds t) (bi_id b))"
      unfolding t(5)
      by (rule ledger_invoice_update [where paid = "\<lambda>i. captured (allocations s) i - given_back (refunds s) i", OF _ _ b])
        (use assms(1) paid in \<open>auto simp: invoice_ledger_def t captured_append\<close>)
    then show ?thesis using assms(1) by (simp add: invoice_ledger_def t)
  qed
qed

lemma claimed_refund:
  assumes "distinct (map rf_id rs)" and "r \<in> set rs" and "length (filter (\<lambda>x. rf_id x = rf_id r \<and> Q x \<and> rf_appliedAt x = None) rs) = 1"
  shows "given_back (update_where (\<lambda>x. rf_id x = rf_id r \<and> Q x \<and> rf_appliedAt x = None) (\<lambda>x. x\<lparr>rf_appliedAt := Some c\<rparr>) rs) i =
    given_back rs i + (if rf_invoiceId r = i then rf_amountMinor r else 0)"
proof -
  from filter_length_1D [OF assms(3)] obtain y where "filter (\<lambda>x. rf_id x = rf_id r \<and> Q x \<and> rf_appliedAt x = None) rs = [y]"
    and y: "y \<in> set rs" "rf_id y = rf_id r" "rf_appliedAt y = None" by blast
  moreover from y assms(1,2) have "y = r" by (blast dest: distinct_mapD)
  ultimately show ?thesis using y(3) by (simp add: given_back_def sum_update_where)
qed

lemma at_most_one: "distinct (map f xs) \<Longrightarrow> length (filter (\<lambda>x. f x = i \<and> Q x) xs) \<le> 1"
proof (induction xs)
  case (Cons x xs)
  then have "f x = i \<Longrightarrow> filter (\<lambda>x. f x = i \<and> Q x) xs = []" by (auto simp: filter_empty_conv) (metis imageI)
  with Cons show ?case by auto
qed simp

lemma none_or_one:
  "distinct (map f xs) \<Longrightarrow> length (filter (\<lambda>x. f x = i \<and> Q x) xs) \<noteq> 1 \<Longrightarrow> filter (\<lambda>x. f x = i \<and> Q x) xs = []"
  using at_most_one [of f xs i Q] by (cases "filter (\<lambda>x. f x = i \<and> Q x) xs") auto

lemma settle_refund_ledger:
  assumes "invoice_ledger s" and "settle_refund r p x b s = (Inr (), t)" and "r \<in> set (refunds s)"
    and "List.find (\<lambda>b. bi_id b = rf_invoiceId r) (invoices s) = Some b"
  shows "invoice_ledger t"
proof -
  let ?Q = "\<lambda>x. rf_id x = rf_id r \<and> rf_status x = ''COMPLETED'' \<and> rf_appliedAt x = None"
  define c where "c = clock s (clock_reads s)"
  define rs where "rs = update_where ?Q (\<lambda>x. x\<lparr>rf_appliedAt := Some c\<rparr>) (refunds s)"
  from assms(1) have s: "distinct (map bi_id (invoices s))" "distinct (map rf_id (refunds s))"
    "\<forall>b\<in>set (invoices s). bi_paidMinor b = captured (allocations s) (bi_id b) - given_back (refunds s) (bi_id b)"
    by (simp_all add: invoice_ledger_def)
  have ids: "map rf_id rs = map rf_id (refunds s)" unfolding rs_def by (rule map_update_where) simp
  define u where "u = refunds_update (update_where ?Q (\<lambda>x. x\<lparr>rf_appliedAt := Some c\<rparr>)) (s\<lparr>clock_reads := Suc (clock_reads s)\<rparr>)"
  have u: "invoices u = invoices s" "allocations u = allocations s" "refunds u = rs" by (simp_all add: u_def rs_def)
  from assms(2) consider "t = s"
    | "length (filter ?Q (refunds s)) \<noteq> 1" "t = u"
    | "length (filter ?Q (refunds s)) = 1" "book_refund r p x b u = (Inr (), t)"
  proof (cases "rf_status r = ''COMPLETED''")
    case True
    with assms(2) have step: "if length (filter ?Q (refunds s)) \<noteq> 1 then t = u else book_refund r p x b u = (Inr (), t)"
      by (simp add: settle_refund_def u_def c_def split: if_splits)
    show thesis
    proof (cases "length (filter ?Q (refunds s)) = 1")
      case True
      then show thesis by (rule that(3)) (use step True in simp)
    next
      case False
      then show thesis by (rule that(2)) (use step False in simp)
    qed
  qed (rule that(1), use assms(2) in \<open>simp add: settle_refund_def\<close>)
  then show ?thesis
  proof cases
    case 1
    then show ?thesis using assms(1) by simp
  next
    case 2
    then have "filter ?Q (refunds s) = []" by (intro none_or_one [OF s(2)]) simp
    then have "rs = refunds s" by (simp add: rs_def update_where_none filter_empty_conv)
    then show ?thesis using 2 s u by (simp add: invoice_ledger_def)
  next
    case 3
    have given: "given_back rs i = given_back (refunds s) i + (if rf_invoiceId r = i then rf_amountMinor r else 0)" for i
      unfolding rs_def using claimed_refund [OF s(2) assms(3) 3(1)] .
    from book_refund_ledger [OF 3(2)] u obtain g where t: "allocations t = allocations s" "refunds t = rs"
      "invoices t = update_first (\<lambda>y. bi_id y = rf_invoiceId r) g (invoices s)"
      "\<And>y. bi_paidMinor (g y) = bi_paidMinor b - rf_amountMinor r" "\<And>y. bi_id (g y) = bi_id y"
      by auto
    from assms(4) s(3) have "bi_paidMinor b = captured (allocations s) (rf_invoiceId r) - given_back (refunds s) (rf_invoiceId r)"
      by (auto dest: find_SomeD)
    then have "distinct (map bi_id (invoices t)) \<and> (\<forall>b\<in>set (invoices t).
        bi_paidMinor b = captured (allocations t) (bi_id b) - given_back (refunds t) (bi_id b))"
      unfolding t(3)
      by (intro ledger_invoice_update [where paid = "\<lambda>i. captured (allocations s) i - given_back (refunds s) i", OF s(1,3) assms(4)])
        (simp_all add: t given)
    then show ?thesis using s ids by (simp add: invoice_ledger_def t)
  qed
qed

lemma apply_refund_ledger:
  assumes "invoice_ledger s" and "apply_refund_tx i s = (Inr (), t)"
  shows "invoice_ledger t"
  using assms(2) settle_refund_ledger [OF assms(1)] assms(1)
  by (auto simp: apply_refund_tx_def split: option.splits dest: find_SomeD)

lemma given_back_terms:
  assumes "\<And>r. refund_terms (h r) = refund_terms r"
  shows "given_back (update_where S h rs) i = given_back rs i" "given_back (update_first S h rs) i = given_back rs i"
proof -
  let ?w = "\<lambda>r. if rf_invoiceId r = i \<and> rf_appliedAt r \<noteq> None then rf_amountMinor r else 0"
  have "?w (h r) = ?w r" for r using refund_terms_fields [OF assms [of r]] by auto
  then have "map ?w (update_where S h rs) = map ?w rs" "map ?w (update_first S h rs) = map ?w rs"
    by (simp_all only: map_update_where [of ?w] map_update_first [of ?w])
  then show "given_back (update_where S h rs) i = given_back rs i" "given_back (update_first S h rs) i = given_back rs i"
    by (simp_all only: given_back_def)
qed

interpretation ledger: billing_invariant invoice_ledger
proof unfold_locales
  fix s t :: "'m billing_db_scheme"
  show "billing_view t = billing_view s \<Longrightarrow> invoice_ledger s \<Longrightarrow> invoice_ledger t"
    by (simp add: billing_view_def invoice_ledger_def)
next
  fix h S and s :: "'m billing_db_scheme"
  assume h: "\<And>r. refund_terms (h r) = refund_terms r" and s: "invoice_ledger s"
  then have "rf_id (h r) = rf_id r" for r by (blast dest: refund_terms_fields)
  then show "invoice_ledger (refunds_update (update_where S h) s)" "invoice_ledger (refunds_update (update_first S h) s)"
    using s by (simp_all add: invoice_ledger_def given_back_terms [OF h] map_update_where map_update_first)
next
  fix s t :: "'m billing_db_scheme" and i :: uuid and e :: string and evi
  show "invoice_ledger s \<Longrightarrow> process_successful_payment_tx i e evi s = (Inr (), t) \<Longrightarrow> invoice_ledger t"
    by (rule capture_keeps_ledger)
next
  fix s t :: "'m billing_db_scheme" and i
  show "invoice_ledger s \<Longrightarrow> apply_refund_tx i s = (Inr (), t) \<Longrightarrow> invoice_ledger t" by (rule apply_refund_ledger)
next
  fix s t :: "'m billing_db_scheme" and nd ctx pr b key n
  assume s: "invoice_ledger s" and run: "issue_credit_note ctx pr b key nd s = (Inr n, t)"
  from credit_note_ledger [OF run] obtain g where t: "allocations t = allocations s" "refunds t = refunds s"
    "invoices t = update_first (\<lambda>y. bi_id y = bi_id b) g (invoices s)"
    "\<And>y. bi_paidMinor (g y) = bi_paidMinor y" "\<And>y. bi_id (g y) = bi_id y" by blast
  have "list_all (\<lambda>b. bi_paidMinor b = captured (allocations s) (bi_id b) - given_back (refunds s) (bi_id b)) (invoices t)"
    unfolding t(3) by (rule list_all_update_first) (use s t in \<open>simp_all add: invoice_ledger_def list_all_iff\<close>)
  with s show "invoice_ledger t" by (simp add: invoice_ledger_def t list_all_iff map_update_first)
qed (auto simp: invoice_ledger_def given_back_def)

section \<open>A payment is captured once\<close>

definition beside_events :: "'m billing_db_scheme \<Rightarrow> 'm billing_db_scheme" where
  "beside_events s = s\<lparr>clock_reads := 0, payment_events := []\<rparr>"

lemma allocated_capture:
  assumes "filter (\<lambda>a. pa_sessionId a = i) (allocations s) \<noteq> []"
  shows "beside_events (snd (process_successful_payment_tx i e evi s)) = beside_events s"
proof -
  have marked: "keeps beside_events (event_processed e f)" for f :: "payment_event \<Rightarrow> payment_event"
    by (intro keeps_intros; simp add: beside_events_def)
  have "beside_events u = beside_events s" if "process_successful_payment_tx i e evi s = (r, u)" for r u
    using that assms
    by (cases r) (auto simp: process_successful_payment_tx_def count_rows_def dest: keepsD [OF marked])
  then show ?thesis by (metis prod.collapse)
qed

lemma captured_session_allocated:
  assumes "process_successful_payment i e evi s = (Inr (), t)"
  shows "filter (\<lambda>a. pa_sessionId a = i) (allocations t) \<noteq> []"
proof -
  have marked: "keeps ledger_tables (event_processed e f)" for f by (rule ledger_steps)
  from assms consider f where "filter (\<lambda>a. pa_sessionId a = i) (allocations s) \<noteq> []" "event_processed e f s = (Inr (), t)"
    | p x b where "ps_id p = i" "capture_payment p x b e evi s = (Inr (), t)"
    by (auto simp: process_successful_payment_def process_successful_payment_tx_def split: if_splits dest: find_SomeD)
  then show ?thesis
  proof cases
    case 1
    then show ?thesis using keepsD [OF marked 1(2)] by (simp add: ledger_tables_def)
  next
    case 2
    then show ?thesis using capture_ledger [OF 2(2)] by fastforce
  qed
qed

lemma captured_again:
  assumes "process_successful_payment i e evi s = (Inr (), t)" and "process_successful_payment i e' evi' t = (r, u)"
  shows "beside_events u = beside_events t"
proof -
  obtain r' v where body: "process_successful_payment_tx i e' evi' t = (r', v)" by fastforce
  from allocated_capture [OF captured_session_allocated [OF assms(1)], of e' evi'] body
  have v: "beside_events v = beside_events t" by simp
  from assms(2) body have "u = v \<or> u = runtime.more_update (\<lambda>_. runtime.more t) v"
    by (auto simp: process_successful_payment_def transaction_def split: sum.splits)
  with v show ?thesis by (cases t; cases v) (auto simp: beside_events_def)
qed

section \<open>A refund that was applied\<close>

lemma applied_again:
  assumes "distinct (map rf_id (refunds s))" and "r \<in> set (refunds s)"
    and "rf_status r = ''COMPLETED''" and "rf_appliedAt r \<noteq> None"
    and "List.find (\<lambda>b. bi_id b = rf_invoiceId r) (invoices s) = Some b"
    and "List.find (\<lambda>p. ps_id p = rf_sessionId r) (sessions s) = Some p"
    and "List.find (\<lambda>x. is_id x = ps_scheduleId p) (schedules s) = Some x"
  shows "runtime.more (snd (apply_refund (rf_id r) s)) = runtime.more s
    \<and> fst (apply_refund (rf_id r) s) = (if bi_paidMinor b < rf_amountMinor r \<or> is_paidMinor x < rf_amountMinor r
        then Inl (Conflict ''Refund would make an allocated payment negative'') else Inr ())"
proof -
  have "List.find (\<lambda>y. rf_id y = rf_id r) (refunds s) = Some y \<Longrightarrow> y = r" for y
    using assms(1,2) by (blast dest: find_SomeD distinct_mapD)
  then have r: "List.find (\<lambda>y. rf_id y = rf_id r) (refunds s) = Some r"
    using assms(2) by (cases "List.find (\<lambda>y. rf_id y = rf_id r) (refunds s)") (auto simp: find_None_iff)
  let ?Q = "\<lambda>y. rf_id y = rf_id r \<and> rf_status y = ''COMPLETED'' \<and> rf_appliedAt y = None"
  have none: "\<forall>y\<in>set (refunds s). \<not> ?Q y" using distinct_mapD [OF assms(1) _ assms(2)] assms(4) by auto
  then have same: "filter ?Q (refunds s) = []" "\<And>f. update_where ?Q f (refunds s) = refunds s"
    by (simp_all only: filter_empty_conv update_where_none not_False_eq_True)
  let ?t = "s\<lparr>clock_reads := Suc (clock_reads s)\<rparr>"
  have kept: "refunds_update (update_where ?Q f) ?t = ?t" for f
    using same(2) [of f] by (cases s) simp
  have settled: "settle_refund r p x b s =
      (if bi_paidMinor b < rf_amountMinor r \<or> is_paidMinor x < rf_amountMinor r
       then (Inl (Conflict ''Refund would make an allocated payment negative''), s) else (Inr (), ?t))"
    by (simp add: settle_refund_def assms(3) seq_def ensure_def ret_def throw_def now_def update_many_def kept same(1))
  have "apply_refund_tx (rf_id r) s = settle_refund r p x b s"
    by (simp add: apply_refund_tx_def find_row_def reads_def require_def ret_def seq_def r assms(5-7))
  then show ?thesis by (simp add: apply_refund_def transaction_def settled)
qed

section \<open>A concrete invoice\<close>

definition some_gateway :: payment_port where
  "some_gateway = \<lparr>pp_production = False, pp_baseUrl = ''http://localhost'',
     pp_open = (\<lambda>_ _. Inl (ServiceUnavailable ''offline'')), pp_refund = (\<lambda>_ _. Inl (ServiceUnavailable ''offline'')),
     pp_verifyStripe = (\<lambda>_ _. Inr False), pp_verifyCoinbase = (\<lambda>_ _ _. Inr False), pp_parse = (\<lambda>_. None),
     pp_sha256 = (\<lambda>x. x), pp_payloadHash = (\<lambda>_. [])\<rparr>"

definition due_invoice :: billing_invoice where
  "due_invoice = \<lparr>bi_id = ''invoice'', bi_tenantId = ''tenant'', bi_number = ''INV-1970-000001'',
     bi_customerId = Some ''user'', bi_businessAccountId = None, bi_commerceOrderId = None,
     bi_sourceType = ''COMMERCE_ORDER'', bi_sourceId = ''order'', bi_status = ''ISSUED'', bi_currency = ''EUR'',
     bi_subtotalMinor = 1000, bi_taxMinor = 0, bi_totalMinor = 1000, bi_paidMinor = 0, bi_creditedMinor = 0,
     bi_billingSnapshot = JNull, bi_dueAt = 500, bi_paidAt = None, bi_version = 1\<rparr>"

definition due_schedule :: "uuid \<Rightarrow> int \<Rightarrow> int \<Rightarrow> payment_schedule" where
  "due_schedule i n amount = \<lparr>is_id = i, is_tenantId = ''tenant'', is_invoiceId = ''invoice'', is_kind = ''INSTALMENT'',
     is_amountMinor = amount, is_paidMinor = 0, is_creditedMinor = 0, is_dueAt = 500, is_status = ''DUE'',
     is_sequence = n, is_checkoutLockKey = None, is_checkoutLockUntil = None\<rparr>"

definition due_books :: billing_db where
  "due_books = fresh_billing\<lparr>invoices := [due_invoice],
     schedules := [due_schedule ''deposit'' 1 600, due_schedule ''balance'' 2 400],
     accounts := map (\<lambda>c. \<lparr>fa_id = c, fa_tenantId = ''tenant'', fa_code = c, fa_name = c, fa_type = ''ASSET'',
       fa_currency = ''EUR'', fa_active = True\<rparr>) [''1000'', ''1100'', ''5000'']\<rparr>"

definition deposit_paid :: billing_db where
  "deposit_paid = snd (create_payment_session some_gateway some_context some_principal ''invoice'' ''payment-1''
     \<lparr>cp_provider = ''MOCK'', cp_scheduleId = None\<rparr> due_books)"

text \<open>The identifier of the session: the second one drawn.\<close>

definition deposit_session :: uuid where
  "deposit_session = ''1''"

definition balance_credited :: billing_db where
  "balance_credited = snd (credit_note some_context some_principal ''invoice'' ''credit-1''
     \<lparr>nd_amountMinor = 150, nd_reason = ''late''\<rparr> deposit_paid)"

definition deposit_refunded :: billing_db where
  "deposit_refunded = snd (refund some_gateway some_context some_principal deposit_session ''refund-1''
     \<lparr>rp_amountMinor = 600, rp_reason = ''damaged''\<rparr> balance_credited)"

lemma due_run: "(billing_step some_gateway)\<^sup>*\<^sup>* due_books deposit_refunded"
proof -
  have "billing_step some_gateway due_books deposit_paid"
    unfolding deposit_paid_def by (rule billing_step.opened, rule surjective_pairing)
  moreover have "billing_step some_gateway deposit_paid balance_credited"
    unfolding balance_credited_def by (rule billing_step.credited [OF _ surjective_pairing], simp)
  moreover have "billing_step some_gateway balance_credited deposit_refunded"
    unfolding deposit_refunded_def by (rule billing_step.refunded [OF _ surjective_pairing], simp)
  ultimately show ?thesis by (meson rtranclp.rtrancl_into_rtrancl rtranclp.rtrancl_refl)
qed

lemma due_books_start: "billing_sound due_books" "invoice_ledger due_books"
  by (simp_all add: billing_sound_def pay_sound_def pay_tables_def entry_nets_def invoice_ledger_def due_books_def
      due_invoice_def due_schedule_def sound_schedule_def entry_net_def captured_def given_back_def
      fresh_billing_def fresh_finance_def billing_db.defs finance_db.defs inventory_db.defs fun_eq_iff)

text \<open>What the run leaves behind, in one evaluation.\<close>

definition refund_scene :: "'m billing_db_scheme \<Rightarrow> bool" where
  "refund_scene s \<longleftrightarrow> (case (refunds s, invoices s, sessions s) of
     ([r], [b], [p]) \<Rightarrow> rf_status r = ''COMPLETED'' \<and> rf_appliedAt r \<noteq> None \<and> rf_invoiceId r = bi_id b
        \<and> rf_sessionId r = ps_id p \<and> ps_scheduleId p = is_id (hd (schedules s))
        \<and> bi_paidMinor b = 0 \<and> rf_amountMinor r = 600
        \<and> captured (allocations s) (bi_id b) = 600 \<and> given_back (refunds s) (bi_id b) = 600
    | _ \<Rightarrow> False)
   \<and> map (\<lambda>x. (is_paidMinor x, is_creditedMinor x, is_status x)) (schedules s)
       = [(0, 0, ''DUE''), (0, 150, ''PARTIALLY_PAID'')]
   \<and> length (journals s) = 3"

lemma deposit_refunded_scene: "refund_scene deposit_refunded"
  by code_simp

lemma deposit_refunded_rows:
  obtains r b p x y where "refunds deposit_refunded = [r]" "invoices deposit_refunded = [b]"
    "sessions deposit_refunded = [p]" "schedules deposit_refunded = [x, y]"
    "rf_status r = ''COMPLETED''" "rf_appliedAt r \<noteq> None" "rf_invoiceId r = bi_id b" "rf_sessionId r = ps_id p"
    "ps_scheduleId p = is_id x" "bi_paidMinor b = 0" "rf_amountMinor r = 600"
    "captured (allocations deposit_refunded) (bi_id b) = 600" "given_back (refunds deposit_refunded) (bi_id b) = 600"
  using deposit_refunded_scene unfolding refund_scene_def
  by (auto simp: map_eq_Cons_conv split: list.splits)

section \<open>Properties\<close>

text \<open>
  C8. Along every run of the payment service, with calls that return and calls that fail in any
  order, no schedule is over-paid, over-credited or negative, and every journal entry the
  service posted is balanced.
\<close>

theorem billing_run_keeps_accounts:
  assumes "(billing_step port)\<^sup>*\<^sup>* s t" and "billing_sound s"
  shows "billing_sound t \<and> balanced_books t
    \<and> (\<forall>x\<in>set (schedules t). 0 \<le> is_paidMinor x \<and> 0 \<le> is_creditedMinor x
        \<and> is_paidMinor x + is_creditedMinor x \<le> is_amountMinor x)"
proof -
  have "billing_sound t" by (rule sound.run_maintains [OF assms])
  then show ?thesis
    by (simp add: billing_sound_books) (auto simp: billing_sound_def pay_sound_def pay_tables_def list_all_iff sound_schedule_def)
qed

theorem billing_run_keeps_accounts_witness:
  "billing_sound deposit_refunded
   \<and> map (\<lambda>x. (is_paidMinor x, is_creditedMinor x, is_status x)) (schedules deposit_refunded)
     = [(0, 0, ''DUE''), (0, 150, ''PARTIALLY_PAID'')]
   \<and> length (journals deposit_refunded) = 3"
  using billing_run_keeps_accounts [OF due_run due_books_start(1)] deposit_refunded_scene
  by (simp add: refund_scene_def)





text \<open>
  Applying a refund that was applied changes nothing in the database. It is refused, though,
  where the invoice or the schedule counts less as paid than the refund, because
  \<open>applyRefund\<close> checks the amounts before it looks whether the refund was applied.
\<close>

theorem applied_refund_is_final:
  assumes "distinct (map rf_id (refunds s))" and "r \<in> set (refunds s)"
    and "rf_status r = ''COMPLETED''" and "rf_appliedAt r \<noteq> None"
    and "List.find (\<lambda>b. bi_id b = rf_invoiceId r) (invoices s) = Some b"
    and "List.find (\<lambda>p. ps_id p = rf_sessionId r) (sessions s) = Some p"
    and "List.find (\<lambda>x. is_id x = ps_scheduleId p) (schedules s) = Some x"
  shows "runtime.more (snd (apply_refund (rf_id r) s)) = runtime.more s
    \<and> fst (apply_refund (rf_id r) s) = (if bi_paidMinor b < rf_amountMinor r \<or> is_paidMinor x < rf_amountMinor r
        then Inl (Conflict ''Refund would make an allocated payment negative'') else Inr ())"
  by (rule applied_again [OF assms])

end
