(* ===== verification/Commerce.thy ===== *)
theory Commerce
  imports Billing
begin

text \<open>
  Carts, quotes, checkout and purchase orders:
  \<open>apps/api/src/commerce/commerce.repository.ts\<close>, \<open>commerce.service.ts\<close> and the local adapter
  of \<open>commerce-adapters.ts\<close>.

  The adapter of the service (address validation, tax, shipping, fraud, payment) is a
  parameter, \<open>commerce_adapter\<close>; \<open>deterministic_adapter\<close> is the one the repository contains.
  A request to authorise or to void is recorded in \<open>external_calls\<close> where the service makes it.
  The write conflict of a serializable transaction (Prisma \<open>P2034\<close>) does not occur in a
  sequential run and is left out.
\<close>

section \<open>Rows\<close>

datatype cart_status = CA_ACTIVE | CA_CHECKED_OUT | CA_ABANDONED
datatype promotion_kind = PERCENTAGE | FIXED
datatype order_status = OR_PENDING | OR_CONFIRMED | OR_CANCELLED
datatype payment_status = PY_AUTHORIZED | PY_FAILED | PY_VOIDED
datatype order_split_status = SP_PENDING | SP_ACCEPTED | SP_CANCELLED
datatype purchase_order_status = PO_PENDING | PO_ACCEPTED | PO_REJECTED

record cart_row =
  ct_id :: uuid
  ct_tenantId :: uuid
  ct_storeId :: uuid
  ct_userId :: uuid
  ct_status :: cart_status
  ct_currency :: string
  ct_promotionCode :: "string option"
  ct_version :: int
  ct_expiresAt :: instant

record cart_line =
  cl_id :: uuid
  cl_tenantId :: uuid
  cl_cartId :: uuid
  cl_offerId :: uuid
  cl_quantity :: int
  cl_unitPriceMinor :: int
  cl_offerVersion :: int

record promotion =
  pm_id :: uuid
  pm_tenantId :: uuid
  pm_storeId :: uuid
  pm_code :: string
  pm_name :: string
  pm_kind :: promotion_kind
  pm_value :: int
  pm_minimumMinor :: int
  pm_startsAt :: "instant option"
  pm_endsAt :: "instant option"
  pm_isActive :: bool

record address =
  ad_recipient :: string
  ad_line1 :: string
  ad_line2 :: "string option"
  ad_city :: string
  ad_region :: "string option"
  ad_postalCode :: string
  ad_countryCode :: string
  ad_phone :: "string option"

record normalized_address = address +
  ad_validatedBy :: string

record customer_address =
  ac_id :: uuid
  ac_tenantId :: uuid
  ac_userId :: uuid
  ac_label :: string
  ac_address :: address

record order_row =
  od_id :: uuid
  od_tenantId :: uuid
  od_storeId :: uuid
  od_userId :: uuid
  od_cartId :: uuid
  od_number :: string
  od_status :: order_status
  od_paymentStatus :: payment_status
  od_currency :: string
  od_subtotalMinor :: int
  od_discountMinor :: int
  od_taxMinor :: int
  od_shippingMinor :: int
  od_totalMinor :: int
  od_addressSnapshot :: normalized_address
  od_paymentReference :: string
  od_fraudDecision :: string
  od_idempotencyKey :: string
  od_version :: int

record order_line =
  ol_id :: uuid
  ol_tenantId :: uuid
  ol_orderId :: uuid
  ol_offerId :: uuid
  ol_variantId :: uuid
  ol_sellerId :: uuid
  ol_supplierId :: uuid
  ol_sku :: string
  ol_title :: string
  ol_quantity :: int
  ol_unitPriceMinor :: int
  ol_lineTotalMinor :: int

record order_split =
  os_id :: uuid
  os_tenantId :: uuid
  os_orderId :: uuid
  os_sellerId :: uuid
  os_supplierId :: uuid
  os_status :: order_split_status
  os_subtotalMinor :: int

record purchase_order =
  pu_id :: uuid
  pu_tenantId :: uuid
  pu_orderSplitId :: uuid
  pu_supplierId :: uuid
  pu_number :: string
  pu_status :: purchase_order_status
  pu_currency :: string
  pu_totalMinor :: int
  pu_acceptedAt :: "instant option"
  pu_version :: int

record purchase_order_line =
  pn_id :: uuid
  pn_tenantId :: uuid
  pn_purchaseOrderId :: uuid
  pn_orderLineId :: uuid
  pn_quantity :: int
  pn_unitCostMinor :: int

record commerce_db = billing_db +
  carts :: "cart_row list"
  cart_lines :: "cart_line list"
  promotions :: "promotion list"
  addresses :: "customer_address list"
  orders :: "order_row list"
  order_lines :: "order_line list"
  order_splits :: "order_split list"
  purchase_orders :: "purchase_order list"
  purchase_order_lines :: "purchase_order_line list"

section \<open>Unique keys\<close>

definition same_cart :: "cart_row \<Rightarrow> cart_row \<Rightarrow> bool" where
  "same_cart a b \<longleftrightarrow> ct_id a = ct_id b"

definition same_cart_line :: "cart_line \<Rightarrow> cart_line \<Rightarrow> bool" where
  "same_cart_line a b \<longleftrightarrow> cl_id a = cl_id b
     \<or> cl_tenantId a = cl_tenantId b \<and> cl_cartId a = cl_cartId b \<and> cl_offerId a = cl_offerId b"

definition same_promotion :: "promotion \<Rightarrow> promotion \<Rightarrow> bool" where
  "same_promotion a b \<longleftrightarrow> pm_id a = pm_id b
     \<or> pm_tenantId a = pm_tenantId b \<and> pm_storeId a = pm_storeId b \<and> pm_code a = pm_code b"

definition same_address :: "customer_address \<Rightarrow> customer_address \<Rightarrow> bool" where
  "same_address a b \<longleftrightarrow> ac_id a = ac_id b"

definition same_order :: "order_row \<Rightarrow> order_row \<Rightarrow> bool" where
  "same_order a b \<longleftrightarrow> od_id a = od_id b \<or> od_cartId a = od_cartId b
     \<or> od_tenantId a = od_tenantId b
       \<and> (od_number a = od_number b \<or> od_idempotencyKey a = od_idempotencyKey b)"

definition same_order_line :: "order_line \<Rightarrow> order_line \<Rightarrow> bool" where
  "same_order_line a b \<longleftrightarrow> ol_id a = ol_id b"

definition same_split :: "order_split \<Rightarrow> order_split \<Rightarrow> bool" where
  "same_split a b \<longleftrightarrow> os_id a = os_id b
     \<or> os_tenantId a = os_tenantId b \<and> os_orderId a = os_orderId b
       \<and> os_sellerId a = os_sellerId b \<and> os_supplierId a = os_supplierId b"

definition same_purchase_order :: "purchase_order \<Rightarrow> purchase_order \<Rightarrow> bool" where
  "same_purchase_order a b \<longleftrightarrow> pu_id a = pu_id b \<or> pu_orderSplitId a = pu_orderSplitId b
     \<or> pu_tenantId a = pu_tenantId b \<and> pu_number a = pu_number b"

definition same_purchase_order_line :: "purchase_order_line \<Rightarrow> purchase_order_line \<Rightarrow> bool" where
  "same_purchase_order_line a b \<longleftrightarrow> pn_id a = pn_id b
     \<or> pn_tenantId a = pn_tenantId b \<and> pn_purchaseOrderId a = pn_purchaseOrderId b
       \<and> pn_orderLineId a = pn_orderLineId b"

interpretation carts: row_store carts carts_update
  by unfold_locales simp_all

interpretation cart_lines: row_store cart_lines cart_lines_update
  by unfold_locales simp_all

interpretation orders: row_store orders orders_update
  by unfold_locales simp_all

interpretation order_splits: row_store order_splits order_splits_update
  by unfold_locales simp_all

interpretation purchase_orders: row_store purchase_orders purchase_orders_update
  by unfold_locales simp_all

definition commerce_audit ::
  "tenant_context \<Rightarrow> auth_principal \<Rightarrow> string \<Rightarrow> string \<Rightarrow> uuid \<Rightarrow> ('m events_db_scheme, audit_event) prog"
where
  "commerce_audit ctx pr action entityType entityId =
     audit_as ctx pr action entityType entityId None None (Some ''SESSION'')"

text \<open>\<open>businessNumber\<close>: the time in base 36 and eight characters of a fresh identifier.\<close>

definition business_number :: "string \<Rightarrow> ('m runtime_scheme, string) prog" where
  "business_number prefix =
     seq now (\<lambda>today.
     seq random_uuid (\<lambda>i.
     ret (prefix @ ''-'' @ js_upper (show_base 36 (nat today)) @ ''-'' @ js_upper (take 8 i))))"

section \<open>Carts\<close>

record snapshot_line =
  kl_id :: uuid
  kl_quantity :: int
  kl_unitPriceMinor :: int
  kl_offerVersion :: int
  kl_offer :: offer
  kl_variant :: product_variant

record cart_snapshot =
  kv_id :: uuid
  kv_storeId :: uuid
  kv_userId :: uuid
  kv_status :: cart_status
  kv_currency :: string
  kv_version :: int
  kv_promotionCode :: "string option"
  kv_lines :: "snapshot_line list"

text \<open>A cart line with its offer and the variant of the offer, as \<open>include\<close> joins them.\<close>

definition joined_line ::
  "'m commerce_db_scheme \<Rightarrow> cart_line \<Rightarrow> app_error + cart_line \<times> offer \<times> product_variant"
where
  "joined_line s l = (case List.find (\<lambda>f. of_id f = cl_offerId l) (offers s) of
     None \<Rightarrow> Inl RecordMissing
   | Some f \<Rightarrow> (case variant_of s (of_variantId f) of
       None \<Rightarrow> Inl RecordMissing | Some v \<Rightarrow> Inr (l, f, v)))"

definition joined_lines ::
  "uuid \<Rightarrow> ('m commerce_db_scheme, (cart_line \<times> offer \<times> product_variant) list) prog"
where
  "joined_lines cartId =
     seq (reads (\<lambda>s. sequence_results
            (map (joined_line s) (filter (\<lambda>l. cl_cartId l = cartId) (cart_lines s))))) lift_result"

definition snapshot_line_of ::
  "cart_line \<times> offer \<times> product_variant \<Rightarrow> app_error + snapshot_line"
where
  "snapshot_line_of t = (case t of (l, f, v) \<Rightarrow>
     (case safe_integer_number (cl_unitPriceMinor l) ''Cart unit price'' of
        Inl e \<Rightarrow> Inl e
      | Inr unit \<Rightarrow>
          (case safe_integer_number (of_priceMinor f) ''Offer price'' of
             Inl e \<Rightarrow> Inl e
           | Inr price \<Rightarrow> Inr \<lparr>kl_id = cl_id l, kl_quantity = cl_quantity l, kl_unitPriceMinor = unit,
               kl_offerVersion = cl_offerVersion l, kl_offer = f\<lparr>of_priceMinor := price\<rparr>,
               kl_variant = v\<rparr>)))"

definition cart_view ::
  "cart_row \<Rightarrow> (cart_line \<times> offer \<times> product_variant) list \<Rightarrow> app_error + cart_snapshot"
where
  "cart_view c ls = (case sequence_results (map snapshot_line_of ls) of
     Inl e \<Rightarrow> Inl e
   | Inr lines \<Rightarrow> Inr \<lparr>kv_id = ct_id c, kv_storeId = ct_storeId c, kv_userId = ct_userId c,
       kv_status = ct_status c, kv_currency = ct_currency c, kv_version = ct_version c,
       kv_promotionCode = ct_promotionCode c, kv_lines = lines\<rparr>)"

definition cart ::
  "tenant_context \<Rightarrow> auth_principal \<Rightarrow> uuid \<Rightarrow> ('m commerce_db_scheme, cart_snapshot) prog"
where
  "cart ctx pr cartId =
     seq (find_row carts (\<lambda>c. ct_id c = cartId \<and> ct_tenantId c = ctx_tenantId ctx
            \<and> ct_userId c = pr_userId pr)) (\<lambda>found.
     seq (require found (NotFound ''Resource not found'')) (\<lambda>c.
     seq (joined_lines (ct_id c)) (\<lambda>ls.
     lift_result (cart_view c ls))))"

definition active_cart ::
  "tenant_context \<Rightarrow> auth_principal \<Rightarrow> uuid \<Rightarrow> ('m commerce_db_scheme, cart_row) prog"
where
  "active_cart ctx pr cartId =
     seq now (\<lambda>today.
     seq (find_row carts (\<lambda>c. ct_id c = cartId \<and> ct_tenantId c = ctx_tenantId ctx
            \<and> ct_userId c = pr_userId pr \<and> ct_status c = CA_ACTIVE \<and> ct_expiresAt c > today)) (\<lambda>found.
     require found (NotFound ''Resource not found'')))"

text \<open>
  \<open>createCart\<close>: the customer's open cart of the store, or a new one that lives thirty days. Of
  several open carts the source takes the one updated last; the model takes the first.
\<close>

definition create_cart ::
  "tenant_context \<Rightarrow> auth_principal \<Rightarrow> uuid \<Rightarrow> ('m commerce_db_scheme, cart_snapshot) prog"
where
  "create_cart ctx pr storeId =
     seq (find_row stores (\<lambda>x. st_id x = storeId \<and> st_tenantId x = ctx_tenantId ctx
            \<and> st_status x = ST_ACTIVE \<and> st_deletedAt x = None)) (\<lambda>found.
     seq (require found (NotFound ''Resource not found'')) (\<lambda>sto.
     seq now (\<lambda>today.
     seq (find_row carts (\<lambda>c. ct_tenantId c = ctx_tenantId ctx \<and> ct_userId c = pr_userId pr
            \<and> ct_storeId c = st_id sto \<and> ct_status c = CA_ACTIVE \<and> ct_expiresAt c > today)) (\<lambda>existing.
     case existing of
       Some c \<Rightarrow> cart ctx pr (ct_id c)
     | None \<Rightarrow>
         seq random_uuid (\<lambda>i.
         seq now (\<lambda>later.
         seq (create_row carts carts_update same_cart
                \<lparr>ct_id = i, ct_tenantId = ctx_tenantId ctx, ct_storeId = st_id sto,
                 ct_userId = pr_userId pr, ct_status = CA_ACTIVE, ct_currency = st_defaultCurrency sto,
                 ct_promotionCode = None, ct_version = 1,
                 ct_expiresAt = later + 30 * 24 * 60 * 60 * 1000\<rparr>) (\<lambda>created.
         seq (commerce_audit ctx pr ''cart.created'' ''CART'' (ct_id created)) (\<lambda>_.
         cart ctx pr (ct_id created)))))))))"

definition bump_cart :: "uuid \<Rightarrow> ('m commerce_db_scheme, unit) prog" where
  "bump_cart cartId =
     seq (update_row carts carts_update (\<lambda>c. ct_id c = cartId)
            (\<lambda>c. c\<lparr>ct_version := ct_version c + 1\<rparr>)) (\<lambda>_. ret ())"

definition minimum_quantity_error :: "int \<Rightarrow> app_error" where
  "minimum_quantity_error q = Conflict (''Minimum quantity is '' @ show_int q)"

definition add_cart_line ::
  "tenant_context \<Rightarrow> auth_principal \<Rightarrow> uuid \<Rightarrow> uuid \<Rightarrow> int \<Rightarrow> ('m commerce_db_scheme, cart_snapshot) prog"
where
  "add_cart_line ctx pr cartId offerId quantity =
     seq (active_cart ctx pr cartId) (\<lambda>c.
     seq now (\<lambda>t1.
     seq now (\<lambda>t2.
     seq (find_row offers (\<lambda>f. of_id f = offerId \<and> of_tenantId f = ctx_tenantId ctx
            \<and> of_storeId f = ct_storeId c \<and> of_status f = OS_ACTIVE
            \<and> (case of_availableFrom f of None \<Rightarrow> True | Some a \<Rightarrow> a \<le> t1)
            \<and> (case of_availableTo f of None \<Rightarrow> True | Some b \<Rightarrow> b > t2))) (\<lambda>found.
     seq (require found (NotFound ''Resource not found'')) (\<lambda>f.
     seq (ensure (\<not> quantity < of_minimumQuantity f) (minimum_quantity_error (of_minimumQuantity f))) (\<lambda>_.
     seq random_uuid (\<lambda>i.
     seq (transaction (
            seq (upsert_row cart_lines cart_lines_update same_cart_line
                   (\<lambda>l. cl_tenantId l = ctx_tenantId ctx \<and> cl_cartId l = cartId \<and> cl_offerId l = of_id f)
                   (\<lambda>l. l\<lparr>cl_quantity := quantity, cl_unitPriceMinor := of_priceMinor f,
                          cl_offerVersion := of_version f\<rparr>)
                   \<lparr>cl_id = i, cl_tenantId = ctx_tenantId ctx, cl_cartId = cartId, cl_offerId = of_id f,
                    cl_quantity = quantity, cl_unitPriceMinor = of_priceMinor f,
                    cl_offerVersion = of_version f\<rparr>) (\<lambda>_.
            bump_cart (ct_id c)))) (\<lambda>_.
     cart ctx pr cartId))))))))"

definition update_cart_line ::
  "tenant_context \<Rightarrow> auth_principal \<Rightarrow> uuid \<Rightarrow> uuid \<Rightarrow> int \<Rightarrow> ('m commerce_db_scheme, cart_snapshot) prog"
where
  "update_cart_line ctx pr cartId lineId quantity =
     seq (active_cart ctx pr cartId) (\<lambda>_.
     seq (find_row cart_lines (\<lambda>l. cl_id l = lineId \<and> cl_tenantId l = ctx_tenantId ctx
            \<and> cl_cartId l = cartId)) (\<lambda>found.
     seq (require found (NotFound ''Resource not found'')) (\<lambda>l.
     seq (find_row offers (\<lambda>f. of_id f = cl_offerId l)) (\<lambda>f.
     seq (require f RecordMissing) (\<lambda>f.
     seq (ensure (\<not> quantity < of_minimumQuantity f) (minimum_quantity_error (of_minimumQuantity f))) (\<lambda>_.
     seq (transaction (
            seq (update_row cart_lines cart_lines_update (\<lambda>x. cl_id x = cl_id l)
                   (\<lambda>x. x\<lparr>cl_quantity := quantity, cl_unitPriceMinor := of_priceMinor f,
                          cl_offerVersion := of_version f\<rparr>)) (\<lambda>_.
            bump_cart cartId))) (\<lambda>_.
     cart ctx pr cartId)))))))"

definition remove_cart_line ::
  "tenant_context \<Rightarrow> auth_principal \<Rightarrow> uuid \<Rightarrow> uuid \<Rightarrow> ('m commerce_db_scheme, cart_snapshot) prog"
where
  "remove_cart_line ctx pr cartId lineId =
     seq (active_cart ctx pr cartId) (\<lambda>_.
     seq (delete_many cart_lines cart_lines_update (\<lambda>l. cl_id l = lineId \<and> cl_cartId l = cartId
            \<and> cl_tenantId l = ctx_tenantId ctx)) (\<lambda>removed.
     seq (ensure (removed = 1) (NotFound ''Resource not found'')) (\<lambda>_.
     seq (bump_cart cartId) (\<lambda>_.
     cart ctx pr cartId))))"

section \<open>Promotions and addresses\<close>

record create_promotion_dto =
  dm_storeId :: uuid
  dm_code :: string
  dm_name :: string
  dm_kind :: promotion_kind
  dm_value :: int
  dm_minimumMinor :: "int option"
  dm_startsAt :: "instant option"
  dm_endsAt :: "instant option"

definition create_promotion ::
  "tenant_context \<Rightarrow> auth_principal \<Rightarrow> create_promotion_dto \<Rightarrow> ('m commerce_db_scheme, promotion) prog"
where
  "create_promotion ctx pr dto =
     seq (find_row stores (\<lambda>x. st_id x = dm_storeId dto \<and> st_tenantId x = ctx_tenantId ctx
            \<and> st_status x = ST_ACTIVE \<and> st_deletedAt x = None)) (\<lambda>found.
     seq (require found (NotFound ''Resource not found'')) (\<lambda>sto.
     seq (ensure (case (dm_startsAt dto, dm_endsAt dto) of
                    (Some a, Some b) \<Rightarrow> \<not> b \<le> a | _ \<Rightarrow> True)
            (Conflict ''Promotion end must be after its start'')) (\<lambda>_.
     seq (ensure (\<not> (dm_kind dto = PERCENTAGE \<and> dm_value dto > 100))
            (Conflict ''Percentage promotion cannot exceed 100'')) (\<lambda>_.
     catch
       (seq random_uuid (\<lambda>i.
        seq (create_row promotions promotions_update same_promotion
               \<lparr>pm_id = i, pm_tenantId = ctx_tenantId ctx, pm_storeId = st_id sto,
                pm_code = js_upper (js_trim (dm_code dto)), pm_name = dm_name dto,
                pm_kind = dm_kind dto, pm_value = dm_value dto,
                pm_minimumMinor = (case dm_minimumMinor dto of None \<Rightarrow> 0 | Some m \<Rightarrow> m),
                pm_startsAt = dm_startsAt dto, pm_endsAt = dm_endsAt dto, pm_isActive = True\<rparr>) (\<lambda>created.
        seq (commerce_audit ctx pr ''promotion.created'' ''PROMOTION'' (pm_id created)) (\<lambda>_.
        seq (lift_result (safe_integer_number (pm_minimumMinor created) ''Promotion minimum'')) (\<lambda>_.
        ret created)))))
       (\<lambda>e. throw (if e = UniqueViolation then Conflict ''Promotion code already exists'' else e))))))"

text \<open>
  \<open>promotionDiscount\<close>. A \<open>bigint\<close> quotient is cut towards zero; an absent code and an empty
  one are both no code. The discount is never more than the subtotal.
\<close>

definition bigint_div :: "int \<Rightarrow> int \<Rightarrow> int" where
  "bigint_div a b = (if a < 0 then - ((- a) div b) else a div b)"

definition promotion_amount :: "promotion \<Rightarrow> int \<Rightarrow> app_error + int" where
  "promotion_amount p subtotal =
     (case pm_kind p of
        PERCENTAGE \<Rightarrow> safe_integer_number (bigint_div (subtotal * pm_value p + 50) 100) ''Promotion discount''
      | FIXED \<Rightarrow> Inr (pm_value p))"

definition promotion_discount ::
  "tenant_context \<Rightarrow> cart_snapshot \<Rightarrow> string option \<Rightarrow> int
     \<Rightarrow> ('m commerce_db_scheme, string option \<times> int) prog"
where
  "promotion_discount ctx c code subtotal =
     (if code = None \<or> code = Some '''' then ret (None, 0)
      else
        seq now (\<lambda>today.
        seq (find_row promotions (\<lambda>p. pm_tenantId p = ctx_tenantId ctx \<and> pm_storeId p = kv_storeId c
               \<and> Some (pm_code p) = map_option (\<lambda>x. js_upper (js_trim x)) code
               \<and> pm_isActive p \<and> pm_minimumMinor p \<le> subtotal
               \<and> (case pm_startsAt p of None \<Rightarrow> True | Some a \<Rightarrow> a \<le> today)
               \<and> (case pm_endsAt p of None \<Rightarrow> True | Some b \<Rightarrow> b > today))) (\<lambda>found.
        seq (require found (Conflict ''Promotion is invalid or unavailable'')) (\<lambda>p.
        seq (lift_result (promotion_amount p subtotal)) (\<lambda>amount.
        ret (Some (pm_code p), min subtotal amount))))))"

definition create_address ::
  "tenant_context \<Rightarrow> auth_principal \<Rightarrow> string \<Rightarrow> address \<Rightarrow> ('m commerce_db_scheme, customer_address) prog"
where
  "create_address ctx pr label input =
     seq random_uuid (\<lambda>i.
     create_row addresses addresses_update same_address
       \<lparr>ac_id = i, ac_tenantId = ctx_tenantId ctx, ac_userId = pr_userId pr, ac_label = label,
        ac_address = input\<rparr>)"

section \<open>Orders\<close>

type_synonym purchase_order_view = "purchase_order \<times> purchase_order_line list"

record order_view =
  ow_order :: order_row
  ow_lines :: "order_line list"
  ow_splits :: "(order_split \<times> purchase_order_view option) list"

definition purchaseOrderView ::
  "'m commerce_db_scheme \<Rightarrow> purchase_order \<Rightarrow> app_error + purchase_order_view"
where
  "purchaseOrderView s p =
     (let lines = filter (\<lambda>n. pn_purchaseOrderId n = pu_id p) (purchase_order_lines s)
      in case safe_integer_number (pu_totalMinor p) ''Purchase-order total'' of
           Inl e \<Rightarrow> Inl e
         | Inr _ \<Rightarrow>
             (case sequence_results (map (\<lambda>n.
                     safe_integer_number (pn_unitCostMinor n) ''Purchase-order unit cost'') lines) of
                Inl e \<Rightarrow> Inl e
              | Inr _ \<Rightarrow> Inr (p, lines)))"

definition split_view ::
  "'m commerce_db_scheme \<Rightarrow> order_split \<Rightarrow> app_error + order_split \<times> purchase_order_view option"
where
  "split_view s x =
     (case safe_integer_number (os_subtotalMinor x) ''Order split subtotal'' of
        Inl e \<Rightarrow> Inl e
      | Inr _ \<Rightarrow>
          (case List.find (\<lambda>p. pu_orderSplitId p = os_id x) (purchase_orders s) of
             None \<Rightarrow> Inr (x, None)
           | Some p \<Rightarrow> (case purchaseOrderView s p of Inl e \<Rightarrow> Inl e | Inr v \<Rightarrow> Inr (x, Some v))))"

text \<open>
  The private \<open>order\<close>: with a user, only an order of that user. Amounts beyond the safe
  integers are refused in the order the source converts them.
\<close>

definition order_amounts :: "order_row \<Rightarrow> order_line list \<Rightarrow> app_error + int list" where
  "order_amounts d ls = sequence_results
     ([safe_integer_number (od_subtotalMinor d) ''Order subtotal'',
       safe_integer_number (od_discountMinor d) ''Order discount'',
       safe_integer_number (od_taxMinor d) ''Order tax'',
       safe_integer_number (od_shippingMinor d) ''Order shipping'',
       safe_integer_number (od_totalMinor d) ''Order total'']
      @ concat (map (\<lambda>l. [safe_integer_number (ol_unitPriceMinor l) ''Order-line unit price'',
                          safe_integer_number (ol_lineTotalMinor l) ''Order-line total'']) ls))"

definition order ::
  "tenant_context \<Rightarrow> uuid \<Rightarrow> uuid option \<Rightarrow> ('m commerce_db_scheme, order_view) prog"
where
  "order ctx orderId userId =
     seq (find_row orders (\<lambda>d. od_id d = orderId \<and> od_tenantId d = ctx_tenantId ctx
            \<and> (case userId of None \<Rightarrow> True | Some u \<Rightarrow> od_userId d = u))) (\<lambda>found.
     seq (require found (NotFound ''Resource not found'')) (\<lambda>d.
     seq (find_rows order_lines (\<lambda>l. ol_orderId l = od_id d)) (\<lambda>ls.
     seq (lift_result (order_amounts d ls)) (\<lambda>_.
     seq (reads (\<lambda>s. sequence_results
            (map (split_view s) (filter (\<lambda>x. os_orderId x = od_id d) (order_splits s))))) (\<lambda>views.
     seq (lift_result views) (\<lambda>splits.
     ret \<lparr>ow_order = d, ow_lines = ls, ow_splits = splits\<rparr>))))))"

definition purchaseOrders ::
  "tenant_context \<Rightarrow> ('m commerce_db_scheme, purchase_order_view list) prog"
where
  "purchaseOrders ctx = seq (reads (\<lambda>s. sequence_results (map (purchaseOrderView s)
       (rev (filter (\<lambda>p. pu_tenantId p = ctx_tenantId ctx) (purchase_orders s)))))) lift_result"

definition checkout_replay ::
  "tenant_context \<Rightarrow> auth_principal \<Rightarrow> uuid \<Rightarrow> string \<Rightarrow> ('m commerce_db_scheme, order_view option) prog"
where
  "checkout_replay ctx pr cartId key =
     seq (find_row orders (\<lambda>d. od_tenantId d = ctx_tenantId ctx \<and> od_idempotencyKey d = key)) (\<lambda>found.
     case found of
       None \<Rightarrow> ret None
     | Some d \<Rightarrow>
         seq (ensure (\<not> (od_cartId d \<noteq> cartId \<or> od_userId d \<noteq> pr_userId pr))
                (Conflict ''Idempotency key is already bound to another checkout'')) (\<lambda>_.
         seq (order ctx (od_id d) (Some (pr_userId pr))) (\<lambda>v.
         ret (Some v))))"

section \<open>The checkout transaction\<close>

record commerce_quote =
  qt_subtotalMinor :: int
  qt_discountMinor :: int
  qt_taxMinor :: int
  qt_shippingMinor :: int
  qt_totalMinor :: int
  qt_currency :: string
  qt_promotionCode :: "string option"
  qt_splitCount :: int

record checkout_input =
  ci_cartVersion :: int
  ci_idempotencyKey :: string
  ci_quote :: commerce_quote
  ci_address :: normalized_address
  ci_paymentReference :: string
  ci_fraudDecision :: string

text \<open>One entry of the map \<open>groups\<close>: the lines of one seller and supplier.\<close>

record split_group =
  gr_key :: string
  gr_sellerId :: uuid
  gr_supplierId :: uuid
  gr_subtotalMinor :: int
  gr_lines :: "(uuid \<times> int \<times> int) list"   \<comment> \<open>order line, quantity, unit price\<close>

definition add_to_group ::
  "offer \<Rightarrow> uuid \<Rightarrow> int \<Rightarrow> int \<Rightarrow> split_group list \<Rightarrow> split_group list"
where
  "add_to_group f orderLineId quantity unit groups =
     (let key = of_sellerId f @ '':'' @ of_supplierId f;
          grow = (\<lambda>g. g\<lparr>gr_subtotalMinor := gr_subtotalMinor g + unit * quantity,
                          gr_lines := gr_lines g @ [(orderLineId, quantity, unit)]\<rparr>)
      in if list_ex (\<lambda>g. gr_key g = key) groups then update_first (\<lambda>g. gr_key g = key) grow groups
         else groups @ [grow \<lparr>gr_key = key, gr_sellerId = of_sellerId f, gr_supplierId = of_supplierId f,
                             gr_subtotalMinor = 0, gr_lines = []\<rparr>])"

text \<open>
  The body of the loop over the cart lines: stock moves from on hand to reserved, in the
  balances and in the ledger, for a new order line and its reservation of a day.
\<close>

definition reserve_line ::
  "tenant_context \<Rightarrow> auth_principal \<Rightarrow> uuid \<Rightarrow> cart_line \<times> offer \<times> product_variant \<Rightarrow> split_group list
     \<Rightarrow> ('m commerce_db_scheme, split_group list) prog"
where
  "reserve_line ctx pr orderId t groups = (case t of (l, f, v) \<Rightarrow>
     seq (find_row items (\<lambda>i. ii_tenantId i = ctx_tenantId ctx \<and> ii_productRef i = of_variantId f)) (\<lambda>found.
     seq (require found (Conflict (''No inventory exists for '' @ pv_sku v))) (\<lambda>item.
     seq (take_balance (ctx_tenantId ctx) (ii_id item) ON_HAND (cl_quantity l)) (\<lambda>changed.
     seq (ensure (changed = 1) (Conflict (''Insufficient inventory for '' @ pv_sku v))) (\<lambda>_.
     seq (add_balance (ctx_tenantId ctx) (ii_id item) RESERVED (cl_quantity l)) (\<lambda>_.
     seq random_uuid (\<lambda>orderLineId.
     seq (create_row order_lines order_lines_update same_order_line
            \<lparr>ol_id = orderLineId, ol_tenantId = ctx_tenantId ctx, ol_orderId = orderId,
             ol_offerId = cl_offerId l, ol_variantId = of_variantId f, ol_sellerId = of_sellerId f,
             ol_supplierId = of_supplierId f, ol_sku = pv_sku v, ol_title = pv_title v,
             ol_quantity = cl_quantity l, ol_unitPriceMinor = cl_unitPriceMinor l,
             ol_lineTotalMinor = cl_unitPriceMinor l * cl_quantity l\<rparr>) (\<lambda>_.
     seq random_uuid (\<lambda>reservationId.
     seq now (\<lambda>today.
     seq (create_row reservations reservations_update same_reservation
            \<lparr>ir_id = reservationId, ir_tenantId = ctx_tenantId ctx, ir_inventoryItemId = ii_id item,
             ir_demandType = ''ORDER_LINE'', ir_demandId = orderLineId, ir_quantity = cl_quantity l,
             ir_expiresAt = today + 24 * 60 * 60 * 1000, ir_releasedAt = None, ir_allocatedAt = None\<rparr>) (\<lambda>_.
     seq (append_entry (ctx_tenantId ctx) (ii_id item) ON_HAND (- cl_quantity l) ''RESERVE'' ''CHECKOUT''
            ''ORDER_LINE'' orderLineId (''checkout:'' @ orderId @ '':'' @ orderLineId @ '':on-hand'')
            (ctx_correlationId ctx) (Some (pr_userId pr))) (\<lambda>_.
     seq (append_entry (ctx_tenantId ctx) (ii_id item) RESERVED (cl_quantity l) ''RESERVE'' ''CHECKOUT''
            ''ORDER_LINE'' orderLineId (''checkout:'' @ orderId @ '':'' @ orderLineId @ '':reserved'')
            (ctx_correlationId ctx) (Some (pr_userId pr))) (\<lambda>_.
     ret (add_to_group f orderLineId (cl_quantity l) (cl_unitPriceMinor l) groups))))))))))))))"

text \<open>One split of the order with its purchase order, for one entry of \<open>groups\<close>.\<close>

definition create_split ::
  "tenant_context \<Rightarrow> uuid \<Rightarrow> string \<Rightarrow> split_group \<Rightarrow> ('m commerce_db_scheme, unit) prog"
where
  "create_split ctx orderId currency g =
     seq random_uuid (\<lambda>splitId.
     seq (create_row order_splits order_splits_update same_split
            \<lparr>os_id = splitId, os_tenantId = ctx_tenantId ctx, os_orderId = orderId,
             os_sellerId = gr_sellerId g, os_supplierId = gr_supplierId g, os_status = SP_PENDING,
             os_subtotalMinor = gr_subtotalMinor g\<rparr>) (\<lambda>_.
     seq random_uuid (\<lambda>purchaseOrderId.
     seq (business_number ''PO'') (\<lambda>number.
     seq (create_row purchase_orders purchase_orders_update same_purchase_order
            \<lparr>pu_id = purchaseOrderId, pu_tenantId = ctx_tenantId ctx, pu_orderSplitId = splitId,
             pu_supplierId = gr_supplierId g, pu_number = number, pu_status = PO_PENDING,
             pu_currency = currency, pu_totalMinor = gr_subtotalMinor g, pu_acceptedAt = None,
             pu_version = 1\<rparr>) (\<lambda>_.
     for_each (gr_lines g) (\<lambda>(orderLineId, quantity, unit).
       seq random_uuid (\<lambda>i.
       seq (create_row purchase_order_lines purchase_order_lines_update same_purchase_order_line
              \<lparr>pn_id = i, pn_tenantId = ctx_tenantId ctx, pn_purchaseOrderId = purchaseOrderId,
               pn_orderLineId = orderLineId, pn_quantity = quantity, pn_unitCostMinor = unit\<rparr>) (\<lambda>_.
       ret ()))))))))"

definition optional_field :: "string \<Rightarrow> string option \<Rightarrow> (string \<times> json) list" where
  "optional_field name v = (case v of None \<Rightarrow> [] | Some x \<Rightarrow> [(name, JStr x)])"

definition address_json :: "normalized_address \<Rightarrow> json" where
  "address_json a = JObj ([(''recipient'', JStr (ad_recipient a)), (''line1'', JStr (ad_line1 a))]
     @ optional_field ''line2'' (ad_line2 a) @ [(''city'', JStr (ad_city a))]
     @ optional_field ''region'' (ad_region a)
     @ [(''postalCode'', JStr (ad_postalCode a)), (''countryCode'', JStr (ad_countryCode a))]
     @ optional_field ''phone'' (ad_phone a) @ [(''validatedBy'', JStr (ad_validatedBy a))])"

text \<open>The invoice of an order: paid, with a line per cart line and one paid schedule.\<close>

definition create_order_invoice ::
  "tenant_context \<Rightarrow> auth_principal \<Rightarrow> order_row \<Rightarrow> checkout_input
     \<Rightarrow> (cart_line \<times> offer \<times> product_variant) list \<Rightarrow> ('m commerce_db_scheme, unit) prog"
where
  "create_order_invoice ctx pr d input ls =
     (let q = ci_quote input in
     seq random_uuid (\<lambda>invoiceId.
     seq now (\<lambda>issuedAt.
     seq (nextInvoiceNumber (ctx_tenantId ctx)) (\<lambda>number.
     seq (create_row invoices invoices_update same_invoice
            \<lparr>bi_id = invoiceId, bi_tenantId = ctx_tenantId ctx, bi_number = number,
             bi_customerId = Some (pr_userId pr), bi_businessAccountId = None,
             bi_commerceOrderId = Some (od_id d), bi_sourceType = ''COMMERCE_ORDER'',
             bi_sourceId = od_id d, bi_status = ''PAID'', bi_currency = qt_currency q,
             bi_subtotalMinor = qt_subtotalMinor q, bi_taxMinor = qt_taxMinor q,
             bi_totalMinor = qt_totalMinor q, bi_paidMinor = qt_totalMinor q, bi_creditedMinor = 0,
             bi_billingSnapshot = JObj [(''address'', address_json (ci_address input)),
               (''orderNumber'', JStr (od_number d)),
               (''paymentReference'', JStr (ci_paymentReference input))],
             bi_dueAt = issuedAt, bi_paidAt = Some issuedAt, bi_version = 1\<rparr>) (\<lambda>_.
     seq (for_each ls (\<lambda>(l, f, v).
            seq random_uuid (\<lambda>i.
            seq (create_row invoice_lines invoice_lines_update same_invoice_line
                   \<lparr>il_id = i, il_tenantId = ctx_tenantId ctx, il_invoiceId = invoiceId,
                    il_kind = ''PRODUCT'', il_description = pv_title v, il_quantity = cl_quantity l,
                    il_unitMinor = cl_unitPriceMinor l,
                    il_totalMinor = cl_unitPriceMinor l * cl_quantity l, il_taxMinor = 0\<rparr>) (\<lambda>_.
            ret ())))) (\<lambda>_.
     seq random_uuid (\<lambda>i.
     seq (create_row schedules schedules_update same_schedule
            \<lparr>is_id = i, is_tenantId = ctx_tenantId ctx, is_invoiceId = invoiceId, is_kind = ''FULL'',
             is_amountMinor = qt_totalMinor q, is_paidMinor = qt_totalMinor q, is_creditedMinor = 0,
             is_dueAt = issuedAt, is_status = ''PAID'', is_sequence = 1, is_checkoutLockKey = None,
             is_checkoutLockUntil = None\<rparr>) (\<lambda>_.
     ret ()))))))))"

text \<open>What a cart line must still agree with when the order is placed.\<close>

definition line_current :: "cart_row \<Rightarrow> cart_line \<times> offer \<times> product_variant \<Rightarrow> bool" where
  "line_current c t = (case t of (l, f, v) \<Rightarrow>
     of_status f = OS_ACTIVE \<and> of_storeId f = ct_storeId c \<and> of_currency f = ct_currency c
     \<and> of_version f = cl_offerVersion l \<and> of_priceMinor f = cl_unitPriceMinor l)"

definition order_data ::
  "tenant_context \<Rightarrow> auth_principal \<Rightarrow> cart_row \<Rightarrow> checkout_input \<Rightarrow> uuid \<Rightarrow> string \<Rightarrow> order_row"
where
  "order_data ctx pr c input orderId number = (let q = ci_quote input in
     \<lparr>od_id = orderId, od_tenantId = ctx_tenantId ctx, od_storeId = ct_storeId c,
      od_userId = pr_userId pr, od_cartId = ct_id c, od_number = number,
      od_status = OR_PENDING, od_paymentStatus = PY_AUTHORIZED, od_currency = qt_currency q,
      od_subtotalMinor = qt_subtotalMinor q, od_discountMinor = qt_discountMinor q,
      od_taxMinor = qt_taxMinor q, od_shippingMinor = qt_shippingMinor q,
      od_totalMinor = qt_totalMinor q, od_addressSnapshot = ci_address input,
      od_paymentReference = ci_paymentReference input,
      od_fraudDecision = ci_fraudDecision input,
      od_idempotencyKey = ci_idempotencyKey input, od_version = 1\<rparr>)"

text \<open>What follows the insert of the order: stock, splits, the cart, the invoice, the notices.\<close>

definition fill_order ::
  "tenant_context \<Rightarrow> auth_principal \<Rightarrow> cart_row \<Rightarrow> checkout_input
     \<Rightarrow> (cart_line \<times> offer \<times> product_variant) list \<Rightarrow> order_row \<Rightarrow> ('m commerce_db_scheme, order_view) prog"
where
  "fill_order ctx pr c input ls d =
     (let q = ci_quote input in
     seq (fold_each ls [] (reserve_line ctx pr (od_id d))) (\<lambda>groups.
     seq (for_each groups (create_split ctx (od_id d) (ct_currency c))) (\<lambda>_.
     seq (update_row carts carts_update (\<lambda>x. ct_id x = ct_id c)
            (\<lambda>x. x\<lparr>ct_status := CA_CHECKED_OUT, ct_promotionCode := qt_promotionCode q,
                   ct_version := ct_version x + 1\<rparr>)) (\<lambda>_.
     seq (create_order_invoice ctx pr d input ls) (\<lambda>_.
     seq (commerce_audit ctx pr ''order.created'' ''ORDER'' (od_id d)) (\<lambda>_.
     seq (publish (ctx_tenantId ctx) ''commerce.order.created.v1'' (''order/'' @ od_id d)
            (JObj [(''orderId'', JStr (od_id d)), (''number'', JStr (od_number d)),
                   (''totalMinor'', JNum (qt_totalMinor q)), (''currency'', JStr (qt_currency q)),
                   (''splitCount'', JNum (int (length groups)))]) (ctx_correlationId ctx)) (\<lambda>_.
     order ctx (od_id d) (Some (pr_userId pr)))))))))"

definition place_order ::
  "tenant_context \<Rightarrow> auth_principal \<Rightarrow> uuid \<Rightarrow> checkout_input \<Rightarrow> ('m commerce_db_scheme, order_view) prog"
where
  "place_order ctx pr cartId input =
     seq (active_cart ctx pr cartId) (\<lambda>c.
     seq (joined_lines (ct_id c)) (\<lambda>ls.
     seq (ensure (ct_version c = ci_cartVersion input)
            (Conflict ''Cart changed during checkout; request a new quote'')) (\<lambda>_.
     seq (ensure (ls \<noteq> []) (Conflict ''Cart is empty'')) (\<lambda>_.
     seq (ensure (list_all (line_current c) ls) (Conflict ''An offer changed; refresh the cart'')) (\<lambda>_.
     seq random_uuid (\<lambda>orderId.
     seq (business_number ''ORD'') (\<lambda>number.
     seq (create_row orders orders_update same_order (order_data ctx pr c input orderId number)) (\<lambda>d.
     fill_order ctx pr c input ls d))))))))"

text \<open>\<open>CommerceRepository.checkout\<close>.\<close>

definition checkout_tx ::
  "tenant_context \<Rightarrow> auth_principal \<Rightarrow> uuid \<Rightarrow> checkout_input \<Rightarrow> ('m commerce_db_scheme, order_view) prog"
where
  "checkout_tx ctx pr cartId input =
     seq (find_row orders (\<lambda>d. od_tenantId d = ctx_tenantId ctx
            \<and> od_idempotencyKey d = ci_idempotencyKey input)) (\<lambda>replay.
     case replay of
       Some d \<Rightarrow>
         seq (ensure (\<not> (od_cartId d \<noteq> cartId \<or> od_userId d \<noteq> pr_userId pr))
                (Conflict ''Idempotency key is already bound to another checkout'')) (\<lambda>_.
         order ctx (od_id d) (Some (pr_userId pr)))
     | None \<Rightarrow> place_order ctx pr cartId input)"

definition checkout_order ::
  "tenant_context \<Rightarrow> auth_principal \<Rightarrow> uuid \<Rightarrow> checkout_input \<Rightarrow> ('m commerce_db_scheme, order_view) prog"
where
  "checkout_order ctx pr cartId input = transaction (checkout_tx ctx pr cartId input)"

section \<open>The checkout service\<close>

text \<open>
  The port of \<open>CommerceService\<close>. An operation of the adapter is a program, because the local
  adapter draws an identifier; \<open>checkout\<close> records the requests to authorise and to void.
\<close>

record authorize_input =
  az_paymentToken :: string
  az_amountMinor :: int
  az_currency :: string
  az_idempotencyKey :: string

record 's commerce_adapter =
  ca_validate :: "address \<Rightarrow> ('s, normalized_address) prog"
  ca_quoteTax :: "int \<Rightarrow> normalized_address \<Rightarrow> ('s, int) prog"
  ca_quoteShipping :: "int \<Rightarrow> normalized_address \<Rightarrow> ('s, int) prog"
  ca_assess :: "int \<Rightarrow> uuid \<Rightarrow> ('s, string) prog"
  ca_authorize :: "authorize_input \<Rightarrow> ('s, string) prog"
  ca_void :: "string \<Rightarrow> ('s, unit) prog"

text \<open>
  \<open>DeterministicCommerceAdapter\<close>. The tax is \<open>Math.round(value * 0.1)\<close>, which is the integer
  below for the amounts the adapter approves (\<open>value\<close> up to five million and far beyond).
\<close>

definition deterministic_validate :: "address \<Rightarrow> ('s, normalized_address) prog" where
  "deterministic_validate a =
     (let postalCode = js_upper (js_trim (ad_postalCode a)) in
      seq (ensure (\<not> length postalCode < 2) (BadRequest ''Address validation failed'')) (\<lambda>_.
      ret \<lparr>ad_recipient = js_trim (ad_recipient a), ad_line1 = js_trim (ad_line1 a),
           ad_line2 = ad_line2 a, ad_city = js_trim (ad_city a), ad_region = ad_region a,
           ad_postalCode = postalCode, ad_countryCode = js_upper (ad_countryCode a),
           ad_phone = ad_phone a, ad_validatedBy = ''deterministic-local-v1''\<rparr>))"

definition deterministic_adapter :: "'m runtime_scheme commerce_adapter" where
  "deterministic_adapter =
     \<lparr>ca_validate = deterministic_validate,
      ca_quoteTax = (\<lambda>value _. ret ((value + 5) div 10)),
      ca_quoteShipping = (\<lambda>splitCount _. ret (max 1 splitCount * 700)),
      ca_assess = (\<lambda>totalMinor _. ret (if totalMinor \<le> 5000000 then ''APPROVED'' else ''REJECTED'')),
      ca_authorize = (\<lambda>input.
        seq (ensure (take 4 (az_paymentToken input) = ''tok_'') (BadRequest ''Payment authorization failed'')) (\<lambda>_.
        seq random_uuid (\<lambda>i. ret (''mockpay_'' @ i)))),
      ca_void = (\<lambda>_. ret ())\<rparr>"

text \<open>\<open>calculateQuote\<close>.\<close>

definition split_count :: "cart_snapshot \<Rightarrow> int" where
  "split_count c = int (length (js_set
     (map (\<lambda>l. of_sellerId (kl_offer l) @ '':'' @ of_supplierId (kl_offer l)) (kv_lines c))))"

definition cart_subtotal :: "cart_snapshot \<Rightarrow> int" where
  "cart_subtotal c = foldl (\<lambda>acc l. acc + kl_unitPriceMinor l * kl_quantity l) 0 (kv_lines c)"

definition calculateQuote ::
  "'m commerce_db_scheme commerce_adapter \<Rightarrow> tenant_context \<Rightarrow> cart_snapshot \<Rightarrow> string option
     \<Rightarrow> normalized_address \<Rightarrow> ('m commerce_db_scheme, commerce_quote) prog"
where
  "calculateQuote adapter ctx c promotionCode address =
     seq (ensure (\<not> (kv_status c \<noteq> CA_ACTIVE \<or> length (kv_lines c) = 0))
            (Conflict ''Cart is empty or unavailable'')) (\<lambda>_.
     seq (ensure (list_all (\<lambda>l. \<not> (of_status (kl_offer l) \<noteq> OS_ACTIVE
                     \<or> of_version (kl_offer l) \<noteq> kl_offerVersion l
                     \<or> of_priceMinor (kl_offer l) \<noteq> kl_unitPriceMinor l)) (kv_lines c))
            (Conflict ''An offer changed; refresh the cart'')) (\<lambda>_.
     seq (lift_result (safe_integer_number (cart_subtotal c) ''Cart subtotal'')) (\<lambda>subtotal.
     seq (promotion_discount ctx c promotionCode subtotal) (\<lambda>(code, discount).
     seq (ca_quoteTax adapter (subtotal - discount) address) (\<lambda>tax.
     seq (ca_quoteShipping adapter (split_count c) address) (\<lambda>shipping.
     seq (lift_result (safe_integer_number (subtotal - discount + tax + shipping) ''Checkout total'')) (\<lambda>total.
     ret \<lparr>qt_subtotalMinor = subtotal, qt_discountMinor = discount, qt_taxMinor = tax,
          qt_shippingMinor = shipping, qt_totalMinor = total, qt_currency = kv_currency c,
          qt_promotionCode = code, qt_splitCount = split_count c\<rparr>)))))))"

definition estimate_address :: normalized_address where
  "estimate_address = \<lparr>ad_recipient = ''Estimate'', ad_line1 = ''Estimate'', ad_line2 = None,
     ad_city = ''Estimate'', ad_region = None, ad_postalCode = ''00000'', ad_countryCode = ''US'',
     ad_phone = None, ad_validatedBy = ''deterministic-local-v1''\<rparr>"

definition quote ::
  "'m commerce_db_scheme commerce_adapter \<Rightarrow> tenant_context \<Rightarrow> auth_principal \<Rightarrow> uuid \<Rightarrow> string option
     \<Rightarrow> ('m commerce_db_scheme, int \<times> commerce_quote) prog"
where
  "quote adapter ctx pr cartId promotionCode =
     seq (cart ctx pr cartId) (\<lambda>c.
     seq (calculateQuote adapter ctx c promotionCode estimate_address) (\<lambda>q.
     ret (kv_version c, q)))"

record checkout_dto =
  cd_promotionCode :: "string option"
  cd_paymentToken :: string
  cd_address :: address

text \<open>The part of \<open>checkout\<close> from the authorisation on.\<close>

definition authorize_and_place ::
  "'m commerce_db_scheme commerce_adapter \<Rightarrow> tenant_context \<Rightarrow> auth_principal \<Rightarrow> uuid \<Rightarrow> string
     \<Rightarrow> checkout_dto \<Rightarrow> cart_snapshot \<Rightarrow> normalized_address \<Rightarrow> commerce_quote \<Rightarrow> string
     \<Rightarrow> ('m commerce_db_scheme, order_view) prog"
where
  "authorize_and_place adapter ctx pr cartId key input c address q decision =
     seq (send (AuthorizePayment (cd_paymentToken input) (qt_totalMinor q) (qt_currency q) key)) (\<lambda>_.
     seq (ca_authorize adapter \<lparr>az_paymentToken = cd_paymentToken input,
            az_amountMinor = qt_totalMinor q, az_currency = qt_currency q,
            az_idempotencyKey = key\<rparr>) (\<lambda>reference.
     catch
       (checkout_order ctx pr cartId
          \<lparr>ci_cartVersion = kv_version c, ci_idempotencyKey = key, ci_quote = q,
           ci_address = address, ci_paymentReference = reference, ci_fraudDecision = decision\<rparr>)
       (\<lambda>e. seq (send (VoidPayment reference)) (\<lambda>_.
            seq (ca_void adapter reference) (\<lambda>_.
            throw e)))))"

definition checkout ::
  "'m commerce_db_scheme commerce_adapter \<Rightarrow> tenant_context \<Rightarrow> auth_principal \<Rightarrow> uuid \<Rightarrow> string
     \<Rightarrow> checkout_dto \<Rightarrow> ('m commerce_db_scheme, order_view) prog"
where
  "checkout adapter ctx pr cartId key input =
     seq (ensure (\<not> (length (js_trim key) < 8 \<or> length key > 160))
            (Conflict ''A valid Idempotency-Key header is required'')) (\<lambda>_.
     seq (checkout_replay ctx pr cartId key) (\<lambda>replay.
     case replay of
       Some v \<Rightarrow> ret v
     | None \<Rightarrow>
         seq (cart ctx pr cartId) (\<lambda>c.
         seq (ca_validate adapter (cd_address input)) (\<lambda>address.
         seq (calculateQuote adapter ctx c (cd_promotionCode input) address) (\<lambda>q.
         seq (ca_assess adapter (qt_totalMinor q) (pr_userId pr)) (\<lambda>decision.
         seq (ensure (decision = ''APPROVED'') (Forbidden ''Checkout was declined'')) (\<lambda>_.
         authorize_and_place adapter ctx pr cartId key input c address q decision)))))))"

section \<open>Purchase orders\<close>

text \<open>The body of the loop of \<open>acceptPurchaseOrder\<close>: reserved stock becomes allocated.\<close>

definition allocate_line ::
  "tenant_context \<Rightarrow> auth_principal \<Rightarrow> purchase_order \<Rightarrow> purchase_order_line \<times> order_line
     \<Rightarrow> ('m commerce_db_scheme, unit) prog"
where
  "allocate_line ctx pr p t = (case t of (n, l) \<Rightarrow>
     seq (find_row reservations (\<lambda>r. ir_tenantId r = ctx_tenantId ctx \<and> ir_demandType r = ''ORDER_LINE''
            \<and> ir_demandId r = pn_orderLineId n \<and> ir_releasedAt r = None \<and> ir_allocatedAt r = None)) (\<lambda>found.
     seq (require found (Conflict (''Reservation is unavailable for '' @ ol_sku l))) (\<lambda>r.
     seq (take_balance (ctx_tenantId ctx) (ir_inventoryItemId r) RESERVED (ir_quantity r)) (\<lambda>changed.
     seq (ensure (changed = 1) (Conflict (''Reserved inventory is unavailable for '' @ ol_sku l))) (\<lambda>_.
     seq (add_balance (ctx_tenantId ctx) (ir_inventoryItemId r) ALLOCATED (ir_quantity r)) (\<lambda>_.
     seq now (\<lambda>today.
     seq (update_row reservations reservations_update (\<lambda>x. ir_id x = ir_id r)
            (\<lambda>x. x\<lparr>ir_allocatedAt := Some today\<rparr>)) (\<lambda>_.
     seq (append_entry (ctx_tenantId ctx) (ir_inventoryItemId r) RESERVED (- ir_quantity r) ''ALLOCATE''
            ''PURCHASE_ORDER_ACCEPTED'' ''PURCHASE_ORDER_LINE'' (pn_id n)
            (''po:'' @ pu_id p @ '':'' @ pn_id n @ '':reserved'') (ctx_correlationId ctx) (Some (pr_userId pr))) (\<lambda>_.
     seq (append_entry (ctx_tenantId ctx) (ir_inventoryItemId r) ALLOCATED (ir_quantity r) ''ALLOCATE''
            ''PURCHASE_ORDER_ACCEPTED'' ''PURCHASE_ORDER_LINE'' (pn_id n)
            (''po:'' @ pu_id p @ '':'' @ pn_id n @ '':allocated'') (ctx_correlationId ctx) (Some (pr_userId pr))) (\<lambda>_.
     ret ()))))))))))"

definition joined_purchase_line ::
  "'m commerce_db_scheme \<Rightarrow> purchase_order_line \<Rightarrow> app_error + purchase_order_line \<times> order_line"
where
  "joined_purchase_line s n = (case List.find (\<lambda>l. ol_id l = pn_orderLineId n) (order_lines s) of
     None \<Rightarrow> Inl RecordMissing | Some l \<Rightarrow> Inr (n, l))"

definition accept_purchase_order_tx ::
  "tenant_context \<Rightarrow> auth_principal \<Rightarrow> uuid \<Rightarrow> ('m commerce_db_scheme, purchase_order_view) prog"
where
  "accept_purchase_order_tx ctx pr purchaseOrderId =
     seq (find_row purchase_orders (\<lambda>p. pu_id p = purchaseOrderId \<and> pu_tenantId p = ctx_tenantId ctx
            \<and> pu_status p = PO_PENDING)) (\<lambda>found.
     seq (require found (NotFound ''Resource not found'')) (\<lambda>p.
     seq (find_row order_splits (\<lambda>x. os_id x = pu_orderSplitId p)) (\<lambda>split.
     seq (require split RecordMissing) (\<lambda>split.
     seq (reads (\<lambda>s. sequence_results (map (joined_purchase_line s)
            (filter (\<lambda>n. pn_purchaseOrderId n = pu_id p) (purchase_order_lines s))))) (\<lambda>joined.
     seq (lift_result joined) (\<lambda>ls.
     seq (for_each ls (allocate_line ctx pr p)) (\<lambda>_.
     seq now (\<lambda>today.
     seq (update_row purchase_orders purchase_orders_update (\<lambda>x. pu_id x = pu_id p)
            (\<lambda>x. x\<lparr>pu_status := PO_ACCEPTED, pu_acceptedAt := Some today,
                   pu_version := pu_version x + 1\<rparr>)) (\<lambda>accepted.
     seq (update_row order_splits order_splits_update (\<lambda>x. os_id x = pu_orderSplitId p)
            (\<lambda>x. x\<lparr>os_status := SP_ACCEPTED\<rparr>)) (\<lambda>_.
     seq (count_rows order_splits (\<lambda>x. os_tenantId x = ctx_tenantId ctx
            \<and> os_orderId x = os_orderId split \<and> os_status x = SP_PENDING)) (\<lambda>pending.
     seq (when_do (pending = 0)
            (seq (update_row orders orders_update (\<lambda>d. od_id d = os_orderId split)
                    (\<lambda>d. d\<lparr>od_status := OR_CONFIRMED, od_version := od_version d + 1\<rparr>)) (\<lambda>_.
             ret ()))) (\<lambda>_.
     seq (commerce_audit ctx pr ''purchase-order.accepted'' ''DROPSHIP_PURCHASE_ORDER'' (pu_id p)) (\<lambda>_.
     seq (publish (ctx_tenantId ctx) ''commerce.purchase-order.accepted.v1''
            (''purchase-order/'' @ pu_id p)
            (JObj [(''purchaseOrderId'', JStr (pu_id p)), (''orderId'', JStr (os_orderId split))])
            (ctx_correlationId ctx)) (\<lambda>_.
     seq (reads (\<lambda>s. purchaseOrderView s accepted)) lift_result))))))))))))))"

definition accept_purchase_order ::
  "tenant_context \<Rightarrow> auth_principal \<Rightarrow> uuid \<Rightarrow> ('m commerce_db_scheme, purchase_order_view) prog"
where
  "accept_purchase_order ctx pr purchaseOrderId = transaction (accept_purchase_order_tx ctx pr purchaseOrderId)"

definition fresh_commerce :: commerce_db where
  "fresh_commerce = billing_db.extend fresh_billing (commerce_db.fields [] [] [] [] [] [] [] [] [])"

end
