(* ===== verification/Fulfillment.thy ===== *)
theory Fulfillment
  imports Commerce Json
begin

text \<open>
  The warehouse: facilities and bins, advance shipping notices and their receipt, fulfilment
  orders from pick to dispatch, shipments and tracking:
  \<open>apps/api/src/fulfillment/fulfillment.repository.ts\<close> and the local carrier of
  \<open>carrier.adapter.ts\<close>.

  The carrier is a parameter (\<open>carrier_port\<close>, one operation), and so is the digest
  \<open>sha256\<close>. The rows that \<open>include\<close> adds to an answer are the rows of the state at that
  point. The relation of a tracking event to its shipment, of a line to its order and so on is
  the foreign key of the schema.
\<close>

section \<open>Rows\<close>

datatype warehouse_status = WH_DRAFT | WH_OPEN | WH_IN_PROGRESS | WH_COMPLETED | WH_CANCELLED | WH_EXCEPTION

datatype fulfillment_status = FS_PENDING | FS_RELEASED | FS_PICKING | FS_PICKED | FS_PACKED | FS_LABELED
  | FS_MANIFESTED | FS_DISPATCHED | FS_DELIVERED | FS_CANCELLED | FS_EXCEPTION

record facility =
  fc_id :: uuid
  fc_tenantId :: uuid
  fc_key :: string
  fc_name :: string
  fc_address :: json
  fc_status :: warehouse_status
  fc_version :: int
  fc_deletedAt :: "instant option"

record facility_bin =
  bn_id :: uuid
  bn_tenantId :: uuid
  bn_facilityId :: uuid
  bn_code :: string
  bn_kind :: string
  bn_capacity :: "int option"
  bn_status :: warehouse_status

record asn =
  an_id :: uuid
  an_tenantId :: uuid
  an_facilityId :: uuid
  an_supplierId :: "uuid option"
  an_reference :: string
  an_status :: warehouse_status
  an_expectedAt :: "instant option"
  an_receivedAt :: "instant option"
  an_version :: int

record asn_receipt =
  ar_id :: uuid
  ar_tenantId :: uuid
  ar_asnId :: uuid
  ar_idempotencyKey :: string
  ar_payloadHash :: string

record asn_line =
  al_id :: uuid
  al_tenantId :: uuid
  al_asnId :: uuid
  al_variantId :: uuid
  al_inventoryItemId :: "uuid option"
  al_expectedQty :: int
  al_receivedQty :: int
  al_acceptedQty :: int
  al_rejectedQty :: int
  al_inspection :: string
  al_putawayBinId :: "uuid option"
  al_putawayAt :: "instant option"

record fulfillment_order =
  fo_id :: uuid
  fo_tenantId :: uuid
  fo_orderSplitId :: uuid
  fo_facilityId :: uuid
  fo_status :: fulfillment_status
  fo_slaDueAt :: "instant option"
  fo_exceptionCode :: "string option"
  fo_version :: int

record fulfillment_line =
  fl_id :: uuid
  fl_tenantId :: uuid
  fl_fulfillmentOrderId :: uuid
  fl_orderLineId :: uuid
  fl_inventoryItemId :: uuid
  fl_quantity :: int
  fl_pickedQty :: int
  fl_packedQty :: int
  fl_binId :: "uuid option"

record fulfillment_package =
  fp_id :: uuid
  fp_tenantId :: uuid
  fp_fulfillmentOrderId :: uuid
  fp_code :: string
  fp_weightGrams :: int
  fp_dimensions :: json
  fp_packedAt :: instant

record shipment =
  sh_id :: uuid
  sh_tenantId :: uuid
  sh_fulfillmentOrderId :: uuid
  sh_packageId :: uuid
  sh_carrierKey :: string
  sh_serviceLevel :: string
  sh_trackingNumber :: string
  sh_status :: fulfillment_status
  sh_labelUrl :: string
  sh_rateMinor :: int
  sh_manifestedAt :: "instant option"
  sh_dispatchedAt :: "instant option"
  sh_deliveredAt :: "instant option"
  sh_version :: int

record tracking_event =
  te_id :: uuid
  te_tenantId :: uuid
  te_shipmentId :: uuid
  te_externalKey :: string
  te_code :: string
  te_description :: string
  te_location :: "string option"
  te_occurredAt :: instant
  te_payload :: json

record fulfillment_db = commerce_db +
  facilities :: "facility list"
  facility_bins :: "facility_bin list"
  asns :: "asn list"
  asn_receipts :: "asn_receipt list"
  asn_lines :: "asn_line list"
  fulfillment_orders :: "fulfillment_order list"
  fulfillment_lines :: "fulfillment_line list"
  packages :: "fulfillment_package list"
  shipments :: "shipment list"
  tracking_events :: "tracking_event list"

section \<open>Unique keys\<close>

definition same_facility :: "facility \<Rightarrow> facility \<Rightarrow> bool" where
  "same_facility a b \<longleftrightarrow> fc_id a = fc_id b \<or> fc_tenantId a = fc_tenantId b \<and> fc_key a = fc_key b"

definition same_bin :: "facility_bin \<Rightarrow> facility_bin \<Rightarrow> bool" where
  "same_bin a b \<longleftrightarrow> bn_id a = bn_id b
     \<or> bn_tenantId a = bn_tenantId b \<and> bn_facilityId a = bn_facilityId b \<and> bn_code a = bn_code b"

definition same_asn :: "asn \<Rightarrow> asn \<Rightarrow> bool" where
  "same_asn a b \<longleftrightarrow> an_id a = an_id b \<or> an_tenantId a = an_tenantId b \<and> an_reference a = an_reference b"

definition same_asn_receipt :: "asn_receipt \<Rightarrow> asn_receipt \<Rightarrow> bool" where
  "same_asn_receipt a b \<longleftrightarrow> ar_id a = ar_id b
     \<or> ar_tenantId a = ar_tenantId b \<and> ar_idempotencyKey a = ar_idempotencyKey b"

definition same_asn_line :: "asn_line \<Rightarrow> asn_line \<Rightarrow> bool" where
  "same_asn_line a b \<longleftrightarrow> al_id a = al_id b"

definition same_fulfillment :: "fulfillment_order \<Rightarrow> fulfillment_order \<Rightarrow> bool" where
  "same_fulfillment a b \<longleftrightarrow> fo_id a = fo_id b
     \<or> fo_tenantId a = fo_tenantId b \<and> fo_orderSplitId a = fo_orderSplitId b"

definition same_fulfillment_line :: "fulfillment_line \<Rightarrow> fulfillment_line \<Rightarrow> bool" where
  "same_fulfillment_line a b \<longleftrightarrow> fl_id a = fl_id b
     \<or> fl_tenantId a = fl_tenantId b \<and> fl_fulfillmentOrderId a = fl_fulfillmentOrderId b
       \<and> fl_orderLineId a = fl_orderLineId b"

definition same_package :: "fulfillment_package \<Rightarrow> fulfillment_package \<Rightarrow> bool" where
  "same_package a b \<longleftrightarrow> fp_id a = fp_id b \<or> fp_tenantId a = fp_tenantId b \<and> fp_code a = fp_code b"

definition same_shipment :: "shipment \<Rightarrow> shipment \<Rightarrow> bool" where
  "same_shipment a b \<longleftrightarrow> sh_id a = sh_id b \<or> sh_packageId a = sh_packageId b
     \<or> sh_tenantId a = sh_tenantId b \<and> sh_trackingNumber a = sh_trackingNumber b"

definition same_tracking_event :: "tracking_event \<Rightarrow> tracking_event \<Rightarrow> bool" where
  "same_tracking_event a b \<longleftrightarrow> te_id a = te_id b
     \<or> te_tenantId a = te_tenantId b \<and> te_shipmentId a = te_shipmentId b
       \<and> te_externalKey a = te_externalKey b"

interpretation asns: row_store asns asns_update
  by unfold_locales simp_all

interpretation asn_receipts: row_store asn_receipts asn_receipts_update
  by unfold_locales simp_all

interpretation asn_lines: row_store asn_lines asn_lines_update
  by unfold_locales simp_all

interpretation fulfillment_orders: row_store fulfillment_orders fulfillment_orders_update
  by unfold_locales simp_all

interpretation fulfillment_lines: row_store fulfillment_lines fulfillment_lines_update
  by unfold_locales simp_all

interpretation shipments: row_store shipments shipments_update
  by unfold_locales simp_all

section \<open>Facilities and bins\<close>

definition requireFacility :: "tenant_context \<Rightarrow> uuid \<Rightarrow> ('m fulfillment_db_scheme, facility) prog" where
  "requireFacility ctx i =
     seq (find_row facilities (\<lambda>f. fc_id f = i \<and> fc_tenantId f = ctx_tenantId ctx \<and> fc_deletedAt f = None)) (\<lambda>found.
     require found (NotFound ''Resource not found''))"

record create_facility_dto =
  df_key :: string
  df_name :: string
  df_address :: json

definition createFacility ::
  "tenant_context \<Rightarrow> create_facility_dto \<Rightarrow> ('m fulfillment_db_scheme, facility) prog"
where
  "createFacility ctx input =
     seq random_uuid (\<lambda>i.
     create_row facilities facilities_update same_facility
       \<lparr>fc_id = i, fc_tenantId = ctx_tenantId ctx, fc_key = df_key input, fc_name = df_name input,
        fc_address = df_address input, fc_status = WH_OPEN, fc_version = 1, fc_deletedAt = None\<rparr>)"

record create_bin_dto =
  db_code :: string
  db_kind :: "string option"
  db_capacity :: "int option"

definition createBin ::
  "tenant_context \<Rightarrow> uuid \<Rightarrow> create_bin_dto \<Rightarrow> ('m fulfillment_db_scheme, facility_bin) prog"
where
  "createBin ctx facilityId input =
     seq (requireFacility ctx facilityId) (\<lambda>_.
     seq random_uuid (\<lambda>i.
     create_row facility_bins facility_bins_update same_bin
       \<lparr>bn_id = i, bn_tenantId = ctx_tenantId ctx, bn_facilityId = facilityId, bn_code = db_code input,
        bn_kind = (case db_kind input of None \<Rightarrow> ''STORAGE'' | Some k \<Rightarrow> k),
        bn_capacity = db_capacity input, bn_status = WH_OPEN\<rparr>))"

section \<open>Advance shipping notices\<close>

type_synonym asn_view = "asn \<times> asn_line list"

definition lines_of_asn :: "uuid \<Rightarrow> ('m fulfillment_db_scheme, asn_line list) prog" where
  "lines_of_asn asnId = find_rows asn_lines (\<lambda>l. al_asnId l = asnId)"

record asn_line_dto =
  dl_variantId :: uuid
  dl_quantity :: int

record create_asn_dto =
  dn_facilityId :: uuid
  dn_supplierId :: "uuid option"
  dn_reference :: string
  dn_expectedAt :: "instant option"
  dn_lines :: "asn_line_dto list"

definition create_asn_line ::
  "tenant_context \<Rightarrow> uuid \<Rightarrow> uuid \<times> asn_line_dto \<Rightarrow> ('m fulfillment_db_scheme, unit) prog"
where
  "create_asn_line ctx asnId t = (case t of (i, line) \<Rightarrow>
     seq (create_row asn_lines asn_lines_update same_asn_line
            \<lparr>al_id = i, al_tenantId = ctx_tenantId ctx, al_asnId = asnId, al_variantId = dl_variantId line,
             al_inventoryItemId = None, al_expectedQty = dl_quantity line, al_receivedQty = 0,
             al_acceptedQty = 0, al_rejectedQty = 0, al_inspection = ''PENDING'',
             al_putawayBinId = None, al_putawayAt = None\<rparr>) (\<lambda>_. ret ()))"

text \<open>\<open>lines.map(() => randomUUID())\<close> for each element of a list.\<close>

definition with_uuids :: "'a list \<Rightarrow> ('m runtime_scheme, (uuid \<times> 'a) list) prog" where
  "with_uuids xs = fold_each xs [] (\<lambda>x acc. seq random_uuid (\<lambda>i. ret (acc @ [(i, x)])))"

text \<open>The create of a notice with its lines is one statement, all of it or none.\<close>

definition createAsn ::
  "tenant_context \<Rightarrow> create_asn_dto \<Rightarrow> ('m fulfillment_db_scheme, asn_view) prog"
where
  "createAsn ctx input =
     seq (requireFacility ctx (dn_facilityId input)) (\<lambda>_.
     seq (count_rows variants (\<lambda>v. pv_tenantId v = ctx_tenantId ctx
            \<and> pv_id v \<in> set (map dl_variantId (dn_lines input)))) (\<lambda>known.
     seq (ensure (known = length (js_set (map dl_variantId (dn_lines input))))
            (NotFound ''Resource not found'')) (\<lambda>_.
     seq random_uuid (\<lambda>asnId.
     seq (with_uuids (dn_lines input)) (\<lambda>named.
     transaction (
       seq (create_row asns asns_update same_asn
              \<lparr>an_id = asnId, an_tenantId = ctx_tenantId ctx, an_facilityId = dn_facilityId input,
               an_supplierId = dn_supplierId input, an_reference = dn_reference input, an_status = WH_OPEN,
               an_expectedAt = dn_expectedAt input, an_receivedAt = None, an_version = 1\<rparr>) (\<lambda>a.
       seq (for_each named (create_asn_line ctx asnId)) (\<lambda>_.
       seq (lines_of_asn asnId) (\<lambda>ls. ret (a, ls))))))))))"

subsection \<open>Receipt\<close>

record receive_asn_line_dto =
  dr_lineId :: uuid
  dr_acceptedQty :: int
  dr_rejectedQty :: int
  dr_inspection :: string

text \<open>
  \<open>asnReceiptPayloadHash\<close>; the lines are sorted by their identifiers, which are UUIDs in lower
  case, where \<open>localeCompare\<close> orders as the code units do.
\<close>

definition receipt_line_json :: "receive_asn_line_dto \<Rightarrow> json" where
  "receipt_line_json l = JObj [(''lineId'', JStr (dr_lineId l)), (''acceptedQty'', JNum (dr_acceptedQty l)),
     (''rejectedQty'', JNum (dr_rejectedQty l)), (''inspection'', JStr (dr_inspection l))]"

definition asnReceiptPayloadHash :: "(string \<Rightarrow> string) \<Rightarrow> receive_asn_line_dto list \<Rightarrow> string" where
  "asnReceiptPayloadHash sha256 lines =
     sha256 (stringify (JObj [(''lines'', JArr (map receipt_line_json (sort_key dr_lineId lines)))]))"

definition requireIdempotency :: "string \<Rightarrow> app_error + unit" where
  "requireIdempotency key =
     (if length (js_trim key) < 8 \<or> length key > 160
      then Inl (Conflict ''A valid Idempotency-Key header is required'') else Inr ())"

definition assertAsnReceiptReplay :: "asn_receipt \<Rightarrow> uuid \<Rightarrow> string \<Rightarrow> app_error + unit" where
  "assertAsnReceiptReplay r asnId payloadHash =
     (if ar_asnId r \<noteq> asnId \<or> ar_payloadHash r \<noteq> payloadHash
      then Inl (Conflict ''Idempotency-Key was already used for another ASN receipt'') else Inr ())"

definition receivable :: "asn_line list \<Rightarrow> receive_asn_line_dto \<Rightarrow> bool" where
  "receivable ls r \<longleftrightarrow>
     (case List.find (\<lambda>l. al_id l = dr_lineId r) ls of
        None \<Rightarrow> False
      | Some l \<Rightarrow>
          \<not> (dr_acceptedQty r + dr_rejectedQty r < 1
             \<or> dr_acceptedQty r + dr_rejectedQty r > al_expectedQty l
             \<or> al_receivedQty l \<noteq> 0 \<or> al_inspection l \<noteq> ''PENDING''
             \<or> (dr_acceptedQty r > 0) \<noteq> (dr_inspection r = ''PASSED'')))"

text \<open>The accepted units of a line enter the stock on hand, with their ledger entry.\<close>

definition stock_accepted ::
  "tenant_context \<Rightarrow> auth_principal \<Rightarrow> asn \<Rightarrow> string \<Rightarrow> asn_line \<Rightarrow> receive_asn_line_dto
     \<Rightarrow> ('m fulfillment_db_scheme, uuid) prog"
where
  "stock_accepted ctx pr a key l r =
     seq (find_row variants (\<lambda>v. pv_id v = al_variantId l \<and> pv_tenantId v = ctx_tenantId ctx)) (\<lambda>found.
     seq (require found (NotFound ''Resource not found'')) (\<lambda>variant.
     seq random_uuid (\<lambda>itemId.
     seq (upsert_row items items_update same_item
            (\<lambda>i. ii_tenantId i = ctx_tenantId ctx \<and> ii_facilityId i = an_facilityId a
               \<and> ii_sku i = pv_sku variant)
            (\<lambda>i. i\<lparr>ii_productRef := pv_id variant, ii_version := ii_version i + 1\<rparr>)
            \<lparr>ii_id = itemId, ii_tenantId = ctx_tenantId ctx, ii_sku = pv_sku variant,
             ii_facilityId = an_facilityId a, ii_productRef = pv_id variant,
             ii_allowNegative = False, ii_version = 1\<rparr>) (\<lambda>item.
     seq (add_balance (ctx_tenantId ctx) (ii_id item) ON_HAND (dr_acceptedQty r)) (\<lambda>_.
     seq (append_entry (ctx_tenantId ctx) (ii_id item) ON_HAND (dr_acceptedQty r) ''RECEIVE'' ''ASN_RECEIPT''
            ''ASN_LINE'' (al_id l) (key @ '':'' @ al_id l) (ctx_correlationId ctx) (Some (pr_userId pr))) (\<lambda>_.
     ret (ii_id item)))))))"

definition receive_line ::
  "tenant_context \<Rightarrow> auth_principal \<Rightarrow> asn \<Rightarrow> string \<Rightarrow> asn_line list \<Rightarrow> receive_asn_line_dto
     \<Rightarrow> ('m fulfillment_db_scheme, unit) prog"
where
  "receive_line ctx pr a key ls r =
     seq (require (List.find (\<lambda>l. al_id l = dr_lineId r) ls) RecordMissing) (\<lambda>l.
     seq (if dr_acceptedQty r > 0 then seq (stock_accepted ctx pr a key l r) (\<lambda>i. ret (Some i))
          else ret None) (\<lambda>itemId.
     seq (update_row asn_lines asn_lines_update (\<lambda>x. al_id x = al_id l)
            (\<lambda>x. x\<lparr>al_inventoryItemId := (case itemId of None \<Rightarrow> al_inventoryItemId x | Some i \<Rightarrow> Some i),
                   al_receivedQty := dr_acceptedQty r + dr_rejectedQty r,
                   al_acceptedQty := dr_acceptedQty r, al_rejectedQty := dr_rejectedQty r,
                   al_inspection := dr_inspection r\<rparr>)) (\<lambda>_.
     ret ())))"

text \<open>Lines that keep a notice from completion: not inspected, or accepted and not put away.\<close>

definition receiving_blocker :: "asn_line \<Rightarrow> bool" where
  "receiving_blocker l \<longleftrightarrow> al_inspection l = ''PENDING'' \<or> al_acceptedQty l > 0 \<and> al_putawayAt l = None"

definition count_blockers :: "tenant_context \<Rightarrow> uuid \<Rightarrow> ('m fulfillment_db_scheme, nat) prog" where
  "count_blockers ctx asnId = count_rows asn_lines
     (\<lambda>l. al_asnId l = asnId \<and> al_tenantId l = ctx_tenantId ctx \<and> receiving_blocker l)"

definition find_receipt :: "tenant_context \<Rightarrow> string \<Rightarrow> ('m fulfillment_db_scheme, asn_receipt option) prog" where
  "find_receipt ctx key = find_row asn_receipts
     (\<lambda>r. ar_tenantId r = ctx_tenantId ctx \<and> ar_idempotencyKey r = key)"

definition find_asn :: "tenant_context \<Rightarrow> uuid \<Rightarrow> ('m fulfillment_db_scheme, asn_view) prog" where
  "find_asn ctx asnId =
     seq (find_row asns (\<lambda>a. an_id a = asnId \<and> an_tenantId a = ctx_tenantId ctx)) (\<lambda>found.
     seq (require found (NotFound ''Resource not found'')) (\<lambda>a.
     seq (lines_of_asn asnId) (\<lambda>ls. ret (a, ls))))"

definition receive_lines ::
  "tenant_context \<Rightarrow> auth_principal \<Rightarrow> asn_view \<Rightarrow> receive_asn_line_dto list \<Rightarrow> string \<Rightarrow> string
     \<Rightarrow> ('m fulfillment_db_scheme, asn_view) prog"
where
  "receive_lines ctx pr view lines key payloadHash = (case view of (a, ls) \<Rightarrow>
     seq (ensure (an_status a = WH_OPEN \<or> an_status a = WH_IN_PROGRESS)
            (Conflict ''ASN is not open for receiving'')) (\<lambda>_.
     seq (ensure (list_all (receivable ls) lines)
            (Conflict ''Invalid ASN receipt quantity or inspection'')) (\<lambda>_.
     seq random_uuid (\<lambda>i.
     seq (create_row asn_receipts asn_receipts_update same_asn_receipt
            \<lparr>ar_id = i, ar_tenantId = ctx_tenantId ctx, ar_asnId = an_id a, ar_idempotencyKey = key,
             ar_payloadHash = payloadHash\<rparr>) (\<lambda>_.
     seq (for_each lines (receive_line ctx pr a key ls)) (\<lambda>_.
     seq (count_blockers ctx (an_id a)) (\<lambda>blockers.
     seq (case an_receivedAt a of Some t \<Rightarrow> ret t | None \<Rightarrow> now) (\<lambda>receivedAt.
     seq (update_many asns asns_update
            (\<lambda>x. an_id x = an_id a \<and> an_tenantId x = ctx_tenantId ctx \<and> an_version x = an_version a
               \<and> an_status x \<in> {WH_OPEN, WH_IN_PROGRESS})
            (\<lambda>x. x\<lparr>an_status := (if blockers = 0 then WH_COMPLETED else WH_IN_PROGRESS),
                   an_receivedAt := Some receivedAt, an_version := an_version x + 1\<rparr>)) (\<lambda>updated.
     seq (ensure (updated = 1) (Conflict ''ASN was changed by another receipt'')) (\<lambda>_.
     seq (find_row asns (\<lambda>x. an_id x = an_id a)) (\<lambda>found.
     seq (require found RecordMissing) (\<lambda>x.
     seq (lines_of_asn (an_id a)) (\<lambda>ls'. ret (x, ls'))))))))))))))"

definition receive_asn_tx ::
  "tenant_context \<Rightarrow> auth_principal \<Rightarrow> uuid \<Rightarrow> receive_asn_line_dto list \<Rightarrow> string \<Rightarrow> string
     \<Rightarrow> ('m fulfillment_db_scheme, asn_view) prog"
where
  "receive_asn_tx ctx pr asnId lines key payloadHash =
     seq (find_asn ctx asnId) (\<lambda>view.
     seq (find_receipt ctx key) (\<lambda>prior.
     case prior of
       Some r \<Rightarrow> seq (lift_result (assertAsnReceiptReplay r asnId payloadHash)) (\<lambda>_. ret view)
     | None \<Rightarrow> receive_lines ctx pr view lines key payloadHash))"

definition receiveAsn ::
  "(string \<Rightarrow> string) \<Rightarrow> tenant_context \<Rightarrow> auth_principal \<Rightarrow> uuid \<Rightarrow> receive_asn_line_dto list \<Rightarrow> string
     \<Rightarrow> ('m fulfillment_db_scheme, asn_view) prog"
where
  "receiveAsn sha256 ctx pr asnId lines idempotencyKey =
     (let key = js_trim idempotencyKey; payloadHash = asnReceiptPayloadHash sha256 lines in
      seq (lift_result (requireIdempotency key)) (\<lambda>_.
      seq (ensure (length (js_set (map dr_lineId lines)) = length lines)
             (Conflict ''Each ASN line may only appear once per receipt'')) (\<lambda>_.
      catch (transaction (receive_asn_tx ctx pr asnId lines key payloadHash))
        (\<lambda>e. if e \<noteq> UniqueViolation then throw e
             else seq (find_receipt ctx key) (\<lambda>prior.
                  seq (require prior e) (\<lambda>r.
                  seq (lift_result (assertAsnReceiptReplay r asnId payloadHash)) (\<lambda>_.
                  find_asn ctx asnId)))))))"

subsection \<open>Putaway\<close>

record putaway_dto =
  dp_lineId :: uuid
  dp_binId :: uuid

definition put_line :: "asn_line \<Rightarrow> facility_bin \<Rightarrow> ('m fulfillment_db_scheme, unit) prog" where
  "put_line l b = when_do (al_putawayAt l = None)
     (seq now (\<lambda>today.
      seq (update_row asn_lines asn_lines_update (\<lambda>x. al_id x = al_id l)
             (\<lambda>x. x\<lparr>al_putawayBinId := Some (bn_id b), al_putawayAt := Some today\<rparr>)) (\<lambda>_.
      ret ())))"

definition complete_asn :: "tenant_context \<Rightarrow> uuid \<Rightarrow> asn \<Rightarrow> nat \<Rightarrow> ('m fulfillment_db_scheme, unit) prog" where
  "complete_asn ctx asnId a remaining = when_do (remaining = 0 \<and> an_status a = WH_IN_PROGRESS)
     (seq (update_many asns asns_update
             (\<lambda>x. an_id x = asnId \<and> an_tenantId x = ctx_tenantId ctx \<and> an_status x = WH_IN_PROGRESS)
             (\<lambda>x. x\<lparr>an_status := WH_COMPLETED, an_version := an_version x + 1\<rparr>)) (\<lambda>_. ret ()))"

definition putaway_tx ::
  "tenant_context \<Rightarrow> uuid \<Rightarrow> putaway_dto \<Rightarrow> ('m fulfillment_db_scheme, asn_view option) prog"
where
  "putaway_tx ctx asnId input =
     seq (find_row asn_lines (\<lambda>l. al_id l = dp_lineId input \<and> al_tenantId l = ctx_tenantId ctx
            \<and> al_asnId l = asnId)) (\<lambda>line.
     seq (find_row facility_bins (\<lambda>b. bn_id b = dp_binId input \<and> bn_tenantId b = ctx_tenantId ctx)) (\<lambda>bin.
     seq (require line (NotFound ''Resource not found'')) (\<lambda>l.
     seq (require bin (NotFound ''Resource not found'')) (\<lambda>b.
     seq (find_row asns (\<lambda>a. an_id a = al_asnId l)) (\<lambda>found.
     seq (require found RecordMissing) (\<lambda>a.
     seq (ensure (bn_facilityId b = an_facilityId a) (NotFound ''Resource not found'')) (\<lambda>_.
     seq (ensure (\<not> (al_putawayAt l \<noteq> None \<and> al_putawayBinId l \<noteq> Some (bn_id b)))
            (Conflict ''ASN line was already put away in another bin'')) (\<lambda>_.
     seq (ensure (\<not> (al_putawayAt l = None \<and> an_status a \<noteq> WH_IN_PROGRESS))
            (Conflict ''ASN is not ready for putaway'')) (\<lambda>_.
     seq (ensure (\<not> (al_inventoryItemId l = None \<or> al_acceptedQty l < 1 \<or> al_inspection l \<noteq> ''PASSED''))
            (Conflict ''Only inspected accepted inventory can be put away'')) (\<lambda>_.
     seq (put_line l b) (\<lambda>_.
     seq (count_blockers ctx asnId) (\<lambda>remaining.
     seq (complete_asn ctx asnId a remaining) (\<lambda>_.
     seq (find_row asns (\<lambda>x. an_id x = asnId)) (\<lambda>found.
     seq (lines_of_asn asnId) (\<lambda>ls.
     ret (case found of None \<Rightarrow> None | Some x \<Rightarrow> Some (x, ls)))))))))))))))))"

definition putaway ::
  "tenant_context \<Rightarrow> uuid \<Rightarrow> putaway_dto \<Rightarrow> ('m fulfillment_db_scheme, asn_view option) prog"
where
  "putaway ctx asnId input = transaction (putaway_tx ctx asnId input)"

section \<open>Fulfilment orders\<close>

record fulfillment_view =
  fv_order :: fulfillment_order
  fv_lines :: "fulfillment_line list"
  fv_packages :: "fulfillment_package list"
  fv_shipments :: "shipment list"

definition fulfillment_view_of :: "'m fulfillment_db_scheme \<Rightarrow> fulfillment_order \<Rightarrow> fulfillment_view" where
  "fulfillment_view_of s d = \<lparr>fv_order = d,
     fv_lines = filter (\<lambda>l. fl_fulfillmentOrderId l = fo_id d) (fulfillment_lines s),
     fv_packages = filter (\<lambda>p. fp_fulfillmentOrderId p = fo_id d) (packages s),
     fv_shipments = filter (\<lambda>h. sh_fulfillmentOrderId h = fo_id d) (shipments s)\<rparr>"

definition requireFulfillment ::
  "tenant_context \<Rightarrow> uuid \<Rightarrow> ('m fulfillment_db_scheme, fulfillment_view) prog"
where
  "requireFulfillment ctx i =
     seq (find_row fulfillment_orders (\<lambda>d. fo_id d = i \<and> fo_tenantId d = ctx_tenantId ctx)) (\<lambda>found.
     seq (require found (NotFound ''Resource not found'')) (\<lambda>d.
     reads (\<lambda>s. fulfillment_view_of s d)))"

definition update_fulfillment ::
  "uuid \<Rightarrow> fulfillment_status \<Rightarrow> ('m fulfillment_db_scheme, fulfillment_order) prog"
where
  "update_fulfillment i status = update_row fulfillment_orders fulfillment_orders_update (\<lambda>d. fo_id d = i)
     (\<lambda>d. d\<lparr>fo_status := status, fo_version := fo_version d + 1\<rparr>)"

record create_fulfillment_dto =
  du_orderSplitId :: uuid
  du_facilityId :: uuid
  du_slaDueAt :: "instant option"

definition create_fulfillment_line ::
  "tenant_context \<Rightarrow> uuid \<Rightarrow> uuid \<times> order_line \<times> inventory_item \<Rightarrow> ('m fulfillment_db_scheme, unit) prog"
where
  "create_fulfillment_line ctx orderId t = (case t of (i, line, item) \<Rightarrow>
     seq (create_row fulfillment_lines fulfillment_lines_update same_fulfillment_line
            \<lparr>fl_id = i, fl_tenantId = ctx_tenantId ctx, fl_fulfillmentOrderId = orderId,
             fl_orderLineId = ol_id line, fl_inventoryItemId = ii_id item, fl_quantity = ol_quantity line,
             fl_pickedQty = 0, fl_packedQty = 0, fl_binId = None\<rparr>) (\<lambda>_. ret ()))"

text \<open>\<open>items.find(...)!\<close>: a line without an item is a type error of the source.\<close>

definition line_item :: "inventory_item list \<Rightarrow> order_line \<Rightarrow> app_error + order_line \<times> inventory_item" where
  "line_item stock line = (case List.find (\<lambda>i. ii_productRef i = ol_variantId line) stock of
     None \<Rightarrow> Inl (Plain_Error ''Cannot read properties of undefined'') | Some i \<Rightarrow> Inr (line, i))"

definition createFulfillment ::
  "tenant_context \<Rightarrow> create_fulfillment_dto \<Rightarrow> ('m fulfillment_db_scheme, fulfillment_order \<times> fulfillment_line list) prog"
where
  "createFulfillment ctx input =
     seq (find_row order_splits (\<lambda>x. os_id x = du_orderSplitId input \<and> os_tenantId x = ctx_tenantId ctx
            \<and> os_status x = SP_ACCEPTED)) (\<lambda>found.
     seq (requireFacility ctx (du_facilityId input)) (\<lambda>_.
     seq (require found (NotFound ''Accepted order split not found'')) (\<lambda>split.
     seq (find_rows order_lines (\<lambda>l. ol_orderId l = os_orderId split \<and> ol_sellerId l = os_sellerId split
            \<and> ol_supplierId l = os_supplierId split)) (\<lambda>relevant.
     seq (find_rows items (\<lambda>i. ii_tenantId i = ctx_tenantId ctx \<and> ii_facilityId i = du_facilityId input
            \<and> ii_productRef i \<in> set (map ol_variantId relevant))) (\<lambda>stock.
     seq (ensure (length stock = length relevant) (Conflict ''Inventory is unavailable'')) (\<lambda>_.
     seq random_uuid (\<lambda>orderId.
     seq (lift_result (sequence_results (map (line_item stock) relevant))) (\<lambda>joined.
     seq (with_uuids joined) (\<lambda>named.
     transaction (
       seq (create_row fulfillment_orders fulfillment_orders_update same_fulfillment
              \<lparr>fo_id = orderId, fo_tenantId = ctx_tenantId ctx, fo_orderSplitId = os_id split,
               fo_facilityId = du_facilityId input, fo_status = FS_PENDING, fo_slaDueAt = du_slaDueAt input,
               fo_exceptionCode = None, fo_version = 1\<rparr>) (\<lambda>d.
       seq (for_each named (create_fulfillment_line ctx orderId)) (\<lambda>_.
       seq (find_rows fulfillment_lines (\<lambda>l. fl_fulfillmentOrderId l = orderId)) (\<lambda>ls.
       ret (d, ls))))))))))))))"

subsection \<open>Pick, pack, label, dispatch\<close>

text \<open>The body of the loop of \<open>pick\<close>: stock on hand becomes picked, in the balances only.\<close>

definition pick_line ::
  "tenant_context \<Rightarrow> uuid option \<Rightarrow> fulfillment_line \<Rightarrow> ('m fulfillment_db_scheme, unit) prog"
where
  "pick_line ctx binId l =
     seq (find_row balances (balance_key (ctx_tenantId ctx) (fl_inventoryItemId l) ON_HAND)) (\<lambda>found.
     seq (ensure (case found of None \<Rightarrow> False | Some b \<Rightarrow> \<not> ib_quantity b < fl_quantity l)
            (Conflict ''Insufficient inventory'')) (\<lambda>_.
     seq (require found RecordMissing) (\<lambda>b.
     seq (update_row balances balances_update (\<lambda>x. ib_id x = ib_id b)
            (\<lambda>x. x\<lparr>ib_quantity := ib_quantity x - fl_quantity l, ib_version := ib_version x + 1\<rparr>)) (\<lambda>_.
     seq (add_balance (ctx_tenantId ctx) (fl_inventoryItemId l) PICKED (fl_quantity l)) (\<lambda>_.
     seq (update_row fulfillment_lines fulfillment_lines_update (\<lambda>x. fl_id x = fl_id l)
            (\<lambda>x. x\<lparr>fl_pickedQty := fl_quantity l, fl_binId := binId\<rparr>)) (\<lambda>_.
     ret ()))))))"

definition pick ::
  "tenant_context \<Rightarrow> uuid \<Rightarrow> uuid option \<Rightarrow> ('m fulfillment_db_scheme, fulfillment_order \<times> fulfillment_line list) prog"
where
  "pick ctx i binId =
     seq (requireFulfillment ctx i) (\<lambda>v.
     seq (ensure (fo_status (fv_order v) \<in> {FS_PENDING, FS_RELEASED, FS_PICKING})
            (Conflict ''Fulfillment cannot be picked in its current state'')) (\<lambda>_.
     transaction (
       seq (for_each (fv_lines v) (pick_line ctx binId)) (\<lambda>_.
       seq (update_fulfillment i FS_PICKED) (\<lambda>d.
       seq (find_rows fulfillment_lines (\<lambda>l. fl_fulfillmentOrderId l = i)) (\<lambda>ls.
       ret (d, ls)))))))"

record pack_dto =
  dk_packageCode :: string
  dk_weightGrams :: int
  dk_dimensions :: "json option"

definition pack_line :: "fulfillment_line \<Rightarrow> ('m fulfillment_db_scheme, unit) prog" where
  "pack_line l =
     seq (update_row fulfillment_lines fulfillment_lines_update (\<lambda>x. fl_id x = fl_id l)
            (\<lambda>x. x\<lparr>fl_packedQty := fl_quantity l\<rparr>)) (\<lambda>_. ret ())"

definition pack ::
  "tenant_context \<Rightarrow> uuid \<Rightarrow> pack_dto \<Rightarrow> ('m fulfillment_db_scheme, fulfillment_package) prog"
where
  "pack ctx i input =
     seq (requireFulfillment ctx i) (\<lambda>v.
     seq (ensure (fo_status (fv_order v) = FS_PICKED) (Conflict ''Fulfillment must be picked first'')) (\<lambda>_.
     transaction (
       seq (for_each (fv_lines v) pack_line) (\<lambda>_.
       seq random_uuid (\<lambda>packageId.
       seq now (\<lambda>packedAt.
       seq (create_row packages packages_update same_package
              \<lparr>fp_id = packageId, fp_tenantId = ctx_tenantId ctx, fp_fulfillmentOrderId = i,
               fp_code = dk_packageCode input, fp_weightGrams = dk_weightGrams input,
               fp_dimensions = (case dk_dimensions input of None \<Rightarrow> JNull | Some j \<Rightarrow> j),
               fp_packedAt = packedAt\<rparr>) (\<lambda>pkg.
       seq (update_fulfillment i FS_PACKED) (\<lambda>_.
       ret pkg))))))))"

record carrier_label_input =
  ki_shipmentId :: uuid
  ki_tenantId :: uuid
  ki_carrierKey :: string
  ki_serviceLevel :: string
  ki_weightGrams :: int

record carrier_label =
  kl_trackingNumber :: string
  kl_labelUrl :: string
  kl_rateMinor :: int

type_synonym 's carrier_port = "carrier_label_input \<Rightarrow> ('s, carrier_label) prog"

definition deterministic_carrier :: "(string \<Rightarrow> string) \<Rightarrow> 's carrier_port" where
  "deterministic_carrier sha256 input =
     (let token = take 18 (sha256 (stringify (JObj
        [(''shipmentId'', JStr (ki_shipmentId input)), (''tenantId'', JStr (ki_tenantId input)),
         (''carrierKey'', JStr (ki_carrierKey input)), (''serviceLevel'', JStr (ki_serviceLevel input)),
         (''weightGrams'', JNum (ki_weightGrams input))])))
      in ret \<lparr>kl_trackingNumber = ''LC'' @ js_upper token,
             kl_labelUrl = ''https://labels.local/'' @ ki_carrierKey input @ ''/'' @ token @ ''.pdf'',
             kl_rateMinor = 500 + (ki_weightGrams input + 499) div 500 * 125\<rparr>)"

record label_dto =
  dx_carrierKey :: string
  dx_serviceLevel :: string

definition label ::
  "'m fulfillment_db_scheme carrier_port \<Rightarrow> tenant_context \<Rightarrow> uuid \<Rightarrow> label_dto \<Rightarrow> ('m fulfillment_db_scheme, shipment) prog"
where
  "label carrier ctx i input =
     seq (requireFulfillment ctx i) (\<lambda>v.
     seq (ensure (\<not> (fo_status (fv_order v) \<noteq> FS_PACKED \<or> length (fv_packages v) \<noteq> 1))
            (Conflict ''A packed package is required'')) (\<lambda>_.
     seq (reads (\<lambda>_. hd (fv_packages v))) (\<lambda>pkg.
     seq random_uuid (\<lambda>shipmentId.
     seq (send (RequestLabel shipmentId (dx_carrierKey input) (dx_serviceLevel input) (fp_weightGrams pkg))) (\<lambda>_.
     seq (carrier \<lparr>ki_shipmentId = shipmentId, ki_tenantId = ctx_tenantId ctx,
            ki_carrierKey = dx_carrierKey input, ki_serviceLevel = dx_serviceLevel input,
            ki_weightGrams = fp_weightGrams pkg\<rparr>) (\<lambda>answered.
     transaction (
       seq (create_row shipments shipments_update same_shipment
              \<lparr>sh_id = shipmentId, sh_tenantId = ctx_tenantId ctx, sh_fulfillmentOrderId = i,
               sh_packageId = fp_id pkg, sh_carrierKey = dx_carrierKey input,
               sh_serviceLevel = dx_serviceLevel input, sh_trackingNumber = kl_trackingNumber answered,
               sh_status = FS_LABELED, sh_labelUrl = kl_labelUrl answered, sh_rateMinor = kl_rateMinor answered,
               sh_manifestedAt = None, sh_dispatchedAt = None, sh_deliveredAt = None, sh_version = 1\<rparr>) (\<lambda>shipment.
       seq (update_fulfillment i FS_LABELED) (\<lambda>_.
       seq (lift_result (safe_integer_number (sh_rateMinor shipment) ''Shipment rate'')) (\<lambda>_.
       ret shipment))))))))))"

text \<open>The two transitions; the order is read inside the transaction.\<close>

datatype dispatch_step = DS_MANIFESTED | DS_DISPATCHED

definition step_status :: "dispatch_step \<Rightarrow> fulfillment_status" where
  "step_status next = (case next of DS_MANIFESTED \<Rightarrow> FS_MANIFESTED | DS_DISPATCHED \<Rightarrow> FS_DISPATCHED)"

definition expected_status :: "dispatch_step \<Rightarrow> fulfillment_status" where
  "expected_status next = (case next of DS_MANIFESTED \<Rightarrow> FS_LABELED | DS_DISPATCHED \<Rightarrow> FS_MANIFESTED)"

definition step_error :: "dispatch_step \<Rightarrow> app_error" where
  "step_error next = Conflict (case next of DS_MANIFESTED \<Rightarrow> ''Expected LABELED status''
     | DS_DISPATCHED \<Rightarrow> ''Expected MANIFESTED status'')"

definition transition_shipment :: "dispatch_step \<Rightarrow> instant \<Rightarrow> shipment \<Rightarrow> shipment" where
  "transition_shipment next today h = (case next of
       DS_MANIFESTED \<Rightarrow> h\<lparr>sh_status := FS_MANIFESTED, sh_manifestedAt := Some today, sh_version := sh_version h + 1\<rparr>
     | DS_DISPATCHED \<Rightarrow> h\<lparr>sh_status := FS_DISPATCHED, sh_dispatchedAt := Some today, sh_version := sh_version h + 1\<rparr>)"

definition transition ::
  "tenant_context \<Rightarrow> uuid \<Rightarrow> dispatch_step \<Rightarrow> ('m fulfillment_db_scheme, fulfillment_order \<times> shipment list) prog"
where
  "transition ctx i next = transaction (
     seq (requireFulfillment ctx i) (\<lambda>v.
     seq (ensure (fo_status (fv_order v) = expected_status next) (step_error next)) (\<lambda>_.
     seq now (\<lambda>today.
     seq (update_many shipments shipments_update
            (\<lambda>h. sh_tenantId h = ctx_tenantId ctx \<and> sh_fulfillmentOrderId h = i)
            (transition_shipment next today)) (\<lambda>_.
     seq (update_fulfillment i (step_status next)) (\<lambda>d.
     seq (find_rows shipments (\<lambda>h. sh_fulfillmentOrderId h = i)) (\<lambda>hs.
     ret (d, hs))))))))"

section \<open>Tracking\<close>

datatype tracking_code = TC_IN_TRANSIT | TC_OUT_FOR_DELIVERY | TC_DELIVERED | TC_EXCEPTION

definition tracking_code_name :: "tracking_code \<Rightarrow> string" where
  "tracking_code_name c = (case c of TC_IN_TRANSIT \<Rightarrow> ''IN_TRANSIT'' | TC_OUT_FOR_DELIVERY \<Rightarrow> ''OUT_FOR_DELIVERY''
     | TC_DELIVERED \<Rightarrow> ''DELIVERED'' | TC_EXCEPTION \<Rightarrow> ''EXCEPTION'')"

record tracking_event_dto =
  dt_externalKey :: string
  dt_code :: tracking_code
  dt_description :: string
  dt_location :: "string option"
  dt_occurredAt :: instant
  dt_payload :: "json option"

definition record_tracking ::
  "tenant_context \<Rightarrow> shipment \<Rightarrow> tracking_event_dto \<Rightarrow> ('m fulfillment_db_scheme, tracking_event) prog"
where
  "record_tracking ctx h input = transaction (
     seq random_uuid (\<lambda>i.
     seq (create_row tracking_events tracking_events_update same_tracking_event
            \<lparr>te_id = i, te_tenantId = ctx_tenantId ctx, te_shipmentId = sh_id h,
             te_externalKey = dt_externalKey input, te_code = tracking_code_name (dt_code input),
             te_description = dt_description input, te_location = dt_location input,
             te_occurredAt = dt_occurredAt input,
             te_payload = (case dt_payload input of None \<Rightarrow> JNull | Some j \<Rightarrow> j)\<rparr>) (\<lambda>event.
     seq (when_do (dt_code input = TC_DELIVERED)
            (seq (update_row shipments shipments_update (\<lambda>x. sh_id x = sh_id h)
                    (\<lambda>x. x\<lparr>sh_status := FS_DELIVERED, sh_deliveredAt := Some (dt_occurredAt input)\<rparr>)) (\<lambda>_.
             seq (update_fulfillment (sh_fulfillmentOrderId h) FS_DELIVERED) (\<lambda>_.
             ret ())))) (\<lambda>_.
     ret event))))"

definition tracking ::
  "tenant_context \<Rightarrow> uuid \<Rightarrow> tracking_event_dto \<Rightarrow> ('m fulfillment_db_scheme, tracking_event) prog"
where
  "tracking ctx shipmentId input =
     seq (find_row shipments (\<lambda>h. sh_id h = shipmentId \<and> sh_tenantId h = ctx_tenantId ctx)) (\<lambda>found.
     seq (require found (NotFound ''Resource not found'')) (\<lambda>h.
     seq (find_row tracking_events (\<lambda>e. te_tenantId e = ctx_tenantId ctx \<and> te_shipmentId e = shipmentId
            \<and> te_externalKey e = dt_externalKey input)) (\<lambda>existing.
     case existing of Some e \<Rightarrow> ret e | None \<Rightarrow> record_tracking ctx h input)))"

definition fresh_fulfillment :: fulfillment_db where
  "fresh_fulfillment = commerce_db.extend fresh_commerce (fulfillment_db.fields [] [] [] [] [] [] [] [] [] [])"

end
