(* ===== verification/Returns.thy ===== *)
theory Returns
  imports Fulfillment
begin

text \<open>
  Returns of delivered goods: request, approval, receipt and inspection, the first half of
  \<open>apps/api/src/returns-finance/returns-finance.repository.ts\<close>. An inspection restocks through
  the stock ledger and refunds through the journal of \<open>Finance\<close>. \<open>process.env.NODE_ENV\<close> is an
  argument of the inspection.
\<close>

section \<open>Rows\<close>

record return_authorization =
  ra_id :: uuid
  ra_tenantId :: uuid
  ra_orderId :: uuid
  ra_customerId :: uuid
  ra_number :: string
  ra_reasonCode :: string
  ra_requestedOutcome :: string
  ra_idempotencyKey :: "string option"
  ra_status :: string
  ra_labelUrl :: "string option"
  ra_trackingNumber :: "string option"
  ra_carrierKey :: "string option"
  ra_approvedBy :: "uuid option"
  ra_approvedAt :: "instant option"
  ra_receivedAt :: "instant option"
  ra_resolvedAt :: "instant option"
  ra_version :: int

record return_line =
  rl_id :: uuid
  rl_tenantId :: uuid
  rl_returnAuthorizationId :: uuid
  rl_orderLineId :: uuid
  rl_quantity :: int
  rl_receivedQuantity :: int
  rl_disposition :: "string option"
  rl_resolution :: "string option"
  rl_refundMinor :: int

record return_inspection =
  rn_id :: uuid
  rn_tenantId :: uuid
  rn_returnAuthorizationId :: uuid
  rn_inspectorId :: uuid
  rn_conditionCode :: string
  rn_evidence :: json
  rn_note :: "string option"
  rn_inspectedAt :: instant

record returns_db = fulfillment_db +
  returns :: "return_authorization list"
  return_lines :: "return_line list"
  inspections :: "return_inspection list"

definition same_return :: "return_authorization \<Rightarrow> return_authorization \<Rightarrow> bool" where
  "same_return a b \<longleftrightarrow> ra_id a = ra_id b \<or> ra_tenantId a = ra_tenantId b
     \<and> (ra_number a = ra_number b
       \<or> ra_idempotencyKey a \<noteq> None \<and> ra_idempotencyKey a = ra_idempotencyKey b)"

definition same_return_line :: "return_line \<Rightarrow> return_line \<Rightarrow> bool" where
  "same_return_line a b \<longleftrightarrow> rl_id a = rl_id b \<or> rl_tenantId a = rl_tenantId b
     \<and> rl_returnAuthorizationId a = rl_returnAuthorizationId b \<and> rl_orderLineId a = rl_orderLineId b"

definition same_inspection :: "return_inspection \<Rightarrow> return_inspection \<Rightarrow> bool" where
  "same_inspection a b \<longleftrightarrow> rn_id a = rn_id b"

interpretation returns: row_store returns returns_update
  by unfold_locales simp_all

interpretation return_lines: row_store return_lines return_lines_update
  by unfold_locales simp_all

type_synonym return_view = "return_authorization \<times> return_line list"

definition lines_of_return :: "uuid \<Rightarrow> ('m returns_db_scheme, return_line list) prog" where
  "lines_of_return i = find_rows return_lines (\<lambda>l. rl_returnAuthorizationId l = i)"

definition requireReturn :: "tenant_context \<Rightarrow> uuid \<Rightarrow> ('m returns_db_scheme, return_view) prog" where
  "requireReturn ctx returnId =
     seq (find_row returns (\<lambda>r. ra_id r = returnId \<and> ra_tenantId r = ctx_tenantId ctx)) (\<lambda>found.
     seq (require found (NotFound ''Resource not found'')) (\<lambda>r.
     seq (lines_of_return (ra_id r)) (\<lambda>ls. ret (r, ls))))"

section \<open>Requesting a return\<close>

record return_request_line_dto =
  dq_orderLineId :: uuid
  dq_quantity :: int

record create_return_dto =
  dq_orderId :: uuid
  dq_reasonCode :: string
  dq_requestedOutcome :: string
  dq_lines :: "return_request_line_dto list"

definition assertReturnReplay :: "return_view \<Rightarrow> uuid \<Rightarrow> create_return_dto \<Rightarrow> app_error + return_view" where
  "assertReturnReplay v customerId input = (case v of (r, ls) \<Rightarrow>
     let sameLines = length ls = length (dq_lines input)
           \<and> list_all (\<lambda>q. list_ex (\<lambda>l. rl_orderLineId l = dq_orderLineId q \<and> rl_quantity l = dq_quantity q) ls)
               (dq_lines input)
     in if ra_orderId r \<noteq> dq_orderId input \<or> ra_customerId r \<noteq> customerId
           \<or> ra_reasonCode r \<noteq> dq_reasonCode input \<or> ra_requestedOutcome r \<noteq> dq_requestedOutcome input
           \<or> \<not> sameLines
        then Inl (Conflict ''Idempotency-Key was already used for another return request'')
        else Inr v)"

definition find_return_by_key :: "tenant_context \<Rightarrow> string \<Rightarrow> ('m returns_db_scheme, return_view option) prog" where
  "find_return_by_key ctx key =
     seq (find_row returns (\<lambda>r. ra_tenantId r = ctx_tenantId ctx \<and> ra_idempotencyKey r = Some key)) (\<lambda>found.
     case found of
       None \<Rightarrow> ret None
     | Some r \<Rightarrow> seq (lines_of_return (ra_id r)) (\<lambda>ls. ret (Some (r, ls))))"

text \<open>The lines of returns of the same order that ask for one of these order lines.\<close>

definition prior_return_lines ::
  "tenant_context \<Rightarrow> uuid \<Rightarrow> uuid list \<Rightarrow> ('m returns_db_scheme, return_line list) prog"
where
  "prior_return_lines ctx orderId requested = reads (\<lambda>s. filter (\<lambda>l. rl_tenantId l = ctx_tenantId ctx
     \<and> rl_orderLineId l \<in> set requested
     \<and> list_ex (\<lambda>r. ra_id r = rl_returnAuthorizationId l \<and> ra_orderId r = orderId) (returns s)) (return_lines s))"

definition returned_by_line :: "return_line list \<Rightarrow> uuid \<Rightarrow> int" where
  "returned_by_line prior orderLineId =
     sum_list (map rl_quantity (filter (\<lambda>l. rl_orderLineId l = orderLineId) prior))"

definition line_quantity_exceeded :: "order_line list \<Rightarrow> (uuid \<Rightarrow> int) \<Rightarrow> return_request_line_dto \<Rightarrow> bool" where
  "line_quantity_exceeded ls taken q = (case List.find (\<lambda>l. ol_id l = dq_orderLineId q) ls of
     None \<Rightarrow> True | Some l \<Rightarrow> taken (dq_orderLineId q) + dq_quantity q > ol_quantity l)"

definition create_return_line ::
  "tenant_context \<Rightarrow> uuid \<Rightarrow> uuid \<times> return_request_line_dto \<Rightarrow> ('m returns_db_scheme, unit) prog"
where
  "create_return_line ctx returnId t = (case t of (i, line) \<Rightarrow>
     seq (create_row return_lines return_lines_update same_return_line
            \<lparr>rl_id = i, rl_tenantId = ctx_tenantId ctx, rl_returnAuthorizationId = returnId,
             rl_orderLineId = dq_orderLineId line, rl_quantity = dq_quantity line, rl_receivedQuantity = 0,
             rl_disposition = None, rl_resolution = None, rl_refundMinor = 0\<rparr>) (\<lambda>_. ret ()))"

definition create_return_tx ::
  "tenant_context \<Rightarrow> auth_principal \<Rightarrow> string \<Rightarrow> create_return_dto \<Rightarrow> order_row \<Rightarrow> order_line list \<Rightarrow> uuid
     \<Rightarrow> ('m returns_db_scheme, return_view) prog"
where
  "create_return_tx ctx pr key input d ls i =
     seq (update_many orders orders_update
            (\<lambda>x. od_id x = od_id d \<and> od_tenantId x = ctx_tenantId ctx \<and> od_userId x = pr_userId pr
               \<and> od_version x = od_version d)
            (\<lambda>x. x\<lparr>od_version := od_version x + 1\<rparr>)) (\<lambda>claimed.
     seq (ensure (claimed = 1) (Conflict ''Order was changed by another operation'')) (\<lambda>_.
     seq (prior_return_lines ctx (od_id d) (map dq_orderLineId (dq_lines input))) (\<lambda>prior.
     seq (ensure (\<not> list_ex (line_quantity_exceeded ls (returned_by_line prior)) (dq_lines input))
            (Conflict ''Return quantity exceeds the unreturned order quantity'')) (\<lambda>_.
     seq (with_uuids (dq_lines input)) (\<lambda>named.
     seq (create_row returns returns_update same_return
            \<lparr>ra_id = i, ra_tenantId = ctx_tenantId ctx, ra_orderId = od_id d, ra_customerId = pr_userId pr,
             ra_number = ''RMA-'' @ js_upper (take 8 i), ra_reasonCode = dq_reasonCode input,
             ra_requestedOutcome = dq_requestedOutcome input, ra_idempotencyKey = Some key,
             ra_status = ''REQUESTED'', ra_labelUrl = None, ra_trackingNumber = None, ra_carrierKey = None,
             ra_approvedBy = None, ra_approvedAt = None, ra_receivedAt = None, ra_resolvedAt = None,
             ra_version = 1\<rparr>) (\<lambda>r.
     seq (for_each named (create_return_line ctx i)) (\<lambda>_.
     seq (lines_of_return i) (\<lambda>ls'. ret (r, ls')))))))))"

definition createReturn ::
  "tenant_context \<Rightarrow> auth_principal \<Rightarrow> string \<Rightarrow> create_return_dto \<Rightarrow> ('m returns_db_scheme, return_view) prog"
where
  "createReturn ctx pr idempotencyKey input =
     (let key = js_trim idempotencyKey in
      seq (ensure (\<not> (length key < 8 \<or> length key > 160))
             (Conflict ''A valid Idempotency-Key header is required'')) (\<lambda>_.
      seq (find_return_by_key ctx key) (\<lambda>prior.
      case prior of
        Some v \<Rightarrow> lift_result (assertReturnReplay v (pr_userId pr) input)
      | None \<Rightarrow>
          seq (find_row orders (\<lambda>d. od_id d = dq_orderId input \<and> od_tenantId d = ctx_tenantId ctx
                 \<and> od_userId d = pr_userId pr)) (\<lambda>found.
          seq (require found (NotFound ''Resource not found'')) (\<lambda>d.
          seq (find_rows order_lines (\<lambda>l. ol_orderId l = od_id d)) (\<lambda>ls.
          seq (ensure (length (js_set (map dq_orderLineId (dq_lines input))) = length (dq_lines input))
                 (Conflict ''Each order line can appear only once'')) (\<lambda>_.
          seq (ensure (\<not> list_ex (line_quantity_exceeded ls (\<lambda>_. 0)) (dq_lines input))
                 (Conflict ''Invalid return quantity'')) (\<lambda>_.
          seq random_uuid (\<lambda>i.
          catch (transaction (create_return_tx ctx pr key input d ls i))
            (\<lambda>e. seq (find_return_by_key ctx key) (\<lambda>concurrent.
                  case concurrent of
                    Some v \<Rightarrow> lift_result (assertReturnReplay v (pr_userId pr) input)
                  | None \<Rightarrow> throw e)))))))))))"

section \<open>Approval and receipt\<close>

definition approveReturn ::
  "tenant_context \<Rightarrow> auth_principal \<Rightarrow> uuid \<Rightarrow> ('m returns_db_scheme, return_view) prog"
where
  "approveReturn ctx pr returnId =
     seq (requireReturn ctx returnId) (\<lambda>v.
     seq (ensure (ra_status (fst v) = ''REQUESTED'') (Conflict ''Return is not awaiting approval'')) (\<lambda>_.
     seq now (\<lambda>today.
     seq (update_row returns returns_update (\<lambda>x. ra_id x = ra_id (fst v))
            (\<lambda>x. x\<lparr>ra_status := ''LABEL_ISSUED'', ra_carrierKey := Some ''deterministic-reverse'',
                   ra_trackingNumber := Some (''RET'' @ js_upper (take 18 (filter (\<lambda>c. c \<noteq> CHR ''-'') (ra_id (fst v))))),
                   ra_labelUrl := Some (''https://labels.invalid/returns/'' @ ra_id (fst v) @ ''.pdf''),
                   ra_approvedBy := Some (pr_userId pr), ra_approvedAt := Some today,
                   ra_version := ra_version x + 1\<rparr>)) (\<lambda>r.
     seq (lines_of_return (ra_id r)) (\<lambda>ls. ret (r, ls))))))"

record receive_return_line_dto =
  dc_lineId :: uuid
  dc_quantity :: int

definition resolves_lines :: "return_line list \<Rightarrow> uuid list \<Rightarrow> bool" where
  "resolves_lines ls lineIds \<longleftrightarrow> \<not> (length lineIds \<noteq> length ls \<or> length (js_set lineIds) \<noteq> length lineIds)"

definition received_in_full :: "return_line list \<Rightarrow> receive_return_line_dto \<Rightarrow> bool" where
  "received_in_full ls r = (case List.find (\<lambda>l. rl_id l = dc_lineId r) ls of
     None \<Rightarrow> False | Some l \<Rightarrow> dc_quantity r = rl_quantity l)"

definition receive_return_line :: "receive_return_line_dto \<Rightarrow> ('m returns_db_scheme, unit) prog" where
  "receive_return_line r =
     seq (update_row return_lines return_lines_update (\<lambda>l. rl_id l = dc_lineId r)
            (\<lambda>l. l\<lparr>rl_receivedQuantity := dc_quantity r\<rparr>)) (\<lambda>_. ret ())"

definition receiveReturn ::
  "tenant_context \<Rightarrow> uuid \<Rightarrow> receive_return_line_dto list \<Rightarrow> ('m returns_db_scheme, return_view) prog"
where
  "receiveReturn ctx returnId lines =
     seq (requireReturn ctx returnId) (\<lambda>v.
     seq (ensure (ra_status (fst v) \<in> {''LABEL_ISSUED'', ''IN_TRANSIT''})
            (Conflict ''Return cannot be received from its current state'')) (\<lambda>_.
     seq (ensure (resolves_lines (snd v) (map dc_lineId lines))
            (Conflict ''Receiving must resolve every return line exactly once'')) (\<lambda>_.
     seq (ensure (list_all (received_in_full (snd v)) lines)
            (Conflict ''Every returned unit must be received'')) (\<lambda>_.
     transaction (
       seq now (\<lambda>today.
       seq (update_many returns returns_update
              (\<lambda>x. ra_id x = ra_id (fst v) \<and> ra_tenantId x = ctx_tenantId ctx
                 \<and> ra_status x \<in> {''LABEL_ISSUED'', ''IN_TRANSIT''} \<and> ra_version x = ra_version (fst v))
              (\<lambda>x. x\<lparr>ra_status := ''RECEIVED'', ra_receivedAt := Some today, ra_version := ra_version x + 1\<rparr>)) (\<lambda>claimed.
       seq (ensure (claimed = 1) (Conflict ''Return was changed by another operation'')) (\<lambda>_.
       seq (for_each lines receive_return_line) (\<lambda>_.
       seq (find_row returns (\<lambda>x. ra_id x = ra_id (fst v))) (\<lambda>found.
       seq (require found RecordMissing) (\<lambda>r.
       seq (lines_of_return (ra_id r)) (\<lambda>ls. ret (r, ls)))))))))))))"

section \<open>Inspection\<close>

record inspect_return_line_dto =
  di_lineId :: uuid
  di_disposition :: string
  di_resolution :: string
  di_refundMinor :: int

record inspect_return_dto =
  di_conditionCode :: string
  di_evidence :: "json option"
  di_note :: "string option"
  di_lines :: "inspect_return_line_dto list"

text \<open>The returned units of a line go back to the stock on hand, with their ledger entry.\<close>

definition restock_line ::
  "tenant_context \<Rightarrow> auth_principal \<Rightarrow> return_authorization \<Rightarrow> return_line \<Rightarrow> ('m returns_db_scheme, unit) prog"
where
  "restock_line ctx pr r l =
     seq (find_row order_lines (\<lambda>x. ol_id x = rl_orderLineId l \<and> ol_tenantId x = ctx_tenantId ctx)) (\<lambda>orderLine.
     seq (case orderLine of
            None \<Rightarrow> ret None
          | Some x \<Rightarrow> find_row items (\<lambda>i. ii_tenantId i = ctx_tenantId ctx \<and> ii_productRef i = ol_variantId x)) (\<lambda>found.
     seq (require found (Conflict ''Return inventory item is unavailable'')) (\<lambda>item.
     seq (add_balance (ctx_tenantId ctx) (ii_id item) ON_HAND (rl_quantity l)) (\<lambda>_.
     seq (append_entry (ctx_tenantId ctx) (ii_id item) ON_HAND (rl_quantity l) ''RETURN_RESTOCK'' ''RETURN_INSPECTED''
            ''RETURN_LINE'' (rl_id l) (''return:'' @ ra_id r @ '':restock:'' @ rl_id l)
            (ctx_correlationId ctx) (Some (pr_userId pr))) (\<lambda>_.
     ret ())))))"

definition inspect_line ::
  "tenant_context \<Rightarrow> auth_principal \<Rightarrow> return_view \<Rightarrow> inspect_return_line_dto \<Rightarrow> int \<Rightarrow> ('m returns_db_scheme, int) prog"
where
  "inspect_line ctx pr v resolution refundMinor =
     seq (reads (\<lambda>_. List.find (\<lambda>l. rl_id l = di_lineId resolution) (snd v))) (\<lambda>found.
     seq (ensure (case found of None \<Rightarrow> False | Some l \<Rightarrow> rl_receivedQuantity l = rl_quantity l)
            (Conflict ''Every returned unit must be received before resolution'')) (\<lambda>_.
     seq (require found RecordMissing) (\<lambda>l.
     seq (update_row return_lines return_lines_update (\<lambda>x. rl_id x = rl_id l)
            (\<lambda>x. x\<lparr>rl_disposition := Some (di_disposition resolution),
                   rl_resolution := Some (di_resolution resolution),
                   rl_refundMinor := di_refundMinor resolution\<rparr>)) (\<lambda>_.
     seq (when_do (di_disposition resolution = ''RESTOCK'') (restock_line ctx pr (fst v) l)) (\<lambda>_.
     ret (refundMinor + di_refundMinor resolution))))))"

definition return_account :: "tenant_context \<Rightarrow> string \<Rightarrow> ('m returns_db_scheme, financial_account option) prog" where
  "return_account ctx code = find_row accounts (\<lambda>a. fa_tenantId a = ctx_tenantId ctx \<and> fa_code a = code
     \<and> fa_currency a = ''USD'')"

definition post_return_refund ::
  "tenant_context \<Rightarrow> auth_principal \<Rightarrow> return_authorization \<Rightarrow> int \<Rightarrow> ('m returns_db_scheme, unit) prog"
where
  "post_return_refund ctx pr r refundMinor =
     seq (lift_result (safe_integer_number refundMinor ''Return refund'')) (\<lambda>amount.
     seq (return_account ctx ''5000'') (\<lambda>refundAccount.
     seq (return_account ctx ''1000'') (\<lambda>cashAccount.
     seq (require refundAccount (Conflict ''Finance chart is not configured'')) (\<lambda>expense.
     seq (require cashAccount (Conflict ''Finance chart is not configured'')) (\<lambda>cash.
     seq (post_journal_in_transaction ctx pr
            \<lparr>pj_sourceType = ''RETURN'', pj_sourceId = ra_id r, pj_description = ''Refund for '' @ ra_number r,
             pj_currency = ''USD'', pj_idempotencyKey = ''return:'' @ ra_id r @ '':refund'', pj_reversalOfId = None,
             pj_lines = [\<lparr>jd_accountId = fa_id expense, jd_debitMinor = amount, jd_creditMinor = 0, jd_memo = None\<rparr>,
                         \<lparr>jd_accountId = fa_id cash, jd_debitMinor = 0, jd_creditMinor = amount, jd_memo = None\<rparr>]\<rparr>) (\<lambda>_.
     ret ()))))))"

definition inspect_return_tx ::
  "tenant_context \<Rightarrow> auth_principal \<Rightarrow> return_view \<Rightarrow> inspect_return_dto \<Rightarrow> ('m returns_db_scheme, return_view) prog"
where
  "inspect_return_tx ctx pr v input =
     seq (update_many returns returns_update
            (\<lambda>x. ra_id x = ra_id (fst v) \<and> ra_tenantId x = ctx_tenantId ctx \<and> ra_status x = ''RECEIVED''
               \<and> ra_version x = ra_version (fst v))
            (\<lambda>x. x\<lparr>ra_version := ra_version x + 1\<rparr>)) (\<lambda>claimed.
     seq (ensure (claimed = 1) (Conflict ''Return was changed by another operation'')) (\<lambda>_.
     seq (fold_each (di_lines input) 0 (inspect_line ctx pr v)) (\<lambda>refundMinor.
     seq random_uuid (\<lambda>i.
     seq now (\<lambda>today.
     seq (create_row inspections inspections_update same_inspection
            \<lparr>rn_id = i, rn_tenantId = ctx_tenantId ctx, rn_returnAuthorizationId = ra_id (fst v),
             rn_inspectorId = pr_userId pr, rn_conditionCode = di_conditionCode input,
             rn_evidence = (case di_evidence input of None \<Rightarrow> JNull | Some j \<Rightarrow> j),
             rn_note = di_note input, rn_inspectedAt = today\<rparr>) (\<lambda>_.
     seq (when_do (refundMinor > 0) (post_return_refund ctx pr (fst v) refundMinor)) (\<lambda>_.
     seq now (\<lambda>resolvedAt.
     seq (update_row returns returns_update (\<lambda>x. ra_id x = ra_id (fst v))
            (\<lambda>x. x\<lparr>ra_status := ''RESOLVED'', ra_resolvedAt := Some resolvedAt, ra_version := ra_version x + 1\<rparr>)) (\<lambda>r.
     seq (lines_of_return (ra_id r)) (\<lambda>ls. ret (r, ls)))))))))))"

definition inspectReturn ::
  "bool \<Rightarrow> tenant_context \<Rightarrow> auth_principal \<Rightarrow> uuid \<Rightarrow> inspect_return_dto \<Rightarrow> ('m returns_db_scheme, return_view) prog"
where
  "inspectReturn production ctx pr returnId input =
     seq (requireReturn ctx returnId) (\<lambda>v.
     seq (ensure (ra_status (fst v) = ''RECEIVED'') (Conflict ''Only received returns can be inspected'')) (\<lambda>_.
     seq (ensure (resolves_lines (snd v) (map di_lineId (di_lines input)))
            (Conflict ''Inspection must resolve every return line exactly once'')) (\<lambda>_.
     seq (ensure (\<not> (production \<and> list_ex (\<lambda>l. di_refundMinor l > 0) (di_lines input)))
            (ServiceUnavailable ''A production return-refund provider must be configured before issuing refunds'')) (\<lambda>_.
     transaction (inspect_return_tx ctx pr v input)))))"

definition fresh_returns :: returns_db where
  "fresh_returns = fulfillment_db.extend fresh_fulfillment (returns_db.fields [] [] [])"

end
