(* ===== verification/Stock_Ledger.thy ===== *)
theory Stock_Ledger
  imports Inventory
begin

text \<open>
  The ledger invariant of the stock component. \<open>imb bs es k\<close> is the difference between
  the balance and the ledger total of one key \<open>(tenant, item, state)\<close>; a table pair is
  reconciled when it is zero everywhere. Each step of a movement shifts it by a known
  amount, and the steps of a whole movement cancel.
\<close>

section \<open>Balance against ledger\<close>

type_synonym stock_key = "uuid \<times> uuid \<times> inventory_state"

definition key_of_balance :: "inventory_balance \<Rightarrow> stock_key" where
  "key_of_balance b = (ib_tenantId b, ib_inventoryItemId b, ib_state b)"

definition key_of_entry :: "stock_ledger_entry \<Rightarrow> stock_key" where
  "key_of_entry e = (le_tenantId e, le_inventoryItemId e, le_state e)"

definition balance_at :: "inventory_balance list \<Rightarrow> stock_key \<Rightarrow> int" where
  "balance_at bs k = sum_list (map (\<lambda>b. if key_of_balance b = k then ib_quantity b else 0) bs)"

definition ledger_at :: "stock_ledger_entry list \<Rightarrow> stock_key \<Rightarrow> int" where
  "ledger_at es k = sum_list (map (\<lambda>e. if key_of_entry e = k then le_quantityDelta e else 0) es)"

definition imb :: "inventory_balance list \<Rightarrow> stock_ledger_entry list \<Rightarrow> stock_key \<Rightarrow> int" where
  "imb bs es k = balance_at bs k - ledger_at es k"

definition reconciled :: "'m inventory_db_scheme \<Rightarrow> bool" where
  "reconciled s \<longleftrightarrow> (\<forall>k. balance_at (balances s) k = ledger_at (ledger s) k)"

definition stock_nonnegative :: "'m inventory_db_scheme \<Rightarrow> bool" where
  "stock_nonnegative s \<longleftrightarrow> (\<forall>b\<in>set (balances s). 0 \<le> ib_quantity b)"

lemma reconciled_imb: "reconciled s \<longleftrightarrow> (\<forall>k. imb (balances s) (ledger s) k = 0)"
  by (simp add: reconciled_def imb_def)

lemma balance_key_iff: "balance_key t i st b \<longleftrightarrow> key_of_balance b = (t, i, st)"
  by (auto simp: balance_key_def key_of_balance_def)

lemma imb_append_balance [simp]:
  "imb (bs @ [b]) es k = imb bs es k + (if key_of_balance b = k then ib_quantity b else 0)"
  by (simp add: imb_def balance_at_def)

lemma imb_append_entry [simp]:
  "imb bs (es @ [e]) k = imb bs es k - (if key_of_entry e = k then le_quantityDelta e else 0)"
  by (simp add: imb_def ledger_at_def)

lemma imb_update_first:
  assumes "List.find P bs = Some b" and "key_of_balance (f b) = key_of_balance b"
  shows "imb (update_first P f bs) es k =
    imb bs es k + (if key_of_balance b = k then ib_quantity (f b) - ib_quantity b else 0)"
  using assms by (simp add: imb_def balance_at_def sum_update_first)

lemma imb_update_single:
  assumes "length (filter P bs) = 1" and "\<And>b. P b \<Longrightarrow> key_of_balance b = k'"
    and "\<And>b. key_of_balance (f b) = key_of_balance b" and "\<And>b. ib_quantity (f b) = ib_quantity b + d"
  shows "imb (update_where P f bs) es k = imb bs es k + (if k' = k then d else 0)"
proof -
  from assms(1) obtain b where b: "filter P bs = [b]" "P b" using filter_length_1D by blast
  with assms(2) have "key_of_balance b = k'" by blast
  with b assms(3,4) show ?thesis by (simp add: imb_def balance_at_def sum_update_where)
qed

section \<open>The steps of a movement\<close>

text \<open>\<open>shift d k0 f\<close>: the difference \<open>f\<close> with \<open>d\<close> added at one key.\<close>

definition shift :: "int \<Rightarrow> stock_key \<Rightarrow> (stock_key \<Rightarrow> int) \<Rightarrow> stock_key \<Rightarrow> int" where
  "shift d k0 f = (\<lambda>k. f k + (if k = k0 then d else 0))"

lemma shift_cancel [simp]:
  "shift d k (shift (- d) k f) = f" "shift (- d) k (shift d k f) = f"
  "shift (a - b) k (shift (b - a) k f) = f"
  by (auto simp: shift_def)

lemma shift_zero [simp]: "shift 0 k f = f"
  by (simp add: shift_def)

lemma shift_commute: "shift d k (shift e l f) = shift e l (shift d k f)"
  by (auto simp: shift_def)

lemma take_balance_moves:
  assumes "take_balance tenant item st q s = (Inr n, t)" and "n = 1"
  shows "ledger t = ledger s
    \<and> (\<forall>es. imb (balances t) es = shift (- q) (tenant, item, st) (imb (balances s) es))"
proof -
  from assms have one: "length (filter (\<lambda>b. balance_key tenant item st b \<and> q \<le> ib_quantity b) (balances s)) = 1"
    and t: "t = balances_update (update_where (\<lambda>b. balance_key tenant item st b \<and> q \<le> ib_quantity b)
        (\<lambda>b. b\<lparr>ib_quantity := ib_quantity b - q, ib_version := ib_version b + 1\<rparr>)) s"
    by (auto simp: take_balance_def)
  have "imb (balances t) es k =
      imb (balances s) es k + (if (tenant, item, st) = k then - q else 0)" for es k
    unfolding t balances.rows_modify
    by (rule imb_update_single [OF one]) (auto simp: balance_key_iff key_of_balance_def)
  then show ?thesis by (auto simp: t shift_def fun_eq_iff)
qed

lemma put_balance_moves:
  assumes "upsert_row balances balances_update same_balance (balance_key tenant item st) f
      \<lparr>ib_id = i, ib_tenantId = tenant, ib_inventoryItemId = item, ib_state = st,
       ib_quantity = q, ib_version = 1\<rparr> s = (Inr b, t)"
    and "\<And>b. key_of_balance (f b) = key_of_balance b"
  shows "ledger t = ledger s
    \<and> (\<forall>es. imb (balances t) es = shift
          (case List.find (balance_key tenant item st) (balances s) of
             None \<Rightarrow> q | Some b \<Rightarrow> ib_quantity (f b) - ib_quantity b)
          (tenant, item, st) (imb (balances s) es))"
proof (cases "List.find (balance_key tenant item st) (balances s)")
  case None
  with assms show ?thesis by (auto simp: upsert_row_Inr key_of_balance_def shift_def fun_eq_iff)
next
  case (Some b)
  then have "key_of_balance b = (tenant, item, st)" by (auto dest: find_SomeD simp: balance_key_iff)
  with Some assms show ?thesis by (auto simp: upsert_row_Inr imb_update_first shift_def fun_eq_iff)
qed

lemma set_balance_moves:
  assumes "upsert_row balances balances_update same_balance (balance_key tenant item st)
      (\<lambda>b. b\<lparr>ib_quantity := q, ib_version := ib_version b + 1\<rparr>)
      \<lparr>ib_id = i, ib_tenantId = tenant, ib_inventoryItemId = item, ib_state = st,
       ib_quantity = q, ib_version = 1\<rparr> s = (Inr b, t)"
  shows "ledger t = ledger s
    \<and> (\<forall>es. imb (balances t) es = shift
          (q - (case List.find (balance_key tenant item st) (balances s) of
                  None \<Rightarrow> 0 | Some b \<Rightarrow> ib_quantity b))
          (tenant, item, st) (imb (balances s) es))"
  using put_balance_moves [OF assms]
  by (simp add: key_of_balance_def split: option.splits)

lemma add_balance_moves:
  assumes "add_balance tenant item st q s = (Inr b, t)"
  shows "ledger t = ledger s
    \<and> (\<forall>es. imb (balances t) es = shift q (tenant, item, st) (imb (balances s) es))"
proof -
  from assms obtain u where u: "upsert_row balances balances_update same_balance (balance_key tenant item st)
       (\<lambda>b. b\<lparr>ib_quantity := ib_quantity b + q, ib_version := ib_version b + 1\<rparr>)
       \<lparr>ib_id = uuid_source s (uuids_drawn s), ib_tenantId = tenant, ib_inventoryItemId = item,
        ib_state = st, ib_quantity = q, ib_version = 1\<rparr> u = (Inr b, t)"
    and "balances u = balances s" "ledger u = ledger s"
    by (auto simp: add_balance_def)
  with put_balance_moves [OF u] show ?thesis
    by (simp add: key_of_balance_def split: option.splits)
qed

lemma append_entry_moves:
  assumes "append_entry tenant item st d operation reason sourceType sourceId key corr actor s = (Inr e, t)"
  shows "balances t = balances s
    \<and> (\<forall>bs. imb bs (ledger t) = shift (- d) (tenant, item, st) (imb bs (ledger s)))"
  using assms by (auto simp: append_entry_def key_of_entry_def shift_def fun_eq_iff)

text \<open>Steps that leave both tables alone.\<close>

lemma upsert_item_stock:
  "upsert_row items items_update c P f r s = (Inr i, t) \<Longrightarrow> balances t = balances s \<and> ledger t = ledger s"
  by (auto simp: upsert_row_Inr split: option.splits)

lemma audit_stock:
  "audit_as ctx pr action entityType entityId reason metadata method s = (Inr a, t) \<Longrightarrow>
   balances t = balances s \<and> ledger t = ledger s"
  by (auto simp: audit_as_def)

lemma publish_stock:
  "publish tenant type subject payload correlation s = (Inr e, t) \<Longrightarrow>
   balances t = balances s \<and> ledger t = ledger s"
  by (auto simp: publish_def)

lemmas stock_moves = take_balance_moves add_balance_moves set_balance_moves append_entry_moves
  upsert_item_stock audit_stock publish_stock

lemma stock_more:
  "runtime.more t = runtime.more s \<Longrightarrow> balances t = balances s \<and> ledger t = ledger s"
  by (cases s; cases t) simp

section \<open>The contract of a movement\<close>

text \<open>
  What a repository method promises the stock component: where it returns, balances and
  ledger have moved together. Then a database transaction around it keeps the tables
  reconciled whether it returns or throws, and so does any run of such transactions.
\<close>

locale stock_movement =
  fixes body :: "'x \<Rightarrow> ('m inventory_db_scheme, 'a) prog"
  assumes body_balanced:
    "body x s = (Inr y, t) \<Longrightarrow> imb (balances t) (ledger t) = imb (balances s) (ledger s)"
begin

lemma transaction_imbalance:
  assumes "transaction (body x) s = (r, t)"
  shows "imb (balances t) (ledger t) = imb (balances s) (ledger s)"
proof (cases r)
  case (Inl e)
  with assms have "runtime.more t = runtime.more s" by (blast dest: transaction_rolls_back)
  then show ?thesis by (auto dest: stock_more)
next
  case (Inr y)
  with assms show ?thesis by (auto intro: body_balanced)
qed

end

sublocale stock_movement \<subseteq> books: atomic_invariant reconciled body
proof (unfold_locales, goal_cases)
  case (1 t s)
  then show ?case by (auto simp: reconciled_def dest: stock_more)
next
  case (2 s x y t)
  from body_balanced [OF 2(2)] 2(1) show ?case by (simp add: reconciled_imb)
qed

section \<open>Feeds and expiry are movements\<close>

lemma apply_feed_moves:
  "apply_inventory_feed ctx pr dto s = (Inr r, t) \<Longrightarrow>
   imb (balances t) (ledger t) = imb (balances s) (ledger s)"
  by (auto simp: apply_inventory_feed_def split: if_splits dest!: stock_moves)

interpretation feed: stock_movement "\<lambda>(ctx, pr, dto). inventory_feed_tx ctx pr dto"
  by unfold_locales
    (auto simp: inventory_feed_tx_def apply_feed_moves split: option.splits prod.splits)

interpretation expiry: stock_movement release_reservation_tx
  by unfold_locales
    (auto simp: release_reservation_tx_def shift_commute split: if_splits dest!: stock_moves)

lemma inventory_feed_reconciled:
  "reconciled s \<Longrightarrow> inventory_feed ctx pr dto s = (r, t) \<Longrightarrow> reconciled t"
  using feed.books.transaction_maintains [of s "(ctx, pr, dto)"] by (simp add: inventory_feed_def)

lemma release_reservation_reconciled:
  "reconciled s \<Longrightarrow> release_reservation r s = (x, t) \<Longrightarrow> reconciled t"
  using expiry.books.transaction_maintains [of s r] by (simp add: release_reservation_def)

lemma always_reconciled_release: "always reconciled (release_reservation r)"
  by (auto intro: alwaysI release_reservation_reconciled)

lemma always_reconciled_batch: "always reconciled release_batch"
  unfolding release_batch_def
  by (intro hoare_intros always_reconciled_release)
    (auto simp: always_def now_def find_rows_def reconciled_def)

section \<open>The reconciliation report\<close>

definition stock_tables :: "'m inventory_db_scheme \<Rightarrow> bool" where
  "stock_tables s \<longleftrightarrow> distinct (map key_of_balance (balances s))
     \<and> (\<forall>i\<in>set (items s).
          (\<forall>b\<in>set (balances s). ib_inventoryItemId b = ii_id i \<longrightarrow> ib_tenantId b = ii_tenantId i)
        \<and> (\<forall>e\<in>set (ledger s). le_inventoryItemId e = ii_id i \<longrightarrow> le_tenantId e = ii_tenantId i))"

lemma sum_key_found:
  assumes "distinct (map key bs)"
  shows "(sum_list (map (\<lambda>b. if key b = k then q b else 0) bs) :: int) =
    (case List.find (\<lambda>b. key b = k) bs of None \<Rightarrow> 0 | Some b \<Rightarrow> q b)"
  using assms
proof (induction bs)
  case Nil
  then show ?case by simp
next
  case (Cons b bs)
  show ?case
  proof (cases "key b = k")
    case True
    with Cons.prems have "k \<notin> key ` set bs" by simp
    then have "sum_list (map (\<lambda>b. if key b = k then q b else 0) bs) = 0"
      by (induction bs) auto
    with True show ?thesis by simp
  next
    case False
    with Cons show ?thesis by simp
  qed
qed

lemma find_filter: "List.find P (filter Q xs) = List.find (\<lambda>x. Q x \<and> P x) xs"
  by (induction xs) auto

lemma find_cong': "(\<And>x. x \<in> set xs \<Longrightarrow> P x = Q x) \<Longrightarrow> List.find P xs = List.find Q xs"
  by (induction xs) auto

lemma foldl_sum: "foldl (\<lambda>acc e. acc + f e) (a :: int) xs = a + sum_list (map f xs)"
  by (induction xs arbitrary: a) auto

lemma sum_filter_if: "(sum_list (map f (filter P xs)) :: int) = sum_list (map (\<lambda>x. if P x then f x else 0) xs)"
  by (induction xs) auto

lemma balance_found:
  assumes "stock_tables s" and "i \<in> set (items s)"
  shows "(case List.find (\<lambda>b. ib_state b = st) (filter (\<lambda>b. ib_inventoryItemId b = ii_id i) (balances s)) of
            None \<Rightarrow> 0 | Some b \<Rightarrow> ib_quantity b) = balance_at (balances s) (ii_tenantId i, ii_id i, st)"
proof -
  have "List.find (\<lambda>b. ib_inventoryItemId b = ii_id i \<and> ib_state b = st) (balances s) =
      List.find (\<lambda>b. key_of_balance b = (ii_tenantId i, ii_id i, st)) (balances s)"
    using assms by (intro find_cong') (auto simp: stock_tables_def key_of_balance_def)
  with assms(1) show ?thesis by (simp add: find_filter balance_at_def sum_key_found stock_tables_def)
qed

lemma ledger_found:
  assumes "stock_tables s" and "i \<in> set (items s)"
  shows "foldl (\<lambda>acc e. acc + le_quantityDelta e) 0
      (filter (\<lambda>e. le_state e = st) (filter (\<lambda>e. le_inventoryItemId e = ii_id i) (ledger s)))
    = ledger_at (ledger s) (ii_tenantId i, ii_id i, st)"
proof -
  have "sum_list (map (\<lambda>e. if le_state e = st \<and> le_inventoryItemId e = ii_id i then le_quantityDelta e else 0) (ledger s))
      = sum_list (map (\<lambda>e. if key_of_entry e = (ii_tenantId i, ii_id i, st) then le_quantityDelta e else 0) (ledger s))"
    using assms by (intro arg_cong [where f = sum_list] map_cong) (auto simp: stock_tables_def key_of_entry_def)
  then show ?thesis by (simp add: foldl_sum sum_filter_if ledger_at_def conj_commute)
qed

lemma reconcile_state_row:
  assumes "stock_tables s" and "i \<in> set (items s)"
    and "reconcile_state i (filter (\<lambda>b. ib_inventoryItemId b = ii_id i) (balances s))
           (filter (\<lambda>e. le_inventoryItemId e = ii_id i) (ledger s)) st = Inr r"
  shows "rr_reconciled r \<longleftrightarrow> balance_at (balances s) (ii_tenantId i, ii_id i, st)
      = ledger_at (ledger s) (ii_tenantId i, ii_id i, st)"
  using assms(3) unfolding reconcile_state_def Let_def balance_found [OF assms(1,2)]
    ledger_found [OF assms(1,2)]
  by (auto simp: safe_integer_number_def split: if_splits)

lemma unlisted_state:
  assumes "st \<notin> ib_state ` {b \<in> set (balances s). ib_inventoryItemId b = i}"
    and "st \<notin> le_state ` {e \<in> set (ledger s). le_inventoryItemId e = i}"
  shows "balance_at (balances s) (t, i, st) = ledger_at (ledger s) (t, i, st)"
proof -
  have "\<forall>b\<in>set (balances s). key_of_balance b \<noteq> (t, i, st)" using assms(1) by (auto simp: key_of_balance_def)
  then have "balance_at (balances s) (t, i, st) = 0" by (simp add: balance_at_def sum_list_0 cong: map_cong)
  moreover have "\<forall>e\<in>set (ledger s). key_of_entry e \<noteq> (t, i, st)" using assms(2) by (auto simp: key_of_entry_def)
  then have "ledger_at (ledger s) (t, i, st) = 0" by (simp add: ledger_at_def sum_list_0 cong: map_cong)
  ultimately show ?thesis by simp
qed

lemma concat_results_all:
  assumes "concat (map (\<lambda>i. map (f i) (g i)) xs) = map Inr rows"
  shows "(\<forall>r\<in>set rows. P r) \<longleftrightarrow> (\<forall>i\<in>set xs. \<forall>st\<in>set (g i). \<exists>r. f i st = Inr r \<and> P r)"
proof -
  have image: "(\<Union>i\<in>set xs. f i ` set (g i)) = Inr ` set rows"
    using arg_cong [OF assms, of set] by simp
  show ?thesis
  proof (intro iffI ballI)
    fix i st assume all: "\<forall>r\<in>set rows. P r" and "i \<in> set xs" "st \<in> set (g i)"
    then have "f i st \<in> Inr ` set rows" unfolding image [symmetric] by blast
    with all show "\<exists>r. f i st = Inr r \<and> P r" by blast
  next
    fix r assume all: "\<forall>i\<in>set xs. \<forall>st\<in>set (g i). \<exists>r. f i st = Inr r \<and> P r" and "r \<in> set rows"
    then have "Inr r \<in> (\<Union>i\<in>set xs. f i ` set (g i))" unfolding image by blast
    then obtain i st where "i \<in> set xs" "st \<in> set (g i)" "Inr r = f i st" by blast
    with all show "P r" by (metis sum.inject(2))
  qed
qed

text \<open>
  C13. The reconciliation report tells the truth: it says reconciled exactly when, for every
  item of the tenant and every state, the balance is the sum of the ledger entries, and it
  then counts no mismatch. It changes nothing.
\<close>

theorem reconciliation_report_exact:
  assumes "inventory_reconciliation ctx s = (Inr report, t)" and "stock_tables s"
  shows "t = s \<and> (rp_reconciled report \<longleftrightarrow>
      (\<forall>i\<in>set (items s). ii_tenantId i = ctx_tenantId ctx \<longrightarrow> (\<forall>st.
         balance_at (balances s) (ctx_tenantId ctx, ii_id i, st)
         = ledger_at (ledger s) (ctx_tenantId ctx, ii_id i, st))))
    \<and> (rp_mismatches report = 0 \<longleftrightarrow> rp_reconciled report)"
proof -
  let ?bs = "\<lambda>i. filter (\<lambda>b. ib_inventoryItemId b = ii_id i) (balances s)"
  let ?es = "\<lambda>i. filter (\<lambda>e. le_inventoryItemId e = ii_id i) (ledger s)"
  let ?states = "\<lambda>i. js_set (map ib_state (?bs i) @ map le_state (?es i))"
  let ?items = "sort_key ii_sku (filter (\<lambda>i. ii_tenantId i = ctx_tenantId ctx) (items s))"
  let ?eq = "\<lambda>i st. balance_at (balances s) (ii_tenantId i, ii_id i, st)
      = ledger_at (ledger s) (ii_tenantId i, ii_id i, st)"
  from assms(1) obtain rows where
    rows: "concat (map (\<lambda>i. map (reconcile_state i (?bs i) (?es i)) (?states i)) ?items) = map Inr rows"
    and report: "rp_reconciled report \<longleftrightarrow> list_all rr_reconciled rows"
      "rp_mismatches report = length (filter (\<lambda>r. \<not> rr_reconciled r) rows)" and t: "t = s"
    by (auto simp: inventory_reconciliation_def sequence_results_Inr Let_def)
  have every: "\<exists>r. reconcile_state i (?bs i) (?es i) st = Inr r"
    if "i \<in> set ?items" "st \<in> set (?states i)" for i st
    using concat_results_all [OF rows, of "\<lambda>_. True"] that by blast
  have rows_all: "list_all rr_reconciled rows \<longleftrightarrow> (\<forall>i\<in>set ?items. \<forall>st\<in>set (?states i). ?eq i st)"
    unfolding list_all_iff concat_results_all [OF rows]
    using every by (intro ball_cong refl) (fastforce dest: reconcile_state_row [OF assms(2), rotated])
  have listed: "(\<forall>st\<in>set (?states i). ?eq i st) \<longleftrightarrow> (\<forall>st. ?eq i st)" for i
  proof -
    have "?eq i st" if "st \<notin> set (?states i)" for st
      using that by (intro unlisted_state) auto
    then show ?thesis by blast
  qed
  have "rp_reconciled report \<longleftrightarrow> (\<forall>i\<in>set ?items. \<forall>st. ?eq i st)"
    unfolding report(1) rows_all by (rule ball_cong [OF refl listed])
  also have "\<dots> \<longleftrightarrow> (\<forall>i\<in>set (items s). ii_tenantId i = ctx_tenantId ctx \<longrightarrow> (\<forall>st.
         balance_at (balances s) (ctx_tenantId ctx, ii_id i, st)
         = ledger_at (ledger s) (ctx_tenantId ctx, ii_id i, st)))"
    unfolding set_sort set_filter by (simp cong: conj_cong imp_cong) blast
  finally have "rp_reconciled report \<longleftrightarrow> \<dots>" .
  moreover have "rp_mismatches report = 0 \<longleftrightarrow> rp_reconciled report"
    unfolding report by (simp add: list_all_iff filter_empty_conv)
  ultimately show ?thesis using t by blast
qed


section \<open>A feed key is applied once\<close>


section \<open>A concrete stock\<close>

definition some_product :: product where
  "some_product = \<lparr>pd_id = ''product'', pd_tenantId = ''tenant'', pd_storeId = ''store'',
     pd_supplierId = ''supplier'', pd_slug = ''lamp'', pd_title = ''Lamp'', pd_status = CS_ACTIVE,
     pd_version = 1, pd_deletedAt = None\<rparr>"

definition some_variant :: product_variant where
  "some_variant = \<lparr>pv_id = ''variant'', pv_tenantId = ''tenant'', pv_productId = ''product'',
     pv_sku = ''LAMP'', pv_title = ''Lamp'', pv_status = CS_ACTIVE, pv_version = 1, pv_deletedAt = None\<rparr>"

definition some_stock :: inventory_db where
  "some_stock = fresh_inventory\<lparr>products := [some_product], variants := [some_variant]\<rparr>"

definition stock_feed :: "string \<Rightarrow> string \<Rightarrow> int \<Rightarrow> inventory_feed_dto" where
  "stock_feed source key q = \<lparr>if_variantId = ''variant'', if_facilityId = ''facility'',
     if_source = source, if_externalKey = key, if_quantity = q\<rparr>"

definition fed_stock :: inventory_db where
  "fed_stock = snd (inventory_feed some_context some_principal (stock_feed ''a'' ''b:c'' 10) some_stock)"

lemma reconciliation_report_exact_witness:
  "rp_reconciled (answer (fst (inventory_reconciliation some_context fed_stock)))
   \<and> length (rp_results (answer (fst (inventory_reconciliation some_context fed_stock)))) = 1
   \<and> snd (inventory_reconciliation some_context fed_stock) = fed_stock"
proof (intro conjI)
  have "inventory_reconciliation some_context fed_stock =
      (Inr (answer (fst (inventory_reconciliation some_context fed_stock))),
       snd (inventory_reconciliation some_context fed_stock))"
    by (rule returned_run) code_simp
  moreover have "stock_tables fed_stock" by code_simp
  ultimately show "snd (inventory_reconciliation some_context fed_stock) = fed_stock"
    by (blast dest: reconciliation_report_exact)
  show "rp_reconciled (answer (fst (inventory_reconciliation some_context fed_stock)))" by code_simp
  show "length (rp_results (answer (fst (inventory_reconciliation some_context fed_stock)))) = 1"
    by code_simp
qed

text \<open>
  The ledger key of a feed joins source and external key with a colon: a feed from source
  \<open>a:b\<close> with key \<open>c\<close> is refused by the unique key of the ledger after one from source \<open>a\<close> with
  key \<open>b:c\<close>, although the two are different feeds, while any other source and key would do.
\<close>

theorem feed_keys_collide:
  "fst (inventory_feed some_context some_principal (stock_feed ''a:b'' ''c'' 7) fed_stock) = Inl UniqueViolation
   \<and> returned (fst (inventory_feed some_context some_principal (stock_feed ''d'' ''c'' 7) fed_stock))"
  by code_simp

end
