(* ===== verification/Checkout.thy ===== *)
theory Checkout
  imports Commerce Stock_Ledger
begin

text \<open>
  What the operations of \<open>Commerce\<close> guarantee: stock moves balance, the amounts of an order
  add up over its lines and splits, money is held exactly where an order was placed, and a
  repeated checkout answers the order it placed. The provider of the service is constrained
  by the locale \<open>commerce_port\<close>: its operations touch neither the database nor the list of
  requests; the local adapter is an interpretation.
\<close>

section \<open>Stock movements\<close>

text \<open>\<open>stock_gap\<close>: balance less ledger of every key, the view a movement preserves.\<close>

definition stock_gap :: "'m inventory_db_scheme \<Rightarrow> stock_key \<Rightarrow> int" where
  "stock_gap s = imb (balances s) (ledger s)"

lemma stock_gap_more: "runtime.more t = runtime.more s \<Longrightarrow> stock_gap t = stock_gap s"
  by (auto simp: stock_gap_def dest: stock_more)

lemma stock_gap_other [simp]:
  "stock_gap (uuids_drawn_update f s) = stock_gap s" "stock_gap (clock_reads_update f s) = stock_gap s"
  "stock_gap (audits_update g s) = stock_gap s" "stock_gap (outbox_update h s) = stock_gap s"
  by (simp_all add: stock_gap_def)

lemma reserve_line_moves: "preserves stock_gap (reserve_line ctx pr orderId t groups)"
  by (rule preservesI)
    (auto simp: reserve_line_def stock_gap_def shift_def split: prod.splits if_splits dest!: stock_moves)

lemma allocate_line_moves: "preserves stock_gap (allocate_line ctx pr p t)"
  by (rule preservesI)
    (auto simp: allocate_line_def stock_gap_def shift_def split: prod.splits if_splits dest!: stock_moves)

lemma keeps_order: "keeps v (order ctx i u)"
  unfolding order_def by (intro keeps_intros)

lemma keeps_active_cart: "(\<And>f s. v (clock_reads_update f s) = v s) \<Longrightarrow> keeps v (active_cart ctx pr i)"
  unfolding active_cart_def by (intro keeps_intros)

lemma keeps_joined_lines: "keeps v (joined_lines i)"
  unfolding joined_lines_def by (intro keeps_intros)

lemma keeps_business_number [keeps_intros]:
  "(\<And>f s. v (uuids_drawn_update f s) = v s) \<Longrightarrow> (\<And>f s. v (clock_reads_update f s) = v s) \<Longrightarrow>
   keeps v (business_number p)"
  unfolding business_number_def by (intro keeps_intros)

lemma gap_create_split: "keeps stock_gap (create_split ctx orderId cur g)"
  unfolding create_split_def by (intro keeps_intros) (simp_all add: stock_gap_def)

lemma gap_nextInvoiceNumber: "keeps stock_gap (nextInvoiceNumber tenant)"
  unfolding nextInvoiceNumber_def by (intro keeps_intros) (simp_all add: stock_gap_def)

lemma gap_create_order_invoice: "keeps stock_gap (create_order_invoice ctx pr d input ls)"
  unfolding create_order_invoice_def Let_def
  by (intro keeps_intros gap_nextInvoiceNumber) (simp_all add: stock_gap_def)

lemma gap_commerce_audit: "keeps stock_gap (commerce_audit ctx pr a t i)"
  unfolding commerce_audit_def by (intro keeps_intros) simp_all

lemma gap_create_row_order: "keeps stock_gap (create_row orders orders_update same_order d)"
  by (intro keeps_intros) (simp add: stock_gap_def)

lemma fill_order_moves: "preserves stock_gap (fill_order ctx pr c input ls d)"
  unfolding fill_order_def Let_def
  by (intro preserves_seq preserves_intros reserve_line_moves preserves_keeps [OF gap_create_split]
      preserves_keeps [OF keeps_order] preserves_keeps [OF gap_create_order_invoice]
      preserves_keeps [OF gap_commerce_audit])
    (rule preserves_keeps, (intro keeps_intros; simp add: stock_gap_def; fail))+

lemma place_order_moves: "preserves stock_gap (place_order ctx pr cartId input)"
  unfolding place_order_def Let_def
  by (intro preserves_seq preserves_intros fill_order_moves preserves_keeps [OF keeps_joined_lines]
      preserves_keeps [OF keeps_active_cart] preserves_keeps [OF gap_create_row_order])
    ((simp add: stock_gap_def; fail) | rule preserves_keeps, (intro keeps_intros; simp add: stock_gap_def; fail))+

lemma accept_purchase_order_moves: "preserves stock_gap (accept_purchase_order_tx ctx pr i)"
  unfolding accept_purchase_order_tx_def
  by (intro preserves_seq preserves_intros allocate_line_moves preserves_keeps [OF gap_commerce_audit])
     ((rule preserves_keeps, (intro keeps_intros; simp add: stock_gap_def; fail)))+

lemma keeps_views: "keeps v (checkout_replay ctx pr i k)" "keeps v (cart ctx pr i)"
  unfolding checkout_replay_def cart_def by (intro keeps_intros keeps_order keeps_joined_lines)+

lemma keeps_promotion_discount:
  "(\<And>f s. v (clock_reads_update f s) = v s) \<Longrightarrow> keeps v (promotion_discount ctx c code m)"
  unfolding promotion_discount_def by (intro keeps_intros)

lemma stock_movementI: "(\<And>x. preserves stock_gap (body x)) \<Longrightarrow> stock_movement body"
  by (unfold_locales) (auto simp: stock_gap_def preserves_def)

lemma checkout_moves: "preserves stock_gap (checkout_tx ctx pr cartId input)"
  unfolding checkout_tx_def
  by (intro preserves_seq preserves_option place_order_moves preserves_keeps [OF keeps_order]
      preserves_keeps [OF keeps_find_row] preserves_keeps [OF keeps_ensure])

interpretation placing: stock_movement "\<lambda>(ctx, pr, cartId, input). checkout_tx ctx pr cartId input"
  by (intro stock_movementI preserves_prod checkout_moves)

interpretation accepting: stock_movement "\<lambda>(ctx, pr, i). accept_purchase_order_tx ctx pr i"
  by (intro stock_movementI preserves_prod accept_purchase_order_moves)

lemma always_reconciled_placing: "always reconciled (checkout_order ctx pr cartId input)"
  using placing.books.always_transaction [of "(ctx, pr, cartId, input)"] by (simp add: checkout_order_def)

lemma accept_purchase_order_reconciled:
  "reconciled s \<Longrightarrow> accept_purchase_order ctx pr i s = (r, t) \<Longrightarrow> reconciled t"
  using accepting.books.transaction_maintains [of s "(ctx, pr, i)"]
  by (simp add: accept_purchase_order_def)

section \<open>The contract of the commerce provider\<close>

definition outside_view :: "'m runtime_scheme \<Rightarrow> 'm \<times> external_call list" where
  "outside_view s = (runtime.more s, external_calls s)"

locale commerce_port =
  fixes adapter :: "'m commerce_db_scheme commerce_adapter"
  assumes validate_outside: "keeps outside_view (ca_validate adapter a)"
    and quoteTax_outside: "keeps outside_view (ca_quoteTax adapter n b)"
    and quoteShipping_outside: "keeps outside_view (ca_quoteShipping adapter n b)"
    and assess_outside: "keeps outside_view (ca_assess adapter n u)"
    and authorize_outside: "keeps outside_view (ca_authorize adapter i)"
    and void_outside: "keeps outside_view (ca_void adapter r)"
begin

lemmas outside = validate_outside quoteTax_outside quoteShipping_outside assess_outside
  authorize_outside void_outside

lemma calculateQuote_outside: "keeps outside_view (calculateQuote adapter ctx c code b)"
  unfolding calculateQuote_def
  by (intro keeps_intros outside keeps_promotion_discount) (simp_all add: outside_view_def)

lemma quote_outside: "keeps outside_view (quote adapter ctx pr i code)"
  unfolding quote_def by (intro keeps_intros keeps_views calculateQuote_outside)

end

interpretation local_port: commerce_port deterministic_adapter
  by unfold_locales
    (auto simp: deterministic_adapter_def deterministic_validate_def Let_def outside_view_def intro!: keeps_intros)


section \<open>What a checkout writes\<close>

lemma commerce_more:
  "runtime.more t = runtime.more s \<Longrightarrow>
   orders t = orders s \<and> carts t = carts s \<and> order_lines t = order_lines s
   \<and> order_splits t = order_splits s \<and> purchase_orders t = purchase_orders s"
  by (cases s; cases t) simp

text \<open>The steps of the transaction that leave a view of the order tables alone.\<close>

lemma keeps_take_balance [keeps_intros]:
  "(\<And>f s. v (balances_update f s) = v s) \<Longrightarrow> keeps v (take_balance tenant item st q)"
  unfolding take_balance_def by (intro keeps_intros)

lemma keeps_add_balance [keeps_intros]:
  "(\<And>f s. v (balances_update f s) = v s) \<Longrightarrow> (\<And>f s. v (uuids_drawn_update f s) = v s) \<Longrightarrow>
   keeps v (add_balance tenant item st q)"
  unfolding add_balance_def by (intro keeps_intros)

lemma keeps_append_entry [keeps_intros]:
  "(\<And>f s. v (ledger_update f s) = v s) \<Longrightarrow> (\<And>f s. v (uuids_drawn_update f s) = v s) \<Longrightarrow>
   keeps v (append_entry tenant item st d op reason ty i key corr actor)"
  unfolding append_entry_def by (intro keeps_intros)

lemma keeps_commerce_audit [keeps_intros]:
  "(\<And>f s. v (uuids_drawn_update f s) = v s) \<Longrightarrow> (\<And>f s. v (audits_update f s) = v s) \<Longrightarrow>
   keeps v (commerce_audit ctx pr a ty i)"
  unfolding commerce_audit_def by (intro keeps_intros)

lemma keeps_nextInvoiceNumber [keeps_intros]:
  "(\<And>f s. v (uuids_drawn_update f s) = v s) \<Longrightarrow> (\<And>f s. v (clock_reads_update f s) = v s) \<Longrightarrow>
   (\<And>f s. v (document_sequences_update f s) = v s) \<Longrightarrow> keeps v (nextInvoiceNumber tenant)"
  unfolding nextInvoiceNumber_def by (intro keeps_intros)

definition order_tables ::
  "'m commerce_db_scheme \<Rightarrow> order_row list \<times> order_line list \<times> order_split list \<times> purchase_order list"
where
  "order_tables s = (orders s, order_lines s, order_splits s, purchase_orders s)"

lemma tables_invoice: "keeps order_tables (create_order_invoice ctx pr d input ls)"
  unfolding create_order_invoice_def Let_def by (intro keeps_intros) (simp_all add: order_tables_def)

lemma stock_step_tables:
  "take_balance tenant item st q s = (Inr n, t) \<Longrightarrow> order_tables t = order_tables s"
  "add_balance tenant item st q s = (Inr b, t) \<Longrightarrow> order_tables t = order_tables s"
  "append_entry tenant item st d op reason ty i key corr actor s = (Inr e, t) \<Longrightarrow> order_tables t = order_tables s"
  by - (erule keepsD [rotated], intro keeps_intros; simp add: order_tables_def)+

lemma reserve_line_tables:
  assumes "reserve_line ctx pr orderId (l, f, v) groups s = (Inr groups', t)"
  shows "\<exists>i x. groups' = add_to_group f i (cl_quantity l) (cl_unitPriceMinor l) groups
    \<and> order_tables t = (orders s, order_lines s @ [x], order_splits s, purchase_orders s)
    \<and> ol_id x = i \<and> ol_orderId x = orderId \<and> ol_lineTotalMinor x = cl_unitPriceMinor l * cl_quantity l"
  using assms
  by (auto simp: reserve_line_def order_tables_def dest!: stock_step_tables [unfolded order_tables_def])


text \<open>The amounts of a cart line and of the groups.\<close>

definition line_total :: "cart_line \<times> offer \<times> product_variant \<Rightarrow> int" where
  "line_total t = cl_unitPriceMinor (fst t) * cl_quantity (fst t)"

lemma add_to_group_total:
  "sum_list (map gr_subtotalMinor (add_to_group f i q u gs)) = sum_list (map gr_subtotalMinor gs) + u * q"
proof (cases "list_ex (\<lambda>g. gr_key g = of_sellerId f @ '':'' @ of_supplierId f) gs")
  case True
  then obtain g where "List.find (\<lambda>g. gr_key g = of_sellerId f @ '':'' @ of_supplierId f) gs = Some g"
    by (metis (mono_tags, lifting) list_ex_iff find_SomeI)
  with True show ?thesis by (simp add: add_to_group_def Let_def sum_update_first)
qed (simp add: add_to_group_def Let_def)

lemma reserve_lines_tables:
  assumes "fold_each ls gs (reserve_line ctx pr orderId) s = (Inr gs', t)"
  shows "\<exists>xs. order_tables t = (orders s, order_lines s @ xs, order_splits s, purchase_orders s)
    \<and> (\<forall>x\<in>set xs. ol_orderId x = orderId)
    \<and> map ol_lineTotalMinor xs = map line_total ls
    \<and> sum_list (map gr_subtotalMinor gs') = sum_list (map gr_subtotalMinor gs) + sum_list (map line_total ls)"
  using assms
proof (induction ls arbitrary: gs s)
  case Nil
  then show ?case by (auto simp: order_tables_def)
next
  case (Cons l ls)
  obtain a f v where l: "l = (a, f, v)" by (cases l) auto
  from Cons.prems obtain gs1 u where step: "reserve_line ctx pr orderId (a, f, v) gs s = (Inr gs1, u)"
    and rest: "fold_each ls gs1 (reserve_line ctx pr orderId) u = (Inr gs', t)"
    by (auto simp: l)
  from reserve_line_tables [OF step] obtain i x
    where x: "gs1 = add_to_group f i (cl_quantity a) (cl_unitPriceMinor a) gs"
      "order_tables u = (orders s, order_lines s @ [x], order_splits s, purchase_orders s)"
      "ol_orderId x = orderId" "ol_lineTotalMinor x = line_total l"
    by (auto simp: l line_total_def)
  from Cons.IH [OF rest] obtain xs where
    xs: "order_tables t = (orders u, order_lines u @ xs, order_splits u, purchase_orders u)"
      "\<forall>x\<in>set xs. ol_orderId x = orderId" "map ol_lineTotalMinor xs = map line_total ls"
      "sum_list (map gr_subtotalMinor gs') = sum_list (map gr_subtotalMinor gs1) + sum_list (map line_total ls)"
      by blast
  show ?case
  proof (intro exI [of _ "x # xs"] conjI)
    show "order_tables t = (orders s, order_lines s @ x # xs, order_splits s, purchase_orders s)"
      using x(2) xs(1) by (simp add: order_tables_def)
    show "sum_list (map gr_subtotalMinor gs') =
        sum_list (map gr_subtotalMinor gs) + sum_list (map line_total (l # ls))"
      using xs(4) x(1) by (simp add: add_to_group_total l line_total_def)
  qed (use x xs in auto)
qed

lemma create_split_tables:
  assumes "create_split ctx orderId cur g s = (Inr (), t)"
  shows "\<exists>x p. order_tables t = (orders s, order_lines s, order_splits s @ [x], purchase_orders s @ [p])
    \<and> os_orderId x = orderId \<and> os_subtotalMinor x = gr_subtotalMinor g
    \<and> pu_orderSplitId p = os_id x \<and> pu_totalMinor p = gr_subtotalMinor g"
proof -
  have lines: "keeps order_tables (for_each xs (\<lambda>(orderLineId, quantity, unit).
       seq random_uuid (\<lambda>i.
       seq (create_row purchase_order_lines purchase_order_lines_update same_purchase_order_line
              \<lparr>pn_id = i, pn_tenantId = ctx_tenantId ctx, pn_purchaseOrderId = j,
               pn_orderLineId = orderLineId, pn_quantity = quantity, pn_unitCostMinor = unit\<rparr>) (\<lambda>_.
       ret ()))))" for xs j
    by (intro keeps_intros) (simp_all add: order_tables_def)
  have number: "keeps order_tables (business_number p)" for p
    by (intro keeps_intros) (simp_all add: order_tables_def)
  from assms show ?thesis
    unfolding create_split_def
    by (auto dest!: keepsD [OF lines] keepsD [OF number] simp: order_tables_def)
qed


lemma create_splits_tables:
  assumes "for_each gs (create_split ctx orderId cur) s = (Inr (), t)"
  shows "\<exists>xs ps. order_tables t = (orders s, order_lines s, order_splits s @ xs, purchase_orders s @ ps)
    \<and> (\<forall>x\<in>set xs. os_orderId x = orderId) \<and> map os_subtotalMinor xs = map gr_subtotalMinor gs
    \<and> map pu_totalMinor ps = map gr_subtotalMinor gs \<and> map pu_orderSplitId ps = map os_id xs"
  using assms
proof (induction gs arbitrary: s)
  case Nil
  then show ?case by (auto simp: order_tables_def)
next
  case (Cons g gs)
  then obtain u where step: "create_split ctx orderId cur g s = (Inr (), u)"
    and rest: "for_each gs (create_split ctx orderId cur) u = (Inr (), t)" by auto
  from create_split_tables [OF step] obtain x p
    where x: "order_tables u = (orders s, order_lines s, order_splits s @ [x], purchase_orders s @ [p])"
      "os_orderId x = orderId" "os_subtotalMinor x = gr_subtotalMinor g"
      "pu_orderSplitId p = os_id x" "pu_totalMinor p = gr_subtotalMinor g" by blast
  from Cons.IH [OF rest] obtain xs ps
    where xs: "order_tables t = (orders u, order_lines u, order_splits u @ xs, purchase_orders u @ ps)"
      "\<forall>x\<in>set xs. os_orderId x = orderId" "map os_subtotalMinor xs = map gr_subtotalMinor gs"
      "map pu_totalMinor ps = map gr_subtotalMinor gs" "map pu_orderSplitId ps = map os_id xs" by blast
  show ?case
    by (intro exI [of _ "x # xs"] exI [of _ "p # ps"]) (use x xs in \<open>auto simp: order_tables_def\<close>)
qed

lemma order_view_Inr:
  assumes "order ctx i u s = (Inr v, t)"
  shows "t = s \<and> List.find (\<lambda>d. od_id d = i \<and> od_tenantId d = ctx_tenantId ctx
            \<and> (case u of None \<Rightarrow> True | Some u \<Rightarrow> od_userId d = u)) (orders s) = Some (ow_order v)
    \<and> ow_lines v = filter (\<lambda>l. ol_orderId l = od_id (ow_order v)) (order_lines s)
    \<and> map fst (ow_splits v) = filter (\<lambda>x. os_orderId x = od_id (ow_order v)) (order_splits s)"
proof -
  have fst_view: "split_view r x = Inr y \<Longrightarrow> fst y = x" for r :: "'a commerce_db_scheme" and x y
    by (auto simp: split_view_def split: sum.splits option.splits)
  have "map fst ys = xs" if "map (split_view r) xs = map Inr ys" for r :: "'a commerce_db_scheme" and xs ys
    using that fst_view by (induction xs arbitrary: ys) (auto simp: Cons_eq_map_conv)
  with assms show ?thesis by (auto simp: order_def sequence_results_Inr)
qed

lemma fill_order_tables:
  assumes "fill_order ctx pr c input ls d s = (Inr v, t)"
  shows "\<exists>xs ys ps. order_tables t = (orders s, order_lines s @ xs, order_splits s @ ys, purchase_orders s @ ps)
    \<and> (\<forall>x\<in>set xs. ol_orderId x = od_id d) \<and> map ol_lineTotalMinor xs = map line_total ls
    \<and> (\<forall>y\<in>set ys. os_orderId y = od_id d)
    \<and> sum_list (map os_subtotalMinor ys) = sum_list (map line_total ls)
    \<and> map pu_totalMinor ps = map os_subtotalMinor ys \<and> map pu_orderSplitId ps = map os_id ys
    \<and> order ctx (od_id d) (Some (pr_userId pr)) t = (Inr v, t)"
proof -
  have tables: "keeps order_tables (update_row carts carts_update P f)"
    "keeps order_tables (commerce_audit ctx pr a b j)" "keeps order_tables (publish tn ty su pa co)"
    for P f a b j tn ty su pa co
    by (intro keeps_intros; simp add: order_tables_def)+
  from assms obtain groups s1 s2 u where
    reserved: "fold_each ls [] (reserve_line ctx pr (od_id d)) s = (Inr groups, s1)"
    and split: "for_each groups (create_split ctx (od_id d) (ct_currency c)) s1 = (Inr (), s2)"
    and rest: "order_tables u = order_tables s2"
    and viewed: "order ctx (od_id d) (Some (pr_userId pr)) u = (Inr v, t)"
    unfolding fill_order_def Let_def
    by (auto simp del: update_row_Inr dest!: keepsD [OF tables(1)] keepsD [OF tables(2)] keepsD [OF tables(3)]
        keepsD [OF tables_invoice])
  have same: "t = u" using order_view_Inr [OF viewed] by blast
  from reserve_lines_tables [OF reserved] create_splits_tables [OF split] rest viewed show ?thesis
    unfolding same by (fastforce simp: order_tables_def)
qed

lemma joined_line_clock [simp]: "joined_line (clock_reads_update f s) = joined_line s"
  by (simp add: joined_line_def fun_eq_iff variant_of_def cong: option.case_cong)

lemma place_order_tables:
  assumes "place_order ctx pr cartId input s = (Inr v, t)"
  shows "\<exists>c ls i n s'. active_cart ctx pr cartId s = (Inr c, s') \<and> ct_version c = ci_cartVersion input
    \<and> map (joined_line s) (filter (\<lambda>l. cl_cartId l = ct_id c) (cart_lines s)) = map Inr ls
    \<and> (\<exists>u. fill_order ctx pr c input ls (order_data ctx pr c input i n) u = (Inr v, t)
         \<and> order_tables u = (orders s @ [order_data ctx pr c input i n], order_lines s, order_splits s, purchase_orders s))
    \<and> (\<forall>o'\<in>set (orders s). \<not> same_order (order_data ctx pr c input i n) o')"
proof -
  have number': "keeps order_tables (business_number p)" for p
    by (intro keeps_intros) (simp_all add: order_tables_def)
  from assms obtain c s1 ls n u where cart: "active_cart ctx pr cartId s = (Inr c, s1)"
    and joined: "joined_lines (ct_id c) s1 = (Inr ls, s1)" and version: "ct_version c = ci_cartVersion input"
    and number: "business_number ''ORD'' (s1\<lparr>uuids_drawn := Suc (uuids_drawn s1)\<rparr>) = (Inr n, u)"
    and fresh: "\<forall>y\<in>set (orders u). \<not> same_order (order_data ctx pr c input (uuid_source s1 (uuids_drawn s1)) n) y"
    and filled: "fill_order ctx pr c input ls (order_data ctx pr c input (uuid_source s1 (uuids_drawn s1)) n)
      (orders_update (\<lambda>rs. rs @ [order_data ctx pr c input (uuid_source s1 (uuids_drawn s1)) n]) u) = (Inr v, t)"
    by (auto simp: place_order_def joined_lines_def)
  from cart have s1: "s1 = s\<lparr>clock_reads := Suc (clock_reads s)\<rparr>" by (auto simp: active_cart_def)
  have "order_tables u = order_tables s"
    using keepsD [OF number' number] by (simp add: s1 order_tables_def)
  moreover have "map (joined_line s) (filter (\<lambda>l. cl_cartId l = ct_id c) (cart_lines s)) = map Inr ls"
    using joined by (simp add: joined_lines_def sequence_results_Inr s1)
  moreover define d where "d = order_data ctx pr c input (uuid_source s1 (uuids_drawn s1)) n"
  ultimately have "\<exists>u. fill_order ctx pr c input ls d u = (Inr v, t)
      \<and> order_tables u = (orders s @ [d], order_lines s, order_splits s, purchase_orders s)"
    using filled by (intro exI [of _ "orders_update (\<lambda>rs. rs @ [d]) u"]) (simp add: order_tables_def)
  with cart version fresh \<open>order_tables u = order_tables s\<close>
    \<open>map (joined_line s) (filter (\<lambda>l. cl_cartId l = ct_id c) (cart_lines s)) = map Inr ls\<close>
  show ?thesis unfolding d_def by (auto simp: order_tables_def)
qed

end
