(* ===== verification/Warehouse.thy ===== *)
theory Warehouse
  imports Fulfillment Checkout
begin

text \<open>
  Fulfilment orders from pick to delivery. \<open>pick_moves\<close> says what a pick does to the stock:
  it moves balances and writes no ledger entry. \<open>warehouse_sound\<close> is the invariant of the
  tables of orders, lines, packages and shipments; \<open>sound_moved\<close> is the one lemma under all
  its preservation proofs. \<open>carrier_contract\<close> is what the service relies on from a carrier; the
  local carrier is an interpretation.
\<close>

section \<open>What a pick moves\<close>

definition picked_at :: "uuid \<Rightarrow> fulfillment_line list \<Rightarrow> stock_key \<Rightarrow> int" where
  "picked_at tenant ls k = sum_list (map (\<lambda>l.
     (if k = (tenant, fl_inventoryItemId l, PICKED) then fl_quantity l else 0)
     - (if k = (tenant, fl_inventoryItemId l, ON_HAND) then fl_quantity l else 0)) ls)"

lemma keeps_fulfillment_stock: "keeps (\<lambda>s. (balances s, ledger s)) (update_row fulfillment_lines fulfillment_lines_update P f)"
  by (intro keeps_intros) simp

lemma add_balance_ids:
  assumes "add_balance tenant item st q s = (Inr b, t)" and "distinct (map ib_id (balances s))"
  shows "distinct (map ib_id (balances t))"
  using assms
  by (auto simp: add_balance_def upsert_row_Inr same_balance_def map_update_first split: option.splits)

lemma pick_line_moves:
  assumes "pick_line ctx binId l s = (Inr (), t)" and "distinct (map ib_id (balances s))"
  shows "distinct (map ib_id (balances t)) \<and> ledger t = ledger s
    \<and> (\<forall>k. balance_at (balances t) k = balance_at (balances s) k + picked_at (ctx_tenantId ctx) [l] k)"
proof -
  from assms(1) obtain b u v where b: "List.find (balance_key (ctx_tenantId ctx) (fl_inventoryItemId l) ON_HAND) (balances s) = Some b"
    and u: "update_row balances balances_update (\<lambda>x. ib_id x = ib_id b)
       (\<lambda>x. x\<lparr>ib_quantity := ib_quantity x - fl_quantity l, ib_version := ib_version x + 1\<rparr>) s = (Inr (fst u), snd u)"
    and v: "add_balance (ctx_tenantId ctx) (fl_inventoryItemId l) PICKED (fl_quantity l) (snd u) = (Inr (fst v), snd v)"
    and t: "balances t = balances (snd v)" "ledger t = ledger (snd v)"
    unfolding pick_line_def by auto
  have key: "key_of_balance b = (ctx_tenantId ctx, fl_inventoryItemId l, ON_HAND)"
    using b by (auto dest: find_SomeD simp: balance_key_iff)
  have "List.find (\<lambda>x. ib_id x = ib_id b) (balances s) = Some b"
    using b assms(2) by (auto dest: find_SomeD intro: distinct_found)
  with u have moved: "imb (balances (snd u)) es k = imb (balances s) es k + (if key_of_balance b = k then - fl_quantity l else 0)" for es k
    by (auto simp: imb_update_first key_of_balance_def)
  have ids: "distinct (map ib_id (balances (snd u)))" using u assms(2) by (auto simp: map_update_first)
  have gap: "imb (balances t) es k = imb (balances s) es k + picked_at (ctx_tenantId ctx) [l] k" for es k
    using add_balance_moves [OF v] by (simp add: t moved key shift_def picked_at_def)
  have "balance_at (balances t) k = balance_at (balances s) k + picked_at (ctx_tenantId ctx) [l] k" for k
    using gap [of "[]" k] by (simp add: imb_def ledger_at_def)
  then show ?thesis using add_balance_ids [OF v ids] add_balance_moves [OF v] u t by auto
qed

lemma pick_lines_move:
  assumes "for_each ls (pick_line ctx binId) s = (Inr (), t)" and "distinct (map ib_id (balances s))"
  shows "distinct (map ib_id (balances t)) \<and> ledger t = ledger s
    \<and> (\<forall>k. balance_at (balances t) k = balance_at (balances s) k + picked_at (ctx_tenantId ctx) ls k)"
  using assms
proof (induction ls arbitrary: s)
  case Nil
  then show ?case by (simp add: picked_at_def)
next
  case (Cons l ls)
  then obtain u where u: "pick_line ctx binId l s = (Inr (), u)" "for_each ls (pick_line ctx binId) u = (Inr (), t)" by auto
  from pick_line_moves [OF u(1) Cons.prems(2)] Cons.IH [OF u(2)] show ?case by (auto simp: picked_at_def)
qed

lemma requireFulfillment_Inr:
  "requireFulfillment ctx i s = (Inr v, t) \<longleftrightarrow> t = s \<and>
     (\<exists>d. List.find (\<lambda>d. fo_id d = i \<and> fo_tenantId d = ctx_tenantId ctx) (fulfillment_orders s) = Some d
        \<and> v = fulfillment_view_of s d)"
  by (auto simp: requireFulfillment_def)

lemma pick_moves:
  assumes "pick ctx i binId s = (Inr r, t)" and "distinct (map ib_id (balances s))"
  shows "ledger t = ledger s \<and> (\<forall>k. balance_at (balances t) k = balance_at (balances s) k
    + picked_at (ctx_tenantId ctx) (filter (\<lambda>l. fl_fulfillmentOrderId l = i) (fulfillment_lines s)) k)"
proof -
  from assms(1) obtain d u where "List.find (\<lambda>d. fo_id d = i \<and> fo_tenantId d = ctx_tenantId ctx) (fulfillment_orders s) = Some d"
    and u: "for_each (fv_lines (fulfillment_view_of s d)) (pick_line ctx binId) s = (Inr (), u)"
    and t: "balances t = balances u" "ledger t = ledger u"
    unfolding pick_def update_fulfillment_def by (auto simp: requireFulfillment_Inr)
  then have "fo_id d = i" by (auto dest: find_SomeD)
  with pick_lines_move [OF u assms(2)] show ?thesis by (simp add: t fulfillment_view_of_def)
qed


section \<open>Orders, lines, packages and shipments\<close>

lemma update_each_row:
  assumes "distinct (map key xs)" and "set ls \<subseteq> set xs" and "distinct (map key ls)"
    and "\<And>l x. key (f l x) = key x"
  shows "foldl (\<lambda>ys l. update_first (\<lambda>y. key y = key l) (f l) ys) xs ls =
    map (\<lambda>x. if x \<in> set ls then f x x else x) xs"
  using assms(1-3)
proof (induction ls arbitrary: xs)
  case (Cons l ls)
  let ?ys = "update_first (\<lambda>y. key y = key l) (f l) xs"
  have same: "key x = key l \<longleftrightarrow> x = l" if "x \<in> set xs" for x
    using that Cons.prems(1,2) by (auto dest: distinct_mapD)
  have ys: "?ys = map (\<lambda>x. if x = l then f l l else x) xs"
    unfolding update_first_map [OF Cons.prems(1)] using same by (intro map_cong) auto
  have new: "l \<notin> set ls" "f l l \<notin> set ls" using Cons.prems(3) assms(4) by (auto simp: image_iff)
  have "map (\<lambda>x. if x \<in> set ls then f x x else x) ?ys = map (\<lambda>x. if x \<in> set (l # ls) then f x x else x) xs"
    unfolding ys map_map using new by (intro map_cong) simp_all
  moreover have "distinct (map key ?ys)" using Cons.prems(1) by (simp add: map_update_first assms(4))
  moreover have "set ls \<subseteq> set ?ys"
  proof
    fix x assume "x \<in> set ls"
    with Cons.prems(2) new have "x \<in> set xs" "x \<noteq> l" by auto
    then show "x \<in> set ?ys" unfolding ys by (auto intro!: image_eqI [of _ _ x])
  qed
  moreover have "distinct (map key ls)" using Cons.prems(3) by simp
  ultimately show ?case using Cons.IH [of ?ys] by simp
qed simp

definition warehouse_view ::
  "'m fulfillment_db_scheme \<Rightarrow> fulfillment_order list \<times> fulfillment_line list \<times> fulfillment_package list \<times> shipment list"
where
  "warehouse_view s = (fulfillment_orders s, fulfillment_lines s, packages s, shipments s)"

definition picked_line :: "uuid option \<Rightarrow> fulfillment_line \<Rightarrow> fulfillment_line \<Rightarrow> fulfillment_line" where
  "picked_line binId l x = x\<lparr>fl_pickedQty := fl_quantity l, fl_binId := binId\<rparr>"

definition packed_line :: "fulfillment_line \<Rightarrow> fulfillment_line \<Rightarrow> fulfillment_line" where
  "packed_line l x = x\<lparr>fl_packedQty := fl_quantity l\<rparr>"

definition moved_order :: "fulfillment_status \<Rightarrow> fulfillment_order \<Rightarrow> fulfillment_order" where
  "moved_order st d = d\<lparr>fo_status := st, fo_version := fo_version d + 1\<rparr>"

lemma pick_line_rows:
  assumes "pick_line ctx binId l s = (Inr (), t)"
  shows "warehouse_view t = (fulfillment_orders s, update_first (\<lambda>y. fl_id y = fl_id l) (picked_line binId l)
      (fulfillment_lines s), packages s, shipments s)"
  using assms
  by (auto simp: pick_line_def add_balance_def upsert_row_Inr warehouse_view_def picked_line_def [abs_def] split: option.splits)

lemma pack_line_rows:
  assumes "pack_line l s = (Inr (), t)"
  shows "warehouse_view t = (fulfillment_orders s, update_first (\<lambda>y. fl_id y = fl_id l) (packed_line l)
      (fulfillment_lines s), packages s, shipments s)"
  using assms by (auto simp: pack_line_def warehouse_view_def packed_line_def [abs_def])

lemma for_each_lines:
  assumes "\<And>l s t. step l s = (Inr (), t) \<Longrightarrow> warehouse_view t =
      (fulfillment_orders s, update_first (\<lambda>y. fl_id y = fl_id l) (f l) (fulfillment_lines s), packages s, shipments s)"
    and "for_each ls step s = (Inr (), t)"
  shows "warehouse_view t = (fulfillment_orders s, foldl (\<lambda>ys l. update_first (\<lambda>y. fl_id y = fl_id l) (f l) ys)
      (fulfillment_lines s) ls, packages s, shipments s)"
  using assms(2)
proof (induction ls arbitrary: s)
  case Nil
  then show ?case by (simp add: warehouse_view_def)
next
  case (Cons l ls)
  then obtain u where u: "step l s = (Inr (), u)" "for_each ls step u = (Inr (), t)" by auto
  from assms(1) [OF u(1)] Cons.IH [OF u(2)] show ?case by (auto simp: warehouse_view_def)
qed

lemma order_lines_of:
  assumes "distinct (map fl_id (fulfillment_lines s))" and "\<And>l x. fl_id (f l x) = fl_id x"
  shows "foldl (\<lambda>ys l. update_first (\<lambda>y. fl_id y = fl_id l) (f l) ys) (fulfillment_lines s)
      (fv_lines (fulfillment_view_of s d))
    = map (\<lambda>x. if fl_fulfillmentOrderId x = fo_id d then f x x else x) (fulfillment_lines s)"
proof -
  have "distinct (map fl_id (fv_lines (fulfillment_view_of s d)))"
    using assms(1) by (simp add: fulfillment_view_of_def distinct_map inj_on_def)
  then show ?thesis
    by (subst update_each_row) (auto simp: assms fulfillment_view_of_def intro: map_cong)
qed


section \<open>Sound fulfilment tables\<close>

fun stage :: "fulfillment_status \<Rightarrow> nat" where
  "stage FS_PICKED = 1"
| "stage FS_PACKED = 2"
| "stage FS_LABELED = 3"
| "stage FS_MANIFESTED = 4"
| "stage FS_DISPATCHED = 5"
| "stage FS_DELIVERED = 6"
| "stage _ = 0"

definition order_sound ::
  "fulfillment_line list \<Rightarrow> fulfillment_package list \<Rightarrow> shipment list \<Rightarrow> fulfillment_order \<Rightarrow> bool"
where
  "order_sound ls ps hs d \<longleftrightarrow>
     (\<forall>l\<in>set ls. fl_fulfillmentOrderId l = fo_id d \<longrightarrow>
        (1 \<le> stage (fo_status d) \<longrightarrow> fl_pickedQty l = fl_quantity l)
        \<and> (2 \<le> stage (fo_status d) \<longrightarrow> fl_packedQty l = fl_quantity l))
     \<and> (2 \<le> stage (fo_status d) \<longleftrightarrow> fo_id d \<in> fp_fulfillmentOrderId ` set ps)
     \<and> (3 \<le> stage (fo_status d) \<longleftrightarrow> fo_id d \<in> sh_fulfillmentOrderId ` set hs)
     \<and> (\<forall>h\<in>set hs. sh_fulfillmentOrderId h = fo_id d \<longrightarrow>
          sh_status h = fo_status d \<and> sh_tenantId h = fo_tenantId d)"

definition tables_sound ::
  "fulfillment_order list \<times> fulfillment_line list \<times> fulfillment_package list \<times> shipment list \<Rightarrow> bool"
where
  "tables_sound v \<longleftrightarrow> (case v of (os, ls, ps, hs) \<Rightarrow>
     distinct (map fo_id os) \<and> distinct (map fl_id ls) \<and> distinct (map sh_id hs)
     \<and> distinct (map fp_fulfillmentOrderId ps) \<and> distinct (map sh_fulfillmentOrderId hs)
     \<and> (\<forall>d\<in>set os. order_sound ls ps hs d)
     \<and> fp_fulfillmentOrderId ` set ps \<subseteq> fo_id ` set os \<and> sh_fulfillmentOrderId ` set hs \<subseteq> fo_id ` set os)"

definition warehouse_sound :: "'m fulfillment_db_scheme \<Rightarrow> bool" where
  "warehouse_sound s \<longleftrightarrow> tables_sound (warehouse_view s)"

text \<open>The order at the identifier of \<open>d\<close> moves on; the rows of the other orders stay.\<close>

definition move_at :: "uuid \<Rightarrow> fulfillment_status \<Rightarrow> fulfillment_order list \<Rightarrow> fulfillment_order list" where
  "move_at i st os = map (\<lambda>x. if fo_id x = i then moved_order st x else x) os"

lemma sound_new_order:
  assumes "tables_sound (os, ls, ps, hs)" and "\<forall>d\<in>set os. fo_id d \<noteq> fo_id n" and "fo_status n = FS_PENDING"
    and "\<forall>l\<in>set news. fl_fulfillmentOrderId l = fo_id n" and "distinct (map fl_id (ls @ news))"
  shows "tables_sound (os @ [n], ls @ news, ps, hs)"
  using assms unfolding tables_sound_def order_sound_def by auto

lemma sound_moved:
  assumes "tables_sound (os, ls, ps, hs)" and "d \<in> set os"
    and "order_sound ls ps hs d \<Longrightarrow> order_sound ls' ps' hs' (moved_order st d)"
    and "\<And>y. fo_id y \<noteq> fo_id d \<Longrightarrow> order_sound ls ps hs y \<Longrightarrow> order_sound ls' ps' hs' y"
    and "map fl_id ls' = map fl_id ls" and "distinct (map sh_id hs')"
    and "distinct (map fp_fulfillmentOrderId ps')" and "distinct (map sh_fulfillmentOrderId hs')"
    and "fp_fulfillmentOrderId ` set ps' \<subseteq> insert (fo_id d) (fp_fulfillmentOrderId ` set ps)"
    and "sh_fulfillmentOrderId ` set hs' \<subseteq> insert (fo_id d) (sh_fulfillmentOrderId ` set hs)"
  shows "tables_sound (move_at (fo_id d) st os, ls', ps', hs')"
proof -
  have same: "x = d" if "x \<in> set os" "fo_id x = fo_id d" for x
    using assms(1,2) that by (auto simp: tables_sound_def dest: distinct_mapD)
  have ids: "map fo_id (move_at (fo_id d) st os) = map fo_id os"
    by (simp add: move_at_def moved_order_def)
  have "order_sound ls' ps' hs' x" if "x \<in> set (move_at (fo_id d) st os)" for x
  proof -
    from that obtain y where y: "y \<in> set os" "x = (if fo_id y = fo_id d then moved_order st y else y)"
      by (auto simp: move_at_def)
    have "order_sound ls ps hs y" using assms(1) y(1) by (simp add: tables_sound_def)
    then show ?thesis using y same assms(3,4) by (cases "fo_id y = fo_id d") auto
  qed
  moreover have "fo_id ` set (move_at (fo_id d) st os) = fo_id ` set os"
    using ids by (metis list.set_map)
  moreover have "fp_fulfillmentOrderId ` set ps' \<subseteq> fo_id ` set os" "sh_fulfillmentOrderId ` set hs' \<subseteq> fo_id ` set os"
    by (rule subset_trans [OF assms(9)], use assms(1,2) in \<open>simp add: tables_sound_def\<close>)
       (rule subset_trans [OF assms(10)], use assms(1,2) in \<open>simp add: tables_sound_def\<close>)
  ultimately show ?thesis using assms(1,5-8) unfolding tables_sound_def prod.case ids by simp
qed

lemma sound_order: "tables_sound (os, ls, ps, hs) \<Longrightarrow> d \<in> set os \<Longrightarrow> order_sound ls ps hs d"
  by (simp add: tables_sound_def)

lemma sound_picked:
  assumes "tables_sound (os, ls, ps, hs)" and "d \<in> set os" and "stage (fo_status d) = 0"
  shows "tables_sound (move_at (fo_id d) FS_PICKED os,
    map (\<lambda>x. if fl_fulfillmentOrderId x = fo_id d then picked_line binId x x else x) ls, ps, hs)"
proof (rule sound_moved [OF assms(1,2)])
  have "order_sound ls ps hs d" using assms(1,2) by (rule sound_order)
  with assms(3) have "fo_id d \<notin> fp_fulfillmentOrderId ` set ps" "fo_id d \<notin> sh_fulfillmentOrderId ` set hs"
    by (auto simp: order_sound_def)
  moreover from this have "\<forall>h\<in>set hs. sh_fulfillmentOrderId h \<noteq> fo_id d" by (metis imageI)
  ultimately show "order_sound (map (\<lambda>x. if fl_fulfillmentOrderId x = fo_id d then picked_line binId x x else x) ls) ps hs
      (moved_order FS_PICKED d)"
    by (auto simp: order_sound_def moved_order_def picked_line_def)
qed (use assms(1) in \<open>auto simp: order_sound_def tables_sound_def picked_line_def\<close>)

lemma sound_packed:
  assumes "tables_sound (os, ls, ps, hs)" and "d \<in> set os" and "fo_status d = FS_PICKED"
    and "fp_fulfillmentOrderId p = fo_id d"
  shows "tables_sound (move_at (fo_id d) FS_PACKED os,
    map (\<lambda>x. if fl_fulfillmentOrderId x = fo_id d then packed_line x x else x) ls, ps @ [p], hs)"
proof (rule sound_moved [OF assms(1,2)])
  have "order_sound ls ps hs d" using assms(1,2) by (rule sound_order)
  with assms(3) have none: "fo_id d \<notin> fp_fulfillmentOrderId ` set ps" "fo_id d \<notin> sh_fulfillmentOrderId ` set hs"
    and "\<forall>l\<in>set ls. fl_fulfillmentOrderId l = fo_id d \<longrightarrow> fl_pickedQty l = fl_quantity l"
    by (auto simp: order_sound_def)
  moreover from this have "\<forall>h\<in>set hs. sh_fulfillmentOrderId h \<noteq> fo_id d" by (metis imageI)
  ultimately show "order_sound (map (\<lambda>x. if fl_fulfillmentOrderId x = fo_id d then packed_line x x else x) ls) (ps @ [p]) hs
      (moved_order FS_PACKED d)"
    by (auto simp: order_sound_def moved_order_def packed_line_def assms(4))
  show "distinct (map fp_fulfillmentOrderId (ps @ [p]))"
    using assms(1,4) none by (simp add: tables_sound_def)
  show "order_sound ls ps hs y \<Longrightarrow> order_sound (map (\<lambda>x. if fl_fulfillmentOrderId x = fo_id d then packed_line x x else x) ls)
      (ps @ [p]) hs y" if "fo_id y \<noteq> fo_id d" for y
    using that assms(4) by (auto simp: order_sound_def packed_line_def)
qed (use assms(1,4) in \<open>auto simp: tables_sound_def packed_line_def\<close>)

lemma sound_labeled:
  assumes "tables_sound (os, ls, ps, hs)" and "d \<in> set os" and "fo_status d = FS_PACKED"
    and "sh_fulfillmentOrderId h = fo_id d" and "sh_status h = FS_LABELED" and "sh_tenantId h = fo_tenantId d"
    and "sh_id h \<notin> sh_id ` set hs"
  shows "tables_sound (move_at (fo_id d) FS_LABELED os, ls, ps, hs @ [h])"
proof (rule sound_moved [OF assms(1,2)])
  have none: "fo_id d \<notin> sh_fulfillmentOrderId ` set hs"
    using sound_order [OF assms(1,2)] assms(3) by (auto simp: order_sound_def)
  then have other: "\<forall>h\<in>set hs. sh_fulfillmentOrderId h \<noteq> fo_id d" by (metis imageI)
  show "order_sound ls ps hs d \<Longrightarrow> order_sound ls ps (hs @ [h]) (moved_order FS_LABELED d)"
    using none other assms(3-6) by (auto simp: order_sound_def moved_order_def)
  show "distinct (map sh_fulfillmentOrderId (hs @ [h]))"
    using assms(1,4) none by (simp add: tables_sound_def)
qed (use assms in \<open>auto simp: order_sound_def tables_sound_def\<close>)

text \<open>An order past labelling moves together with its shipment.\<close>

lemma sound_dispatched:
  assumes "tables_sound (os, ls, ps, hs)" and "d \<in> set os" and "3 \<le> stage (fo_status d)" and "3 \<le> stage st"
    and "\<And>h. sh_fulfillmentOrderId (f h) = sh_fulfillmentOrderId h \<and> sh_tenantId (f h) = sh_tenantId h
          \<and> sh_id (f h) = sh_id h \<and> sh_status (f h) = st"
  shows "tables_sound (move_at (fo_id d) st os, ls, ps,
    map (\<lambda>h. if sh_fulfillmentOrderId h = fo_id d then f h else h) hs)"
proof (rule sound_moved [OF assms(1,2)])
  let ?hs = "map (\<lambda>h. if sh_fulfillmentOrderId h = fo_id d then f h else h) hs"
  have maps: "map sh_fulfillmentOrderId ?hs = map sh_fulfillmentOrderId hs" "map sh_id ?hs = map sh_id hs"
    using assms(5) by simp_all
  have img: "sh_fulfillmentOrderId ` set ?hs = sh_fulfillmentOrderId ` set hs" using maps(1) by (metis list.set_map)
  show "distinct (map sh_fulfillmentOrderId ?hs)" "distinct (map sh_id ?hs)"
    using assms(1) unfolding maps by (simp_all add: tables_sound_def)
  show "sh_fulfillmentOrderId ` set ?hs \<subseteq> insert (fo_id d) (sh_fulfillmentOrderId ` set hs)" using img by blast
  show "order_sound ls ps hs d \<Longrightarrow> order_sound ls ps ?hs (moved_order st d)"
    using assms(3-5) unfolding order_sound_def img by (auto simp: moved_order_def)
  show "order_sound ls ps hs y \<Longrightarrow> order_sound ls ps ?hs y" if "fo_id y \<noteq> fo_id d" for y
    using that assms(5) unfolding order_sound_def img by auto
qed (use assms(1) in \<open>auto simp: tables_sound_def\<close>)


section \<open>The life of a fulfilment order\<close>

inductive fulfillment_moves :: "fulfillment_status \<Rightarrow> fulfillment_status \<Rightarrow> bool" where
  "a \<in> {FS_PENDING, FS_RELEASED, FS_PICKING} \<Longrightarrow> fulfillment_moves a FS_PICKED"
| "fulfillment_moves FS_PICKED FS_PACKED"
| "fulfillment_moves FS_PACKED FS_LABELED"
| "fulfillment_moves FS_LABELED FS_MANIFESTED"
| "fulfillment_moves FS_MANIFESTED FS_DISPATCHED"
| "3 \<le> stage a \<Longrightarrow> fulfillment_moves a FS_DELIVERED"

definition advances :: "fulfillment_order list \<Rightarrow> fulfillment_order list \<Rightarrow> bool" where
  "advances os os' \<longleftrightarrow> (\<forall>d\<in>set os. \<exists>d'\<in>set os'. fo_id d' = fo_id d
     \<and> fulfillment_moves\<^sup>*\<^sup>* (fo_status d) (fo_status d'))"

lemma advances_refl [simp]: "advances os os"
  by (auto simp: advances_def)

lemma advances_trans: "advances os os' \<Longrightarrow> advances os' os'' \<Longrightarrow> advances os os''"
  unfolding advances_def
proof
  fix d assume one: "\<forall>d\<in>set os. \<exists>d'\<in>set os'. fo_id d' = fo_id d \<and> fulfillment_moves\<^sup>*\<^sup>* (fo_status d) (fo_status d')"
    and two: "\<forall>d\<in>set os'. \<exists>d'\<in>set os''. fo_id d' = fo_id d \<and> fulfillment_moves\<^sup>*\<^sup>* (fo_status d) (fo_status d')"
    and "d \<in> set os"
  with one obtain e where e: "e \<in> set os'" "fo_id e = fo_id d" "fulfillment_moves\<^sup>*\<^sup>* (fo_status d) (fo_status e)" by blast
  with two obtain f where "f \<in> set os''" "fo_id f = fo_id e" "fulfillment_moves\<^sup>*\<^sup>* (fo_status e) (fo_status f)" by blast
  with e show "\<exists>d'\<in>set os''. fo_id d' = fo_id d \<and> fulfillment_moves\<^sup>*\<^sup>* (fo_status d) (fo_status d')"
    by (intro bexI [of _ f]) auto
qed

lemma advances_append [simp]: "advances os (os @ [d])"
  by (auto simp: advances_def)

lemma advances_move_at:
  assumes "\<And>d. d \<in> set os \<Longrightarrow> fo_id d = i \<Longrightarrow> fulfillment_moves (fo_status d) st"
  shows "advances os (move_at i st os)"
  unfolding advances_def
proof
  fix d assume d: "d \<in> set os"
  let ?e = "if fo_id d = i then moved_order st d else d"
  have "?e \<in> set (move_at i st os)" using d by (auto simp: move_at_def)
  moreover have "fulfillment_moves\<^sup>*\<^sup>* (fo_status d) (fo_status ?e)"
    using assms [OF d] by (auto simp: moved_order_def)
  ultimately show "\<exists>d'\<in>set (move_at i st os). fo_id d' = fo_id d \<and> fulfillment_moves\<^sup>*\<^sup>* (fo_status d) (fo_status d')"
    by (intro bexI [of _ ?e]) (auto simp: moved_order_def)
qed

lemma sound_unique: "tables_sound (os, ls, ps, hs) \<Longrightarrow> d \<in> set os \<Longrightarrow> x \<in> set os \<Longrightarrow> fo_id x = fo_id d \<Longrightarrow> x = d"
  by (auto simp: tables_sound_def dest: distinct_mapD)

section \<open>Every operation keeps the tables sound\<close>

definition proceeds :: "'m fulfillment_db_scheme \<Rightarrow> 'm fulfillment_db_scheme \<Rightarrow> bool" where
  "proceeds s t \<longleftrightarrow> warehouse_sound t \<and> advances (fulfillment_orders s) (fulfillment_orders t)"

lemma proceedsI:
  assumes "warehouse_view t = (move_at (fo_id d) st (fulfillment_orders s), ls, ps, hs)" and "warehouse_sound s"
    and "tables_sound (move_at (fo_id d) st (fulfillment_orders s), ls, ps, hs)"
    and "d \<in> set (fulfillment_orders s)" and "fulfillment_moves (fo_status d) st"
  shows "proceeds s t"
proof -
  have "x = d" if "x \<in> set (fulfillment_orders s)" "fo_id x = fo_id d" for x
    using assms(2,4) that by (auto simp: warehouse_sound_def warehouse_view_def intro: sound_unique)
  then have "advances (fulfillment_orders s) (move_at (fo_id d) st (fulfillment_orders s))"
    using assms(5) by (intro advances_move_at) blast
  with assms(1,3) show ?thesis by (simp add: proceeds_def warehouse_sound_def) (simp add: warehouse_view_def)
qed

lemma warehouse_more: "runtime.more t = runtime.more s \<Longrightarrow> warehouse_view t = warehouse_view s"
  by (cases s; cases t) (simp add: warehouse_view_def)

lemma warehouse_sound_more: "runtime.more t = runtime.more s \<Longrightarrow> warehouse_sound s \<Longrightarrow> warehouse_sound t"
  by (simp add: warehouse_sound_def warehouse_more [of t s])

lemma always_warehouse:
  assumes "atomic m" and "\<And>s x t. warehouse_sound s \<Longrightarrow> m s = (Inr x, t) \<Longrightarrow> warehouse_sound t"
  shows "always warehouse_sound m"
  by (rule always_atomic [OF assms(1) warehouse_sound_more assms(2)])

lemma always_warehouse_keeps: "keeps warehouse_view m \<Longrightarrow> always warehouse_sound m"
  using always_keeps [of warehouse_view m tables_sound] by (simp add: warehouse_sound_def always_def)

lemma keeps_requireFulfillment [keeps_intros]: "keeps v (requireFulfillment ctx i)"
  unfolding requireFulfillment_def by (intro keeps_intros)

lemma update_fulfillment_rows:
  assumes "update_fulfillment i st s = (Inr d, t)" and "distinct (map fo_id (fulfillment_orders s))"
  shows "fulfillment_orders t = move_at i st (fulfillment_orders s) \<and> fulfillment_lines t = fulfillment_lines s
    \<and> packages t = packages s \<and> shipments t = shipments s"
  using assms update_first_map [OF assms(2), of i "moved_order st"]
  by (auto simp: update_fulfillment_def move_at_def moved_order_def [abs_def])

lemma sound_ids: "warehouse_sound s \<Longrightarrow> distinct (map fo_id (fulfillment_orders s)) \<and> distinct (map fl_id (fulfillment_lines s))"
  by (simp add: warehouse_sound_def warehouse_view_def tables_sound_def)

lemma pick_sound:
  fixes s :: "'m fulfillment_db_scheme"
  assumes "warehouse_sound s" and "pick ctx i binId s = (Inr r, t)"
  shows "proceeds s t"
proof -
  from assms(2) obtain d e u v where d: "List.find (\<lambda>d. fo_id d = i \<and> fo_tenantId d = ctx_tenantId ctx) (fulfillment_orders s) = Some d"
    and st: "fo_status d \<in> {FS_PENDING, FS_RELEASED, FS_PICKING}"
    and u: "for_each (fv_lines (fulfillment_view_of s d)) (pick_line ctx binId) s = (Inr (), u)"
    and v: "update_fulfillment i FS_PICKED u = (Inr e, v)" and t: "t = v"
    unfolding pick_def by (auto simp: requireFulfillment_Inr fulfillment_view_of_def)
  have d': "d \<in> set (fulfillment_orders s)" "fo_id d = i" using d by (auto dest: find_SomeD)
  from for_each_lines [OF pick_line_rows u] sound_ids [OF assms(1)]
  have "warehouse_view u = (fulfillment_orders s, map (\<lambda>x. if fl_fulfillmentOrderId x = fo_id d then picked_line binId x x else x)
      (fulfillment_lines s), packages s, shipments s)"
    by (subst (asm) order_lines_of) (simp_all add: picked_line_def)
  then have "warehouse_view t = (move_at (fo_id d) FS_PICKED (fulfillment_orders s),
      map (\<lambda>x. if fl_fulfillmentOrderId x = fo_id d then picked_line binId x x else x) (fulfillment_lines s),
      packages s, shipments s)"
    using update_fulfillment_rows [OF v] sound_ids [OF assms(1)] by (simp add: warehouse_view_def t d')
  moreover have "stage (fo_status d) = 0" using st by auto
  then have "tables_sound (move_at (fo_id d) FS_PICKED (fulfillment_orders s),
      map (\<lambda>x. if fl_fulfillmentOrderId x = fo_id d then picked_line binId x x else x) (fulfillment_lines s),
      packages s, shipments s)"
    using assms(1) d' by (intro sound_picked) (simp_all add: warehouse_sound_def warehouse_view_def)
  moreover have "fulfillment_moves (fo_status d) FS_PICKED" using st by (auto intro: fulfillment_moves.intros)
  ultimately show ?thesis using assms(1) d'(1) by (intro proceedsI)
qed

lemma pack_sound:
  fixes s :: "'m fulfillment_db_scheme"
  assumes "warehouse_sound s" and "pack ctx i input s = (Inr r, t)"
  shows "proceeds s t"
proof -
  from assms(2) obtain d e k c p p' u u1 u2 v where d: "List.find (\<lambda>d. fo_id d = i \<and> fo_tenantId d = ctx_tenantId ctx) (fulfillment_orders s) = Some d"
    and st: "fo_status d = FS_PICKED"
    and u: "for_each (fv_lines (fulfillment_view_of s d)) pack_line s = (Inr (), u)"
    and steps: "random_uuid u = (Inr k, u1)" "now u1 = (Inr c, u2)" "create_row packages packages_update same_package p u2 = (Inr p', v)"
    and p: "fp_fulfillmentOrderId p = i" and t: "update_fulfillment i FS_PACKED v = (Inr e, t)"
    unfolding pack_def
    by (auto simp: requireFulfillment_Inr fulfillment_view_of_def simp del: random_uuid_Inr now_Inr create_row_Inr)
  from steps have v: "warehouse_view v = (fulfillment_orders u, fulfillment_lines u, packages u @ [p], shipments u)"
    by (auto simp: warehouse_view_def)
  have d': "d \<in> set (fulfillment_orders s)" "fo_id d = i" using d by (auto dest: find_SomeD)
  have "warehouse_view u = (fulfillment_orders s, foldl (\<lambda>ys l. update_first (\<lambda>y. fl_id y = fl_id l) (packed_line l) ys)
      (fulfillment_lines s) (fv_lines (fulfillment_view_of s d)), packages s, shipments s)"
    by (rule for_each_lines [OF _ u]) (rule pack_line_rows)
  then have "warehouse_view u = (fulfillment_orders s, map (\<lambda>x. if fl_fulfillmentOrderId x = fo_id d then packed_line x x else x)
      (fulfillment_lines s), packages s, shipments s)"
    using sound_ids [OF assms(1)] by (subst (asm) order_lines_of) (simp_all add: packed_line_def)
  then have "warehouse_view t = (move_at (fo_id d) FS_PACKED (fulfillment_orders s),
      map (\<lambda>x. if fl_fulfillmentOrderId x = fo_id d then packed_line x x else x) (fulfillment_lines s),
      packages s @ [p], shipments s)"
    using update_fulfillment_rows [OF t] sound_ids [OF assms(1)] v by (simp add: warehouse_view_def d')
  moreover have "tables_sound (move_at (fo_id d) FS_PACKED (fulfillment_orders s),
      map (\<lambda>x. if fl_fulfillmentOrderId x = fo_id d then packed_line x x else x) (fulfillment_lines s),
      packages s @ [p], shipments s)"
    using assms(1) d' p st by (intro sound_packed) (simp_all add: warehouse_sound_def warehouse_view_def)
  moreover have "fulfillment_moves (fo_status d) FS_PACKED" using st by (auto intro: fulfillment_moves.intros)
  ultimately show ?thesis using assms(1) d'(1) by (intro proceedsI)
qed

lemma transition_sound:
  assumes "warehouse_sound s" and "transition ctx i next s = (Inr r, t)"
  shows "proceeds s t"
proof -
  define c where "c = clock s (clock_reads s)"
  define u where "u = shipments_update (update_where (\<lambda>h. sh_tenantId h = ctx_tenantId ctx \<and> sh_fulfillmentOrderId h = i)
      (transition_shipment next c)) (s\<lparr>clock_reads := Suc (clock_reads s)\<rparr>)"
  from assms(2) obtain d e where d: "List.find (\<lambda>d. fo_id d = i \<and> fo_tenantId d = ctx_tenantId ctx) (fulfillment_orders s) = Some d"
    and st: "fo_status d = expected_status next"
    and t: "update_fulfillment i (step_status next) u = (Inr e, t)"
    unfolding transition_def u_def c_def by (auto simp: requireFulfillment_Inr fulfillment_view_of_def)
  have u: "warehouse_view u = (fulfillment_orders s, fulfillment_lines s, packages s,
        update_where (\<lambda>h. sh_tenantId h = ctx_tenantId ctx \<and> sh_fulfillmentOrderId h = i) (transition_shipment next c) (shipments s))"
    by (simp add: u_def warehouse_view_def)
  have d': "d \<in> set (fulfillment_orders s)" "fo_id d = i" "fo_tenantId d = ctx_tenantId ctx" using d by (auto dest: find_SomeD)
  let ?hs = "map (\<lambda>h. if sh_fulfillmentOrderId h = fo_id d then transition_shipment next c h else h) (shipments s)"
  have "order_sound (fulfillment_lines s) (packages s) (shipments s) d"
    using assms(1) d' by (simp add: warehouse_sound_def warehouse_view_def sound_order)
  then have "update_where (\<lambda>h. sh_tenantId h = ctx_tenantId ctx \<and> sh_fulfillmentOrderId h = i) (transition_shipment next c) (shipments s) = ?hs"
    using d' by (auto simp: update_where_def order_sound_def intro!: map_cong)
  then have view: "warehouse_view t = (move_at (fo_id d) (step_status next) (fulfillment_orders s), fulfillment_lines s, packages s, ?hs)"
    using update_fulfillment_rows [OF t] sound_ids [OF assms(1)] u by (simp add: warehouse_view_def d')
  have sound: "tables_sound (move_at (fo_id d) (step_status next) (fulfillment_orders s), fulfillment_lines s, packages s, ?hs)"
    using assms(1) d'(1) st
    by (intro sound_dispatched) (auto simp: warehouse_sound_def warehouse_view_def step_status_def expected_status_def
        transition_shipment_def split: dispatch_step.splits)
  have "fulfillment_moves (fo_status d) (step_status next)"
    using st by (cases "next") (auto simp: step_status_def expected_status_def intro: fulfillment_moves.intros)
  with view sound show ?thesis using assms(1) d'(1) by (intro proceedsI)
qed


lemma create_lines_rows:
  assumes "for_each named (create_fulfillment_line ctx i) s = (Inr (), t)" and "distinct (map fl_id (fulfillment_lines s))"
  shows "\<exists>news. warehouse_view t = (fulfillment_orders s, fulfillment_lines s @ news, packages s, shipments s)
    \<and> (\<forall>l\<in>set news. fl_fulfillmentOrderId l = i) \<and> distinct (map fl_id (fulfillment_lines s @ news))"
  using assms
proof (induction named arbitrary: s)
  case Nil
  then show ?case by (simp add: warehouse_view_def)
next
  case (Cons x named)
  then obtain u where step: "create_fulfillment_line ctx i x s = (Inr (), u)"
    and rest: "for_each named (create_fulfillment_line ctx i) u = (Inr (), t)" by auto
  from step obtain l where u: "warehouse_view u = (fulfillment_orders s, fulfillment_lines s @ [l], packages s, shipments s)"
    and l: "fl_fulfillmentOrderId l = i" "\<forall>y\<in>set (fulfillment_lines s). fl_id l \<noteq> fl_id y"
    unfolding create_fulfillment_line_def warehouse_view_def
    by (cases x) (auto simp: same_fulfillment_line_def)
  have "distinct (map fl_id (fulfillment_lines u))"
    using u l Cons.prems(2) by (auto simp: warehouse_view_def)
  from Cons.IH [OF rest this] obtain news where "warehouse_view t =
      (fulfillment_orders u, fulfillment_lines u @ news, packages u, shipments u)"
    "\<forall>l\<in>set news. fl_fulfillmentOrderId l = i" "distinct (map fl_id (fulfillment_lines u @ news))" by blast
  with u l show ?case by (intro exI [of _ "l # news"]) (auto simp: warehouse_view_def)
qed

lemma keeps_with_uuids [keeps_intros]:
  "(\<And>f s. v (uuids_drawn_update f s) = v s) \<Longrightarrow> keeps v (with_uuids xs)"
  unfolding with_uuids_def by (intro keeps_intros)

lemma atomic_now [atomic_intros]: "atomic now" "atomic random_uuid" "atomic (send c)"
  by (auto simp: atomic_def now_def random_uuid_def send_def)

lemma createFulfillment_sound:
  fixes s :: "'m fulfillment_db_scheme"
  assumes "warehouse_sound s" and "createFulfillment ctx input s = (Inr r, t)"
  shows "proceeds s t"
proof -
  from assms(2) obtain d d' joined k named u u1 u2 where k: "random_uuid s = (Inr k, u)"
    and named: "with_uuids joined u = (Inr named, u1)"
    and d: "create_row fulfillment_orders fulfillment_orders_update same_fulfillment d u1 = (Inr d', u2)"
    and n: "fo_id d = k" "fo_status d = FS_PENDING"
    and t: "for_each named (create_fulfillment_line ctx k) u2 = (Inr (), t)"
    unfolding createFulfillment_def requireFacility_def by (auto simp del: random_uuid_Inr create_row_Inr)
  have "warehouse_view u1 = warehouse_view s"
    using keepsD [OF keeps_with_uuids named, of warehouse_view] k by (auto simp: warehouse_view_def)
  with d have u2: "warehouse_view u2 = (fulfillment_orders s @ [d], fulfillment_lines s, packages s, shipments s)"
    and new: "\<forall>x\<in>set (fulfillment_orders s). fo_id x \<noteq> fo_id d"
    by (auto simp: warehouse_view_def same_fulfillment_def)
  have "distinct (map fl_id (fulfillment_lines u2))" using u2 sound_ids [OF assms(1)] by (simp add: warehouse_view_def)
  from create_lines_rows [OF t this] u2 obtain news where
    "warehouse_view t = (fulfillment_orders s @ [d], fulfillment_lines s @ news, packages s, shipments s)"
    "\<forall>l\<in>set news. fl_fulfillmentOrderId l = k" "distinct (map fl_id (fulfillment_lines s @ news))"
    by (auto simp: warehouse_view_def)
  moreover from this have "tables_sound (fulfillment_orders s @ [d], fulfillment_lines s @ news, packages s, shipments s)"
    using assms(1) new n by (intro sound_new_order) (simp_all add: warehouse_sound_def warehouse_view_def)
  ultimately show ?thesis by (simp add: proceeds_def warehouse_sound_def) (simp add: warehouse_view_def)
qed

lemma shipment_by_order:
  assumes "distinct (map sh_id hs)" and "distinct (map sh_fulfillmentOrderId hs)" and "h \<in> set hs"
  shows "update_first (\<lambda>x. sh_id x = sh_id h) f hs =
    map (\<lambda>x. if sh_fulfillmentOrderId x = sh_fulfillmentOrderId h then f x else x) hs"
  unfolding update_first_map [OF assms(1)]
  using assms by (intro map_cong) (auto dest: distinct_mapD)

lemma delivered_sound:
  assumes "tables_sound (os, ls, ps, hs)" and "h \<in> set hs"
    and "\<And>h. sh_fulfillmentOrderId (f h) = sh_fulfillmentOrderId h \<and> sh_tenantId (f h) = sh_tenantId h
          \<and> sh_id (f h) = sh_id h \<and> sh_status (f h) = FS_DELIVERED"
  shows "tables_sound (move_at (sh_fulfillmentOrderId h) FS_DELIVERED os, ls, ps,
      update_first (\<lambda>x. sh_id x = sh_id h) f hs)
    \<and> (\<exists>d\<in>set os. fo_id d = sh_fulfillmentOrderId h \<and> fulfillment_moves (fo_status d) FS_DELIVERED)"
proof -
  from assms(1,2) have "sh_fulfillmentOrderId h \<in> fo_id ` set os" by (auto simp: tables_sound_def)
  then obtain d where d: "d \<in> set os" "fo_id d = sh_fulfillmentOrderId h" by force
  have late: "3 \<le> stage (fo_status d)"
    using sound_order [OF assms(1) d(1)] assms(2) d(2) by (force simp: order_sound_def)
  then have "fulfillment_moves (fo_status d) FS_DELIVERED" by (rule fulfillment_moves.intros)
  moreover from late sound_dispatched [OF assms(1) d(1), of FS_DELIVERED f] assms(3)
  have "tables_sound (move_at (fo_id d) FS_DELIVERED os, ls, ps,
      map (\<lambda>x. if sh_fulfillmentOrderId x = fo_id d then f x else x) hs)" by simp
  moreover have "update_first (\<lambda>x. sh_id x = sh_id h) f hs =
      map (\<lambda>x. if sh_fulfillmentOrderId x = sh_fulfillmentOrderId h then f x else x) hs"
    using assms(1,2) by (intro shipment_by_order) (simp_all add: tables_sound_def)
  ultimately show ?thesis using d by auto
qed

lemma record_tracking_sound:
  assumes "warehouse_sound s" and "record_tracking ctx h input s = (Inr r, t)" and "h \<in> set (shipments s)"
  shows "proceeds s t"
proof (cases "dt_code input = TC_DELIVERED")
  case False
  with assms(2) have "warehouse_view t = warehouse_view s" by (auto simp: record_tracking_def warehouse_view_def)
  with assms(1) show ?thesis by (simp add: proceeds_def warehouse_sound_def) (simp add: warehouse_view_def)
next
  case True
  let ?f = "\<lambda>x. x\<lparr>sh_status := FS_DELIVERED, sh_deliveredAt := Some (dt_occurredAt input)\<rparr>"
  from True assms(2) obtain k u e e' u1 x u2 d where "random_uuid s = (Inr k, u)"
    "create_row tracking_events tracking_events_update same_tracking_event e u = (Inr e', u1)"
    and u2: "update_row shipments shipments_update (\<lambda>x. sh_id x = sh_id h) ?f u1 = (Inr x, u2)"
    and t: "update_fulfillment (sh_fulfillmentOrderId h) FS_DELIVERED u2 = (Inr d, t)"
    unfolding record_tracking_def by (auto simp del: random_uuid_Inr create_row_Inr update_row_Inr)
  then have "warehouse_view u2 = (fulfillment_orders s, fulfillment_lines s, packages s,
      update_first (\<lambda>x. sh_id x = sh_id h) ?f (shipments s))" by (auto simp: warehouse_view_def)
  then have view: "warehouse_view t = (move_at (sh_fulfillmentOrderId h) FS_DELIVERED (fulfillment_orders s),
      fulfillment_lines s, packages s, update_first (\<lambda>x. sh_id x = sh_id h) ?f (shipments s))"
    using update_fulfillment_rows [OF t] sound_ids [OF assms(1)] by (simp add: warehouse_view_def)
  from delivered_sound [of "fulfillment_orders s" "fulfillment_lines s" "packages s" "shipments s" h ?f] assms(1,3)
  have sound: "tables_sound (move_at (sh_fulfillmentOrderId h) FS_DELIVERED (fulfillment_orders s),
      fulfillment_lines s, packages s, update_first (\<lambda>x. sh_id x = sh_id h) ?f (shipments s))"
    and "\<exists>d\<in>set (fulfillment_orders s). fo_id d = sh_fulfillmentOrderId h \<and> fulfillment_moves (fo_status d) FS_DELIVERED"
    by (simp_all add: warehouse_sound_def) (simp_all add: warehouse_view_def)
  then obtain d where "d \<in> set (fulfillment_orders s)" "fo_id d = sh_fulfillmentOrderId h"
    "fulfillment_moves (fo_status d) FS_DELIVERED" by blast
  with view sound show ?thesis using assms(1) by (intro proceedsI [of t d]) simp_all
qed

lemma proceeds_refl: "warehouse_sound s \<Longrightarrow> proceeds s s"
  by (simp add: proceeds_def)

lemma tracking_sound:
  assumes "warehouse_sound s" and "tracking ctx i input s = (Inr r, t)"
  shows "proceeds s t"
  using assms(2) record_tracking_sound [OF assms(1)] proceeds_refl [OF assms(1)]
  by (auto simp: tracking_def split: option.splits dest: find_SomeD)

section \<open>The carrier\<close>

text \<open>What the service relies on: the carrier does not write to the database of the service.\<close>

locale carrier_contract =
  fixes carrier :: "'m fulfillment_db_scheme carrier_port"
  assumes carrier_outside: "keeps runtime.more (carrier input)"
begin

lemma label_sound:
  assumes "warehouse_sound s" and "label carrier ctx i input s = (Inr r, t)"
  shows "proceeds s t"
proof -
  from assms(2) obtain d k u a u1 ask lab u2 h h' e u3 where
    d: "List.find (\<lambda>d. fo_id d = i \<and> fo_tenantId d = ctx_tenantId ctx) (fulfillment_orders s) = Some d"
    and st: "fo_status d = FS_PACKED"
    and sent: "random_uuid s = (Inr k, u)" "send a u = (Inr (), u1)"
    and asked: "carrier ask u1 = (Inr lab, u2)"
    and h: "create_row shipments shipments_update same_shipment h u2 = (Inr h', u3)"
    and row: "sh_fulfillmentOrderId h = i" "sh_status h = FS_LABELED" "sh_tenantId h = ctx_tenantId ctx"
    and t: "update_fulfillment i FS_LABELED u3 = (Inr e, t)"
    unfolding label_def
    by (auto simp: requireFulfillment_Inr fulfillment_view_of_def simp del: random_uuid_Inr create_row_Inr)
  have d': "d \<in> set (fulfillment_orders s)" "fo_id d = i" "fo_tenantId d = ctx_tenantId ctx" using d by (auto dest: find_SomeD)
  from asked have "runtime.more u2 = runtime.more u1" by (blast dest: keepsD [OF carrier_outside])
  then have u2: "warehouse_view u2 = warehouse_view s"
    using sent by (auto simp: warehouse_more [of u2 u1]) (auto simp: warehouse_view_def send_def)
  with h have "warehouse_view u3 = (fulfillment_orders s, fulfillment_lines s, packages s, shipments s @ [h])"
    and new: "sh_id h \<notin> sh_id ` set (shipments s)" by (auto simp: warehouse_view_def same_shipment_def)
  then have "warehouse_view t = (move_at (fo_id d) FS_LABELED (fulfillment_orders s), fulfillment_lines s, packages s, shipments s @ [h])"
    using update_fulfillment_rows [OF t] sound_ids [OF assms(1)] by (simp add: warehouse_view_def d')
  moreover have "tables_sound (move_at (fo_id d) FS_LABELED (fulfillment_orders s), fulfillment_lines s, packages s, shipments s @ [h])"
    using assms(1) d' st row new by (intro sound_labeled) (simp_all add: warehouse_sound_def warehouse_view_def)
  moreover have "fulfillment_moves (fo_status d) FS_LABELED" using st by (auto intro: fulfillment_moves.intros)
  ultimately show ?thesis using assms(1) d'(1) by (intro proceedsI)
qed


lemma atomic_label: "atomic (label carrier ctx i input)"
  unfolding label_def requireFulfillment_def
  by (intro atomic_seq atomic_transaction keeps_intros carrier_outside) (simp_all add: keeps_def send_def random_uuid_def)

end

interpretation local_carrier: carrier_contract "deterministic_carrier sha256"
  by unfold_locales (unfold deterministic_carrier_def Let_def, rule keeps_ret)

section \<open>Runs of the warehouse\<close>

lemma atomic_handlers:
  "atomic (createFulfillment ctx cf)" "atomic (pick ctx i bin)" "atomic (pack ctx i pk)"
  "atomic (transition ctx i next)" "atomic (tracking ctx i te)"
  unfolding createFulfillment_def requireFacility_def pick_def pack_def transition_def tracking_def
    record_tracking_def requireFulfillment_def with_uuids_def
  by (intro atomic_intros atomic_seq keeps_intros; simp add: keeps_def random_uuid_def)+

inductive warehouse_step ::
  "'m fulfillment_db_scheme carrier_port \<Rightarrow> 'm fulfillment_db_scheme \<Rightarrow> 'm fulfillment_db_scheme \<Rightarrow> bool"
  for carrier where
  Create: "createFulfillment ctx cf s = (ra, t) \<Longrightarrow> warehouse_step carrier s t"
| Pick: "pick ctx i bin s = (rb, t) \<Longrightarrow> warehouse_step carrier s t"
| Pack: "pack ctx i pk s = (rc, t) \<Longrightarrow> warehouse_step carrier s t"
| Label: "label carrier ctx i lb s = (rd, t) \<Longrightarrow> warehouse_step carrier s t"
| Transition: "transition ctx i next s = (re, t) \<Longrightarrow> warehouse_step carrier s t"
| Track: "tracking ctx i te s = (rf, t) \<Longrightarrow> warehouse_step carrier s t"

lemma proceeds_atomic:
  assumes "atomic m" and "\<And>x. m s = (Inr x, t) \<Longrightarrow> proceeds s t" and "warehouse_sound s" and "m s = (r, t)"
  shows "proceeds s t"
proof (cases r)
  case (Inl e)
  with assms(1,4) have "runtime.more t = runtime.more s" by (auto intro: atomicD)
  then have "warehouse_view t = warehouse_view s" by (rule warehouse_more)
  with assms(3) show ?thesis by (simp add: proceeds_def warehouse_sound_def) (simp add: warehouse_view_def)
next
  case (Inr x)
  with assms(2,4) show ?thesis by blast
qed

context carrier_contract
begin

lemma step_proceeds:
  assumes "warehouse_step carrier s t" and "warehouse_sound s"
  shows "proceeds s t"
  using assms(1)
proof cases
  case (Create ctx cf ra)
  show ?thesis by (rule proceeds_atomic [OF atomic_handlers(1) createFulfillment_sound [OF assms(2)] assms(2) Create])
next
  case (Pick ctx i bin rb)
  show ?thesis by (rule proceeds_atomic [OF atomic_handlers(2) pick_sound [OF assms(2)] assms(2) Pick])
next
  case (Pack ctx i pk rc)
  show ?thesis by (rule proceeds_atomic [OF atomic_handlers(3) pack_sound [OF assms(2)] assms(2) Pack])
next
  case (Label ctx i lb rd)
  show ?thesis by (rule proceeds_atomic [OF atomic_label label_sound [OF assms(2)] assms(2) Label])
next
  case (Transition ctx i nx re)
  show ?thesis by (rule proceeds_atomic [OF atomic_handlers(4) transition_sound [OF assms(2)] assms(2) Transition])
next
  case (Track ctx i te rf)
  show ?thesis by (rule proceeds_atomic [OF atomic_handlers(5) tracking_sound [OF assms(2)] assms(2) Track])
qed

lemma run_proceeds: "(warehouse_step carrier)\<^sup>*\<^sup>* s t \<Longrightarrow> warehouse_sound s \<Longrightarrow> proceeds s t"
proof (induction rule: rtranclp_induct)
  case base
  then show ?case by (rule proceeds_refl)
next
  case (step u t)
  then have "proceeds s u" by blast
  moreover from this have "warehouse_sound u" by (simp add: proceeds_def)
  with step(2) have "proceeds u t" by (rule step_proceeds)
  ultimately show ?case by (auto simp: proceeds_def intro: advances_trans)
qed

end

section \<open>A concrete warehouse\<close>

definition ready_facility :: facility where
  "ready_facility = \<lparr>fc_id = ''facility'', fc_tenantId = ''tenant'', fc_key = ''main'', fc_name = ''Main'',
     fc_address = JNull, fc_status = WH_OPEN, fc_version = 1, fc_deletedAt = None\<rparr>"

definition ready_split :: order_split where
  "ready_split = \<lparr>os_id = ''split'', os_tenantId = ''tenant'', os_orderId = ''order'', os_sellerId = ''seller'',
     os_supplierId = ''supplier'', os_status = SP_ACCEPTED, os_subtotalMinor = 2500\<rparr>"

definition ready_line :: order_line where
  "ready_line = \<lparr>ol_id = ''line'', ol_tenantId = ''tenant'', ol_orderId = ''order'', ol_offerId = ''offer'',
     ol_variantId = ''variant'', ol_sellerId = ''seller'', ol_supplierId = ''supplier'', ol_sku = ''LAMP'',
     ol_title = ''Lamp'', ol_quantity = 2, ol_unitPriceMinor = 1250, ol_lineTotalMinor = 2500\<rparr>"

definition ready_warehouse :: fulfillment_db where
  "ready_warehouse = fresh_fulfillment\<lparr>products := [some_product], variants := [some_variant],
     facilities := [ready_facility], order_splits := [ready_split], order_lines := [ready_line]\<rparr>"

lemmas fresh_defs = fresh_fulfillment_def fresh_commerce_def fresh_billing_def fresh_finance_def fresh_inventory_def
  fresh_catalog_def fresh_events_def fulfillment_db.defs commerce_db.defs billing_db.defs finance_db.defs
  inventory_db.defs catalog_db.defs events_db.defs

lemma ready_tables [simp]:
  "balances ready_warehouse = []" "ledger ready_warehouse = []" "asns ready_warehouse = []"
  "asn_lines ready_warehouse = []" "warehouse_view ready_warehouse = ([], [], [], [])"
  by (simp_all add: ready_warehouse_def warehouse_view_def fresh_defs)

definition stocked_warehouse :: fulfillment_db where
  "stocked_warehouse = snd (inventory_feed some_context some_principal (stock_feed ''wms'' ''first'' 10) ready_warehouse)"

definition planned_warehouse :: fulfillment_db where
  "planned_warehouse = snd (createFulfillment some_context
     \<lparr>du_orderSplitId = ''split'', du_facilityId = ''facility'', du_slaDueAt = None\<rparr> stocked_warehouse)"

text \<open>The identifiers drawn for the order and its shipment.\<close>

definition planned_order :: uuid where
  "planned_order = ''6''"

definition picked_warehouse :: fulfillment_db where
  "picked_warehouse = snd (pick some_context planned_order None planned_warehouse)"

definition packed_warehouse :: fulfillment_db where
  "packed_warehouse = snd (pack some_context planned_order
     \<lparr>dk_packageCode = ''BOX-1'', dk_weightGrams = 900, dk_dimensions = None\<rparr> picked_warehouse)"

definition some_carrier :: "fulfillment_db carrier_port" where
  "some_carrier = deterministic_carrier (\<lambda>text. text)"

definition labeled_warehouse :: fulfillment_db where
  "labeled_warehouse = snd (label some_carrier some_context planned_order
     \<lparr>dx_carrierKey = ''post'', dx_serviceLevel = ''ground''\<rparr> packed_warehouse)"

definition manifested_warehouse :: fulfillment_db where
  "manifested_warehouse = snd (transition some_context planned_order DS_MANIFESTED labeled_warehouse)"

definition dispatched_warehouse :: fulfillment_db where
  "dispatched_warehouse = snd (transition some_context planned_order DS_DISPATCHED manifested_warehouse)"

definition delivered_warehouse :: fulfillment_db where
  "delivered_warehouse = snd (tracking some_context ''10''
     \<lparr>dt_externalKey = ''scan-1'', dt_code = TC_DELIVERED, dt_description = ''delivered'', dt_location = None,
      dt_occurredAt = 99, dt_payload = None\<rparr> dispatched_warehouse)"

lemma planned_run: "(warehouse_step some_carrier)\<^sup>*\<^sup>* stocked_warehouse planned_warehouse"
  unfolding planned_warehouse_def by (rule r_into_rtranclp, rule warehouse_step.Create, rule surjective_pairing)

lemma delivered_run: "(warehouse_step some_carrier)\<^sup>*\<^sup>* planned_warehouse delivered_warehouse"
proof -
  let ?step = "warehouse_step some_carrier"
  have "?step planned_warehouse picked_warehouse"
    unfolding picked_warehouse_def by (rule warehouse_step.Pick, rule surjective_pairing)
  then have "?step\<^sup>*\<^sup>* planned_warehouse picked_warehouse" ..
  also have "?step picked_warehouse packed_warehouse"
    unfolding packed_warehouse_def by (rule warehouse_step.Pack, rule surjective_pairing)
  also have "?step packed_warehouse labeled_warehouse"
    unfolding labeled_warehouse_def by (rule warehouse_step.Label, rule surjective_pairing)
  also have "?step labeled_warehouse manifested_warehouse"
    unfolding manifested_warehouse_def by (rule warehouse_step.Transition, rule surjective_pairing)
  also have "?step manifested_warehouse dispatched_warehouse"
    unfolding dispatched_warehouse_def by (rule warehouse_step.Transition, rule surjective_pairing)
  also have "?step dispatched_warehouse delivered_warehouse"
    unfolding delivered_warehouse_def by (rule warehouse_step.Track, rule surjective_pairing)
  finally show ?thesis .
qed

lemma keeps_inventory_feed_warehouse: "keeps warehouse_view (inventory_feed ctx pr dto)"
  unfolding inventory_feed_def inventory_feed_tx_def apply_inventory_feed_def
  by (rule keeps_transaction, rule warehouse_more, assumption) (intro keeps_intros; simp add: warehouse_view_def)

lemma stocked_sound: "warehouse_sound stocked_warehouse"
proof -
  have "warehouse_view stocked_warehouse = warehouse_view ready_warehouse"
    unfolding stocked_warehouse_def
    using keepsD [OF keeps_inventory_feed_warehouse surjective_pairing] .
  then show ?thesis by (simp add: warehouse_sound_def tables_sound_def)
qed

lemma some_carrier_contract: "carrier_contract some_carrier"
  unfolding some_carrier_def by (rule local_carrier.carrier_contract_axioms)

section \<open>Properties\<close>

text \<open>
  C14. Along every run of the fulfilment operations, refused calls included, an order that carries
  a label has one package and one shipment, the shipment shows the status of its order, and every
  line was picked and packed in full; in particular nothing is delivered unprepared.
\<close>

theorem fulfillment_run_keeps_orders:
  assumes "carrier_contract carrier" and "(warehouse_step carrier)\<^sup>*\<^sup>* s t" and "warehouse_sound s"
  shows "warehouse_sound t \<and> (\<forall>d\<in>set (fulfillment_orders t). 3 \<le> stage (fo_status d) \<longrightarrow>
     (\<exists>p\<in>set (packages t). fp_fulfillmentOrderId p = fo_id d)
     \<and> (\<exists>h\<in>set (shipments t). sh_fulfillmentOrderId h = fo_id d \<and> sh_status h = fo_status d)
     \<and> (\<forall>l\<in>set (fulfillment_lines t). fl_fulfillmentOrderId l = fo_id d \<longrightarrow>
          fl_pickedQty l = fl_quantity l \<and> fl_packedQty l = fl_quantity l))"
proof -
  have t: "warehouse_sound t"
    using carrier_contract.run_proceeds [OF assms] by (simp add: proceeds_def)
  have "(\<exists>p\<in>set (packages t). fp_fulfillmentOrderId p = fo_id d)
     \<and> (\<exists>h\<in>set (shipments t). sh_fulfillmentOrderId h = fo_id d \<and> sh_status h = fo_status d)
     \<and> (\<forall>l\<in>set (fulfillment_lines t). fl_fulfillmentOrderId l = fo_id d \<longrightarrow>
          fl_pickedQty l = fl_quantity l \<and> fl_packedQty l = fl_quantity l)"
    if "d \<in> set (fulfillment_orders t)" "3 \<le> stage (fo_status d)" for d
  proof -
    have d: "order_sound (fulfillment_lines t) (packages t) (shipments t) d"
      using t that(1) by (simp add: warehouse_sound_def warehouse_view_def sound_order)
    with that(2) have "fo_id d \<in> fp_fulfillmentOrderId ` set (packages t)" "fo_id d \<in> sh_fulfillmentOrderId ` set (shipments t)"
      by (auto simp: order_sound_def)
    then obtain p h where "p \<in> set (packages t)" "fp_fulfillmentOrderId p = fo_id d"
      "h \<in> set (shipments t)" "sh_fulfillmentOrderId h = fo_id d" by force
    with d that(2) show ?thesis by (auto simp: order_sound_def)
  qed
  with t show ?thesis by blast
qed

theorem fulfillment_run_keeps_orders_witness:
  "warehouse_sound delivered_warehouse
   \<and> (\<exists>h\<in>set (shipments delivered_warehouse). sh_status h = FS_DELIVERED)"
proof -
  have "(warehouse_step some_carrier)\<^sup>*\<^sup>* stocked_warehouse delivered_warehouse"
    using planned_run delivered_run by (rule rtranclp_trans)
  from fulfillment_run_keeps_orders [OF some_carrier_contract this stocked_sound]
  have t: "warehouse_sound delivered_warehouse"
    and ready: "\<And>d. d \<in> set (fulfillment_orders delivered_warehouse) \<Longrightarrow> 3 \<le> stage (fo_status d) \<Longrightarrow>
      \<exists>h\<in>set (shipments delivered_warehouse). sh_status h = fo_status d" by blast+
  have "map fo_status (fulfillment_orders delivered_warehouse) = [FS_DELIVERED]" by code_simp
  then obtain d where "d \<in> set (fulfillment_orders delivered_warehouse)" "fo_status d = FS_DELIVERED"
    by (auto simp: map_eq_Cons_conv)
  with ready [of d] t show ?thesis by simp
qed

text \<open>
  A fulfilment order only moves forward: picked, packed, labelled, manifested, dispatched; it
  is delivered, possibly early by the report of a carrier, only once it was labelled.
\<close>

theorem fulfillment_life:
  assumes "carrier_contract carrier" and "(warehouse_step carrier)\<^sup>*\<^sup>* s t" and "warehouse_sound s"
    and "d \<in> set (fulfillment_orders s)"
  shows "\<exists>d'\<in>set (fulfillment_orders t). fo_id d' = fo_id d
    \<and> fulfillment_moves\<^sup>*\<^sup>* (fo_status d) (fo_status d')"
  using carrier_contract.run_proceeds [OF assms(1-3)] assms(4) by (auto simp: proceeds_def advances_def)


definition planned_line :: fulfillment_line where
  "planned_line = hd (fulfillment_lines planned_warehouse)"

lemma keeps_createFulfillment_stock: "keeps stock_gap (createFulfillment ctx input)"
  unfolding createFulfillment_def requireFacility_def create_fulfillment_line_def
  by (intro keeps_intros; (erule stock_gap_more | simp add: stock_gap_def))

lemma planned_reconciled: "reconciled planned_warehouse"
proof -
  have "reconciled ready_warehouse" by (simp add: reconciled_imb imb_def ledger_at_def balance_at_def)
  then have "reconciled stocked_warehouse" unfolding stocked_warehouse_def
    by (rule inventory_feed_reconciled [OF _ surjective_pairing])
  moreover have "stock_gap planned_warehouse = stock_gap stocked_warehouse" unfolding planned_warehouse_def
    by (rule keepsD [OF keeps_createFulfillment_stock surjective_pairing])
  ultimately show ?thesis by (simp add: reconciled_imb stock_gap_def)
qed


end
