(* ===== verification/Receiving.thy ===== *)
theory Receiving
  imports Warehouse
begin

text \<open>
  Advance shipping notices: receipts move stock together with its ledger, every line of a notice
  is received at most once and within what was announced, a completed notice is put away, and a
  repeated receipt answers the notice and changes nothing.
\<close>

section \<open>Receipts are movements\<close>

lemma gap_update_asn_line: "keeps stock_gap (update_row asn_lines asn_lines_update P f)"
  by (intro keeps_intros) (simp add: stock_gap_def)

lemma stock_accepted_moves: "preserves stock_gap (stock_accepted ctx pr a key l r)"
  by (rule preservesI) (auto simp: stock_accepted_def stock_gap_def dest!: stock_moves)

lemma receive_line_moves: "preserves stock_gap (receive_line ctx pr a key ls r)"
  unfolding receive_line_def
  by (intro preserves_seq preserves_intros stock_accepted_moves preserves_keeps [OF gap_update_asn_line])
    (rule preserves_keeps, (intro keeps_intros; simp add: stock_gap_def; fail))+

lemma receive_asn_moves: "preserves stock_gap (receive_asn_tx ctx pr asnId lines key h)"
  unfolding receive_asn_tx_def receive_lines_def find_asn_def find_receipt_def lines_of_asn_def count_blockers_def
  by (intro preserves_seq preserves_intros receive_line_moves)
    (rule preserves_keeps, (intro keeps_intros; simp add: stock_gap_def; fail))+

interpretation receiving: stock_movement "\<lambda>(ctx, pr, asnId, lines, key, h). receive_asn_tx ctx pr asnId lines key h"
  by (intro stock_movementI preserves_prod receive_asn_moves)

lemma always_reconciled_receive: "always reconciled (receiveAsn sha256 ctx pr asnId lines key)"
proof -
  have "always reconciled (transaction (receive_asn_tx ctx pr asnId lines k h))" for k h
    using receiving.books.always_transaction [of "(ctx, pr, asnId, lines, k, h)"] by simp
  then show ?thesis
    unfolding receiveAsn_def Let_def find_asn_def find_receipt_def lines_of_asn_def find_row_def find_rows_def
    by (intro hoare_intros)
qed

section \<open>Receipts of a shipping notice\<close>

definition asn_view_of :: "'m fulfillment_db_scheme \<Rightarrow> asn list \<times> asn_line list \<times> asn_receipt list" where
  "asn_view_of s = (asns s, asn_lines s, asn_receipts s)"

text \<open>
  A line of a notice is either untouched or inspected as a whole: accepted and rejected units
  add up to the received ones, which the notice announced.
\<close>

definition asn_line_sound :: "asn_line \<Rightarrow> bool" where
  "asn_line_sound l \<longleftrightarrow> al_receivedQty l = al_acceptedQty l + al_rejectedQty l
     \<and> (if al_inspection l = ''PENDING'' then al_receivedQty l = 0 \<and> al_acceptedQty l = 0 \<and> al_putawayAt l = None
        else 1 \<le> al_receivedQty l \<and> al_receivedQty l \<le> al_expectedQty l)
     \<and> ((0 < al_acceptedQty l) = (al_inspection l = ''PASSED''))
     \<and> (al_putawayAt l \<noteq> None \<longrightarrow> al_putawayBinId l \<noteq> None \<and> 0 < al_acceptedQty l)"

lemma keeps_receipt_queries [keeps_intros]:
  "keeps v (find_receipt ctx key)" "keeps v (find_asn ctx i)" "keeps v (lines_of_asn i)" "keeps v (count_blockers ctx i)"
  unfolding find_receipt_def find_asn_def lines_of_asn_def count_blockers_def by (intro keeps_intros)+

lemma stock_accepted_asn: "keeps asn_view_of (stock_accepted ctx pr a key l r)"
  unfolding stock_accepted_def by (intro keeps_intros; simp add: asn_view_of_def)

definition received_line :: "receive_asn_line_dto \<Rightarrow> uuid option \<Rightarrow> asn_line \<Rightarrow> asn_line" where
  "received_line r itemId x = x\<lparr>al_inventoryItemId := (case itemId of None \<Rightarrow> al_inventoryItemId x | Some i \<Rightarrow> Some i),
     al_receivedQty := dr_acceptedQty r + dr_rejectedQty r, al_acceptedQty := dr_acceptedQty r,
     al_rejectedQty := dr_rejectedQty r, al_inspection := dr_inspection r\<rparr>"

lemma receive_line_rows:
  assumes "receive_line ctx pr a key ls r s = (Inr (), t)"
  shows "\<exists>l i. List.find (\<lambda>l. al_id l = dr_lineId r) ls = Some l
    \<and> asn_view_of t = (asns s, update_first (\<lambda>x. al_id x = al_id l) (received_line r i) (asn_lines s), asn_receipts s)"
proof -
  from assms obtain l i u where l: "List.find (\<lambda>l. al_id l = dr_lineId r) ls = Some l"
    and u: "(if dr_acceptedQty r > 0 then seq (stock_accepted ctx pr a key l r) (\<lambda>i. ret (Some i)) else ret None) s = (Inr i, u)"
    and t: "asn_view_of t = (asns u, update_first (\<lambda>x. al_id x = al_id l) (received_line r i) (asn_lines u), asn_receipts u)"
    unfolding receive_line_def by (auto simp: asn_view_of_def received_line_def [abs_def])
  have "asn_view_of u = asn_view_of s"
    using u by (auto split: if_splits dest: keepsD [OF stock_accepted_asn])
  with l t show ?thesis by (auto simp: asn_view_of_def)
qed


lemma filter_update_first_in:
  "(\<And>x. x \<in> set xs \<Longrightarrow> P x \<Longrightarrow> \<not> Q x \<and> \<not> Q (f x)) \<Longrightarrow> filter Q (update_first P f xs) = filter Q xs"
  by (induction xs) auto

definition asn_tables_sound :: "asn list \<times> asn_line list \<Rightarrow> bool" where
  "asn_tables_sound v \<longleftrightarrow> (case v of (as, ls) \<Rightarrow> distinct (map an_id as) \<and> distinct (map al_id ls)
     \<and> (\<forall>l\<in>set ls. asn_line_sound l \<and> (\<exists>a\<in>set as. an_id a = al_asnId l \<and> an_tenantId a = al_tenantId l))
     \<and> (\<forall>a\<in>set as. an_status a = WH_COMPLETED \<longrightarrow>
          (\<forall>l\<in>set ls. al_asnId l = an_id a \<longrightarrow> \<not> receiving_blocker l)))"

definition asn_sound :: "'m fulfillment_db_scheme \<Rightarrow> bool" where
  "asn_sound s \<longleftrightarrow> asn_tables_sound (asns s, asn_lines s)"

text \<open>The validation of \<open>ReceiveAsnLineDto\<close>.\<close>

definition valid_receipt :: "receive_asn_line_dto \<Rightarrow> bool" where
  "valid_receipt r \<longleftrightarrow> 0 \<le> dr_acceptedQty r \<and> 0 \<le> dr_rejectedQty r \<and> dr_inspection r \<in> {''PASSED'', ''FAILED''}"

definition line_frame :: "asn_line \<Rightarrow> uuid \<times> uuid \<times> uuid \<times> int \<times> instant option \<times> uuid option" where
  "line_frame l = (al_id l, al_tenantId l, al_asnId l, al_expectedQty l, al_putawayAt l, al_putawayBinId l)"

lemma frame_received [simp]: "line_frame (received_line r i x) = line_frame x"
  by (simp add: line_frame_def received_line_def)

lemma frame_ids: "map line_frame xs = map line_frame ys \<Longrightarrow> map al_id xs = map al_id ys"
  by (drule arg_cong [where f = "map fst"]) (simp add: line_frame_def o_def)

lemma receive_lines_rows:
  assumes "for_each rs (receive_line ctx pr a key (filter (\<lambda>l. al_asnId l = an_id a) ls0)) s = (Inr (), t)"
    and "distinct (map al_id ls0)" and "\<forall>l\<in>set ls0. asn_line_sound l"
    and "list_all (receivable (filter (\<lambda>l. al_asnId l = an_id a) ls0)) rs" and "list_all valid_receipt rs"
    and "map line_frame (asn_lines s) = map line_frame ls0" and "\<forall>l\<in>set (asn_lines s). asn_line_sound l"
  shows "map line_frame (asn_lines t) = map line_frame ls0 \<and> (\<forall>l\<in>set (asn_lines t). asn_line_sound l)
    \<and> (\<forall>j. j \<noteq> an_id a \<longrightarrow> filter (\<lambda>l. al_asnId l = j) (asn_lines t) = filter (\<lambda>l. al_asnId l = j) (asn_lines s))
    \<and> asns t = asns s \<and> asn_receipts t = asn_receipts s"
  using assms(1,4-7)
proof (induction rs arbitrary: s)
  case Nil
  then show ?case by simp
next
  case (Cons r rs)
  from Cons.prems(1) obtain u where u: "receive_line ctx pr a key (filter (\<lambda>l. al_asnId l = an_id a) ls0) r s = (Inr (), u)"
    and rest: "for_each rs (receive_line ctx pr a key (filter (\<lambda>l. al_asnId l = an_id a) ls0)) u = (Inr (), t)" by auto
  from receive_line_rows [OF u] obtain l i where l: "List.find (\<lambda>l. al_id l = dr_lineId r) (filter (\<lambda>l. al_asnId l = an_id a) ls0) = Some l"
    and rows: "asns u = asns s" "asn_lines u = update_first (\<lambda>x. al_id x = al_id l) (received_line r i) (asn_lines s)"
      "asn_receipts u = asn_receipts s" by (auto simp: asn_view_of_def)
  have l': "l \<in> set ls0" "al_asnId l = an_id a" using l by (auto dest: find_SomeD)
  have row: "line_frame x = line_frame l" if "x \<in> set (asn_lines s)" "al_id x = al_id l" for x
  proof -
    from that(1) have "line_frame x \<in> set (map line_frame ls0)" using Cons.prems(4) by (metis imageI list.set_map)
    then obtain y where "y \<in> set ls0" "line_frame x = line_frame y" by auto
    moreover from this that(2) have "y = l" using l'(1) assms(2) by (auto simp: line_frame_def dest: distinct_mapD)
    ultimately show ?thesis by simp
  qed
  have frames: "map line_frame (asn_lines u) = map line_frame ls0" unfolding rows(2)
    using Cons.prems(4) by (simp add: map_update_first)
  have ok: "receivable (filter (\<lambda>l. al_asnId l = an_id a) ls0) r" "valid_receipt r" using Cons.prems(2,3) by simp_all
  have "asn_line_sound l" using assms(3) l'(1) by blast
  then have "asn_line_sound (received_line r i x)" if "x \<in> set (asn_lines s)" "al_id x = al_id l" for x
    using row [OF that] ok l by (auto simp: receivable_def valid_receipt_def asn_line_sound_def received_line_def line_frame_def)
  then have "\<forall>l\<in>set (asn_lines u). asn_line_sound l"
    using set_update_first [of "\<lambda>x. al_id x = al_id l" "received_line r i" "asn_lines s"] Cons.prems(5)
    unfolding rows(2) by blast
  moreover have "filter (\<lambda>l. al_asnId l = j) (asn_lines u) = filter (\<lambda>l. al_asnId l = j) (asn_lines s)" if "j \<noteq> an_id a" for j
  proof -
    have "al_asnId x \<noteq> j" if "x \<in> set (asn_lines s)" "al_id x = al_id l" for x
      using row [OF that] l'(2) \<open>j \<noteq> an_id a\<close> by (simp add: line_frame_def)
    then show ?thesis unfolding rows(2) by (intro filter_update_first_in) (simp add: received_line_def)
  qed
  ultimately show ?case using Cons.IH [OF rest _ _ frames] Cons.prems(2,3) rows by simp
qed


text \<open>The notice of a receipt moves on once its lines are in; a completed one has no blocker.\<close>

lemma asn_moved_sound:
  assumes "asn_tables_sound (as, ls0)" and "a \<in> set as" and "an_status a \<noteq> WH_COMPLETED"
    and "map line_frame ls = map line_frame ls0 \<or> map (\<lambda>l. (al_id l, al_tenantId l, al_asnId l)) ls = map (\<lambda>l. (al_id l, al_tenantId l, al_asnId l)) ls0"
    and "\<forall>l\<in>set ls. asn_line_sound l"
    and "\<And>j. j \<noteq> an_id a \<Longrightarrow> filter (\<lambda>l. al_asnId l = j) ls = filter (\<lambda>l. al_asnId l = j) ls0"
    and "\<And>x. an_id (f x) = an_id x \<and> an_tenantId (f x) = an_tenantId x"
    and "an_status (f a) = WH_COMPLETED \<Longrightarrow> \<forall>l\<in>set ls. al_asnId l = an_id a \<longrightarrow> \<not> receiving_blocker l"
  shows "asn_tables_sound (map (\<lambda>x. if an_id x = an_id a then f x else x) as, ls)"
proof -
  let ?as = "map (\<lambda>x. if an_id x = an_id a then f x else x) as"
  let ?key = "\<lambda>l. (al_id l, al_tenantId l, al_asnId l)"
  from assms(1) have s: "distinct (map an_id as)" "distinct (map al_id ls0)"
    "\<forall>l\<in>set ls0. \<exists>a\<in>set as. an_id a = al_asnId l \<and> an_tenantId a = al_tenantId l"
    "\<forall>a\<in>set as. an_status a = WH_COMPLETED \<longrightarrow> (\<forall>l\<in>set ls0. al_asnId l = an_id a \<longrightarrow> \<not> receiving_blocker l)"
    by (simp_all add: asn_tables_sound_def)
  have key: "map ?key ls = map ?key ls0"
    using assms(4)
  proof
    assume "map line_frame ls = map line_frame ls0"
    then have "map (\<lambda>(i, t, j, _). (i, t, j)) (map line_frame ls) = map (\<lambda>(i, t, j, _). (i, t, j)) (map line_frame ls0)" by simp
    then show ?thesis by (simp add: line_frame_def o_def)
  qed
  have ids: "map al_id ls = map al_id ls0" using arg_cong [OF key, of "map fst"] by (simp add: o_def)
  have "map an_id ?as = map an_id as" using assms(7) by simp
  then have "distinct (map an_id ?as)" "distinct (map al_id ls)" using s(1,2) ids by (simp_all only:)
  moreover have "\<exists>a\<in>set ?as. an_id a = al_asnId l \<and> an_tenantId a = al_tenantId l" if "l \<in> set ls" for l
  proof -
    from that have "?key l \<in> set (map ?key ls)" by simp
    then obtain y where "y \<in> set ls0" "?key l = ?key y" unfolding key by auto
    with s(3) obtain b where "b \<in> set as" "an_id b = al_asnId l" "an_tenantId b = al_tenantId l" by auto
    then show ?thesis using assms(7) by (intro bexI [of _ "if an_id b = an_id a then f b else b"]) auto
  qed
  moreover have "\<not> receiving_blocker l"
    if "b \<in> set ?as" "an_status b = WH_COMPLETED" "l \<in> set ls" "al_asnId l = an_id b" for b l
  proof (cases "an_id b = an_id a")
    case True
    with that(1) obtain x where x: "x \<in> set as" "an_id x = an_id a" "b = f x" using assms(7) by (auto split: if_splits)
    then have "x = a" using assms(2) s(1) by (auto dest: distinct_mapD)
    with x that True show ?thesis using assms(8) by simp
  next
    case False
    with that(1) have b: "b \<in> set as" using assms(7) by (auto split: if_splits)
    from that(3,4) have "l \<in> set (filter (\<lambda>l. al_asnId l = an_id b) ls)" by simp
    then have "l \<in> set ls0" using assms(6) [OF False] by simp
    with b that(2,4) s(4) show ?thesis by simp
  qed
  ultimately show ?thesis using assms(5) by (auto simp: asn_tables_sound_def)
qed

lemma receive_lines_sound:
  fixes s :: "'m fulfillment_db_scheme"
  assumes "asn_sound s" and "list_all valid_receipt lines"
    and "find_asn ctx asnId s = (Inr view, s)" and "receive_lines ctx pr view lines key h s = (Inr v, t)"
  shows "asn_sound t \<and> find_asn ctx asnId t = (Inr v, t)
    \<and> (\<exists>rc. asn_receipts t = asn_receipts s @ [rc] \<and> ar_tenantId rc = ctx_tenantId ctx \<and> ar_asnId rc = asnId
        \<and> ar_idempotencyKey rc = key \<and> ar_payloadHash rc = h)"
proof -
  from assms(3) obtain a where a: "List.find (\<lambda>a. an_id a = asnId \<and> an_tenantId a = ctx_tenantId ctx) (asns s) = Some a"
    and view: "view = (a, filter (\<lambda>l. al_asnId l = asnId) (asn_lines s))"
    by (auto simp: find_asn_def lines_of_asn_def)
  from a have a': "a \<in> set (asns s)" "an_id a = asnId" "an_tenantId a = ctx_tenantId ctx" by (auto dest: find_SomeD)
  let ?ls = "filter (\<lambda>l. al_asnId l = an_id a) (asn_lines s)"
  from assms(4) obtain k rc rc' u u1 u2 u2' u3 t' y z n received m where
    open_status: "an_status a = WH_OPEN \<or> an_status a = WH_IN_PROGRESS" and ok: "list_all (receivable ?ls) lines"
    and create: "random_uuid s = (Inr k, u)" "create_row asn_receipts asn_receipts_update same_asn_receipt rc u = (Inr rc', u1)"
    and loop: "for_each lines (receive_line ctx pr a key ?ls) u1 = (Inr (), u2)"
    and blockers: "count_blockers ctx (an_id a) u2 = (Inr n, u2')"
    and clk: "(case an_receivedAt a of None \<Rightarrow> now | Some t \<Rightarrow> ret t) u2' = (Inr received, u3)"
    and upd: "update_many asns asns_update
            (\<lambda>x. an_id x = an_id a \<and> an_tenantId x = ctx_tenantId ctx \<and> an_version x = an_version a
               \<and> an_status x \<in> {WH_OPEN, WH_IN_PROGRESS})
            (\<lambda>x. x\<lparr>an_status := (if n = 0 then WH_COMPLETED else WH_IN_PROGRESS),
                   an_receivedAt := Some received, an_version := an_version x + 1\<rparr>) u3 = (Inr m, t')" and fin: "lines_of_asn (an_id a) t' = (Inr y, t)"
    and v: "List.find (\<lambda>x. an_id x = an_id a) (asns t') = Some z" "v = (z, y)"
    and rc: "rc = \<lparr>ar_id = k, ar_tenantId = ctx_tenantId ctx, ar_asnId = an_id a, ar_idempotencyKey = key, ar_payloadHash = h\<rparr>"
    unfolding view receive_lines_def a'(2) [symmetric]
    by (auto simp del: random_uuid_Inr create_row_Inr update_many_Inr)
  let ?f = "\<lambda>x. x\<lparr>an_status := (if n = 0 then WH_COMPLETED else WH_IN_PROGRESS),
                   an_receivedAt := Some received, an_version := an_version x + 1\<rparr>"
  have sound: "asn_tables_sound (asns s, asn_lines s)" using assms(1) by (simp add: asn_sound_def)
  from create have u1: "asns u1 = asns s" "asn_lines u1 = asn_lines s" "asn_receipts u1 = asn_receipts s @ [rc]" by auto
  have rows: "map line_frame (asn_lines u2) = map line_frame (asn_lines s)" "\<forall>l\<in>set (asn_lines u2). asn_line_sound l"
    "\<And>j. j \<noteq> an_id a \<Longrightarrow> filter (\<lambda>l. al_asnId l = j) (asn_lines u2) = filter (\<lambda>l. al_asnId l = j) (asn_lines s)"
    "asns u2 = asns s" "asn_receipts u2 = asn_receipts u1"
    using receive_lines_rows [OF loop _ _ ok assms(2)] sound u1 by (auto simp: asn_tables_sound_def)
  have u3: "asns u3 = asns s" "asn_lines u3 = asn_lines u2" "asn_receipts u3 = asn_receipts u1"
    using clk blockers rows(4,5) by (auto simp: count_blockers_def split: option.splits)
  have same: "x = a" if "x \<in> set (asns s)" "an_id x = an_id a" for x
    using that a'(1) sound by (auto simp: asn_tables_sound_def dest: distinct_mapD)
  let ?P = "\<lambda>x. an_id x = an_id a \<and> an_tenantId x = ctx_tenantId ctx \<and> an_version x = an_version a
      \<and> an_status x \<in> {WH_OPEN, WH_IN_PROGRESS}"
  have "update_where ?P ?f (asns s) = map (\<lambda>x. if an_id x = an_id a then ?f x else x) (asns s)"
    unfolding update_where_def
  proof (rule map_cong [OF refl])
    fix x assume "x \<in> set (asns s)"
    then have "?P x \<longleftrightarrow> an_id x = an_id a" using same [of x] a'(3) open_status by blast
    then show "(if ?P x then ?f x else x) = (if an_id x = an_id a then ?f x else x)" by (simp only:)
  qed
  moreover have t': "asns t = update_where ?P ?f (asns u3)" "asn_lines t = asn_lines u3" "asn_receipts t = asn_receipts u3" "t' = t"
    using upd fin by (auto simp: lines_of_asn_def)
  ultimately have t: "asns t = map (\<lambda>x. if an_id x = an_id a then ?f x else x) (asns s)" "asn_lines t = asn_lines u2"
    using u3 by simp_all
  have "asn_tables_sound (map (\<lambda>x. if an_id x = an_id a then ?f x else x) (asns s), asn_lines u2)"
  proof (rule asn_moved_sound [OF sound a'(1)])
    show "an_status a \<noteq> WH_COMPLETED" using open_status by auto
    show "map line_frame (asn_lines u2) = map line_frame (asn_lines s) \<or> map (\<lambda>l. (al_id l, al_tenantId l, al_asnId l)) (asn_lines u2)
        = map (\<lambda>l. (al_id l, al_tenantId l, al_asnId l)) (asn_lines s)" using rows(1) by blast
    assume "an_status (?f a) = WH_COMPLETED"
    then have "n = 0" by (simp split: if_splits)
    with blockers have none: "\<forall>l\<in>set (asn_lines u2). \<not> (al_asnId l = an_id a \<and> al_tenantId l = ctx_tenantId ctx \<and> receiving_blocker l)"
      by (auto simp: count_blockers_def filter_empty_conv)
    have "al_tenantId l = ctx_tenantId ctx" if "l \<in> set (asn_lines u2)" "al_asnId l = an_id a" for l
    proof -
      from that(1) have "line_frame l \<in> set (map line_frame (asn_lines u2))" by simp
      then obtain y where y: "y \<in> set (asn_lines s)" "al_tenantId y = al_tenantId l" "al_asnId y = al_asnId l"
        unfolding rows(1) by (auto simp: line_frame_def)
      with sound obtain b where "b \<in> set (asns s)" "an_id b = al_asnId l" "an_tenantId b = al_tenantId l"
        by (auto simp: asn_tables_sound_def)
      with same [of b] that(2) a'(3) show ?thesis by simp
    qed
    with none show "\<forall>l\<in>set (asn_lines u2). al_asnId l = an_id a \<longrightarrow> \<not> receiving_blocker l" by blast
  qed (use rows in auto)
  then have "asn_sound t" by (simp add: asn_sound_def t)
  moreover have "find_asn ctx asnId t = (Inr v, t)"
  proof -
    from v t' have z: "z \<in> set (asns t)" "an_id z = an_id a" and "List.find (\<lambda>x. an_id x = an_id a) (asns t) = Some z"
      by (auto dest: find_SomeD)
    have "an_tenantId x = ctx_tenantId ctx" if "x \<in> set (asns t)" "an_id x = an_id a" for x
    proof -
      from that(1) obtain w where w: "w \<in> set (asns s)" "x = (if an_id w = an_id a then ?f w else w)"
        unfolding t(1) by auto
      with that(2) have "an_id w = an_id a" by (simp split: if_splits)
      with same [OF w(1)] have "w = a" by blast
      with w(2) a'(3) show ?thesis by simp
    qed
    then have "List.find (\<lambda>x. an_id x = an_id a \<and> an_tenantId x = ctx_tenantId ctx) (asns t) = List.find (\<lambda>x. an_id x = an_id a) (asns t)"
      by (intro find_cong') blast
    then show ?thesis using v fin t' a'(2) by (simp add: find_asn_def lines_of_asn_def)
  qed
  moreover have "asn_receipts t = asn_receipts s @ [rc]" using t' u3 u1 by simp
  ultimately show ?thesis using rc a'(2) by auto
qed


lemma asn_tables_more: "runtime.more t = runtime.more s \<Longrightarrow> asns t = asns s \<and> asn_lines t = asn_lines s \<and> asn_receipts t = asn_receipts s"
  by (cases s; cases t) simp

lemma asn_sound_more: "runtime.more t = runtime.more s \<Longrightarrow> asn_sound s \<Longrightarrow> asn_sound t"
  by (simp add: asn_sound_def asn_tables_more [of t s])

lemma find_asn_same: "find_asn ctx i s = (Inr v, t) \<Longrightarrow> t = s"
  by (auto simp: find_asn_def lines_of_asn_def)

lemma receive_asn_tx_sound:
  assumes "asn_sound s" and "list_all valid_receipt lines" and "receive_asn_tx ctx pr asnId lines key h s = (Inr v, t)"
  shows "asn_sound t"
proof -
  from assms(3) obtain view u where view: "find_asn ctx asnId s = (Inr view, u)"
    and rest: "t = u \<or> receive_lines ctx pr view lines key h u = (Inr v, t)"
    by (auto simp: receive_asn_tx_def find_receipt_def split: option.splits)
  have "u = s" using view by (rule find_asn_same)
  with rest view receive_lines_sound [OF assms(1,2), of ctx asnId view] assms(1) show ?thesis by blast
qed

lemma always_asn_receive:
  assumes "list_all valid_receipt lines"
  shows "always asn_sound (receiveAsn sha256 ctx pr asnId lines key)"
proof -
  have "always asn_sound (transaction (receive_asn_tx ctx pr asnId lines k h))" for k h
    by (rule always_transactionI [OF asn_sound_more]) (blast intro: receive_asn_tx_sound [OF _ assms])+
  then show ?thesis
    unfolding receiveAsn_def Let_def find_asn_def find_receipt_def lines_of_asn_def find_row_def find_rows_def
    by (intro hoare_intros)
qed

definition put_away :: "uuid \<Rightarrow> instant \<Rightarrow> asn_line \<Rightarrow> asn_line" where
  "put_away bin today x = x\<lparr>al_putawayBinId := Some bin, al_putawayAt := Some today\<rparr>"

lemma ball_update_first:
  "\<forall>x\<in>set xs. P x \<Longrightarrow> (\<And>x. x \<in> set xs \<Longrightarrow> Q x \<Longrightarrow> P (f x)) \<Longrightarrow> \<forall>x\<in>set (update_first Q f xs). P x"
  by (induction xs) auto

lemma put_line_rows:
  assumes "put_line l b s = (Inr (), t)"
  shows "asns t = asns s \<and> (\<exists>c. asn_lines t = (if al_putawayAt l = None
    then update_first (\<lambda>x. al_id x = al_id l) (put_away (bn_id b) c) (asn_lines s) else asn_lines s))"
  using assms by (auto simp: put_line_def put_away_def [abs_def] split: if_splits)

lemma complete_asn_rows:
  assumes "complete_asn ctx asnId a n s = (Inr (), t)"
  shows "asn_lines t = asn_lines s \<and> asns t = (if n = 0 \<and> an_status a = WH_IN_PROGRESS
    then update_where (\<lambda>x. an_id x = asnId \<and> an_tenantId x = ctx_tenantId ctx \<and> an_status x = WH_IN_PROGRESS)
      (\<lambda>x. x\<lparr>an_status := WH_COMPLETED, an_version := an_version x + 1\<rparr>) (asns s) else asns s)"
  using assms by (auto simp: complete_asn_def split: if_splits)

lemma putaway_tx_sound:
  fixes s :: "'m fulfillment_db_scheme"
  assumes "asn_sound s" and "putaway_tx ctx asnId input s = (Inr v, t)"
  shows "asn_sound t"
proof -
  from assms(2) obtain l b a u w n w' y where l: "List.find (\<lambda>l. al_id l = dp_lineId input \<and> al_tenantId l = ctx_tenantId ctx
            \<and> al_asnId l = asnId) (asn_lines s) = Some l"
    and a: "List.find (\<lambda>a. an_id a = al_asnId l) (asns s) = Some a"
    and st: "\<not> (al_putawayAt l = None \<and> an_status a \<noteq> WH_IN_PROGRESS)"
    and ok: "\<not> (al_inventoryItemId l = None \<or> al_acceptedQty l < 1 \<or> al_inspection l \<noteq> ''PASSED'')"
    and put: "put_line l b s = (Inr (), u)"
    and n: "count_blockers ctx asnId u = (Inr n, w)"
    and closing: "complete_asn ctx asnId a n w = (Inr (), w')"
    and fin: "lines_of_asn asnId w' = (Inr y, t)"
    unfolding putaway_tx_def by auto
  have sound: "asn_tables_sound (asns s, asn_lines s)" using assms(1) by (simp add: asn_sound_def)
  have l': "l \<in> set (asn_lines s)" "al_asnId l = asnId" "al_tenantId l = ctx_tenantId ctx" using l by (auto dest: find_SomeD)
  have a': "a \<in> set (asns s)" "an_id a = asnId" using a l'(2) by (auto dest: find_SomeD)
  have same: "x = a" if "x \<in> set (asns s)" "an_id x = asnId" for x
    using that a' sound by (auto simp: asn_tables_sound_def dest: distinct_mapD)
  have tenants: "an_tenantId a = al_tenantId x" if "x \<in> set (asn_lines s)" "al_asnId x = asnId" for x
  proof -
    from sound that(1) obtain b where "b \<in> set (asns s)" "an_id b = al_asnId x" "an_tenantId b = al_tenantId x"
      by (auto simp: asn_tables_sound_def)
    with same [of b] that show ?thesis by simp
  qed
  have tenant: "an_tenantId a = ctx_tenantId ctx" using tenants [OF l'(1,2)] l'(3) by simp
  have w: "w = u" "t = w'" using n fin by (simp_all add: count_blockers_def lines_of_asn_def)
  let ?key = "\<lambda>l. (al_id l, al_tenantId l, al_asnId l)"
  from put_line_rows [OF put] obtain c where u: "asns u = asns s" "asn_lines u = (if al_putawayAt l = None
    then update_first (\<lambda>x. al_id x = al_id l) (put_away (bn_id b) c) (asn_lines s) else asn_lines s)" by blast
  have keys: "map ?key (asn_lines u) = map ?key (asn_lines s)"
    unfolding u(2) by (simp add: map_update_first put_away_def)
  have row: "x = l" if "x \<in> set (asn_lines s)" "al_id x = al_id l" for x
    using that l'(1) sound by (auto simp: asn_tables_sound_def dest: distinct_mapD)
  have "asn_line_sound l" using sound l'(1) by (auto simp: asn_tables_sound_def)
  then have "asn_line_sound (put_away (bn_id b) c l)" using ok by (auto simp: asn_line_sound_def put_away_def)
  moreover have old: "\<forall>x\<in>set (asn_lines s). asn_line_sound x" using sound by (simp add: asn_tables_sound_def)
  ultimately have "\<forall>x\<in>set (update_first (\<lambda>x. al_id x = al_id l) (put_away (bn_id b) c) (asn_lines s)). asn_line_sound x"
    using row by (intro ball_update_first) metis+
  with old have lines: "\<forall>x\<in>set (asn_lines u). asn_line_sound x" unfolding u(2) by (cases "al_putawayAt l = None") (simp_all only: if_True if_False refl simp_thms)
  have others: "filter (\<lambda>x. al_asnId x = j) (asn_lines u) = filter (\<lambda>x. al_asnId x = j) (asn_lines s)" if "j \<noteq> an_id a" for j
  proof -
    have "al_asnId x \<noteq> j" if "x \<in> set (asn_lines s)" "al_id x = al_id l" for x
      using row [OF that] l'(2) a'(2) \<open>j \<noteq> an_id a\<close> by simp
    then show ?thesis unfolding u(2)
      using filter_update_first_in [of "asn_lines s" "\<lambda>x. al_id x = al_id l" "\<lambda>x. al_asnId x = j" "put_away (bn_id b) c"]
      by (simp add: put_away_def)
  qed
  show ?thesis
  proof (cases "an_status a = WH_IN_PROGRESS")
    case False
    then have "asns t = asns s" "asn_lines t = asn_lines s"
      using complete_asn_rows [OF closing] st u w by auto
    with assms(1) show ?thesis by (simp add: asn_sound_def)
  next
    case True
    let ?f = "\<lambda>x. if n = 0 then x\<lparr>an_status := WH_COMPLETED, an_version := an_version x + 1\<rparr> else x"
    have "update_where (\<lambda>x. an_id x = asnId \<and> an_tenantId x = ctx_tenantId ctx \<and> an_status x = WH_IN_PROGRESS)
        (\<lambda>x. x\<lparr>an_status := WH_COMPLETED, an_version := an_version x + 1\<rparr>) (asns s)
      = map (\<lambda>x. if an_id x = an_id a then x\<lparr>an_status := WH_COMPLETED, an_version := an_version x + 1\<rparr> else x) (asns s)"
      unfolding update_where_def
    proof (rule map_cong [OF refl])
      fix x assume "x \<in> set (asns s)"
      then show "(if an_id x = asnId \<and> an_tenantId x = ctx_tenantId ctx \<and> an_status x = WH_IN_PROGRESS
            then x\<lparr>an_status := WH_COMPLETED, an_version := an_version x + 1\<rparr> else x)
          = (if an_id x = an_id a then x\<lparr>an_status := WH_COMPLETED, an_version := an_version x + 1\<rparr> else x)"
        using same [of x] tenant True a'(2) by (cases "an_id x = an_id a") simp_all
    qed
    moreover have "map (\<lambda>x. if an_id x = an_id a then ?f x else x) (asns s) = asns s" if "n \<noteq> 0"
      using that by (intro map_idI) simp
    moreover have "asns t = (if n = 0 then update_where (\<lambda>x. an_id x = asnId \<and> an_tenantId x = ctx_tenantId ctx
        \<and> an_status x = WH_IN_PROGRESS) (\<lambda>x. x\<lparr>an_status := WH_COMPLETED, an_version := an_version x + 1\<rparr>) (asns s) else asns s)"
      using complete_asn_rows [OF closing] True u(1) w by simp
    ultimately have t: "asns t = map (\<lambda>x. if an_id x = an_id a then ?f x else x) (asns s)"
      by (cases "n = 0") (simp_all only: if_True if_False refl simp_thms)
    have t': "asn_lines t = asn_lines u" using complete_asn_rows [OF closing] w by simp
    have "asn_tables_sound (map (\<lambda>x. if an_id x = an_id a then ?f x else x) (asns s), asn_lines u)"
    proof (rule asn_moved_sound [OF sound a'(1)])
      show "an_status a \<noteq> WH_COMPLETED" using True by simp
      show "map line_frame (asn_lines u) = map line_frame (asn_lines s) \<or> map ?key (asn_lines u) = map ?key (asn_lines s)"
        using keys by blast
      assume "an_status (?f a) = WH_COMPLETED"
      then have "n = 0" using True by (simp split: if_splits)
      with n have none: "\<forall>l\<in>set (asn_lines u). \<not> (al_asnId l = asnId \<and> al_tenantId l = ctx_tenantId ctx \<and> receiving_blocker l)"
        by (auto simp: count_blockers_def filter_empty_conv)
      have "al_tenantId x = ctx_tenantId ctx" if "x \<in> set (asn_lines u)" "al_asnId x = an_id a" for x
      proof -
        from that(1) have "?key x \<in> set (map ?key (asn_lines u))" by simp
        then obtain z where "z \<in> set (asn_lines s)" "?key x = ?key z" unfolding keys by auto
        with tenants [of z] tenant that(2) a'(2) show ?thesis by simp
      qed
      with none a'(2) show "\<forall>l\<in>set (asn_lines u). al_asnId l = an_id a \<longrightarrow> \<not> receiving_blocker l" by blast
    qed (use lines others in auto)
    then show ?thesis by (simp add: asn_sound_def t t')
  qed
qed

lemma always_asn_putaway: "always asn_sound (putaway ctx asnId input)"
  unfolding putaway_def by (rule always_transactionI [OF asn_sound_more putaway_tx_sound])


lemma create_asn_lines_rows:
  assumes "for_each named (create_asn_line ctx i) s = (Inr (), t)" and "distinct (map al_id (asn_lines s))"
    and "\<forall>(k, l)\<in>set named. 1 \<le> dl_quantity l"
  shows "\<exists>news. asns t = asns s \<and> asn_lines t = asn_lines s @ news \<and> distinct (map al_id (asn_lines s @ news))
    \<and> (\<forall>l\<in>set news. asn_line_sound l \<and> al_asnId l = i \<and> al_tenantId l = ctx_tenantId ctx)"
  using assms
proof (induction named arbitrary: s)
  case Nil
  then show ?case by simp
next
  case (Cons x named)
  then obtain u where step: "create_asn_line ctx i x s = (Inr (), u)"
    and rest: "for_each named (create_asn_line ctx i) u = (Inr (), t)" by auto
  from step obtain l where u: "asns u = asns s" "asn_lines u = asn_lines s @ [l]"
    and l: "asn_line_sound l" "al_asnId l = i" "al_tenantId l = ctx_tenantId ctx" "\<forall>y\<in>set (asn_lines s). al_id l \<noteq> al_id y"
    unfolding create_asn_line_def by (cases x) (auto simp: same_asn_line_def asn_line_sound_def)
  have "distinct (map al_id (asn_lines u))" using u l Cons.prems(2) by auto
  from Cons.IH [OF rest this] Cons.prems(3) obtain news where "asns t = asns u" "asn_lines t = asn_lines u @ news"
    "distinct (map al_id (asn_lines u @ news))"
    "\<forall>l\<in>set news. asn_line_sound l \<and> al_asnId l = i \<and> al_tenantId l = ctx_tenantId ctx" by auto
  with u l show ?case by (intro exI [of _ "l # news"]) auto
qed

lemma with_uuids_named: "with_uuids xs s = (Inr named, t) \<Longrightarrow> map snd named = xs"
proof -
  have "fold_each xs acc (\<lambda>x acc. seq random_uuid (\<lambda>i. ret (acc @ [(i, x)]))) s = (Inr named, t) \<Longrightarrow>
      map snd named = map snd acc @ xs" for acc s
    by (induction xs arbitrary: acc s) fastforce+
  from this [of "[]"] show "with_uuids xs s = (Inr named, t) \<Longrightarrow> map snd named = xs" by (simp add: with_uuids_def)
qed

lemma createAsn_sound:
  fixes s :: "'m fulfillment_db_scheme"
  assumes "asn_sound s" and "list_all (\<lambda>l. 1 \<le> dl_quantity l) (dn_lines input)" and "createAsn ctx input s = (Inr v, t)"
  shows "asn_sound t"
proof -
  from assms(3) obtain a a' k named u u1 u2 u3 y where k: "random_uuid s = (Inr k, u)"
    and named: "with_uuids (dn_lines input) u = (Inr named, u1)"
    and a: "create_row asns asns_update same_asn a u1 = (Inr a', u2)"
    and row: "an_id a = k" "an_status a = WH_OPEN" "an_tenantId a = ctx_tenantId ctx"
    and loop: "for_each named (create_asn_line ctx k) u2 = (Inr (), u3)" and fin: "lines_of_asn k u3 = (Inr y, t)"
    unfolding createAsn_def requireFacility_def by (auto simp del: random_uuid_Inr create_row_Inr)
  have sound: "asn_tables_sound (asns s, asn_lines s)" using assms(1) by (simp add: asn_sound_def)
  have "asns u1 = asns s \<and> asn_lines u1 = asn_lines s"
    using keepsD [OF keeps_with_uuids named, of "\<lambda>s. (asns s, asn_lines s)"] k by auto
  with a have u2: "asns u2 = asns s @ [a]" "asn_lines u2 = asn_lines s" and new: "\<forall>x\<in>set (asns s). an_id a \<noteq> an_id x"
    by (auto simp: same_asn_def)
  have ids: "distinct (map al_id (asn_lines u2))" using sound u2 by (simp add: asn_tables_sound_def)
  have "\<forall>(k, l)\<in>set named. 1 \<le> dl_quantity l"
    using assms(2) unfolding with_uuids_named [OF named, symmetric] by (auto simp: list_all_iff)
  from create_asn_lines_rows [OF loop ids this] u2 obtain news where t: "asns u3 = asns s @ [a]" "asn_lines u3 = asn_lines s @ news"
    "distinct (map al_id (asn_lines s @ news))"
    "\<forall>l\<in>set news. asn_line_sound l \<and> al_asnId l = k \<and> al_tenantId l = ctx_tenantId ctx" by auto
  have "asn_tables_sound (asns s @ [a], asn_lines s @ news)"
    using sound new row t(3,4) by (auto simp: asn_tables_sound_def)
  then show ?thesis using fin t by (simp add: asn_sound_def lines_of_asn_def)
qed

lemma always_asn_create:
  assumes "list_all (\<lambda>l. 1 \<le> dl_quantity l) (dn_lines input)"
  shows "always asn_sound (createAsn ctx input)"
proof (rule always_atomic)
  show "atomic (createAsn ctx input)"
    unfolding createAsn_def requireFacility_def with_uuids_def
    by (intro atomic_intros atomic_seq keeps_intros) (simp_all add: keeps_def random_uuid_def)
qed (erule (1) asn_sound_more, erule createAsn_sound [OF _ assms])

text \<open>Runs of the three operations on notices; the amounts are validated by \<open>fulfillment.dto.ts\<close>.\<close>

inductive asn_step :: "(string \<Rightarrow> string) \<Rightarrow> 'm fulfillment_db_scheme \<Rightarrow> 'm fulfillment_db_scheme \<Rightarrow> bool"
  for sha256 where
  Announce: "list_all (\<lambda>l. 1 \<le> dl_quantity l) (dn_lines input) \<Longrightarrow> createAsn ctx input s = (ra, t) \<Longrightarrow> asn_step sha256 s t"
| Receive: "list_all valid_receipt lines \<Longrightarrow> receiveAsn sha256 ctx pr asnId lines key s = (rb, t) \<Longrightarrow> asn_step sha256 s t"
| Putaway: "putaway ctx asnId dto s = (rc, t) \<Longrightarrow> asn_step sha256 s t"

lemma asn_run_sound: "(asn_step sha256)\<^sup>*\<^sup>* s t \<Longrightarrow> asn_sound s \<Longrightarrow> asn_sound t"
proof (induction rule: rtranclp_induct)
  case (step u t)
  then have u: "asn_sound u" by blast
  from step(2) show ?case
  proof cases
    case (Announce input ctx ra)
    show ?thesis by (rule alwaysD [OF always_asn_create [OF Announce(1)] u Announce(2)])
  next
    case (Receive lines ctx pr asnId key rb)
    show ?thesis by (rule alwaysD [OF always_asn_receive [OF Receive(1)] u Receive(2)])
  next
    case (Putaway ctx asnId dto rc)
    show ?thesis by (rule alwaysD [OF always_asn_putaway u Putaway])
  qed
qed

section \<open>A repeated receipt\<close>

lemma receipt_recorded:
  assumes "asn_sound s" and "list_all valid_receipt lines" and "receive_asn_tx ctx pr asnId lines key h s = (Inr v, t)"
  shows "(\<exists>r. List.find (\<lambda>r. ar_tenantId r = ctx_tenantId ctx \<and> ar_idempotencyKey r = key) (asn_receipts t) = Some r
      \<and> assertAsnReceiptReplay r asnId h = Inr ()) \<and> find_asn ctx asnId t = (Inr v, t)"
proof -
  from assms(3) obtain view u where view: "find_asn ctx asnId s = (Inr view, u)"
    and rest: "receive_asn_tx ctx pr asnId lines key h s = (Inr v, t)" by (auto simp: receive_asn_tx_def)
  have us: "u = s" using view by (rule find_asn_same)
  show ?thesis
  proof (cases "List.find (\<lambda>r. ar_tenantId r = ctx_tenantId ctx \<and> ar_idempotencyKey r = key) (asn_receipts s)")
    case None
    with rest view us have "receive_lines ctx pr view lines key h s = (Inr v, t)"
      by (auto simp: receive_asn_tx_def find_receipt_def)
    from receive_lines_sound [OF assms(1,2) view [unfolded us] this] None show ?thesis
      by (auto simp: find_append assertAsnReceiptReplay_def)
  next
    case (Some r)
    with rest view us have "assertAsnReceiptReplay r asnId h = Inr ()" "v = view" "t = s"
      by (auto simp: receive_asn_tx_def find_receipt_def)
    with Some view us show ?thesis by simp
  qed
qed

lemma receive_again:
  fixes s :: "'m fulfillment_db_scheme"
  assumes "asn_sound s" and "list_all valid_receipt lines"
    and "receiveAsn sha256 ctx pr asnId lines key s = (Inr v, t)"
  shows "receiveAsn sha256 ctx pr' asnId lines key t = (Inr v, t)"
proof -
  let ?k = "js_trim key" and ?h = "asnReceiptPayloadHash sha256 lines"
  from assms(3) have pre: "requireIdempotency ?k = Inr ()" "length (js_set (map dr_lineId lines)) = length lines"
    by (auto simp: receiveAsn_def Let_def)
  have recorded: "(\<exists>r. List.find (\<lambda>r. ar_tenantId r = ctx_tenantId ctx \<and> ar_idempotencyKey r = ?k) (asn_receipts t) = Some r
      \<and> assertAsnReceiptReplay r asnId ?h = Inr ()) \<and> find_asn ctx asnId t = (Inr v, t)"
  proof (cases "transaction (receive_asn_tx ctx pr asnId lines ?k ?h) s = (Inr v, t)")
    case True
    then have "receive_asn_tx ctx pr asnId lines ?k ?h s = (Inr v, t)" by simp
    then show ?thesis by (rule receipt_recorded [OF assms(1,2)])
  next
    case False
    with assms(3) obtain u where u: "find_asn ctx asnId u = (Inr v, t)"
      "\<exists>r. List.find (\<lambda>r. ar_tenantId r = ctx_tenantId ctx \<and> ar_idempotencyKey r = ?k) (asn_receipts u) = Some r
          \<and> assertAsnReceiptReplay r asnId ?h = Inr ()"
      by (auto simp: receiveAsn_def Let_def catch_Inr find_receipt_def split: if_splits)
    then have "t = u" by (blast dest: find_asn_same)
    with u show ?thesis by simp
  qed
  from recorded have "receive_asn_tx ctx pr' asnId lines ?k ?h t = (Inr v, t)"
    by (auto simp: receive_asn_tx_def find_receipt_def)
  then show ?thesis using pre by (simp add: receiveAsn_def Let_def catch_Inr)
qed

section \<open>A notice received and put away\<close>

definition announced_warehouse :: fulfillment_db where
  "announced_warehouse = snd (createAsn some_context \<lparr>dn_facilityId = ''facility'', dn_supplierId = None,
     dn_reference = ''ASN-1'', dn_expectedAt = None,
     dn_lines = [\<lparr>dl_variantId = ''variant'', dl_quantity = 6\<rparr>]\<rparr> ready_warehouse)"

definition some_receipt :: "receive_asn_line_dto list" where
  "some_receipt = [\<lparr>dr_lineId = ''1'', dr_acceptedQty = 4, dr_rejectedQty = 1, dr_inspection = ''PASSED''\<rparr>]"

definition received_warehouse :: fulfillment_db where
  "received_warehouse = snd (receiveAsn (\<lambda>text. text) some_context some_principal ''0'' some_receipt ''receipt-1''
     announced_warehouse)"

definition binned_warehouse :: fulfillment_db where
  "binned_warehouse = received_warehouse\<lparr>facility_bins := [\<lparr>bn_id = ''bin'', bn_tenantId = ''tenant'',
     bn_facilityId = ''facility'', bn_code = ''A1'', bn_kind = ''STORAGE'', bn_capacity = None, bn_status = WH_OPEN\<rparr>]\<rparr>"

definition put_warehouse :: fulfillment_db where
  "put_warehouse = snd (putaway some_context ''0'' \<lparr>dp_lineId = ''1'', dp_binId = ''bin''\<rparr> binned_warehouse)"

lemma ready_asn_sound: "asn_sound ready_warehouse"
  by (simp add: asn_sound_def asn_tables_sound_def)

lemma received_run: "(asn_step (\<lambda>text. text))\<^sup>*\<^sup>* ready_warehouse received_warehouse"
proof -
  have "list_all valid_receipt some_receipt" by (simp add: some_receipt_def valid_receipt_def)
  then have "asn_step (\<lambda>text. text) announced_warehouse received_warehouse"
    unfolding received_warehouse_def by (rule asn_step.Receive) (rule surjective_pairing)
  moreover have "asn_step (\<lambda>text. text) ready_warehouse announced_warehouse"
    unfolding announced_warehouse_def by (rule asn_step.Announce [OF _ surjective_pairing]) simp
  ultimately show ?thesis by (meson rtranclp.rtrancl_into_rtrancl rtranclp.rtrancl_refl)
qed

lemma binned_asn_sound: "asn_sound binned_warehouse"
  using asn_run_sound [OF received_run ready_asn_sound] by (simp add: asn_sound_def binned_warehouse_def)

lemma put_run: "(asn_step (\<lambda>text. text))\<^sup>*\<^sup>* binned_warehouse put_warehouse"
  unfolding put_warehouse_def by (rule r_into_rtranclp, rule asn_step.Putaway, rule surjective_pairing)

section \<open>Properties\<close>

text \<open>
  C16. Along every run of announcements, receipts and putaways, a line of a notice is received at
  most once and within what was announced: accepted and rejected units add up to the received ones.
  A completed notice has no line left to inspect, and what it accepted lies in a bin.
\<close>

theorem asn_run_keeps_receipts:
  assumes "(asn_step sha256)\<^sup>*\<^sup>* s t" and "asn_sound s" and "l \<in> set (asn_lines t)"
  shows "al_receivedQty l = al_acceptedQty l + al_rejectedQty l
    \<and> (if al_inspection l = ''PENDING'' then al_receivedQty l = 0 else al_receivedQty l \<le> al_expectedQty l)
    \<and> (\<forall>a\<in>set (asns t). an_status a = WH_COMPLETED \<and> al_asnId l = an_id a \<longrightarrow>
         al_inspection l \<noteq> ''PENDING'' \<and> (0 < al_acceptedQty l \<longrightarrow> al_putawayBinId l \<noteq> None))"
proof -
  have "asn_sound t" using assms(1,2) by (rule asn_run_sound)
  with assms(3) have line: "asn_line_sound l"
    and closed: "\<And>a. a \<in> set (asns t) \<Longrightarrow> an_status a = WH_COMPLETED \<Longrightarrow> al_asnId l = an_id a \<Longrightarrow> \<not> receiving_blocker l"
    by (auto simp: asn_sound_def asn_tables_sound_def)
  have "al_inspection l \<noteq> ''PENDING'' \<and> (0 < al_acceptedQty l \<longrightarrow> al_putawayBinId l \<noteq> None)"
    if "a \<in> set (asns t)" "an_status a = WH_COMPLETED" "al_asnId l = an_id a" for a
    using closed [OF that] line by (auto simp: receiving_blocker_def asn_line_sound_def)
  with line show ?thesis by (auto simp: asn_line_sound_def)
qed

theorem asn_run_keeps_receipts_witness:
  "map an_status (asns put_warehouse) = [WH_COMPLETED] \<and> asn_lines put_warehouse \<noteq> []
   \<and> list_all (\<lambda>l. al_receivedQty l = al_acceptedQty l + al_rejectedQty l
       \<and> al_inspection l \<noteq> ''PENDING'' \<and> al_putawayBinId l \<noteq> None) (asn_lines put_warehouse)"
  unfolding list_all_iff
proof (intro conjI ballI)
  show status: "map an_status (asns put_warehouse) = [WH_COMPLETED]" by code_simp
  have lines: "list_all (\<lambda>l. map an_id (asns put_warehouse) = [al_asnId l] \<and> 0 < al_acceptedQty l) (asn_lines put_warehouse)
      \<and> asn_lines put_warehouse \<noteq> []"
    by code_simp
  then show "asn_lines put_warehouse \<noteq> []" ..
  fix l assume l: "l \<in> set (asn_lines put_warehouse)"
  from status obtain a where a: "asns put_warehouse = [a]" "an_status a = WH_COMPLETED" by (auto simp: map_eq_Cons_conv)
  moreover have "an_id a = al_asnId l" "0 < al_acceptedQty l" using lines l a(1) by (auto simp: list_all_iff)
  ultimately show "al_receivedQty l = al_acceptedQty l + al_rejectedQty l" "al_inspection l \<noteq> ''PENDING''"
      "al_putawayBinId l \<noteq> None"
    using asn_run_keeps_receipts [OF put_run binned_asn_sound l] by auto
qed

text \<open>
  C15. A receipt that is sent again with the key and the lines of a successful one, by whoever,
  answers the notice again and changes nothing: no unit is stocked twice.
\<close>

theorem receipt_is_idempotent:
  fixes s :: "'m fulfillment_db_scheme"
  assumes "asn_sound s" and "list_all valid_receipt lines"
    and "receiveAsn sha256 ctx pr asnId lines key s = (Inr v, t)"
  shows "receiveAsn sha256 ctx pr' asnId lines key t = (Inr v, t)"
  using assms by (rule receive_again)

theorem receipt_is_idempotent_witness:
  "snd (receiveAsn (\<lambda>text. text) some_context some_principal ''0'' some_receipt ''receipt-1'' received_warehouse)
     = received_warehouse
   \<and> map (\<lambda>b. (ib_state b, ib_quantity b)) (balances received_warehouse) = [(ON_HAND, 4)]"
proof -
  have "list_all valid_receipt some_receipt" by (simp add: some_receipt_def valid_receipt_def)
  moreover have "(asn_step (\<lambda>text. text))\<^sup>*\<^sup>* ready_warehouse announced_warehouse"
    unfolding announced_warehouse_def by (rule r_into_rtranclp, rule asn_step.Announce [OF _ surjective_pairing]) simp
  then have "asn_sound announced_warehouse" using ready_asn_sound by (rule asn_run_sound)
  ultimately have sound: "asn_sound announced_warehouse" and valid: "list_all valid_receipt some_receipt" by blast+
  have "\<exists>v. receiveAsn (\<lambda>text. text) some_context some_principal ''0'' some_receipt ''receipt-1'' announced_warehouse
      = (Inr v, received_warehouse)"
  proof -
    have "case fst (receiveAsn (\<lambda>text. text) some_context some_principal ''0'' some_receipt ''receipt-1'' announced_warehouse)
      of Inl e \<Rightarrow> False | Inr v \<Rightarrow> True" by code_simp
    then show ?thesis unfolding received_warehouse_def
      by (cases "receiveAsn (\<lambda>text. text) some_context some_principal ''0'' some_receipt ''receipt-1'' announced_warehouse")
        (auto split: sum.splits)
  qed
  then obtain v where run: "receiveAsn (\<lambda>text. text) some_context some_principal ''0'' some_receipt ''receipt-1'' announced_warehouse
      = (Inr v, received_warehouse)" ..
  have "map (\<lambda>b. (ib_state b, ib_quantity b)) (balances received_warehouse) = [(ON_HAND, 4)]" by code_simp
  then show ?thesis
    using receipt_is_idempotent [OF sound valid run, of some_principal] by simp
qed

end
