(* ===== verification/Checkout_Service.thy ===== *)
theory Checkout_Service
  imports Checkout
begin

section \<open>The stages of the checkout service\<close>

lemma view_pure [simp]:
  "checkout_replay ctx pr i k s = (r, t) \<longleftrightarrow> fst (checkout_replay ctx pr i k s) = r \<and> t = s"
  "cart ctx pr i s = (q, t) \<longleftrightarrow> fst (cart ctx pr i s) = q \<and> t = s"
  by (auto dest: keepsD [OF keeps_views(1) [where v = "\<lambda>s. s"]] keepsD [OF keeps_views(2) [where v = "\<lambda>s. s"]])
    (metis keeps_def keeps_views prod.collapse)+

section \<open>The order a checkout places\<close>

lemma order_data_simps [simp]:
  "od_id (order_data ctx pr c input i n) = i" "od_cartId (order_data ctx pr c input i n) = ct_id c"
  "od_tenantId (order_data ctx pr c input i n) = ctx_tenantId ctx"
  "od_userId (order_data ctx pr c input i n) = pr_userId pr"
  "od_idempotencyKey (order_data ctx pr c input i n) = ci_idempotencyKey input"
  "od_currency (order_data ctx pr c input i n) = qt_currency (ci_quote input)"
  "od_subtotalMinor (order_data ctx pr c input i n) = qt_subtotalMinor (ci_quote input)"
  "od_discountMinor (order_data ctx pr c input i n) = qt_discountMinor (ci_quote input)"
  "od_taxMinor (order_data ctx pr c input i n) = qt_taxMinor (ci_quote input)"
  "od_shippingMinor (order_data ctx pr c input i n) = qt_shippingMinor (ci_quote input)"
  "od_totalMinor (order_data ctx pr c input i n) = qt_totalMinor (ci_quote input)"
  by (simp_all add: order_data_def Let_def)

lemma placed_order:
  assumes "place_order ctx pr cartId input s = (Inr v, t)"
  shows "\<exists>c ls i n xs ys. ct_id c = cartId \<and> ow_order v = order_data ctx pr c input i n
    \<and> map (joined_line s) (filter (\<lambda>l. cl_cartId l = cartId) (cart_lines s)) = map Inr ls
    \<and> orders t = orders s @ [ow_order v] \<and> (\<forall>o'\<in>set (orders s). od_id o' \<noteq> i)
    \<and> order_lines t = order_lines s @ xs \<and> (\<forall>x\<in>set xs. ol_orderId x = i)
    \<and> map ol_lineTotalMinor xs = map line_total ls
    \<and> order_splits t = order_splits s @ ys \<and> (\<forall>y\<in>set ys. os_orderId y = i)
    \<and> sum_list (map os_subtotalMinor ys) = sum_list (map line_total ls)
    \<and> order ctx i (Some (pr_userId pr)) t = (Inr v, t)"
proof -
  from place_order_tables [OF assms] obtain c ls i n s' u where
    cart: "active_cart ctx pr cartId s = (Inr c, s')"
    and ls: "map (joined_line s) (filter (\<lambda>l. cl_cartId l = ct_id c) (cart_lines s)) = map Inr ls"
    and fill: "fill_order ctx pr c input ls (order_data ctx pr c input i n) u = (Inr v, t)"
    and u: "order_tables u = (orders s @ [order_data ctx pr c input i n], order_lines s, order_splits s, purchase_orders s)"
    and fresh: "\<forall>o'\<in>set (orders s). \<not> same_order (order_data ctx pr c input i n) o'" by blast
  have c: "ct_id c = cartId" using cart by (auto simp: active_cart_def dest: find_SomeD)
  have fresh': "\<forall>o'\<in>set (orders s). od_id o' \<noteq> i" using fresh by (auto simp: same_order_def)
  from fill_order_tables [OF fill] u obtain xs ys ps where
    t: "order_tables t = (orders s @ [order_data ctx pr c input i n], order_lines s @ xs, order_splits s @ ys, purchase_orders s @ ps)"
    and xs: "\<forall>x\<in>set xs. ol_orderId x = i" "map ol_lineTotalMinor xs = map line_total ls"
    and ys: "\<forall>y\<in>set ys. os_orderId y = i" "sum_list (map os_subtotalMinor ys) = sum_list (map line_total ls)"
    and v: "order ctx i (Some (pr_userId pr)) t = (Inr v, t)"
    by (auto simp: order_tables_def)
  have "List.find (\<lambda>d. od_id d = i \<and> od_tenantId d = ctx_tenantId ctx \<and> od_userId d = pr_userId pr) (orders s) = None"
    using fresh' by (auto simp: find_None_iff')
  then have "ow_order v = order_data ctx pr c input i n"
    using order_view_Inr [OF v] t by (simp add: order_tables_def find_append)
  with c ls t xs ys v fresh' show ?thesis by (auto simp: order_tables_def)
qed

lemma replay_none: "fst (checkout_replay ctx pr cartId key s) = Inr None \<Longrightarrow>
   List.find (\<lambda>d. od_tenantId d = ctx_tenantId ctx \<and> od_idempotencyKey d = key) (orders s) = None"
  by (cases "checkout_replay ctx pr cartId key s") (auto simp: checkout_replay_def split: option.splits)

lemma checkout_order_places:
  assumes "checkout_order ctx pr cartId input s = (Inr v, t)"
    and "List.find (\<lambda>d. od_tenantId d = ctx_tenantId ctx \<and> od_idempotencyKey d = ci_idempotencyKey input) (orders s) = None"
  shows "place_order ctx pr cartId input s = (Inr v, t)"
  using assms by (auto simp: checkout_order_def checkout_tx_def)

lemma placed_order_replays:
  assumes "place_order ctx pr cartId input s = (Inr v, t)"
    and "List.find (\<lambda>d. od_tenantId d = ctx_tenantId ctx \<and> od_idempotencyKey d = ci_idempotencyKey input) (orders s) = None"
  shows "checkout_replay ctx pr cartId (ci_idempotencyKey input) t = (Inr (Some v), t)"
proof -
  from placed_order [OF assms(1)] obtain c i n where "ct_id c = cartId"
    and d: "ow_order v = order_data ctx pr c input i n" and "orders t = orders s @ [ow_order v]"
    and "order ctx i (Some (pr_userId pr)) t = (Inr v, t)" by auto
  with assms(2) show ?thesis by (simp add: checkout_replay_def find_append seq_def find_row_def reads_def ensure_def)
qed

text \<open>\<open>quoted\<close>: some run of \<open>calculateQuote\<close> answered this quote.\<close>

definition quoted ::
  "'m commerce_db_scheme commerce_adapter \<Rightarrow> tenant_context \<Rightarrow> cart_snapshot \<Rightarrow> string option
     \<Rightarrow> normalized_address \<Rightarrow> app_error + commerce_quote \<Rightarrow> bool"
where
  "quoted adapter ctx c code a r \<longleftrightarrow> (\<exists>s t. calculateQuote adapter ctx c code a s = (r, t))"

section \<open>Requests to the provider\<close>

lemma keeps_transaction_runtime:
  assumes "\<And>f s. v (runtime.more_update f s) = v s" and "keeps v m"
  shows "keeps v (transaction m)"
  using assms by (auto simp: keeps_def transaction_def split: prod.splits sum.splits) (metis snd_conv)+

lemma calls_reserve_line: "keeps external_calls (reserve_line ctx pr i l gs)"
  unfolding reserve_line_def by (intro keeps_intros) simp_all

lemma calls_create_split: "keeps external_calls (create_split ctx i cur g)"
  unfolding create_split_def by (intro keeps_intros) simp_all

lemma calls_create_order_invoice: "keeps external_calls (create_order_invoice ctx pr d input ls)"
  unfolding create_order_invoice_def Let_def by (intro keeps_intros) simp_all

lemma calls_fill_order: "keeps external_calls (fill_order ctx pr c input ls d)"
  unfolding fill_order_def Let_def
  by (intro keeps_intros calls_reserve_line calls_create_split calls_create_order_invoice keeps_order) simp_all

lemma calls_checkout_order: "keeps external_calls (checkout_order ctx pr cartId input)"
  unfolding checkout_order_def checkout_tx_def place_order_def
  by (intro keeps_transaction_runtime keeps_intros calls_fill_order keeps_order keeps_active_cart keeps_joined_lines) simp_all

context commerce_port
begin

lemma quoted_outside:
  "calculateQuote adapter ctx c code a s = (r, t) \<Longrightarrow>
   outside_view t = outside_view s \<and> quoted adapter ctx c code a r"
  using keepsD [OF calculateQuote_outside] by (auto simp: quoted_def)

lemma checkout_stages:
  assumes "checkout adapter ctx pr cartId key input s = (r, t)"
  shows "(\<exists>v. r = Inr v \<and> t = s \<and> fst (checkout_replay ctx pr cartId key s) = Inr (Some v)
             \<and> \<not> (length (js_trim key) < 8 \<or> length key > 160))
    \<or> (\<exists>e. r = Inl e \<and> outside_view t = outside_view s)
    \<or> (\<exists>c address q decision u. fst (checkout_replay ctx pr cartId key s) = Inr None
         \<and> \<not> (length (js_trim key) < 8 \<or> length key > 160)
         \<and> fst (cart ctx pr cartId s) = Inr c
         \<and> quoted adapter ctx c (cd_promotionCode input) address (Inr q)
         \<and> outside_view u = outside_view s
         \<and> authorize_and_place adapter ctx pr cartId key input c address q decision u = (r, t))"
proof (cases r)
  case (Inl e)
  with assms show ?thesis
    unfolding checkout_def
    by (auto split: option.splits dest!: outside [THEN keepsD] quoted_outside) blast
next
  case (Inr v)
  with assms show ?thesis
    unfolding checkout_def
    by (auto split: option.splits dest!: outside [THEN keepsD] quoted_outside)
qed


lemma authorize_stages:
  assumes "authorize_and_place adapter ctx pr cartId key input c a q decision u = (r, t)"
  shows "(\<exists>v s1 ref. r = Inr v \<and> runtime.more s1 = runtime.more u
      \<and> checkout_order ctx pr cartId \<lparr>ci_cartVersion = kv_version c, ci_idempotencyKey = key, ci_quote = q,
           ci_address = a, ci_paymentReference = ref, ci_fraudDecision = decision\<rparr> s1 = (Inr v, t)
      \<and> external_calls t = external_calls u
          @ [AuthorizePayment (cd_paymentToken input) (qt_totalMinor q) (qt_currency q) key])
    \<or> (\<exists>e. r = Inl e \<and> runtime.more t = runtime.more u
      \<and> (external_calls t = external_calls u
            @ [AuthorizePayment (cd_paymentToken input) (qt_totalMinor q) (qt_currency q) key]
          \<and> (\<exists>e v w. ca_authorize adapter \<lparr>az_paymentToken = cd_paymentToken input,
               az_amountMinor = qt_totalMinor q, az_currency = qt_currency q, az_idempotencyKey = key\<rparr> v = (Inl e, w))
        \<or> (\<exists>ref. external_calls t = external_calls u
            @ [AuthorizePayment (cd_paymentToken input) (qt_totalMinor q) (qt_currency q) key, VoidPayment ref])))"
proof -
  let ?auth = "AuthorizePayment (cd_paymentToken input) (qt_totalMinor q) (qt_currency q) key"
  let ?ask = "\<lparr>az_paymentToken = cd_paymentToken input, az_amountMinor = qt_totalMinor q,
      az_currency = qt_currency q, az_idempotencyKey = key\<rparr>"
  let ?u0 = "u\<lparr>external_calls := external_calls u @ [?auth]\<rparr>"
  let ?place = "\<lambda>ref. checkout_order ctx pr cartId \<lparr>ci_cartVersion = kv_version c, ci_idempotencyKey = key,
      ci_quote = q, ci_address = a, ci_paymentReference = ref, ci_fraudDecision = decision\<rparr>"
  obtain ra u1 where asked: "ca_authorize adapter ?ask ?u0 = (ra, u1)" by fastforce
  then have u1: "runtime.more u1 = runtime.more u" "external_calls u1 = external_calls u @ [?auth]"
    using keepsD [OF authorize_outside asked] by (simp_all add: outside_view_def)
  show ?thesis
  proof (cases ra)
    case (Inl e)
    with assms asked u1 show ?thesis by (auto simp: authorize_and_place_def send_def seq_def)
  next
    case (Inr ref)
    obtain ro u2 where placed: "?place ref u1 = (ro, u2)" by fastforce
    have u2: "external_calls u2 = external_calls u1" using keepsD [OF calls_checkout_order placed] .
    show ?thesis
    proof (cases ro)
      case (Inl e)
      with placed have restored: "runtime.more u2 = runtime.more u1"
        unfolding checkout_order_def by (blast dest: transaction_rolls_back)
      obtain rv u3 where voided: "ca_void adapter ref (u2\<lparr>external_calls := external_calls u2 @ [VoidPayment ref]\<rparr>) = (rv, u3)"
        by fastforce
      from assms asked Inr placed Inl voided have "(\<exists>e. r = Inl e) \<and> t = u3"
        by (auto simp: authorize_and_place_def send_def seq_def catch_def split: sum.splits)
      with keepsD [OF void_outside voided] u1 u2 restored show ?thesis by (auto simp: outside_view_def)
    next
      case (Inr v)
      with assms asked \<open>ra = Inr ref\<close> placed have "r = Inr v \<and> t = u2"
        by (auto simp: authorize_and_place_def send_def seq_def catch_def)
      with placed Inr u1 u2 show ?thesis by auto
    qed
  qed
qed


lemma checkout_placed:
  assumes "checkout adapter ctx pr cartId key input s = (Inr v, t)"
    and "fst (checkout_replay ctx pr cartId key s) = Inr None"
  shows "\<exists>c q a inp u. \<not> (length (js_trim key) < 8 \<or> length key > 160) \<and> fst (cart ctx pr cartId s) = Inr c
    \<and> quoted adapter ctx c (cd_promotionCode input) a (Inr q)
    \<and> runtime.more u = runtime.more s \<and> place_order ctx pr cartId inp u = (Inr v, t)
    \<and> ci_quote inp = q \<and> ci_idempotencyKey inp = key
    \<and> external_calls t = external_calls s
        @ [AuthorizePayment (cd_paymentToken input) (qt_totalMinor q) (qt_currency q) key]"
proof -
  from checkout_stages [OF assms(1)] assms(2) obtain c a q decision u where
    c: "\<not> (length (js_trim key) < 8 \<or> length key > 160)" "fst (cart ctx pr cartId s) = Inr c"
      "quoted adapter ctx c (cd_promotionCode input) a (Inr q)"
    and u: "outside_view u = outside_view s"
    and paid: "authorize_and_place adapter ctx pr cartId key input c a q decision u = (Inr v, t)" by auto
  from authorize_stages [OF paid] obtain s1 inp where
    s1: "runtime.more s1 = runtime.more u" and placed: "checkout_order ctx pr cartId inp s1 = (Inr v, t)"
    and inp: "ci_quote inp = q" "ci_idempotencyKey inp = key"
    and calls: "external_calls t = external_calls u
        @ [AuthorizePayment (cd_paymentToken input) (qt_totalMinor q) (qt_currency q) key]" by fastforce
  from s1 u have more: "runtime.more s1 = runtime.more s" by (simp add: outside_view_def)
  then have "orders s1 = orders s" by (auto dest: commerce_more)
  with checkout_order_places [OF placed] replay_none [OF assms(2)] inp
  have "place_order ctx pr cartId inp s1 = (Inr v, t)" by simp
  with c inp more calls u show ?thesis by (auto simp: outside_view_def)
qed

lemma replayed_order:
  assumes "fst (checkout_replay ctx pr cartId key s) = Inr (Some v)"
  shows "ow_order v \<in> set (orders s)"
  using assms order_view_Inr
  by (cases "checkout_replay ctx pr cartId key s")
    (fastforce simp: checkout_replay_def split: option.splits dest: find_SomeD)

end

sublocale commerce_port \<subseteq> once: idempotent_command
  "\<lambda>(ctx, pr, cartId, key, input). checkout adapter ctx pr cartId key input"
  "\<lambda>(ctx, pr, cartId, key, input) s. (case fst (checkout_replay ctx pr cartId key s) of Inl _ \<Rightarrow> None | Inr v \<Rightarrow> v)"
  "\<lambda>(ctx, pr, cartId, key, input) s. \<not> (length (js_trim key) < 8 \<or> length key > 160)"
  "\<lambda>v. v"
proof (unfold_locales, goal_cases)
  case (1 x s y t)
  obtain ctx pr cartId key input where x: "x = (ctx, pr, cartId, key, input)" by (cases x) auto
  with 1 have run: "checkout adapter ctx pr cartId key input s = (Inr y, t)" by simp
  show ?case
  proof (cases "fst (checkout_replay ctx pr cartId key s) = Inr None")
    case True
    from checkout_placed [OF run True] obtain inp u where k: "\<not> (length (js_trim key) < 8 \<or> length key > 160)"
      and u: "runtime.more u = runtime.more s" and placed: "place_order ctx pr cartId inp u = (Inr y, t)"
      and inp: "ci_idempotencyKey inp = key" by auto
    from u have "orders u = orders s" by (auto dest: commerce_more)
    with placed_order_replays [OF placed] replay_none [OF True] inp
    have "checkout_replay ctx pr cartId key t = (Inr (Some y), t)" by simp
    with k x show ?thesis by simp
  next
    case False
    with checkout_stages [OF run] x show ?thesis by auto
  qed
next
  case (2 x s y)
  obtain ctx pr cartId key input where x: "x = (ctx, pr, cartId, key, input)" by (cases x) auto
  with 2 have "checkout_replay ctx pr cartId key s = (Inr (Some y), s)" by (auto split: sum.splits)
  with 2 x show ?case by (simp add: checkout_def seq_def ensure_def split: prod.splits)
qed

context commerce_port
begin

lemma checkout_again:
  assumes "checkout adapter ctx pr cartId key input s = (Inr v, t)"
  shows "checkout adapter ctx pr cartId key input' t = (Inr v, t)"
  using once.recorded [of "(ctx, pr, cartId, key, input)" s v t] assms
    once.replayed [of "(ctx, pr, cartId, key, input')" t v] by simp

lemma checkout_reconciled:
  assumes "checkout adapter ctx pr cartId key input s = (r, t)" and "reconciled s"
  shows "reconciled t"
proof -
  have more: "reconciled u" if "runtime.more u = runtime.more s" for u
    using that assms(2) by (auto simp: reconciled_def dest: stock_more)
  from checkout_stages [OF assms(1)] consider "t = s" | "outside_view t = outside_view s"
    | c q a decision u where "outside_view u = outside_view s"
      "authorize_and_place adapter ctx pr cartId key input c a q decision u = (r, t)" by auto
  then show ?thesis
  proof cases
    case 3
    from authorize_stages [OF 3(2)] 3(1) consider "runtime.more t = runtime.more s"
      | s1 inp v where "runtime.more s1 = runtime.more s" "checkout_order ctx pr cartId inp s1 = (Inr v, t)"
      by (fastforce simp: outside_view_def)
    then show ?thesis using more alwaysD [OF always_reconciled_placing] by cases blast+
  qed (use assms(2) more in \<open>simp_all add: outside_view_def\<close>)
qed

lemma checkout_charges:
  assumes "checkout adapter ctx pr cartId key input s = (Inr v, t)"
  shows "ow_order v \<in> set (orders t)
    \<and> (if fst (checkout_replay ctx pr cartId key s) = Inr None
       then orders t = orders s @ [ow_order v]
         \<and> od_cartId (ow_order v) = cartId \<and> od_userId (ow_order v) = pr_userId pr
         \<and> external_calls t = external_calls s
           @ [AuthorizePayment (cd_paymentToken input) (od_totalMinor (ow_order v)) (od_currency (ow_order v)) key]
       else t = s)"
proof (cases "fst (checkout_replay ctx pr cartId key s) = Inr None")
  case True
  from checkout_placed [OF assms True] obtain q inp u where u: "runtime.more u = runtime.more s"
    and placed: "place_order ctx pr cartId inp u = (Inr v, t)" and inp: "ci_quote inp = q"
    and calls: "external_calls t = external_calls s
        @ [AuthorizePayment (cd_paymentToken input) (qt_totalMinor q) (qt_currency q) key]" by auto
  from u have "orders u = orders s" by (auto dest: commerce_more)
  with placed_order [OF placed] calls inp True show ?thesis by auto
next
  case False
  with checkout_stages [OF assms] show ?thesis by (auto dest: replayed_order)
qed

lemma checkout_refused:
  assumes "checkout adapter ctx pr cartId key input s = (Inl e, t)"
  shows "runtime.more t = runtime.more s
    \<and> (external_calls t = external_calls s
     \<or> (\<exists>ask. az_paymentToken ask = cd_paymentToken input \<and> az_idempotencyKey ask = key
        \<and> (external_calls t = external_calls s @ [AuthorizePayment (cd_paymentToken input) (az_amountMinor ask) (az_currency ask) key]
            \<and> (\<exists>e u w. ca_authorize adapter ask u = (Inl e, w))
         \<or> (\<exists>ref. external_calls t = external_calls s
             @ [AuthorizePayment (cd_paymentToken input) (az_amountMinor ask) (az_currency ask) key, VoidPayment ref]))))"
proof -
  from checkout_stages [OF assms] consider "outside_view t = outside_view s"
    | c q a decision u where "outside_view u = outside_view s"
      "authorize_and_place adapter ctx pr cartId key input c a q decision u = (Inl e, t)" by auto
  then show ?thesis
  proof cases
    case 2
    let ?ask = "\<lparr>az_paymentToken = cd_paymentToken input, az_amountMinor = qt_totalMinor q,
               az_currency = qt_currency q, az_idempotencyKey = key\<rparr>"
    from authorize_stages [OF 2(2)] 2(1) have "runtime.more t = runtime.more s
      \<and> (external_calls t = external_calls s @ [AuthorizePayment (cd_paymentToken input) (qt_totalMinor q) (qt_currency q) key]
            \<and> (\<exists>e u w. ca_authorize adapter ?ask u = (Inl e, w))
         \<or> (\<exists>ref. external_calls t = external_calls s
             @ [AuthorizePayment (cd_paymentToken input) (qt_totalMinor q) (qt_currency q) key, VoidPayment ref]))"
      by (simp add: outside_view_def)
    then show ?thesis by (intro conjI) (blast, rule disjI2, rule exI [of _ ?ask], simp)
  qed (simp add: outside_view_def)
qed

end

section \<open>Amounts\<close>

lemma promotion_discount_le:
  "promotion_discount ctx c code m s = (Inr (p, d), t) \<Longrightarrow> 0 \<le> m \<Longrightarrow> d \<le> m"
  by (auto simp: promotion_discount_def split: if_splits)

lemma quoted_amounts:
  assumes "quoted adapter ctx c code a (Inr q)" and "0 \<le> cart_subtotal c"
  shows "qt_subtotalMinor q = cart_subtotal c \<and> qt_discountMinor q \<le> qt_subtotalMinor q
    \<and> qt_totalMinor q = qt_subtotalMinor q - qt_discountMinor q + qt_taxMinor q + qt_shippingMinor q"
proof -
  from assms(1) obtain s t where "calculateQuote adapter ctx c code a s = (Inr q, t)" by (auto simp: quoted_def)
  with assms(2) show ?thesis
    by (auto simp: calculateQuote_def split: prod.splits dest!: promotion_discount_le)
qed

lemma cart_subtotal_lines:
  assumes "fst (cart ctx pr cartId s) = Inr c"
    and "map (joined_line s) (filter (\<lambda>l. cl_cartId l = cartId) (cart_lines s)) = map Inr ls"
  shows "cart_subtotal c = sum_list (map line_total ls)"
proof -
  have view: "snapshot_line_of x = Inr k \<Longrightarrow> kl_unitPriceMinor k * kl_quantity k = line_total x" for x k
    by (auto simp: snapshot_line_of_def line_total_def split: prod.splits sum.splits)
  have lines: "map snapshot_line_of xs = map Inr ks \<Longrightarrow>
      sum_list (map (\<lambda>k. kl_unitPriceMinor k * kl_quantity k) ks) = sum_list (map line_total xs)" for xs ks
    by (induction xs arbitrary: ks) (auto simp: Cons_eq_map_conv view)
  have "cart_view k xs = Inr c \<Longrightarrow> map snapshot_line_of xs = map Inr (kv_lines c)" for k xs
    by (auto simp: cart_view_def sequence_results_Inr split: sum.splits)
  with assms(1) obtain ls' where found: "map (joined_line s) (filter (\<lambda>l. cl_cartId l = cartId) (cart_lines s)) = map Inr ls'"
    and c: "map snapshot_line_of ls' = map Inr (kv_lines c)"
    by (cases "cart ctx pr cartId s")
      (auto simp: cart_def joined_lines_def sequence_results_Inr dest!: find_SomeD simp del: view_pure)
  have "ls' = ls" using found assms(2) by (metis (no_types, lifting) list.inj_map_strong sum.inject(2))
  with lines [OF c] show ?thesis by (simp add: cart_subtotal_def foldl_sum)
qed

definition order_references :: "'m commerce_db_scheme \<Rightarrow> bool" where
  "order_references s \<longleftrightarrow> (\<forall>l\<in>set (order_lines s). ol_orderId l \<in> od_id ` set (orders s))
     \<and> (\<forall>x\<in>set (order_splits s). os_orderId x \<in> od_id ` set (orders s))
     \<and> (\<forall>l\<in>set (cart_lines s). 0 \<le> cl_quantity l \<and> 0 \<le> cl_unitPriceMinor l)"

lemma joined_line_fst: "joined_line s l = Inr x \<Longrightarrow> fst x = l"
  by (auto simp: joined_line_def split: option.splits)

lemma lines_nonnegative:
  assumes "order_references s" and "map (joined_line s) (filter P (cart_lines s)) = map Inr ls"
  shows "0 \<le> sum_list (map line_total ls)"
proof (rule sum_list_nonneg_map)
  fix x
  assume "x \<in> set ls"
  then have "Inr x \<in> set (map (joined_line s) (filter P (cart_lines s)))" using assms(2) by simp
  then obtain l where "l \<in> set (cart_lines s)" "joined_line s l = Inr x" by auto
  with assms(1) show "0 \<le> line_total x" by (auto simp: order_references_def line_total_def dest!: joined_line_fst)
qed

lemma only_new: "\<forall>l\<in>set old. f l \<noteq> i \<Longrightarrow> \<forall>l\<in>set new. f l = i \<Longrightarrow> filter (\<lambda>l. f l = i) (old @ new) = new"
  by (simp add: filter_empty_conv)

lemma joined_line_more: "runtime.more u = runtime.more s \<Longrightarrow> joined_line u = joined_line s"
proof -
  assume "runtime.more u = runtime.more s"
  then have "offers u = offers s" "variants u = variants s" by (cases u; cases s; simp)+
  then show ?thesis by (simp add: joined_line_def fun_eq_iff variant_of_def cong: option.case_cong)
qed

lemma cart_lines_more: "runtime.more u = runtime.more s \<Longrightarrow> cart_lines u = cart_lines s"
  by (cases u; cases s) simp


context commerce_port
begin

lemma checkout_amounts:
  assumes "checkout adapter ctx pr cartId key input s = (Inr v, t)"
    and "fst (checkout_replay ctx pr cartId key s) = Inr None" and "order_references s"
  shows "od_subtotalMinor (ow_order v) = sum_list (map ol_lineTotalMinor (ow_lines v))
    \<and> od_subtotalMinor (ow_order v) = sum_list (map os_subtotalMinor (map fst (ow_splits v)))
    \<and> od_discountMinor (ow_order v) \<le> od_subtotalMinor (ow_order v)
    \<and> od_totalMinor (ow_order v) = od_subtotalMinor (ow_order v) - od_discountMinor (ow_order v)
        + od_taxMinor (ow_order v) + od_shippingMinor (ow_order v)"
proof -
  from checkout_placed [OF assms(1,2)] obtain c q a inp u where c: "fst (cart ctx pr cartId s) = Inr c"
    and q: "quoted adapter ctx c (cd_promotionCode input) a (Inr q)"
    and u: "runtime.more u = runtime.more s" and placed: "place_order ctx pr cartId inp u = (Inr v, t)"
    and inp: "ci_quote inp = q" by auto
  from placed_order [OF placed] obtain d ls i n xs ys where
    d: "ow_order v = order_data ctx pr d inp i n"
    and ls: "map (joined_line u) (filter (\<lambda>l. cl_cartId l = cartId) (cart_lines u)) = map Inr ls"
    and fresh: "\<forall>o'\<in>set (orders u). od_id o' \<noteq> i"
    and xs: "order_lines t = order_lines u @ xs" "\<forall>x\<in>set xs. ol_orderId x = i"
      "map ol_lineTotalMinor xs = map line_total ls"
    and ys: "order_splits t = order_splits u @ ys" "\<forall>y\<in>set ys. os_orderId y = i"
      "sum_list (map os_subtotalMinor ys) = sum_list (map line_total ls)"
    and view: "order ctx i (Some (pr_userId pr)) t = (Inr v, t)" by auto
  have same: "orders u = orders s" "order_lines u = order_lines s" "order_splits u = order_splits s"
    using commerce_more [OF u] by auto
  have ls': "map (joined_line s) (filter (\<lambda>l. cl_cartId l = cartId) (cart_lines s)) = map Inr ls"
    using ls joined_line_more [OF u] cart_lines_more [OF u] by simp
  have old: "\<forall>l\<in>set (order_lines s). ol_orderId l \<noteq> i" "\<forall>x\<in>set (order_splits s). os_orderId x \<noteq> i"
    using assms(3) fresh same(1) unfolding order_references_def by (metis imageE)+
  have "ow_lines v = xs" "map fst (ow_splits v) = ys"
    using order_view_Inr [OF view] d only_new [OF old(1) xs(2)] only_new [OF old(2) ys(2)]
    by (simp_all add: xs(1) ys(1) same)
  moreover have "cart_subtotal c = sum_list (map line_total ls)" by (rule cart_subtotal_lines [OF c ls'])
  moreover from this lines_nonnegative [OF assms(3) ls'] have "0 \<le> cart_subtotal c" by simp
  ultimately show ?thesis using quoted_amounts [OF q] d inp xs(3) ys(3) by simp
qed

end


section \<open>A concrete shop\<close>

definition lamp_offer :: offer where
  "lamp_offer = \<lparr>of_id = ''offer'', of_tenantId = ''tenant'', of_storeId = ''store'',
     of_variantId = ''variant'', of_sellerId = ''seller'', of_supplierId = ''supplier'',
     of_currency = ''USD'', of_priceMinor = 1250, of_compareAtMinor = None, of_minimumQuantity = 1,
     of_status = OS_ACTIVE, of_availableFrom = None, of_availableTo = None, of_version = 1\<rparr>"

definition lamp_store :: store where
  "lamp_store = \<lparr>st_id = ''store'', st_tenantId = ''tenant'', st_key = ''lamps'', st_name = ''Lamps'',
     st_status = ST_ACTIVE, st_defaultCurrency = ''USD'', st_version = 1, st_deletedAt = None\<rparr>"

definition empty_shop :: commerce_db where
  "empty_shop = fresh_commerce\<lparr>stores := [lamp_store], products := [some_product],
     variants := [some_variant], offers := [lamp_offer]\<rparr>"

definition stocked_shop :: commerce_db where
  "stocked_shop = snd (inventory_feed some_context some_principal (stock_feed ''wms'' ''first'' 10) empty_shop)"

definition some_cart :: uuid where
  "some_cart = kv_id (answer (fst (create_cart some_context some_principal ''store'' stocked_shop)))"

definition filled_shop :: commerce_db where
  "filled_shop = snd (add_cart_line some_context some_principal some_cart ''offer'' 3
     (snd (create_cart some_context some_principal ''store'' stocked_shop)))"

definition some_address :: address where
  "some_address = \<lparr>ad_recipient = ''Ada'', ad_line1 = ''Main St 1'', ad_line2 = None, ad_city = ''Town'',
     ad_region = None, ad_postalCode = ''12345'', ad_countryCode = ''US'', ad_phone = None\<rparr>"

definition some_checkout :: checkout_dto where
  "some_checkout = \<lparr>cd_promotionCode = None, cd_paymentToken = ''tok_visa'', cd_address = some_address\<rparr>"

definition placed_shop :: commerce_db where
  "placed_shop = snd (checkout deterministic_adapter some_context some_principal some_cart ''checkout-1''
     some_checkout filled_shop)"

definition some_order :: order_view where
  "some_order = answer (fst (checkout deterministic_adapter some_context some_principal some_cart ''checkout-1''
     some_checkout filled_shop))"

definition placed_scene :: "(app_error + order_view) \<times> commerce_db \<Rightarrow> bool" where
  "placed_scene x \<longleftrightarrow> (case x of
       (Inl e, t) \<Rightarrow> False
     | (Inr v, t) \<Rightarrow> od_totalMinor (ow_order v) = 4825
         \<and> external_calls t = [AuthorizePayment ''tok_visa'' 4825 ''USD'' ''checkout-1''])"

lemma some_checkout_placed:
  "placed_scene (checkout deterministic_adapter some_context some_principal some_cart ''checkout-1'' some_checkout filled_shop)"
  by code_simp

lemma some_checkout_runs:
  "checkout deterministic_adapter some_context some_principal some_cart ''checkout-1'' some_checkout filled_shop
     = (Inr some_order, placed_shop)"
  unfolding some_order_def placed_shop_def
  by (rule returned_run) (use some_checkout_placed in \<open>auto simp: placed_scene_def returned_def split: prod.splits sum.splits\<close>)

lemma some_order_rows: "od_totalMinor (ow_order some_order) = 4825"
  "external_calls placed_shop = [AuthorizePayment ''tok_visa'' 4825 ''USD'' ''checkout-1'']"
  using some_checkout_placed unfolding some_checkout_runs by (simp_all add: placed_scene_def)

lemma filled_scene: "fst (checkout_replay some_context some_principal some_cart ''checkout-1'' filled_shop) = Inr None"
  by code_simp

text \<open>A cart with more lamps than there are: the payment is authorised before the stock is found short.\<close>

definition greedy_shop :: commerce_db where
  "greedy_shop = snd (add_cart_line some_context some_principal some_cart ''offer'' 30
     (snd (create_cart some_context some_principal ''store'' stocked_shop)))"

definition refused_shop :: commerce_db where
  "refused_shop = snd (checkout deterministic_adapter some_context some_principal some_cart ''checkout-1''
     some_checkout greedy_shop)"

definition refused_scene :: "(app_error + order_view) \<times> commerce_db \<Rightarrow> bool" where
  "refused_scene x \<longleftrightarrow> (case x of
       (Inl e, t) \<Rightarrow> e = Conflict ''Insufficient inventory for LAMP'' \<and> orders t = [] \<and> length (external_calls t) = 2
     | (Inr v, t) \<Rightarrow> False)"

lemma greedy_checkout_refused:
  "refused_scene (checkout deterministic_adapter some_context some_principal some_cart ''checkout-1'' some_checkout greedy_shop)"
  by code_simp

lemma greedy_checkout_runs:
  "checkout deterministic_adapter some_context some_principal some_cart ''checkout-1'' some_checkout greedy_shop
     = (Inl (Conflict ''Insufficient inventory for LAMP''), refused_shop)"
  using greedy_checkout_refused unfolding refused_shop_def refused_scene_def
  by (cases "checkout deterministic_adapter some_context some_principal some_cart ''checkout-1'' some_checkout greedy_shop")
    (simp split: sum.splits)

section \<open>Properties of the checkout\<close>

text \<open>
  C2. The money of an order adds up. A checkout that places an order charges the subtotal
  less the discount plus tax and shipping; the subtotal is the sum over the order lines and
  also the sum over the splits, and the discount is at most the subtotal.
\<close>

theorem order_money_adds_up:
  assumes "commerce_port adapter" and "checkout adapter ctx pr cartId key input s = (Inr v, t)"
    and "fst (checkout_replay ctx pr cartId key s) = Inr None" and "order_references s"
  shows "od_subtotalMinor (ow_order v) = sum_list (map ol_lineTotalMinor (ow_lines v))
    \<and> od_subtotalMinor (ow_order v) = sum_list (map os_subtotalMinor (map fst (ow_splits v)))
    \<and> od_discountMinor (ow_order v) \<le> od_subtotalMinor (ow_order v)
    \<and> od_totalMinor (ow_order v) = od_subtotalMinor (ow_order v) - od_discountMinor (ow_order v)
        + od_taxMinor (ow_order v) + od_shippingMinor (ow_order v)"
  by (rule commerce_port.checkout_amounts [OF assms])

theorem order_money_adds_up_witness:
  "od_subtotalMinor (ow_order some_order) = sum_list (map ol_lineTotalMinor (ow_lines some_order))
   \<and> od_totalMinor (ow_order some_order) = 4825"
proof -
  have "order_references filled_shop" by code_simp
  then show ?thesis
    using order_money_adds_up [OF local_port.commerce_port_axioms some_checkout_runs] filled_scene some_order_rows(1)
    by blast
qed

text \<open>
  C1. A payment is authorised for the total of the order and only together with it: where the
  checkout answers an order that was not there before, exactly one authorisation was sent, for
  the total and the currency of that order and under the key of the request; where it answers
  an earlier order, nothing was sent and nothing changed.
\<close>

theorem checkout_charges_its_order:
  assumes "commerce_port adapter" and "checkout adapter ctx pr cartId key input s = (Inr v, t)"
  shows "ow_order v \<in> set (orders t)
    \<and> (if fst (checkout_replay ctx pr cartId key s) = Inr None
       then orders t = orders s @ [ow_order v]
         \<and> od_cartId (ow_order v) = cartId \<and> od_userId (ow_order v) = pr_userId pr
         \<and> external_calls t = external_calls s
           @ [AuthorizePayment (cd_paymentToken input) (od_totalMinor (ow_order v)) (od_currency (ow_order v)) key]
       else t = s)"
  by (rule commerce_port.checkout_charges [OF assms])

theorem checkout_charges_its_order_witness:
  "orders placed_shop = [ow_order some_order]
   \<and> external_calls placed_shop = [AuthorizePayment ''tok_visa'' 4825 ''USD'' ''checkout-1'']"
proof -
  have "orders placed_shop = orders filled_shop @ [ow_order some_order]"
    using checkout_charges_its_order [OF local_port.commerce_port_axioms some_checkout_runs] filled_scene by simp
  moreover have "orders filled_shop = []" by code_simp
  ultimately show ?thesis using some_order_rows(2) by simp
qed





end
