(* ===== verification/Stock_Flow.thy ===== *)
theory Stock_Flow
  imports Payments Returns Receiving Checkout_Service
begin

text \<open>
  The abstract stock. It is a function from tenant, item and state to a number of units, and it
  changes in three ways only: units move between two states of an item, units enter the stock on
  hand, and a count sets it. \<open>guides ext m\<close> says that a program follows it where it returns; the rules
  below compose over every program constructor and over the shapes a movement has in the code.
\<close>

section \<open>The abstract stock\<close>

type_synonym stock_units = "stock_key \<Rightarrow> int"

inductive stock_move :: "bool \<Rightarrow> stock_units \<Rightarrow> stock_units \<Rightarrow> bool" for ext where
  Move: "0 \<le> q \<Longrightarrow> q \<le> f (tenant, item, a) \<Longrightarrow>
    stock_move ext f (shift q (tenant, item, b) (shift (- q) (tenant, item, a) f))"
| Enter: "ext \<Longrightarrow> 0 \<le> q \<Longrightarrow> stock_move ext f (shift q (tenant, item, ON_HAND) f)"
| Count: "ext \<Longrightarrow> 0 \<le> q \<Longrightarrow> stock_move ext f (f((tenant, item, ON_HAND) := q))"

definition units :: "'m inventory_db_scheme \<Rightarrow> stock_units" where
  "units s = balance_at (balances s)"

text \<open>The tables that hold stock, or quantities that become stock.\<close>

definition flow_view where
  "flow_view s = (balances s, cart_lines s, reservations s, order_lines s, fulfillment_lines s, return_lines s)"

definition balances_sound :: "inventory_balance list \<Rightarrow> bool" where
  "balances_sound bs \<longleftrightarrow> distinct (map key_of_balance bs) \<and> distinct (map ib_id bs) \<and> (\<forall>b\<in>set bs. 0 \<le> ib_quantity b)"

definition stock_sound :: "'m returns_db_scheme \<Rightarrow> bool" where
  "stock_sound s \<longleftrightarrow> balances_sound (balances s)
     \<and> (\<forall>l\<in>set (cart_lines s). 0 \<le> cl_quantity l) \<and> (\<forall>r\<in>set (reservations s). 0 \<le> ir_quantity r)
     \<and> (\<forall>l\<in>set (order_lines s). 0 \<le> ol_quantity l) \<and> (\<forall>l\<in>set (fulfillment_lines s). 0 \<le> fl_quantity l)
     \<and> (\<forall>l\<in>set (return_lines s). 0 \<le> rl_quantity l)"

definition flows :: "bool \<Rightarrow> 'm returns_db_scheme \<Rightarrow> 'm returns_db_scheme \<Rightarrow> bool" where
  "flows ext s t \<longleftrightarrow> stock_sound t \<and> (stock_move ext)\<^sup>*\<^sup>* (units s) (units t)"

lemma flows_refl: "stock_sound s \<Longrightarrow> flows ext s s"
  by (simp add: flows_def)

lemma flows_trans: "flows ext s t \<Longrightarrow> flows ext t u \<Longrightarrow> flows ext s u"
  by (auto simp: flows_def)

lemma flow_view_sound: "flow_view t = flow_view s \<Longrightarrow> stock_sound t = stock_sound s"
  by (simp add: flow_view_def stock_sound_def)

lemma flows_same: "flow_view t = flow_view s \<Longrightarrow> stock_sound s \<Longrightarrow> flows ext s t"
  by (simp add: flows_def flow_view_sound [of t s]) (simp add: units_def flow_view_def)

lemma flows_rows: "stock_sound s \<Longrightarrow> stock_sound t \<Longrightarrow> balances t = balances s \<Longrightarrow> flows ext s t"
  by (simp add: flows_def units_def)

section \<open>Steps on the balances\<close>

lemma units_row:
  assumes "distinct (map key_of_balance bs)" and "b \<in> set bs"
  shows "balance_at bs (key_of_balance b) = ib_quantity b"
proof -
  have "List.find (\<lambda>x. key_of_balance x = key_of_balance b) bs = Some b"
    using assms by (rule distinct_found)
  then show ?thesis using assms(1) by (simp add: balance_at_def sum_key_found)
qed

lemma imb_units: "imb bs [] = balance_at bs"
  by (simp add: imb_def ledger_at_def fun_eq_iff)

lemma take_balance_flow:
  assumes "take_balance tenant item a q s = (Inr n, t)" and "n = 1" and "balances_sound (balances s)"
  shows "balances_sound (balances t) \<and> q \<le> units s (tenant, item, a) \<and> units t = shift (- q) (tenant, item, a) (units s)"
proof -
  from assms(1,2) have one: "length (filter (\<lambda>b. balance_key tenant item a b \<and> q \<le> ib_quantity b) (balances s)) = 1"
    and t: "balances t = update_where (\<lambda>b. balance_key tenant item a b \<and> q \<le> ib_quantity b)
        (\<lambda>b. b\<lparr>ib_quantity := ib_quantity b - q, ib_version := ib_version b + 1\<rparr>) (balances s)"
    by (auto simp: take_balance_def)
  from filter_length_1D [OF one] obtain b where b: "b \<in> set (balances s)" "balance_key tenant item a b" "q \<le> ib_quantity b"
    by blast
  have "units s (tenant, item, a) = ib_quantity b"
    using units_row [of "balances s" b] assms(3) b by (simp add: units_def balance_key_iff balances_sound_def)
  moreover have "balances_sound (balances t)"
  proof -
    have "map key_of_balance (balances t) = map key_of_balance (balances s)" "map ib_id (balances t) = map ib_id (balances s)"
      unfolding t by (rule map_update_where, simp add: key_of_balance_def)+
    moreover have "\<forall>b\<in>set (balances t). 0 \<le> ib_quantity b"
      using assms(3) unfolding t balances_sound_def by (auto simp: update_where_def)
    ultimately show ?thesis using assms(3) by (simp add: balances_sound_def)
  qed
  ultimately show ?thesis using take_balance_moves [OF assms(1,2)] b(3) by (simp add: units_def flip: imb_units)
qed

lemma put_balance_flow:
  assumes "upsert_row balances balances_update same_balance (balance_key tenant item st) f
      \<lparr>ib_id = i, ib_tenantId = tenant, ib_inventoryItemId = item, ib_state = st,
       ib_quantity = q, ib_version = 1\<rparr> s = (Inr b, t)"
    and "\<And>b. key_of_balance (f b) = key_of_balance b" and "\<And>b. ib_id (f b) = ib_id b"
    and "0 \<le> q" and "\<And>b. 0 \<le> ib_quantity b \<Longrightarrow> 0 \<le> ib_quantity (f b)" and "balances_sound (balances s)"
  shows "balances_sound (balances t)"
proof (cases "List.find (balance_key tenant item st) (balances s)")
  case None
  with assms show ?thesis
    by (auto simp: upsert_row_Inr balances_sound_def same_balance_def balance_key_iff key_of_balance_def)
next
  case (Some b)
  with assms(1) have t: "balances t = update_first (balance_key tenant item st) f (balances s)"
    by (simp add: upsert_row_Inr)
  have "map key_of_balance (balances t) = map key_of_balance (balances s)" "map ib_id (balances t) = map ib_id (balances s)"
    unfolding t by (rule map_update_first, simp add: assms(2,3))+
  moreover have "\<forall>b\<in>set (balances t). 0 \<le> ib_quantity b"
    using assms(5,6) set_update_first [of "balance_key tenant item st" f "balances s"]
    unfolding t balances_sound_def by blast
  ultimately show ?thesis using assms(6) by (simp add: balances_sound_def)
qed

lemma add_balance_flow:
  assumes "add_balance tenant item st q s = (Inr b, t)" and "0 \<le> q" and "balances_sound (balances s)"
  shows "balances_sound (balances t) \<and> units t = shift q (tenant, item, st) (units s)"
proof -
  from assms(1) obtain u where u: "upsert_row balances balances_update same_balance (balance_key tenant item st)
       (\<lambda>b. b\<lparr>ib_quantity := ib_quantity b + q, ib_version := ib_version b + 1\<rparr>)
       \<lparr>ib_id = uuid_source s (uuids_drawn s), ib_tenantId = tenant, ib_inventoryItemId = item,
        ib_state = st, ib_quantity = q, ib_version = 1\<rparr> u = (Inr b, t)" "balances u = balances s"
    by (auto simp: add_balance_def)
  have "balances_sound (balances t)"
    by (rule put_balance_flow [OF u(1)]) (use assms u(2) in \<open>auto simp: key_of_balance_def\<close>)
  then show ?thesis using add_balance_moves [OF assms(1)] by (simp add: units_def flip: imb_units)
qed

lemma set_balance_flow:
  assumes "upsert_row balances balances_update same_balance (balance_key tenant item st)
      (\<lambda>b. b\<lparr>ib_quantity := q, ib_version := ib_version b + 1\<rparr>)
      \<lparr>ib_id = i, ib_tenantId = tenant, ib_inventoryItemId = item, ib_state = st,
       ib_quantity = q, ib_version = 1\<rparr> s = (Inr b, t)"
    and "0 \<le> q" and "balances_sound (balances s)"
  shows "balances_sound (balances t) \<and> units t = (units s)((tenant, item, st) := q)"
proof -
  have "balances_sound (balances t)"
    by (rule put_balance_flow [OF assms(1)]) (use assms in \<open>auto simp: key_of_balance_def\<close>)
  moreover have "units s (tenant, item, st) = (case List.find (balance_key tenant item st) (balances s) of
      None \<Rightarrow> 0 | Some b \<Rightarrow> ib_quantity b)"
    using assms(3) by (simp add: units_def balance_at_def balances_sound_def sum_key_found balance_key_iff [abs_def])
  moreover have "units t = shift (q - (case List.find (balance_key tenant item st) (balances s) of
      None \<Rightarrow> 0 | Some b \<Rightarrow> ib_quantity b)) (tenant, item, st) (units s)"
    using set_balance_moves [OF assms(1)] by (simp add: units_def flip: imb_units)
  ultimately show ?thesis by (auto simp: shift_def fun_eq_iff)
qed

lemma move_flow:
  assumes "take_balance tenant item a q s = (Inr n, u)" and "n = 1"
    and "add_balance tenant item b q u' = (Inr x, t)" and "balances u' = balances u"
    and "0 \<le> q" and "balances_sound (balances s)"
  shows "balances_sound (balances t) \<and> stock_move ext (units s) (units t)"
proof -
  from take_balance_flow [OF assms(1,2,6)] assms(4) have u: "balances_sound (balances u')" "q \<le> units s (tenant, item, a)"
    "units u' = shift (- q) (tenant, item, a) (units s)" by (simp_all add: units_def)
  from assms(5) u(2) have "stock_move ext (units s) (shift q (tenant, item, b) (shift (- q) (tenant, item, a) (units s)))"
    by (rule stock_move.Move)
  with add_balance_flow [OF assms(3,5) u(1)] u(3) show ?thesis by simp
qed


section \<open>Programs that guide the stock\<close>

text \<open>\<open>guides ext m\<close>: where \<open>m\<close> returns, it took the stock along moves of the abstract stock.\<close>

definition guides :: "bool \<Rightarrow> ('m returns_db_scheme, 'a) prog \<Rightarrow> bool" where
  "guides ext m \<longleftrightarrow> (\<forall>s x t. stock_sound s \<longrightarrow> m s = (Inr x, t) \<longrightarrow> flows ext s t)"

lemma guidesD: "guides ext m \<Longrightarrow> stock_sound s \<Longrightarrow> m s = (Inr x, t) \<Longrightarrow> flows ext s t"
  by (simp add: guides_def)

lemma guidesI: "(\<And>s x t. stock_sound s \<Longrightarrow> m s = (Inr x, t) \<Longrightarrow> flows ext s t) \<Longrightarrow> guides ext m"
  by (simp add: guides_def)

lemma flows_sound: "flows ext s t \<Longrightarrow> stock_sound t"
  by (simp add: flows_def)

lemma guides_keeps: "keeps flow_view m \<Longrightarrow> guides ext m"
  by (auto intro!: guidesI flows_same dest: keepsD)

text \<open>What a query answers is known in what follows it.\<close>

lemma guides_post:
  assumes "guides ext m" and "\<And>s x t. stock_sound s \<Longrightarrow> m s = (Inr x, t) \<Longrightarrow> Q x" and "\<And>x. Q x \<Longrightarrow> guides ext (f x)"
  shows "guides ext (seq m f)"
proof (rule guidesI)
  fix s y t assume s: "stock_sound s" and "seq m f s = (Inr y, t)"
  then obtain x u where m: "m s = (Inr x, u)" and f: "f x u = (Inr y, t)" by auto
  have "flows ext s u" using assms(1) s m by (rule guidesD)
  moreover from assms(2) [OF s m] have "guides ext (f x)" by (rule assms(3))
  ultimately show "flows ext s t" using f by (blast intro: flows_trans guidesD flows_sound)
qed

lemma guides_seq: "guides ext m \<Longrightarrow> (\<And>x. guides ext (f x)) \<Longrightarrow> guides ext (seq m f)"
  by (rule guides_post [where Q = "\<lambda>_. True"]) simp_all

lemma guides_found:
  assumes "\<And>s x. stock_sound s \<Longrightarrow> x \<in> set (rows s) \<Longrightarrow> Q x" and "\<And>r. (\<And>x. r = Some x \<Longrightarrow> Q x) \<Longrightarrow> guides ext (f r)"
  shows "guides ext (seq (find_row rows P) f)"
proof (rule guides_post [where Q = "\<lambda>r. \<forall>x. r = Some x \<longrightarrow> Q x"])
  show "guides ext (find_row rows P)" by (rule guides_keeps [OF keeps_find_row])
qed (use assms in \<open>auto dest!: find_SomeD\<close>)

lemma guides_require:
  "(\<And>x. r = Some x \<Longrightarrow> guides ext (f x)) \<Longrightarrow> guides ext (seq (require r e) f)"
  by (rule guides_post [where Q = "\<lambda>x. r = Some x"]) (auto intro: guides_keeps keeps_require)

lemma guides_if: "guides ext m \<Longrightarrow> guides ext n \<Longrightarrow> guides ext (if b then m else n)"
  by simp

lemma guides_when_do: "guides ext m \<Longrightarrow> guides ext (when_do b m)"
  by (auto simp: guides_def intro: flows_refl)

lemma guides_option:
  "guides ext m \<Longrightarrow> (\<And>x. r = Some x \<Longrightarrow> guides ext (f x)) \<Longrightarrow> guides ext (case r of None \<Rightarrow> m | Some x \<Rightarrow> f x)"
  by (simp split: option.splits)

lemma guides_prod: "(\<And>a b. p = (a, b) \<Longrightarrow> guides ext (f a b)) \<Longrightarrow> guides ext (case p of (a, b) \<Rightarrow> f a b)"
  by (simp split: prod.splits)

lemma guides_transaction: "guides ext m \<Longrightarrow> guides ext (transaction m)"
  by (simp add: guides_def)

lemma guides_for_each: "(\<And>x. x \<in> set xs \<Longrightarrow> guides ext (f x)) \<Longrightarrow> guides ext (for_each xs f)"
  by (induction xs) (auto intro: guides_seq guides_keeps keeps_ret)

lemma guides_fold_each: "(\<And>x a. x \<in> set xs \<Longrightarrow> guides ext (f x a)) \<Longrightarrow> guides ext (fold_each xs a f)"
  by (induction xs arbitrary: a) (auto intro: guides_seq guides_keeps keeps_ret)

lemma guides_rows:
  assumes "\<And>s x t. stock_sound s \<Longrightarrow> m s = (Inr x, t) \<Longrightarrow> balances t = balances s \<and> stock_sound t"
  shows "guides ext m"
  using assms by (auto intro!: guidesI flows_rows)

lemma flows_move:
  assumes "stock_sound s" and "flow_view t = (balances t, cart_lines s, reservations s, order_lines s, fulfillment_lines s, return_lines s)"
    and "balances_sound (balances t)" and "stock_move ext (units s) (units t)"
  shows "flows ext s t"
  using assms by (auto simp: flows_def stock_sound_def flow_view_def)

text \<open>The three shapes of a movement.\<close>

lemma beside_balances:
  "take_balance tenant item a q s = (Inr n, t) \<Longrightarrow>
     flow_view t = (balances t, cart_lines s, reservations s, order_lines s, fulfillment_lines s, return_lines s)"
  "add_balance tenant item a q s = (Inr b, t) \<Longrightarrow>
     flow_view t = (balances t, cart_lines s, reservations s, order_lines s, fulfillment_lines s, return_lines s)"
  by (auto simp: take_balance_def add_balance_def upsert_row_Inr flow_view_def split: option.splits)

lemma guides_move:
  assumes "0 \<le> q" and "\<And>x. guides ext (k x)"
  shows "guides ext (seq (take_balance tenant item a q) (\<lambda>changed. seq (ensure (changed = 1) e) (\<lambda>_.
    seq (add_balance tenant item b q) k)))"
proof (rule guidesI)
  fix s y t assume s: "stock_sound s" and "seq (take_balance tenant item a q) (\<lambda>changed. seq (ensure (changed = 1) e) (\<lambda>_.
    seq (add_balance tenant item b q) k)) s = (Inr y, t)"
  then obtain n u x v where u: "take_balance tenant item a q s = (Inr n, u)" "n = 1"
    and v: "add_balance tenant item b q u = (Inr x, v)" and k: "k x v = (Inr y, t)" by auto
  have sound: "balances_sound (balances s)" using s by (simp add: stock_sound_def)
  have "flows ext s v"
    using beside_balances(1) [OF u(1)] beside_balances(2) [OF v] move_flow [OF u v refl assms(1) sound]
    by (intro flows_move [OF s]) (auto simp: flow_view_def)
  then show "flows ext s t" using k by (blast intro: flows_trans guidesD [OF assms(2)] flows_sound)
qed

lemma guides_enter:
  assumes "ext" and "0 \<le> q" and "\<And>x. guides ext (k x)"
  shows "guides ext (seq (add_balance tenant item ON_HAND q) k)"
proof (rule guidesI)
  fix s y t assume s: "stock_sound s" and "seq (add_balance tenant item ON_HAND q) k s = (Inr y, t)"
  then obtain x v where v: "add_balance tenant item ON_HAND q s = (Inr x, v)" and k: "k x v = (Inr y, t)" by auto
  have sound: "balances_sound (balances s)" using s by (simp add: stock_sound_def)
  have "stock_move ext (units s) (shift q (tenant, item, ON_HAND) (units s))"
    using assms(1,2) by (rule stock_move.Enter)
  then have "flows ext s v"
    using beside_balances(2) [OF v] add_balance_flow [OF v assms(2) sound]
    by (intro flows_move [OF s]) auto
  then show "flows ext s t" using k by (blast intro: flows_trans guidesD [OF assms(3)] flows_sound)
qed

lemmas guides_intros = guides_if guides_when_do guides_option guides_prod guides_transaction
  guides_for_each guides_fold_each guides_require

end
