(* ===== verification/Stock_Runs.thy ===== *)
theory Stock_Runs
  imports Stock_Flow
begin

text \<open>
  Every operation that moves stock refines the abstract stock of \<open>Stock_Flow\<close>: \<open>guides_...\<close> where
  it returns, \<open>drives_...\<close> also where it throws. \<open>stock_step\<close> composes the operations of all
  components into one run, \<open>ledger_step\<close> those that keep balances and ledger in step.
\<close>

section \<open>Rows with quantities\<close>

lemma sound_rows:
  "stock_sound s \<Longrightarrow> l \<in> set (cart_lines s) \<Longrightarrow> 0 \<le> cl_quantity l"
  "stock_sound s \<Longrightarrow> r \<in> set (reservations s) \<Longrightarrow> 0 \<le> ir_quantity r"
  "stock_sound s \<Longrightarrow> n \<in> set (order_lines s) \<Longrightarrow> 0 \<le> ol_quantity n"
  "stock_sound s \<Longrightarrow> d \<in> set (fulfillment_lines s) \<Longrightarrow> 0 \<le> fl_quantity d"
  "stock_sound s \<Longrightarrow> z \<in> set (return_lines s) \<Longrightarrow> 0 \<le> rl_quantity z"
  by (simp_all add: stock_sound_def)

lemma guides_create:
  "0 \<le> ol_quantity n \<Longrightarrow> guides ext (create_row order_lines order_lines_update c1 n)"
  "0 \<le> ir_quantity r \<Longrightarrow> guides ext (create_row reservations reservations_update c2 r)"
  "0 \<le> fl_quantity d \<Longrightarrow> guides ext (create_row fulfillment_lines fulfillment_lines_update c3 d)"
  "0 \<le> rl_quantity z \<Longrightarrow> guides ext (create_row return_lines return_lines_update c4 z)"
  by (rule guides_rows, auto simp: stock_sound_def)+

lemma ball_update_first_keep: "(\<And>x. Q x \<Longrightarrow> Q (f x)) \<Longrightarrow> \<forall>x\<in>set xs. Q x \<Longrightarrow> \<forall>x\<in>set (update_first P f xs). Q x"
  by (induction xs) auto

lemma ball_update_where_keep: "(\<And>x. Q x \<Longrightarrow> Q (f x)) \<Longrightarrow> \<forall>x\<in>set xs. Q x \<Longrightarrow> \<forall>x\<in>set (update_where P f xs). Q x"
  by (auto simp: update_where_def)

lemma guides_update:
  "(\<And>x. ir_quantity (f2 x) = ir_quantity x) \<Longrightarrow> guides ext (update_row reservations reservations_update P2 f2)"
  "(\<And>x. ir_quantity (f2 x) = ir_quantity x) \<Longrightarrow> guides ext (update_many reservations reservations_update P2 f2)"
  "(\<And>x. fl_quantity (f3 x) = fl_quantity x) \<Longrightarrow> guides ext (update_row fulfillment_lines fulfillment_lines_update P3 f3)"
  "(\<And>x. rl_quantity (f4 x) = rl_quantity x) \<Longrightarrow> guides ext (update_row return_lines return_lines_update P4 f4)"
  "(\<And>x. 0 \<le> cl_quantity (f5 x)) \<Longrightarrow> guides ext (update_row cart_lines cart_lines_update P5 f5)"
  by (rule guides_rows, simp add: stock_sound_def, intro conjI ball_update_first_keep ball_update_where_keep; auto)+

lemma guides_cart_upsert:
  "(\<And>x. 0 \<le> cl_quantity (f x)) \<Longrightarrow> 0 \<le> cl_quantity l \<Longrightarrow> guides ext (upsert_row cart_lines cart_lines_update c P f l)"
  by (rule guides_rows, simp add: upsert_row_Inr stock_sound_def split: option.splits, intro conjI ball_update_first_keep; auto)

section \<open>The movements of the program\<close>

lemma flow_view_more: "runtime.more t = runtime.more s \<Longrightarrow> flow_view t = flow_view s"
  by (cases s; cases t) (simp add: flow_view_def)

lemma keeps_flow_basics:
  "keeps flow_view random_uuid" "keeps flow_view now" "keeps flow_view (append_entry te it st d op re sty si key co ac)"
  "keeps flow_view (publish te ty su pa co)" "keeps flow_view (commerce_audit ctx pr a ty i)"
  "keeps flow_view (business_number p)" "keeps flow_view (nextInvoiceNumber te)"
  by (intro keeps_intros; simp add: flow_view_def)+

lemmas guides_basics = keeps_flow_basics [THEN guides_keeps] keeps_ret [THEN guides_keeps] keeps_throw [THEN guides_keeps]
  keeps_reads [THEN guides_keeps] keeps_require [THEN guides_keeps] keeps_ensure [THEN guides_keeps] keeps_lift_result [THEN guides_keeps]
  keeps_find_row [THEN guides_keeps] keeps_find_rows [THEN guides_keeps] keeps_count_rows [THEN guides_keeps]
  keeps_order [THEN guides_keeps] keeps_views [THEN guides_keeps] keeps_joined_lines [THEN guides_keeps]

lemma guides_reserve_line:
  "0 \<le> cl_quantity l \<Longrightarrow> guides ext (reserve_line ctx pr orderId (l, f, v) gs)"
  unfolding reserve_line_def prod.case
  by (intro guides_seq guides_require guides_move guides_create guides_basics; simp)

lemma guides_allocate_line: "guides ext (allocate_line ctx pr p t)"
  unfolding allocate_line_def
  by (rule guides_prod, rule guides_found [where Q = "\<lambda>r. 0 \<le> ir_quantity r"], erule (1) sound_rows)
    (intro guides_require guides_move guides_seq guides_update guides_basics; simp)

lemma guides_release_reservation: "0 \<le> ir_quantity r \<Longrightarrow> guides ext (release_reservation_tx r)"
  unfolding release_reservation_tx_def
  by (intro guides_seq guides_when_do guides_move guides_update guides_basics; simp)

lemma keeps_flow_order:
  "keeps flow_view (create_order_invoice ctx pr d input ls)"
  "keeps flow_view (create_split ctx i cur g)" "keeps flow_view (active_cart ctx pr cartId)"
  "keeps flow_view (update_row carts carts_update P1 f1)" "keeps flow_view (create_row orders orders_update c d2)"
  unfolding create_order_invoice_def create_split_def active_cart_def Let_def
  by (intro keeps_intros keeps_flow_basics; simp add: flow_view_def)+

lemma joined_lines_sound:
  assumes "stock_sound s" and "joined_lines i s = (Inr ls, t)"
  shows "\<forall>(l, f, v)\<in>set ls. 0 \<le> cl_quantity l"
proof -
  from assms(2) have "map (joined_line s) (filter (\<lambda>l. cl_cartId l = i) (cart_lines s)) = map Inr ls"
    by (auto simp: joined_lines_def sequence_results_Inr)
  show ?thesis
  proof (clarify)
    fix l f v assume "(l, f, v) \<in> set ls"
    then have "Inr (l, f, v) \<in> set (map (joined_line s) (filter (\<lambda>l. cl_cartId l = i) (cart_lines s)))"
      using \<open>map _ _ = _\<close> by simp
    then obtain k where "k \<in> set (cart_lines s)" "joined_line s k = Inr (l, f, v)" by auto
    then have "l \<in> set (cart_lines s)" by (auto simp: joined_line_def split: option.splits)
    then show "0 \<le> cl_quantity l" using assms(1) by (rule sound_rows(1) [rotated])
  qed
qed

lemma guides_fill_order:
  assumes "\<forall>(l, f, v)\<in>set ls. 0 \<le> cl_quantity l"
  shows "guides ext (fill_order ctx pr c input ls d)"
proof -
  have "guides ext (fold_each ls [] (reserve_line ctx pr (od_id d)))"
  proof (rule guides_fold_each)
    fix x a assume "x \<in> set ls"
    with assms show "guides ext (reserve_line ctx pr (od_id d) x a)" by (cases x) (auto intro: guides_reserve_line)
  qed
  then show ?thesis unfolding fill_order_def Let_def
    by (intro guides_seq guides_for_each guides_basics keeps_flow_order [THEN guides_keeps])
qed

lemma guides_checkout_tx: "guides ext (checkout_tx ctx pr cartId input)"
proof -
  have "guides ext (place_order ctx pr cartId input)" unfolding place_order_def
    by (rule guides_seq [OF guides_keeps [OF keeps_flow_order(3)]],
        rule guides_post [OF guides_keeps [OF keeps_joined_lines], where Q = "\<lambda>ls. \<forall>(l, f, v)\<in>set ls. 0 \<le> cl_quantity l"],
        erule (1) joined_lines_sound)
      (intro guides_seq guides_fill_order guides_basics keeps_flow_order [THEN guides_keeps]; assumption)+
  then show ?thesis unfolding checkout_tx_def
    by (intro guides_seq guides_option guides_basics)
qed

lemma guides_accept: "guides ext (accept_purchase_order_tx ctx pr i)"
  unfolding accept_purchase_order_tx_def
  by (intro guides_seq guides_require guides_when_do guides_for_each guides_allocate_line guides_basics
      guides_keeps [OF keeps_update_row]; simp add: flow_view_def)

lemma guides_count:
  assumes "ext" and "0 \<le> q" and "\<And>x. guides ext (k x)"
  shows "guides ext (seq (upsert_row balances balances_update same_balance (balance_key tenant item ON_HAND)
      (\<lambda>b. b\<lparr>ib_quantity := q, ib_version := ib_version b + 1\<rparr>)
      \<lparr>ib_id = i, ib_tenantId = tenant, ib_inventoryItemId = item, ib_state = ON_HAND,
       ib_quantity = q, ib_version = 1\<rparr>) k)" (is "guides ext (seq ?set k)")
proof (rule guidesI)
  fix s y t assume s: "stock_sound s" and "seq ?set k s = (Inr y, t)"
  then obtain x v where v: "?set s = (Inr x, v)" and k: "k x v = (Inr y, t)" by auto
  have sound: "balances_sound (balances s)" using s by (simp add: stock_sound_def)
  have "flow_view v = (balances v, cart_lines s, reservations s, order_lines s, fulfillment_lines s, return_lines s)"
    using v by (auto simp: upsert_row_Inr flow_view_def split: option.splits)
  moreover have "stock_move ext (units s) ((units s)((tenant, item, ON_HAND) := q))"
    using assms(1,2) by (rule stock_move.Count)
  ultimately have "flows ext s v"
    using set_balance_flow [OF v assms(2) sound] by (intro flows_move [OF s]) auto
  then show "flows ext s t" using k by (blast intro: flows_trans guidesD [OF assms(3)] flows_sound)
qed

lemma guides_feed:
  assumes "ext" and "0 \<le> if_quantity dto"
  shows "guides ext (inventory_feed_tx ctx pr dto)"
proof -
  have "guides ext (apply_inventory_feed ctx pr dto)" unfolding apply_inventory_feed_def
    by (intro guides_seq guides_require guides_count [OF assms] guides_when_do guides_basics
        guides_keeps [OF keeps_upsert_row] guides_keeps [OF keeps_create_row] guides_keeps [OF keeps_audit_as]; simp add: flow_view_def)
  then show ?thesis unfolding inventory_feed_tx_def
    by (intro guides_seq guides_option guides_require guides_basics)
qed

lemma guides_receive:
  assumes "ext" and "list_all valid_receipt lines"
  shows "guides ext (receive_asn_tx ctx pr asnId lines key h)"
proof -
  have stocked: "guides ext (stock_accepted ctx pr a key l r)" if "0 \<le> dr_acceptedQty r" for a l r
    unfolding stock_accepted_def
    by (intro guides_seq guides_require guides_enter [OF assms(1) that] guides_basics guides_keeps [OF keeps_upsert_row];
        simp add: flow_view_def)
  have "guides ext (receive_line ctx pr a key ls r)" if "r \<in> set lines" for a ls r
  proof -
    have "0 \<le> dr_acceptedQty r" using that assms(2) by (simp add: list_all_iff valid_receipt_def)
    then show ?thesis unfolding receive_line_def
      by (intro guides_seq guides_require guides_if stocked guides_basics guides_keeps [OF keeps_update_row];
          simp add: flow_view_def)
  qed
  then show ?thesis unfolding receive_asn_tx_def receive_lines_def
    by (intro guides_seq guides_prod guides_option guides_require guides_for_each guides_basics
        keeps_receipt_queries [THEN guides_keeps] guides_keeps [OF keeps_update_many] guides_keeps [OF keeps_create_row];
        simp add: flow_view_def)
qed

lemma guides_catch:
  assumes "guides ext m" and "\<And>e. guides ext (h e)"
  shows "guides ext (catch (transaction m) h)"
proof (rule guidesI)
  fix s x t assume s: "stock_sound s" and run: "catch (transaction m) h s = (Inr x, t)"
  show "flows ext s t"
  proof (cases "transaction m s = (Inr x, t)")
    case True
    then have "m s = (Inr x, t)" by simp
    then show ?thesis by (rule guidesD [OF assms(1) s])
  next
    case False
    with run obtain e u where u: "transaction m s = (Inl e, u)" "h e u = (Inr x, t)" by (auto simp: catch_Inr)
    then have "flow_view u = flow_view s" by (intro flow_view_more transaction_rolls_back)
    then have "flows ext s u" using s by (rule flows_same)
    then show ?thesis using u(2) by (blast intro: flows_trans guidesD [OF assms(2)] flows_sound)
  qed
qed


lemma guides_pick_line:
  assumes "0 \<le> fl_quantity l"
  shows "guides ext (pick_line ctx binId l)"
proof (rule guidesI)
  fix s y t assume s: "stock_sound s" and "pick_line ctx binId l s = (Inr y, t)"
  then obtain b x u z v w where b: "List.find (balance_key (ctx_tenantId ctx) (fl_inventoryItemId l) ON_HAND) (balances s) = Some b"
    and q: "fl_quantity l \<le> ib_quantity b"
    and u: "update_row balances balances_update (\<lambda>x. ib_id x = ib_id b)
       (\<lambda>x. x\<lparr>ib_quantity := ib_quantity x - fl_quantity l, ib_version := ib_version x + 1\<rparr>) s = (Inr x, u)"
    and v: "add_balance (ctx_tenantId ctx) (fl_inventoryItemId l) PICKED (fl_quantity l) u = (Inr z, v)"
    and w: "update_row fulfillment_lines fulfillment_lines_update (\<lambda>x. fl_id x = fl_id l)
       (\<lambda>x. x\<lparr>fl_pickedQty := fl_quantity l, fl_binId := binId\<rparr>) v = (Inr w, t)"
    unfolding pick_line_def by (auto simp del: update_row_Inr)
  let ?k = "(ctx_tenantId ctx, fl_inventoryItemId l, ON_HAND)"
  have sound: "balances_sound (balances s)" using s by (simp add: stock_sound_def)
  have b': "b \<in> set (balances s)" "key_of_balance b = ?k" using b by (auto dest: find_SomeD simp: balance_key_iff)
  have f: "List.find (\<lambda>x. ib_id x = ib_id b) (balances s) = Some b"
    using b'(1) sound by (auto simp: balances_sound_def intro: distinct_found)
  have ub: "balances u = update_first (\<lambda>x. ib_id x = ib_id b)
      (\<lambda>x. x\<lparr>ib_quantity := ib_quantity x - fl_quantity l, ib_version := ib_version x + 1\<rparr>) (balances s)" using u by simp
  have rows: "balances u = map (\<lambda>x. if ib_id x = ib_id b
      then x\<lparr>ib_quantity := ib_quantity x - fl_quantity l, ib_version := ib_version x + 1\<rparr> else x) (balances s)"
    unfolding ub using sound by (intro update_first_map) (simp add: balances_sound_def)
  have same: "x = b" if "x \<in> set (balances s)" "ib_id x = ib_id b" for x
    using that b'(1) sound by (auto simp: balances_sound_def dest: distinct_mapD)
  have usound: "balances_sound (balances u)"
  proof -
    have "map key_of_balance (balances u) = map key_of_balance (balances s)" "map ib_id (balances u) = map ib_id (balances s)"
      unfolding ub by (rule map_update_first, simp add: key_of_balance_def)+
    moreover have "0 \<le> ib_quantity (if ib_id x = ib_id b
        then x\<lparr>ib_quantity := ib_quantity x - fl_quantity l, ib_version := ib_version x + 1\<rparr> else x)"
      if "x \<in> set (balances s)" for x
      using same [OF that] q that sound by (auto simp: balances_sound_def)
    then have "\<forall>x\<in>set (balances u). 0 \<le> ib_quantity x" unfolding rows set_map by blast
    ultimately show ?thesis using sound by (simp add: balances_sound_def)
  qed
  have "key_of_balance (b\<lparr>ib_quantity := ib_quantity b - fl_quantity l, ib_version := ib_version b + 1\<rparr>) = key_of_balance b"
    by (simp add: key_of_balance_def)
  from imb_update_first [where f = "\<lambda>x. x\<lparr>ib_quantity := ib_quantity x - fl_quantity l, ib_version := ib_version x + 1\<rparr>", OF f this, of "[]"]
  have "imb (balances u) [] k = imb (balances s) [] k + (if ?k = k then - fl_quantity l else 0)" for k
    by (simp add: ub b'(2))
  then have "units u = shift (- fl_quantity l) ?k (units s)"
    by (auto simp: units_def shift_def fun_eq_iff simp flip: imb_units)
  moreover have "fl_quantity l \<le> units s ?k"
    using q units_row [of "balances s" b] sound b' by (simp add: units_def balances_sound_def)
  then have "stock_move ext (units s) (shift (fl_quantity l) (ctx_tenantId ctx, fl_inventoryItemId l, PICKED)
      (shift (- fl_quantity l) ?k (units s)))" using assms by (intro stock_move.Move)
  ultimately have "balances_sound (balances v)" "stock_move ext (units s) (units v)"
    using add_balance_flow [OF v assms usound] by simp_all
  moreover have "flow_view v = (balances v, cart_lines s, reservations s, order_lines s, fulfillment_lines s, return_lines s)"
    using u beside_balances(2) [OF v] by (auto simp: flow_view_def)
  ultimately have "flows ext s v" by (intro flows_move [OF s])
  moreover have "flows ext v t"
    by (rule guidesD [OF guides_update(3) flows_sound [OF \<open>flows ext s v\<close>] w]) simp
  ultimately show "flows ext s t" by (rule flows_trans)
qed

lemma fulfillment_lines_sound:
  assumes "stock_sound s" and "requireFulfillment ctx i s = (Inr v, t)"
  shows "\<forall>l\<in>set (fv_lines v). 0 \<le> fl_quantity l"
  using assms by (auto simp: requireFulfillment_Inr fulfillment_view_of_def sound_rows(4))

lemma guides_pick: "guides ext (pick ctx i binId)"
  unfolding pick_def
  by (rule guides_post [OF guides_keeps [OF keeps_requireFulfillment], where Q = "\<lambda>v. \<forall>l\<in>set (fv_lines v). 0 \<le> fl_quantity l"],
      erule (1) fulfillment_lines_sound)
    (intro guides_seq guides_transaction guides_for_each guides_pick_line guides_basics;
      auto simp: update_fulfillment_def flow_view_def intro!: guides_keeps keeps_intros)

lemma guides_createFulfillment: "guides ext (createFulfillment ctx input)"
proof -
  let ?Q = "\<lambda>x. \<forall>(line, item)\<in>set x. 0 \<le> ol_quantity line"
  have lines: "guides ext (seq (find_rows order_lines P) f)" if "\<And>ls. \<forall>l\<in>set ls. 0 \<le> ol_quantity l \<Longrightarrow> guides ext (f ls)" for P f
    by (rule guides_post [OF guides_keeps [OF keeps_find_rows], where Q = "\<lambda>ls. \<forall>l\<in>set ls. 0 \<le> ol_quantity l"])
      (use that sound_rows(3) in auto)
  have joined: "guides ext (seq (lift_result (sequence_results (map (line_item stock) ls))) f)"
    if "\<forall>l\<in>set ls. 0 \<le> ol_quantity l" "\<And>x. ?Q x \<Longrightarrow> guides ext (f x)" for stock ls f
  proof (rule guides_post [OF guides_keeps [OF keeps_lift_result], where Q = ?Q])
    fix s x t assume "lift_result (sequence_results (map (line_item stock) ls)) s = (Inr x, t)"
    then have eq: "map (line_item stock) ls = map Inr x" by (auto simp: sequence_results_Inr)
    show "?Q x"
    proof clarify
      fix line item assume "(line, item) \<in> set x"
      then have "Inr (line, item) \<in> set (map (line_item stock) ls)" unfolding eq by simp
      then obtain l where "l \<in> set ls" "line_item stock l = Inr (line, item)" by auto
      then show "0 \<le> ol_quantity line" using that(1) by (auto simp: line_item_def split: option.splits)
    qed
  qed (rule that(2))
  have named: "guides ext (seq (with_uuids xs) f)" if "\<And>ys. map snd ys = xs \<Longrightarrow> guides ext (f ys)" for xs f
    by (rule guides_post [OF guides_keeps [OF keeps_with_uuids], where Q = "\<lambda>ys. map snd ys = xs"])
      (auto simp: flow_view_def dest: with_uuids_named intro: that)
  have row: "guides ext (create_fulfillment_line ctx i x)" if "?Q xs" "map snd ys = xs" "x \<in> set ys" for xs ys x i
  proof -
    obtain k line item where x: "x = (k, line, item)" by (cases x)
    with that have "0 \<le> ol_quantity line" by force
    then show ?thesis unfolding create_fulfillment_line_def x prod.case
      by (intro guides_seq guides_create guides_basics) simp
  qed
  have placing: "guides ext (transaction (seq (create_row fulfillment_orders fulfillment_orders_update same_fulfillment d)
      (\<lambda>d. seq (for_each named (create_fulfillment_line ctx i)) (\<lambda>_.
       seq (find_rows fulfillment_lines (\<lambda>l. fl_fulfillmentOrderId l = i)) (\<lambda>ls. ret (d, ls))))))"
    if "?Q xs" "map snd named = xs" for xs named d i
    by (intro guides_seq guides_transaction guides_for_each guides_basics row [OF that] guides_keeps [OF keeps_create_row])
      (simp_all add: flow_view_def)
  show ?thesis unfolding createFulfillment_def requireFacility_def
    by (rule guides_seq, rule guides_basics, rule guides_seq, (intro guides_seq guides_basics; fail),
        rule guides_require, rule lines, rule guides_seq, rule guides_basics, rule guides_seq, rule guides_basics,
        rule guides_seq, rule guides_basics, rule joined, assumption, rule named, rule placing)
qed

lemma guides_createReturn:
  assumes "list_all (\<lambda>l. 0 \<le> dq_quantity l) (dq_lines input)"
  shows "guides ext (createReturn ctx pr key input)"
proof -
  have named: "guides ext (seq (with_uuids xs) f)" if "\<And>ys. map snd ys = xs \<Longrightarrow> guides ext (f ys)" for xs f
    by (rule guides_post [OF guides_keeps [OF keeps_with_uuids], where Q = "\<lambda>ys. map snd ys = xs"])
      (auto simp: flow_view_def dest: with_uuids_named intro: that)
  have row: "guides ext (create_return_line ctx i x)" if "map snd ys = dq_lines input" "x \<in> set ys" for ys x i
  proof -
    obtain k line where x: "x = (k, line)" by (cases x)
    with that(2) have "line \<in> set (map snd ys)" by force
    then have "line \<in> set (dq_lines input)" using that(1) by simp
    with assms have "0 \<le> dq_quantity line" by (simp add: list_all_iff)
    then show ?thesis unfolding create_return_line_def x prod.case
      by (intro guides_seq guides_create guides_basics) simp
  qed
  have "guides ext (create_return_tx ctx pr k input d ls i)" for k d ls i
    unfolding create_return_tx_def prior_return_lines_def lines_of_return_def
    by (rule guides_seq, (rule guides_keeps [OF keeps_update_many], simp add: flow_view_def), rule guides_seq, rule guides_basics,
        rule guides_seq, rule guides_basics, rule guides_seq, rule guides_basics, rule named)
      (intro guides_seq guides_for_each row guides_basics guides_keeps [OF keeps_create_row]; (assumption | simp add: flow_view_def))
  moreover have "guides ext (find_return_by_key ctx k)" for k
    unfolding find_return_by_key_def lines_of_return_def by (intro guides_seq guides_option guides_basics)
  ultimately show ?thesis unfolding createReturn_def Let_def
    by (intro guides_seq guides_option guides_require guides_catch guides_basics)
qed

lemma guides_inspect:
  assumes "ext"
  shows "guides ext (inspectReturn production ctx pr returnId input)"
proof -
  have restock: "guides ext (restock_line ctx pr r l)" if "0 \<le> rl_quantity l" for r l
    unfolding restock_line_def
    by (intro guides_seq guides_option guides_require guides_enter [OF assms that] guides_basics)
  have line: "guides ext (inspect_line ctx pr v x a)" if "\<forall>l\<in>set (snd v). 0 \<le> rl_quantity l" for v x a
    unfolding inspect_line_def
    by (rule guides_post [OF guides_keeps [OF keeps_reads], where Q = "\<lambda>r. \<forall>l. r = Some l \<longrightarrow> 0 \<le> rl_quantity l"])
      (auto dest!: find_SomeD simp: that intro!: guides_seq guides_require guides_when_do restock guides_update guides_basics)
  have refund: "keeps flow_view (post_return_refund ctx pr r n)" for r n
    unfolding post_return_refund_def return_account_def post_journal_in_transaction_def Let_def
    by (intro keeps_intros; simp add: flow_view_def)
  have body: "guides ext (inspect_return_tx ctx pr v input)" if "\<forall>l\<in>set (snd v). 0 \<le> rl_quantity l" for v
    unfolding inspect_return_tx_def lines_of_return_def
    by (intro guides_seq guides_fold_each line [OF that] guides_when_do guides_keeps [OF refund] guides_basics
        guides_keeps [OF keeps_update_many] guides_keeps [OF keeps_update_row] guides_keeps [OF keeps_create_row]; simp add: flow_view_def)
  show ?thesis unfolding inspectReturn_def
  proof (rule guides_post [where Q = "\<lambda>v. \<forall>l\<in>set (snd v). 0 \<le> rl_quantity l"])
    show "guides ext (requireReturn ctx returnId)"
      unfolding requireReturn_def lines_of_return_def by (intro guides_seq guides_basics)
  qed (auto simp: requireReturn_def lines_of_return_def sound_rows(5) intro!: guides_seq guides_transaction guides_basics body)
qed


section \<open>Whole operations\<close>

text \<open>\<open>drives ext m\<close>: the same whether \<open>m\<close> returns or throws.\<close>

definition drives :: "bool \<Rightarrow> ('m returns_db_scheme, 'a) prog \<Rightarrow> bool" where
  "drives ext m \<longleftrightarrow> (\<forall>s r t. stock_sound s \<longrightarrow> m s = (r, t) \<longrightarrow> flows ext s t)"

lemma drivesD: "drives ext m \<Longrightarrow> stock_sound s \<Longrightarrow> m s = (r, t) \<Longrightarrow> flows ext s t"
  by (simp add: drives_def)

lemma drives_keeps: "keeps flow_view m \<Longrightarrow> drives ext m"
  by (auto simp: drives_def intro: flows_same dest: keepsD)

lemma drives_atomic: "atomic m \<Longrightarrow> guides ext m \<Longrightarrow> drives ext m"
  unfolding drives_def
proof (intro allI impI)
  fix s r t assume m: "atomic m" "guides ext m" and s: "stock_sound s" and run: "m s = (r, t)"
  show "flows ext s t"
  proof (cases r)
    case (Inl e)
    with run have "runtime.more t = runtime.more s" by (intro atomicD [OF m(1)]) simp
    then have "flow_view t = flow_view s" by (rule flow_view_more)
    then show ?thesis using s by (rule flows_same)
  next
    case (Inr x)
    with run show ?thesis by (intro guidesD [OF m(2) s]) simp
  qed
qed

lemma drives_seq:
  assumes "drives ext m" and "\<And>x. drives ext (f x)"
  shows "drives ext (seq m f)"
  unfolding drives_def
proof (intro allI impI)
  fix s r t assume s: "stock_sound s" and run: "seq m f s = (r, t)"
  obtain x u where m: "m s = (x, u)" by fastforce
  have u: "flows ext s u" by (rule drivesD [OF assms(1) s m])
  show "flows ext s t"
  proof (cases x)
    case (Inl e)
    with run m u show ?thesis by (simp add: seq_def)
  next
    case (Inr y)
    with run m have "f y u = (r, t)" by (simp add: seq_def)
    with u show ?thesis by (blast intro: flows_trans drivesD [OF assms(2)] flows_sound)
  qed
qed

lemma drives_for_each: "(\<And>x. x \<in> set xs \<Longrightarrow> drives ext (f x)) \<Longrightarrow> drives ext (for_each xs f)"
  by (induction xs) (auto intro: drives_seq drives_keeps keeps_ret)

lemma drives_transaction: "guides ext m \<Longrightarrow> drives ext (transaction m)"
  by (intro drives_atomic atomic_transaction guides_transaction)

lemmas drives_basics = keeps_require [THEN drives_keeps] keeps_ensure [THEN drives_keeps] keeps_find_row [THEN drives_keeps]
  keeps_flow_basics [THEN drives_keeps] keeps_flow_order [THEN drives_keeps] keeps_views [THEN drives_keeps]

lemma drives_cart:
  "0 \<le> quantity \<Longrightarrow> drives ext (add_cart_line ctx pr cartId offerId quantity)"
  "0 \<le> quantity \<Longrightarrow> drives ext (update_cart_line ctx pr cartId lineId quantity)"
  unfolding add_cart_line_def update_cart_line_def bump_cart_def
  by (intro drives_seq drives_transaction guides_seq guides_cart_upsert guides_update guides_basics
      keeps_flow_order [THEN guides_keeps] drives_basics; simp)+

lemma drives_remove_line: "drives ext (remove_cart_line ctx pr cartId lineId)"
proof -
  have "drives ext (delete_many cart_lines cart_lines_update P)" for P
    by (auto simp: drives_def delete_many_def stock_sound_def intro!: flows_rows)
  then show ?thesis unfolding remove_cart_line_def bump_cart_def
    by (intro drives_seq drives_basics) (auto intro: drives_keeps keeps_ret)
qed

lemma drives_batch: "drives ext release_batch"
  unfolding drives_def
proof (intro allI impI)
  fix s r t assume s: "stock_sound s" and run: "release_batch s = (r, t)"
  let ?u = "s\<lparr>clock_reads := Suc (clock_reads s)\<rparr>"
  let ?rs = "take 100 (sort_key ir_expiresAt (filter (\<lambda>x. ir_expiresAt x \<le> clock s (clock_reads s) \<and> ir_releasedAt x = None
            \<and> ir_allocatedAt x = None) (reservations s)))"
  have "set ?rs \<subseteq> set (reservations s)" by (rule subset_trans [OF set_take_subset]) auto
  then have "drives ext (for_each ?rs release_reservation)"
    using sound_rows(2) [OF s] unfolding release_reservation_def
    by (intro drives_for_each drives_transaction guides_release_reservation) blast
  moreover have "for_each ?rs release_reservation ?u = (r, t)"
    using run by (simp add: release_batch_def now_def seq_def find_rows_def reads_def)
  moreover have "flow_view ?u = flow_view s" by (simp add: flow_view_def)
  ultimately show "flows ext s t"
    using s by (blast intro: flows_trans drivesD flows_same flows_sound)
qed

lemma drives_receive:
  assumes "ext" and "list_all valid_receipt lines"
  shows "drives ext (receiveAsn sha256 ctx pr asnId lines key)"
proof (rule drives_atomic)
  show "guides ext (receiveAsn sha256 ctx pr asnId lines key)" unfolding receiveAsn_def Let_def
    by (intro guides_seq guides_catch guides_receive [OF assms] guides_if guides_require guides_basics
        keeps_receipt_queries [THEN guides_keeps])
  show "atomic (receiveAsn sha256 ctx pr asnId lines key)" unfolding receiveAsn_def Let_def
    by (intro atomic_intros keeps_intros)
qed

lemma drives_returns:
  "list_all (\<lambda>l. 0 \<le> dq_quantity l) (dq_lines input) \<Longrightarrow> drives ext (createReturn ctx pr key input)"
  "ext \<Longrightarrow> drives ext (inspectReturn production ctx pr returnId dto)"
  "drives ext (receiveReturn ctx returnId lines)"
proof -
  have "atomic (createReturn ctx pr key input)"
    unfolding createReturn_def find_return_by_key_def lines_of_return_def Let_def
    by (intro atomic_intros keeps_intros) (simp_all add: random_uuid_def)
  then show "list_all (\<lambda>l. 0 \<le> dq_quantity l) (dq_lines input) \<Longrightarrow> drives ext (createReturn ctx pr key input)"
    by (intro drives_atomic guides_createReturn)
  have "atomic (inspectReturn production ctx pr returnId dto)"
    unfolding inspectReturn_def requireReturn_def lines_of_return_def by (intro atomic_intros keeps_intros)
  then show "ext \<Longrightarrow> drives ext (inspectReturn production ctx pr returnId dto)" by (intro drives_atomic guides_inspect)
  show "drives ext (receiveReturn ctx returnId lines)"
    unfolding receiveReturn_def requireReturn_def receive_return_line_def lines_of_return_def
    by (intro drives_seq drives_transaction guides_seq guides_for_each guides_update guides_require guides_basics drives_basics
        keeps_find_rows [THEN drives_keeps] keeps_ret [THEN drives_keeps] guides_keeps [OF keeps_update_many]; simp add: flow_view_def)
qed




lemma checkout_drives:
  fixes adapter :: "'m returns_db_scheme commerce_adapter"
  assumes "commerce_port adapter"
  shows "drives ext (checkout adapter ctx pr cartId key input)"
  unfolding drives_def
proof (intro allI impI)
  fix s r t assume s: "stock_sound s" and run: "checkout adapter ctx pr cartId key input s = (r, t)"
  have same: "flows ext s u" if "runtime.more u = runtime.more s" for u
    using that s by (intro flows_same flow_view_more)
  from commerce_port.checkout_stages [OF assms run] consider "t = s" | "outside_view t = outside_view s"
    | c q a decision u where "outside_view u = outside_view s"
      "authorize_and_place adapter ctx pr cartId key input c a q decision u = (r, t)" by auto
  then show "flows ext s t"
  proof cases
    case 3
    from commerce_port.authorize_stages [OF assms 3(2)] 3(1) consider "runtime.more t = runtime.more s"
      | u' inp v where "runtime.more u' = runtime.more s" "checkout_order ctx pr cartId inp u' = (Inr v, t)"
      by (fastforce simp: outside_view_def)
    then show ?thesis
    proof cases
      case 2
      then have "checkout_tx ctx pr cartId inp u' = (Inr v, t)" by (simp add: checkout_order_def)
      with same [OF 2(1)] show ?thesis by (blast intro: flows_trans guidesD [OF guides_checkout_tx] flows_sound)
    qed (rule same)
  qed (use s same in \<open>simp_all add: flows_refl outside_view_def\<close>)
qed

section \<open>Runs of the whole system\<close>

text \<open>
  The operations that touch stock or the quantities that become stock; quantities are validated by
  the transfer objects. \<open>Beside\<close> is any other operation: it leaves these tables alone. With
  \<open>ext\<close> the run may take goods in from outside.
\<close>

inductive stock_step ::
  "'m returns_db_scheme commerce_adapter \<Rightarrow> bool \<Rightarrow> 'm returns_db_scheme \<Rightarrow> 'm returns_db_scheme \<Rightarrow> bool"
  for adapter ext where
  Feed: "ext \<Longrightarrow> 0 \<le> if_quantity dto \<Longrightarrow> inventory_feed ctx pr dto s = (ra, t) \<Longrightarrow> stock_step adapter ext s t"
| Receive: "ext \<Longrightarrow> list_all valid_receipt ls \<Longrightarrow> receiveAsn sha256 ctx pr i ls key s = (rb, t) \<Longrightarrow> stock_step adapter ext s t"
| Inspect: "ext \<Longrightarrow> inspectReturn production ctx pr i di s = (rc, t) \<Longrightarrow> stock_step adapter ext s t"
| Add: "0 \<le> q \<Longrightarrow> add_cart_line ctx pr cartId offerId q s = (rd, t) \<Longrightarrow> stock_step adapter ext s t"
| Update: "0 \<le> q \<Longrightarrow> update_cart_line ctx pr cartId lineId q s = (re, t) \<Longrightarrow> stock_step adapter ext s t"
| Remove: "remove_cart_line ctx pr cartId lineId s = (rf, t) \<Longrightarrow> stock_step adapter ext s t"
| Checkout: "checkout adapter ctx pr cartId key cd s = (rg, t) \<Longrightarrow> stock_step adapter ext s t"
| Accept: "accept_purchase_order ctx pr i s = (rh, t) \<Longrightarrow> stock_step adapter ext s t"
| Expire: "release_batch s = (ri, t) \<Longrightarrow> stock_step adapter ext s t"
| Plan: "createFulfillment ctx cf s = (rj, t) \<Longrightarrow> stock_step adapter ext s t"
| Pick: "pick ctx i bin s = (rk, t) \<Longrightarrow> stock_step adapter ext s t"
| Request: "list_all (\<lambda>l. 0 \<le> dq_quantity l) (dq_lines cr) \<Longrightarrow> createReturn ctx pr key cr s = (rl, t) \<Longrightarrow>
    stock_step adapter ext s t"
| Return: "receiveReturn ctx i rs s = (rm, t) \<Longrightarrow> stock_step adapter ext s t"
| Beside: "flow_view t = flow_view s \<Longrightarrow> stock_step adapter ext s t"

lemma stock_step_flows:
  assumes "stock_step adapter ext s t" and "commerce_port adapter" and "stock_sound s"
  shows "flows ext s t"
  using assms(1)
proof cases
  case Feed
  then show ?thesis using drivesD [OF drives_transaction [OF guides_feed] assms(3)] by (simp add: inventory_feed_def)
next
  case Receive
  then show ?thesis using drivesD [OF drives_receive assms(3)] by blast
next
  case Inspect
  then show ?thesis using drivesD [OF drives_returns(2) assms(3)] by blast
next
  case Add
  then show ?thesis using drivesD [OF drives_cart(1) assms(3)] by blast
next
  case Update
  then show ?thesis using drivesD [OF drives_cart(2) assms(3)] by blast
next
  case Remove
  then show ?thesis by (rule drivesD [OF drives_remove_line assms(3)])
next
  case Checkout
  then show ?thesis by (rule drivesD [OF checkout_drives [OF assms(2)] assms(3)])
next
  case Accept
  then show ?thesis using drivesD [OF drives_transaction [OF guides_accept] assms(3)] by (simp add: accept_purchase_order_def)
next
  case Expire
  then show ?thesis by (rule drivesD [OF drives_batch assms(3)])
next
  case Plan
  then show ?thesis by (rule drivesD [OF drives_atomic [OF atomic_handlers(1) guides_createFulfillment] assms(3)])
next
  case Pick
  then show ?thesis by (rule drivesD [OF drives_atomic [OF atomic_handlers(2) guides_pick] assms(3)])
next
  case Request
  then show ?thesis using drivesD [OF drives_returns(1) assms(3)] by blast
next
  case Return
  then show ?thesis by (rule drivesD [OF drives_returns(3) assms(3)])
next
  case Beside
  then show ?thesis using assms(3) by (rule flows_same)
qed

lemma stock_run_flows:
  assumes "(stock_step adapter ext)\<^sup>*\<^sup>* s t" and "commerce_port adapter" and "stock_sound s"
  shows "flows ext s t"
  using assms(1)
proof (induction rule: rtranclp_induct)
  case (step u t)
  then show ?case by (blast intro: flows_trans stock_step_flows [OF _ assms(2)] flows_sound)
qed (rule flows_refl [OF assms(3)])

section \<open>What the abstract stock conserves\<close>

definition all_states :: "inventory_state list" where
  "all_states = [EXPECTED, INBOUND, RECEIVING, ON_HAND, RESERVED, ALLOCATED, PICKED, PACKED, SHIPPED,
     IN_TRANSIT, RETURN_EXPECTED, RETURNED, INSPECTION_PENDING, QUARANTINED, DAMAGED, EXPIRED, RECALLED,
     LOST, VIRTUAL, BACKORDERED]"

definition held :: "stock_units \<Rightarrow> uuid \<Rightarrow> uuid \<Rightarrow> int" where
  "held f tenant item = sum_list (map (\<lambda>st. f (tenant, item, st)) all_states)"

lemma all_states: "st \<in> set all_states" "distinct all_states"
  by (cases st) (simp_all add: all_states_def)

lemma sum_shift:
  "distinct xs \<Longrightarrow> sum_list (map (\<lambda>st. shift d (t, i, a) f (tenant, item, st)) xs) =
     sum_list (map (\<lambda>st. f (tenant, item, st)) xs) + (if (t, i) = (tenant, item) \<and> a \<in> set xs then d else 0)"
  by (induction xs) (auto simp: shift_def)

lemma held_shift: "held (shift d (t, i, a) f) tenant item = held f tenant item + (if (t, i) = (tenant, item) then d else 0)"
  using sum_shift [OF all_states(2), of d t i a f tenant item] by (simp add: held_def all_states(1))

lemma stock_move_held: "stock_move False f g \<Longrightarrow> held g tenant item = held f tenant item"
  by (erule stock_move.cases) (simp_all add: held_shift)

lemma stock_moves_held: "(stock_move False)\<^sup>*\<^sup>* f g \<Longrightarrow> held g tenant item = held f tenant item"
  by (induction rule: rtranclp_induct) (simp_all add: stock_move_held)

lemma stock_move_nonneg: "stock_move ext f g \<Longrightarrow> \<forall>k. 0 \<le> f k \<Longrightarrow> \<forall>k. 0 \<le> g k"
  by (erule stock_move.cases) (auto simp: shift_def)


section \<open>Runs that keep the ledger\<close>

lemma restock_line_moves: "preserves stock_gap (restock_line ctx pr r l)"
  by (rule preservesI) (auto simp: restock_line_def stock_gap_def split: option.splits dest!: stock_moves)

lemma post_return_refund_gap: "keeps stock_gap (post_return_refund ctx pr r n)"
  unfolding post_return_refund_def return_account_def post_journal_in_transaction_def Let_def
  by (intro keeps_intros; simp add: stock_gap_def)

lemma inspect_return_moves: "preserves stock_gap (inspect_return_tx ctx pr v input)"
  unfolding inspect_return_tx_def inspect_line_def lines_of_return_def
  by (intro preserves_seq preserves_intros restock_line_moves preserves_keeps [OF post_return_refund_gap])
    (rule preserves_keeps, (intro keeps_intros; simp add: stock_gap_def; fail))+

interpretation restocking: stock_movement "\<lambda>(ctx, pr, v, input). inspect_return_tx ctx pr v input"
  by (intro stock_movementI preserves_prod inspect_return_moves)

lemma always_reconciled_inspect: "always reconciled (inspectReturn production ctx pr returnId input)"
proof -
  have "always reconciled (transaction (inspect_return_tx ctx pr v input))" for v
    using restocking.books.always_transaction [of "(ctx, pr, v, input)"] by simp
  then show ?thesis
    unfolding inspectReturn_def requireReturn_def lines_of_return_def find_row_def find_rows_def
    by (intro hoare_intros)
qed

inductive ledger_step ::
  "'m returns_db_scheme commerce_adapter \<Rightarrow> 'm returns_db_scheme \<Rightarrow> 'm returns_db_scheme \<Rightarrow> bool"
  for adapter where
  Feeding: "inventory_feed ctx pr dto s = (ra, t) \<Longrightarrow> ledger_step adapter s t"
| Receiving: "receiveAsn sha256 ctx pr i ls key s = (rb, t) \<Longrightarrow> ledger_step adapter s t"
| Placing: "checkout adapter ctx pr cartId key cd s = (rg, t) \<Longrightarrow> ledger_step adapter s t"
| Accepting: "accept_purchase_order ctx pr i s = (rh, t) \<Longrightarrow> ledger_step adapter s t"
| Expiring: "release_batch s = (ri, t) \<Longrightarrow> ledger_step adapter s t"
| Restocking: "inspectReturn production ctx pr i di s = (rc, t) \<Longrightarrow> ledger_step adapter s t"
| Resting: "stock_gap t = stock_gap s \<Longrightarrow> ledger_step adapter s t"

lemma reconciled_gap: "reconciled s \<longleftrightarrow> (\<forall>k. stock_gap s k = 0)"
  by (simp add: reconciled_imb stock_gap_def)

lemma ledger_step_reconciled:
  assumes "ledger_step adapter s t" and "commerce_port adapter" and "reconciled s"
  shows "reconciled t"
  using assms(1)
proof cases
  case Feeding
  then show ?thesis using assms(3) by (blast intro: inventory_feed_reconciled)
next
  case Receiving
  then show ?thesis by (rule alwaysD [OF always_reconciled_receive assms(3)])
next
  case Placing
  then show ?thesis using assms(2,3) by (blast intro: commerce_port.checkout_reconciled)
next
  case Accepting
  then show ?thesis using assms(3) by (blast intro: accept_purchase_order_reconciled)
next
  case Expiring
  then show ?thesis by (rule alwaysD [OF always_reconciled_batch assms(3)])
next
  case Restocking
  then show ?thesis by (rule alwaysD [OF always_reconciled_inspect assms(3)])
next
  case Resting
  with assms(3) show ?thesis by (simp add: reconciled_gap)
qed

section \<open>A concrete flow\<close>

definition ready_store :: returns_db where
  "ready_store = fulfillment_db.extend ready_warehouse (returns_db.fields [] [] [])"

definition stocked_store :: returns_db where
  "stocked_store = snd (inventory_feed some_context some_principal (stock_feed ''wms'' ''first'' 10) ready_store)"

definition planned_store :: returns_db where
  "planned_store = snd (createFulfillment some_context
     \<lparr>du_orderSplitId = ''split'', du_facilityId = ''facility'', du_slaDueAt = None\<rparr> stocked_store)"

definition picked_store :: returns_db where
  "picked_store = snd (pick some_context planned_order None planned_store)"

lemma ready_store_sound: "stock_sound ready_store"
proof -
  have "balances ready_store = []" "cart_lines ready_store = []" "reservations ready_store = []"
    "order_lines ready_store = [ready_line]" "fulfillment_lines ready_store = []" "return_lines ready_store = []"
    by (simp_all add: ready_store_def ready_warehouse_def fresh_defs returns_db.defs)
  then show ?thesis by (simp add: stock_sound_def balances_sound_def ready_line_def)
qed

lemma stocked_flow: "stock_step deterministic_adapter True ready_store stocked_store"
proof -
  have "0 \<le> if_quantity (stock_feed ''wms'' ''first'' 10)" by (simp add: stock_feed_def)
  then show ?thesis unfolding stocked_store_def
    by (intro stock_step.Feed [OF TrueI _ surjective_pairing])
qed

lemma picked_flow: "(stock_step deterministic_adapter ext)\<^sup>*\<^sup>* stocked_store picked_store"
proof -
  have "stock_step deterministic_adapter ext stocked_store planned_store"
    unfolding planned_store_def by (rule stock_step.Plan [OF surjective_pairing])
  moreover have "stock_step deterministic_adapter ext planned_store picked_store"
    unfolding picked_store_def by (rule stock_step.Pick [OF surjective_pairing])
  ultimately show ?thesis by (meson rtranclp.rtrancl_into_rtrancl rtranclp.rtrancl_refl)
qed

section \<open>Properties\<close>



text \<open>
  C6. Selling neither creates nor loses units: along runs of carts, checkouts, acceptances, expiries,
  picks and return requests every item holds as many units over all its states as before, and no
  balance is ever negative.
\<close>

theorem selling_conserves_units:
  assumes "(stock_step adapter False)\<^sup>*\<^sup>* s t" and "commerce_port adapter" and "stock_sound s"
  shows "stock_nonnegative t \<and> held (units t) tenant item = held (units s) tenant item"
  using stock_run_flows [OF assms] stock_moves_held
  by (auto simp: flows_def stock_sound_def balances_sound_def stock_nonnegative_def)

theorem selling_conserves_units_witness:
  "stock_nonnegative picked_store \<and> map (held (units picked_store) ''tenant'') (map ii_id (items picked_store)) = [10]"
proof -
  have "stock_sound stocked_store"
    using stock_step_flows [OF stocked_flow local_port.commerce_port_axioms ready_store_sound] by (rule flows_sound)
  from selling_conserves_units [OF picked_flow local_port.commerce_port_axioms this]
  have "stock_nonnegative picked_store" "held (units picked_store) ''tenant'' = held (units stocked_store) ''tenant''"
    by (auto intro!: ext)
  moreover have "map (held (units stocked_store) ''tenant'') (map ii_id (items picked_store)) = [10]" by code_simp
  ultimately show ?thesis by simp
qed

text \<open>
  C7. Composition: feeds, receipts, checkouts, acceptances, expiries and inspected returns, in any
  order and failing or not, keep every balance equal to the sum of its ledger entries. A pick is not
  among them.
\<close>

theorem ledger_run_reconciled:
  assumes "(ledger_step adapter)\<^sup>*\<^sup>* s t" and "commerce_port adapter" and "reconciled s"
  shows "reconciled t"
  using assms(1)
proof (induction rule: rtranclp_induct)
  case (step u t)
  then show ?case by (blast intro: ledger_step_reconciled [OF _ assms(2)])
qed (rule assms(3))

theorem ledger_run_reconciled_witness: "reconciled stocked_store \<and> length (ledger stocked_store) = 1"
proof
  have "balances ready_store = []" "ledger ready_store = []"
    by (simp_all add: ready_store_def ready_warehouse_def fresh_defs returns_db.defs)
  then have "reconciled ready_store" by (simp add: reconciled_imb imb_def ledger_at_def balance_at_def)
  moreover have "ledger_step deterministic_adapter ready_store stocked_store"
    unfolding stocked_store_def by (rule ledger_step.Feeding [OF surjective_pairing])
  then have "(ledger_step deterministic_adapter)\<^sup>*\<^sup>* ready_store stocked_store" ..
  ultimately show "reconciled stocked_store"
    using ledger_run_reconciled [OF _ local_port.commerce_port_axioms] by blast
  show "length (ledger stocked_store) = 1" by code_simp
qed

end
