(* ===== verification/Freight.thy ===== *)
theory Freight
  imports Billing Complex_Main
begin

text \<open>
  Freight: requests, rate cards and estimates, quotes, bookings with their invoice, legs,
  drivers and vehicles, dispatch assignments, check-ins, milestones and proof of delivery:
  \<open>apps/api/src/freight/freight.repository.ts\<close> and \<open>contact-crypto.service.ts\<close>.

  The object storage, the document scanner over HTTP, the cipher and the digest are parameters
  (\<open>freight_port\<close>); the records of request bodies hold what \<open>freight.dto.ts\<close> lets through, with the
  defaults of absent fields filled in. The deterministic scanner is code of the repository and is modelled. A
  coordinate or a temperature, which the code only stores, is a rational. Free-form JSON columns
  that the code only passes through are \<open>json\<close> values.
\<close>

section \<open>Rows\<close>

record freight_request =
  rq_id :: uuid
  rq_tenantId :: uuid
  rq_number :: string
  rq_requesterId :: uuid
  rq_businessAccountId :: "uuid option"
  rq_status :: string
  rq_serviceLevel :: string
  rq_preferredModes :: "string list"
  rq_incoterm :: "string option"
  rq_insuranceRequired :: bool
  rq_customsRequired :: bool
  rq_specialInstructions :: "string option"
  rq_submittedAt :: "instant option"
  rq_acceptedAt :: "instant option"
  rq_cancelledAt :: "instant option"
  rq_version :: int

record freight_stop_dto =
  sp_sequence :: int
  sp_kind :: string
  sp_locationType :: string
  sp_name :: string
  sp_line1 :: "string option"
  sp_line2 :: "string option"
  sp_city :: string
  sp_region :: "string option"
  sp_postalCode :: "string option"
  sp_countryCode :: string
  sp_locationCode :: "string option"
  sp_latitude :: "rat option"
  sp_longitude :: "rat option"
  sp_timeZone :: "string option"
  sp_windowStart :: "instant option"
  sp_windowEnd :: "instant option"
  sp_contactName :: "string option"
  sp_contactPhone :: "string option"
  sp_instructions :: "string option"

text \<open>A stored stop: the fields of the request's stop, the phone number encrypted.\<close>

record freight_stop = freight_stop_dto +
  sp_id :: uuid
  sp_tenantId :: uuid
  sp_requestId :: uuid

record cargo_item_dto =
  cg_description :: string
  cg_commodityCode :: "string option"
  cg_packageType :: string
  cg_packageCount :: int
  cg_weightGrams :: int
  cg_volumeCubicCm :: "int option"
  cg_dimensions :: "json option"
  cg_declaredValueMinor :: int
  cg_currency :: string
  cg_hazardous :: bool
  cg_hazardousDetails :: "json option"
  cg_temperatureMinC :: "rat option"
  cg_temperatureMaxC :: "rat option"
  cg_stackable :: bool

record cargo_item = cargo_item_dto +
  cg_id :: uuid
  cg_tenantId :: uuid
  cg_requestId :: uuid

record freight_document =
  dc_id :: uuid
  dc_tenantId :: uuid
  dc_requestId :: uuid
  dc_kind :: string
  dc_fileName :: string
  dc_contentType :: string
  dc_sizeBytes :: int
  dc_checksum :: string
  dc_objectKey :: string
  dc_scanStatus :: string
  dc_scanReference :: "string option"
  dc_uploadedAt :: "instant option"
  dc_verifiedAt :: "instant option"
  dc_uploadedBy :: uuid

record rate_card =
  kc_id :: uuid
  kc_tenantId :: uuid
  kc_key :: string
  kc_name :: string
  kc_currency :: string
  kc_status :: string
  kc_effectiveAt :: instant
  kc_expiresAt :: "instant option"
  kc_version :: int
  kc_createdBy :: uuid

record rate_rule_dto =
  kr_mode :: string
  kr_originCountryCode :: "string option"
  kr_destinationCountryCode :: "string option"
  kr_originLocationCode :: "string option"
  kr_destinationLocationCode :: "string option"
  kr_equipmentType :: "string option"
  kr_baseMinor :: int
  kr_perKgMinor :: int
  kr_perCubicMeterMinor :: int
  kr_minimumMinor :: int
  kr_accessorials :: "json option"
  kr_priority :: int

record rate_rule = rate_rule_dto +
  kr_id :: uuid
  kr_tenantId :: uuid
  kr_rateCardId :: uuid

text \<open>
  The \<open>calculation\<close> of an estimate. \<open>volumeCubicM\<close> is the volume over a million, as a number.
\<close>

datatype calculation =
    SelectedRate string uuid uuid int rat nat   \<comment> \<open>mode, card, rule, weight, volume, candidates\<close>
  | NoMatchingRate "string list" string string  \<comment> \<open>modes, origin and destination country\<close>

record freight_estimate =
  et_id :: uuid
  et_tenantId :: uuid
  et_requestId :: uuid
  et_rateCardId :: "uuid option"
  et_status :: string
  et_currency :: string
  et_subtotalMinor :: int
  et_totalMinor :: int
  et_calculation :: calculation
  et_inputHash :: string
  et_createdBy :: uuid

record freight_quote =
  fq_id :: uuid
  fq_tenantId :: uuid
  fq_requestId :: uuid
  fq_number :: string
  fq_revision :: int
  fq_status :: string
  fq_currency :: string
  fq_subtotalMinor :: int
  fq_taxMinor :: int
  fq_totalMinor :: int
  fq_paymentPolicy :: string
  fq_depositPercent :: "int option"
  fq_paymentTermsDays :: int
  fq_terms :: "json option"
  fq_validUntil :: instant
  fq_createdBy :: uuid
  fq_publishedAt :: "instant option"
  fq_acceptedAt :: "instant option"
  fq_declinedAt :: "instant option"
  fq_version :: int

record freight_quote_line =
  qi_id :: uuid
  qi_tenantId :: uuid
  qi_quoteId :: uuid
  qi_kind :: string
  qi_description :: string
  qi_quantity :: int
  qi_unitMinor :: int
  qi_totalMinor :: int
  qi_taxable :: bool
  qi_metadata :: "json option"

record transport_carrier =
  tc_id :: uuid
  tc_tenantId :: uuid
  tc_key :: string
  tc_name :: string
  tc_kind :: string
  tc_modes :: "string list"
  tc_contactName :: "string option"
  tc_contactEmail :: "string option"
  tc_contactPhone :: "string option"
  tc_status :: string

record transport_driver =
  dv_id :: uuid
  dv_tenantId :: uuid
  dv_carrierId :: "uuid option"
  dv_employeeRef :: "string option"
  dv_displayName :: string
  dv_phoneCiphertext :: string
  dv_licenseNumber :: "string option"
  dv_licenseExpiresAt :: "instant option"
  dv_status :: string

record transport_vehicle =
  vh_id :: uuid
  vh_tenantId :: uuid
  vh_carrierId :: "uuid option"
  vh_registration :: string
  vh_equipmentType :: string
  vh_capacityKg :: "int option"
  vh_capacityCubicM :: "rat option"
  vh_status :: string

record transport_leg =
  lg_id :: uuid
  lg_tenantId :: uuid
  lg_bookingId :: uuid
  lg_sequence :: int
  lg_mode :: string
  lg_originStopId :: uuid
  lg_destinationStopId :: uuid
  lg_carrierId :: "uuid option"
  lg_providerReference :: "string option"
  lg_status :: string
  lg_plannedDepartureAt :: "instant option"
  lg_plannedArrivalAt :: "instant option"
  lg_actualDepartureAt :: "instant option"
  lg_actualArrivalAt :: "instant option"
  lg_equipment :: "json option"

record dispatch_assignment =
  da_id :: uuid
  da_tenantId :: uuid
  da_legId :: uuid
  da_carrierId :: "uuid option"
  da_driverId :: uuid
  da_vehicleId :: uuid
  da_status :: string
  da_checkInIntervalMinutes :: int
  da_nextCheckInAt :: "instant option"
  da_assignedBy :: uuid
  da_startedAt :: "instant option"
  da_completedAt :: "instant option"
  da_version :: int

record driver_check_in =
  dk_id :: uuid
  dk_tenantId :: uuid
  dk_assignmentId :: uuid
  dk_coordinatorId :: uuid
  dk_source :: string
  dk_outcome :: string
  dk_locationText :: string
  dk_latitude :: "rat option"
  dk_longitude :: "rat option"
  dk_reportedAt :: instant
  dk_estimatedArrivalAt :: "instant option"
  dk_note :: "string option"
  dk_exceptionCode :: "string option"
  dk_nextCheckInAt :: "instant option"
  dk_externalKey :: string

record transport_milestone =
  tm_id :: uuid
  tm_tenantId :: uuid
  tm_bookingId :: uuid
  tm_legId :: "uuid option"
  tm_code :: string
  tm_description :: string
  tm_location :: "string option"
  tm_latitude :: "rat option"
  tm_longitude :: "rat option"
  tm_occurredAt :: instant
  tm_source :: string
  tm_recordedBy :: "uuid option"
  tm_externalKey :: string
  tm_payload :: "json option"

record freight_exception =
  fx_id :: uuid
  fx_tenantId :: uuid
  fx_bookingId :: uuid
  fx_assignmentId :: "uuid option"
  fx_code :: string
  fx_severity :: string
  fx_status :: string
  fx_description :: string
  fx_openedBy :: "uuid option"
  fx_resolvedBy :: "uuid option"
  fx_resolvedAt :: "instant option"

record proof_of_delivery =
  pf_id :: uuid
  pf_tenantId :: uuid
  pf_bookingId :: uuid
  pf_documentId :: "uuid option"
  pf_recipient :: string
  pf_deliveredAt :: instant
  pf_note :: "string option"
  pf_recordedBy :: uuid

record freight_db = billing_db +
  freight_requests :: "freight_request list"
  freight_stops :: "freight_stop list"
  cargo_items :: "cargo_item list"
  freight_documents :: "freight_document list"
  rate_cards :: "rate_card list"
  rate_rules :: "rate_rule list"
  freight_estimates :: "freight_estimate list"
  freight_quotes :: "freight_quote list"
  freight_quote_lines :: "freight_quote_line list"
  transport_carriers :: "transport_carrier list"
  transport_drivers :: "transport_driver list"
  transport_vehicles :: "transport_vehicle list"
  transport_legs :: "transport_leg list"
  dispatch_assignments :: "dispatch_assignment list"
  driver_check_ins :: "driver_check_in list"
  transport_milestones :: "transport_milestone list"
  freight_exceptions :: "freight_exception list"
  proofs_of_delivery :: "proof_of_delivery list"

section \<open>Unique keys\<close>

definition same_request :: "freight_request \<Rightarrow> freight_request \<Rightarrow> bool" where
  "same_request a b \<longleftrightarrow> rq_id a = rq_id b \<or> rq_tenantId a = rq_tenantId b \<and> rq_number a = rq_number b"

definition same_stop :: "freight_stop \<Rightarrow> freight_stop \<Rightarrow> bool" where
  "same_stop a b \<longleftrightarrow> sp_id a = sp_id b
     \<or> sp_tenantId a = sp_tenantId b \<and> sp_requestId a = sp_requestId b \<and> sp_sequence a = sp_sequence b"

definition same_cargo :: "cargo_item \<Rightarrow> cargo_item \<Rightarrow> bool" where
  "same_cargo a b \<longleftrightarrow> cg_id a = cg_id b"

definition same_document :: "freight_document \<Rightarrow> freight_document \<Rightarrow> bool" where
  "same_document a b \<longleftrightarrow> dc_id a = dc_id b
     \<or> dc_tenantId a = dc_tenantId b \<and> dc_objectKey a = dc_objectKey b"

definition same_rate_card :: "rate_card \<Rightarrow> rate_card \<Rightarrow> bool" where
  "same_rate_card a b \<longleftrightarrow> kc_id a = kc_id b
     \<or> kc_tenantId a = kc_tenantId b \<and> kc_key a = kc_key b \<and> kc_version a = kc_version b"

definition same_rate_rule :: "rate_rule \<Rightarrow> rate_rule \<Rightarrow> bool" where
  "same_rate_rule a b \<longleftrightarrow> kr_id a = kr_id b"

definition same_estimate :: "freight_estimate \<Rightarrow> freight_estimate \<Rightarrow> bool" where
  "same_estimate a b \<longleftrightarrow> et_id a = et_id b
     \<or> et_tenantId a = et_tenantId b \<and> et_requestId a = et_requestId b \<and> et_inputHash a = et_inputHash b"

definition same_freight_quote :: "freight_quote \<Rightarrow> freight_quote \<Rightarrow> bool" where
  "same_freight_quote a b \<longleftrightarrow> fq_id a = fq_id b
     \<or> fq_tenantId a = fq_tenantId b
       \<and> (fq_number a = fq_number b \<or> fq_requestId a = fq_requestId b \<and> fq_revision a = fq_revision b)"

definition same_quote_line :: "freight_quote_line \<Rightarrow> freight_quote_line \<Rightarrow> bool" where
  "same_quote_line a b \<longleftrightarrow> qi_id a = qi_id b"

definition same_booking :: "freight_booking \<Rightarrow> freight_booking \<Rightarrow> bool" where
  "same_booking a b \<longleftrightarrow> fb_id a = fb_id b \<or> fb_requestId a = fb_requestId b \<or> fb_quoteId a = fb_quoteId b
     \<or> fb_invoiceId a \<noteq> None \<and> fb_invoiceId a = fb_invoiceId b
     \<or> fb_tenantId a = fb_tenantId b \<and> fb_number a = fb_number b"

definition same_carrier :: "transport_carrier \<Rightarrow> transport_carrier \<Rightarrow> bool" where
  "same_carrier a b \<longleftrightarrow> tc_id a = tc_id b \<or> tc_tenantId a = tc_tenantId b \<and> tc_key a = tc_key b"

definition same_driver :: "transport_driver \<Rightarrow> transport_driver \<Rightarrow> bool" where
  "same_driver a b \<longleftrightarrow> dv_id a = dv_id b"

definition same_vehicle :: "transport_vehicle \<Rightarrow> transport_vehicle \<Rightarrow> bool" where
  "same_vehicle a b \<longleftrightarrow> vh_id a = vh_id b
     \<or> vh_tenantId a = vh_tenantId b \<and> vh_registration a = vh_registration b"

definition same_leg :: "transport_leg \<Rightarrow> transport_leg \<Rightarrow> bool" where
  "same_leg a b \<longleftrightarrow> lg_id a = lg_id b
     \<or> lg_tenantId a = lg_tenantId b \<and> lg_bookingId a = lg_bookingId b \<and> lg_sequence a = lg_sequence b"

definition same_assignment :: "dispatch_assignment \<Rightarrow> dispatch_assignment \<Rightarrow> bool" where
  "same_assignment a b \<longleftrightarrow> da_id a = da_id b \<or> da_legId a = da_legId b"

definition same_check_in :: "driver_check_in \<Rightarrow> driver_check_in \<Rightarrow> bool" where
  "same_check_in a b \<longleftrightarrow> dk_id a = dk_id b
     \<or> dk_tenantId a = dk_tenantId b \<and> dk_assignmentId a = dk_assignmentId b
       \<and> dk_externalKey a = dk_externalKey b"

definition same_milestone :: "transport_milestone \<Rightarrow> transport_milestone \<Rightarrow> bool" where
  "same_milestone a b \<longleftrightarrow> tm_id a = tm_id b
     \<or> tm_tenantId a = tm_tenantId b \<and> tm_bookingId a = tm_bookingId b
       \<and> tm_externalKey a = tm_externalKey b"

definition same_exception :: "freight_exception \<Rightarrow> freight_exception \<Rightarrow> bool" where
  "same_exception a b \<longleftrightarrow> fx_id a = fx_id b"

definition same_proof :: "proof_of_delivery \<Rightarrow> proof_of_delivery \<Rightarrow> bool" where
  "same_proof a b \<longleftrightarrow> pf_id a = pf_id b \<or> pf_bookingId a = pf_bookingId b"

section \<open>What the component gets from outside\<close>

record object_metadata =
  om_sizeBytes :: int
  om_contentType :: string
  om_checksum :: string

record hash_input =
  hi_requestVersion :: int
  hi_calculation :: calculation
  hi_cargo :: "(uuid \<times> int \<times> int option) list"

record freight_port =
  px_seal :: "string \<Rightarrow> nat \<Rightarrow> string \<times> string \<times> string"  \<comment> \<open>value, randomness; iv, tag, text\<close>
  px_unseal :: "string \<times> string \<times> string \<Rightarrow> string option"
  px_presignPut :: "string \<Rightarrow> string \<Rightarrow> int \<Rightarrow> string \<Rightarrow> string \<times> (string \<times> string) list"
  px_metadata :: "string \<Rightarrow> nat \<Rightarrow> app_error + object_metadata"
  px_copy :: "string \<Rightarrow> string \<Rightarrow> nat \<Rightarrow> app_error + unit"
  px_deterministicScanner :: bool
  px_scan :: "string \<Rightarrow> string \<Rightarrow> nat \<Rightarrow> app_error + bool \<times> string"  \<comment> \<open>key, checksum\<close>
  px_inputHash :: "hash_input \<Rightarrow> string"

definition or_default :: "'a option \<Rightarrow> 'a \<Rightarrow> 'a" where
  "or_default x d = (case x of None \<Rightarrow> d | Some y \<Rightarrow> y)"

section \<open>Contacts\<close>

text \<open>\<open>String.split\<close> and \<open>Array.join\<close> for a separator of one character.\<close>

fun split_on :: "char \<Rightarrow> string \<Rightarrow> string list" where
  "split_on c [] = [[]]"
| "split_on c (x # xs) = (if x = c then [] # split_on c xs
     else (case split_on c xs of [] \<Rightarrow> [[x]] | p # ps \<Rightarrow> (x # p) # ps))"

fun join_with :: "char \<Rightarrow> string list \<Rightarrow> string" where
  "join_with c [] = []"
| "join_with c [p] = p"
| "join_with c (p # ps) = p @ c # join_with c ps"

definition encrypt_contact :: "freight_port \<Rightarrow> string \<Rightarrow> nat \<Rightarrow> string" where
  "encrypt_contact port phone randomness = (case px_seal port phone randomness of (iv, tag, encrypted) \<Rightarrow>
     join_with CHR ''.'' [''v1'', iv, tag, encrypted])"

definition decrypt_contact :: "freight_port \<Rightarrow> string \<Rightarrow> app_error + string" where
  "decrypt_contact port stored = (case split_on CHR ''.'' stored of
       version # iv # tag # encrypted # _ \<Rightarrow>
         if version \<noteq> ''v1'' \<or> iv = [] \<or> tag = [] \<or> encrypted = []
         then Inl (Plain_Error ''Invalid encrypted contact'')
         else (case px_unseal port (iv, tag, encrypted) of
                 None \<Rightarrow> Inl (Plain_Error ''Unsupported state or unable to authenticate data'')
               | Some phone \<Rightarrow> Inr phone)
     | _ \<Rightarrow> Inl (Plain_Error ''Invalid encrypted contact''))"

text \<open>A call of \<open>encrypt\<close>: the number of draws so far stands for the fresh \<open>iv\<close>.\<close>

definition encrypt_now ::
  "freight_port \<Rightarrow> string option \<Rightarrow> ('m runtime_scheme, string option) prog" where
  "encrypt_now port phone = (case phone of
       None \<Rightarrow> ret None
     | Some p \<Rightarrow> if p = [] then ret None
         else reads (\<lambda>s. Some (encrypt_contact port p (uuids_drawn s))))"

definition maskPhone :: "string \<Rightarrow> string" where
  "maskPhone phone =
     (if length phone \<le> 4 then ''****''
      else replicate (min 8 (length phone - 4)) CHR ''*'' @ drop (length phone - 4) phone)"

section \<open>Requests\<close>

record create_freight_request_dto =
  fd_businessAccountId :: "uuid option"
  fd_serviceLevel :: "string option"
  fd_preferredModes :: "string list"
  fd_incoterm :: "string option"
  fd_insuranceRequired :: "bool option"
  fd_customsRequired :: "bool option"
  fd_specialInstructions :: "string option"
  fd_stops :: "freight_stop_dto list"
  fd_cargoItems :: "cargo_item_dto list"

definition freight_audit ::
  "tenant_context \<Rightarrow> auth_principal \<Rightarrow> string \<Rightarrow> string \<Rightarrow> uuid \<Rightarrow> ('m events_db_scheme, unit) prog"
where
  "freight_audit ctx pr action entityType entityId =
     seq (audit_as ctx pr action entityType entityId None None (Some ''BEARER'')) (\<lambda>_. ret ())"

definition freight_outbox ::
  "tenant_context \<Rightarrow> string \<Rightarrow> string \<Rightarrow> json \<Rightarrow> ('m events_db_scheme, unit) prog"
where
  "freight_outbox ctx type subject payload =
     seq (publish (ctx_tenantId ctx) type subject payload (ctx_correlationId ctx)) (\<lambda>_. ret ())"

definition bad_window :: "freight_stop_dto \<Rightarrow> bool" where
  "bad_window p \<longleftrightarrow> (case (sp_windowStart p, sp_windowEnd p) of
     (Some a, Some b) \<Rightarrow> a \<ge> b | _ \<Rightarrow> False)"

definition validateStops :: "freight_stop_dto list \<Rightarrow> app_error + unit" where
  "validateStops stops =
     (let ordered = sort_key sp_sequence stops in
      if \<not> distinct (map sp_sequence stops) then Inl (Conflict ''Stop sequences must be unique'')
      else if ordered = [] \<or> sp_kind (hd ordered) \<noteq> ''PICKUP'' \<or> sp_kind (last ordered) \<noteq> ''DELIVERY''
      then Inl (Conflict ''The route must start with pickup and end with delivery'')
      else if list_ex bad_window stops then Inl (Conflict ''Stop time window is invalid'')
      else Inr ())"

definition create_stop ::
  "freight_port \<Rightarrow> tenant_context \<Rightarrow> uuid \<Rightarrow> freight_stop_dto \<Rightarrow> ('m freight_db_scheme, unit) prog"
where
  "create_stop port ctx requestId p =
     seq random_uuid (\<lambda>i.
     seq (encrypt_now port (sp_contactPhone p)) (\<lambda>phone.
     seq (create_row freight_stops freight_stops_update same_stop
            (freight_stop_dto.extend (p\<lparr>sp_contactPhone := phone\<rparr>)
               (freight_stop.fields i (ctx_tenantId ctx) requestId))) (\<lambda>_.
     ret ())))"

definition create_cargo ::
  "tenant_context \<Rightarrow> uuid \<Rightarrow> cargo_item_dto \<Rightarrow> ('m freight_db_scheme, unit) prog"
where
  "create_cargo ctx requestId c =
     seq random_uuid (\<lambda>i.
     seq (create_row cargo_items cargo_items_update same_cargo
            (cargo_item_dto.extend c (cargo_item.fields i (ctx_tenantId ctx) requestId))) (\<lambda>_.
     ret ()))"

definition createRequest ::
  "freight_port \<Rightarrow> tenant_context \<Rightarrow> auth_principal \<Rightarrow> create_freight_request_dto
     \<Rightarrow> ('m freight_db_scheme, freight_request) prog"
where
  "createRequest port ctx pr dto =
     seq (lift_result (validateStops (fd_stops dto))) (\<lambda>_.
     seq (case fd_businessAccountId dto of
            None \<Rightarrow> ret ()
          | Some a \<Rightarrow>
              seq (reads (\<lambda>s. List.find (\<lambda>m. bm_tenantId m = ctx_tenantId ctx \<and> bm_accountId m = a
                     \<and> bm_userId m = pr_userId pr
                     \<and> list_ex (\<lambda>x. ba_id x = bm_accountId m \<and> ba_status x = ''ACTIVE'') (business_accounts s))
                     (business_members s))) (\<lambda>membership.
              ensure (membership \<noteq> None) (Forbidden ''Business account membership is required''))) (\<lambda>_.
     seq random_uuid (\<lambda>i.
     transaction
       (seq (create_row freight_requests freight_requests_update same_request
               \<lparr>rq_id = i, rq_tenantId = ctx_tenantId ctx, rq_number = ''FRQ-'' @ js_upper (take 8 i),
                rq_requesterId = pr_userId pr, rq_businessAccountId = fd_businessAccountId dto,
                rq_status = ''DRAFT'', rq_serviceLevel = or_default (fd_serviceLevel dto) ''STANDARD'',
                rq_preferredModes = fd_preferredModes dto, rq_incoterm = fd_incoterm dto,
                rq_insuranceRequired = or_default (fd_insuranceRequired dto) False,
                rq_customsRequired = or_default (fd_customsRequired dto) False,
                rq_specialInstructions = fd_specialInstructions dto, rq_submittedAt = None,
                rq_acceptedAt = None, rq_cancelledAt = None, rq_version = 1\<rparr>) (\<lambda>request.
        seq (for_each (fd_stops dto) (create_stop port ctx i)) (\<lambda>_.
        seq (for_each (fd_cargoItems dto) (create_cargo ctx i)) (\<lambda>_.
        seq (freight_audit ctx pr ''freight.request.created'' ''FreightRequest'' i) (\<lambda>_.
        ret request))))))))"

text \<open>\<open>requireOwnedRequest\<close> without and with a status, \<open>requireOperationalRequest\<close>.\<close>

definition requireOwnedRequest ::
  "tenant_context \<Rightarrow> auth_principal \<Rightarrow> uuid \<Rightarrow> string option \<Rightarrow> ('m freight_db_scheme, freight_request) prog"
where
  "requireOwnedRequest ctx pr requestId status =
     seq (find_row freight_requests (\<lambda>r. rq_id r = requestId \<and> rq_tenantId r = ctx_tenantId ctx
            \<and> rq_requesterId r = pr_userId pr
            \<and> (case status of None \<Rightarrow> True | Some x \<Rightarrow> rq_status r = x))) (\<lambda>found.
     require found (NotFound ''Resource not found''))"

definition requireOperationalRequest ::
  "tenant_context \<Rightarrow> uuid \<Rightarrow> ('m freight_db_scheme, freight_request) prog"
where
  "requireOperationalRequest ctx requestId =
     seq (find_row freight_requests (\<lambda>r. rq_id r = requestId \<and> rq_tenantId r = ctx_tenantId ctx)) (\<lambda>found.
     require found (NotFound ''Resource not found''))"

definition request_owner :: "auth_principal \<Rightarrow> bool \<Rightarrow> freight_request \<Rightarrow> bool" where
  "request_owner pr all r \<longleftrightarrow> all \<or> rq_requesterId r = pr_userId pr"

text \<open>The views \<open>requests\<close> and \<open>request\<close>: the newest row has been created last.\<close>

record freight_request_view =
  fv_request :: freight_request
  fv_stops :: "freight_stop list"
  fv_cargoItems :: "cargo_item list"
  fv_documents :: "freight_document list"
  fv_estimates :: "freight_estimate list"
  fv_quotes :: "(freight_quote \<times> freight_quote_line list) list"
  fv_booking :: "freight_booking option"

definition quotes_of :: "'m freight_db_scheme \<Rightarrow> uuid \<Rightarrow> (freight_quote \<times> freight_quote_line list) list" where
  "quotes_of s requestId = map (\<lambda>q. (q, filter (\<lambda>l. qi_quoteId l = fq_id q) (freight_quote_lines s)))
     (rev (sort_key fq_revision (filter (\<lambda>q. fq_requestId q = requestId) (freight_quotes s))))"

definition request_view :: "'m freight_db_scheme \<Rightarrow> freight_request \<Rightarrow> freight_request_view" where
  "request_view s r =
     \<lparr>fv_request = r,
      fv_stops = sort_key sp_sequence (filter (\<lambda>x. sp_requestId x = rq_id r) (freight_stops s)),
      fv_cargoItems = filter (\<lambda>x. cg_requestId x = rq_id r) (cargo_items s),
      fv_documents = filter (\<lambda>x. dc_requestId x = rq_id r) (freight_documents s),
      fv_estimates = rev (filter (\<lambda>x. et_requestId x = rq_id r) (freight_estimates s)),
      fv_quotes = quotes_of s (rq_id r),
      fv_booking = List.find (\<lambda>b. fb_requestId b = rq_id r) (freight_bookings s)\<rparr>"

definition requests ::
  "tenant_context \<Rightarrow> auth_principal \<Rightarrow> bool \<Rightarrow> ('m freight_db_scheme, freight_request_view list) prog"
where
  "requests ctx pr all = reads (\<lambda>s. map
     (\<lambda>r. (request_view s r)\<lparr>fv_documents := [], fv_estimates := take 1 (fv_estimates (request_view s r)),
                             fv_quotes := take 1 (fv_quotes (request_view s r))\<rparr>)
     (take 100 (rev (filter (\<lambda>r. rq_tenantId r = ctx_tenantId ctx \<and> request_owner pr all r)
        (freight_requests s)))))"

definition request ::
  "tenant_context \<Rightarrow> auth_principal \<Rightarrow> uuid \<Rightarrow> bool \<Rightarrow> ('m freight_db_scheme, freight_request_view) prog"
where
  "request ctx pr requestId all =
     seq (find_row freight_requests (\<lambda>r. rq_id r = requestId \<and> rq_tenantId r = ctx_tenantId ctx
            \<and> request_owner pr all r)) (\<lambda>found.
     seq (require found (NotFound ''Resource not found'')) (\<lambda>r.
     reads (\<lambda>s. request_view s r)))"

record update_freight_request_dto =
  ud_serviceLevel :: "string option"
  ud_preferredModes :: "string list option"
  ud_incoterm :: "string option"
  ud_insuranceRequired :: "bool option"
  ud_customsRequired :: "bool option"
  ud_specialInstructions :: "string option"
  ud_version :: int

definition apply_request_update ::
  "update_freight_request_dto \<Rightarrow> freight_request \<Rightarrow> freight_request" where
  "apply_request_update dto r = r\<lparr>
     rq_serviceLevel := (case ud_serviceLevel dto of None \<Rightarrow> rq_serviceLevel r
       | Some x \<Rightarrow> if x = [] then rq_serviceLevel r else x),
     rq_preferredModes := or_default (ud_preferredModes dto) (rq_preferredModes r),
     rq_incoterm := (if ud_incoterm dto = None then rq_incoterm r else ud_incoterm dto),
     rq_insuranceRequired := or_default (ud_insuranceRequired dto) (rq_insuranceRequired r),
     rq_customsRequired := or_default (ud_customsRequired dto) (rq_customsRequired r),
     rq_specialInstructions := (if ud_specialInstructions dto = None then rq_specialInstructions r
       else ud_specialInstructions dto),
     rq_version := rq_version r + 1\<rparr>"

definition updateRequest ::
  "tenant_context \<Rightarrow> auth_principal \<Rightarrow> uuid \<Rightarrow> update_freight_request_dto
     \<Rightarrow> ('m freight_db_scheme, freight_request_view) prog"
where
  "updateRequest ctx pr requestId dto =
     seq (requireOwnedRequest ctx pr requestId (Some ''DRAFT'')) (\<lambda>_.
     seq (update_many freight_requests freight_requests_update
            (\<lambda>r. rq_id r = requestId \<and> rq_tenantId r = ctx_tenantId ctx
               \<and> rq_requesterId r = pr_userId pr \<and> rq_version r = ud_version dto)
            (apply_request_update dto)) (\<lambda>changed.
     seq (ensure (changed = 1) (Conflict ''Freight request version changed'')) (\<lambda>_.
     request ctx pr requestId False)))"

definition submit ::
  "tenant_context \<Rightarrow> auth_principal \<Rightarrow> uuid \<Rightarrow> ('m freight_db_scheme, freight_request) prog"
where
  "submit ctx pr requestId =
     seq (requireOwnedRequest ctx pr requestId (Some ''DRAFT'')) (\<lambda>r.
     seq (count_rows freight_stops (\<lambda>x. sp_tenantId x = ctx_tenantId ctx \<and> sp_requestId x = requestId)) (\<lambda>stops.
     seq (count_rows cargo_items (\<lambda>x. cg_tenantId x = ctx_tenantId ctx \<and> cg_requestId x = requestId)) (\<lambda>cargo.
     seq (ensure (\<not> (stops < 2 \<or> cargo < 1))
            (Conflict ''Pickup, delivery, and cargo are required'')) (\<lambda>_.
     transaction
       (seq now (\<lambda>submitted.
        seq (update_row freight_requests freight_requests_update (\<lambda>x. rq_id x = rq_id r)
               (\<lambda>x. x\<lparr>rq_status := ''SUBMITTED'', rq_submittedAt := Some submitted,
                      rq_version := rq_version x + 1\<rparr>)) (\<lambda>updated.
        seq (freight_audit ctx pr ''freight.request.submitted'' ''FreightRequest'' (rq_id r)) (\<lambda>_.
        seq (freight_outbox ctx ''freight.request.submitted.v1'' (''freight-request/'' @ rq_id r)
               (JObj [(''requestId'', JStr (rq_id r)), (''number'', JStr (rq_number r))])) (\<lambda>_.
        ret updated)))))))))"

definition request_terminal :: "string \<Rightarrow> bool" where
  "request_terminal status \<longleftrightarrow> status \<in> {''ACCEPTED'', ''REJECTED'', ''EXPIRED'', ''CANCELLED''}"

definition cancel ::
  "tenant_context \<Rightarrow> auth_principal \<Rightarrow> uuid \<Rightarrow> ('m freight_db_scheme, freight_request) prog"
where
  "cancel ctx pr requestId =
     seq (requireOwnedRequest ctx pr requestId None) (\<lambda>r.
     seq (ensure (\<not> request_terminal (rq_status r)) (Conflict ''Request cannot be cancelled'')) (\<lambda>_.
     seq now (\<lambda>cancelled.
     update_row freight_requests freight_requests_update (\<lambda>x. rq_id x = rq_id r)
       (\<lambda>x. x\<lparr>rq_status := ''CANCELLED'', rq_cancelledAt := Some cancelled,
              rq_version := rq_version x + 1\<rparr>))))"

section \<open>Documents\<close>

record upload_document_dto =
  up_kind :: string
  up_fileName :: string
  up_contentType :: string
  up_sizeBytes :: int
  up_checksum :: string

definition safe_name_char :: "char \<Rightarrow> char" where
  "safe_name_char c =
     (if is_digit c \<or> is_upper c \<or> is_upper (upper_char c) \<or> c \<in> {CHR ''.'', CHR ''_'', CHR ''-''}
      then c else CHR ''_'')"

definition registerDocument ::
  "freight_port \<Rightarrow> tenant_context \<Rightarrow> auth_principal \<Rightarrow> uuid \<Rightarrow> upload_document_dto
     \<Rightarrow> ('m freight_db_scheme, freight_document \<times> string \<times> (string \<times> string) list) prog"
where
  "registerDocument port ctx pr requestId dto =
     seq (requireOwnedRequest ctx pr requestId None) (\<lambda>r.
     seq (ensure (\<not> (request_terminal (rq_status r) \<and> rq_status r \<noteq> ''ACCEPTED''))
            (Conflict ''Documents cannot be added to this request'')) (\<lambda>_.
     seq random_uuid (\<lambda>i.
     let objectKey = ctx_tenantId ctx @ ''/freight/'' @ requestId @ ''/staging/'' @ i @ ''-''
           @ map safe_name_char (up_fileName dto)
     in
     seq (create_row freight_documents freight_documents_update same_document
            \<lparr>dc_id = i, dc_tenantId = ctx_tenantId ctx, dc_requestId = requestId, dc_kind = up_kind dto,
             dc_fileName = up_fileName dto, dc_contentType = up_contentType dto,
             dc_sizeBytes = up_sizeBytes dto, dc_checksum = up_checksum dto, dc_objectKey = objectKey,
             dc_scanStatus = ''QUARANTINED'', dc_scanReference = None, dc_uploadedAt = None,
             dc_verifiedAt = None, dc_uploadedBy = pr_userId pr\<rparr>) (\<lambda>d.
     let upload = px_presignPut port objectKey (up_contentType dto) (up_sizeBytes dto) (up_checksum dto)
     in ret (d, fst upload, snd upload)))))"

text \<open>\<open>deleteObject\<close> where the code ignores its failure.\<close>

definition delete_object :: "string \<Rightarrow> ('m runtime_scheme, unit) prog" where
  "delete_object objectKey = send (DeleteObject objectKey)"

definition objectMetadata :: "freight_port \<Rightarrow> string \<Rightarrow> ('m runtime_scheme, object_metadata) prog" where
  "objectMetadata port objectKey =
     seq (reads (\<lambda>s. length (external_calls s))) (\<lambda>n.
     seq (send (HeadObject objectKey)) (\<lambda>_.
     lift_result (px_metadata port objectKey n)))"

definition finalizeUpload :: "freight_port \<Rightarrow> string \<Rightarrow> string \<Rightarrow> ('m runtime_scheme, unit) prog" where
  "finalizeUpload port stagingKey finalKey =
     seq (reads (\<lambda>s. length (external_calls s))) (\<lambda>n.
     seq (send (CopyObject stagingKey finalKey)) (\<lambda>_.
     seq (lift_result (px_copy port stagingKey finalKey n)) (\<lambda>_.
     delete_object stagingKey)))"

definition lower_char :: "char \<Rightarrow> char" where
  "lower_char c = (if is_upper c then char_of ((of_char c :: nat) + 32) else c)"

definition assertObjectMetadata ::
  "freight_port \<Rightarrow> string \<Rightarrow> freight_document \<Rightarrow> ('m runtime_scheme, unit) prog"
where
  "assertObjectMetadata port objectKey d =
     seq (objectMetadata port objectKey) (\<lambda>m.
     ensure (\<not> (om_sizeBytes m \<noteq> dc_sizeBytes d \<or> om_contentType m \<noteq> dc_contentType d
               \<or> map lower_char (om_checksum m) \<noteq> map lower_char (dc_checksum d)))
       (BadRequest ''Uploaded object metadata does not match the upload intent''))"

definition set_scan ::
  "uuid \<Rightarrow> (freight_document \<Rightarrow> freight_document) \<Rightarrow> ('m freight_db_scheme, freight_document) prog" where
  "set_scan documentId f =
     update_row freight_documents freight_documents_update (\<lambda>x. dc_id x = documentId) f"

definition rejectUploadedDocument ::
  "uuid \<Rightarrow> string \<Rightarrow> string \<Rightarrow> ('m freight_db_scheme, unit) prog"
where
  "rejectUploadedDocument documentId objectKey reason =
     seq (delete_object objectKey) (\<lambda>_.
     seq (set_scan documentId (\<lambda>x. x\<lparr>dc_scanStatus := ''REJECTED'', dc_scanReference := Some reason\<rparr>)) (\<lambda>_.
     ret ()))"

text \<open>A mismatch rejects the document before it is reported; another failure only reports.\<close>

definition assert_or_reject ::
  "freight_port \<Rightarrow> string \<Rightarrow> freight_document \<Rightarrow> string \<Rightarrow> ('m freight_db_scheme, unit) prog"
where
  "assert_or_reject port objectKey d reason =
     catch (assertObjectMetadata port objectKey d) (\<lambda>e.
       seq (case e of BadRequest _ \<Rightarrow> rejectUploadedDocument (dc_id d) objectKey reason | _ \<Rightarrow> ret ()) (\<lambda>_.
       throw e))"

definition scan_document ::
  "freight_port \<Rightarrow> freight_document \<Rightarrow> ('m runtime_scheme, bool \<times> string) prog"
where
  "scan_document port d =
     (if px_deterministicScanner port then ret (True, ''local-scan:'' @ dc_checksum d)
      else
        seq (reads (\<lambda>s. length (external_calls s))) (\<lambda>n.
        seq (send (ScanDocument (dc_objectKey d))) (\<lambda>_.
        lift_result (px_scan port (dc_objectKey d) (dc_checksum d) n))))"

definition move_to_verified ::
  "freight_port \<Rightarrow> tenant_context \<Rightarrow> uuid \<Rightarrow> freight_document \<Rightarrow> ('m freight_db_scheme, freight_document) prog"
where
  "move_to_verified port ctx requestId d =
     (let finalKey = ctx_tenantId ctx @ ''/freight/'' @ requestId @ ''/verified/'' @ dc_id d @ ''-''
            @ map safe_name_char (dc_fileName d)
      in
      seq (assert_or_reject port (dc_objectKey d) d ''metadata_mismatch'') (\<lambda>_.
      seq (finalizeUpload port (dc_objectKey d) finalKey) (\<lambda>_.
      seq (assert_or_reject port finalKey d ''final_metadata_mismatch'') (\<lambda>_.
      seq now (\<lambda>uploaded.
      set_scan (dc_id d) (\<lambda>x. x\<lparr>dc_objectKey := finalKey, dc_scanStatus := ''SCANNING'',
                                 dc_uploadedAt := Some uploaded\<rparr>))))))"

definition completeDocument ::
  "freight_port \<Rightarrow> tenant_context \<Rightarrow> auth_principal \<Rightarrow> uuid \<Rightarrow> uuid
     \<Rightarrow> ('m freight_db_scheme, freight_document) prog"
where
  "completeDocument port ctx pr requestId documentId =
     seq (requireOwnedRequest ctx pr requestId None) (\<lambda>_.
     seq (find_row freight_documents (\<lambda>d. dc_id d = documentId \<and> dc_tenantId d = ctx_tenantId ctx
            \<and> dc_requestId d = requestId)) (\<lambda>found.
     seq (require found (NotFound ''Resource not found'')) (\<lambda>d.
     if dc_scanStatus d = ''CLEAN'' then ret d
     else if dc_scanStatus d = ''REJECTED'' then throw (Conflict ''Document upload was rejected'')
     else
       seq (if dc_scanStatus d = ''QUARANTINED'' then move_to_verified port ctx requestId d else ret d) (\<lambda>d.
       seq (scan_document port d) (\<lambda>(clean, reference).
       if \<not> clean then
         seq (set_scan (dc_id d) (\<lambda>x. x\<lparr>dc_scanStatus := ''REJECTED'', dc_scanReference := Some reference\<rparr>)) (\<lambda>_.
         seq (delete_object (dc_objectKey d)) (\<lambda>_.
         throw (BadRequest ''Document failed security scanning'')))
       else
         seq now (\<lambda>verified.
         set_scan (dc_id d) (\<lambda>x. x\<lparr>dc_scanStatus := ''CLEAN'', dc_scanReference := Some reference,
                                    dc_verifiedAt := Some verified\<rparr>)))))))"

section \<open>Rate cards and estimates\<close>

record create_rate_card_dto =
  cr_key :: string
  cr_name :: string
  cr_currency :: string
  cr_effectiveAt :: instant
  cr_expiresAt :: "instant option"

definition rules_of :: "'m freight_db_scheme \<Rightarrow> rate_card \<Rightarrow> rate_rule list" where
  "rules_of s c = sort_key kr_priority (filter (\<lambda>r. kr_rateCardId r = kc_id c) (rate_rules s))"

text \<open>\<open>rateCards\<close>: by key, and the latest version of a key first.\<close>

definition rateCards ::
  "tenant_context \<Rightarrow> ('m freight_db_scheme, (rate_card \<times> rate_rule list) list) prog" where
  "rateCards ctx = reads (\<lambda>s. map (\<lambda>c. (c, rules_of s c))
     (sort_key kc_key (sort_key (\<lambda>c. - kc_version c)
        (filter (\<lambda>c. kc_tenantId c = ctx_tenantId ctx) (rate_cards s)))))"

definition createRateCard ::
  "tenant_context \<Rightarrow> auth_principal \<Rightarrow> create_rate_card_dto \<Rightarrow> ('m freight_db_scheme, rate_card) prog"
where
  "createRateCard ctx pr dto =
     seq random_uuid (\<lambda>i.
     create_row rate_cards rate_cards_update same_rate_card
       \<lparr>kc_id = i, kc_tenantId = ctx_tenantId ctx, kc_key = cr_key dto, kc_name = cr_name dto,
        kc_currency = cr_currency dto, kc_status = ''ACTIVE'', kc_effectiveAt = cr_effectiveAt dto,
        kc_expiresAt = cr_expiresAt dto, kc_version = 1, kc_createdBy = pr_userId pr\<rparr>)"

definition createRateRule ::
  "tenant_context \<Rightarrow> uuid \<Rightarrow> rate_rule_dto \<Rightarrow> ('m freight_db_scheme, rate_rule) prog"
where
  "createRateRule ctx rateCardId dto =
     seq (find_row rate_cards (\<lambda>c. kc_id c = rateCardId \<and> kc_tenantId c = ctx_tenantId ctx)) (\<lambda>found.
     seq (require found (NotFound ''Resource not found'')) (\<lambda>_.
     seq random_uuid (\<lambda>i.
     create_row rate_rules rate_rules_update same_rate_rule
       (rate_rule_dto.extend dto (rate_rule.fields i (ctx_tenantId ctx) rateCardId)))))"

text \<open>A column of a rule that is absent, or empty, matches every route.\<close>

definition rule_allows :: "string option \<Rightarrow> string option \<Rightarrow> bool" where
  "rule_allows column actual \<longleftrightarrow> column = None \<or> column = Some [] \<or> column = actual"

definition rule_matches :: "string list \<Rightarrow> freight_stop \<Rightarrow> freight_stop \<Rightarrow> rate_rule \<Rightarrow> bool" where
  "rule_matches modes origin destination r \<longleftrightarrow>
     kr_mode r \<in> set modes
     \<and> rule_allows (kr_originCountryCode r) (Some (sp_countryCode origin))
     \<and> rule_allows (kr_destinationCountryCode r) (Some (sp_countryCode destination))
     \<and> rule_allows (kr_originLocationCode r) (sp_locationCode origin)
     \<and> rule_allows (kr_destinationLocationCode r) (sp_locationCode destination)"

text \<open>
  The price of a rule. \<open>volume\<close> is in cubic centimetres: \<open>Math.ceil\<close> of its quotient by a
  million, which the source takes of a double, is the exact one for every safe integer, because
  the distance of a quotient that is no integer from the next integer is at least a millionth and
  the rounding error stays below that.
\<close>

definition ceil_div :: "int \<Rightarrow> int \<Rightarrow> int" where
  "ceil_div a b = - ((- a) div b)"

definition rule_total :: "int \<Rightarrow> int \<Rightarrow> rate_rule \<Rightarrow> int" where
  "rule_total weightKg volume r =
     max (kr_minimumMinor r)
       (kr_baseMinor r + kr_perKgMinor r * weightKg + kr_perCubicMeterMinor r * ceil_div volume 1000000)"

definition card_in_force :: "tenant_context \<Rightarrow> instant \<Rightarrow> rate_card \<Rightarrow> bool" where
  "card_in_force ctx today c \<longleftrightarrow> kc_tenantId c = ctx_tenantId ctx \<and> kc_status c = ''ACTIVE''
     \<and> kc_effectiveAt c \<le> today \<and> (case kc_expiresAt c of None \<Rightarrow> True | Some e \<Rightarrow> e > today)"

definition candidates ::
  "'m freight_db_scheme \<Rightarrow> tenant_context \<Rightarrow> instant \<Rightarrow> string list \<Rightarrow> freight_stop \<Rightarrow> freight_stop
     \<Rightarrow> int \<Rightarrow> int \<Rightarrow> (rate_card \<times> rate_rule \<times> int) list"
where
  "candidates s ctx today modes origin destination weightKg volume =
     sort_key (\<lambda>(c, r, price). price)
       (concat (map (\<lambda>c. map (\<lambda>r. (c, r, rule_total weightKg volume r))
            (filter (rule_matches modes origin destination) (rules_of s c)))
          (filter (card_in_force ctx today) (rate_cards s))))"

definition calculation_of ::
  "(rate_card \<times> rate_rule \<times> int) list \<Rightarrow> string list \<Rightarrow> freight_stop \<Rightarrow> freight_stop \<Rightarrow> int \<Rightarrow> int \<Rightarrow> calculation"
where
  "calculation_of cs modes origin destination weightKg volume = (case cs of
       (c, r, price) # _ \<Rightarrow> SelectedRate (kr_mode r) (kc_id c) (kr_id r) weightKg
         (of_int volume / 1000000) (length cs)
     | [] \<Rightarrow> NoMatchingRate modes (sp_countryCode origin) (sp_countryCode destination))"

definition estimate_row ::
  "tenant_context \<Rightarrow> auth_principal \<Rightarrow> uuid \<Rightarrow> uuid \<Rightarrow> (rate_card \<times> rate_rule \<times> int) list \<Rightarrow> calculation
     \<Rightarrow> string \<Rightarrow> freight_estimate"
where
  "estimate_row ctx pr i requestId cs calc hash =
     (let selected = (case cs of [] \<Rightarrow> None | c # _ \<Rightarrow> Some c);
          total = (case selected of None \<Rightarrow> 0 | Some (c, r, t) \<Rightarrow> t)
      in \<lparr>et_id = i, et_tenantId = ctx_tenantId ctx, et_requestId = requestId,
          et_rateCardId = map_option (\<lambda>(c, r, t). kc_id c) selected,
          et_status = (if selected = None then ''NEEDS_REVIEW'' else ''ESTIMATED''),
          et_currency = (case selected of None \<Rightarrow> ''USD'' | Some (c, r, t) \<Rightarrow> kc_currency c),
          et_subtotalMinor = total, et_totalMinor = total, et_calculation = calc, et_inputHash = hash,
          et_createdBy = pr_userId pr\<rparr>)"

definition estimable :: "string \<Rightarrow> bool" where
  "estimable status \<longleftrightarrow> status \<in> {''SUBMITTED'', ''UNDER_REVIEW'', ''QUOTED''}"

definition estimate ::
  "freight_port \<Rightarrow> tenant_context \<Rightarrow> auth_principal \<Rightarrow> uuid \<Rightarrow> ('m freight_db_scheme, freight_estimate) prog"
where
  "estimate port ctx pr requestId =
     seq (requireOperationalRequest ctx requestId) (\<lambda>r.
     seq (ensure (estimable (rq_status r)) (Conflict ''Request is not ready for estimation'')) (\<lambda>_.
     seq (reads (\<lambda>s. sort_key sp_sequence (filter (\<lambda>x. sp_requestId x = requestId) (freight_stops s)))) (\<lambda>stops.
     seq (find_rows cargo_items (\<lambda>x. cg_requestId x = requestId)) (\<lambda>cargo.
     seq (ensure (stops \<noteq> []) (Conflict ''Route endpoints are unavailable'')) (\<lambda>_.
     seq now (\<lambda>today.
     let origin = hd stops; destination = last stops; modes = rq_preferredModes r;
         weightGrams = sum_list (map cg_weightGrams cargo);
         volumeCubicCm = sum_list (map (\<lambda>c. or_default (cg_volumeCubicCm c) 0) cargo)
     in
     seq (lift_result (safe_integer_number ((weightGrams + 999) div 1000) ''Cargo weight'')) (\<lambda>weightKg.
     seq (lift_result (safe_integer_number volumeCubicCm ''Cargo volume'')) (\<lambda>volume.
     seq (reads (\<lambda>s. candidates s ctx today modes origin destination weightKg volume)) (\<lambda>cs.
     let calc = calculation_of cs modes origin destination weightKg volume;
         hash = px_inputHash port \<lparr>hi_requestVersion = rq_version r, hi_calculation = calc,
           hi_cargo = map (\<lambda>c. (cg_id c, cg_weightGrams c, cg_volumeCubicCm c)) cargo\<rparr>
     in
     transaction
       (seq random_uuid (\<lambda>i.
        seq (upsert_row freight_estimates freight_estimates_update same_estimate
               (\<lambda>e. et_tenantId e = ctx_tenantId ctx \<and> et_requestId e = requestId \<and> et_inputHash e = hash)
               (\<lambda>e. e) (estimate_row ctx pr i requestId cs calc hash)) (\<lambda>row.
        seq (when_do (rq_status r = ''SUBMITTED'')
               (seq (update_row freight_requests freight_requests_update (\<lambda>x. rq_id x = requestId)
                       (\<lambda>x. x\<lparr>rq_status := ''UNDER_REVIEW'', rq_version := rq_version x + 1\<rparr>)) (\<lambda>_.
                ret ()))) (\<lambda>_.
        ret row)))))))))))))"

section \<open>Quotes\<close>

record quote_line_dto =
  qd_kind :: string
  qd_description :: string
  qd_quantity :: int
  qd_unitMinor :: int
  qd_taxable :: "bool option"
  qd_metadata :: "json option"

record create_freight_quote_dto =
  cf_currency :: string
  cf_taxMinor :: int
  cf_paymentPolicy :: string
  cf_depositPercent :: "int option"
  cf_paymentTermsDays :: "int option"
  cf_validUntil :: instant
  cf_terms :: "json option"
  cf_lines :: "quote_line_dto list"

definition create_quote_line ::
  "tenant_context \<Rightarrow> uuid \<Rightarrow> quote_line_dto \<Rightarrow> ('m freight_db_scheme, unit) prog"
where
  "create_quote_line ctx quoteId l =
     seq random_uuid (\<lambda>i.
     seq (create_row freight_quote_lines freight_quote_lines_update same_quote_line
            \<lparr>qi_id = i, qi_tenantId = ctx_tenantId ctx, qi_quoteId = quoteId, qi_kind = qd_kind l,
             qi_description = qd_description l, qi_quantity = qd_quantity l, qi_unitMinor = qd_unitMinor l,
             qi_totalMinor = qd_quantity l * qd_unitMinor l, qi_taxable = or_default (qd_taxable l) True,
             qi_metadata = qd_metadata l\<rparr>) (\<lambda>_.
     ret ()))"

definition max_revision :: "freight_quote list \<Rightarrow> int option" where
  "max_revision qs = (case map fq_revision qs of [] \<Rightarrow> None | r # rs \<Rightarrow> Some (foldl max r rs))"

definition createQuote ::
  "tenant_context \<Rightarrow> auth_principal \<Rightarrow> uuid \<Rightarrow> create_freight_quote_dto \<Rightarrow> ('m freight_db_scheme, freight_quote) prog"
where
  "createQuote ctx pr requestId dto =
     seq (requireOperationalRequest ctx requestId) (\<lambda>r.
     seq (ensure (estimable (rq_status r)) (Conflict ''Request cannot be quoted'')) (\<lambda>_.
     seq (ensure (\<not> (cf_paymentPolicy dto = ''DEPOSIT'' \<and> or_default (cf_depositPercent dto) 0 = 0))
            (Conflict ''Deposit percentage is required'')) (\<lambda>_.
     seq (ensure (\<not> (cf_paymentPolicy dto = ''NET_TERMS'' \<and> rq_businessAccountId r = None))
            (Conflict ''Net terms require a business account'')) (\<lambda>_.
     let subtotalMinor = sum_list (map (\<lambda>l. qd_quantity l * qd_unitMinor l) (cf_lines dto)) in
     seq (find_rows freight_quotes (\<lambda>q. fq_tenantId q = ctx_tenantId ctx \<and> fq_requestId q = requestId)) (\<lambda>earlier.
     let revision = or_default (max_revision earlier) 0 + 1 in
     seq random_uuid (\<lambda>i.
     transaction
       (seq (update_many freight_quotes freight_quotes_update
               (\<lambda>q. fq_tenantId q = ctx_tenantId ctx \<and> fq_requestId q = requestId
                  \<and> fq_status q \<in> {''DRAFT'', ''PUBLISHED''})
               (\<lambda>q. q\<lparr>fq_status := ''SUPERSEDED'', fq_version := fq_version q + 1\<rparr>)) (\<lambda>_.
        seq (create_row freight_quotes freight_quotes_update same_freight_quote
               \<lparr>fq_id = i, fq_tenantId = ctx_tenantId ctx, fq_requestId = requestId,
                fq_number = ''FQT-'' @ js_upper (take 8 i) @ ''-R'' @ show_int revision,
                fq_revision = revision, fq_status = ''DRAFT'', fq_currency = cf_currency dto,
                fq_subtotalMinor = subtotalMinor, fq_taxMinor = cf_taxMinor dto,
                fq_totalMinor = subtotalMinor + cf_taxMinor dto, fq_paymentPolicy = cf_paymentPolicy dto,
                fq_depositPercent = cf_depositPercent dto,
                fq_paymentTermsDays = or_default (cf_paymentTermsDays dto) 0, fq_terms = cf_terms dto,
                fq_validUntil = cf_validUntil dto, fq_createdBy = pr_userId pr, fq_publishedAt = None,
                fq_acceptedAt = None, fq_declinedAt = None, fq_version = 1\<rparr>) (\<lambda>q.
        seq (for_each (cf_lines dto) (create_quote_line ctx i)) (\<lambda>_.
        seq (freight_audit ctx pr ''freight.quote.created'' ''FreightQuote'' i) (\<lambda>_.
        ret q)))))))))))"

definition requireQuote :: "tenant_context \<Rightarrow> uuid \<Rightarrow> ('m freight_db_scheme, freight_quote) prog" where
  "requireQuote ctx quoteId =
     seq (find_row freight_quotes (\<lambda>q. fq_id q = quoteId \<and> fq_tenantId q = ctx_tenantId ctx)) (\<lambda>found.
     require found (NotFound ''Resource not found''))"

definition publishQuote ::
  "tenant_context \<Rightarrow> auth_principal \<Rightarrow> uuid \<Rightarrow> ('m freight_db_scheme, freight_quote) prog"
where
  "publishQuote ctx pr quoteId =
     seq (requireQuote ctx quoteId) (\<lambda>q.
     seq (ensure (fq_status q = ''DRAFT'') (Conflict ''Quote cannot be published'')) (\<lambda>_.
     seq now (\<lambda>today.
     seq (ensure (\<not> fq_validUntil q \<le> today) (Conflict ''Quote cannot be published'')) (\<lambda>_.
     transaction
       (seq now (\<lambda>published.
        seq (update_row freight_quotes freight_quotes_update (\<lambda>x. fq_id x = quoteId)
               (\<lambda>x. x\<lparr>fq_status := ''PUBLISHED'', fq_publishedAt := Some published,
                      fq_version := fq_version x + 1\<rparr>)) (\<lambda>updated.
        seq (update_row freight_requests freight_requests_update (\<lambda>x. rq_id x = fq_requestId q)
               (\<lambda>x. x\<lparr>rq_status := ''QUOTED'', rq_version := rq_version x + 1\<rparr>)) (\<lambda>_.
        seq (freight_audit ctx pr ''freight.quote.published'' ''FreightQuote'' quoteId) (\<lambda>_.
        seq (freight_outbox ctx ''freight.quote.published.v1'' (''freight-quote/'' @ quoteId)
               (JObj [(''quoteId'', JStr quoteId), (''requestId'', JStr (fq_requestId q))])) (\<lambda>_.
        ret updated))))))))))"

text \<open>\<open>quote\<close>: a quote with its request, for the requester only unless \<open>all\<close>.\<close>

definition freight_quote_for ::
  "tenant_context \<Rightarrow> auth_principal \<Rightarrow> uuid \<Rightarrow> bool \<Rightarrow> ('m freight_db_scheme, freight_quote \<times> freight_request) prog"
where
  "freight_quote_for ctx pr quoteId all =
     seq (reads (\<lambda>s. List.find (\<lambda>q. fq_id q = quoteId \<and> fq_tenantId q = ctx_tenantId ctx
            \<and> (all \<or> list_ex (\<lambda>r. rq_id r = fq_requestId q \<and> rq_requesterId r = pr_userId pr)
                 (freight_requests s))) (freight_quotes s))) (\<lambda>found.
     seq (require found (NotFound ''Resource not found'')) (\<lambda>q.
     seq (find_row freight_requests (\<lambda>r. rq_id r = fq_requestId q)) (\<lambda>r.
     seq (require r RecordMissing) (\<lambda>r.
     ret (q, r)))))"

definition declineQuote ::
  "tenant_context \<Rightarrow> auth_principal \<Rightarrow> uuid \<Rightarrow> ('m freight_db_scheme, freight_quote) prog"
where
  "declineQuote ctx pr quoteId =
     seq (freight_quote_for ctx pr quoteId False) (\<lambda>(q, r).
     seq (ensure (fq_status q = ''PUBLISHED'') (Conflict ''Quote is not awaiting a decision'')) (\<lambda>_.
     seq now (\<lambda>declined.
     update_row freight_quotes freight_quotes_update (\<lambda>x. fq_id x = quoteId)
       (\<lambda>x. x\<lparr>fq_status := ''DECLINED'', fq_declinedAt := Some declined,
              fq_version := fq_version x + 1\<rparr>))))"

text \<open>
  \<open>paymentSchedules\<close>: kind, amount, due date and sequence of each schedule of an accepted quote.
  The deposit is rounded up. \<open>BigInt\<close> division truncates, which is \<open>div\<close> for the amounts a quote
  can have: they are sums of products of non-negative numbers.
\<close>

definition day_ms :: int where
  "day_ms = 86400000"

definition paymentSchedules ::
  "int \<Rightarrow> int option \<Rightarrow> int \<Rightarrow> string \<Rightarrow> instant \<Rightarrow> (string \<times> int \<times> instant \<times> int) list"
where
  "paymentSchedules amount depositPercent paymentTermsDays policy today =
     (if policy = ''DEPOSIT'' then
        (let deposit = (amount * or_default depositPercent 100 + 99) div 100
         in [(''DEPOSIT'', deposit, today, 1),
             (''BALANCE'', amount - deposit, today + max 1 paymentTermsDays * day_ms, 2)])
      else
        [(if policy = ''NET_TERMS'' then ''NET_BALANCE'' else ''FULL'', amount,
          if policy = ''NET_TERMS'' then today + paymentTermsDays * day_ms else today, 1)])"

text \<open>\<open>nextNumber\<close> with the kind and prefix of invoices.\<close>

definition nextNumber ::
  "tenant_context \<Rightarrow> string \<Rightarrow> string \<Rightarrow> ('m billing_db_scheme, string) prog"
where
  "nextNumber ctx kind prefix =
     seq now (\<lambda>today.
     seq random_uuid (\<lambda>i.
     seq (upsert_row document_sequences document_sequences_update same_sequence
            (\<lambda>q. dq_tenantId q = ctx_tenantId ctx \<and> dq_kind q = kind \<and> dq_year q = utc_year today)
            (\<lambda>q. q\<lparr>dq_nextValue := dq_nextValue q + 1\<rparr>)
            \<lparr>dq_id = i, dq_tenantId = ctx_tenantId ctx, dq_kind = kind, dq_year = utc_year today,
             dq_nextValue = 2\<rparr>) (\<lambda>sequence.
     ret (prefix @ ''-'' @ show_int (utc_year today) @ ''-''
          @ pad_start 6 CHR ''0'' (show_int (dq_nextValue sequence - 1))))))"

section \<open>Accepting a quote\<close>

text \<open>The open amount of a business account over its invoices.\<close>

definition open_exposure :: "'m billing_db_scheme \<Rightarrow> uuid \<Rightarrow> uuid \<Rightarrow> int" where
  "open_exposure s tenant account = sum_list (map (\<lambda>b. bi_totalMinor b - bi_paidMinor b - bi_creditedMinor b)
     (filter (\<lambda>b. bi_tenantId b = tenant \<and> bi_businessAccountId b = Some account
        \<and> bi_status b \<in> {''ISSUED'', ''PARTIALLY_PAID'', ''OVERDUE''}) (invoices s)))"

definition check_credit ::
  "tenant_context \<Rightarrow> auth_principal \<Rightarrow> freight_quote \<Rightarrow> uuid \<Rightarrow> ('m freight_db_scheme, unit) prog"
where
  "check_credit ctx pr q accountId =
     seq (reads (\<lambda>s. List.find (\<lambda>a. ba_id a = accountId \<and> ba_tenantId a = ctx_tenantId ctx
            \<and> ba_status a = ''ACTIVE''
            \<and> list_ex (\<lambda>m. bm_accountId m = ba_id a \<and> bm_userId m = pr_userId pr) (business_members s))
            (business_accounts s))) (\<lambda>found.
     seq (require found (Forbidden ''Active business account membership is required'')) (\<lambda>a.
     seq (reads (\<lambda>s. open_exposure s (ctx_tenantId ctx) (ba_id a))) (\<lambda>openMinor.
     ensure (\<not> (ba_creditLimitMinor a > 0 \<and> openMinor + fq_totalMinor q > ba_creditLimitMinor a))
       (Conflict ''Business credit limit would be exceeded''))))"

definition effective_policy :: "freight_quote \<Rightarrow> freight_request \<Rightarrow> string" where
  "effective_policy q r = (if rq_businessAccountId r = None then ''PREPAY'' else fq_paymentPolicy q)"

definition billing_snapshot ::
  "billing_profile option \<Rightarrow> auth_principal \<Rightarrow> freight_quote \<Rightarrow> freight_request \<Rightarrow> json"
where
  "billing_snapshot profile pr q r = JObj
     [(''supplier'', case profile of None \<Rightarrow> JObj [(''legalName'', JStr ''LogiCommerce'')]
        | Some p \<Rightarrow> JObj [(''legalName'', JStr (bp_legalName p)),
            (''taxIdentifier'', case bp_taxIdentifier p of None \<Rightarrow> JNull | Some x \<Rightarrow> JStr x),
            (''address'', bp_address p)]),
      (''customerId'', JStr (pr_userId pr)),
      (''businessAccountId'', case rq_businessAccountId r of None \<Rightarrow> JNull | Some x \<Rightarrow> JStr x),
      (''quoteNumber'', JStr (fq_number q))]"

definition create_freight_line ::
  "tenant_context \<Rightarrow> uuid \<Rightarrow> freight_quote_line \<Rightarrow> ('m billing_db_scheme, unit) prog"
where
  "create_freight_line ctx invoiceId l =
     seq random_uuid (\<lambda>i.
     seq (create_row invoice_lines invoice_lines_update same_invoice_line
            \<lparr>il_id = i, il_tenantId = ctx_tenantId ctx, il_invoiceId = invoiceId, il_kind = qi_kind l,
             il_description = qi_description l, il_quantity = qi_quantity l,
             il_unitMinor = qi_unitMinor l, il_totalMinor = qi_totalMinor l, il_taxMinor = 0\<rparr>) (\<lambda>_.
     ret ()))"

definition create_freight_schedule ::
  "tenant_context \<Rightarrow> uuid \<Rightarrow> string \<times> int \<times> instant \<times> int \<Rightarrow> ('m billing_db_scheme, unit) prog"
where
  "create_freight_schedule ctx invoiceId p = (case p of (kind, amount, due, sequence) \<Rightarrow>
     seq random_uuid (\<lambda>i.
     seq (create_row schedules schedules_update same_schedule
            \<lparr>is_id = i, is_tenantId = ctx_tenantId ctx, is_invoiceId = invoiceId, is_kind = kind,
             is_amountMinor = amount, is_paidMinor = 0, is_creditedMinor = 0, is_dueAt = due,
             is_status = ''DUE'', is_sequence = sequence, is_checkoutLockKey = None,
             is_checkoutLockUntil = None\<rparr>) (\<lambda>_.
     ret ())))"

text \<open>The invoice of a booking with its lines and schedules.\<close>

definition create_freight_invoice ::
  "tenant_context \<Rightarrow> auth_principal \<Rightarrow> freight_quote \<Rightarrow> freight_request \<Rightarrow> uuid \<Rightarrow> uuid \<Rightarrow> instant
     \<Rightarrow> ('m freight_db_scheme, billing_invoice) prog"
where
  "create_freight_invoice ctx pr q r bookingId invoiceId today =
     seq (nextNumber ctx ''INVOICE'' ''INV'') (\<lambda>number.
     seq (find_row billing_profiles (\<lambda>p. bp_tenantId p = ctx_tenantId ctx)) (\<lambda>profile.
     seq (find_rows freight_quote_lines (\<lambda>l. qi_quoteId l = fq_id q)) (\<lambda>ls.
     seq (create_row invoices invoices_update same_invoice
            \<lparr>bi_id = invoiceId, bi_tenantId = ctx_tenantId ctx, bi_number = number,
             bi_customerId = Some (pr_userId pr), bi_businessAccountId = rq_businessAccountId r,
             bi_commerceOrderId = None, bi_sourceType = ''FREIGHT_BOOKING'', bi_sourceId = bookingId,
             bi_status = ''ISSUED'', bi_currency = fq_currency q, bi_subtotalMinor = fq_subtotalMinor q,
             bi_taxMinor = fq_taxMinor q, bi_totalMinor = fq_totalMinor q, bi_paidMinor = 0,
             bi_creditedMinor = 0, bi_billingSnapshot = billing_snapshot profile pr q r,
             bi_dueAt = today + fq_paymentTermsDays q * day_ms, bi_paidAt = None, bi_version = 1\<rparr>) (\<lambda>b.
     seq (for_each ls (create_freight_line ctx invoiceId)) (\<lambda>_.
     seq (for_each (paymentSchedules (fq_totalMinor q) (fq_depositPercent q) (fq_paymentTermsDays q)
                      (effective_policy q r) today) (create_freight_schedule ctx invoiceId)) (\<lambda>_.
     ret b))))))"

definition new_booking ::
  "tenant_context \<Rightarrow> auth_principal \<Rightarrow> freight_quote \<Rightarrow> freight_request \<Rightarrow> uuid \<Rightarrow> uuid \<Rightarrow> instant
     \<Rightarrow> freight_booking"
where
  "new_booking ctx pr q r bookingId invoiceId today =
     (let netTerms = (effective_policy q r = ''NET_TERMS'') in
     \<lparr>fb_id = bookingId, fb_tenantId = ctx_tenantId ctx, fb_requestId = fq_requestId q,
      fb_quoteId = fq_id q, fb_number = ''FBK-'' @ js_upper (take 8 bookingId),
      fb_status = (if netTerms then ''CONFIRMED'' else ''AWAITING_PAYMENT''),
      fb_customerId = pr_userId pr, fb_businessAccountId = rq_businessAccountId r,
      fb_invoiceId = Some invoiceId, fb_confirmedAt = (if netTerms then Some today else None),
      fb_dispatchedAt = None, fb_deliveredAt = None, fb_completedAt = None, fb_version = 1\<rparr>)"

definition accept_quote_tx ::
  "tenant_context \<Rightarrow> auth_principal \<Rightarrow> freight_quote \<Rightarrow> freight_request \<Rightarrow> uuid \<Rightarrow> uuid \<Rightarrow> instant
     \<Rightarrow> ('m freight_db_scheme, freight_booking \<times> billing_invoice) prog"
where
  "accept_quote_tx ctx pr q r bookingId invoiceId today =
     seq (create_freight_invoice ctx pr q r bookingId invoiceId today) (\<lambda>b.
     seq (create_row freight_bookings freight_bookings_update same_booking
            (new_booking ctx pr q r bookingId invoiceId today)) (\<lambda>k.
     seq (update_row freight_quotes freight_quotes_update (\<lambda>x. fq_id x = fq_id q)
            (\<lambda>x. x\<lparr>fq_status := ''ACCEPTED'', fq_acceptedAt := Some today,
                   fq_version := fq_version x + 1\<rparr>)) (\<lambda>_.
     seq (update_row freight_requests freight_requests_update (\<lambda>x. rq_id x = fq_requestId q)
            (\<lambda>x. x\<lparr>rq_status := ''ACCEPTED'', rq_acceptedAt := Some today,
                   rq_version := rq_version x + 1\<rparr>)) (\<lambda>_.
     seq (freight_audit ctx pr ''freight.quote.accepted'' ''FreightQuote'' (fq_id q)) (\<lambda>_.
     seq (freight_outbox ctx ''billing.invoice.issued.v1'' (''invoice/'' @ invoiceId)
            (JObj [(''invoiceId'', JStr invoiceId), (''bookingId'', JStr bookingId),
                   (''customerId'', JStr (pr_userId pr))])) (\<lambda>_.
     ret (k, b)))))))"

definition acceptQuote ::
  "tenant_context \<Rightarrow> auth_principal \<Rightarrow> uuid \<Rightarrow> ('m freight_db_scheme, freight_booking \<times> billing_invoice) prog"
where
  "acceptQuote ctx pr quoteId =
     seq (freight_quote_for ctx pr quoteId False) (\<lambda>(q, r).
     seq (ensure (fq_status q = ''PUBLISHED'') (Conflict ''Quote is unavailable or expired'')) (\<lambda>_.
     seq now (\<lambda>moment.
     seq (ensure (\<not> fq_validUntil q \<le> moment) (Conflict ''Quote is unavailable or expired'')) (\<lambda>_.
     seq (find_row freight_bookings (\<lambda>k. fb_tenantId k = ctx_tenantId ctx
            \<and> fb_requestId k = fq_requestId q)) (\<lambda>existing.
     seq (ensure (existing = None) (Conflict ''A quote has already been accepted'')) (\<lambda>_.
     seq (case rq_businessAccountId r of
            None \<Rightarrow> ret ()
          | Some a \<Rightarrow> when_do (effective_policy q r = ''NET_TERMS'') (check_credit ctx pr q a)) (\<lambda>_.
     seq random_uuid (\<lambda>bookingId.
     seq random_uuid (\<lambda>invoiceId.
     seq now (\<lambda>today.
     transaction (accept_quote_tx ctx pr q r bookingId invoiceId today)))))))))))"

section \<open>Carriers, drivers and vehicles\<close>

record create_carrier_dto =
  ck_key :: string
  ck_name :: string
  ck_kind :: string
  ck_modes :: "string list"
  ck_contactName :: "string option"
  ck_contactEmail :: "string option"
  ck_contactPhone :: "string option"

definition carriers :: "tenant_context \<Rightarrow> ('m freight_db_scheme, transport_carrier list) prog" where
  "carriers ctx = reads (\<lambda>s. sort_key tc_name
     (filter (\<lambda>c. tc_tenantId c = ctx_tenantId ctx) (transport_carriers s)))"

definition createCarrier ::
  "freight_port \<Rightarrow> tenant_context \<Rightarrow> create_carrier_dto \<Rightarrow> ('m freight_db_scheme, transport_carrier) prog"
where
  "createCarrier port ctx dto =
     seq random_uuid (\<lambda>i.
     seq (encrypt_now port (ck_contactPhone dto)) (\<lambda>phone.
     create_row transport_carriers transport_carriers_update same_carrier
       \<lparr>tc_id = i, tc_tenantId = ctx_tenantId ctx, tc_key = ck_key dto, tc_name = ck_name dto,
        tc_kind = ck_kind dto, tc_modes = ck_modes dto, tc_contactName = ck_contactName dto,
        tc_contactEmail = ck_contactEmail dto, tc_contactPhone = phone, tc_status = ''ACTIVE''\<rparr>))"

definition requireCarrier ::
  "tenant_context \<Rightarrow> uuid \<Rightarrow> ('m freight_db_scheme, transport_carrier) prog" where
  "requireCarrier ctx carrierId =
     seq (find_row transport_carriers (\<lambda>c. tc_id c = carrierId \<and> tc_tenantId c = ctx_tenantId ctx
            \<and> tc_status c = ''ACTIVE'')) (\<lambda>found.
     require found (NotFound ''Resource not found''))"

definition require_carrier_of ::
  "tenant_context \<Rightarrow> uuid option \<Rightarrow> ('m freight_db_scheme, unit) prog" where
  "require_carrier_of ctx carrierId = (case carrierId of
       None \<Rightarrow> ret ()
     | Some c \<Rightarrow> seq (requireCarrier ctx c) (\<lambda>_. ret ()))"

record create_driver_dto =
  cv_carrierId :: "uuid option"
  cv_employeeRef :: "string option"
  cv_displayName :: string
  cv_phone :: string
  cv_licenseNumber :: "string option"
  cv_licenseExpiresAt :: "instant option"

text \<open>A driver with the number masked in place of the stored text.\<close>

definition masked_driver :: "freight_port \<Rightarrow> transport_driver \<Rightarrow> app_error + transport_driver" where
  "masked_driver port d = (case decrypt_contact port (dv_phoneCiphertext d) of
       Inl e \<Rightarrow> Inl e
     | Inr phone \<Rightarrow> Inr (d\<lparr>dv_phoneCiphertext := maskPhone phone\<rparr>))"

definition drivers ::
  "freight_port \<Rightarrow> tenant_context \<Rightarrow> ('m freight_db_scheme, transport_driver list) prog" where
  "drivers port ctx =
     seq (reads (\<lambda>s. sequence_results (map (masked_driver port) (sort_key dv_displayName
            (filter (\<lambda>d. dv_tenantId d = ctx_tenantId ctx) (transport_drivers s)))))) lift_result"

definition createDriver ::
  "freight_port \<Rightarrow> tenant_context \<Rightarrow> create_driver_dto \<Rightarrow> ('m freight_db_scheme, transport_driver) prog"
where
  "createDriver port ctx dto =
     seq (require_carrier_of ctx (cv_carrierId dto)) (\<lambda>_.
     seq random_uuid (\<lambda>i.
     seq (reads (\<lambda>s. encrypt_contact port (cv_phone dto) (uuids_drawn s))) (\<lambda>phone.
     seq (create_row transport_drivers transport_drivers_update same_driver
            \<lparr>dv_id = i, dv_tenantId = ctx_tenantId ctx, dv_carrierId = cv_carrierId dto,
             dv_employeeRef = cv_employeeRef dto, dv_displayName = cv_displayName dto,
             dv_phoneCiphertext = phone, dv_licenseNumber = cv_licenseNumber dto,
             dv_licenseExpiresAt = cv_licenseExpiresAt dto, dv_status = ''AVAILABLE''\<rparr>) (\<lambda>d.
     lift_result (masked_driver port d)))))"

record create_vehicle_dto =
  ch_carrierId :: "uuid option"
  ch_registration :: string
  ch_equipmentType :: string
  ch_capacityKg :: "int option"
  ch_capacityCubicM :: "rat option"

definition vehicles :: "tenant_context \<Rightarrow> ('m freight_db_scheme, transport_vehicle list) prog" where
  "vehicles ctx = reads (\<lambda>s. sort_key vh_registration
     (filter (\<lambda>v. vh_tenantId v = ctx_tenantId ctx) (transport_vehicles s)))"

definition createVehicle ::
  "tenant_context \<Rightarrow> create_vehicle_dto \<Rightarrow> ('m freight_db_scheme, transport_vehicle) prog"
where
  "createVehicle ctx dto =
     seq (require_carrier_of ctx (ch_carrierId dto)) (\<lambda>_.
     seq random_uuid (\<lambda>i.
     create_row transport_vehicles transport_vehicles_update same_vehicle
       \<lparr>vh_id = i, vh_tenantId = ctx_tenantId ctx, vh_carrierId = ch_carrierId dto,
        vh_registration = ch_registration dto, vh_equipmentType = ch_equipmentType dto,
        vh_capacityKg = ch_capacityKg dto, vh_capacityCubicM = ch_capacityCubicM dto,
        vh_status = ''AVAILABLE''\<rparr>))"

section \<open>Bookings\<close>

definition requireOperationalBooking ::
  "tenant_context \<Rightarrow> uuid \<Rightarrow> ('m billing_db_scheme, freight_booking) prog" where
  "requireOperationalBooking ctx bookingId =
     seq (find_row freight_bookings (\<lambda>b. fb_id b = bookingId \<and> fb_tenantId b = ctx_tenantId ctx)) (\<lambda>found.
     require found (NotFound ''Resource not found''))"

definition update_booking ::
  "uuid \<Rightarrow> (freight_booking \<Rightarrow> freight_booking) \<Rightarrow> ('m billing_db_scheme, freight_booking) prog" where
  "update_booking bookingId f =
     update_row freight_bookings freight_bookings_update (\<lambda>x. fb_id x = bookingId)
       (\<lambda>x. (f x)\<lparr>fb_version := fb_version x + 1\<rparr>)"

text \<open>
  \<open>bookings\<close> and \<open>booking\<close>: the visible parts of a booking. \<open>redactBooking\<close> deletes the
  encrypted number of each driver.
\<close>

record booking_leg_view =
  bv_leg :: transport_leg
  bv_assignment :: "(dispatch_assignment \<times> transport_driver option \<times> driver_check_in list) option"
  bv_milestones :: "transport_milestone list"

record booking_view =
  bw_booking :: freight_booking
  bw_legs :: "booking_leg_view list"
  bw_milestones :: "transport_milestone list"
  bw_exceptions :: "freight_exception list"
  bw_proof :: "proof_of_delivery option"

definition check_ins_of :: "'m freight_db_scheme \<Rightarrow> uuid \<Rightarrow> driver_check_in list" where
  "check_ins_of s assignmentId = rev (sort_key dk_reportedAt
     (filter (\<lambda>k. dk_assignmentId k = assignmentId) (driver_check_ins s)))"

definition leg_view ::
  "'m freight_db_scheme \<Rightarrow> (transport_driver \<Rightarrow> transport_driver) \<Rightarrow> transport_leg \<Rightarrow> booking_leg_view" where
  "leg_view s redact l =
     \<lparr>bv_leg = l,
      bv_assignment = map_option
        (\<lambda>a. (a, map_option redact (List.find (\<lambda>d. dv_id d = da_driverId a) (transport_drivers s)),
              check_ins_of s (da_id a)))
        (List.find (\<lambda>a. da_legId a = lg_id l) (dispatch_assignments s)),
      bv_milestones = sort_key tm_occurredAt
        (filter (\<lambda>m. tm_legId m = Some (lg_id l)) (transport_milestones s))\<rparr>"

definition view_booking ::
  "'m freight_db_scheme \<Rightarrow> (transport_driver \<Rightarrow> transport_driver) \<Rightarrow> freight_booking \<Rightarrow> booking_view" where
  "view_booking s redact b =
     \<lparr>bw_booking = b,
      bw_legs = map (leg_view s redact)
        (sort_key lg_sequence (filter (\<lambda>l. lg_bookingId l = fb_id b) (transport_legs s))),
      bw_milestones = sort_key tm_occurredAt (filter (\<lambda>m. tm_bookingId m = fb_id b) (transport_milestones s)),
      bw_exceptions = rev (filter (\<lambda>x. fx_bookingId x = fb_id b) (freight_exceptions s)),
      bw_proof = List.find (\<lambda>p. pf_bookingId p = fb_id b) (proofs_of_delivery s)\<rparr>"

definition redact_driver :: "transport_driver \<Rightarrow> transport_driver" where
  "redact_driver d = d\<lparr>dv_phoneCiphertext := []\<rparr>"

definition bookings ::
  "tenant_context \<Rightarrow> auth_principal \<Rightarrow> bool \<Rightarrow> ('m freight_db_scheme, booking_view list) prog" where
  "bookings ctx pr all = reads (\<lambda>s. map (view_booking s (\<lambda>d. d))
     (rev (filter (\<lambda>b. fb_tenantId b = ctx_tenantId ctx \<and> (all \<or> fb_customerId b = pr_userId pr))
        (freight_bookings s))))"

definition booking ::
  "tenant_context \<Rightarrow> auth_principal \<Rightarrow> uuid \<Rightarrow> bool \<Rightarrow> ('m freight_db_scheme, booking_view) prog" where
  "booking ctx pr bookingId all =
     seq (find_row freight_bookings (\<lambda>b. fb_id b = bookingId \<and> fb_tenantId b = ctx_tenantId ctx
            \<and> (all \<or> fb_customerId b = pr_userId pr))) (\<lambda>found.
     seq (require found (NotFound ''Resource not found'')) (\<lambda>b.
     reads (\<lambda>s. view_booking s redact_driver b)))"

section \<open>Legs and assignments\<close>

record create_leg_dto =
  gd_sequence :: int
  gd_mode :: string
  gd_originStopId :: uuid
  gd_destinationStopId :: uuid
  gd_carrierId :: "uuid option"
  gd_providerReference :: "string option"
  gd_plannedDepartureAt :: "instant option"
  gd_plannedArrivalAt :: "instant option"
  gd_equipment :: "json option"

definition addLeg ::
  "tenant_context \<Rightarrow> uuid \<Rightarrow> create_leg_dto \<Rightarrow> ('m freight_db_scheme, transport_leg) prog"
where
  "addLeg ctx bookingId dto =
     seq (requireOperationalBooking ctx bookingId) (\<lambda>b.
     seq (ensure (fb_status b \<in> {''CONFIRMED'', ''PLANNED''})
            (Conflict ''Booking is not available for planning'')) (\<lambda>_.
     seq (count_rows freight_stops (\<lambda>x. sp_tenantId x = ctx_tenantId ctx \<and> sp_requestId x = fb_requestId b
            \<and> sp_id x \<in> {gd_originStopId dto, gd_destinationStopId dto})) (\<lambda>stops.
     seq (ensure (stops = 2) (Conflict ''Leg endpoints must belong to the booking request'')) (\<lambda>_.
     seq (require_carrier_of ctx (gd_carrierId dto)) (\<lambda>_.
     transaction
       (seq random_uuid (\<lambda>i.
        seq (create_row transport_legs transport_legs_update same_leg
               \<lparr>lg_id = i, lg_tenantId = ctx_tenantId ctx, lg_bookingId = bookingId,
                lg_sequence = gd_sequence dto, lg_mode = gd_mode dto, lg_originStopId = gd_originStopId dto,
                lg_destinationStopId = gd_destinationStopId dto, lg_carrierId = gd_carrierId dto,
                lg_providerReference = gd_providerReference dto, lg_status = ''PLANNED'',
                lg_plannedDepartureAt = gd_plannedDepartureAt dto,
                lg_plannedArrivalAt = gd_plannedArrivalAt dto, lg_actualDepartureAt = None,
                lg_actualArrivalAt = None, lg_equipment = gd_equipment dto\<rparr>) (\<lambda>l.
        seq (update_booking bookingId (\<lambda>x. x\<lparr>fb_status := ''PLANNED''\<rparr>)) (\<lambda>_.
        ret l)))))))))"

record create_assignment_dto =
  gn_driverId :: uuid
  gn_vehicleId :: uuid
  gn_carrierId :: "uuid option"
  gn_checkInIntervalMinutes :: "int option"

definition set_driver :: "uuid \<Rightarrow> string \<Rightarrow> ('m freight_db_scheme, unit) prog" where
  "set_driver driverId status =
     seq (update_row transport_drivers transport_drivers_update (\<lambda>x. dv_id x = driverId)
            (\<lambda>x. x\<lparr>dv_status := status\<rparr>)) (\<lambda>_. ret ())"

definition set_vehicle :: "uuid \<Rightarrow> string \<Rightarrow> ('m freight_db_scheme, unit) prog" where
  "set_vehicle vehicleId status =
     seq (update_row transport_vehicles transport_vehicles_update (\<lambda>x. vh_id x = vehicleId)
            (\<lambda>x. x\<lparr>vh_status := status\<rparr>)) (\<lambda>_. ret ())"

definition assign_tx ::
  "tenant_context \<Rightarrow> auth_principal \<Rightarrow> uuid \<Rightarrow> create_assignment_dto \<Rightarrow> transport_driver \<Rightarrow> transport_vehicle
     \<Rightarrow> ('m freight_db_scheme, dispatch_assignment) prog"
where
  "assign_tx ctx pr legId dto d v =
     seq random_uuid (\<lambda>i.
     seq (create_row dispatch_assignments dispatch_assignments_update same_assignment
            \<lparr>da_id = i, da_tenantId = ctx_tenantId ctx, da_legId = legId,
             da_carrierId = (if gn_carrierId dto = None then dv_carrierId d else gn_carrierId dto),
             da_driverId = dv_id d, da_vehicleId = vh_id v, da_status = ''ASSIGNED'',
             da_checkInIntervalMinutes = or_default (gn_checkInIntervalMinutes dto) 240,
             da_nextCheckInAt = None, da_assignedBy = pr_userId pr, da_startedAt = None,
             da_completedAt = None, da_version = 1\<rparr>) (\<lambda>a.
     seq (set_driver (dv_id d) ''ASSIGNED'') (\<lambda>_.
     seq (set_vehicle (vh_id v) ''ASSIGNED'') (\<lambda>_.
     seq (freight_audit ctx pr ''transport.assignment.created'' ''DispatchAssignment'' (da_id a)) (\<lambda>_.
     ret a)))))"

definition assign ::
  "tenant_context \<Rightarrow> auth_principal \<Rightarrow> uuid \<Rightarrow> create_assignment_dto
     \<Rightarrow> ('m freight_db_scheme, dispatch_assignment) prog"
where
  "assign ctx pr legId dto =
     seq (find_row transport_legs (\<lambda>l. lg_id l = legId \<and> lg_tenantId l = ctx_tenantId ctx)) (\<lambda>found.
     seq (require found (NotFound ''Resource not found'')) (\<lambda>l.
     seq (ensure (lg_mode l = ''ROAD'') (Conflict ''Only road legs accept driver assignments'')) (\<lambda>_.
     seq (find_row transport_drivers (\<lambda>d. dv_id d = gn_driverId dto \<and> dv_tenantId d = ctx_tenantId ctx
            \<and> dv_status d = ''AVAILABLE'')) (\<lambda>foundDriver.
     seq (find_row transport_vehicles (\<lambda>v. vh_id v = gn_vehicleId dto \<and> vh_tenantId v = ctx_tenantId ctx
            \<and> vh_status v = ''AVAILABLE'')) (\<lambda>foundVehicle.
     seq (require foundDriver (Conflict ''Driver or vehicle is unavailable'')) (\<lambda>d.
     seq (require foundVehicle (Conflict ''Driver or vehicle is unavailable'')) (\<lambda>v.
     seq (ensure (\<not> (gn_carrierId dto \<noteq> None
               \<and> (dv_carrierId d \<noteq> gn_carrierId dto \<or> vh_carrierId v \<noteq> gn_carrierId dto)))
            (Conflict ''Driver and vehicle must belong to the selected carrier'')) (\<lambda>_.
     transaction (assign_tx ctx pr legId dto d v)))))))))"

text \<open>\<open>requireAssignment\<close>: an assignment with its leg.\<close>

definition requireAssignment ::
  "tenant_context \<Rightarrow> uuid \<Rightarrow> ('m freight_db_scheme, dispatch_assignment \<times> transport_leg) prog" where
  "requireAssignment ctx assignmentId =
     seq (find_row dispatch_assignments (\<lambda>a. da_id a = assignmentId \<and> da_tenantId a = ctx_tenantId ctx)) (\<lambda>found.
     seq (require found (NotFound ''Resource not found'')) (\<lambda>a.
     seq (find_row transport_legs (\<lambda>l. lg_id l = da_legId a)) (\<lambda>leg.
     seq (require leg RecordMissing) (\<lambda>l.
     ret (a, l)))))"

definition update_assignment ::
  "uuid \<Rightarrow> (dispatch_assignment \<Rightarrow> dispatch_assignment) \<Rightarrow> ('m freight_db_scheme, dispatch_assignment) prog"
where
  "update_assignment assignmentId f =
     update_row dispatch_assignments dispatch_assignments_update (\<lambda>x. da_id x = assignmentId)
       (\<lambda>x. (f x)\<lparr>da_version := da_version x + 1\<rparr>)"

definition update_leg ::
  "uuid \<Rightarrow> (transport_leg \<Rightarrow> transport_leg) \<Rightarrow> ('m freight_db_scheme, unit) prog"
where
  "update_leg legId f =
     seq (update_row transport_legs transport_legs_update (\<lambda>x. lg_id x = legId) f) (\<lambda>_. ret ())"

datatype assignment_action = START | COMPLETE | CANCEL

definition start_assignment_tx ::
  "dispatch_assignment \<Rightarrow> transport_leg \<Rightarrow> instant \<Rightarrow> ('m freight_db_scheme, dispatch_assignment) prog"
where
  "start_assignment_tx a l today =
     seq (update_assignment (da_id a) (\<lambda>x. x\<lparr>da_status := ''IN_TRANSIT'', da_startedAt := Some today,
            da_nextCheckInAt := Some (today + da_checkInIntervalMinutes a * 60000)\<rparr>)) (\<lambda>updated.
     seq (update_leg (da_legId a) (\<lambda>x. x\<lparr>lg_status := ''IN_TRANSIT'', lg_actualDepartureAt := Some today\<rparr>)) (\<lambda>_.
     seq (update_booking (lg_bookingId l) (\<lambda>x. x\<lparr>fb_status := ''IN_TRANSIT'', fb_dispatchedAt := Some today\<rparr>)) (\<lambda>_.
     ret updated)))"

definition finish_assignment_tx ::
  "tenant_context \<Rightarrow> auth_principal \<Rightarrow> dispatch_assignment \<Rightarrow> string \<Rightarrow> instant
     \<Rightarrow> ('m freight_db_scheme, dispatch_assignment) prog"
where
  "finish_assignment_tx ctx pr a terminal today =
     seq (update_assignment (da_id a) (\<lambda>x. x\<lparr>da_status := terminal, da_completedAt := Some today,
            da_nextCheckInAt := None\<rparr>)) (\<lambda>updated.
     seq (set_driver (da_driverId a) ''AVAILABLE'') (\<lambda>_.
     seq (set_vehicle (da_vehicleId a) ''AVAILABLE'') (\<lambda>_.
     seq (update_leg (da_legId a) (\<lambda>x. x\<lparr>lg_status := terminal, lg_actualArrivalAt :=
            (if terminal = ''COMPLETED'' then Some today else lg_actualArrivalAt x)\<rparr>)) (\<lambda>_.
     seq (freight_audit ctx pr (''transport.assignment.'' @ map lower_char terminal)
            ''DispatchAssignment'' (da_id a)) (\<lambda>_.
     ret updated)))))"

definition transitionAssignment ::
  "tenant_context \<Rightarrow> auth_principal \<Rightarrow> uuid \<Rightarrow> assignment_action
     \<Rightarrow> ('m freight_db_scheme, dispatch_assignment) prog"
where
  "transitionAssignment ctx pr assignmentId action =
     seq (requireAssignment ctx assignmentId) (\<lambda>(a, l).
     seq now (\<lambda>today.
     if action = START then
       seq (ensure (da_status a = ''ASSIGNED'') (Conflict ''Assignment cannot start'')) (\<lambda>_.
       transaction (start_assignment_tx a l today))
     else
       seq (ensure (da_status a \<in> {''ASSIGNED'', ''IN_TRANSIT''})
              (Conflict ''Assignment is already terminal'')) (\<lambda>_.
       transaction (finish_assignment_tx ctx pr a
         (if action = COMPLETE then ''COMPLETED'' else ''CANCELLED'') today))))"

section \<open>Check-ins, milestones and delivery\<close>

record driver_check_in_dto =
  kd_source :: string
  kd_outcome :: string
  kd_locationText :: string
  kd_latitude :: "rat option"
  kd_longitude :: "rat option"
  kd_reportedAt :: instant
  kd_estimatedArrivalAt :: "instant option"
  kd_note :: "string option"
  kd_exceptionCode :: "string option"
  kd_nextCheckInAt :: "instant option"
  kd_externalKey :: string

definition check_in_milestone ::
  "tenant_context \<Rightarrow> auth_principal \<Rightarrow> dispatch_assignment \<Rightarrow> transport_leg \<Rightarrow> driver_check_in_dto \<Rightarrow> uuid
     \<Rightarrow> transport_milestone"
where
  "check_in_milestone ctx pr a l dto i =
     \<lparr>tm_id = i, tm_tenantId = ctx_tenantId ctx, tm_bookingId = lg_bookingId l, tm_legId = Some (da_legId a),
      tm_code = (if kd_outcome dto = ''REACHED'' then ''DRIVER_CHECK_IN'' else kd_outcome dto),
      tm_description = or_default (kd_note dto) (''Driver contact outcome: '' @ kd_outcome dto),
      tm_location = Some (kd_locationText dto), tm_latitude = kd_latitude dto,
      tm_longitude = kd_longitude dto, tm_occurredAt = kd_reportedAt dto, tm_source = kd_source dto,
      tm_recordedBy = Some (pr_userId pr), tm_externalKey = ''checkin:'' @ kd_externalKey dto,
      tm_payload = None\<rparr>"

definition check_in_exception ::
  "tenant_context \<Rightarrow> auth_principal \<Rightarrow> dispatch_assignment \<Rightarrow> transport_leg \<Rightarrow> driver_check_in_dto \<Rightarrow> uuid
     \<Rightarrow> freight_exception"
where
  "check_in_exception ctx pr a l dto i =
     \<lparr>fx_id = i, fx_tenantId = ctx_tenantId ctx, fx_bookingId = lg_bookingId l,
      fx_assignmentId = Some (da_id a), fx_code = or_default (kd_exceptionCode dto) (kd_outcome dto),
      fx_severity = (if kd_outcome dto = ''EXCEPTION'' then ''HIGH'' else ''MEDIUM''), fx_status = ''OPEN'',
      fx_description = or_default (kd_note dto) (kd_outcome dto @ '' reported by driver coordinator''),
      fx_openedBy = Some (pr_userId pr), fx_resolvedBy = None, fx_resolvedAt = None\<rparr>"

definition check_in_tx ::
  "tenant_context \<Rightarrow> auth_principal \<Rightarrow> dispatch_assignment \<Rightarrow> transport_leg \<Rightarrow> driver_check_in_dto \<Rightarrow> instant
     \<Rightarrow> ('m freight_db_scheme, driver_check_in) prog"
where
  "check_in_tx ctx pr a l dto next_at =
     seq random_uuid (\<lambda>i.
     seq (create_row driver_check_ins driver_check_ins_update same_check_in
            \<lparr>dk_id = i, dk_tenantId = ctx_tenantId ctx, dk_assignmentId = da_id a,
             dk_coordinatorId = pr_userId pr, dk_source = kd_source dto, dk_outcome = kd_outcome dto,
             dk_locationText = kd_locationText dto, dk_latitude = kd_latitude dto,
             dk_longitude = kd_longitude dto, dk_reportedAt = kd_reportedAt dto,
             dk_estimatedArrivalAt = kd_estimatedArrivalAt dto, dk_note = kd_note dto,
             dk_exceptionCode = kd_exceptionCode dto, dk_nextCheckInAt = Some next_at,
             dk_externalKey = kd_externalKey dto\<rparr>) (\<lambda>k.
     seq (update_assignment (da_id a) (\<lambda>x. x\<lparr>da_nextCheckInAt := Some next_at\<rparr>)) (\<lambda>_.
     seq random_uuid (\<lambda>m.
     seq (create_row transport_milestones transport_milestones_update same_milestone
            (check_in_milestone ctx pr a l dto m)) (\<lambda>_.
     seq now (\<lambda>resolved.
     seq (update_many freight_exceptions freight_exceptions_update
            (\<lambda>x. fx_tenantId x = ctx_tenantId ctx \<and> fx_assignmentId x = Some (da_id a)
               \<and> fx_status x = ''OPEN'' \<and> fx_code x = ''CHECK_IN_OVERDUE'')
            (\<lambda>x. x\<lparr>fx_status := ''RESOLVED'', fx_resolvedBy := Some (pr_userId pr),
                   fx_resolvedAt := Some resolved\<rparr>)) (\<lambda>_.
     seq (when_do (kd_outcome dto \<in> {''DELAY'', ''EXCEPTION''})
            (seq random_uuid (\<lambda>x.
             seq (create_row freight_exceptions freight_exceptions_update same_exception
                    (check_in_exception ctx pr a l dto x)) (\<lambda>_.
             ret ())))) (\<lambda>_.
     seq (freight_audit ctx pr ''transport.driver.checkin'' ''DispatchAssignment'' (da_id a)) (\<lambda>_.
     ret k)))))))))"

definition checkIn ::
  "tenant_context \<Rightarrow> auth_principal \<Rightarrow> uuid \<Rightarrow> driver_check_in_dto \<Rightarrow> ('m freight_db_scheme, driver_check_in) prog"
where
  "checkIn ctx pr assignmentId dto =
     seq (requireAssignment ctx assignmentId) (\<lambda>(a, l).
     seq (ensure (da_status a = ''IN_TRANSIT'') (Conflict ''Assignment is not in transit'')) (\<lambda>_.
     seq (find_row driver_check_ins (\<lambda>k. dk_tenantId k = ctx_tenantId ctx
            \<and> dk_assignmentId k = assignmentId \<and> dk_externalKey k = kd_externalKey dto)) (\<lambda>existing.
     case existing of
       Some k \<Rightarrow> ret k
     | None \<Rightarrow>
         seq (case kd_nextCheckInAt dto of
                Some t \<Rightarrow> ret t
              | None \<Rightarrow> seq now (\<lambda>t. ret (t + da_checkInIntervalMinutes a * 60000))) (\<lambda>next_at.
         transaction (check_in_tx ctx pr a l dto next_at)))))"

record transport_milestone_dto =
  md_legId :: "uuid option"
  md_code :: string
  md_description :: string
  md_location :: "string option"
  md_latitude :: "rat option"
  md_longitude :: "rat option"
  md_occurredAt :: instant
  md_source :: string
  md_externalKey :: string
  md_payload :: "json option"

definition milestone ::
  "tenant_context \<Rightarrow> auth_principal \<Rightarrow> uuid \<Rightarrow> transport_milestone_dto
     \<Rightarrow> ('m freight_db_scheme, transport_milestone) prog"
where
  "milestone ctx pr bookingId dto =
     seq (requireOperationalBooking ctx bookingId) (\<lambda>_.
     seq (case md_legId dto of
            None \<Rightarrow> ret ()
          | Some i \<Rightarrow>
              seq (find_row transport_legs (\<lambda>l. lg_id l = i \<and> lg_tenantId l = ctx_tenantId ctx
                     \<and> lg_bookingId l = bookingId)) (\<lambda>leg.
              ensure (leg \<noteq> None) (NotFound ''Resource not found''))) (\<lambda>_.
     seq random_uuid (\<lambda>i.
     upsert_row transport_milestones transport_milestones_update same_milestone
       (\<lambda>m. tm_tenantId m = ctx_tenantId ctx \<and> tm_bookingId m = bookingId
          \<and> tm_externalKey m = md_externalKey dto)
       (\<lambda>m. m)
       \<lparr>tm_id = i, tm_tenantId = ctx_tenantId ctx, tm_bookingId = bookingId, tm_legId = md_legId dto,
        tm_code = md_code dto, tm_description = md_description dto, tm_location = md_location dto,
        tm_latitude = md_latitude dto, tm_longitude = md_longitude dto,
        tm_occurredAt = md_occurredAt dto, tm_source = md_source dto,
        tm_recordedBy = Some (pr_userId pr), tm_externalKey = md_externalKey dto,
        tm_payload = md_payload dto\<rparr>)))"

record proof_of_delivery_dto =
  pg_recipient :: string
  pg_deliveredAt :: instant
  pg_documentId :: "uuid option"
  pg_note :: "string option"

definition proof_tx ::
  "tenant_context \<Rightarrow> auth_principal \<Rightarrow> uuid \<Rightarrow> proof_of_delivery_dto \<Rightarrow> ('m freight_db_scheme, proof_of_delivery) prog"
where
  "proof_tx ctx pr bookingId dto =
     seq random_uuid (\<lambda>i.
     seq (create_row proofs_of_delivery proofs_of_delivery_update same_proof
            \<lparr>pf_id = i, pf_tenantId = ctx_tenantId ctx, pf_bookingId = bookingId,
             pf_documentId = pg_documentId dto, pf_recipient = pg_recipient dto,
             pf_deliveredAt = pg_deliveredAt dto, pf_note = pg_note dto, pf_recordedBy = pr_userId pr\<rparr>) (\<lambda>p.
     seq (update_booking bookingId (\<lambda>x. x\<lparr>fb_status := ''DELIVERED'',
            fb_deliveredAt := Some (pg_deliveredAt dto)\<rparr>)) (\<lambda>_.
     seq random_uuid (\<lambda>m.
     seq (create_row transport_milestones transport_milestones_update same_milestone
            \<lparr>tm_id = m, tm_tenantId = ctx_tenantId ctx, tm_bookingId = bookingId, tm_legId = None,
             tm_code = ''DELIVERED'', tm_description = ''Delivered to '' @ pg_recipient dto,
             tm_location = None, tm_latitude = None, tm_longitude = None,
             tm_occurredAt = pg_deliveredAt dto, tm_source = ''PROOF_OF_DELIVERY'',
             tm_recordedBy = Some (pr_userId pr), tm_externalKey = ''pod:'' @ pf_id p, tm_payload = None\<rparr>) (\<lambda>_.
     seq (freight_outbox ctx ''freight.booking.delivered.v1'' (''freight-booking/'' @ bookingId)
            (JObj [(''bookingId'', JStr bookingId), (''proofOfDeliveryId'', JStr (pf_id p))])) (\<lambda>_.
     ret p))))))"

definition proofOfDelivery ::
  "tenant_context \<Rightarrow> auth_principal \<Rightarrow> uuid \<Rightarrow> proof_of_delivery_dto
     \<Rightarrow> ('m freight_db_scheme, proof_of_delivery) prog"
where
  "proofOfDelivery ctx pr bookingId dto =
     seq (requireOperationalBooking ctx bookingId) (\<lambda>b.
     seq (ensure (fb_status b \<in> {''DISPATCHED'', ''IN_TRANSIT'', ''EXCEPTION''})
            (Conflict ''Booking is not eligible for delivery'')) (\<lambda>_.
     seq (case pg_documentId dto of
            None \<Rightarrow> ret ()
          | Some i \<Rightarrow>
              seq (find_row freight_documents (\<lambda>d. dc_id d = i \<and> dc_tenantId d = ctx_tenantId ctx
                     \<and> dc_requestId d = fb_requestId b \<and> dc_kind d = ''PROOF_OF_DELIVERY''
                     \<and> dc_scanStatus d = ''CLEAN'')) (\<lambda>document.
              ensure (document \<noteq> None) (NotFound ''Proof-of-delivery document not found''))) (\<lambda>_.
     transaction (proof_tx ctx pr bookingId dto))))"

definition completeBooking ::
  "tenant_context \<Rightarrow> auth_principal \<Rightarrow> uuid \<Rightarrow> ('m freight_db_scheme, freight_booking) prog"
where
  "completeBooking ctx pr bookingId =
     seq (requireOperationalBooking ctx bookingId) (\<lambda>b.
     seq (ensure (fb_status b = ''DELIVERED'') (Conflict ''Proof of delivery is required'')) (\<lambda>_.
     transaction
       (seq now (\<lambda>completed.
        seq (update_booking bookingId (\<lambda>x. x\<lparr>fb_status := ''COMPLETED'', fb_completedAt := Some completed\<rparr>)) (\<lambda>b.
        seq (freight_audit ctx pr ''freight.booking.completed'' ''FreightBooking'' bookingId) (\<lambda>_.
        ret b))))))"

text \<open>
  \<open>dispatchBoard\<close>: the assignments under way with their last check-ins and open exceptions, by the
  next check-in, those without one first.
\<close>

definition dispatchBoard ::
  "tenant_context
     \<Rightarrow> ('m freight_db_scheme, (dispatch_assignment \<times> driver_check_in list \<times> freight_exception list) list) prog"
where
  "dispatchBoard ctx = reads (\<lambda>s.
     let active = filter (\<lambda>a. da_tenantId a = ctx_tenantId ctx \<and> da_status a \<in> {''ASSIGNED'', ''IN_TRANSIT''})
           (dispatch_assignments s)
     in map (\<lambda>a. (a, take 5 (check_ins_of s (da_id a)),
            filter (\<lambda>x. fx_assignmentId x = Some (da_id a) \<and> fx_status x = ''OPEN'') (freight_exceptions s)))
          (filter (\<lambda>a. da_nextCheckInAt a = None) active
           @ sort_key (\<lambda>a. or_default (da_nextCheckInAt a) 0) (filter (\<lambda>a. da_nextCheckInAt a \<noteq> None) active)))"

section \<open>Tables\<close>

interpretation freight_requests: row_store freight_requests freight_requests_update
  by unfold_locales simp_all

interpretation freight_quotes: row_store freight_quotes freight_quotes_update
  by unfold_locales simp_all

interpretation freight_bookings: row_store freight_bookings freight_bookings_update
  by unfold_locales simp_all

interpretation dispatch_assignments: row_store dispatch_assignments dispatch_assignments_update
  by unfold_locales simp_all

interpretation transport_drivers: row_store transport_drivers transport_drivers_update
  by unfold_locales simp_all

interpretation transport_vehicles: row_store transport_vehicles transport_vehicles_update
  by unfold_locales simp_all

definition fresh_freight :: freight_db where
  "fresh_freight = billing_db.extend fresh_billing
     (freight_db.fields [] [] [] [] [] [] [] [] [] [] [] [] [] [] [] [] [] [])"

end
