(* ===== verification/Insurance.thy ===== *)
theory Insurance
  imports Freight Logistics_Rules
begin

text \<open>
  Cargo insurance: providers and their products, quotes over freight requests, policies with
  their premium invoice, claims: the insurance part of
  \<open>apps/api/src/international-logistics/international-logistics.repository.ts\<close>. Policies are rows
  of \<open>Billing\<close>, because a captured payment activates them.

  The records of request bodies hold what \<open>international-logistics.dto.ts\<close> lets through: lists of
  strings where the columns are JSON, instants where the bodies have ISO dates.
\<close>

section \<open>Rows\<close>

record create_insurance_provider_dto =
  vp_key :: string
  vp_name :: string
  vp_kind :: string
  vp_countries :: "string list"
  vp_modes :: "string list"
  vp_currencies :: "string list"
  vp_licenseRefs :: "json option"

record insurance_provider = create_insurance_provider_dto +
  vp_id :: uuid
  vp_tenantId :: uuid
  vp_status :: string

record create_insurance_product_dto =
  vd_code :: string
  vd_name :: string
  vd_policyType :: string
  vd_coverageLevel :: string
  vd_clauses :: "string list"
  vd_exclusions :: "string list option"
  vd_supportedModes :: "string list"
  vd_supportedCountries :: "string list"
  vd_currency :: string
  vd_rateBasisPoints :: int
  vd_minimumPremiumMinor :: int
  vd_deductibleType :: string
  vd_deductibleValue :: int
  vd_valuationUpliftPercent :: int
  vd_maxInsuredValueMinor :: "int option"
  vd_effectiveAt :: instant
  vd_expiresAt :: "instant option"

record insurance_product = create_insurance_product_dto +
  vd_id :: uuid
  vd_tenantId :: uuid
  vd_providerId :: uuid
  vd_version :: int
  vd_status :: string

record insurance_quote =
  vq_id :: uuid
  vq_tenantId :: uuid
  vq_requestId :: uuid
  vq_productId :: uuid
  vq_number :: string
  vq_status :: string
  vq_currency :: string
  vq_declaredValueMinor :: int
  vq_insuredValueMinor :: int
  vq_premiumMinor :: int
  vq_taxMinor :: int
  vq_totalMinor :: int
  vq_coverageStartAt :: instant
  vq_coverageEndAt :: instant
  vq_clausesSnapshot :: json
  vq_exclusionsSnapshot :: "json option"
  vq_deductibleSnapshot :: json
  vq_validUntil :: instant
  vq_createdBy :: uuid
  vq_acceptedAt :: "instant option"
  vq_version :: int

record insurance_claim =
  vc_id :: uuid
  vc_tenantId :: uuid
  vc_policyId :: uuid
  vc_number :: string
  vc_status :: string
  vc_cause :: string
  vc_lossOccurredAt :: instant
  vc_discoveredAt :: instant
  vc_lossLocation :: string
  vc_description :: string
  vc_claimedAmountMinor :: int
  vc_approvedAmountMinor :: "int option"
  vc_paidAmountMinor :: int
  vc_currency :: string
  vc_evidence :: "json option"
  vc_version :: int
  vc_submittedAt :: "instant option"
  vc_resolvedAt :: "instant option"
  vc_createdBy :: uuid

record insurance_claim_event =
  ve_id :: uuid
  ve_tenantId :: uuid
  ve_claimId :: uuid
  ve_type :: string
  ve_fromStatus :: "string option"
  ve_toStatus :: "string option"
  ve_note :: "string option"
  ve_evidence :: "json option"
  ve_actorId :: uuid

record insurance_db = freight_db +
  insurance_providers :: "insurance_provider list"
  insurance_products :: "insurance_product list"
  insurance_quotes :: "insurance_quote list"
  insurance_claims :: "insurance_claim list"
  claim_events :: "insurance_claim_event list"

section \<open>Unique keys\<close>

definition same_insurance_provider :: "insurance_provider \<Rightarrow> insurance_provider \<Rightarrow> bool" where
  "same_insurance_provider a b \<longleftrightarrow> vp_id a = vp_id b \<or> vp_tenantId a = vp_tenantId b \<and> vp_key a = vp_key b"

definition same_insurance_product :: "insurance_product \<Rightarrow> insurance_product \<Rightarrow> bool" where
  "same_insurance_product a b \<longleftrightarrow> vd_id a = vd_id b
     \<or> vd_tenantId a = vd_tenantId b \<and> vd_providerId a = vd_providerId b \<and> vd_code a = vd_code b
       \<and> vd_version a = vd_version b"

definition same_insurance_quote :: "insurance_quote \<Rightarrow> insurance_quote \<Rightarrow> bool" where
  "same_insurance_quote a b \<longleftrightarrow> vq_id a = vq_id b
     \<or> vq_tenantId a = vq_tenantId b \<and> vq_number a = vq_number b"

definition same_policy :: "insurance_policy \<Rightarrow> insurance_policy \<Rightarrow> bool" where
  "same_policy a b \<longleftrightarrow> ip_id a = ip_id b \<or> ip_quoteId a = ip_quoteId b
     \<or> ip_tenantId a = ip_tenantId b
       \<and> (ip_policyNumber a = ip_policyNumber b \<or> ip_certificateNumber a = ip_certificateNumber b)"

definition same_claim :: "insurance_claim \<Rightarrow> insurance_claim \<Rightarrow> bool" where
  "same_claim a b \<longleftrightarrow> vc_id a = vc_id b \<or> vc_tenantId a = vc_tenantId b \<and> vc_number a = vc_number b"

definition same_claim_event :: "insurance_claim_event \<Rightarrow> insurance_claim_event \<Rightarrow> bool" where
  "same_claim_event a b \<longleftrightarrow> ve_id a = ve_id b"

section \<open>Providers and products\<close>

text \<open>\<open>insuranceCatalog\<close>: providers by name, the products of each by code, the latest version first.\<close>

definition insuranceCatalog ::
  "tenant_context \<Rightarrow> ('m insurance_db_scheme, (insurance_provider \<times> insurance_product list) list) prog" where
  "insuranceCatalog ctx = reads (\<lambda>s. map
     (\<lambda>p. (p, sort_key vd_code (sort_key (\<lambda>d. - vd_version d)
            (filter (\<lambda>d. vd_providerId d = vp_id p) (insurance_products s)))))
     (sort_key vp_name (filter (\<lambda>p. vp_tenantId p = ctx_tenantId ctx) (insurance_providers s))))"

definition createInsuranceProvider ::
  "tenant_context \<Rightarrow> auth_principal \<Rightarrow> create_insurance_provider_dto
     \<Rightarrow> ('m insurance_db_scheme, insurance_provider) prog"
where
  "createInsuranceProvider ctx pr dto =
     seq random_uuid (\<lambda>i.
     transaction
       (seq (create_row insurance_providers insurance_providers_update same_insurance_provider
               (create_insurance_provider_dto.extend dto
                  (insurance_provider.fields i (ctx_tenantId ctx) ''ACTIVE''))) (\<lambda>p.
        seq (freight_audit ctx pr ''insurance.provider.created'' ''CargoInsuranceProvider'' i) (\<lambda>_.
        ret p))))"

text \<open>\<open>aggregate\<close> of a maximum: \<open>null\<close> over no rows.\<close>

definition max_of :: "int list \<Rightarrow> int option" where
  "max_of xs = (case xs of [] \<Rightarrow> None | y # ys \<Rightarrow> Some (foldl max y ys))"

definition createInsuranceProduct ::
  "tenant_context \<Rightarrow> auth_principal \<Rightarrow> uuid \<Rightarrow> create_insurance_product_dto
     \<Rightarrow> ('m insurance_db_scheme, insurance_product) prog"
where
  "createInsuranceProduct ctx pr providerId dto =
     seq (find_row insurance_providers (\<lambda>p. vp_id p = providerId \<and> vp_tenantId p = ctx_tenantId ctx
            \<and> vp_status p = ''ACTIVE'')) (\<lambda>found.
     seq (require found (NotFound ''Resource not found'')) (\<lambda>_.
     seq (find_rows insurance_products (\<lambda>d. vd_tenantId d = ctx_tenantId ctx
            \<and> vd_providerId d = providerId \<and> vd_code d = vd_code dto)) (\<lambda>earlier.
     seq random_uuid (\<lambda>i.
     create_row insurance_products insurance_products_update same_insurance_product
       (create_insurance_product_dto.extend dto
          (insurance_product.fields i (ctx_tenantId ctx) providerId
             (or_default (max_of (map vd_version earlier)) 0 + 1) ''ACTIVE''))))))"

section \<open>Quotes\<close>

record create_insurance_quote_dto =
  vi_requestId :: uuid
  vi_productId :: uuid
  vi_coverageStartAt :: instant
  vi_coverageEndAt :: instant
  vi_validUntil :: instant
  vi_taxMinor :: "int option"

text \<open>
  The cover and its price. \<open>BigInt\<close> division truncates, which is \<open>div\<close> for these amounts: the
  declared value is positive here and the percentages are not negative.
\<close>

definition insured_value :: "int \<Rightarrow> int \<Rightarrow> int" where
  "insured_value declaredValue upliftPercent = (declaredValue * (100 + upliftPercent) + 99) div 100"

definition premium_of :: "insurance_product \<Rightarrow> int \<Rightarrow> int" where
  "premium_of d insuredValue =
     max ((insuredValue * vd_rateBasisPoints d + 9999) div 10000) (vd_minimumPremiumMinor d)"

definition covers_request :: "insurance_product \<Rightarrow> freight_request \<Rightarrow> freight_stop list \<Rightarrow> app_error + unit" where
  "covers_request d r stops =
     (if \<not> list_ex (\<lambda>mode. mode \<in> set (vd_supportedModes d)) (rq_preferredModes r)
      then Inl (Conflict ''Insurance product does not support the requested modes'')
      else if vd_supportedCountries d \<noteq> []
              \<and> list_ex (\<lambda>p. sp_countryCode p \<notin> set (vd_supportedCountries d)) stops
      then Inl (Conflict ''Insurance product does not support the complete route'')
      else Inr ())"

definition json_strings :: "string list \<Rightarrow> json" where
  "json_strings xs = JArr (map JStr xs)"

definition new_insurance_quote ::
  "tenant_context \<Rightarrow> auth_principal \<Rightarrow> create_insurance_quote_dto \<Rightarrow> insurance_product \<Rightarrow> uuid \<Rightarrow> int
     \<Rightarrow> insurance_quote"
where
  "new_insurance_quote ctx pr dto d i declaredValue =
     (let insuredValue = insured_value declaredValue (vd_valuationUpliftPercent d);
          premium = premium_of d insuredValue; tax = or_default (vi_taxMinor dto) 0
      in \<lparr>vq_id = i, vq_tenantId = ctx_tenantId ctx, vq_requestId = vi_requestId dto,
          vq_productId = vd_id d, vq_number = ''INQ-'' @ js_upper (take 8 i), vq_status = ''QUOTED'',
          vq_currency = vd_currency d, vq_declaredValueMinor = declaredValue,
          vq_insuredValueMinor = insuredValue, vq_premiumMinor = premium, vq_taxMinor = tax,
          vq_totalMinor = premium + tax, vq_coverageStartAt = vi_coverageStartAt dto,
          vq_coverageEndAt = vi_coverageEndAt dto, vq_clausesSnapshot = json_strings (vd_clauses d),
          vq_exclusionsSnapshot = map_option json_strings (vd_exclusions d),
          vq_deductibleSnapshot = JObj [(''type'', JStr (vd_deductibleType d)),
             (''value'', JNum (vd_deductibleValue d))],
          vq_validUntil = vi_validUntil dto, vq_createdBy = pr_userId pr, vq_acceptedAt = None,
          vq_version = 1\<rparr>)"

definition createInsuranceQuote ::
  "tenant_context \<Rightarrow> auth_principal \<Rightarrow> create_insurance_quote_dto \<Rightarrow> ('m insurance_db_scheme, insurance_quote) prog"
where
  "createInsuranceQuote ctx pr dto =
     seq (find_row freight_requests (\<lambda>r. rq_id r = vi_requestId dto \<and> rq_tenantId r = ctx_tenantId ctx)) (\<lambda>request.
     seq (find_row insurance_products (\<lambda>d. vd_id d = vi_productId dto \<and> vd_tenantId d = ctx_tenantId ctx
            \<and> vd_status d = ''ACTIVE'')) (\<lambda>product.
     seq (require request (NotFound ''Resource not found'')) (\<lambda>r.
     seq (require product (NotFound ''Resource not found'')) (\<lambda>d.
     seq (find_rows cargo_items (\<lambda>c. cg_requestId c = rq_id r)) (\<lambda>cargo.
     seq (find_rows freight_stops (\<lambda>p. sp_requestId p = rq_id r)) (\<lambda>stops.
     seq (ensure (rq_insuranceRequired r)
            (Conflict ''The freight request did not request cargo insurance'')) (\<lambda>_.
     seq (ensure (cargo \<noteq> [] \<and> list_all (\<lambda>c. cg_currency c = vd_currency d) cargo)
            (Conflict ''Cargo and insurance product currencies must match'')) (\<lambda>_.
     seq (lift_result (covers_request d r stops)) (\<lambda>_.
     let declaredValue = sum_list (map cg_declaredValueMinor cargo);
         insuredValue = insured_value declaredValue (vd_valuationUpliftPercent d)
     in
     seq (ensure (declaredValue > 0) (Conflict ''Declared cargo value is required'')) (\<lambda>_.
     seq (ensure (\<not> (case vd_maxInsuredValueMinor d of None \<Rightarrow> False | Some m \<Rightarrow> m \<noteq> 0 \<and> insuredValue > m))
            (Conflict ''Insurance product maximum insured value exceeded'')) (\<lambda>_.
     seq now (\<lambda>today.
     seq (ensure (\<not> (vi_coverageStartAt dto \<ge> vi_coverageEndAt dto \<or> vi_validUntil dto \<le> today))
            (Conflict ''Insurance coverage or quote validity is invalid'')) (\<lambda>_.
     seq random_uuid (\<lambda>i.
     transaction
       (seq (create_row insurance_quotes insurance_quotes_update same_insurance_quote
               (new_insurance_quote ctx pr dto d i declaredValue)) (\<lambda>q.
        seq (freight_audit ctx pr ''insurance.quote.created'' ''CargoInsuranceQuote'' i) (\<lambda>_.
        seq (freight_outbox ctx ''insurance.quote.created.v1'' i
               (JObj [(''quoteId'', JStr i), (''requestId'', JStr (rq_id r))])) (\<lambda>_.
        ret q))))))))))))))))))"

text \<open>The quotes and policies of the requests of a customer.\<close>

definition customerInsurance ::
  "tenant_context \<Rightarrow> auth_principal \<Rightarrow> ('m insurance_db_scheme, insurance_quote list \<times> insurance_policy list) prog"
where
  "customerInsurance ctx pr = reads (\<lambda>s.
     let own = map rq_id (filter (\<lambda>r. rq_tenantId r = ctx_tenantId ctx \<and> rq_requesterId r = pr_userId pr)
                 (freight_requests s))
     in (rev (filter (\<lambda>q. vq_tenantId q = ctx_tenantId ctx \<and> vq_requestId q \<in> set own) (insurance_quotes s)),
         rev (filter (\<lambda>p. ip_tenantId p = ctx_tenantId ctx \<and> ip_requestId p \<in> set own) (insurance_policies s))))"

section \<open>Binding a policy\<close>

definition policy_snapshot :: "billing_profile \<Rightarrow> auth_principal \<Rightarrow> insurance_quote \<Rightarrow> json" where
  "policy_snapshot p pr q = JObj
     [(''tenant'', JObj [(''legalName'', JStr (bp_legalName p)),
         (''taxIdentifier'', case bp_taxIdentifier p of None \<Rightarrow> JNull | Some x \<Rightarrow> JStr x),
         (''address'', bp_address p)]),
      (''customer'', JObj [(''userId'', JStr (pr_userId pr))]),
      (''policy'', JObj [(''quoteNumber'', JStr (vq_number q))])]"

definition create_premium_invoice ::
  "tenant_context \<Rightarrow> auth_principal \<Rightarrow> billing_profile \<Rightarrow> insurance_quote \<Rightarrow> uuid \<Rightarrow> uuid
     \<Rightarrow> ('m billing_db_scheme, string) prog"
where
  "create_premium_invoice ctx pr profile q policyId invoiceId =
     seq (nextInvoiceNumber (ctx_tenantId ctx)) (\<lambda>number.
     seq now (\<lambda>due.
     seq (create_row invoices invoices_update same_invoice
            \<lparr>bi_id = invoiceId, bi_tenantId = ctx_tenantId ctx, bi_number = number,
             bi_customerId = Some (pr_userId pr), bi_businessAccountId = None, bi_commerceOrderId = None,
             bi_sourceType = ''CARGO_INSURANCE'', bi_sourceId = policyId, bi_status = ''ISSUED'',
             bi_currency = vq_currency q, bi_subtotalMinor = vq_premiumMinor q, bi_taxMinor = vq_taxMinor q,
             bi_totalMinor = vq_totalMinor q, bi_paidMinor = 0, bi_creditedMinor = 0,
             bi_billingSnapshot = policy_snapshot profile pr q, bi_dueAt = due, bi_paidAt = None,
             bi_version = 1\<rparr>) (\<lambda>_.
     seq random_uuid (\<lambda>l.
     seq (create_row invoice_lines invoice_lines_update same_invoice_line
            \<lparr>il_id = l, il_tenantId = ctx_tenantId ctx, il_invoiceId = invoiceId,
             il_kind = ''CARGO_INSURANCE_PREMIUM'',
             il_description = ''Cargo insurance premium '' @ CHR 0xB7 # '' '' @ vq_number q, il_quantity = 1,
             il_unitMinor = vq_premiumMinor q, il_totalMinor = vq_premiumMinor q,
             il_taxMinor = vq_taxMinor q\<rparr>) (\<lambda>_.
     seq random_uuid (\<lambda>p.
     seq now (\<lambda>scheduleDue.
     seq (create_row schedules schedules_update same_schedule
            \<lparr>is_id = p, is_tenantId = ctx_tenantId ctx, is_invoiceId = invoiceId, is_kind = ''PREPAY'',
             is_amountMinor = vq_totalMinor q, is_paidMinor = 0, is_creditedMinor = 0,
             is_dueAt = scheduleDue, is_status = ''DUE'', is_sequence = 1, is_checkoutLockKey = None,
             is_checkoutLockUntil = None\<rparr>) (\<lambda>_.
     ret number))))))))"

definition new_policy ::
  "tenant_context \<Rightarrow> insurance_quote \<Rightarrow> freight_request \<Rightarrow> freight_booking option \<Rightarrow> uuid \<Rightarrow> insurance_policy"
where
  "new_policy ctx q r b i =
     \<lparr>ip_id = i, ip_tenantId = ctx_tenantId ctx, ip_status = (if vq_totalMinor q = 0 then ''ACTIVE'' else ''AWAITING_PAYMENT''),
      ip_version = 1, ip_quoteId = vq_id q, ip_requestId = rq_id r, ip_bookingId = map_option fb_id b,
      ip_policyNumber = ''POL-'' @ js_upper (take 10 i), ip_certificateNumber = ''CERT-'' @ js_upper (take 10 i),
      ip_currency = vq_currency q, ip_insuredValueMinor = vq_insuredValueMinor q,
      ip_premiumMinor = vq_premiumMinor q, ip_deductible = vq_deductibleSnapshot q,
      ip_clauses = vq_clausesSnapshot q, ip_exclusions = vq_exclusionsSnapshot q,
      ip_coverageStartAt = vq_coverageStartAt q, ip_coverageEndAt = vq_coverageEndAt q\<rparr>"

definition accept_insurance_tx ::
  "tenant_context \<Rightarrow> auth_principal \<Rightarrow> billing_profile \<Rightarrow> insurance_quote \<Rightarrow> freight_request
     \<Rightarrow> freight_booking option \<Rightarrow> uuid \<Rightarrow> ('m insurance_db_scheme, insurance_policy \<times> uuid \<times> string) prog"
where
  "accept_insurance_tx ctx pr profile q r b i =
     seq now (\<lambda>accepted.
     seq (update_many insurance_quotes insurance_quotes_update
            (\<lambda>x. vq_id x = vq_id q \<and> vq_tenantId x = ctx_tenantId ctx \<and> vq_status x = ''QUOTED'')
            (\<lambda>x. x\<lparr>vq_status := ''ACCEPTED'', vq_acceptedAt := Some accepted\<rparr>)) (\<lambda>changed.
     seq (ensure (changed = 1) (Conflict ''Insurance quote changed'')) (\<lambda>_.
     seq random_uuid (\<lambda>invoiceId.
     seq (create_premium_invoice ctx pr profile q i invoiceId) (\<lambda>number.
     seq (create_row insurance_policies insurance_policies_update same_policy (new_policy ctx q r b i)) (\<lambda>policy.
     seq (freight_audit ctx pr ''insurance.policy.bound'' ''CargoInsurancePolicy'' i) (\<lambda>_.
     seq (freight_outbox ctx ''insurance.policy.bound.v1'' i
            (JObj [(''policyId'', JStr i), (''requestId'', JStr (rq_id r)), (''invoiceId'', JStr invoiceId)])) (\<lambda>_.
     ret (policy, invoiceId, number)))))))))"

definition acceptInsuranceQuote ::
  "tenant_context \<Rightarrow> auth_principal \<Rightarrow> uuid \<Rightarrow> ('m insurance_db_scheme, insurance_policy \<times> uuid \<times> string) prog"
where
  "acceptInsuranceQuote ctx pr quoteId =
     seq (find_row insurance_quotes (\<lambda>q. vq_id q = quoteId \<and> vq_tenantId q = ctx_tenantId ctx)) (\<lambda>found.
     seq (require found (NotFound ''Resource not found'')) (\<lambda>q.
     seq now (\<lambda>today.
     seq (ensure (\<not> (vq_status q \<noteq> ''QUOTED'' \<or> vq_validUntil q \<le> today)) (NotFound ''Resource not found'')) (\<lambda>_.
     seq (find_row freight_requests (\<lambda>r. rq_id r = vq_requestId q \<and> rq_tenantId r = ctx_tenantId ctx
            \<and> rq_requesterId r = pr_userId pr)) (\<lambda>request.
     seq (require request (NotFound ''Resource not found'')) (\<lambda>r.
     seq (find_row freight_bookings (\<lambda>b. fb_requestId b = rq_id r)) (\<lambda>b.
     seq (find_row billing_profiles (\<lambda>p. bp_tenantId p = ctx_tenantId ctx)) (\<lambda>profile.
     seq (require profile (Conflict ''Tenant billing profile is required before binding coverage'')) (\<lambda>p.
     seq random_uuid (\<lambda>i.
     transaction (accept_insurance_tx ctx pr p q r b i)))))))))))"

section \<open>Claims\<close>

record create_insurance_claim_dto =
  vl_cause :: string
  vl_lossOccurredAt :: instant
  vl_discoveredAt :: instant
  vl_lossLocation :: string
  vl_description :: string
  vl_claimedAmountMinor :: int
  vl_currency :: string
  vl_evidence :: "json option"

definition owned_request ::
  "tenant_context \<Rightarrow> auth_principal \<Rightarrow> uuid \<Rightarrow> ('m freight_db_scheme, unit) prog" where
  "owned_request ctx pr requestId =
     seq (find_row freight_requests (\<lambda>r. rq_id r = requestId \<and> rq_tenantId r = ctx_tenantId ctx
            \<and> rq_requesterId r = pr_userId pr)) (\<lambda>request.
     seq (require request (NotFound ''Resource not found'')) (\<lambda>_.
     ret ()))"

definition create_claim_event ::
  "tenant_context \<Rightarrow> auth_principal \<Rightarrow> uuid \<Rightarrow> string \<Rightarrow> string option \<Rightarrow> string \<Rightarrow> string option \<Rightarrow> json option
     \<Rightarrow> ('m insurance_db_scheme, unit) prog"
where
  "create_claim_event ctx pr claimId type from_status to_status note evidence =
     seq random_uuid (\<lambda>i.
     seq (create_row claim_events claim_events_update same_claim_event
            \<lparr>ve_id = i, ve_tenantId = ctx_tenantId ctx, ve_claimId = claimId, ve_type = type,
             ve_fromStatus = from_status, ve_toStatus = Some to_status, ve_note = note,
             ve_evidence = evidence, ve_actorId = pr_userId pr\<rparr>) (\<lambda>_.
     ret ()))"

definition createInsuranceClaim ::
  "tenant_context \<Rightarrow> auth_principal \<Rightarrow> uuid \<Rightarrow> create_insurance_claim_dto \<Rightarrow> bool
     \<Rightarrow> ('m insurance_db_scheme, insurance_claim) prog"
where
  "createInsuranceClaim ctx pr policyId dto operational =
     seq (find_row insurance_policies (\<lambda>p. ip_id p = policyId \<and> ip_tenantId p = ctx_tenantId ctx)) (\<lambda>found.
     seq (require found (NotFound ''Resource not found'')) (\<lambda>p.
     seq (ensure (ip_status p = ''ACTIVE'')
            (Conflict ''Claims require active, paid cargo-insurance coverage'')) (\<lambda>_.
     seq (ensure (vl_currency dto = ip_currency p)
            (Conflict ''Claim currency must match the policy currency'')) (\<lambda>_.
     seq (when_do (\<not> operational) (owned_request ctx pr (ip_requestId p))) (\<lambda>_.
     seq (ensure (\<not> (vl_lossOccurredAt dto < ip_coverageStartAt p \<or> vl_lossOccurredAt dto > ip_coverageEndAt p))
            (Conflict ''Loss date is outside the policy coverage period'')) (\<lambda>_.
     seq (ensure (\<not> vl_claimedAmountMinor dto > ip_insuredValueMinor p)
            (Conflict ''Claim exceeds the insured value'')) (\<lambda>_.
     seq random_uuid (\<lambda>i.
     transaction
       (seq (create_row insurance_claims insurance_claims_update same_claim
               \<lparr>vc_id = i, vc_tenantId = ctx_tenantId ctx, vc_policyId = policyId,
                vc_number = ''CLM-'' @ js_upper (take 8 i), vc_status = ''DRAFT'', vc_cause = vl_cause dto,
                vc_lossOccurredAt = vl_lossOccurredAt dto, vc_discoveredAt = vl_discoveredAt dto,
                vc_lossLocation = vl_lossLocation dto, vc_description = vl_description dto,
                vc_claimedAmountMinor = vl_claimedAmountMinor dto, vc_approvedAmountMinor = None,
                vc_paidAmountMinor = 0, vc_currency = vl_currency dto, vc_evidence = vl_evidence dto,
                vc_version = 1, vc_submittedAt = None, vc_resolvedAt = None,
                vc_createdBy = pr_userId pr\<rparr>) (\<lambda>c.
        seq (create_claim_event ctx pr i ''CREATED'' None ''DRAFT'' None None) (\<lambda>_.
        seq (freight_audit ctx pr ''insurance.claim.created'' ''CargoInsuranceClaim'' i) (\<lambda>_.
        ret c))))))))))))"

text \<open>\<open>insuranceOperations\<close>: the policies of the tenant with their claims and the events of each.\<close>

definition insuranceOperations ::
  "tenant_context \<Rightarrow> ('m insurance_db_scheme,
     (insurance_policy \<times> (insurance_claim \<times> insurance_claim_event list) list) list) prog"
where
  "insuranceOperations ctx = reads (\<lambda>s. map
     (\<lambda>p. (p, map (\<lambda>c. (c, filter (\<lambda>e. ve_claimId e = vc_id c) (claim_events s)))
                (filter (\<lambda>c. vc_policyId c = ip_id p) (insurance_claims s))))
     (rev (filter (\<lambda>p. ip_tenantId p = ctx_tenantId ctx) (insurance_policies s))))"

record claim_transition_dto =
  vt_status :: string
  vt_version :: int
  vt_approvedAmountMinor :: "int option"
  vt_paidAmountMinor :: "int option"
  vt_note :: "string option"
  vt_evidence :: "json option"

text \<open>\<open>throw new ConflictException((error as Error).message)\<close>.\<close>

definition as_conflict :: "app_error + 'a \<Rightarrow> app_error + 'a" where
  "as_conflict r = (case r of Inl (Plain_Error m) \<Rightarrow> Inl (Conflict m) | _ \<Rightarrow> r)"

definition move_claim :: "claim_transition_dto \<Rightarrow> instant \<Rightarrow> insurance_claim \<Rightarrow> insurance_claim" where
  "move_claim dto moment c = c\<lparr>
     vc_status := vt_status dto,
     vc_approvedAmountMinor := (case vt_approvedAmountMinor dto of None \<Rightarrow> vc_approvedAmountMinor c | a \<Rightarrow> a),
     vc_paidAmountMinor := or_default (vt_paidAmountMinor dto) (vc_paidAmountMinor c),
     vc_submittedAt := (if vt_status dto = ''SUBMITTED'' then Some moment else vc_submittedAt c),
     vc_resolvedAt := (if vt_status dto \<in> {''REJECTED'', ''PAID'', ''CLOSED''} then Some moment
                       else vc_resolvedAt c),
     vc_version := vc_version c + 1\<rparr>"

definition transition_claim_tx ::
  "tenant_context \<Rightarrow> auth_principal \<Rightarrow> insurance_claim \<Rightarrow> claim_transition_dto \<Rightarrow> ('m insurance_db_scheme, unit) prog"
where
  "transition_claim_tx ctx pr c dto =
     seq now (\<lambda>moment.
     seq (update_many insurance_claims insurance_claims_update
            (\<lambda>x. vc_id x = vc_id c \<and> vc_tenantId x = ctx_tenantId ctx \<and> vc_version x = vt_version dto)
            (move_claim dto moment)) (\<lambda>changed.
     seq (ensure (changed = 1) (Conflict ''Insurance claim version changed'')) (\<lambda>_.
     seq (create_claim_event ctx pr (vc_id c) ''STATUS_CHANGED'' (Some (vc_status c)) (vt_status dto)
            (vt_note dto) (vt_evidence dto)) (\<lambda>_.
     freight_audit ctx pr (''insurance.claim.'' @ map lower_char (vt_status dto)) ''CargoInsuranceClaim''
       (vc_id c)))))"

definition transitionInsuranceClaim ::
  "tenant_context \<Rightarrow> auth_principal \<Rightarrow> uuid \<Rightarrow> claim_transition_dto \<Rightarrow> bool
     \<Rightarrow> ('m insurance_db_scheme, insurance_claim option) prog"
where
  "transitionInsuranceClaim ctx pr claimId dto operational =
     seq (find_row insurance_claims (\<lambda>c. vc_id c = claimId \<and> vc_tenantId c = ctx_tenantId ctx)) (\<lambda>found.
     seq (require found (NotFound ''Resource not found'')) (\<lambda>c.
     seq (when_do (\<not> operational)
            (seq (find_row insurance_policies (\<lambda>p. ip_id p = vc_policyId c)) (\<lambda>policy.
             seq (require policy RecordMissing) (\<lambda>p.
             seq (owned_request ctx pr (ip_requestId p)) (\<lambda>_.
             ensure (vt_status dto \<in> {''SUBMITTED'', ''CANCELLED''})
               (Conflict ''Customers may only submit or cancel their own draft claim'')))))) (\<lambda>_.
     seq (lift_result (as_conflict (assertTransition INSURANCE_CLAIM (vc_status c) (vt_status dto)))) (\<lambda>_.
     let approved = (case vt_approvedAmountMinor dto of None \<Rightarrow> or_default (vc_approvedAmountMinor c) 0 | Some a \<Rightarrow> a);
         paid = or_default (vt_paidAmountMinor dto) (vc_paidAmountMinor c)
     in
     seq (ensure (\<not> (approved > vc_claimedAmountMinor c \<or> paid > approved))
            (Conflict ''Claim approval or payment exceeds the allowed amount'')) (\<lambda>_.
     seq (transaction (transition_claim_tx ctx pr c dto)) (\<lambda>_.
     find_row insurance_claims (\<lambda>x. vc_id x = claimId)))))))"

section \<open>Tables\<close>

interpretation insurance_quotes: row_store insurance_quotes insurance_quotes_update
  by unfold_locales simp_all

interpretation insurance_policies: row_store insurance_policies insurance_policies_update
  by unfold_locales simp_all

interpretation insurance_claims: row_store insurance_claims insurance_claims_update
  by unfold_locales simp_all

definition fresh_insurance :: insurance_db where
  "fresh_insurance = freight_db.extend fresh_freight (insurance_db.fields [] [] [] [] [])"

end
