(* ===== verification/Board.thy ===== *)
theory Board
  imports Freight Payments
begin

text \<open>
  Freight bookings and the road dispatch. The board abstracts the state to the bookings, legs,
  assignments, drivers, vehicles and proofs of delivery, and changes in eleven ways only
  (\<open>board_step\<close>). Every freight operation and every captured payment refines it, whether the call
  returns or fails; what holds of the board along its steps holds of the program along its runs.
\<close>

section \<open>The board\<close>

record board =
  bd_bookings :: "freight_booking list"
  bd_legs :: "transport_leg list"
  bd_assignments :: "dispatch_assignment list"
  bd_drivers :: "transport_driver list"
  bd_vehicles :: "transport_vehicle list"
  bd_proofs :: "proof_of_delivery list"

definition board_of :: "'m freight_db_scheme \<Rightarrow> board" where
  "board_of s = \<lparr>bd_bookings = freight_bookings s, bd_legs = transport_legs s,
     bd_assignments = dispatch_assignments s, bd_drivers = transport_drivers s,
     bd_vehicles = transport_vehicles s, bd_proofs = proofs_of_delivery s\<rparr>"

definition active :: "dispatch_assignment \<Rightarrow> bool" where
  "active a \<longleftrightarrow> da_status a \<in> {''ASSIGNED'', ''IN_TRANSIT''}"

definition booking_now :: "string \<Rightarrow> freight_booking \<Rightarrow> freight_booking \<Rightarrow> bool" where
  "booking_now status b c \<longleftrightarrow> fb_id c = fb_id b \<and> fb_tenantId c = fb_tenantId b
     \<and> fb_requestId c = fb_requestId b \<and> fb_quoteId c = fb_quoteId b \<and> fb_invoiceId c = fb_invoiceId b
     \<and> fb_confirmedAt c = fb_confirmedAt b \<and> fb_status c = status"

definition same_resources :: "dispatch_assignment \<Rightarrow> dispatch_assignment \<Rightarrow> bool" where
  "same_resources a c \<longleftrightarrow> da_id c = da_id a \<and> da_legId c = da_legId a \<and> da_driverId c = da_driverId a
     \<and> da_vehicleId c = da_vehicleId a"

definition same_place :: "transport_leg \<Rightarrow> transport_leg \<Rightarrow> bool" where
  "same_place l c \<longleftrightarrow> lg_id c = lg_id l \<and> lg_bookingId c = lg_bookingId l"

definition put_booking :: "uuid \<Rightarrow> (freight_booking \<Rightarrow> freight_booking) \<Rightarrow> board \<Rightarrow> board" where
  "put_booking i f v = v\<lparr>bd_bookings := update_first (\<lambda>x. fb_id x = i) f (bd_bookings v)\<rparr>"

definition put_assignment :: "uuid \<Rightarrow> (dispatch_assignment \<Rightarrow> dispatch_assignment) \<Rightarrow> board \<Rightarrow> board" where
  "put_assignment i f v = v\<lparr>bd_assignments := update_first (\<lambda>x. da_id x = i) f (bd_assignments v)\<rparr>"

definition put_leg :: "uuid \<Rightarrow> (transport_leg \<Rightarrow> transport_leg) \<Rightarrow> board \<Rightarrow> board" where
  "put_leg i f v = v\<lparr>bd_legs := update_first (\<lambda>x. lg_id x = i) f (bd_legs v)\<rparr>"

definition put_driver :: "uuid \<Rightarrow> string \<Rightarrow> board \<Rightarrow> board" where
  "put_driver i status v =
     v\<lparr>bd_drivers := update_first (\<lambda>x. dv_id x = i) (\<lambda>x. x\<lparr>dv_status := status\<rparr>) (bd_drivers v)\<rparr>"

definition put_vehicle :: "uuid \<Rightarrow> string \<Rightarrow> board \<Rightarrow> board" where
  "put_vehicle i status v =
     v\<lparr>bd_vehicles := update_first (\<lambda>x. vh_id x = i) (\<lambda>x. x\<lparr>vh_status := status\<rparr>) (bd_vehicles v)\<rparr>"

definition put_resources :: "uuid \<Rightarrow> uuid \<Rightarrow> string \<Rightarrow> board \<Rightarrow> board" where
  "put_resources driver vehicle status v = put_vehicle vehicle status (put_driver driver status v)"

inductive board_step :: "board \<Rightarrow> board \<Rightarrow> bool" where
  Book: "\<forall>x\<in>set (bd_bookings v). \<not> same_booking k x \<Longrightarrow>
    fb_status k = ''AWAITING_PAYMENT'' \<and> fb_confirmedAt k = None
      \<or> fb_status k = ''CONFIRMED'' \<and> fb_confirmedAt k \<noteq> None \<Longrightarrow>
    board_step v (v\<lparr>bd_bookings := bd_bookings v @ [k]\<rparr>)"
| Confirm: "(\<And>x. fb_id (f x) = fb_id x \<and> fb_status (f x) = ''CONFIRMED'' \<and> fb_confirmedAt (f x) \<noteq> None) \<Longrightarrow>
    board_step v (v\<lparr>bd_bookings := update_where
      (\<lambda>x. fb_id x = i \<and> fb_tenantId x = tenant \<and> fb_status x = ''AWAITING_PAYMENT'') f (bd_bookings v)\<rparr>)"
| Driver: "\<forall>x\<in>set (bd_drivers v). dv_id d \<noteq> dv_id x \<Longrightarrow> dv_status d = ''AVAILABLE'' \<Longrightarrow>
    board_step v (v\<lparr>bd_drivers := bd_drivers v @ [d]\<rparr>)"
| Vehicle: "\<forall>x\<in>set (bd_vehicles v). vh_id d \<noteq> vh_id x \<Longrightarrow> vh_status d = ''AVAILABLE'' \<Longrightarrow>
    board_step v (v\<lparr>bd_vehicles := bd_vehicles v @ [d]\<rparr>)"
| Plan: "b \<in> set (bd_bookings v) \<Longrightarrow> fb_status b \<in> {''CONFIRMED'', ''PLANNED''} \<Longrightarrow>
    \<forall>x\<in>set (bd_legs v). lg_id l \<noteq> lg_id x \<Longrightarrow> lg_bookingId l = fb_id b \<Longrightarrow>
    (\<And>x. booking_now ''PLANNED'' x (f x)) \<Longrightarrow>
    board_step v (put_booking (fb_id b) f (v\<lparr>bd_legs := bd_legs v @ [l]\<rparr>))"
| Assign: "l \<in> set (bd_legs v) \<Longrightarrow> d \<in> set (bd_drivers v) \<Longrightarrow> dv_status d = ''AVAILABLE'' \<Longrightarrow>
    h \<in> set (bd_vehicles v) \<Longrightarrow> vh_status h = ''AVAILABLE'' \<Longrightarrow>
    \<forall>x\<in>set (bd_assignments v). \<not> same_assignment a x \<Longrightarrow> da_status a = ''ASSIGNED'' \<Longrightarrow>
    da_legId a = lg_id l \<Longrightarrow> da_driverId a = dv_id d \<Longrightarrow> da_vehicleId a = vh_id h \<Longrightarrow>
    board_step v (put_resources (dv_id d) (vh_id h) ''ASSIGNED''
      (v\<lparr>bd_assignments := bd_assignments v @ [a]\<rparr>))"
| Start: "a \<in> set (bd_assignments v) \<Longrightarrow> da_status a = ''ASSIGNED'' \<Longrightarrow> l \<in> set (bd_legs v) \<Longrightarrow>
    lg_id l = da_legId a \<Longrightarrow> (\<And>x. same_resources x (f x) \<and> da_status (f x) = ''IN_TRANSIT'') \<Longrightarrow>
    (\<And>x. same_place x (g x)) \<Longrightarrow> (\<And>x. booking_now ''IN_TRANSIT'' x (h x)) \<Longrightarrow>
    board_step v (put_booking (lg_bookingId l) h (put_leg (lg_id l) g (put_assignment (da_id a) f v)))"
| Finish: "a \<in> set (bd_assignments v) \<Longrightarrow> active a \<Longrightarrow>
    (\<And>x. same_resources x (f x) \<and> \<not> active (f x)) \<Longrightarrow> (\<And>x. same_place x (g x)) \<Longrightarrow>
    board_step v (put_leg (da_legId a) g
      (put_resources (da_driverId a) (da_vehicleId a) ''AVAILABLE'' (put_assignment (da_id a) f v)))"
| Check_In: "(\<And>x. same_resources x (f x) \<and> da_status (f x) = da_status x) \<Longrightarrow>
    board_step v (put_assignment i f v)"
| Prove: "b \<in> set (bd_bookings v) \<Longrightarrow> fb_status b \<in> {''DISPATCHED'', ''IN_TRANSIT'', ''EXCEPTION''} \<Longrightarrow>
    \<forall>x\<in>set (bd_proofs v). \<not> same_proof p x \<Longrightarrow> pf_bookingId p = fb_id b \<Longrightarrow>
    (\<And>x. booking_now ''DELIVERED'' x (f x)) \<Longrightarrow>
    board_step v (put_booking (fb_id b) f (v\<lparr>bd_proofs := bd_proofs v @ [p]\<rparr>))"
| Complete: "b \<in> set (bd_bookings v) \<Longrightarrow> fb_status b = ''DELIVERED'' \<Longrightarrow>
    (\<And>x. booking_now ''COMPLETED'' x (f x)) \<Longrightarrow> board_step v (put_booking (fb_id b) f v)"


section \<open>Programs that follow the board\<close>

lemma board_more: "runtime.more t = runtime.more s \<Longrightarrow> board_of t = board_of s"
  by (cases s; cases t) (simp add: board_of_def)

definition follows :: "('m freight_db_scheme, 'a) prog \<Rightarrow> bool" where
  "follows m \<longleftrightarrow> (\<forall>s r t. m s = (r, t) \<longrightarrow> board_step\<^sup>=\<^sup>= (board_of s) (board_of t))"

lemma followsD: "follows m \<Longrightarrow> m s = (r, t) \<Longrightarrow> board_step\<^sup>=\<^sup>= (board_of s) (board_of t)"
  by (auto simp: follows_def)

lemma follows_keeps: "keeps board_of m \<Longrightarrow> follows m"
  by (auto simp: follows_def dest: keepsD)

lemma follows_atomic:
  assumes "atomic m" and "\<And>s x t. m s = (Inr x, t) \<Longrightarrow> board_step\<^sup>=\<^sup>= (board_of s) (board_of t)"
  shows "follows m"
  unfolding follows_def
proof (intro allI impI)
  fix s r t assume run: "m s = (r, t)"
  show "board_step\<^sup>=\<^sup>= (board_of s) (board_of t)"
  proof (cases r)
    case (Inl e)
    with assms(1) run have "board_of t = board_of s" by (blast intro: board_more dest: atomicD)
    then show ?thesis by simp
  next
    case (Inr x)
    with assms(2) run show ?thesis by blast
  qed
qed

lemma follows_seq:
  assumes "keeps board_of m" and "\<And>x. follows (f x)"
  shows "follows (seq m f)"
  unfolding follows_def
proof (intro allI impI)
  fix s r t assume run: "seq m f s = (r, t)"
  obtain q u where u: "m s = (q, u)" by fastforce
  with assms(1) have same: "board_of u = board_of s" by (blast dest: keepsD)
  show "board_step\<^sup>=\<^sup>= (board_of s) (board_of t)"
  proof (cases q)
    case (Inl e)
    with run u same show ?thesis by (simp add: seq_def)
  next
    case (Inr x)
    with run u have "f x u = (r, t)" by (simp add: seq_def)
    then have "board_step\<^sup>=\<^sup>= (board_of u) (board_of t)" by (rule followsD [OF assms(2)])
    with same show ?thesis by simp
  qed
qed

section \<open>Operations that leave the board alone\<close>

lemma keeps_freight_audit [keeps_intros]:
  "(\<And>f s. v (uuids_drawn_update f s) = v s) \<Longrightarrow> (\<And>f s. v (audits_update f s) = v s) \<Longrightarrow>
   keeps v (freight_audit ctx pr a ty i)"
  unfolding freight_audit_def by (intro keeps_intros)

lemma keeps_freight_outbox [keeps_intros]:
  "(\<And>f s. v (uuids_drawn_update f s) = v s) \<Longrightarrow> (\<And>f s. v (clock_reads_update f s) = v s) \<Longrightarrow>
   (\<And>f s. v (outbox_update f s) = v s) \<Longrightarrow> keeps v (freight_outbox ctx ty su pa)"
  unfolding freight_outbox_def by (intro keeps_intros)

lemma keeps_freight_reads [keeps_intros]:
  "keeps v (requireOwnedRequest ctx pr ri st)" "keeps v (requireOperationalRequest ctx ri)"
  "keeps v (requireQuote ctx qi)" "keeps v (freight_quote_for ctx pr qi all)"
  "keeps v (check_credit ctx pr q acc)" "keeps v (requireCarrier ctx ci)" "keeps v (require_carrier_of ctx co)"
  "keeps v (requireOperationalBooking ctx bi)" "keeps v (requireAssignment ctx ai)"
  "keeps v (request ctx pr ri all)" "keeps v (encrypt_now port ph)"
  unfolding requireOwnedRequest_def requireOperationalRequest_def requireQuote_def freight_quote_for_def
    check_credit_def requireCarrier_def require_carrier_of_def requireOperationalBooking_def
    requireAssignment_def request_def encrypt_now_def
  by (intro keeps_intros)+

lemmas board_simps = board_of_def

lemma keeps_requests:
  "keeps board_of (createRequest port ctx pr rd)" "keeps board_of (updateRequest ctx pr ri up)"
  "keeps board_of (submit ctx pr ri)" "keeps board_of (cancel ctx pr ri)"
  unfolding createRequest_def create_stop_def create_cargo_def updateRequest_def submit_def cancel_def Let_def
  by (intro keeps_intros keeps_transaction; (erule board_more | simp add: board_of_def))+

lemma keeps_reject:
  "keeps board_of (seq (case e of BadRequest x \<Rightarrow> rejectUploadedDocument i k w | _ \<Rightarrow> ret ()) (\<lambda>_. throw e))"
  unfolding rejectUploadedDocument_def delete_object_def set_scan_def
  by (cases e) (simp_all, (intro keeps_intros; simp add: board_of_def)+)

lemma keeps_assert_or_reject: "keeps board_of (assert_or_reject port k d w)"
  unfolding assert_or_reject_def assertObjectMetadata_def objectMetadata_def
  by (intro keeps_catch keeps_reject) (intro keeps_intros; simp add: board_of_def)

lemma keeps_move: "keeps board_of (move_to_verified port ctx ri d)"
  unfolding move_to_verified_def Let_def finalizeUpload_def delete_object_def set_scan_def
  by (intro keeps_intros keeps_assert_or_reject; simp add: board_of_def)

lemma keeps_documents:
  "keeps board_of (registerDocument port ctx pr ri ud)" "keeps board_of (completeDocument port ctx pr ri di)"
  unfolding registerDocument_def completeDocument_def Let_def delete_object_def scan_document_def set_scan_def
  by (intro keeps_intros keeps_move; simp add: board_of_def)+

lemma keeps_rates:
  "keeps board_of (createRateCard ctx pr kd)" "keeps board_of (createRateRule ctx kc kr)"
  "keeps board_of (estimate port ctx pr ri)"
  unfolding createRateCard_def createRateRule_def estimate_def Let_def
  by (intro keeps_intros keeps_transaction; (erule board_more | simp add: board_of_def))+

lemma keeps_quotes:
  "keeps board_of (createQuote ctx pr ri qd)" "keeps board_of (publishQuote ctx pr qi)"
  "keeps board_of (declineQuote ctx pr qi)"
  unfolding createQuote_def create_quote_line_def publishQuote_def declineQuote_def Let_def
  by (intro keeps_intros keeps_transaction; (erule board_more | simp add: board_of_def))+

lemma keeps_carrier: "keeps board_of (createCarrier port ctx cd)"
  unfolding createCarrier_def by (intro keeps_intros; simp add: board_of_def)

lemma keeps_milestone: "keeps board_of (milestone ctx pr bi md)"
  unfolding milestone_def by (intro keeps_intros; simp add: board_of_def)

section \<open>Operations that move the board\<close>

lemma board_stepI: "board_step v w \<Longrightarrow> w = w' \<Longrightarrow> board_step\<^sup>=\<^sup>= v w'"
  by simp

lemma board_updates:
  "create_row freight_bookings freight_bookings_update same_booking k s = (Inr x, t) \<Longrightarrow>
     (\<forall>y\<in>set (bd_bookings (board_of s)). \<not> same_booking k y)
     \<and> board_of t = (board_of s)\<lparr>bd_bookings := bd_bookings (board_of s) @ [k]\<rparr>"
  "create_row proofs_of_delivery proofs_of_delivery_update same_proof p s = (Inr xp, t) \<Longrightarrow>
     xp = p \<and> (\<forall>y\<in>set (bd_proofs (board_of s)). \<not> same_proof p y)
     \<and> board_of t = (board_of s)\<lparr>bd_proofs := bd_proofs (board_of s) @ [p]\<rparr>"
  "create_row transport_legs transport_legs_update same_leg l s = (Inr xl, t) \<Longrightarrow>
     (\<forall>y\<in>set (bd_legs (board_of s)). \<not> same_leg l y)
     \<and> board_of t = (board_of s)\<lparr>bd_legs := bd_legs (board_of s) @ [l]\<rparr>"
  "create_row dispatch_assignments dispatch_assignments_update same_assignment a s = (Inr xa, t) \<Longrightarrow>
     xa = a \<and> (\<forall>y\<in>set (bd_assignments (board_of s)). \<not> same_assignment a y)
     \<and> board_of t = (board_of s)\<lparr>bd_assignments := bd_assignments (board_of s) @ [a]\<rparr>"
  "update_booking i f s = (Inr xb, t) \<Longrightarrow>
     board_of t = put_booking i (\<lambda>x. (f x)\<lparr>fb_version := fb_version x + 1\<rparr>) (board_of s)"
  "update_assignment i g s = (Inr xg, t) \<Longrightarrow>
     board_of t = put_assignment i (\<lambda>x. (g x)\<lparr>da_version := da_version x + 1\<rparr>) (board_of s)"
  "update_leg i h s = (Inr xh, t) \<Longrightarrow> board_of t = put_leg i h (board_of s)"
  "set_driver i st s = (Inr xd, t) \<Longrightarrow> board_of t = put_driver i st (board_of s)"
  "set_vehicle i st s = (Inr xv, t) \<Longrightarrow> board_of t = put_vehicle i st (board_of s)"
  by (auto simp: board_of_def put_booking_def put_assignment_def put_leg_def put_driver_def put_vehicle_def
      update_booking_def update_assignment_def update_leg_def set_driver_def set_vehicle_def)

lemma board_quiet:
  "freight_audit ctx pr a ty i s = (r1, t) \<Longrightarrow> board_of t = board_of s"
  "freight_outbox ctx ty su pa s = (r2, t) \<Longrightarrow> board_of t = board_of s"
  "random_uuid s = (r3, t) \<Longrightarrow> board_of t = board_of s"
  "now s = (r4, t) \<Longrightarrow> board_of t = board_of s"
  "create_row transport_milestones transport_milestones_update same_milestone m s = (r5, t) \<Longrightarrow>
     board_of t = board_of s"
  "update_row freight_quotes freight_quotes_update P f s = (r6, t) \<Longrightarrow> board_of t = board_of s"
  "update_row freight_requests freight_requests_update Q g s = (r7, t) \<Longrightarrow> board_of t = board_of s"
  by (erule keepsD [rotated], (intro keeps_intros; simp add: board_of_def))+

lemma invoice_quiet: "keeps board_of (create_freight_invoice ctx pr q r bi ii today)"
  unfolding create_freight_invoice_def nextNumber_def create_freight_line_def create_freight_schedule_def
  by (intro keeps_intros; simp add: board_of_def)

lemma keeps_more [keeps_intros]: "keeps runtime.more random_uuid" "keeps runtime.more now"
  by (simp_all add: keeps_def random_uuid_def now_def)

lemma atomic_prod [atomic_intros]: "(\<And>a b. atomic (f a b)) \<Longrightarrow> atomic (case p of (a, b) \<Rightarrow> f a b)"
  by (simp split: prod.splits)

lemma atomic_optional [atomic_intros]:
  "atomic m \<Longrightarrow> (\<And>x. atomic (f x)) \<Longrightarrow> atomic (case r of None \<Rightarrow> m | Some x \<Rightarrow> f x)"
  by (simp split: option.splits)

lemma atomic_ret: "atomic (ret x)"
  by (simp add: atomic_def)

lemma atomic_freight:
  "atomic (acceptQuote ctx pr qi)" "atomic (addLeg ctx bi gd)" "atomic (assign ctx pr li gn)"
  "atomic (transitionAssignment ctx pr ai act)" "atomic (checkIn ctx pr ai kd)"
  "atomic (proofOfDelivery ctx pr bi pg)" "atomic (completeBooking ctx pr bi)"
  unfolding acceptQuote_def addLeg_def assign_def transitionAssignment_def checkIn_def proofOfDelivery_def
    completeBooking_def
  by (intro atomic_intros atomic_seq keeps_intros keeps_more atomic_ret; simp)+

lemma new_booking_state:
  "fb_status (new_booking ctx pr q r bi ii today) = ''AWAITING_PAYMENT''
      \<and> fb_confirmedAt (new_booking ctx pr q r bi ii today) = None
   \<or> fb_status (new_booking ctx pr q r bi ii today) = ''CONFIRMED''
      \<and> fb_confirmedAt (new_booking ctx pr q r bi ii today) \<noteq> None"
  by (simp add: new_booking_def Let_def)

lemma accept_follows:
  assumes "accept_quote_tx ctx pr q r bi ii today s = (Inr x, t)"
  shows "board_step\<^sup>=\<^sup>= (board_of s) (board_of t)"
proof -
  obtain b u k w where u: "create_freight_invoice ctx pr q r bi ii today s = (Inr b, u)"
    and k: "create_row freight_bookings freight_bookings_update same_booking
      (new_booking ctx pr q r bi ii today) u = (Inr k, w)"
    and t: "board_of t = board_of w"
    using assms unfolding accept_quote_tx_def
    by (auto simp del: create_row_Inr update_row_Inr simp: board_quiet)
  from keepsD [OF invoice_quiet u] have "board_of u = board_of s" .
  with board_updates(1) [OF k] t show ?thesis
    using board_step.Book [OF _ new_booking_state] by simp
qed

lemma reads_only:
  "requireOperationalBooking ctx bi s = (Inr b, t) \<Longrightarrow>
     t = s \<and> b \<in> set (bd_bookings (board_of s)) \<and> fb_id b = bi"
  "require_carrier_of ctx co s = (r1, t) \<Longrightarrow> t = s"
  "requireAssignment ctx ai s = (Inr (a, l), t) \<Longrightarrow>
     t = s \<and> a \<in> set (bd_assignments (board_of s)) \<and> da_id a = ai
       \<and> l \<in> set (bd_legs (board_of s)) \<and> lg_id l = da_legId a"
  using keepsD [OF keeps_freight_reads(7), where v = "\<lambda>s. s"]
  by (auto simp: requireOperationalBooking_def requireAssignment_def board_of_def dest!: find_SomeD)

lemma add_leg_follows:
  assumes "addLeg ctx bi dto s = (Inr x, t)"
  shows "board_step\<^sup>=\<^sup>= (board_of s) (board_of t)"
proof -
  obtain b l where b: "b \<in> set (bd_bookings (board_of s))" "fb_id b = bi"
      "fb_status b \<in> {''CONFIRMED'', ''PLANNED''}"
    and l: "\<forall>y\<in>set (bd_legs (board_of s)). \<not> same_leg l y" "lg_bookingId l = bi"
    and t: "board_of t = put_booking bi (\<lambda>x. x\<lparr>fb_status := ''PLANNED'', fb_version := fb_version x + 1\<rparr>)
          ((board_of s)\<lparr>bd_legs := bd_legs (board_of s) @ [l]\<rparr>)"
    using assms unfolding addLeg_def
    by (auto simp del: create_row_Inr random_uuid_Inr dest!: reads_only board_updates board_quiet)
  show ?thesis using b l
    by (intro board_stepI [OF board_step.Plan [of b _ l "\<lambda>x. x\<lparr>fb_status := ''PLANNED'', fb_version := fb_version x + 1\<rparr>"]])
      (auto simp: t same_leg_def booking_now_def)
qed

lemma assign_tx_follows:
  assumes "assign_tx ctx pr (lg_id l) dto d h s = (Inr x, t)" and "l \<in> set (bd_legs (board_of s))"
    and "d \<in> set (bd_drivers (board_of s))" and "dv_status d = ''AVAILABLE''"
    and "h \<in> set (bd_vehicles (board_of s))" and "vh_status h = ''AVAILABLE''"
  shows "board_step\<^sup>=\<^sup>= (board_of s) (board_of t)"
proof -
  obtain a where a: "\<forall>y\<in>set (bd_assignments (board_of s)). \<not> same_assignment a y" "da_status a = ''ASSIGNED''"
      "da_legId a = lg_id l" "da_driverId a = dv_id d" "da_vehicleId a = vh_id h"
    and t: "board_of t = put_resources (dv_id d) (vh_id h) ''ASSIGNED''
          ((board_of s)\<lparr>bd_assignments := bd_assignments (board_of s) @ [a]\<rparr>)"
    using assms(1) unfolding assign_tx_def put_resources_def
    by (auto simp del: create_row_Inr random_uuid_Inr dest!: board_updates board_quiet)
  show ?thesis unfolding t
    by (rule board_stepI [OF board_step.Assign refl]) (rule assms a)+
qed

lemma assign_follows:
  assumes "assign ctx pr li dto s = (Inr x, t)"
  shows "board_step\<^sup>=\<^sup>= (board_of s) (board_of t)"
proof -
  obtain l d h where "assign_tx ctx pr (lg_id l) dto d h s = (Inr x, t)" "l \<in> set (bd_legs (board_of s))"
    "d \<in> set (bd_drivers (board_of s))" "dv_status d = ''AVAILABLE''"
    "h \<in> set (bd_vehicles (board_of s))" "vh_status h = ''AVAILABLE''"
    using assms unfolding assign_def by (auto simp: board_of_def dest!: find_SomeD)
  then show ?thesis by (rule assign_tx_follows)
qed

lemma start_board:
  assumes "start_assignment_tx a l today s = (Inr x, t)" and "lg_id l = da_legId a"
  shows "board_of t = put_booking (lg_bookingId l)
      (\<lambda>x. x\<lparr>fb_status := ''IN_TRANSIT'', fb_dispatchedAt := Some today, fb_version := fb_version x + 1\<rparr>)
      (put_leg (lg_id l) (\<lambda>x. x\<lparr>lg_status := ''IN_TRANSIT'', lg_actualDepartureAt := Some today\<rparr>)
        (put_assignment (da_id a) (\<lambda>x. x\<lparr>da_status := ''IN_TRANSIT'', da_startedAt := Some today,
            da_nextCheckInAt := Some (today + da_checkInIntervalMinutes a * 60000),
            da_version := da_version x + 1\<rparr>) (board_of s)))"
  using assms unfolding start_assignment_tx_def by (auto dest!: board_updates)

lemma start_follows:
  assumes "start_assignment_tx a l today s = (Inr x, t)" and "a \<in> set (bd_assignments (board_of s))"
    and "da_status a = ''ASSIGNED''" and "l \<in> set (bd_legs (board_of s))" and "lg_id l = da_legId a"
  shows "board_step\<^sup>=\<^sup>= (board_of s) (board_of t)"
  unfolding start_board [OF assms(1,5)]
  by (rule board_stepI [OF board_step.Start refl], rule assms, rule assms, rule assms, rule assms)
    (simp_all add: same_resources_def same_place_def booking_now_def)

lemma finish_follows:
  assumes "finish_assignment_tx ctx pr a terminal today s = (Inr x, t)"
    and "a \<in> set (bd_assignments (board_of s))" and "active a" and "terminal \<in> {''COMPLETED'', ''CANCELLED''}"
  shows "board_step\<^sup>=\<^sup>= (board_of s) (board_of t)"
proof -
  let ?f = "\<lambda>x. x\<lparr>da_status := terminal, da_completedAt := Some today, da_nextCheckInAt := None,
      da_version := da_version x + 1\<rparr>"
  let ?g = "\<lambda>x. x\<lparr>lg_status := terminal, lg_actualArrivalAt :=
      (if terminal = ''COMPLETED'' then Some today else lg_actualArrivalAt x)\<rparr>"
  obtain u v w y z where u: "update_assignment (da_id a) (\<lambda>x. x\<lparr>da_status := terminal,
      da_completedAt := Some today, da_nextCheckInAt := None\<rparr>) s = (Inr x, u)"
    and v: "set_driver (da_driverId a) ''AVAILABLE'' u = (Inr (), v)"
    and w: "set_vehicle (da_vehicleId a) ''AVAILABLE'' v = (Inr (), w)"
    and y: "update_leg (da_legId a) ?g w = (Inr (), y)"
    and z: "freight_audit ctx pr (''transport.assignment.'' @ map lower_char terminal)
      ''DispatchAssignment'' (da_id a) y = (Inr (), z)" and t: "t = z"
    using assms(1) unfolding finish_assignment_tx_def by auto
  have "board_of t = put_leg (da_legId a) ?g
      (put_resources (da_driverId a) (da_vehicleId a) ''AVAILABLE'' (put_assignment (da_id a) ?f (board_of s)))"
    using board_updates(6) [OF u] board_updates(8) [OF v] board_updates(9) [OF w] board_updates(7) [OF y]
      board_quiet(1) [OF z] t by (simp add: put_resources_def)
  moreover have "board_step (board_of s) (put_leg (da_legId a) ?g
      (put_resources (da_driverId a) (da_vehicleId a) ''AVAILABLE'' (put_assignment (da_id a) ?f (board_of s))))"
    by (rule board_step.Finish [OF assms(2,3)])
      (use assms(4) in \<open>auto simp: same_resources_def same_place_def active_def\<close>)
  ultimately show ?thesis by simp
qed

lemma transition_follows:
  assumes "transitionAssignment ctx pr ai act s = (Inr x, t)"
  shows "board_step\<^sup>=\<^sup>= (board_of s) (board_of t)"
proof -
  obtain a l c u where a: "a \<in> set (bd_assignments (board_of s))" "l \<in> set (bd_legs (board_of s))"
      "lg_id l = da_legId a" and u: "now s = (Inr c, u)"
    and step: "da_status a = ''ASSIGNED'' \<and> start_assignment_tx a l c u = (Inr x, t)
      \<or> active a \<and> finish_assignment_tx ctx pr a ''COMPLETED'' c u = (Inr x, t)
      \<or> active a \<and> finish_assignment_tx ctx pr a ''CANCELLED'' c u = (Inr x, t)"
    using assms unfolding transitionAssignment_def
    by (cases act) (auto simp del: now_Inr simp: active_def dest!: reads_only(3))
  from board_quiet(4) [OF u] have "board_of u = board_of s" .
  then show ?thesis
    using step a start_follows [of a l c u x t] finish_follows [of ctx pr a _ c u x t] by auto
qed

lemma check_in_tx_follows:
  assumes "check_in_tx ctx pr a l dto c s = (Inr x, t)"
  shows "board_step\<^sup>=\<^sup>= (board_of s) (board_of t)"
proof -
  have quiet: "keeps board_of (create_row driver_check_ins driver_check_ins_update same_check_in k)"
    "keeps board_of (update_many freight_exceptions freight_exceptions_update P f)"
    "keeps board_of (when_do b (seq random_uuid (\<lambda>x.
       seq (create_row freight_exceptions freight_exceptions_update same_exception (e x)) (\<lambda>_. ret ()))))" for k P f b e
    by (intro keeps_intros; simp add: board_of_def)+
  have "board_of t = put_assignment (da_id a) (\<lambda>x. x\<lparr>da_nextCheckInAt := Some c,
      da_version := da_version x + 1\<rparr>) (board_of s)"
    using assms unfolding check_in_tx_def
    by (auto simp del: create_row_Inr random_uuid_Inr now_Inr update_many_Inr when_do_Inr
        dest!: board_updates board_quiet quiet [THEN keepsD])
  then show ?thesis by (intro board_stepI [OF board_step.Check_In]) (auto simp: same_resources_def)
qed

lemma check_in_follows:
  assumes "checkIn ctx pr ai dto s = (Inr x, t)"
  shows "board_step\<^sup>=\<^sup>= (board_of s) (board_of t)"
proof -
  have "t = s \<or> (\<exists>a l c u. board_of u = board_of s \<and> check_in_tx ctx pr a l dto c u = (Inr x, t))"
    using assms unfolding checkIn_def
    by (auto simp del: now_Inr dest!: reads_only board_quiet split: option.splits)
  then show ?thesis by (auto dest: check_in_tx_follows)
qed

lemma proof_tx_follows:
  assumes "proof_tx ctx pr (fb_id b) dto s = (Inr x, t)" and "b \<in> set (bd_bookings (board_of s))"
    and "fb_status b \<in> {''DISPATCHED'', ''IN_TRANSIT'', ''EXCEPTION''}"
  shows "board_step\<^sup>=\<^sup>= (board_of s) (board_of t)"
proof -
  obtain p where p: "\<forall>y\<in>set (bd_proofs (board_of s)). \<not> same_proof p y" "pf_bookingId p = fb_id b"
    and t: "board_of t = put_booking (fb_id b) (\<lambda>x. x\<lparr>fb_status := ''DELIVERED'',
        fb_deliveredAt := Some (pg_deliveredAt dto), fb_version := fb_version x + 1\<rparr>)
      ((board_of s)\<lparr>bd_proofs := bd_proofs (board_of s) @ [p]\<rparr>)"
    using assms(1) unfolding proof_tx_def
    by (auto simp del: create_row_Inr random_uuid_Inr dest!: board_updates board_quiet)
  show ?thesis unfolding t
    by (rule board_stepI [OF board_step.Prove refl], rule assms, rule assms, rule p, rule p)
      (simp add: booking_now_def)
qed

lemma proof_follows:
  assumes "proofOfDelivery ctx pr bi dto s = (Inr x, t)"
  shows "board_step\<^sup>=\<^sup>= (board_of s) (board_of t)"
proof -
  obtain b where "proof_tx ctx pr (fb_id b) dto s = (Inr x, t)" "b \<in> set (bd_bookings (board_of s))"
    "fb_status b \<in> {''DISPATCHED'', ''IN_TRANSIT'', ''EXCEPTION''}"
    using assms unfolding proofOfDelivery_def by (auto dest!: reads_only split: option.splits)
  then show ?thesis by (rule proof_tx_follows)
qed

lemma complete_follows:
  assumes "completeBooking ctx pr bi s = (Inr x, t)"
  shows "board_step\<^sup>=\<^sup>= (board_of s) (board_of t)"
proof -
  obtain b c where b: "b \<in> set (bd_bookings (board_of s))" "fb_status b = ''DELIVERED''"
    and t: "board_of t = put_booking (fb_id b) (\<lambda>x. x\<lparr>fb_status := ''COMPLETED'',
      fb_completedAt := Some c, fb_version := fb_version x + 1\<rparr>) (board_of s)"
    using assms unfolding completeBooking_def
    by (auto simp del: now_Inr dest!: reads_only board_updates board_quiet)
  show ?thesis unfolding t
    by (rule board_stepI [OF board_step.Complete refl], rule b, rule b) (simp add: booking_now_def)
qed

lemma follows_then:
  assumes "follows m" and "\<And>x. keeps board_of (f x)"
  shows "follows (seq m f)"
  unfolding follows_def
proof (intro allI impI)
  fix s r t assume run: "seq m f s = (r, t)"
  obtain q u where u: "m s = (q, u)" by fastforce
  then have "board_step\<^sup>=\<^sup>= (board_of s) (board_of u)" by (rule followsD [OF assms(1)])
  moreover have "board_of t = board_of u"
    using run u assms(2) by (cases q) (auto simp: seq_def dest: keepsD)
  ultimately show "board_step\<^sup>=\<^sup>= (board_of s) (board_of t)" by simp
qed

lemma follows_transaction:
  assumes "follows m" shows "follows (transaction m)"
  by (rule follows_atomic [OF atomic_transaction]) (auto dest: followsD [OF assms])

lemma follows_when_do: "follows m \<Longrightarrow> follows (when_do b m)"
  by (simp add: when_do_def follows_keeps keeps_ret)

lemma new_driver_follows:
  fixes d :: transport_driver
  assumes "dv_status d = ''AVAILABLE''"
  shows "follows (create_row transport_drivers transport_drivers_update same_driver d)"
proof -
  have "board_step (board_of s) (board_of (transport_drivers_update (\<lambda>rs. rs @ [d]) s))"
    if "\<forall>x\<in>set (transport_drivers s). dv_id d \<noteq> dv_id x" for s :: "'a freight_db_scheme"
    using board_step.Driver [of "board_of s" d] that assms by (simp add: board_of_def)
  then show ?thesis by (auto simp: follows_def create_row_def same_driver_def list_ex_iff)
qed

lemma driver_follows: "follows (createDriver port ctx dto)"
  unfolding createDriver_def
  by (rule follows_seq, (intro keeps_intros; simp add: board_of_def; fail))+
     (rule follows_then [OF new_driver_follows], simp, intro keeps_intros)

lemma new_vehicle_follows:
  assumes "vh_status d = ''AVAILABLE''"
  shows "follows (create_row transport_vehicles transport_vehicles_update same_vehicle d)"
proof -
  have "board_step (board_of s) (board_of (transport_vehicles_update (\<lambda>rs. rs @ [d]) s))"
    if "\<forall>x\<in>set (transport_vehicles s). vh_id d \<noteq> vh_id x" for s :: "'a freight_db_scheme"
    using board_step.Vehicle [of "board_of s" d] that assms by (simp add: board_of_def)
  then show ?thesis by (auto simp: follows_def create_row_def same_vehicle_def list_ex_iff)
qed

lemma vehicle_follows: "follows (createVehicle ctx dto)"
  unfolding createVehicle_def
  by (rule follows_seq, (intro keeps_intros; simp add: board_of_def; fail))+ (rule new_vehicle_follows, simp)

lemma confirm_follows: "follows (confirm_source p b full)"
proof -
  have "follows (update_many freight_bookings freight_bookings_update
      (\<lambda>f. fb_id f = i \<and> fb_tenantId f = tenant \<and> fb_status f = ''AWAITING_PAYMENT'')
      (\<lambda>f. f\<lparr>fb_status := ''CONFIRMED'', fb_confirmedAt := Some c, fb_version := fb_version f + 1\<rparr>))" for i tenant c
    unfolding follows_def update_many_def
    using board_step.Confirm [of "\<lambda>f. f\<lparr>fb_status := ''CONFIRMED'', fb_confirmedAt := Some c,
      fb_version := fb_version f + 1\<rparr>" "board_of s" i tenant for s] by (auto simp: board_of_def)
  then show ?thesis unfolding confirm_source_def schedules_of_def
    by (intro follows_then follows_when_do follows_seq keeps_intros) (simp_all add: board_of_def)
qed

lemma capture_follows: "follows (capture_payment p x b ei evidence)"
  unfolding capture_payment_def Let_def
  by (rule follows_seq, (intro keeps_intros; simp add: board_of_def; fail))+
     (rule follows_then [OF confirm_follows], intro keeps_intros; simp add: board_of_def)

lemma event_follows: "follows (event_processed ei f)"
  by (rule follows_keeps, intro keeps_intros; simp add: board_of_def)

lemma pay_follows: "follows (process_successful_payment si ei evidence)"
  unfolding process_successful_payment_def process_successful_payment_tx_def
  by (intro follows_transaction follows_seq keeps_intros) (simp add: capture_follows event_follows)

section \<open>Runs\<close>

inductive freight_step ::
  "freight_port \<Rightarrow> 'm freight_db_scheme \<Rightarrow> 'm freight_db_scheme \<Rightarrow> bool" for port where
  Create: "createRequest port ctx pr rd s = (r1, t) \<Longrightarrow> freight_step port s t"
| Update: "updateRequest ctx pr i ud s = (r2, t) \<Longrightarrow> freight_step port s t"
| Submit: "submit ctx pr i s = (r3, t) \<Longrightarrow> freight_step port s t"
| Cancel: "cancel ctx pr i s = (r4, t) \<Longrightarrow> freight_step port s t"
| Register: "registerDocument port ctx pr i dd s = (r5, t) \<Longrightarrow> freight_step port s t"
| Scan: "completeDocument port ctx pr i j s = (r6, t) \<Longrightarrow> freight_step port s t"
| Rate_Card: "createRateCard ctx pr kd s = (r7, t) \<Longrightarrow> freight_step port s t"
| Rate_Rule: "createRateRule ctx i kr s = (r8, t) \<Longrightarrow> freight_step port s t"
| Estimate: "estimate port ctx pr i s = (r9, t) \<Longrightarrow> freight_step port s t"
| Quote: "createQuote ctx pr i qd s = (r10, t) \<Longrightarrow> freight_step port s t"
| Publish: "publishQuote ctx pr i s = (r11, t) \<Longrightarrow> freight_step port s t"
| Decline: "declineQuote ctx pr i s = (r12, t) \<Longrightarrow> freight_step port s t"
| Accept: "acceptQuote ctx pr i s = (r13, t) \<Longrightarrow> freight_step port s t"
| Carrier: "createCarrier port ctx cd s = (r14, t) \<Longrightarrow> freight_step port s t"
| Driver: "createDriver port ctx vd s = (r15, t) \<Longrightarrow> freight_step port s t"
| Vehicle: "createVehicle ctx hv s = (r16, t) \<Longrightarrow> freight_step port s t"
| Leg: "addLeg ctx i ld s = (r17, t) \<Longrightarrow> freight_step port s t"
| Assign: "assign ctx pr i ad s = (r18, t) \<Longrightarrow> freight_step port s t"
| Transition: "transitionAssignment ctx pr i act s = (r19, t) \<Longrightarrow> freight_step port s t"
| Check_In: "checkIn ctx pr i ci s = (r20, t) \<Longrightarrow> freight_step port s t"
| Milestone: "milestone ctx pr i md s = (r21, t) \<Longrightarrow> freight_step port s t"
| Proof: "proofOfDelivery ctx pr i pd s = (r22, t) \<Longrightarrow> freight_step port s t"
| Complete: "completeBooking ctx pr i s = (r23, t) \<Longrightarrow> freight_step port s t"
| Pay: "process_successful_payment i j evidence s = (r24, t) \<Longrightarrow> freight_step port s t"

lemmas quiet_operations = keeps_requests keeps_documents keeps_rates keeps_quotes keeps_carrier keeps_milestone
lemma accept_quote_follows: "follows (acceptQuote ctx pr i)"
  unfolding acceptQuote_def case_prod_beta
  by (rule follows_seq, (intro keeps_intros; simp add: board_of_def; fail))+
     (rule follows_atomic [OF atomic_transaction], rule accept_follows, erule transaction_Inr [THEN iffD1])

lemma loud_operations:
  "follows (addLeg ctx bi gd)" "follows (assign ctx pr li gn)" "follows (transitionAssignment ctx pr ai act)"
  "follows (checkIn ctx pr ai kd)" "follows (proofOfDelivery ctx pr bi pg)" "follows (completeBooking ctx pr bi)"
  by (rule follows_atomic [OF atomic_freight(2) add_leg_follows]
      follows_atomic [OF atomic_freight(3) assign_follows] follows_atomic [OF atomic_freight(4) transition_follows]
      follows_atomic [OF atomic_freight(5) check_in_follows] follows_atomic [OF atomic_freight(6) proof_follows]
      follows_atomic [OF atomic_freight(7) complete_follows], assumption)+

lemmas operations_follow = quiet_operations [THEN follows_keeps] accept_quote_follows loud_operations
  driver_follows vehicle_follows pay_follows

lemma freight_step_refines: "freight_step port s t \<Longrightarrow> board_step\<^sup>=\<^sup>= (board_of s) (board_of t)"
  by (induction rule: freight_step.induct) (erule followsD [rotated], rule operations_follow)+

lemma freight_run_refines: "(freight_step port)\<^sup>*\<^sup>* s t \<Longrightarrow> board_step\<^sup>*\<^sup>* (board_of s) (board_of t)"
proof (induction rule: rtranclp_induct)
  case (step u t)
  from freight_step_refines [OF step(2)] step(3) show ?case by auto
qed simp

end
