(* ===== verification/Dispatch.thy ===== *)
theory Dispatch
  imports Board
begin

text \<open>
  What the board keeps: drivers and vehicles are assigned to one journey at a time, a booking moves
  only after it was confirmed and is delivered only with a proof, and a delivered booking that is
  started again is stuck. \<open>accept_tx_bills\<close> says what accepting a quote creates.
\<close>

section \<open>A sound board\<close>

text \<open>
  A pool of resources: exactly the busy ones are assigned, the others are available.
\<close>

definition pool_sound :: "('r \<Rightarrow> uuid) \<Rightarrow> ('r \<Rightarrow> string) \<Rightarrow> 'r list \<Rightarrow> uuid set \<Rightarrow> bool" where
  "pool_sound key status rows busy \<longleftrightarrow> distinct (map key rows) \<and> busy \<subseteq> key ` set rows
     \<and> (\<forall>r\<in>set rows. status r = (if key r \<in> busy then ''ASSIGNED'' else ''AVAILABLE''))"

definition under_way :: "board \<Rightarrow> dispatch_assignment list" where
  "under_way v = filter active (bd_assignments v)"

definition resources_sound :: "board \<Rightarrow> bool" where
  "resources_sound v \<longleftrightarrow> distinct (map da_id (bd_assignments v))
     \<and> distinct (map da_driverId (under_way v)) \<and> distinct (map da_vehicleId (under_way v))
     \<and> pool_sound dv_id dv_status (bd_drivers v) (da_driverId ` set (under_way v))
     \<and> pool_sound vh_id vh_status (bd_vehicles v) (da_vehicleId ` set (under_way v))"

text \<open>
  A booking is past awaiting its payment only when it was confirmed, has legs only then, and is
  delivered or completed only with a proof of delivery.
\<close>

definition booking_sound :: "uuid set \<Rightarrow> uuid set \<Rightarrow> freight_booking \<Rightarrow> bool" where
  "booking_sound planned proved b \<longleftrightarrow>
     (fb_status b \<noteq> ''AWAITING_PAYMENT'' \<longrightarrow> fb_confirmedAt b \<noteq> None)
     \<and> (fb_id b \<in> planned \<longrightarrow> fb_status b \<noteq> ''AWAITING_PAYMENT'')
     \<and> (fb_status b \<in> {''DELIVERED'', ''COMPLETED''} \<longrightarrow> fb_id b \<in> proved)"

definition planned :: "board \<Rightarrow> uuid set" where
  "planned v = lg_bookingId ` set (bd_legs v)"

definition proved :: "board \<Rightarrow> uuid set" where
  "proved v = pf_bookingId ` set (bd_proofs v)"

definition bookings_sound :: "board \<Rightarrow> bool" where
  "bookings_sound v \<longleftrightarrow>
     distinct (map fb_id (bd_bookings v)) \<and> planned v \<subseteq> fb_id ` set (bd_bookings v)
     \<and> (\<forall>b\<in>set (bd_bookings v). booking_sound (planned v) (proved v) b)"

lemma image_update_first: "(\<And>r. g (f r) = g r) \<Longrightarrow> g ` set (update_first P f rs) = g ` set rs"
  by (metis list.set_map map_update_first)

lemma image_update_where:
  assumes "\<And>r. g (f r) = g r" shows "g ` set (update_where P f rs) = g ` set rs"
proof -
  have "map g (update_where P f rs) = map g rs" using assms by (simp add: update_where_def)
  then show ?thesis by (metis list.set_map)
qed

lemma put_booking_rows:
  assumes "distinct (map fb_id (bd_bookings v))"
  shows "bd_bookings (put_booking i f v) = map (\<lambda>x. if fb_id x = i then f x else x) (bd_bookings v)"
  using update_first_map [OF assms] by (simp add: put_booking_def)

lemma put_simps [simp]:
  "planned (put_booking i f v) = planned v" "proved (put_booking i f v) = proved v"
  "planned (put_assignment i h v) = planned v" "proved (put_assignment i h v) = proved v"
  "planned (put_resources d c st v) = planned v" "proved (put_resources d c st v) = proved v"
  "proved (put_leg i g v) = proved v" "bd_bookings (put_leg i g v) = bd_bookings v"
  "bd_bookings (put_assignment i h v) = bd_bookings v" "bd_bookings (put_resources d c st v) = bd_bookings v"
  by (simp_all add: planned_def proved_def put_booking_def put_assignment_def put_resources_def put_driver_def
      put_vehicle_def put_leg_def)

lemma planned_put_leg: "(\<And>x. same_place x (g x)) \<Longrightarrow> planned (put_leg i g v) = planned v"
  by (simp add: planned_def put_leg_def same_place_def image_update_first)

lemma sound_put:
  assumes "bookings_sound v" and "\<And>x. booking_now st x (f x)" and "b \<in> set (bd_bookings v)" and "fb_id b = i"
    and "booking_sound (planned v) (proved v) (f b)"
  shows "bookings_sound (put_booking i f v)"
proof -
  let ?bs = "map (\<lambda>x. if fb_id x = i then f x else x) (bd_bookings v)"
  have dist: "distinct (map fb_id (bd_bookings v))" using assms(1) by (simp add: bookings_sound_def)
  have same: "x = b" if "x \<in> set (bd_bookings v)" "fb_id x = i" for x
    using dist assms(3,4) that by (auto dest: distinct_mapD)
  have ids: "map fb_id ?bs = map fb_id (bd_bookings v)"
    using assms(2) by (simp add: booking_now_def)
  have "booking_sound (planned v) (proved v) x" if x: "x \<in> set ?bs" for x
  proof -
    from x obtain y where y: "y \<in> set (bd_bookings v)" "x = (if fb_id y = i then f y else y)" by auto
    with same assms(1,5) show ?thesis by (cases "fb_id y = i") (auto simp: bookings_sound_def)
  qed
  moreover have "fb_id ` set ?bs = fb_id ` set (bd_bookings v)" using ids by (metis list.set_map)
  ultimately show ?thesis
    using assms(1) unfolding bookings_sound_def put_booking_rows [OF dist] ids put_simps by simp
qed

lemma sound_booking: "bookings_sound v \<Longrightarrow> b \<in> set (bd_bookings v) \<Longrightarrow> booking_sound (planned v) (proved v) b"
  by (simp add: bookings_sound_def)

lemma bookings_kept:
  assumes "board_step v w" and "bookings_sound v"
  shows "bookings_sound w"
  using assms
proof (induction rule: board_step.induct)
  case (Book v k)
  then have "fb_id k \<notin> fb_id ` set (bd_bookings v)" by (auto simp: same_booking_def)
  with Book show ?case by (auto simp: bookings_sound_def planned_def proved_def booking_sound_def)
next
  case (Confirm f v i tenant)
  have ids: "map fb_id (update_where P f bs) = map fb_id bs" for P bs
    using Confirm(1) by (simp add: update_where_def)
  have "fb_id ` set (update_where P f bs) = fb_id ` set bs" for P bs
    using Confirm(1) by (intro image_update_where) simp
  with Confirm ids show ?case
    by (auto simp: bookings_sound_def planned_def proved_def) (auto simp: update_where_def booking_sound_def)
next
  case (Plan b v l f)
  let ?v = "v\<lparr>bd_legs := bd_legs v @ [l]\<rparr>"
  have v: "planned ?v = insert (fb_id b) (planned v)" "proved ?v = proved v"
    using Plan(4) by (simp_all add: planned_def proved_def)
  have same: "x = b" if "x \<in> set (bd_bookings v)" "fb_id x = fb_id b" for x
    using Plan(1,6) that by (auto simp: bookings_sound_def dest: distinct_mapD)
  have b: "booking_sound (planned v) (proved v) b" using Plan(1,6) by (rule sound_booking [rotated])
  have "bookings_sound ?v"
    using Plan(1,2,6) unfolding bookings_sound_def v
    by (auto simp: booking_sound_def dest: same)
  moreover have "booking_sound (planned ?v) (proved ?v) (f b)"
    using b Plan(2) Plan(5) [of b] by (auto simp: v booking_sound_def booking_now_def)
  ultimately show ?case using Plan by (intro sound_put [where b = b]) simp_all
next
  case (Start a v l f g h)
  have "lg_bookingId l \<in> planned v" using Start(3) by (simp add: planned_def)
  then obtain b where b: "b \<in> set (bd_bookings v)" "fb_id b = lg_bookingId l"
    using Start(8) by (auto simp: bookings_sound_def)
  have sound: "booking_sound (planned v) (proved v) b" using Start(8) b(1) by (rule sound_booking)
  let ?v = "put_leg (lg_id l) g (put_assignment (da_id a) f v)"
  have v: "planned ?v = planned v" using Start(6) by (simp add: planned_put_leg)
  have "bookings_sound ?v" using Start(8) unfolding bookings_sound_def v put_simps .
  moreover have "booking_sound (planned v) (proved v) (h b)"
    using sound b \<open>lg_bookingId l \<in> planned v\<close> Start(7) [of b] by (auto simp: booking_sound_def booking_now_def)
  ultimately show ?case using Start(7) b by (intro sound_put [where b = b]) (simp_all add: v)
next
  case (Prove b v p f)
  let ?v = "v\<lparr>bd_proofs := bd_proofs v @ [p]\<rparr>"
  have v: "planned ?v = planned v" "proved ?v = insert (fb_id b) (proved v)"
    using Prove(4) by (simp_all add: planned_def proved_def)
  have b: "booking_sound (planned v) (proved v) b" using Prove(1,6) by (rule sound_booking [rotated])
  have "bookings_sound ?v"
    using Prove(6) unfolding bookings_sound_def v by (auto simp: booking_sound_def)
  moreover have "booking_sound (planned ?v) (proved ?v) (f b)"
    using b Prove(2) Prove(5) [of b] by (auto simp: v booking_sound_def booking_now_def)
  ultimately show ?case using Prove by (intro sound_put [where b = b]) simp_all
next
  case (Complete b v f)
  have b: "booking_sound (planned v) (proved v) b" using Complete(1,4) by (rule sound_booking [rotated])
  with Complete show ?case
    by (intro sound_put [where b = b]) (auto simp: booking_sound_def booking_now_def)
next
  case (Finish a v f g)
  then show ?case by (simp add: bookings_sound_def planned_put_leg)
qed (simp_all add: bookings_sound_def planned_def proved_def put_resources_def put_driver_def put_vehicle_def
      put_assignment_def)

lemma pool_new:
  assumes "pool_sound key status rows busy" and "\<forall>x\<in>set rows. key r \<noteq> key x" and "status r = ''AVAILABLE''"
  shows "pool_sound key status (rows @ [r]) busy"
  using assms by (auto simp: pool_sound_def)

lemma pool_moved:
  assumes "pool_sound key status rows busy" and "\<And>r. key (f r) = key r" and "i \<in> key ` set rows"
    and "\<And>r. status (f r) = (if b then ''ASSIGNED'' else ''AVAILABLE'')"
  shows "pool_sound key status (update_first (\<lambda>x. key x = i) f rows) (if b then insert i busy else busy - {i})"
proof -
  let ?rows = "map (\<lambda>x. if key x = i then f x else x) rows"
  have dist: "distinct (map key rows)" using assms(1) by (simp add: pool_sound_def)
  have ids: "map key ?rows = map key rows" by (simp add: assms(2))
  then have image: "key ` set ?rows = key ` set rows" by (metis list.set_map)
  have "\<forall>r\<in>set ?rows. status r =
      (if key r \<in> (if b then insert i busy else busy - {i}) then ''ASSIGNED'' else ''AVAILABLE'')"
    using assms(1) by (auto simp: pool_sound_def assms(2,4))
  then show ?thesis
    using assms(1,3) unfolding pool_sound_def update_first_map [OF dist] ids image by auto
qed

lemma resources_put:
  assumes "resources_sound v" and "bd_drivers w = bd_drivers v" and "bd_vehicles w = bd_vehicles v"
    and "map da_id (bd_assignments w) = map da_id (bd_assignments v)"
    and "map da_driverId (under_way w) = map da_driverId (under_way v)"
    and "map da_vehicleId (under_way w) = map da_vehicleId (under_way v)"
  shows "resources_sound w"
proof -
  have "da_driverId ` set (under_way w) = da_driverId ` set (under_way v)"
    "da_vehicleId ` set (under_way w) = da_vehicleId ` set (under_way v)"
    using assms(5,6) by (metis list.set_map)+
  with assms show ?thesis by (simp add: resources_sound_def)
qed

lemma active_update_first:
  assumes "\<And>x. x \<in> set as \<Longrightarrow> P x \<Longrightarrow> same_resources x (f x) \<and> active (f x) = active x"
  shows "map da_id (update_first P f as) = map da_id as"
    and "map da_driverId (filter active (update_first P f as)) = map da_driverId (filter active as)"
    and "map da_vehicleId (filter active (update_first P f as)) = map da_vehicleId (filter active as)"
  using assms by (induction as) (auto simp: same_resources_def)

lemma same_assignment_row: "resources_sound v \<Longrightarrow> a \<in> set (bd_assignments v) \<Longrightarrow> x \<in> set (bd_assignments v) \<Longrightarrow>
    da_id x = da_id a \<Longrightarrow> x = a"
  by (auto simp: resources_sound_def dest: distinct_mapD)

lemma finished_under_way:
  assumes "distinct (map da_id as)" and "\<And>x. same_resources x (f x) \<and> \<not> active (f x)"
  shows "filter active (update_first (\<lambda>x. da_id x = i) f as) = filter (\<lambda>x. da_id x \<noteq> i) (filter active as)"
  unfolding update_first_map [OF assms(1)] using assms(2) by (induction as) auto

lemma distinct_other:
  assumes "distinct (map g as)" and "distinct (map key as)" and "a \<in> set as"
  shows "g ` set (filter (\<lambda>x. key x \<noteq> key a) as) = g ` set as - {g a}"
  using assms by (auto dest: distinct_mapD)

lemma resources_kept:
  assumes "board_step v w" and "resources_sound v"
  shows "resources_sound w"
  using assms
proof (induction rule: board_step.induct)
  case (Assign l v d h a)
  let ?w = "put_resources (dv_id d) (vh_id h) ''ASSIGNED'' (v\<lparr>bd_assignments := bd_assignments v @ [a]\<rparr>)"
  have way: "under_way ?w = under_way v @ [a]"
    using Assign(7) by (simp add: under_way_def put_resources_def put_driver_def put_vehicle_def active_def)
  have free: "dv_id d \<notin> da_driverId ` set (under_way v)" "vh_id h \<notin> da_vehicleId ` set (under_way v)"
    using Assign(2-5,11) by (auto simp: resources_sound_def pool_sound_def split: if_splits)
  have pools: "pool_sound dv_id dv_status (bd_drivers v) (da_driverId ` set (under_way v))"
    "pool_sound vh_id vh_status (bd_vehicles v) (da_vehicleId ` set (under_way v))"
    using Assign(11) by (simp_all add: resources_sound_def)
  have "pool_sound dv_id dv_status (bd_drivers ?w) (insert (dv_id d) (da_driverId ` set (under_way v)))"
    using pool_moved [OF pools(1), of "\<lambda>x. x\<lparr>dv_status := ''ASSIGNED''\<rparr>" "dv_id d" True] Assign(2)
    by (simp add: put_resources_def put_driver_def put_vehicle_def)
  moreover have "pool_sound vh_id vh_status (bd_vehicles ?w) (insert (vh_id h) (da_vehicleId ` set (under_way v)))"
    using pool_moved [OF pools(2), of "\<lambda>x. x\<lparr>vh_status := ''ASSIGNED''\<rparr>" "vh_id h" True] Assign(4)
    by (simp add: put_resources_def put_driver_def put_vehicle_def)
  moreover have "distinct (map da_id (bd_assignments ?w))"
    using Assign(6,11) by (auto simp: put_resources_def put_driver_def put_vehicle_def resources_sound_def same_assignment_def)
  ultimately show ?case
    using Assign(9-11) free by (simp add: resources_sound_def way image_iff)
next
  case (Start a v l f g h)
  have "same_resources x (f x) \<and> active (f x) = active x" if "x \<in> set (bd_assignments v)" "da_id x = da_id a" for x
    using same_assignment_row [OF Start(8,1) that] Start(2) Start(5) [of x] by (auto simp: active_def)
  note rows = active_update_first [OF this]
  show ?case
    by (rule resources_put [OF Start(8)])
      (simp_all add: put_assignment_def put_leg_def put_booking_def under_way_def rows)
next
  case (Finish a v f g)
  let ?w = "put_leg (da_legId a) g (put_resources (da_driverId a) (da_vehicleId a) ''AVAILABLE'' (put_assignment (da_id a) f v))"
  have ids: "distinct (map da_id (bd_assignments v))" using Finish(5) by (simp add: resources_sound_def)
  have way: "under_way ?w = filter (\<lambda>x. da_id x \<noteq> da_id a) (under_way v)"
    using finished_under_way [OF ids Finish(3)]
    by (simp add: under_way_def put_leg_def put_resources_def put_driver_def put_vehicle_def put_assignment_def)
  have a: "a \<in> set (under_way v)" using Finish(1,2) by (simp add: under_way_def)
  have sub: "distinct (map da_id (under_way v))" using ids by (simp add: under_way_def distinct_map_filter)
  have dist: "distinct (map da_driverId (under_way v))" "distinct (map da_vehicleId (under_way v))"
    and pools: "pool_sound dv_id dv_status (bd_drivers v) (da_driverId ` set (under_way v))"
    "pool_sound vh_id vh_status (bd_vehicles v) (da_vehicleId ` set (under_way v))"
    using Finish(5) by (simp_all add: resources_sound_def)
  have "da_driverId a \<in> dv_id ` set (bd_drivers v)" "da_vehicleId a \<in> vh_id ` set (bd_vehicles v)"
    using pools a by (auto simp: pool_sound_def)
  then have "pool_sound dv_id dv_status (bd_drivers ?w) (da_driverId ` set (under_way v) - {da_driverId a})"
    "pool_sound vh_id vh_status (bd_vehicles ?w) (da_vehicleId ` set (under_way v) - {da_vehicleId a})"
    using pool_moved [OF pools(1), of "\<lambda>x. x\<lparr>dv_status := ''AVAILABLE''\<rparr>" "da_driverId a" False]
      pool_moved [OF pools(2), of "\<lambda>x. x\<lparr>vh_status := ''AVAILABLE''\<rparr>" "da_vehicleId a" False]
    by (simp_all add: put_leg_def put_resources_def put_driver_def put_vehicle_def put_assignment_def)
  moreover have "map da_id (bd_assignments ?w) = map da_id (bd_assignments v)"
    using Finish(3) by (simp add: put_leg_def put_resources_def put_driver_def put_vehicle_def put_assignment_def
        map_update_first same_resources_def)
  ultimately show ?case
    unfolding resources_sound_def way distinct_other [OF dist(1) sub a] distinct_other [OF dist(2) sub a]
    using dist ids by (simp add: distinct_map_filter)
next
  case (Check_In f i v)
  then have "same_resources x (f x) \<and> active (f x) = active x" for x by (simp add: active_def)
  note rows = active_update_first [OF this]
  show ?case
    by (rule resources_put [OF Check_In(2)]) (simp_all add: put_assignment_def under_way_def rows)
next
  case (Driver v d)
  then show ?case by (simp add: resources_sound_def under_way_def pool_new)
next
  case (Vehicle v d)
  then show ?case by (simp add: resources_sound_def under_way_def pool_new)
qed (simp_all add: resources_sound_def under_way_def put_booking_def)

lemma run_resources: "board_step\<^sup>*\<^sup>* v w \<Longrightarrow> resources_sound v \<Longrightarrow> resources_sound w"
  by (induction rule: rtranclp_induct) (auto intro: resources_kept)

lemma run_bookings: "board_step\<^sup>*\<^sup>* v w \<Longrightarrow> bookings_sound v \<Longrightarrow> bookings_sound w"
  by (induction rule: rtranclp_induct) (auto intro: bookings_kept)

section \<open>A delivery that is started again\<close>

text \<open>
  \<open>stranded i v\<close>: the booking \<open>i\<close> is in transit although its one proof of delivery exists. No step
  leads out of this: a second proof is refused, and only a delivered booking can be completed.
\<close>

definition stranded :: "uuid \<Rightarrow> board \<Rightarrow> bool" where
  "stranded i v \<longleftrightarrow> bookings_sound v \<and> i \<in> proved v \<and> i \<in> fb_id ` set (bd_bookings v)
     \<and> (\<forall>b\<in>set (bd_bookings v). fb_id b = i \<longrightarrow> fb_status b = ''IN_TRANSIT'')"

lemma put_booking_at:
  assumes "distinct (map fb_id (bd_bookings v))" and "\<And>x. booking_now st x (f x)"
    and "c \<in> set (bd_bookings (put_booking j f v))"
  shows "c \<in> set (bd_bookings v) \<and> fb_id c \<noteq> j \<or> fb_id c = j \<and> fb_status c = st"
  using assms(2,3) unfolding put_booking_rows [OF assms(1)]
  by (auto simp: booking_now_def split: if_splits)

lemma put_booking_ids:
  assumes "\<And>x. booking_now st x (f x)"
  shows "fb_id ` set (bd_bookings (put_booking j f v)) = fb_id ` set (bd_bookings v)"
  using assms by (simp add: put_booking_def image_update_first booking_now_def)

lemma stranded_put:
  assumes "bookings_sound (put_booking j f v)" and "distinct (map fb_id (bd_bookings v))"
    and "\<And>x. booking_now st x (f x)" and "st = ''IN_TRANSIT'' \<or> i \<noteq> j" and "i \<in> proved v"
    and "i \<in> fb_id ` set (bd_bookings v)"
    and "\<forall>b\<in>set (bd_bookings v). fb_id b = i \<longrightarrow> fb_status b = ''IN_TRANSIT''"
  shows "stranded i (put_booking j f v)"
  unfolding stranded_def put_booking_ids [OF assms(3)]
  using assms put_booking_at [OF assms(2,3)] by (simp del: image_iff) blast

lemma proved_updates [simp]:
  "proved (bd_bookings_update f1 v) = proved v" "proved (bd_legs_update f2 v) = proved v"
  "proved (bd_assignments_update f3 v) = proved v" "proved (bd_drivers_update f4 v) = proved v"
  "proved (bd_vehicles_update f5 v) = proved v"
  "proved (v\<lparr>bd_proofs := bd_proofs v @ [p]\<rparr>) = insert (pf_bookingId p) (proved v)"
  by (simp_all add: proved_def)

lemma stranded_kept:
  assumes "board_step v w" and "stranded i v"
  shows "stranded i w"
proof -
  have sound: "bookings_sound w" using assms by (auto simp: stranded_def intro: bookings_kept)
  show ?thesis using assms sound
  proof (induction rule: board_step.induct)
    case (Book v k)
    then have "fb_id k \<noteq> i" by (auto simp: stranded_def same_booking_def)
    with Book show ?case by (simp add: stranded_def)
  next
    case (Confirm f v j tenant)
    have "fb_id ` set (update_where P f bs) = fb_id ` set bs" for P bs
      using Confirm(1) by (intro image_update_where) simp
    with Confirm show ?case by (auto simp: stranded_def) (auto simp: update_where_def split: if_splits)
  next
    case (Plan b v l f)
    then have "fb_id b \<noteq> i" by (auto simp: stranded_def)
    with Plan show ?case
      by (intro stranded_put [OF _ _ Plan(5)]) (auto simp: stranded_def bookings_sound_def)
  next
    case (Start a v l f g h)
    then show ?case
      by (intro stranded_put [OF _ _ Start(7)]) (auto simp: stranded_def bookings_sound_def)
  next
    case (Prove b v p f)
    then have "fb_id b \<noteq> i" by (auto simp: stranded_def proved_def same_proof_def)
    with Prove show ?case
      by (intro stranded_put [OF _ _ Prove(5)]) (auto simp: stranded_def bookings_sound_def)
  next
    case (Complete b v f)
    then have "fb_id b \<noteq> i" by (auto simp: stranded_def)
    with Complete show ?case
      by (intro stranded_put [OF _ _ Complete(3)]) (auto simp: stranded_def bookings_sound_def)
  qed (simp_all add: stranded_def)
qed

lemma run_stranded: "board_step\<^sup>*\<^sup>* v w \<Longrightarrow> stranded i v \<Longrightarrow> stranded i w"
  by (induction rule: rtranclp_induct) (auto intro: stranded_kept)

section \<open>What accepting a quote creates\<close>

definition bill_view ::
  "'m freight_db_scheme \<Rightarrow> freight_booking list \<times> billing_invoice list \<times> invoice_line list \<times> payment_schedule list"
where
  "bill_view s = (freight_bookings s, invoices s, invoice_lines s, schedules s)"

lemma freight_lines_created:
  assumes "for_each ls (create_freight_line ctx ii) s = (Inr (), t)"
  shows "\<exists>news. freight_bookings t = freight_bookings s \<and> invoices t = invoices s \<and> schedules t = schedules s
    \<and> invoice_lines t = invoice_lines s @ news \<and> map il_totalMinor news = map qi_totalMinor ls"
  using assms
proof (induction ls arbitrary: s)
  case (Cons l ls)
  then obtain u where u: "create_freight_line ctx ii l s = (Inr (), u)"
    and rest: "for_each ls (create_freight_line ctx ii) u = (Inr (), t)" by auto
  from u obtain r where "freight_bookings u = freight_bookings s" "invoices u = invoices s" "schedules u = schedules s"
    "invoice_lines u = invoice_lines s @ [r]" "il_totalMinor r = qi_totalMinor l"
    by (auto simp: create_freight_line_def)
  with Cons.IH [OF rest] show ?case by auto
qed simp

lemma freight_schedules_created:
  assumes "for_each ps (create_freight_schedule ctx ii) s = (Inr (), t)"
  shows "\<exists>news. freight_bookings t = freight_bookings s \<and> invoices t = invoices s
    \<and> invoice_lines t = invoice_lines s \<and> schedules t = schedules s @ news
    \<and> map is_amountMinor news = map (\<lambda>(k, m, d, n). m) ps
    \<and> (\<forall>p\<in>set news. is_invoiceId p = ii \<and> is_paidMinor p = 0 \<and> is_creditedMinor p = 0)"
  using assms
proof (induction ps arbitrary: s)
  case (Cons p ps)
  then obtain u where u: "create_freight_schedule ctx ii p s = (Inr (), u)"
    and rest: "for_each ps (create_freight_schedule ctx ii) u = (Inr (), t)" by auto
  from u obtain r where "freight_bookings u = freight_bookings s" "invoices u = invoices s"
    "invoice_lines u = invoice_lines s" "schedules u = schedules s @ [r]"
    "is_amountMinor r = (case p of (k, m, d, n) \<Rightarrow> m)" "is_invoiceId r = ii" "is_paidMinor r = 0" "is_creditedMinor r = 0"
    by (cases p) (auto simp: create_freight_schedule_def)
  with Cons.IH [OF rest] show ?case by auto
qed simp

lemma schedules_add_up: "sum_list (map (\<lambda>(k, m, d, n). m) (paymentSchedules amount pct days policy today)) = amount"
  by (simp add: paymentSchedules_def Let_def)

lemma bill_quiet:
  "keeps (\<lambda>s. (bill_view s, freight_quote_lines s)) (nextNumber ctx kind prefix)"
  "keeps bill_view (update_row freight_quotes freight_quotes_update P f)"
  "keeps bill_view (update_row freight_requests freight_requests_update Q g)"
  "keeps bill_view (freight_audit ctx pr a ty i)" "keeps bill_view (freight_outbox ctx t su pa)"
  unfolding nextNumber_def by (intro keeps_intros; simp add: bill_view_def)+

lemma freight_invoice_created:
  assumes "create_freight_invoice ctx pr q r bi ii today s = (Inr b, t)"
  shows "freight_bookings t = freight_bookings s \<and> invoices t = invoices s @ [b] \<and> bi_id b = ii
    \<and> bi_sourceId b = bi \<and> bi_totalMinor b = fq_totalMinor q \<and> bi_paidMinor b = 0 \<and> bi_creditedMinor b = 0
    \<and> (\<exists>ls ps. invoice_lines t = invoice_lines s @ ls \<and> schedules t = schedules s @ ps
        \<and> map il_totalMinor ls = map qi_totalMinor (filter (\<lambda>l. qi_quoteId l = fq_id q) (freight_quote_lines s))
        \<and> (\<forall>p\<in>set ps. is_invoiceId p = ii \<and> is_paidMinor p = 0 \<and> is_creditedMinor p = 0)
        \<and> sum_list (map is_amountMinor ps) = fq_totalMinor q)"
proof -
  obtain number u v w where u: "nextNumber ctx ''INVOICE'' ''INV'' s = (Inr number, u)"
    and w: "for_each (filter (\<lambda>l. qi_quoteId l = fq_id q) (freight_quote_lines u)) (create_freight_line ctx ii) v = (Inr (), w)"
    and t: "for_each (paymentSchedules (fq_totalMinor q) (fq_depositPercent q) (fq_paymentTermsDays q)
      (effective_policy q r) today) (create_freight_schedule ctx ii) w = (Inr (), t)"
    and v: "invoices v = invoices u @ [b] \<and> freight_bookings v = freight_bookings u \<and> schedules v = schedules u
      \<and> invoice_lines v = invoice_lines u"
    and b: "bi_id b = ii" "bi_sourceId b = bi" "bi_totalMinor b = fq_totalMinor q" "bi_paidMinor b = 0"
      "bi_creditedMinor b = 0"
    using assms unfolding create_freight_invoice_def by (auto simp del: filter.simps)
  from keepsD [OF bill_quiet(1) u] have "bill_view u = bill_view s" "freight_quote_lines u = freight_quote_lines s"
    by simp_all
  with freight_lines_created [OF w] freight_schedules_created [OF t] v b show ?thesis
    by (auto simp: bill_view_def schedules_add_up)
qed

lemma accept_tx_bills:
  assumes "accept_quote_tx ctx pr q r bi ii today s = (Inr (k, b), t)"
  shows "k = new_booking ctx pr q r bi ii today \<and> freight_bookings t = freight_bookings s @ [k]
    \<and> (\<forall>x\<in>set (freight_bookings s). \<not> same_booking k x)
    \<and> invoices t = invoices s @ [b] \<and> bi_id b = ii \<and> bi_sourceId b = bi \<and> bi_totalMinor b = fq_totalMinor q
    \<and> (\<exists>ls ps. invoice_lines t = invoice_lines s @ ls \<and> schedules t = schedules s @ ps
        \<and> map il_totalMinor ls = map qi_totalMinor (filter (\<lambda>l. qi_quoteId l = fq_id q) (freight_quote_lines s))
        \<and> (\<forall>p\<in>set ps. is_invoiceId p = ii \<and> is_paidMinor p = 0 \<and> is_creditedMinor p = 0)
        \<and> sum_list (map is_amountMinor ps) = fq_totalMinor q)"
proof -
  obtain u v where u: "create_freight_invoice ctx pr q r bi ii today s = (Inr b, u)"
    and v: "create_row freight_bookings freight_bookings_update same_booking
      (new_booking ctx pr q r bi ii today) u = (Inr k, v)"
    and t: "bill_view t = bill_view v"
    using assms unfolding accept_quote_tx_def
    by (auto simp del: create_row_Inr update_row_Inr dest!: bill_quiet(2-5) [THEN keepsD])
  from v have "k = new_booking ctx pr q r bi ii today" "freight_bookings v = freight_bookings u @ [k]"
    "\<forall>x\<in>set (freight_bookings u). \<not> same_booking k x" "invoices v = invoices u"
    "invoice_lines v = invoice_lines u" "schedules v = schedules u" by auto
  with t freight_invoice_created [OF u] show ?thesis by (auto simp: bill_view_def)
qed

definition within_credit :: "'m freight_db_scheme \<Rightarrow> uuid \<Rightarrow> freight_quote \<Rightarrow> uuid \<Rightarrow> bool" where
  "within_credit s tenant q account \<longleftrightarrow> (\<exists>a\<in>set (business_accounts s). ba_id a = account \<and> ba_status a = ''ACTIVE''
     \<and> (ba_creditLimitMinor a > 0 \<longrightarrow> open_exposure s tenant account + fq_totalMinor q \<le> ba_creditLimitMinor a))"

lemma check_credit_within:
  "check_credit ctx pr q account s = (Inr x, t) \<Longrightarrow> within_credit s (ctx_tenantId ctx) q account"
  unfolding check_credit_def within_credit_def by (auto dest!: find_SomeD)

lemma quote_for_found:
  "freight_quote_for ctx pr i all s = (Inr (q, r), t) \<Longrightarrow> t = s \<and> q \<in> set (freight_quotes s) \<and> fq_id q = i
     \<and> r \<in> set (freight_requests s) \<and> rq_id r = fq_requestId q"
  unfolding freight_quote_for_def by (auto dest!: find_SomeD)

lemma credit_reads_only:
  assumes "(case account of None \<Rightarrow> ret () | Some a \<Rightarrow> when_do net (check_credit ctx pr q a)) s = (Inr x, t)"
  shows "t = s"
proof -
  have "keeps (\<lambda>s. s) (case account of None \<Rightarrow> ret () | Some a \<Rightarrow> when_do net (check_credit ctx pr q a))"
    by (intro keeps_intros)
  from keepsD [OF this assms] show ?thesis .
qed

definition deal_view ::
  "'m freight_db_scheme \<Rightarrow> (freight_booking list \<times> billing_invoice list \<times> invoice_line list \<times> payment_schedule list)
     \<times> freight_quote_line list \<times> business_account list"
where
  "deal_view s = (bill_view s, freight_quote_lines s, business_accounts s)"

lemma deal_quiet:
  "now s = (r1, t) \<Longrightarrow> deal_view t = deal_view s"
  "random_uuid s = (r2, t) \<Longrightarrow> deal_view t = deal_view s"
  by (auto simp: now_def random_uuid_def deal_view_def bill_view_def)

lemma accept_quote_found:
  fixes s :: "'m freight_db_scheme"
  assumes "acceptQuote ctx pr i s = (Inr (k, b), t)"
  obtains q r bi ii c u where "q \<in> set (freight_quotes s)" "fq_id q = i" "fq_status q = ''PUBLISHED''"
    "r \<in> set (freight_requests s)" "rq_id r = fq_requestId q"
    "effective_policy q r = ''NET_TERMS'' \<longrightarrow>
       (\<exists>a. rq_businessAccountId r = Some a \<and> within_credit s (ctx_tenantId ctx) q a)"
    "bill_view u = bill_view s" "freight_quote_lines u = freight_quote_lines s"
    "accept_quote_tx ctx pr q r bi ii c u = (Inr (k, b), t)"
proof -
  obtain q r x bi ii c and v w u :: "'m freight_db_scheme" where tx: "accept_quote_tx ctx pr q r bi ii c u = (Inr (k, b), t)"
    and credit: "(case rq_businessAccountId r of None \<Rightarrow> ret ()
         | Some a \<Rightarrow> when_do (effective_policy q r = ''NET_TERMS'') (check_credit ctx pr q a)) v = (Inr x, w)"
    and u: "deal_view u = deal_view w" and v: "deal_view v = deal_view s"
    and found: "q \<in> set (freight_quotes s)" "fq_id q = i" "r \<in> set (freight_requests s)"
      "rq_id r = fq_requestId q" "fq_status q = ''PUBLISHED''"
    using assms unfolding acceptQuote_def
    by (auto simp del: when_do_Inr now_Inr random_uuid_Inr dest!: quote_for_found deal_quiet)
  have w: "w = v" using credit by (rule credit_reads_only)
  have "effective_policy q r = ''NET_TERMS'' \<longrightarrow>
       (\<exists>a. rq_businessAccountId r = Some a \<and> within_credit s (ctx_tenantId ctx) q a)"
    using credit v by (auto simp: effective_policy_def within_credit_def open_exposure_def bill_view_def deal_view_def
        split: option.splits dest!: check_credit_within)
  with found u v tx show thesis unfolding w by (intro that [of q r]) (simp_all add: deal_view_def)
qed

section \<open>A concrete freight desk\<close>

definition some_freight_request :: freight_request where
  "some_freight_request = \<lparr>rq_id = ''request'', rq_tenantId = ''tenant'', rq_number = ''FRQ-1'',
     rq_requesterId = ''user'', rq_businessAccountId = None, rq_status = ''QUOTED'',
     rq_serviceLevel = ''STANDARD'', rq_preferredModes = [''ROAD''], rq_incoterm = None,
     rq_insuranceRequired = False, rq_customsRequired = False, rq_specialInstructions = None,
     rq_submittedAt = Some 1, rq_acceptedAt = None, rq_cancelledAt = None, rq_version = 3\<rparr>"

definition some_freight_quote :: freight_quote where
  "some_freight_quote = \<lparr>fq_id = ''quote'', fq_tenantId = ''tenant'', fq_requestId = ''request'',
     fq_number = ''FQT-1'', fq_revision = 1, fq_status = ''PUBLISHED'', fq_currency = ''USD'',
     fq_subtotalMinor = 1000, fq_taxMinor = 1, fq_totalMinor = 1001, fq_paymentPolicy = ''DEPOSIT'',
     fq_depositPercent = Some 30, fq_paymentTermsDays = 0, fq_terms = None, fq_validUntil = 1000,
     fq_createdBy = ''desk'', fq_publishedAt = Some 2, fq_acceptedAt = None, fq_declinedAt = None,
     fq_version = 2\<rparr>"

definition offered_freight :: freight_db where
  "offered_freight = fresh_freight\<lparr>freight_requests := [some_freight_request],
     freight_quotes := [some_freight_quote],
     freight_quote_lines := [\<lparr>qi_id = ''item'', qi_tenantId = ''tenant'', qi_quoteId = ''quote'',
       qi_kind = ''FREIGHT'', qi_description = ''Road freight'', qi_quantity = 2, qi_unitMinor = 500,
       qi_totalMinor = 1000, qi_taxable = True, qi_metadata = None\<rparr>]\<rparr>"

definition cancelled_freight :: freight_db where
  "cancelled_freight = snd (cancel some_context some_principal ''request'' offered_freight)"

definition some_freight_booking :: freight_booking where
  "some_freight_booking = \<lparr>fb_id = ''booking'', fb_tenantId = ''tenant'', fb_requestId = ''request'',
     fb_quoteId = ''quote'', fb_number = ''FBK-1'', fb_status = ''IN_TRANSIT'', fb_customerId = ''user'',
     fb_businessAccountId = None, fb_invoiceId = None, fb_confirmedAt = Some 3, fb_dispatchedAt = Some 4,
     fb_deliveredAt = None, fb_completedAt = None, fb_version = 4\<rparr>"

definition some_leg :: "uuid \<Rightarrow> int \<Rightarrow> transport_leg" where
  "some_leg i n = \<lparr>lg_id = i, lg_tenantId = ''tenant'', lg_bookingId = ''booking'', lg_sequence = n,
     lg_mode = ''ROAD'', lg_originStopId = ''from'', lg_destinationStopId = ''to'', lg_carrierId = None,
     lg_providerReference = None, lg_status = ''PLANNED'', lg_plannedDepartureAt = None,
     lg_plannedArrivalAt = None, lg_actualDepartureAt = None, lg_actualArrivalAt = None, lg_equipment = None\<rparr>"

text \<open>A booking on the road, with a driver and a vehicle free for its second leg.\<close>

definition moving_freight :: freight_db where
  "moving_freight = fresh_freight\<lparr>freight_bookings := [some_freight_booking],
     transport_legs := [some_leg ''leg1'' 1, some_leg ''leg2'' 2],
     transport_drivers := [\<lparr>dv_id = ''driver'', dv_tenantId = ''tenant'', dv_carrierId = None,
       dv_employeeRef = None, dv_displayName = ''Dana'', dv_phoneCiphertext = [], dv_licenseNumber = None,
       dv_licenseExpiresAt = None, dv_status = ''AVAILABLE''\<rparr>],
     transport_vehicles := [\<lparr>vh_id = ''truck'', vh_tenantId = ''tenant'', vh_carrierId = None,
       vh_registration = ''T-1'', vh_equipmentType = ''BOX'', vh_capacityKg = None, vh_capacityCubicM = None,
       vh_status = ''AVAILABLE''\<rparr>]\<rparr>"

definition assigned_freight :: freight_db where
  "assigned_freight = snd (assign some_context some_principal ''leg2''
     \<lparr>gn_driverId = ''driver'', gn_vehicleId = ''truck'', gn_carrierId = None,
      gn_checkInIntervalMinutes = None\<rparr> moving_freight)"

definition delivered_freight :: freight_db where
  "delivered_freight = snd (proofOfDelivery some_context some_principal ''booking''
     \<lparr>pg_recipient = ''Reception'', pg_deliveredAt = 9, pg_documentId = None, pg_note = None\<rparr> assigned_freight)"

definition restarted_freight :: freight_db where
  "restarted_freight = snd (transitionAssignment some_context some_principal ''0'' START delivered_freight)"

lemmas freight_fresh_defs = fresh_freight_def fresh_billing_def fresh_finance_def fresh_inventory_def
  fresh_catalog_def fresh_events_def freight_db.defs billing_db.defs finance_db.defs
  inventory_db.defs catalog_db.defs events_db.defs

lemma moving_board: "resources_sound (board_of moving_freight) \<and> bookings_sound (board_of moving_freight)"
  by (simp add: moving_freight_def board_of_def freight_fresh_defs resources_sound_def bookings_sound_def
      under_way_def pool_sound_def planned_def proved_def booking_sound_def some_freight_booking_def some_leg_def)

lemma assigned_run: "(freight_step port)\<^sup>*\<^sup>* moving_freight assigned_freight"
  unfolding assigned_freight_def by (rule r_into_rtranclp, rule freight_step.Assign, rule surjective_pairing)

lemma freight_delivered_run: "(freight_step port)\<^sup>*\<^sup>* moving_freight delivered_freight"
proof -
  have "freight_step port assigned_freight delivered_freight"
    unfolding delivered_freight_def by (rule freight_step.Proof, rule surjective_pairing)
  with assigned_run show ?thesis by (rule rtranclp.rtrancl_into_rtrancl)
qed

lemma restarted_assignment:
  obtains a l where "requireAssignment some_context ''0'' delivered_freight = (Inr (a, l), delivered_freight)"
    "lg_bookingId l = ''booking''"
proof -
  have "case fst (requireAssignment some_context ''0'' delivered_freight) of
      Inl e \<Rightarrow> False | Inr (a, l) \<Rightarrow> lg_bookingId l = ''booking''" by code_simp
  moreover have "snd (requireAssignment some_context ''0'' delivered_freight) = delivered_freight"
    using keepsD [OF keeps_freight_reads(9) surjective_pairing, where v = "\<lambda>s. s"] .
  ultimately show thesis
    by (cases "requireAssignment some_context ''0'' delivered_freight") (auto split: sum.splits intro: that)
qed

lemma restarted: "map (\<lambda>b. (fb_id b, fb_status b)) (freight_bookings delivered_freight) = [(''booking'', ''DELIVERED'')]
  \<and> returned (fst (transitionAssignment some_context some_principal ''0'' START delivered_freight))"
  by code_simp

lemma cancelled_accepted:
  "map rq_status (freight_requests cancelled_freight) = [''CANCELLED'']
   \<and> (case acceptQuote some_context some_principal ''quote'' cancelled_freight of
        (Inl e, t) \<Rightarrow> False
      | (Inr (k, b), t) \<Rightarrow> fb_requestId k = ''request'' \<and> bi_totalMinor b = 1001
          \<and> map rq_status (freight_requests t) = [''ACCEPTED''] \<and> map is_amountMinor (schedules t) = [1001])"
  by code_simp

section \<open>Properties\<close>

text \<open>
  C18. Along every run of freight operations and captured payments, refused calls included, a driver
  and a vehicle are on one journey at a time: no two assignments under way share one, and each is
  marked assigned exactly while it has an assignment under way and available otherwise.
\<close>

theorem dispatch_is_exclusive:
  assumes "(freight_step port)\<^sup>*\<^sup>* s t" and "resources_sound (board_of s)"
  shows "distinct (map da_driverId (filter active (dispatch_assignments t)))
    \<and> distinct (map da_vehicleId (filter active (dispatch_assignments t)))
    \<and> (\<forall>d\<in>set (transport_drivers t). dv_status d =
         (if \<exists>a\<in>set (dispatch_assignments t). active a \<and> da_driverId a = dv_id d then ''ASSIGNED'' else ''AVAILABLE''))
    \<and> (\<forall>h\<in>set (transport_vehicles t). vh_status h =
         (if \<exists>a\<in>set (dispatch_assignments t). active a \<and> da_vehicleId a = vh_id h then ''ASSIGNED'' else ''AVAILABLE''))"
proof -
  have "resources_sound (board_of t)" by (rule run_resources [OF freight_run_refines [OF assms(1)] assms(2)])
  moreover have "x \<in> f ` set (filter active as) \<longleftrightarrow> (\<exists>a\<in>set as. active a \<and> f a = x)" for x as and f :: "_ \<Rightarrow> uuid"
    by auto
  ultimately show ?thesis
    by (simp add: resources_sound_def pool_sound_def under_way_def board_of_def del: set_filter)
qed

theorem dispatch_is_exclusive_witness:
  "list_all (\<lambda>d. dv_status d = ''ASSIGNED'') (transport_drivers assigned_freight)
   \<and> distinct (map da_driverId (filter active (dispatch_assignments assigned_freight)))"
proof -
  have "list_all (\<lambda>d. dv_status d = ''ASSIGNED'') (transport_drivers assigned_freight)" by code_simp
  with dispatch_is_exclusive [OF assigned_run] moving_board show ?thesis by blast
qed

text \<open>
  C19. Along every run of freight operations and captured payments a booking leaves the state of
  awaiting its payment only with a confirmation, which is a payment or accepted net terms, and it is
  delivered or completed only with a proof of delivery.
\<close>

theorem delivery_needs_proof:
  assumes "(freight_step port)\<^sup>*\<^sup>* s t" and "bookings_sound (board_of s)" and "b \<in> set (freight_bookings t)"
  shows "(fb_status b \<noteq> ''AWAITING_PAYMENT'' \<longrightarrow> fb_confirmedAt b \<noteq> None)
    \<and> (fb_status b \<in> {''DELIVERED'', ''COMPLETED''} \<longrightarrow>
         (\<exists>p\<in>set (proofs_of_delivery t). pf_bookingId p = fb_id b))"
proof -
  have "bookings_sound (board_of t)" by (rule run_bookings [OF freight_run_refines [OF assms(1)] assms(2)])
  then have "booking_sound (planned (board_of t)) (proved (board_of t)) b"
    using assms(3) by (intro sound_booking) (simp_all add: board_of_def)
  then show ?thesis by (auto simp: booking_sound_def proved_def board_of_def)
qed

theorem delivery_needs_proof_witness:
  "\<exists>b\<in>set (freight_bookings delivered_freight). fb_status b = ''DELIVERED''
     \<and> (\<exists>p\<in>set (proofs_of_delivery delivered_freight). pf_bookingId p = fb_id b)"
proof -
  from restarted have "\<exists>b\<in>set (freight_bookings delivered_freight). fb_status b = ''DELIVERED''"
    by (auto simp: map_eq_Cons_conv)
  then show ?thesis using delivery_needs_proof [OF freight_delivered_run] moving_board by blast
qed

text \<open>
  C27. Starting another leg of a delivered booking puts it back in transit, and from then on no run of
  freight operations and payments delivers or completes it: its proof of delivery exists already, so
  a new one is refused, and completion asks for a delivered booking.
\<close>

theorem late_start_strands_booking:
  assumes "bookings_sound (board_of s)" and "b \<in> set (freight_bookings s)" and "fb_status b = ''DELIVERED''"
    and "requireAssignment ctx i s = (Inr (a, l), s)" and "lg_bookingId l = fb_id b"
    and "transitionAssignment ctx pr i START s = (Inr r, t)" and "(freight_step port)\<^sup>*\<^sup>* t u"
  shows "(\<exists>c\<in>set (freight_bookings u). fb_id c = fb_id b)
    \<and> (\<forall>c\<in>set (freight_bookings u). fb_id c = fb_id b \<longrightarrow> fb_status c = ''IN_TRANSIT'')"
proof -
  obtain c v where v: "now s = (Inr c, v)" and start: "start_assignment_tx a l c v = (Inr r, t)"
    using assms(4,6) unfolding transitionAssignment_def by (auto simp del: now_Inr)
  have "board_of v = board_of s" using board_quiet(4) [OF v] .
  then obtain f w where t: "board_of t = put_booking (fb_id b) f w"
    and f: "\<And>x. booking_now ''IN_TRANSIT'' x (f x)" and w: "bd_bookings w = freight_bookings s" "proved w = proved (board_of s)"
    using start_board [OF start] reads_only(3) [OF assms(4)] assms(5) by (auto simp: booking_now_def board_of_def)
  have "bookings_sound (board_of t)"
    using transition_follows [OF assms(6)] assms(1) by (auto intro: bookings_kept)
  moreover have dist: "distinct (map fb_id (bd_bookings w))"
    using assms(1) by (simp add: w bookings_sound_def board_of_def)
  moreover have "\<forall>c\<in>set (bd_bookings (put_booking (fb_id b) f w)). fb_id c = fb_id b \<longrightarrow> fb_status c = ''IN_TRANSIT''"
    using put_booking_at [OF dist f] by blast
  moreover have "fb_id b \<in> proved (board_of s)"
    using sound_booking [OF assms(1), of b] assms(2,3) by (simp add: booking_sound_def board_of_def)
  ultimately have "stranded (fb_id b) (board_of t)"
    using assms(2) unfolding t stranded_def put_booking_ids [OF f] by (auto simp: w)
  then have "stranded (fb_id b) (board_of u)" by (rule run_stranded [OF freight_run_refines [OF assms(7)]])
  then show ?thesis by (auto simp: stranded_def board_of_def)
qed

theorem late_start_strands_booking_witness:
  "\<exists>c\<in>set (freight_bookings restarted_freight). fb_id c = ''booking'' \<and> fb_status c = ''IN_TRANSIT''"
proof -
  obtain a l where al: "requireAssignment some_context ''0'' delivered_freight = (Inr (a, l), delivered_freight)"
    "lg_bookingId l = ''booking''" by (rule restarted_assignment)
  obtain r where r: "transitionAssignment some_context some_principal ''0'' START delivered_freight = (Inr r, restarted_freight)"
    using restarted unfolding restarted_freight_def returned_def
    by (metis (no_types, lifting) old.sum.exhaust prod.collapse sum.simps(5))
  have sound: "bookings_sound (board_of delivered_freight)"
    using run_bookings [OF freight_run_refines [OF freight_delivered_run]] moving_board by blast
  obtain b where "b \<in> set (freight_bookings delivered_freight)" "fb_status b = ''DELIVERED''" "fb_id b = ''booking''"
    using restarted by (auto simp: map_eq_Cons_conv)
  then show ?thesis
    using late_start_strands_booking [OF sound _ _ al(1) _ r rtranclp.rtrancl_refl, of b] al(2) by auto
qed




end
