(* ===== verification/Claims.thy ===== *)
theory Claims
  imports Insurance Dispatch
begin

text \<open>
  What cargo insurance promises: an accepted quote binds one policy and issues one invoice for its
  premium; along every run of insurance operations and payments a claim stays within its policy.
  \<open>cover_of\<close> is the part of the state these promises are about.
\<close>

section \<open>Binding a policy\<close>

definition premium_view :: "'m insurance_db_scheme \<Rightarrow> _" where
  "premium_view s = (invoices s, invoice_lines s, schedules s, insurance_policies s)"

lemma premium_quiet:
  "keeps premium_view (nextInvoiceNumber tenant)"
  "keeps premium_view (now :: ('m insurance_db_scheme, instant) prog)"
  "keeps premium_view (random_uuid :: ('m insurance_db_scheme, uuid) prog)"
  "keeps premium_view (freight_audit ctx pr a b i)"
  "keeps premium_view (freight_outbox ctx a b j)"
  "keeps premium_view (update_many insurance_quotes insurance_quotes_update P f)"
  unfolding nextInvoiceNumber_def freight_audit_def freight_outbox_def premium_view_def
  by (intro keeps_intros; simp)+

lemma premium_more: "runtime.more t = runtime.more s \<Longrightarrow> premium_view t = premium_view s"
  for s t :: "'m insurance_db_scheme"
  by (cases s; cases t) (simp add: premium_view_def)

lemmas premium_kept = premium_quiet [THEN keepsD]

lemma premium_invoice_created:
  fixes s :: "'m insurance_db_scheme"
  assumes "create_premium_invoice ctx pr profile q policyId invoiceId s = (Inr number, t)"
  shows "\<exists>b l p. invoices t = invoices s @ [b] \<and> invoice_lines t = invoice_lines s @ [l]
    \<and> schedules t = schedules s @ [p] \<and> insurance_policies t = insurance_policies s
    \<and> bi_id b = invoiceId \<and> bi_sourceType b = ''CARGO_INSURANCE'' \<and> bi_sourceId b = policyId
    \<and> bi_status b = ''ISSUED'' \<and> bi_totalMinor b = vq_totalMinor q \<and> bi_number b = number
    \<and> (\<forall>x\<in>set (invoices s). \<not> same_invoice b x)
    \<and> il_invoiceId l = invoiceId \<and> il_totalMinor l = vq_premiumMinor q \<and> il_taxMinor l = vq_taxMinor q
    \<and> is_invoiceId p = invoiceId \<and> is_amountMinor p = vq_totalMinor q \<and> is_paidMinor p = 0"
proof -
  obtain u :: "'m insurance_db_scheme" where u: "nextInvoiceNumber (ctx_tenantId ctx) s = (Inr number, u)"
    using assms unfolding create_premium_invoice_def by auto
  have "premium_view u = premium_view s" by (rule premium_kept(1) [OF u])
  then show ?thesis using assms u unfolding create_premium_invoice_def premium_view_def by auto
qed

lemma accept_tx_binds:
  fixes s :: "'m insurance_db_scheme"
  assumes "accept_insurance_tx ctx pr profile q r b i s = (Inr (p, invoiceId, number), t)"
  shows "\<exists>v l k. invoices t = invoices s @ [v] \<and> invoice_lines t = invoice_lines s @ [l]
    \<and> schedules t = schedules s @ [k] \<and> insurance_policies t = insurance_policies s @ [p]
    \<and> p = new_policy ctx q r b i \<and> (\<forall>x\<in>set (insurance_policies s). \<not> same_policy p x)
    \<and> bi_id v = invoiceId \<and> bi_sourceType v = ''CARGO_INSURANCE'' \<and> bi_sourceId v = i
    \<and> bi_status v = ''ISSUED'' \<and> bi_totalMinor v = vq_totalMinor q \<and> bi_number v = number
    \<and> il_invoiceId l = invoiceId \<and> il_totalMinor l = vq_premiumMinor q \<and> il_taxMinor l = vq_taxMinor q
    \<and> is_invoiceId k = invoiceId \<and> is_amountMinor k = vq_totalMinor q \<and> is_paidMinor k = 0"
proof -
  obtain c ii n and u1 u2 u3 u4 u5 u6 :: "'m insurance_db_scheme" where
    a1: "now s = (Inr c, u1)" and
    a2: "update_many insurance_quotes insurance_quotes_update
            (\<lambda>x. vq_id x = vq_id q \<and> vq_tenantId x = ctx_tenantId ctx \<and> vq_status x = ''QUOTED'')
            (\<lambda>x. x\<lparr>vq_status := ''ACCEPTED'', vq_acceptedAt := Some c\<rparr>) u1 = (Inr n, u2)" and
    a3: "random_uuid u2 = (Inr invoiceId, u3)" and
    a4: "create_premium_invoice ctx pr profile q i invoiceId u3 = (Inr number, u4)" and
    a5: "create_row insurance_policies insurance_policies_update same_policy (new_policy ctx q r b i) u4 = (Inr p, u5)" and
    a6: "freight_audit ctx pr ''insurance.policy.bound'' ''CargoInsurancePolicy'' i u5 = (Inr (), u6)" and
    a7: "freight_outbox ctx ''insurance.policy.bound.v1'' i
            (JObj [(''policyId'', JStr i), (''requestId'', JStr (rq_id r)), (''invoiceId'', JStr invoiceId)]) u6 = (Inr (), t)"
    using assms unfolding accept_insurance_tx_def
    by (auto simp del: now_Inr random_uuid_Inr update_many_Inr create_row_Inr)
  have "premium_view u3 = premium_view s"
    using premium_kept(2) [OF a1] premium_kept(6) [OF a2] premium_kept(3) [OF a3] by simp
  moreover have "premium_view t = premium_view u5"
    using premium_kept(4) [OF a6] premium_kept(5) [OF a7] by simp
  ultimately show ?thesis using premium_invoice_created [OF a4] a5 unfolding premium_view_def by auto
qed

lemma accept_insurance_found:
  fixes s :: "'m insurance_db_scheme"
  assumes "acceptInsuranceQuote ctx pr i s = (Inr x, t)"
  shows "\<exists>q r b profile pi u. q \<in> set (insurance_quotes s) \<and> vq_id q = i \<and> vq_status q = ''QUOTED''
    \<and> r \<in> set (freight_requests s) \<and> rq_id r = vq_requestId q \<and> rq_requesterId r = pr_userId pr
    \<and> premium_view u = premium_view s \<and> accept_insurance_tx ctx pr profile q r b pi u = (Inr x, t)"
proof -
  obtain q r profile c pi and u v :: "'m insurance_db_scheme" where
    q: "List.find (\<lambda>q. vq_id q = i \<and> vq_tenantId q = ctx_tenantId ctx) (insurance_quotes s) = Some q" and
    c: "now s = (Inr c, u)" and valid: "\<not> (vq_status q \<noteq> ''QUOTED'' \<or> vq_validUntil q \<le> c)" and
    r: "List.find (\<lambda>r. rq_id r = vq_requestId q \<and> rq_tenantId r = ctx_tenantId ctx
            \<and> rq_requesterId r = pr_userId pr) (freight_requests u) = Some r" and
    "List.find (\<lambda>p. bp_tenantId p = ctx_tenantId ctx) (billing_profiles u) = Some profile" and
    pi: "random_uuid u = (Inr pi, v)" and
    tx: "accept_insurance_tx ctx pr profile q r (List.find (\<lambda>b. fb_requestId b = rq_id r) (freight_bookings u)) pi v = (Inr x, t)"
    using assms unfolding acceptInsuranceQuote_def by (auto simp del: now_Inr random_uuid_Inr)
  have "freight_requests u = freight_requests s" using c by auto
  then show ?thesis
    using find_SomeD [OF q] find_SomeD [OF r] valid tx premium_kept(2) [OF c] premium_kept(3) [OF pi]
    by (intro exI [of _ q] exI [of _ r] exI [of _ profile] exI [of _ pi] exI [of _ v] exI conjI) auto
qed

section \<open>Claims stay within their policy\<close>

definition cover_of :: "'m insurance_db_scheme \<Rightarrow> insurance_policy list \<times> insurance_claim list" where
  "cover_of s = (insurance_policies s, insurance_claims s)"

definition covers :: "insurance_policy \<Rightarrow> insurance_claim \<Rightarrow> bool" where
  "covers p c \<longleftrightarrow> ip_id p = vc_policyId c \<and> ip_tenantId p = vc_tenantId c \<and> ip_currency p = vc_currency c
     \<and> ip_status p \<noteq> ''AWAITING_PAYMENT''
     \<and> ip_coverageStartAt p \<le> vc_lossOccurredAt c \<and> vc_lossOccurredAt c \<le> ip_coverageEndAt p
     \<and> vc_claimedAmountMinor c \<le> ip_insuredValueMinor p"

definition claim_in_bounds :: "insurance_claim \<Rightarrow> bool" where
  "claim_in_bounds c \<longleftrightarrow> vc_paidAmountMinor c \<le> or_default (vc_approvedAmountMinor c) 0
     \<and> or_default (vc_approvedAmountMinor c) 0 \<le> vc_claimedAmountMinor c"

definition claim_in_order :: "insurance_claim \<Rightarrow> bool" where
  "claim_in_order c \<longleftrightarrow> claim_in_bounds c \<and> (workflow_step INSURANCE_CLAIM)\<^sup>*\<^sup>* ''DRAFT'' (vc_status c)"

definition claims_sound :: "insurance_policy list \<times> insurance_claim list \<Rightarrow> bool" where
  "claims_sound v \<longleftrightarrow> (case v of (ps, cs) \<Rightarrow> distinct (map vc_id cs)
     \<and> (\<forall>c\<in>set cs. claim_in_order c \<and> (\<exists>p\<in>set ps. covers p c)))"

abbreviation sound_cover :: "'m insurance_db_scheme \<Rightarrow> bool" where
  "sound_cover s \<equiv> claims_sound (cover_of s)"

lemma cover_more: "runtime.more t = runtime.more s \<Longrightarrow> cover_of t = cover_of s"
  for s t :: "'m insurance_db_scheme"
  by (cases s; cases t) (simp add: cover_of_def)

lemma claims_more: "runtime.more t = runtime.more s \<Longrightarrow> insurance_claims t = insurance_claims s"
  for s t :: "'m insurance_db_scheme"
  by (cases s; cases t) simp

lemma cover_quiet: "keeps cover_of m \<Longrightarrow> always sound_cover m"
  by (rule always_keeps)

lemma cover_after: "keeps cover_of m \<Longrightarrow> (\<And>x. always sound_cover (f x)) \<Longrightarrow> always sound_cover (seq m f)"
  by (rule always_seq [OF cover_quiet])

lemma covers_updated:
  assumes "claims_sound (ps, cs)" and "\<And>p c. covers p c \<Longrightarrow> covers (f p) c"
  shows "claims_sound (update_where P f ps, cs)"
proof -
  have "\<exists>q\<in>set (update_where P f ps). covers q c" if "p \<in> set ps" "covers p c" for p c
    using that assms(2) by (intro bexI [of _ "if P p then f p else p"]) (auto simp: update_where_def)
  then show ?thesis using assms(1) unfolding claims_sound_def prod.case by blast
qed

lemma covers_added: "claims_sound (ps, cs) \<Longrightarrow> claims_sound (ps @ [p], cs)"
  unfolding claims_sound_def by auto

lemma always_activate:
  "always sound_cover (update_many insurance_policies insurance_policies_update P
     (\<lambda>f. f\<lparr>ip_status := ''ACTIVE'', ip_version := ip_version f + 1\<rparr>))"
  by (rule alwaysI) (auto simp: cover_of_def update_many_def covers_def intro!: covers_updated)

lemma always_confirm: "always sound_cover (confirm_source p b full)"
proof -
  have "keeps cover_of (update_many freight_bookings freight_bookings_update P f)" for P f
    by (intro keeps_intros) (simp add: cover_of_def)
  moreover have "keeps cover_of (now :: ('m insurance_db_scheme, instant) prog)"
    by (intro keeps_intros) (simp add: cover_of_def)
  ultimately show ?thesis unfolding confirm_source_def schedules_of_def
    by (intro always_seq always_when_do always_activate always_ret cover_quiet keeps_find_rows) auto
qed

lemma cover_capture: "always sound_cover (capture_payment p x b ei evidence)"
  unfolding capture_payment_def Let_def
  by (rule cover_after, (intro keeps_intros; simp add: cover_of_def; fail))+
     (rule always_seq [OF always_confirm], rule cover_quiet, intro keeps_intros; simp add: cover_of_def)

lemma sound_cover_more: "runtime.more t = runtime.more s \<Longrightarrow> sound_cover s \<Longrightarrow> sound_cover t"
  for s t :: "'m insurance_db_scheme"
  using cover_more [of t s] by simp

lemma cover_transaction: "always sound_cover m \<Longrightarrow> always sound_cover (transaction m)"
  by (rule always_transactionI) (auto intro: sound_cover_more dest: alwaysD)

lemma always_pay: "always sound_cover (process_successful_payment si ei evidence)"
  unfolding process_successful_payment_def process_successful_payment_tx_def
  by (rule cover_transaction, (rule cover_after, (intro keeps_intros; simp add: cover_of_def; fail))+)
     (intro always_if cover_capture cover_quiet keeps_intros; simp add: cover_of_def)

lemma keeps_cover:
  "keeps cover_of (createInsuranceProvider ctx pr vd)"
  "keeps cover_of (createInsuranceProduct ctx pr i vr)"
  "keeps cover_of (createInsuranceQuote ctx pr vi)"
  unfolding createInsuranceProvider_def createInsuranceProduct_def createInsuranceQuote_def freight_audit_def
    freight_outbox_def Let_def
  by (intro keeps_intros; (erule cover_more | simp add: cover_of_def))+

lemma always_accept: "always sound_cover (acceptInsuranceQuote ctx pr i)"
proof (rule always_atomic)
  show "atomic (acceptInsuranceQuote ctx pr i :: ('m insurance_db_scheme, _) prog)"
    unfolding acceptInsuranceQuote_def find_row_def by (intro atomic_intros keeps_intros) simp_all
next
  fix s t :: "'m insurance_db_scheme" and x
  assume sound: "sound_cover s" and run: "acceptInsuranceQuote ctx pr i s = (Inr x, t)"
  obtain p ii n where x: "x = (p, ii, n)" by (cases x)
  obtain q r b profile pi u where u: "premium_view u = premium_view s"
    and tx: "accept_insurance_tx ctx pr profile q r b pi u = (Inr (p, ii, n), t)"
    using accept_insurance_found [OF run] by (auto simp: x)
  have "insurance_policies t = insurance_policies s @ [p]"
    using accept_tx_binds [OF tx] u by (auto simp: premium_view_def)
  moreover have "insurance_claims t = insurance_claims s"
  proof -
    have "keeps insurance_claims (acceptInsuranceQuote ctx pr i)"
      unfolding acceptInsuranceQuote_def accept_insurance_tx_def create_premium_invoice_def nextInvoiceNumber_def
        freight_audit_def freight_outbox_def
      by (intro keeps_intros; (erule claims_more | simp))
    then show ?thesis using run by (rule keepsD)
  qed
  ultimately show "sound_cover t" using sound by (simp add: cover_of_def covers_added)
qed (rule sound_cover_more)

lemma keeps_cover_reads:
  "keeps cover_of (owned_request ctx pr i)"
  "keeps cover_of (create_claim_event ctx pr i a b c d e)"
  "keeps cover_of (freight_audit ctx pr a c i)"
  "keeps cover_of (now :: ('m insurance_db_scheme, instant) prog)"
  "keeps cover_of (random_uuid :: ('m insurance_db_scheme, uuid) prog)"
  unfolding owned_request_def create_claim_event_def freight_audit_def
  by (intro keeps_intros; simp add: cover_of_def)+

lemmas cover_kept = keeps_cover_reads [THEN keepsD]

lemma owned_reads_only: "owned_request ctx pr i s = (Inr x, t) \<Longrightarrow> t = s"
  by (auto simp: owned_request_def)

lemma atomic_then_find: "atomic m \<Longrightarrow> atomic (seq m (\<lambda>_. find_row rows P))"
  by (auto simp: atomic_def)

lemma atomic_claims:
  "atomic (createInsuranceClaim ctx pr i vl operational)"
  "atomic (transitionInsuranceClaim ctx pr i vt operational)"
  unfolding createInsuranceClaim_def transitionInsuranceClaim_def owned_request_def when_do_def Let_def
  by (intro atomic_then_find atomic_transaction atomic_intros keeps_intros; simp)+

lemma claim_opened:
  fixes s :: "'m insurance_db_scheme"
  assumes "createInsuranceClaim ctx pr i vl operational s = (Inr c, t)"
  shows "insurance_policies t = insurance_policies s \<and> insurance_claims t = insurance_claims s @ [c]
    \<and> (\<forall>x\<in>set (insurance_claims s). \<not> same_claim c x)
    \<and> vc_status c = ''DRAFT'' \<and> vc_paidAmountMinor c = 0 \<and> vc_approvedAmountMinor c = None
    \<and> vc_claimedAmountMinor c = vl_claimedAmountMinor vl
    \<and> (\<exists>p\<in>set (insurance_policies s). ip_status p = ''ACTIVE'' \<and> covers p c)"
proof -
  obtain p ii and u v w :: "'m insurance_db_scheme" where
    p: "List.find (\<lambda>p. ip_id p = i \<and> ip_tenantId p = ctx_tenantId ctx) (insurance_policies s) = Some p" and
    ok: "ip_status p = ''ACTIVE''" "vl_currency vl = ip_currency p"
      "\<not> (vl_lossOccurredAt vl < ip_coverageStartAt p \<or> vl_lossOccurredAt vl > ip_coverageEndAt p)"
      "\<not> vl_claimedAmountMinor vl > ip_insuredValueMinor p" and
    ru: "random_uuid s = (Inr ii, u)" and
    row: "create_row insurance_claims insurance_claims_update same_claim
               \<lparr>vc_id = ii, vc_tenantId = ctx_tenantId ctx, vc_policyId = i,
                vc_number = ''CLM-'' @ js_upper (take 8 ii), vc_status = ''DRAFT'', vc_cause = vl_cause vl,
                vc_lossOccurredAt = vl_lossOccurredAt vl, vc_discoveredAt = vl_discoveredAt vl,
                vc_lossLocation = vl_lossLocation vl, vc_description = vl_description vl,
                vc_claimedAmountMinor = vl_claimedAmountMinor vl, vc_approvedAmountMinor = None,
                vc_paidAmountMinor = 0, vc_currency = vl_currency vl, vc_evidence = vl_evidence vl,
                vc_version = 1, vc_submittedAt = None, vc_resolvedAt = None,
                vc_createdBy = pr_userId pr\<rparr> u = (Inr c, v)" and
    ev: "create_claim_event ctx pr ii ''CREATED'' None ''DRAFT'' None None v = (Inr (), w)" and
    au: "freight_audit ctx pr ''insurance.claim.created'' ''CargoInsuranceClaim'' ii w = (Inr (), t)"
    using assms unfolding createInsuranceClaim_def
    by (auto simp del: random_uuid_Inr create_row_Inr split: if_splits dest!: owned_reads_only)
  have u: "cover_of u = cover_of s" by (rule cover_kept(5) [OF ru])
  have "cover_of t = cover_of v" using cover_kept(2) [OF ev] cover_kept(3) [OF au] by simp
  moreover have "covers p c" using row ok find_SomeD [OF p] by (auto simp: covers_def)
  ultimately show ?thesis using row u ok(1) find_SomeD [OF p] by (auto simp: cover_of_def)
qed

lemma claim_moved:
  fixes s :: "'m insurance_db_scheme"
  assumes "transitionInsuranceClaim ctx pr i vt operational s = (Inr x, t)"
  shows "\<exists>c moment. c \<in> set (insurance_claims s) \<and> vc_id c = i
    \<and> workflow_step INSURANCE_CLAIM (vc_status c) (vt_status vt)
    \<and> claim_in_bounds (move_claim vt moment c)
    \<and> insurance_policies t = insurance_policies s
    \<and> insurance_claims t = update_where
         (\<lambda>x. vc_id x = i \<and> vc_tenantId x = ctx_tenantId ctx \<and> vc_version x = vt_version vt)
         (move_claim vt moment) (insurance_claims s)
    \<and> x = List.find (\<lambda>x. vc_id x = i) (insurance_claims t)"
proof -
  obtain c m n and v w y z :: "'m insurance_db_scheme" where
    c: "List.find (\<lambda>c. vc_id c = i \<and> vc_tenantId c = ctx_tenantId ctx) (insurance_claims s) = Some c" and
    ok: "as_conflict (assertTransition INSURANCE_CLAIM (vc_status c) (vt_status vt)) = Inr ()" and
    bounds: "\<not> ((case vt_approvedAmountMinor vt of None \<Rightarrow> or_default (vc_approvedAmountMinor c) 0 | Some a \<Rightarrow> a)
               > vc_claimedAmountMinor c
             \<or> or_default (vt_paidAmountMinor vt) (vc_paidAmountMinor c)
               > (case vt_approvedAmountMinor vt of None \<Rightarrow> or_default (vc_approvedAmountMinor c) 0 | Some a \<Rightarrow> a))" and
    v: "now s = (Inr m, v)" and
    up: "update_many insurance_claims insurance_claims_update
            (\<lambda>x. vc_id x = vc_id c \<and> vc_tenantId x = ctx_tenantId ctx \<and> vc_version x = vt_version vt)
            (move_claim vt m) v = (Inr n, w)" and
    ev: "create_claim_event ctx pr (vc_id c) ''STATUS_CHANGED'' (Some (vc_status c)) (vt_status vt)
            (vt_note vt) (vt_evidence vt) w = (Inr (), y)" and
    au: "freight_audit ctx pr (''insurance.claim.'' @ map lower_char (vt_status vt)) ''CargoInsuranceClaim''
       (vc_id c) y = (Inr (), t)" and
    x: "x = List.find (\<lambda>x. vc_id x = i) (insurance_claims t)"
    using assms unfolding transitionInsuranceClaim_def transition_claim_tx_def Let_def
    by (auto simp del: now_Inr update_many_Inr split: if_splits dest!: owned_reads_only)
  have t: "cover_of t = cover_of w" using cover_kept(2) [OF ev] cover_kept(3) [OF au] by simp
  have "workflow_step INSURANCE_CLAIM (vc_status c) (vt_status vt)"
    using ok by (auto simp: as_conflict_def workflow_step_def split: sum.splits app_error.splits)
  moreover have "claim_in_bounds (move_claim vt m c)"
    using bounds by (auto simp: claim_in_bounds_def move_claim_def or_default_def split: option.splits)
  ultimately show ?thesis using find_SomeD [OF c] t up cover_kept(4) [OF v] x
    by (intro exI [of _ c] exI [of _ m]) (auto simp: cover_of_def)
qed


lemma covers_moved [simp]: "covers p (move_claim vt m c) = covers p c"
  by (simp add: covers_def move_claim_def)

lemma move_claim_row [simp]: "vc_id (move_claim vt m c) = vc_id c" "vc_status (move_claim vt m c) = vt_status vt"
  by (simp_all add: move_claim_def)

lemma opened_sound:
  assumes "sound_cover s" and "vl_claimedAmountMinor vl \<ge> 1"
    and "createInsuranceClaim ctx pr i vl operational s = (Inr c, t)"
  shows "sound_cover t"
proof -
  note c = claim_opened [OF assms(3)]
  have "claim_in_order c" using c assms(2) by (simp add: claim_in_order_def claim_in_bounds_def or_default_def)
  then show ?thesis using assms(1) c
    by (auto simp: claims_sound_def cover_of_def same_claim_def)
qed

lemma moved_sound:
  assumes sound: "sound_cover s" and "transitionInsuranceClaim ctx pr i vt operational s = (Inr x, t)"
  shows "sound_cover t"
proof -
  from claim_moved [OF assms(2)] obtain c m where c: "c \<in> set (insurance_claims s)" "vc_id c = i"
    and ok: "workflow_step INSURANCE_CLAIM (vc_status c) (vt_status vt)" "claim_in_bounds (move_claim vt m c)"
    and t: "insurance_policies t = insurance_policies s"
      "insurance_claims t = update_where
         (\<lambda>x. vc_id x = i \<and> vc_tenantId x = ctx_tenantId ctx \<and> vc_version x = vt_version vt)
         (move_claim vt m) (insurance_claims s)" by blast
  from sound have dist: "distinct (map vc_id (insurance_claims s))"
    and rows: "\<forall>c\<in>set (insurance_claims s). claim_in_order c \<and> (\<exists>p\<in>set (insurance_policies s). covers p c)"
    by (simp_all add: claims_sound_def cover_of_def)
  have "claim_in_order (move_claim vt m y) \<and> (\<exists>p\<in>set (insurance_policies s). covers p (move_claim vt m y))"
    if "y \<in> set (insurance_claims s)" "vc_id y = i" for y
  proof -
    from distinct_mapD [OF dist that(1) c(1)] that(2) c(2) have "y = c" by simp
    then show ?thesis using ok rows c(1) by (auto simp: claim_in_order_def)
  qed
  then have "\<forall>c\<in>set (insurance_claims t). claim_in_order c \<and> (\<exists>p\<in>set (insurance_policies t). covers p c)"
    using rows unfolding t by (auto simp: update_where_def)
  moreover have "map vc_id (insurance_claims t) = map vc_id (insurance_claims s)"
    unfolding t(2) by (rule map_update_where) simp
  ultimately show ?thesis using dist by (simp add: claims_sound_def cover_of_def)
qed

section \<open>Runs\<close>

text \<open>
  Insurance operations and captured payments in any order. \<open>international-logistics.dto.ts\<close> lets no
  claim below one minor unit through.
\<close>

inductive insurance_step :: "'m insurance_db_scheme \<Rightarrow> 'm insurance_db_scheme \<Rightarrow> bool" where
  Provider: "createInsuranceProvider ctx pr vp s = (r1, t) \<Longrightarrow> insurance_step s t"
| Product: "createInsuranceProduct ctx pr i vd s = (r2, t) \<Longrightarrow> insurance_step s t"
| Quote: "createInsuranceQuote ctx pr vi s = (r3, t) \<Longrightarrow> insurance_step s t"
| Accept: "acceptInsuranceQuote ctx pr i s = (r4, t) \<Longrightarrow> insurance_step s t"
| Claim: "vl_claimedAmountMinor vl \<ge> 1 \<Longrightarrow> createInsuranceClaim ctx pr i vl operational s = (r5, t) \<Longrightarrow>
    insurance_step s t"
| Move: "transitionInsuranceClaim ctx pr i vt operational s = (r6, t) \<Longrightarrow> insurance_step s t"
| Pay: "process_successful_payment i j evidence s = (r7, t) \<Longrightarrow> insurance_step s t"

lemma always_claims:
  "vl_claimedAmountMinor vl \<ge> 1 \<Longrightarrow> always sound_cover (createInsuranceClaim ctx pr i vl operational)"
  "always sound_cover (transitionInsuranceClaim ctx pr i vt operational)"
  by (rule always_atomic [OF atomic_claims(1) sound_cover_more opened_sound], assumption+)
     (rule always_atomic [OF atomic_claims(2) sound_cover_more moved_sound], assumption+)

lemmas cover_promises = keeps_cover [THEN cover_quiet, THEN alwaysD] always_accept [THEN alwaysD]
  always_claims [THEN alwaysD] always_pay [THEN alwaysD]

lemma insurance_step_sound: "insurance_step s t \<Longrightarrow> sound_cover s \<Longrightarrow> sound_cover t"
  by (induction rule: insurance_step.induct) (blast intro: cover_promises)+

lemma insurance_run_sound: "insurance_step\<^sup>*\<^sup>* s t \<Longrightarrow> sound_cover s \<Longrightarrow> sound_cover t"
  by (induction rule: rtranclp_induct) (auto intro: insurance_step_sound)

section \<open>A concrete insurance desk\<close>

definition some_cover :: insurance_policy where
  "some_cover = \<lparr>ip_id = ''policy'', ip_tenantId = ''tenant'', ip_status = ''ACTIVE'', ip_version = 2,
     ip_quoteId = ''bound'', ip_requestId = ''request'', ip_bookingId = None, ip_policyNumber = ''POL-1'',
     ip_certificateNumber = ''CERT-1'', ip_currency = ''USD'', ip_insuredValueMinor = 1000,
     ip_premiumMinor = 20, ip_deductible = JNull, ip_clauses = JNull, ip_exclusions = None,
     ip_coverageStartAt = 0, ip_coverageEndAt = 100\<rparr>"

definition some_insurance_quote :: insurance_quote where
  "some_insurance_quote = \<lparr>vq_id = ''quote'', vq_tenantId = ''tenant'', vq_requestId = ''request'',
     vq_productId = ''product'', vq_number = ''INQ-1'', vq_status = ''QUOTED'', vq_currency = ''USD'',
     vq_declaredValueMinor = 1000, vq_insuredValueMinor = 1100, vq_premiumMinor = 22, vq_taxMinor = 2,
     vq_totalMinor = 24, vq_coverageStartAt = 0, vq_coverageEndAt = 100, vq_clausesSnapshot = JNull,
     vq_exclusionsSnapshot = None, vq_deductibleSnapshot = JNull, vq_validUntil = 1000,
     vq_createdBy = ''desk'', vq_acceptedAt = None, vq_version = 1\<rparr>"

text \<open>A customer with a paid policy over 10.00 and an open quote for a second one.\<close>

definition insured_desk :: insurance_db where
  "insured_desk = fresh_insurance\<lparr>freight_requests := [some_freight_request],
     insurance_policies := [some_cover], insurance_quotes := [some_insurance_quote],
     billing_profiles := [\<lparr>bp_id = ''profile'', bp_tenantId = ''tenant'', bp_legalName = ''Logi'',
       bp_taxIdentifier = None, bp_address = JNull\<rparr>]\<rparr>"

definition whole_loss :: create_insurance_claim_dto where
  "whole_loss = \<lparr>vl_cause = ''DAMAGE'', vl_lossOccurredAt = 10, vl_discoveredAt = 11, vl_lossLocation = ''Rotterdam'',
     vl_description = ''Water'', vl_claimedAmountMinor = 1000, vl_currency = ''USD'', vl_evidence = None\<rparr>"

text \<open>The customer opens a claim for the whole value and submits it, with its settlement filled in.\<close>

definition settled_by_customer :: "insurance_db \<Rightarrow> insurance_db" where
  "settled_by_customer s = (case createInsuranceClaim some_context some_principal ''policy'' whole_loss False s of
       (Inl e, t) \<Rightarrow> t
     | (Inr c, t) \<Rightarrow> snd (transitionInsuranceClaim some_context some_principal (vc_id c)
         \<lparr>vt_status = ''SUBMITTED'', vt_version = 1, vt_approvedAmountMinor = Some 1000,
          vt_paidAmountMinor = Some 1000, vt_note = None, vt_evidence = None\<rparr> False t))"

lemma settled_run: "insurance_step\<^sup>*\<^sup>* s (settled_by_customer s)"
proof -
  obtain r t where run: "createInsuranceClaim some_context some_principal ''policy'' whole_loss False s = (r, t)"
    by fastforce
  then have first: "insurance_step s t" by (intro insurance_step.Claim) (simp_all add: whole_loss_def)
  have "insurance_step t (snd (transitionInsuranceClaim some_context some_principal i d False t))" for i d
    by (rule insurance_step.Move) (rule surjective_pairing)
  then have "insurance_step\<^sup>*\<^sup>* s (snd (transitionInsuranceClaim some_context some_principal i d False t))" for i d
    by (intro converse_rtranclp_into_rtranclp [of insurance_step, OF first] r_into_rtranclp)
  with first run show ?thesis by (cases r) (simp_all add: settled_by_customer_def r_into_rtranclp)
qed

lemma settled_twice_run: "insurance_step\<^sup>*\<^sup>* insured_desk (settled_by_customer (settled_by_customer insured_desk))"
  using settled_run settled_run by (rule rtranclp_trans)

lemma insured_sound: "sound_cover insured_desk"
  by (simp add: insured_desk_def cover_of_def claims_sound_def fresh_insurance_def insurance_db.defs freight_fresh_defs)

definition claims_scene :: "insurance_db \<Rightarrow> bool" where
  "claims_scene s \<longleftrightarrow> map (\<lambda>c. (vc_policyId c, vc_status c, vc_paidAmountMinor c)) (insurance_claims s)
       = [(''policy'', ''SUBMITTED'', 1000), (''policy'', ''SUBMITTED'', 1000)]
     \<and> map ip_insuredValueMinor (insurance_policies s) = [1000]"

lemma settled_scene: "claims_scene (settled_by_customer (settled_by_customer insured_desk))"
  by code_simp

section \<open>Properties\<close>

text \<open>
  C30. Along every run of insurance operations and payments, refused calls included, each claim is
  under a policy of its tenant and currency that was paid for, its loss lies in the period of the
  policy, what is paid is at most what is approved, that at most what is claimed, and that at most
  the insured value; its status is one the workflow of claims reaches.
\<close>

theorem claims_stay_within_cover:
  assumes "insurance_step\<^sup>*\<^sup>* s t" and "sound_cover s" and "c \<in> set (insurance_claims t)"
  shows "vc_paidAmountMinor c \<le> or_default (vc_approvedAmountMinor c) 0
    \<and> or_default (vc_approvedAmountMinor c) 0 \<le> vc_claimedAmountMinor c
    \<and> (\<exists>p\<in>set (insurance_policies t). ip_id p = vc_policyId c \<and> ip_tenantId p = vc_tenantId c
        \<and> ip_currency p = vc_currency c \<and> ip_status p \<noteq> ''AWAITING_PAYMENT''
        \<and> ip_coverageStartAt p \<le> vc_lossOccurredAt c \<and> vc_lossOccurredAt c \<le> ip_coverageEndAt p
        \<and> vc_claimedAmountMinor c \<le> ip_insuredValueMinor p)
    \<and> (workflow_step INSURANCE_CLAIM)\<^sup>*\<^sup>* ''DRAFT'' (vc_status c)"
  using insurance_run_sound [OF assms(1,2)] assms(3)
  by (auto simp: claims_sound_def cover_of_def claim_in_order_def claim_in_bounds_def covers_def)

theorem claims_stay_within_cover_witness:
  "\<exists>c t. insurance_step\<^sup>*\<^sup>* insured_desk t \<and> c \<in> set (insurance_claims t)
     \<and> vc_paidAmountMinor c \<le> or_default (vc_approvedAmountMinor c) 0"
proof -
  let ?t = "settled_by_customer (settled_by_customer insured_desk)"
  have "insurance_claims ?t \<noteq> []" using settled_scene by (auto simp: claims_scene_def)
  then obtain c where c: "c \<in> set (insurance_claims ?t)" by (meson list.set_sel(1))
  from claims_stay_within_cover [OF settled_twice_run insured_sound c] settled_twice_run c show ?thesis by blast
qed

text \<open>
  C31. Accepting an insurance quote of one's own request binds one policy on the terms of the quote
  and issues one invoice, due at once, for its premium and tax; a quote is accepted once.
\<close>

theorem accepted_insurance_is_billed:
  assumes "acceptInsuranceQuote ctx pr i s = (Inr (p, invoiceId, number), t)"
  shows "\<exists>q\<in>set (insurance_quotes s). vq_id q = i \<and> vq_status q = ''QUOTED''
    \<and> (\<exists>r\<in>set (freight_requests s). rq_id r = vq_requestId q \<and> rq_requesterId r = pr_userId pr)
    \<and> insurance_policies t = insurance_policies s @ [p] \<and> (\<forall>x\<in>set (insurance_policies s). ip_quoteId x \<noteq> i)
    \<and> ip_quoteId p = i \<and> ip_requestId p = vq_requestId q \<and> ip_currency p = vq_currency q
    \<and> ip_insuredValueMinor p = vq_insuredValueMinor q \<and> ip_premiumMinor p = vq_premiumMinor q
    \<and> ip_coverageStartAt p = vq_coverageStartAt q \<and> ip_coverageEndAt p = vq_coverageEndAt q
    \<and> (ip_status p = ''ACTIVE'' \<longleftrightarrow> vq_totalMinor q = 0)
    \<and> (\<exists>b l k. invoices t = invoices s @ [b] \<and> invoice_lines t = invoice_lines s @ [l]
        \<and> schedules t = schedules s @ [k] \<and> bi_id b = invoiceId \<and> bi_number b = number
        \<and> bi_sourceType b = ''CARGO_INSURANCE'' \<and> bi_sourceId b = ip_id p \<and> bi_status b = ''ISSUED''
        \<and> bi_totalMinor b = vq_totalMinor q \<and> il_invoiceId l = invoiceId \<and> il_totalMinor l = vq_premiumMinor q
        \<and> il_taxMinor l = vq_taxMinor q \<and> is_invoiceId k = invoiceId \<and> is_amountMinor k = vq_totalMinor q
        \<and> is_paidMinor k = 0)"
proof -
  from accept_insurance_found [OF assms] obtain q r b profile pi u where
    q: "q \<in> set (insurance_quotes s)" "vq_id q = i" "vq_status q = ''QUOTED''" and
    r: "r \<in> set (freight_requests s)" "rq_id r = vq_requestId q" "rq_requesterId r = pr_userId pr" and
    u: "premium_view u = premium_view s" and
    tx: "accept_insurance_tx ctx pr profile q r b pi u = (Inr (p, invoiceId, number), t)" by blast
  from accept_tx_binds [OF tx] u q(2) r(2) show ?thesis
    by (intro bexI [OF _ q(1)] conjI q(2,3) bexI [OF _ r(1)] r)
       (auto simp: premium_view_def new_policy_def same_policy_def split: if_splits)
qed

theorem accepted_insurance_is_billed_witness:
  "\<exists>p b number t. acceptInsuranceQuote some_context some_principal ''quote'' insured_desk = (Inr (p, bi_id b, number), t)
     \<and> insurance_policies t = [some_cover, p] \<and> invoices t = [b] \<and> bi_sourceId b = ip_id p"
proof -
  let ?m = "acceptInsuranceQuote some_context some_principal ''quote'' :: (insurance_db, _) prog"
  have "returned (fst (?m insured_desk))" by code_simp
  from returned_run [of ?m insured_desk, OF this] obtain p ii n t where run: "?m insured_desk = (Inr (p, ii, n), t)"
    by (metis prod_cases3)
  have "insurance_policies insured_desk = [some_cover]" "invoices insured_desk = []"
    by (simp_all add: insured_desk_def fresh_insurance_def insurance_db.defs freight_fresh_defs)
  with accepted_insurance_is_billed [OF run] run show ?thesis by auto
qed


end
