(* ===== verification/International.thy ===== *)
theory International
  imports Insurance
begin

text \<open>
  International transport: locations, parties, consignments with their documents and customs
  filings, hubs, handling units and their contents, consolidation plans, linehauls: the transport
  part of \<open>apps/api/src/international-logistics/international-logistics.repository.ts\<close>.
  The check digits, the capacity rule and the workflow tables are those of \<open>Logistics_Rules\<close>.
\<close>

section \<open>Rows\<close>

record create_location_dto =
  xl_unLocode :: "string option"
  xl_childCode :: "string option"
  xl_iataCode :: "string option"
  xl_impcCode :: "string option"
  xl_gln :: "string option"
  xl_name :: string
  xl_countryCode :: string
  xl_subdivisionCode :: "string option"
  xl_functions :: "string list"
  xl_latitude :: "rat option"
  xl_longitude :: "rat option"
  xl_timeZone :: "string option"
  xl_standardVersion :: "string option"

record standard_location = create_location_dto +
  xl_id :: uuid
  xl_tenantId :: uuid
  xl_status :: string

record create_party_dto =
  yp_kind :: string
  yp_legalName :: string
  yp_identifiers :: "json option"
  yp_address :: json
  yp_contacts :: "json option"

record transport_party = create_party_dto +
  yp_id :: uuid
  yp_tenantId :: uuid
  yp_status :: string

record create_consignment_dto =
  xc_bookingId :: uuid
  xc_ginc :: "string option"
  xc_gsIn :: "string option"
  xc_consignorId :: uuid
  xc_consigneeId :: uuid
  xc_originLocationId :: uuid
  xc_destinationLocationId :: uuid
  xc_transportContractType :: string
  xc_serviceLevel :: "string option"
  xc_incoterm :: "string option"
  xc_packageCount :: int
  xc_grossWeightGrams :: int
  xc_grossVolumeCubicCm :: "int option"
  xc_goodsDescription :: string
  xc_commodityCodes :: "string list option"
  xc_dangerousGoods :: "json option"
  xc_temperatureControl :: "json option"
  xc_customsStatus :: string

record transport_consignment = create_consignment_dto +
  xc_id :: uuid
  xc_tenantId :: uuid
  xc_number :: string
  xc_status :: string
  xc_version :: int
  xc_createdBy :: uuid

record create_document_dto =
  xd_type :: string
  xd_number :: string
  xd_standard :: string
  xd_standardVersion :: "string option"
  xd_payload :: json
  xd_supersedesId :: "uuid option"

record transport_document = create_document_dto +
  xd_id :: uuid
  xd_tenantId :: uuid
  xd_consignmentId :: uuid
  xd_status :: string
  xd_revision :: int
  xd_issuedBy :: "uuid option"
  xd_issuedAt :: "instant option"
  xd_signedAt :: "instant option"
  xd_surrenderedAt :: "instant option"

record create_filing_dto =
  xf_type :: string
  xf_direction :: string
  xf_customsOfficeCode :: "string option"
  xf_dataModelVersion :: "string option"
  xf_declaration :: json

record customs_filing = create_filing_dto +
  xf_id :: uuid
  xf_tenantId :: uuid
  xf_consignmentId :: uuid
  xf_status :: string
  xf_mrn :: "string option"
  xf_response :: "json option"
  xf_lodgedBy :: "uuid option"
  xf_lodgedAt :: "instant option"
  xf_releasedAt :: "instant option"
  xf_rejectedAt :: "instant option"
  xf_version :: int

record create_hub_dto =
  xh_locationId :: uuid
  xh_code :: string
  xh_name :: string
  xh_type :: string
  xh_customsBonded :: bool
  xh_capabilities :: "string list"
  xh_operatingCalendar :: "json option"

record logistics_hub = create_hub_dto +
  xh_id :: uuid
  xh_tenantId :: uuid
  xh_status :: string

record create_handling_unit_dto =
  hu_sscc :: "string option"
  hu_externalIdentifier :: "string option"
  hu_type :: string
  hu_parentId :: "uuid option"
  hu_currentHubId :: "uuid option"
  hu_owner :: "string option"
  hu_sealNumber :: "string option"
  hu_tareWeightGrams :: int
  hu_grossWeightGrams :: int
  hu_volumeCubicCm :: "int option"
  hu_dimensions :: "json option"
  hu_dangerousGoods :: "json option"
  hu_temperatureControl :: "json option"

record handling_unit = create_handling_unit_dto +
  hu_id :: uuid
  hu_tenantId :: uuid
  hu_status :: string
  hu_verifiedGrossMassGrams :: "int option"
  hu_vgmMethod :: "string option"
  hu_vgmVerifiedBy :: "uuid option"
  hu_vgmVerifiedAt :: "instant option"
  hu_version :: int

record handling_content =
  hc_id :: uuid
  hc_tenantId :: uuid
  hc_handlingUnitId :: uuid
  hc_cargoItemId :: uuid
  hc_packageCount :: int
  hc_weightGrams :: int
  hc_volumeCubicCm :: "int option"

record handling_event_dto =
  he_hubId :: uuid
  he_type :: string
  he_condition :: "string option"
  he_locationText :: "string option"
  he_occurredAt :: instant
  he_source :: string
  he_externalKey :: string
  he_data :: "json option"

record handling_event = handling_event_dto +
  he_id :: uuid
  he_tenantId :: uuid
  he_handlingUnitId :: uuid
  he_recordedBy :: uuid

record create_plan_dto =
  xp_mode :: string
  xp_serviceLevel :: "string option"
  xp_originHubId :: uuid
  xp_destinationHubId :: uuid
  xp_cutoffAt :: instant
  xp_plannedDepartureAt :: instant
  xp_plannedArrivalAt :: instant
  xp_maxWeightGrams :: "int option"
  xp_maxVolumeCubicCm :: "int option"
  xp_equipmentType :: "string option"
  xp_masterReference :: "string option"
  xp_sealNumber :: "string option"
  xp_route :: "json option"

record consolidation_plan = create_plan_dto +
  xp_id :: uuid
  xp_tenantId :: uuid
  xp_number :: string
  xp_status :: string
  xp_version :: int
  xp_createdBy :: uuid
  xp_closedAt :: "instant option"
  xp_departedAt :: "instant option"
  xp_arrivedAt :: "instant option"
  xp_deconsolidatedAt :: "instant option"
  xp_completedAt :: "instant option"

record add_member_dto =
  xm_bookingId :: uuid
  xm_consignmentId :: "uuid option"
  xm_allocatedWeightGrams :: int
  xm_allocatedVolumeCubicCm :: "int option"
  xm_packageCount :: int
  xm_loadingPriority :: int
  xm_finalDestination :: "string option"

record consolidation_member = add_member_dto +
  xm_id :: uuid
  xm_tenantId :: uuid
  xm_planId :: uuid
  xm_status :: string
  xm_unloadedAt :: "instant option"

record consolidation_load =
  xo_id :: uuid
  xo_tenantId :: uuid
  xo_planId :: uuid
  xo_handlingUnitId :: uuid
  xo_loadSequence :: int
  xo_position :: "string option"
  xo_status :: string
  xo_loadedAt :: "instant option"
  xo_unloadedAt :: "instant option"

record create_linehaul_dto =
  lh_mode :: string
  lh_originLocationId :: uuid
  lh_destinationLocationId :: uuid
  lh_carrierId :: "uuid option"
  lh_conveyanceReference :: "string option"
  lh_equipmentIdentifier :: "string option"
  lh_scheduledDepartureAt :: instant
  lh_scheduledArrivalAt :: instant
  lh_maxWeightGrams :: "int option"
  lh_maxVolumeCubicCm :: "int option"
  lh_route :: "json option"

record linehaul = create_linehaul_dto +
  lh_id :: uuid
  lh_tenantId :: uuid
  lh_number :: string
  lh_status :: string
  lh_version :: int
  lh_createdBy :: uuid

record linehaul_allocation =
  la_id :: uuid
  la_tenantId :: uuid
  la_linehaulId :: uuid
  la_consolidationPlanId :: uuid
  la_allocatedWeightGrams :: int
  la_allocatedVolumeCubicCm :: "int option"
  la_status :: string

text \<open>A postal receptacle may be a handling unit, which \<open>addConsolidationLoad\<close> asks for.\<close>

record postal_receptacle =
  ym_id :: uuid
  ym_tenantId :: uuid
  ym_operatorId :: uuid
  ym_handlingUnitId :: "uuid option"
  ym_receptacleId :: string
  ym_type :: string
  ym_mailCategory :: string
  ym_originImpcCode :: string
  ym_destinationImpcCode :: string
  ym_status :: string
  ym_sealNumber :: "string option"
  ym_closedAt :: "instant option"
  ym_openedAt :: "instant option"
  ym_version :: int

record international_db = insurance_db +
  standard_locations :: "standard_location list"
  transport_parties :: "transport_party list"
  consignments_table :: "transport_consignment list"
  transport_documents :: "transport_document list"
  customs_filings :: "customs_filing list"
  logistics_hubs :: "logistics_hub list"
  handling_units :: "handling_unit list"
  handling_contents :: "handling_content list"
  handling_events :: "handling_event list"
  consolidation_plans :: "consolidation_plan list"
  consolidation_members :: "consolidation_member list"
  consolidation_loads :: "consolidation_load list"
  linehauls :: "linehaul list"
  linehaul_allocations :: "linehaul_allocation list"
  postal_receptacles :: "postal_receptacle list"

section \<open>Unique keys\<close>

text \<open>Two absent values do not clash.\<close>

definition same_value :: "'a option \<Rightarrow> 'a option \<Rightarrow> bool" where
  "same_value a b \<longleftrightarrow> a \<noteq> None \<and> a = b"

definition same_location :: "standard_location \<Rightarrow> standard_location \<Rightarrow> bool" where
  "same_location a b \<longleftrightarrow> xl_id a = xl_id b
     \<or> xl_tenantId a = xl_tenantId b \<and> same_value (xl_unLocode a) (xl_unLocode b)
       \<and> same_value (xl_childCode a) (xl_childCode b)"

definition same_party :: "transport_party \<Rightarrow> transport_party \<Rightarrow> bool" where
  "same_party a b \<longleftrightarrow> yp_id a = yp_id b"

definition same_consignment :: "transport_consignment \<Rightarrow> transport_consignment \<Rightarrow> bool" where
  "same_consignment a b \<longleftrightarrow> xc_id a = xc_id b
     \<or> xc_tenantId a = xc_tenantId b \<and> (xc_number a = xc_number b \<or> same_value (xc_ginc a) (xc_ginc b))"

definition same_transport_document :: "transport_document \<Rightarrow> transport_document \<Rightarrow> bool" where
  "same_transport_document a b \<longleftrightarrow> xd_id a = xd_id b
     \<or> xd_tenantId a = xd_tenantId b \<and> xd_revision a = xd_revision b
       \<and> (xd_number a = xd_number b \<or> xd_consignmentId a = xd_consignmentId b \<and> xd_type a = xd_type b)"

definition same_filing :: "customs_filing \<Rightarrow> customs_filing \<Rightarrow> bool" where
  "same_filing a b \<longleftrightarrow> xf_id a = xf_id b
     \<or> xf_tenantId a = xf_tenantId b \<and> xf_consignmentId a = xf_consignmentId b \<and> xf_type a = xf_type b
       \<and> xf_version a = xf_version b"

definition same_hub :: "logistics_hub \<Rightarrow> logistics_hub \<Rightarrow> bool" where
  "same_hub a b \<longleftrightarrow> xh_id a = xh_id b \<or> xh_tenantId a = xh_tenantId b \<and> xh_code a = xh_code b"

definition same_unit :: "handling_unit \<Rightarrow> handling_unit \<Rightarrow> bool" where
  "same_unit a b \<longleftrightarrow> hu_id a = hu_id b
     \<or> hu_tenantId a = hu_tenantId b \<and> (same_value (hu_sscc a) (hu_sscc b)
         \<or> same_value (hu_externalIdentifier a) (hu_externalIdentifier b))"

definition same_content :: "handling_content \<Rightarrow> handling_content \<Rightarrow> bool" where
  "same_content a b \<longleftrightarrow> hc_id a = hc_id b
     \<or> hc_tenantId a = hc_tenantId b \<and> hc_handlingUnitId a = hc_handlingUnitId b
       \<and> hc_cargoItemId a = hc_cargoItemId b"

definition same_handling_event :: "handling_event \<Rightarrow> handling_event \<Rightarrow> bool" where
  "same_handling_event a b \<longleftrightarrow> he_id a = he_id b
     \<or> he_tenantId a = he_tenantId b \<and> he_handlingUnitId a = he_handlingUnitId b
       \<and> he_externalKey a = he_externalKey b"

definition same_plan :: "consolidation_plan \<Rightarrow> consolidation_plan \<Rightarrow> bool" where
  "same_plan a b \<longleftrightarrow> xp_id a = xp_id b \<or> xp_tenantId a = xp_tenantId b \<and> xp_number a = xp_number b"

definition same_member :: "consolidation_member \<Rightarrow> consolidation_member \<Rightarrow> bool" where
  "same_member a b \<longleftrightarrow> xm_id a = xm_id b
     \<or> xm_tenantId a = xm_tenantId b \<and> xm_planId a = xm_planId b \<and> xm_bookingId a = xm_bookingId b"

definition same_load :: "consolidation_load \<Rightarrow> consolidation_load \<Rightarrow> bool" where
  "same_load a b \<longleftrightarrow> xo_id a = xo_id b
     \<or> xo_tenantId a = xo_tenantId b \<and> xo_planId a = xo_planId b
       \<and> (xo_handlingUnitId a = xo_handlingUnitId b \<or> xo_loadSequence a = xo_loadSequence b)"

definition same_linehaul :: "linehaul \<Rightarrow> linehaul \<Rightarrow> bool" where
  "same_linehaul a b \<longleftrightarrow> lh_id a = lh_id b \<or> lh_tenantId a = lh_tenantId b \<and> lh_number a = lh_number b"

definition same_linehaul_allocation :: "linehaul_allocation \<Rightarrow> linehaul_allocation \<Rightarrow> bool" where
  "same_linehaul_allocation a b \<longleftrightarrow> la_id a = la_id b
     \<or> la_tenantId a = la_tenantId b \<and> la_linehaulId a = la_linehaulId b
       \<and> la_consolidationPlanId a = la_consolidationPlanId b"

definition same_receptacle :: "postal_receptacle \<Rightarrow> postal_receptacle \<Rightarrow> bool" where
  "same_receptacle a b \<longleftrightarrow> ym_id a = ym_id b \<or> same_value (ym_handlingUnitId a) (ym_handlingUnitId b)
     \<or> ym_tenantId a = ym_tenantId b \<and> ym_receptacleId a = ym_receptacleId b"

section \<open>\<open>requireByTenant\<close>\<close>

definition require_row :: "('s \<Rightarrow> 'r list) \<Rightarrow> ('r \<Rightarrow> bool) \<Rightarrow> ('s, 'r) prog" where
  "require_row rows P = seq (find_row rows P) (\<lambda>found. require found (NotFound ''Resource not found''))"

definition requireLocation :: "tenant_context \<Rightarrow> uuid \<Rightarrow> ('m international_db_scheme, standard_location) prog" where
  "requireLocation ctx i = require_row standard_locations (\<lambda>x. xl_id x = i \<and> xl_tenantId x = ctx_tenantId ctx)"

definition requireParty :: "tenant_context \<Rightarrow> uuid \<Rightarrow> ('m international_db_scheme, transport_party) prog" where
  "requireParty ctx i = require_row transport_parties (\<lambda>x. yp_id x = i \<and> yp_tenantId x = ctx_tenantId ctx)"

definition requireBooking :: "tenant_context \<Rightarrow> uuid \<Rightarrow> ('m international_db_scheme, freight_booking) prog" where
  "requireBooking ctx i = require_row freight_bookings (\<lambda>x. fb_id x = i \<and> fb_tenantId x = ctx_tenantId ctx)"

definition requireConsignment ::
  "tenant_context \<Rightarrow> uuid \<Rightarrow> ('m international_db_scheme, transport_consignment) prog" where
  "requireConsignment ctx i = require_row consignments_table (\<lambda>x. xc_id x = i \<and> xc_tenantId x = ctx_tenantId ctx)"

definition requireDocument :: "tenant_context \<Rightarrow> uuid \<Rightarrow> ('m international_db_scheme, transport_document) prog" where
  "requireDocument ctx i = require_row transport_documents (\<lambda>x. xd_id x = i \<and> xd_tenantId x = ctx_tenantId ctx)"

definition requireHub :: "tenant_context \<Rightarrow> uuid \<Rightarrow> ('m international_db_scheme, logistics_hub) prog" where
  "requireHub ctx i = require_row logistics_hubs (\<lambda>x. xh_id x = i \<and> xh_tenantId x = ctx_tenantId ctx)"

definition requireHandlingUnit :: "tenant_context \<Rightarrow> uuid \<Rightarrow> ('m international_db_scheme, handling_unit) prog" where
  "requireHandlingUnit ctx i = require_row handling_units (\<lambda>x. hu_id x = i \<and> hu_tenantId x = ctx_tenantId ctx)"

definition requirePlan :: "tenant_context \<Rightarrow> uuid \<Rightarrow> ('m international_db_scheme, consolidation_plan) prog" where
  "requirePlan ctx i = require_row consolidation_plans (\<lambda>x. xp_id x = i \<and> xp_tenantId x = ctx_tenantId ctx)"

definition requireReceptacle :: "tenant_context \<Rightarrow> uuid \<Rightarrow> ('m international_db_scheme, postal_receptacle) prog" where
  "requireReceptacle ctx i = require_row postal_receptacles (\<lambda>x. ym_id x = i \<and> ym_tenantId x = ctx_tenantId ctx)"

definition require_optional :: "'a option \<Rightarrow> ('a \<Rightarrow> ('s, 'b) prog) \<Rightarrow> ('s, unit) prog" where
  "require_optional x f = (case x of None \<Rightarrow> ret () | Some i \<Rightarrow> seq (f i) (\<lambda>_. ret ()))"

section \<open>Locations, parties, consignments\<close>

definition locations :: "tenant_context \<Rightarrow> ('m international_db_scheme, standard_location list) prog" where
  "locations ctx = reads (\<lambda>s. sort_key xl_countryCode (sort_key xl_name
     (filter (\<lambda>x. xl_tenantId x = ctx_tenantId ctx) (standard_locations s))))"

definition createLocation ::
  "tenant_context \<Rightarrow> auth_principal \<Rightarrow> create_location_dto \<Rightarrow> ('m international_db_scheme, standard_location) prog"
where
  "createLocation ctx pr dto =
     seq random_uuid (\<lambda>i.
     transaction
       (seq (case xl_unLocode dto of
               None \<Rightarrow> ret None
             | Some code \<Rightarrow> if code = [] then ret None
                 else seq (lift_result (normalizeUnLocode code)) (\<lambda>x. ret (Some x))) (\<lambda>code.
        seq (create_row standard_locations standard_locations_update same_location
               (create_location_dto.extend (dto\<lparr>xl_unLocode := code\<rparr>)
                  (standard_location.fields i (ctx_tenantId ctx) ''ACTIVE''))) (\<lambda>x.
        seq (freight_audit ctx pr ''international.location.created'' ''StandardLocation'' i) (\<lambda>_.
        ret x)))))"

definition parties :: "tenant_context \<Rightarrow> ('m international_db_scheme, transport_party list) prog" where
  "parties ctx = reads (\<lambda>s. sort_key yp_legalName
     (filter (\<lambda>x. yp_tenantId x = ctx_tenantId ctx) (transport_parties s)))"

definition createParty ::
  "tenant_context \<Rightarrow> auth_principal \<Rightarrow> create_party_dto \<Rightarrow> ('m international_db_scheme, transport_party) prog"
where
  "createParty ctx pr dto =
     seq random_uuid (\<lambda>i.
     transaction
       (seq (create_row transport_parties transport_parties_update same_party
               (create_party_dto.extend dto (transport_party.fields i (ctx_tenantId ctx) ''ACTIVE''))) (\<lambda>x.
        seq (freight_audit ctx pr ''transport.party.created'' ''TransportParty'' i) (\<lambda>_.
        ret x))))"

text \<open>\<open>consignments\<close> with their documents, the latest revision first, and their filings.\<close>

definition consignments ::
  "tenant_context \<Rightarrow> ('m international_db_scheme,
     (transport_consignment \<times> transport_document list \<times> customs_filing list) list) prog"
where
  "consignments ctx = reads (\<lambda>s. map
     (\<lambda>x. (x, sort_key (\<lambda>d. - xd_revision d) (filter (\<lambda>d. xd_consignmentId d = xc_id x) (transport_documents s)),
           rev (filter (\<lambda>f. xf_consignmentId f = xc_id x) (customs_filings s))))
     (rev (filter (\<lambda>x. xc_tenantId x = ctx_tenantId ctx) (consignments_table s))))"

definition createConsignment ::
  "tenant_context \<Rightarrow> auth_principal \<Rightarrow> create_consignment_dto
     \<Rightarrow> ('m international_db_scheme, transport_consignment) prog"
where
  "createConsignment ctx pr dto =
     seq (requireBooking ctx (xc_bookingId dto)) (\<lambda>_.
     seq (requireParty ctx (xc_consignorId dto)) (\<lambda>_.
     seq (requireParty ctx (xc_consigneeId dto)) (\<lambda>_.
     seq (requireLocation ctx (xc_originLocationId dto)) (\<lambda>_.
     seq (requireLocation ctx (xc_destinationLocationId dto)) (\<lambda>_.
     seq (ensure (\<not> xc_originLocationId dto = xc_destinationLocationId dto)
            (Conflict ''Consignment origin and destination must differ'')) (\<lambda>_.
     seq random_uuid (\<lambda>i.
     transaction
       (seq (create_row consignments_table consignments_table_update same_consignment
               (create_consignment_dto.extend dto
                  (transport_consignment.fields i (ctx_tenantId ctx) (''CON-'' @ js_upper (take 8 i))
                     ''DRAFT'' 1 (pr_userId pr)))) (\<lambda>x.
        seq (freight_audit ctx pr ''transport.consignment.created'' ''TransportConsignment'' i) (\<lambda>_.
        seq (freight_outbox ctx ''transport.consignment.created.v1'' i
               (JObj [(''consignmentId'', JStr i), (''bookingId'', JStr (xc_bookingId dto))])) (\<lambda>_.
        ret x)))))))))))"

section \<open>Transport documents and customs filings\<close>

definition createDocument ::
  "tenant_context \<Rightarrow> auth_principal \<Rightarrow> uuid \<Rightarrow> create_document_dto
     \<Rightarrow> ('m international_db_scheme, transport_document) prog"
where
  "createDocument ctx pr consignmentId dto =
     seq (requireConsignment ctx consignmentId) (\<lambda>_.
     seq (find_rows transport_documents (\<lambda>d. xd_tenantId d = ctx_tenantId ctx
            \<and> xd_consignmentId d = consignmentId \<and> xd_type d = xd_type dto)) (\<lambda>earlier.
     let revision = or_default (max_of (map xd_revision earlier)) 0 + 1 in
     seq (case xd_supersedesId dto of
            None \<Rightarrow> ret ()
          | Some i \<Rightarrow>
              seq (find_row transport_documents (\<lambda>d. xd_id d = i \<and> xd_tenantId d = ctx_tenantId ctx
                     \<and> xd_consignmentId d = consignmentId)) (\<lambda>superseded.
              ensure (case superseded of None \<Rightarrow> False | Some d \<Rightarrow> xd_status d \<noteq> ''VOID'')
                (Conflict ''Superseded transport document is unavailable''))) (\<lambda>_.
     seq random_uuid (\<lambda>i.
     transaction
       (seq (create_row transport_documents transport_documents_update same_transport_document
               (create_document_dto.extend dto
                  (transport_document.fields i (ctx_tenantId ctx) consignmentId ''DRAFT'' revision
                     None None None None))) (\<lambda>d.
        seq (freight_audit ctx pr ''transport.document.created'' ''TransportDocument'' i) (\<lambda>_.
        ret d)))))))"

definition DOCUMENT_TRANSITIONS :: transition_table where
  "DOCUMENT_TRANSITIONS =
     [(''DRAFT'', [''ISSUED'', ''VOID'']),
      (''ISSUED'', [''SIGNED'', ''SURRENDERED'', ''VOID'']),
      (''SIGNED'', [''SURRENDERED'', ''VOID'']),
      (''SURRENDERED'', [''VOID''])]"

text \<open>\<open>allowed[current]?.includes(next)\<close>.\<close>

definition permits :: "transition_table \<Rightarrow> string \<Rightarrow> string \<Rightarrow> bool" where
  "permits table current next = (case map_of table current of None \<Rightarrow> False | Some nexts \<Rightarrow> next \<in> set nexts)"

definition move_document :: "auth_principal \<Rightarrow> string \<Rightarrow> instant \<Rightarrow> transport_document \<Rightarrow> transport_document" where
  "move_document pr status moment d = d\<lparr>
     xd_status := status,
     xd_issuedAt := (if status = ''ISSUED'' then Some moment else xd_issuedAt d),
     xd_issuedBy := (if status = ''ISSUED'' then Some (pr_userId pr) else xd_issuedBy d),
     xd_signedAt := (if status = ''SIGNED'' then Some moment else xd_signedAt d),
     xd_surrenderedAt := (if status = ''SURRENDERED'' then Some moment else xd_surrenderedAt d)\<rparr>"

definition transitionDocument ::
  "tenant_context \<Rightarrow> auth_principal \<Rightarrow> uuid \<Rightarrow> string \<Rightarrow> ('m international_db_scheme, transport_document) prog"
where
  "transitionDocument ctx pr documentId status =
     seq (requireDocument ctx documentId) (\<lambda>d.
     seq (ensure (permits DOCUMENT_TRANSITIONS (xd_status d) status)
            (Conflict ''Invalid transport document transition'')) (\<lambda>_.
     seq now (\<lambda>moment.
     transaction
       (seq (update_row transport_documents transport_documents_update (\<lambda>x. xd_id x = documentId)
               (move_document pr status moment)) (\<lambda>updated.
        seq (freight_audit ctx pr (''transport.document.'' @ map lower_char status) ''TransportDocument''
               documentId) (\<lambda>_.
        ret updated))))))"

definition createCustomsFiling ::
  "tenant_context \<Rightarrow> auth_principal \<Rightarrow> uuid \<Rightarrow> create_filing_dto \<Rightarrow> ('m international_db_scheme, customs_filing) prog"
where
  "createCustomsFiling ctx pr consignmentId dto =
     seq (requireConsignment ctx consignmentId) (\<lambda>_.
     seq (find_rows customs_filings (\<lambda>f. xf_tenantId f = ctx_tenantId ctx
            \<and> xf_consignmentId f = consignmentId \<and> xf_type f = xf_type dto)) (\<lambda>earlier.
     seq random_uuid (\<lambda>i.
     transaction
       (seq (create_row customs_filings customs_filings_update same_filing
               (create_filing_dto.extend dto
                  (customs_filing.fields i (ctx_tenantId ctx) consignmentId ''DRAFT'' None None None None
                     None None (or_default (max_of (map xf_version earlier)) 0 + 1)))) (\<lambda>f.
        seq (freight_audit ctx pr ''customs.filing.created'' ''CustomsFiling'' i) (\<lambda>_.
        ret f))))))"

definition CUSTOMS_TRANSITIONS :: transition_table where
  "CUSTOMS_TRANSITIONS =
     [(''DRAFT'', [''LODGED'']),
      (''LODGED'', [''HELD'', ''RELEASED'', ''REJECTED'']),
      (''HELD'', [''RELEASED'', ''REJECTED''])]"

record customs_transition_dto =
  xt_status :: string
  xt_mrn :: "string option"
  xt_response :: "json option"
  xt_version :: int

definition move_filing ::
  "auth_principal \<Rightarrow> customs_transition_dto \<Rightarrow> instant \<Rightarrow> string option \<Rightarrow> customs_filing \<Rightarrow> customs_filing" where
  "move_filing pr dto moment mrn f = f\<lparr>
     xf_status := xt_status dto,
     xf_mrn := (case xt_mrn dto of None \<Rightarrow> mrn | m \<Rightarrow> m),
     xf_response := (case xt_response dto of None \<Rightarrow> xf_response f | r \<Rightarrow> r),
     xf_lodgedAt := (if xt_status dto = ''LODGED'' then Some moment else xf_lodgedAt f),
     xf_lodgedBy := (if xt_status dto = ''LODGED'' then Some (pr_userId pr) else xf_lodgedBy f),
     xf_releasedAt := (if xt_status dto = ''RELEASED'' then Some moment else xf_releasedAt f),
     xf_rejectedAt := (if xt_status dto = ''REJECTED'' then Some moment else xf_rejectedAt f),
     xf_version := xf_version f + 1\<rparr>"

text \<open>
  The update writes \<open>version\<close>, which is a column of a unique key: the database refuses it when
  another filing of the consignment has the new number.
\<close>

definition transitionCustomsFiling ::
  "tenant_context \<Rightarrow> auth_principal \<Rightarrow> uuid \<Rightarrow> customs_transition_dto
     \<Rightarrow> ('m international_db_scheme, customs_filing option) prog"
where
  "transitionCustomsFiling ctx pr filingId dto =
     seq (find_row customs_filings (\<lambda>f. xf_id f = filingId \<and> xf_tenantId f = ctx_tenantId ctx)) (\<lambda>found.
     seq (require found (NotFound ''Resource not found'')) (\<lambda>f.
     seq (ensure (permits CUSTOMS_TRANSITIONS (xf_status f) (xt_status dto))
            (Conflict ''Invalid customs filing transition'')) (\<lambda>_.
     seq now (\<lambda>moment.
     seq (update_unique customs_filings customs_filings_update same_filing
            (\<lambda>x. xf_id x = filingId \<and> xf_tenantId x = ctx_tenantId ctx \<and> xf_version x = xt_version dto)
            (move_filing pr dto moment (xf_mrn f))) (\<lambda>changed.
     seq (ensure (changed = 1) (Conflict ''Customs filing version changed'')) (\<lambda>_.
     find_row customs_filings (\<lambda>x. xf_id x = filingId)))))))"

section \<open>Hubs and handling units\<close>

record network_view =
  nv_hubs :: "logistics_hub list"
  nv_handlingUnits :: "(handling_unit \<times> handling_content list \<times> handling_event list) list"
  nv_plans :: "(consolidation_plan \<times> consolidation_member list \<times> consolidation_load list) list"
  nv_linehauls :: "(linehaul \<times> linehaul_allocation list) list"

definition members_of :: "'m international_db_scheme \<Rightarrow> uuid \<Rightarrow> consolidation_member list" where
  "members_of s planId = filter (\<lambda>x. xm_planId x = planId) (consolidation_members s)"

definition loads_of :: "'m international_db_scheme \<Rightarrow> uuid \<Rightarrow> consolidation_load list" where
  "loads_of s planId = filter (\<lambda>x. xo_planId x = planId) (consolidation_loads s)"

definition networkOverview :: "tenant_context \<Rightarrow> ('m international_db_scheme, network_view) prog" where
  "networkOverview ctx = reads (\<lambda>s.
     \<lparr>nv_hubs = sort_key xh_name (filter (\<lambda>x. xh_tenantId x = ctx_tenantId ctx) (logistics_hubs s)),
      nv_handlingUnits = map (\<lambda>u. (u, filter (\<lambda>x. hc_handlingUnitId x = hu_id u) (handling_contents s),
          take 10 (rev (sort_key he_occurredAt (filter (\<lambda>x. he_handlingUnitId x = hu_id u) (handling_events s))))))
        (rev (filter (\<lambda>x. hu_tenantId x = ctx_tenantId ctx) (handling_units s))),
      nv_plans = map (\<lambda>p. (p, members_of s (xp_id p), loads_of s (xp_id p)))
        (rev (filter (\<lambda>x. xp_tenantId x = ctx_tenantId ctx) (consolidation_plans s))),
      nv_linehauls = map (\<lambda>l. (l, filter (\<lambda>x. la_linehaulId x = lh_id l) (linehaul_allocations s)))
        (rev (sort_key lh_scheduledDepartureAt
           (filter (\<lambda>x. lh_tenantId x = ctx_tenantId ctx) (linehauls s))))\<rparr>)"

definition createHub ::
  "tenant_context \<Rightarrow> auth_principal \<Rightarrow> create_hub_dto \<Rightarrow> ('m international_db_scheme, logistics_hub) prog"
where
  "createHub ctx pr dto =
     seq (requireLocation ctx (xh_locationId dto)) (\<lambda>_.
     seq random_uuid (\<lambda>i.
     transaction
       (seq (create_row logistics_hubs logistics_hubs_update same_hub
               (create_hub_dto.extend dto (logistics_hub.fields i (ctx_tenantId ctx) ''ACTIVE''))) (\<lambda>x.
        seq (freight_audit ctx pr ''logistics.hub.created'' ''LogisticsHub'' i) (\<lambda>_.
        ret x)))))"

definition createHandlingUnit ::
  "tenant_context \<Rightarrow> auth_principal \<Rightarrow> create_handling_unit_dto \<Rightarrow> ('m international_db_scheme, handling_unit) prog"
where
  "createHandlingUnit ctx pr dto =
     seq (ensure (\<not> (case hu_sscc dto of None \<Rightarrow> False | Some c \<Rightarrow> c \<noteq> [] \<and> \<not> isValidSscc c))
            (Conflict ''SSCC check digit is invalid'')) (\<lambda>_.
     seq (require_optional (hu_parentId dto) (requireHandlingUnit ctx)) (\<lambda>_.
     seq (require_optional (hu_currentHubId dto) (requireHub ctx)) (\<lambda>_.
     seq random_uuid (\<lambda>i.
     transaction
       (seq (create_row handling_units handling_units_update same_unit
               (create_handling_unit_dto.extend dto
                  (handling_unit.fields i (ctx_tenantId ctx) ''CREATED'' None None None None 1))) (\<lambda>x.
        seq (freight_audit ctx pr ''handling.unit.created'' ''HandlingUnit'' i) (\<lambda>_.
        ret x)))))))"

definition verifyHandlingUnitVgm ::
  "tenant_context \<Rightarrow> auth_principal \<Rightarrow> uuid \<Rightarrow> int \<Rightarrow> string \<Rightarrow> ('m international_db_scheme, handling_unit) prog"
where
  "verifyHandlingUnitVgm ctx pr unitId verifiedGrossMassGrams vgm_method =
     seq (requireHandlingUnit ctx unitId) (\<lambda>u.
     seq (ensure (\<not> hu_type u \<noteq> ''CONTAINER'')
            (Conflict ''Verified gross mass applies to packed containers'')) (\<lambda>_.
     seq (ensure (\<not> verifiedGrossMassGrams < hu_tareWeightGrams u)
            (Conflict ''Verified gross mass cannot be below container tare weight'')) (\<lambda>_.
     seq now (\<lambda>verified.
     update_row handling_units handling_units_update (\<lambda>x. hu_id x = unitId)
       (\<lambda>x. x\<lparr>hu_verifiedGrossMassGrams := Some verifiedGrossMassGrams, hu_vgmMethod := Some vgm_method,
              hu_vgmVerifiedBy := Some (pr_userId pr), hu_vgmVerifiedAt := Some verified,
              hu_version := hu_version x + 1\<rparr>)))))"

record add_content_dto =
  ac_cargoItemId :: uuid
  ac_packageCount :: int
  ac_weightGrams :: int
  ac_volumeCubicCm :: "int option"

definition addHandlingContent ::
  "tenant_context \<Rightarrow> uuid \<Rightarrow> add_content_dto \<Rightarrow> ('m international_db_scheme, handling_content) prog"
where
  "addHandlingContent ctx unitId dto =
     seq (requireHandlingUnit ctx unitId) (\<lambda>_.
     seq (require_row cargo_items (\<lambda>c. cg_id c = ac_cargoItemId dto \<and> cg_tenantId c = ctx_tenantId ctx)) (\<lambda>cargo.
     seq (find_rows handling_contents (\<lambda>x. hc_tenantId x = ctx_tenantId ctx \<and> hc_cargoItemId x = cg_id cargo)) (\<lambda>allocated.
     seq (ensure (\<not> (sum_list (map hc_packageCount allocated) + ac_packageCount dto > cg_packageCount cargo
                  \<or> sum_list (map hc_weightGrams allocated) + ac_weightGrams dto > cg_weightGrams cargo))
            (Conflict ''Handling-unit allocation exceeds the cargo item'')) (\<lambda>_.
     seq random_uuid (\<lambda>i.
     create_row handling_contents handling_contents_update same_content
       \<lparr>hc_id = i, hc_tenantId = ctx_tenantId ctx, hc_handlingUnitId = unitId, hc_cargoItemId = cg_id cargo,
        hc_packageCount = ac_packageCount dto, hc_weightGrams = ac_weightGrams dto,
        hc_volumeCubicCm = ac_volumeCubicCm dto\<rparr>)))))"

definition STATUS_BY_EVENT :: "(string \<times> string) list" where
  "STATUS_BY_EVENT =
     [(''RECEIVED'', ''AT_HUB''), (''BUILT'', ''BUILT''), (''SEALED'', ''SEALED''), (''STAGED'', ''STAGED''),
      (''LOADED'', ''LOADED''), (''UNLOADED'', ''AT_HUB''), (''OPENED'', ''OPENED''),
      (''DAMAGED'', ''EXCEPTION''), (''SHORT'', ''EXCEPTION''), (''OVER'', ''EXCEPTION''),
      (''RELEASED'', ''RELEASED'')]"

definition recordHandlingEvent ::
  "tenant_context \<Rightarrow> auth_principal \<Rightarrow> uuid \<Rightarrow> handling_event_dto \<Rightarrow> ('m international_db_scheme, handling_event) prog"
where
  "recordHandlingEvent ctx pr unitId dto =
     seq (requireHandlingUnit ctx unitId) (\<lambda>_.
     seq (requireHub ctx (he_hubId dto)) (\<lambda>_.
     transaction
       (seq (find_row handling_events (\<lambda>x. he_tenantId x = ctx_tenantId ctx \<and> he_handlingUnitId x = unitId
               \<and> he_externalKey x = he_externalKey dto)) (\<lambda>existing.
        case existing of
          Some e \<Rightarrow> ret e
        | None \<Rightarrow>
            seq random_uuid (\<lambda>i.
            seq (create_row handling_events handling_events_update same_handling_event
                   (handling_event_dto.extend dto
                      (handling_event.fields i (ctx_tenantId ctx) unitId (pr_userId pr)))) (\<lambda>e.
            seq (update_row handling_units handling_units_update (\<lambda>x. hu_id x = unitId)
                   (\<lambda>x. x\<lparr>hu_currentHubId := Some (he_hubId dto),
                          hu_status := or_default (map_of STATUS_BY_EVENT (he_type dto)) (hu_status x),
                          hu_version := hu_version x + 1\<rparr>)) (\<lambda>_.
            seq (freight_audit ctx pr ''handling.event.recorded'' ''HandlingUnit'' unitId) (\<lambda>_.
            ret e))))))))"

section \<open>Consolidation\<close>

definition createConsolidationPlan ::
  "tenant_context \<Rightarrow> auth_principal \<Rightarrow> create_plan_dto \<Rightarrow> ('m international_db_scheme, consolidation_plan) prog"
where
  "createConsolidationPlan ctx pr dto =
     seq (requireHub ctx (xp_originHubId dto)) (\<lambda>_.
     seq (requireHub ctx (xp_destinationHubId dto)) (\<lambda>_.
     seq (ensure (\<not> (xp_cutoffAt dto > xp_plannedDepartureAt dto
                  \<or> xp_plannedDepartureAt dto \<ge> xp_plannedArrivalAt dto))
            (Conflict ''Consolidation cutoff and schedule are invalid'')) (\<lambda>_.
     seq random_uuid (\<lambda>i.
     transaction
       (seq (create_row consolidation_plans consolidation_plans_update same_plan
               (create_plan_dto.extend dto
                  (consolidation_plan.fields i (ctx_tenantId ctx) (''CNS-'' @ js_upper (take 8 i)) ''DRAFT'' 1
                     (pr_userId pr) None None None None None))) (\<lambda>p.
        seq (freight_audit ctx pr ''consolidation.plan.created'' ''ConsolidationPlan'' i) (\<lambda>_.
        ret p)))))))"

definition addConsolidationMember ::
  "tenant_context \<Rightarrow> uuid \<Rightarrow> add_member_dto \<Rightarrow> ('m international_db_scheme, consolidation_member) prog"
where
  "addConsolidationMember ctx planId dto =
     seq (requirePlan ctx planId) (\<lambda>p.
     seq (requireBooking ctx (xm_bookingId dto)) (\<lambda>b.
     seq (ensure (xp_status p \<in> {''DRAFT'', ''OPEN''})
            (Conflict ''Consolidation plan is closed to new members'')) (\<lambda>_.
     seq now (\<lambda>today.
     seq (ensure (\<not> xp_cutoffAt p \<le> today) (Conflict ''Consolidation cutoff has passed'')) (\<lambda>_.
     seq (ensure (fb_status b \<in> {''CONFIRMED'', ''PLANNED'', ''DISPATCHED'', ''IN_TRANSIT''})
            (Conflict ''Booking is not eligible for consolidation'')) (\<lambda>_.
     seq (case xm_consignmentId dto of
            None \<Rightarrow> ret ()
          | Some c \<Rightarrow> seq (requireConsignment ctx c) (\<lambda>x.
              ensure (\<not> xc_bookingId x \<noteq> fb_id b) (Conflict ''Consignment does not belong to the booking''))) (\<lambda>_.
     seq (find_rows consolidation_members (\<lambda>x. xm_tenantId x = ctx_tenantId ctx \<and> xm_planId x = planId)) (\<lambda>members.
     seq (lift_result (as_conflict (assertCapacity (xp_maxWeightGrams p) (xp_maxVolumeCubicCm p)
            (sum_list (map xm_allocatedWeightGrams members))
            (sum_list (map (\<lambda>x. or_default (xm_allocatedVolumeCubicCm x) 0) members))
            (xm_allocatedWeightGrams dto) (or_default (xm_allocatedVolumeCubicCm dto) 0)))) (\<lambda>_.
     transaction
       (seq random_uuid (\<lambda>i.
        seq (create_row consolidation_members consolidation_members_update same_member
               (add_member_dto.extend dto
                  (consolidation_member.fields i (ctx_tenantId ctx) planId ''ALLOCATED'' None))) (\<lambda>m.
        seq (when_do (xp_status p = ''DRAFT'')
               (seq (update_row consolidation_plans consolidation_plans_update (\<lambda>x. xp_id x = xp_id p)
                       (\<lambda>x. x\<lparr>xp_status := ''OPEN'', xp_version := xp_version x + 1\<rparr>)) (\<lambda>_.
                ret ()))) (\<lambda>_.
        ret m)))))))))))))"

definition addConsolidationLoad ::
  "tenant_context \<Rightarrow> uuid \<Rightarrow> uuid \<Rightarrow> int \<Rightarrow> string option \<Rightarrow> ('m international_db_scheme, consolidation_load) prog"
where
  "addConsolidationLoad ctx planId handlingUnitId loadSequence position =
     seq (requirePlan ctx planId) (\<lambda>p.
     seq (requireHandlingUnit ctx handlingUnitId) (\<lambda>u.
     seq (ensure (xp_status p \<in> {''OPEN'', ''CLOSED''})
            (Conflict ''Consolidation plan cannot accept handling units'')) (\<lambda>_.
     seq (count_rows handling_contents (\<lambda>x. hc_tenantId x = ctx_tenantId ctx \<and> hc_handlingUnitId x = hu_id u)) (\<lambda>contents.
     seq (find_row postal_receptacles (\<lambda>x. ym_handlingUnitId x = Some (hu_id u))) (\<lambda>receptacle.
     seq (ensure (\<not> (contents = 0 \<and> receptacle = None)) (Conflict ''Handling unit is empty'')) (\<lambda>_.
     seq random_uuid (\<lambda>i.
     create_row consolidation_loads consolidation_loads_update same_load
       \<lparr>xo_id = i, xo_tenantId = ctx_tenantId ctx, xo_planId = planId, xo_handlingUnitId = hu_id u,
        xo_loadSequence = loadSequence, xo_position = position, xo_status = ''PLANNED'',
        xo_loadedAt = None, xo_unloadedAt = None\<rparr>)))))))"

record workflow_transition_dto =
  wt_status :: string
  wt_version :: int

text \<open>A loaded container without a verified gross mass; \<open>0\<close> counts as none.\<close>

definition lacks_vgm :: "'m international_db_scheme \<Rightarrow> consolidation_load \<Rightarrow> bool" where
  "lacks_vgm s l \<longleftrightarrow> list_ex (\<lambda>u. hu_id u = xo_handlingUnitId l \<and> hu_type u = ''CONTAINER''
     \<and> or_default (hu_verifiedGrossMassGrams u) 0 = 0) (handling_units s)"

definition move_plan :: "string \<Rightarrow> instant \<Rightarrow> consolidation_plan \<Rightarrow> consolidation_plan" where
  "move_plan status moment p = p\<lparr>
     xp_status := status,
     xp_closedAt := (if status = ''CLOSED'' then Some moment else xp_closedAt p),
     xp_departedAt := (if status = ''DEPARTED'' then Some moment else xp_departedAt p),
     xp_arrivedAt := (if status = ''ARRIVED'' then Some moment else xp_arrivedAt p),
     xp_deconsolidatedAt := (if status = ''DECONSOLIDATED'' then Some moment else xp_deconsolidatedAt p),
     xp_completedAt := (if status = ''COMPLETED'' then Some moment else xp_completedAt p),
     xp_version := xp_version p + 1\<rparr>"

definition set_loads ::
  "tenant_context \<Rightarrow> uuid \<Rightarrow> (consolidation_load \<Rightarrow> consolidation_load) \<Rightarrow> ('m international_db_scheme, unit) prog" where
  "set_loads ctx planId f =
     seq (update_many consolidation_loads consolidation_loads_update
            (\<lambda>x. xo_tenantId x = ctx_tenantId ctx \<and> xo_planId x = planId) f) (\<lambda>_. ret ())"

definition set_members ::
  "tenant_context \<Rightarrow> uuid \<Rightarrow> (consolidation_member \<Rightarrow> consolidation_member) \<Rightarrow> ('m international_db_scheme, unit) prog" where
  "set_members ctx planId f =
     seq (update_many consolidation_members consolidation_members_update
            (\<lambda>x. xm_tenantId x = ctx_tenantId ctx \<and> xm_planId x = planId) f) (\<lambda>_. ret ())"

definition transition_consolidation_tx ::
  "tenant_context \<Rightarrow> auth_principal \<Rightarrow> uuid \<Rightarrow> workflow_transition_dto \<Rightarrow> instant
     \<Rightarrow> ('m international_db_scheme, consolidation_plan option) prog"
where
  "transition_consolidation_tx ctx pr planId dto moment =
     seq (update_many consolidation_plans consolidation_plans_update
            (\<lambda>x. xp_id x = planId \<and> xp_tenantId x = ctx_tenantId ctx \<and> xp_version x = wt_version dto)
            (move_plan (wt_status dto) moment)) (\<lambda>changed.
     seq (ensure (changed = 1) (Conflict ''Consolidation version changed'')) (\<lambda>_.
     seq (when_do (wt_status dto = ''LOADED'')
            (set_loads ctx planId (\<lambda>x. x\<lparr>xo_status := ''LOADED'', xo_loadedAt := Some moment\<rparr>))) (\<lambda>_.
     seq (when_do (wt_status dto = ''DECONSOLIDATED'')
            (seq (set_loads ctx planId (\<lambda>x. x\<lparr>xo_status := ''UNLOADED'', xo_unloadedAt := Some moment\<rparr>)) (\<lambda>_.
             set_members ctx planId (\<lambda>x. x\<lparr>xm_status := ''UNLOADED'', xm_unloadedAt := Some moment\<rparr>)))) (\<lambda>_.
     seq (freight_audit ctx pr (''consolidation.plan.'' @ map lower_char (wt_status dto)) ''ConsolidationPlan''
            planId) (\<lambda>_.
     seq (freight_outbox ctx (''consolidation.plan.'' @ map lower_char (wt_status dto) @ ''.v1'') planId
            (JObj [(''planId'', JStr planId)])) (\<lambda>_.
     find_row consolidation_plans (\<lambda>x. xp_id x = planId)))))))"

definition transitionConsolidation ::
  "tenant_context \<Rightarrow> auth_principal \<Rightarrow> uuid \<Rightarrow> workflow_transition_dto
     \<Rightarrow> ('m international_db_scheme, consolidation_plan option) prog"
where
  "transitionConsolidation ctx pr planId dto =
     seq (requirePlan ctx planId) (\<lambda>p.
     seq (lift_result (as_conflict (assertTransition CONSOLIDATION (xp_status p) (wt_status dto)))) (\<lambda>_.
     seq (reads (\<lambda>s. members_of s planId)) (\<lambda>members.
     seq (ensure (\<not> (wt_status dto = ''CLOSED'' \<and> members = []))
            (Conflict ''A consolidation requires at least one member'')) (\<lambda>_.
     seq (reads (\<lambda>s. loads_of s planId)) (\<lambda>loads.
     seq (ensure (\<not> (wt_status dto = ''LOADED'' \<and> loads = []))
            (Conflict ''A consolidation requires at least one handling unit'')) (\<lambda>_.
     seq (reads (\<lambda>s. list_ex (lacks_vgm s) loads)) (\<lambda>unverified.
     seq (ensure (\<not> (wt_status dto = ''LOADED'' \<and> xp_mode p = ''SEA'' \<and> unverified))
            (Conflict ''Sea containers require verified gross mass before loading'')) (\<lambda>_.
     seq now (\<lambda>moment.
     transaction (transition_consolidation_tx ctx pr planId dto moment))))))))))"

section \<open>Linehauls\<close>

definition createLinehaul ::
  "tenant_context \<Rightarrow> auth_principal \<Rightarrow> create_linehaul_dto \<Rightarrow> ('m international_db_scheme, linehaul) prog"
where
  "createLinehaul ctx pr dto =
     seq (requireLocation ctx (lh_originLocationId dto)) (\<lambda>_.
     seq (requireLocation ctx (lh_destinationLocationId dto)) (\<lambda>_.
     seq (ensure (\<not> lh_scheduledDepartureAt dto \<ge> lh_scheduledArrivalAt dto)
            (Conflict ''Linehaul schedule is invalid'')) (\<lambda>_.
     seq random_uuid (\<lambda>i.
     create_row linehauls linehauls_update same_linehaul
       (create_linehaul_dto.extend dto
          (linehaul.fields i (ctx_tenantId ctx) (''LNH-'' @ js_upper (take 8 i)) ''SCHEDULED'' 1
             (pr_userId pr)))))))"

record allocate_linehaul_dto =
  lo_consolidationPlanId :: uuid
  lo_allocatedWeightGrams :: int
  lo_allocatedVolumeCubicCm :: "int option"

definition allocateLinehaul ::
  "tenant_context \<Rightarrow> uuid \<Rightarrow> allocate_linehaul_dto \<Rightarrow> ('m international_db_scheme, linehaul_allocation) prog"
where
  "allocateLinehaul ctx linehaulId dto =
     seq (find_row linehauls (\<lambda>x. lh_id x = linehaulId \<and> lh_tenantId x = ctx_tenantId ctx)) (\<lambda>found.
     seq (requirePlan ctx (lo_consolidationPlanId dto)) (\<lambda>p.
     seq (require found (NotFound ''Resource not found'')) (\<lambda>h.
     seq (ensure (lh_status h \<in> {''SCHEDULED'', ''BOOKING''})
            (Conflict ''Linehaul is closed to allocations'')) (\<lambda>_.
     seq (ensure (\<not> lh_mode h \<noteq> xp_mode p)
            (Conflict ''Linehaul and consolidation modes must match'')) (\<lambda>_.
     seq (find_rows linehaul_allocations (\<lambda>x. la_tenantId x = ctx_tenantId ctx \<and> la_linehaulId x = linehaulId)) (\<lambda>booked.
     seq (lift_result (as_conflict (assertCapacity (lh_maxWeightGrams h) (lh_maxVolumeCubicCm h)
            (sum_list (map la_allocatedWeightGrams booked))
            (sum_list (map (\<lambda>x. or_default (la_allocatedVolumeCubicCm x) 0) booked))
            (lo_allocatedWeightGrams dto) (or_default (lo_allocatedVolumeCubicCm dto) 0)))) (\<lambda>_.
     seq random_uuid (\<lambda>i.
     create_row linehaul_allocations linehaul_allocations_update same_linehaul_allocation
       \<lparr>la_id = i, la_tenantId = ctx_tenantId ctx, la_linehaulId = linehaulId,
        la_consolidationPlanId = xp_id p, la_allocatedWeightGrams = lo_allocatedWeightGrams dto,
        la_allocatedVolumeCubicCm = lo_allocatedVolumeCubicCm dto, la_status = ''BOOKED''\<rparr>))))))))"

section \<open>Tables\<close>

interpretation customs_filings: row_store customs_filings customs_filings_update
  by unfold_locales simp_all

interpretation transport_documents: row_store transport_documents transport_documents_update
  by unfold_locales simp_all

interpretation handling_events: row_store handling_events handling_events_update
  by unfold_locales simp_all

interpretation consolidation_plans: row_store consolidation_plans consolidation_plans_update
  by unfold_locales simp_all

interpretation consolidation_members: row_store consolidation_members consolidation_members_update
  by unfold_locales simp_all

definition fresh_international :: international_db where
  "fresh_international = insurance_db.extend fresh_insurance
     (international_db.fields [] [] [] [] [] [] [] [] [] [] [] [] [] [] [])"

end
