(* ===== verification/Transit.thy ===== *)
theory Transit
  imports International
begin

text \<open>
  What international transport promises along every run of its operations: allocations stay within
  the capacity of plans, linehauls and cargo items; sea containers travel weighed; documents come to
  rest. \<open>capacity_of\<close> and \<open>sea_of\<close> are the parts of the state these promises are about.
\<close>

section \<open>Runs\<close>

text \<open>
  The operations in any order, on bodies \<open>international-logistics.dto.ts\<close> lets through: limits and
  weighed masses are at least one.
\<close>

definition positive_limit :: "int option \<Rightarrow> bool" where
  "positive_limit m \<longleftrightarrow> (case m of None \<Rightarrow> True | Some x \<Rightarrow> x \<ge> 1)"

inductive transit_step :: "'m international_db_scheme \<Rightarrow> 'm international_db_scheme \<Rightarrow> bool" where
  Location: "createLocation ctx pr xl s = (r1, t) \<Longrightarrow> transit_step s t"
| Party: "createParty ctx pr yp s = (r2, t) \<Longrightarrow> transit_step s t"
| Consignment: "createConsignment ctx pr xc s = (r3, t) \<Longrightarrow> transit_step s t"
| Document: "createDocument ctx pr i xd s = (r4, t) \<Longrightarrow> transit_step s t"
| Move_Document: "transitionDocument ctx pr i status s = (r5, t) \<Longrightarrow> transit_step s t"
| Filing: "createCustomsFiling ctx pr i xf s = (r6, t) \<Longrightarrow> transit_step s t"
| Move_Filing: "transitionCustomsFiling ctx pr i xt s = (r7, t) \<Longrightarrow> transit_step s t"
| Hub: "createHub ctx pr xh s = (r8, t) \<Longrightarrow> transit_step s t"
| Unit: "createHandlingUnit ctx pr hu s = (r9, t) \<Longrightarrow> transit_step s t"
| Verify: "g \<ge> 1 \<Longrightarrow> verifyHandlingUnitVgm ctx pr i g k s = (r10, t) \<Longrightarrow> transit_step s t"
| Content: "addHandlingContent ctx i ac s = (r11, t) \<Longrightarrow> transit_step s t"
| Event: "recordHandlingEvent ctx pr i he s = (r12, t) \<Longrightarrow> transit_step s t"
| Plan: "positive_limit (xp_maxWeightGrams xp) \<Longrightarrow> positive_limit (xp_maxVolumeCubicCm xp) \<Longrightarrow>
    createConsolidationPlan ctx pr xp s = (r13, t) \<Longrightarrow> transit_step s t"
| Member: "addConsolidationMember ctx i xm s = (r14, t) \<Longrightarrow> transit_step s t"
| Load: "addConsolidationLoad ctx i j n place s = (r15, t) \<Longrightarrow> transit_step s t"
| Move_Plan: "transitionConsolidation ctx pr i wt s = (r16, t) \<Longrightarrow> transit_step s t"
| Linehaul: "positive_limit (lh_maxWeightGrams lh) \<Longrightarrow> positive_limit (lh_maxVolumeCubicCm lh) \<Longrightarrow>
    createLinehaul ctx pr lh s = (r17, t) \<Longrightarrow> transit_step s t"
| Allocate: "allocateLinehaul ctx i lo s = (r18, t) \<Longrightarrow> transit_step s t"

lemmas transit_reads = requireLocation_def requireParty_def requireBooking_def requireConsignment_def
  requireDocument_def requireHub_def requireHandlingUnit_def requirePlan_def requireReceptacle_def
  require_row_def require_optional_def

text \<open>An update that keeps a view of each row keeps the view of the table.\<close>

lemma keeps_update_rowI: "(\<And>s. v (modify (update_first P f) s) = v s) \<Longrightarrow> keeps v (update_row rows modify P f)"
  by (simp add: keeps_def update_row_def split: option.splits)

lemma keeps_update_manyI: "(\<And>s. v (modify (update_where P f) s) = v s) \<Longrightarrow> keeps v (update_many rows modify P f)"
  by (simp add: keeps_def update_many_def)

section \<open>Capacity\<close>

text \<open>A slot has a key and two limits; a use takes two amounts from the slot of its key.\<close>

type_synonym slot = "(uuid \<times> uuid) \<times> int option \<times> int option"
type_synonym slot_use = "(uuid \<times> uuid) \<times> int \<times> int"

definition used :: "(int \<times> int \<Rightarrow> int) \<Rightarrow> uuid \<times> uuid \<Rightarrow> slot_use list \<Rightarrow> int" where
  "used f k uses = sum_list (map (f \<circ> snd) (filter (\<lambda>u. fst u = k) uses))"

definition under :: "int \<Rightarrow> int option \<Rightarrow> bool" where
  "under n m \<longleftrightarrow> (case m of None \<Rightarrow> True | Some x \<Rightarrow> n \<le> x)"

definition fits :: "slot list \<Rightarrow> slot_use list \<Rightarrow> bool" where
  "fits slots uses \<longleftrightarrow> distinct (map fst slots) \<and> fst ` set uses \<subseteq> fst ` set slots
     \<and> (\<forall>(k, m, n)\<in>set slots. under (used fst k uses) m \<and> under (used snd k uses) n)"

lemma used_append [simp]: "used f k (uses @ [u]) = used f k uses + (if fst u = k then f (snd u) else 0)"
  by (simp add: used_def)

lemma used_none: "k \<notin> fst ` set uses \<Longrightarrow> used f k uses = 0"
  by (induction uses) (auto simp: used_def)

lemma fits_slot:
  assumes "fits slots uses" and "k \<notin> fst ` set slots" and "positive_limit m" and "positive_limit n"
  shows "fits (slots @ [(k, m, n)]) uses"
proof -
  have "used f k uses = 0" for f using assms(1,2) by (intro used_none) (auto simp: fits_def)
  then show ?thesis using assms by (auto simp: fits_def positive_limit_def under_def split: option.splits)
qed

lemma fits_use:
  assumes "fits slots uses" and "(k, m, n) \<in> set slots"
    and "under (used fst k uses + a) m" and "under (used snd k uses + b) n"
  shows "fits slots (uses @ [(k, a, b)])"
proof -
  have "(m', n') = (m, n)" if "(k, m', n') \<in> set slots" for m' n'
    using assms(1) eq_key_imp_eq_value [OF _ that assms(2)] by (simp add: fits_def)
  then have "under (used fst k (uses @ [(k, a, b)])) m' \<and> under (used snd k (uses @ [(k, a, b)])) n'"
    if "(k, m', n') \<in> set slots" for m' n' using that assms(3,4) by auto
  moreover have "k \<in> fst ` set slots" using assms(2) by force
  ultimately show ?thesis using assms(1) by (auto simp: fits_def)
qed

definition plan_slot :: "consolidation_plan \<Rightarrow> slot" where
  "plan_slot p = ((xp_tenantId p, xp_id p), xp_maxWeightGrams p, xp_maxVolumeCubicCm p)"

definition member_use :: "consolidation_member \<Rightarrow> slot_use" where
  "member_use m = ((xm_tenantId m, xm_planId m), xm_allocatedWeightGrams m,
     or_default (xm_allocatedVolumeCubicCm m) 0)"

definition linehaul_slot :: "linehaul \<Rightarrow> slot" where
  "linehaul_slot h = ((lh_tenantId h, lh_id h), lh_maxWeightGrams h, lh_maxVolumeCubicCm h)"

definition allocation_use :: "linehaul_allocation \<Rightarrow> slot_use" where
  "allocation_use a = ((la_tenantId a, la_linehaulId a), la_allocatedWeightGrams a,
     or_default (la_allocatedVolumeCubicCm a) 0)"

definition cargo_slot :: "cargo_item \<Rightarrow> slot" where
  "cargo_slot c = ((cg_tenantId c, cg_id c), Some (cg_packageCount c), Some (cg_weightGrams c))"

definition content_use :: "handling_content \<Rightarrow> slot_use" where
  "content_use c = ((hc_tenantId c, hc_cargoItemId c), hc_packageCount c, hc_weightGrams c)"

definition capacity_of ::
  "'m international_db_scheme \<Rightarrow> (slot list \<times> slot_use list) \<times> (slot list \<times> slot_use list) \<times> (slot list \<times> slot_use list)"
where
  "capacity_of s =
     ((map plan_slot (consolidation_plans s), map member_use (consolidation_members s)),
      (map linehaul_slot (linehauls s), map allocation_use (linehaul_allocations s)),
      (map cargo_slot (cargo_items s), map content_use (handling_contents s)))"

definition roomy ::
  "(slot list \<times> slot_use list) \<times> (slot list \<times> slot_use list) \<times> (slot list \<times> slot_use list) \<Rightarrow> bool"
where
  "roomy v \<longleftrightarrow> (case v of ((a, b), (c, d), (e, f)) \<Rightarrow> fits a b \<and> fits c d \<and> fits e f)"

abbreviation capacity_kept :: "'m international_db_scheme \<Rightarrow> bool" where
  "capacity_kept s \<equiv> roomy (capacity_of s)"

lemma international_more: "runtime.more t = runtime.more s \<Longrightarrow> transport_documents t = transport_documents s"
  for s t :: "'m international_db_scheme"
  by (cases s; cases t) simp

lemma capacity_more: "runtime.more t = runtime.more s \<Longrightarrow> capacity_of t = capacity_of s"
  for s t :: "'m international_db_scheme"
  by (cases s; cases t) (simp add: capacity_of_def)

lemma capacity_kept_more: "runtime.more t = runtime.more s \<Longrightarrow> capacity_kept s \<Longrightarrow> capacity_kept t"
  for s t :: "'m international_db_scheme"
  using capacity_more [of t s] by simp

lemma plan_slot_moved [simp]: "plan_slot (move_plan status moment p) = plan_slot p"
  "plan_slot (p\<lparr>xp_status := status, xp_version := v\<rparr>) = plan_slot p"
  by (simp_all add: plan_slot_def move_plan_def)

lemma member_use_moved [simp]: "member_use (m\<lparr>xm_status := status, xm_unloadedAt := moment\<rparr>) = member_use m"
  by (simp add: member_use_def)

lemma keeps_capacity:
  "keeps capacity_of (createLocation ctx pr xl)"
  "keeps capacity_of (createParty ctx pr yp)"
  "keeps capacity_of (createConsignment ctx pr xc)"
  "keeps capacity_of (createDocument ctx pr i xd)"
  "keeps capacity_of (transitionDocument ctx pr i status)"
  "keeps capacity_of (createCustomsFiling ctx pr i xf)"
  "keeps capacity_of (transitionCustomsFiling ctx pr i xt)"
  "keeps capacity_of (createHub ctx pr xh)"
  "keeps capacity_of (createHandlingUnit ctx pr hu)"
  "keeps capacity_of (verifyHandlingUnitVgm ctx pr i g k)"
  "keeps capacity_of (recordHandlingEvent ctx pr i he)"
  "keeps capacity_of (addConsolidationLoad ctx i j n place)"
  unfolding createLocation_def createParty_def createConsignment_def createDocument_def transitionDocument_def
    createCustomsFiling_def transitionCustomsFiling_def createHub_def createHandlingUnit_def
    verifyHandlingUnitVgm_def recordHandlingEvent_def addConsolidationLoad_def transit_reads
    freight_audit_def freight_outbox_def Let_def
  by (intro keeps_intros; (erule capacity_more | simp add: capacity_of_def))+

lemma keeps_capacity_writes:
  "keeps capacity_of (set_loads ctx i f)"
  "keeps capacity_of (set_members ctx i (\<lambda>x. x\<lparr>xm_status := status, xm_unloadedAt := moment\<rparr>))"
  "keeps capacity_of (update_many consolidation_plans consolidation_plans_update P (move_plan status moment'))"
  "keeps capacity_of (update_row consolidation_plans consolidation_plans_update P
     (\<lambda>x. x\<lparr>xp_status := status, xp_version := xp_version x + 1\<rparr>))"
  unfolding set_loads_def set_members_def
  by (intro keeps_intros keeps_update_manyI keeps_update_rowI;
      simp add: capacity_of_def map_update_where map_update_first)+

lemma capacity_quiet:
  "keeps capacity_of (now :: ('m international_db_scheme, instant) prog)"
  "keeps capacity_of (random_uuid :: ('m international_db_scheme, uuid) prog)"
  "keeps capacity_of (freight_audit ctx pr a b i)"
  "keeps capacity_of (freight_outbox ctx b i j)"
  unfolding freight_audit_def freight_outbox_def by (intro keeps_intros; simp add: capacity_of_def)+

lemmas capacity_before = capacity_quiet [THEN keepsD]

lemma keeps_capacity_transition: "keeps capacity_of (transitionConsolidation ctx pr i wt)"
  unfolding transitionConsolidation_def transition_consolidation_tx_def requirePlan_def require_row_def
  by (intro keeps_transaction keeps_seq keeps_when_do keeps_capacity_writes capacity_quiet keeps_ensure keeps_require
      keeps_lift_result keeps_reads keeps_find_row capacity_more)

lemma capacity_checked:
  "as_conflict (assertCapacity m n w v a b) = Inr () \<longleftrightarrow> under (w + a) m \<and> under (v + b) n"
  by (auto simp: as_conflict_def assertCapacity_def under_def split: option.splits)

text \<open>The sums of the source are those of the view.\<close>

lemma used_by_members:
  "used fst (t, i) (map member_use ms) =
     sum_list (map xm_allocatedWeightGrams (filter (\<lambda>x. xm_tenantId x = t \<and> xm_planId x = i) ms))"
  "used snd (t, i) (map member_use ms) =
     sum_list (map (\<lambda>x. or_default (xm_allocatedVolumeCubicCm x) 0)
       (filter (\<lambda>x. xm_tenantId x = t \<and> xm_planId x = i) ms))"
  by (induction ms) (auto simp: used_def member_use_def)

lemma used_by_allocations:
  "used fst (t, i) (map allocation_use as) =
     sum_list (map la_allocatedWeightGrams (filter (\<lambda>x. la_tenantId x = t \<and> la_linehaulId x = i) as))"
  "used snd (t, i) (map allocation_use as) =
     sum_list (map (\<lambda>x. or_default (la_allocatedVolumeCubicCm x) 0)
       (filter (\<lambda>x. la_tenantId x = t \<and> la_linehaulId x = i) as))"
  by (induction as) (auto simp: used_def allocation_use_def)

lemma used_by_contents:
  "used fst (t, i) (map content_use cs) =
     sum_list (map hc_packageCount (filter (\<lambda>x. hc_tenantId x = t \<and> hc_cargoItemId x = i) cs))"
  "used snd (t, i) (map content_use cs) =
     sum_list (map hc_weightGrams (filter (\<lambda>x. hc_tenantId x = t \<and> hc_cargoItemId x = i) cs))"
  by (induction cs) (auto simp: used_def content_use_def)

lemma capacity_reads [simp]:
  "requirePlan ctx i s = (Inr p, t) \<longleftrightarrow>
     List.find (\<lambda>x. xp_id x = i \<and> xp_tenantId x = ctx_tenantId ctx) (consolidation_plans s) = Some p \<and> t = s"
  "requireBooking ctx i s = (Inr b, t) \<longleftrightarrow>
     List.find (\<lambda>x. fb_id x = i \<and> fb_tenantId x = ctx_tenantId ctx) (freight_bookings s) = Some b \<and> t = s"
  "requireHub ctx i s = (Inr h, t) \<longleftrightarrow>
     List.find (\<lambda>x. xh_id x = i \<and> xh_tenantId x = ctx_tenantId ctx) (logistics_hubs s) = Some h \<and> t = s"
  "requireLocation ctx i s = (Inr x, t) \<longleftrightarrow>
     List.find (\<lambda>x. xl_id x = i \<and> xl_tenantId x = ctx_tenantId ctx) (standard_locations s) = Some x \<and> t = s"
  "requireHandlingUnit ctx i s = (Inr u, t) \<longleftrightarrow>
     List.find (\<lambda>x. hu_id x = i \<and> hu_tenantId x = ctx_tenantId ctx) (handling_units s) = Some u \<and> t = s"
  "requireDocument ctx i s = (Inr d, t) \<longleftrightarrow>
     List.find (\<lambda>x. xd_id x = i \<and> xd_tenantId x = ctx_tenantId ctx) (transport_documents s) = Some d \<and> t = s"
  "requireConsignment ctx i s = (Inr c, t) \<longleftrightarrow>
     List.find (\<lambda>x. xc_id x = i \<and> xc_tenantId x = ctx_tenantId ctx) (consignments_table s) = Some c \<and> t = s"
  for s :: "'m international_db_scheme"
  by (auto simp: transit_reads)

lemma plan_fits:
  fixes s :: "'m international_db_scheme"
  assumes "capacity_kept s" and "positive_limit (xp_maxWeightGrams xp)" and "positive_limit (xp_maxVolumeCubicCm xp)"
    and "createConsolidationPlan ctx pr xp s = (Inr p, t)"
  shows "capacity_kept t"
proof -
  obtain i and u v :: "'m international_db_scheme" where u: "random_uuid s = (Inr i, u)" and
    v: "create_row consolidation_plans consolidation_plans_update same_plan p u = (Inr p, v)" and
    p: "p = create_plan_dto.extend xp (consolidation_plan.fields i (ctx_tenantId ctx)
          (''CNS-'' @ js_upper (take 8 i)) ''DRAFT'' 1 (pr_userId pr) None None None None None)" and
    t: "freight_audit ctx pr ''consolidation.plan.created'' ''ConsolidationPlan'' i v = (Inr (), t)"
    using assms(4) unfolding createConsolidationPlan_def
    by (auto simp del: random_uuid_Inr)
  have "plan_slot p = ((ctx_tenantId ctx, i), xp_maxWeightGrams xp, xp_maxVolumeCubicCm xp)"
    unfolding p by (cases xp) (simp add: plan_slot_def create_plan_dto.defs consolidation_plan.defs)
  moreover have eq: "capacity_of u = capacity_of s" by (rule capacity_before(2) [OF u])
  have "fst (plan_slot p) \<notin> fst ` set (map plan_slot (consolidation_plans u))"
    using v by (auto simp: plan_slot_def same_plan_def)
  then have "fst (plan_slot p) \<notin> fst ` set (map plan_slot (consolidation_plans s))"
    using eq by (simp only: capacity_of_def prod.inject not_False_eq_True)
  ultimately have "fits (map plan_slot (consolidation_plans s) @ [plan_slot p]) (map member_use (consolidation_members s))"
    using assms(1-3) fits_slot by (simp add: roomy_def capacity_of_def)
  with assms(1) v eq capacity_before(3) [OF t] show ?thesis by (simp add: roomy_def capacity_of_def)
qed

lemma member_fits:
  fixes s :: "'m international_db_scheme"
  assumes "capacity_kept s" and "addConsolidationMember ctx i xm s = (Inr m, t)"
  shows "capacity_kept t"
proof -
  obtain p c j x and u v :: "'m international_db_scheme" where
    p: "List.find (\<lambda>x. xp_id x = i \<and> xp_tenantId x = ctx_tenantId ctx) (consolidation_plans s) = Some p" and
    u: "now s = (Inr c, u)" and
    check: "as_conflict (assertCapacity (xp_maxWeightGrams p) (xp_maxVolumeCubicCm p)
       (used fst (ctx_tenantId ctx, i) (map member_use (consolidation_members u)))
       (used snd (ctx_tenantId ctx, i) (map member_use (consolidation_members u)))
       (xm_allocatedWeightGrams xm) (or_default (xm_allocatedVolumeCubicCm xm) 0)) = Inr ()" and
    v: "random_uuid u = (Inr j, v)" and
    m: "m = add_member_dto.extend xm (consolidation_member.fields j (ctx_tenantId ctx) i ''ALLOCATED'' None)" and
    t: "seq (create_row consolidation_members consolidation_members_update same_member m)
          (\<lambda>_. when_do (xp_status p = ''DRAFT'')
               (seq (update_row consolidation_plans consolidation_plans_update (\<lambda>x. xp_id x = xp_id p)
                       (\<lambda>x. x\<lparr>xp_status := ''OPEN'', xp_version := xp_version x + 1\<rparr>)) (\<lambda>_.
                ret ()))) v = (Inr x, t)"
    using assms(2) unfolding addConsolidationMember_def used_by_members
    by (cases "xm_consignmentId xm") (auto simp del: now_Inr random_uuid_Inr)
  have eq: "capacity_of v = capacity_of s" "capacity_of u = capacity_of s"
    using capacity_before(1) [OF u] capacity_before(2) [OF v] by simp_all
  have use: "member_use m = ((ctx_tenantId ctx, i), xm_allocatedWeightGrams xm, or_default (xm_allocatedVolumeCubicCm xm) 0)"
    unfolding m by (cases xm) (simp add: member_use_def add_member_dto.defs consolidation_member.defs)
  have slot: "((ctx_tenantId ctx, i), xp_maxWeightGrams p, xp_maxVolumeCubicCm p)
      \<in> set (map plan_slot (consolidation_plans s))"
    using find_SomeD [OF p] by (force simp: plan_slot_def)
  have "fits (map plan_slot (consolidation_plans s)) (map member_use (consolidation_members s) @ [member_use m])"
    using assms(1) check eq(2) unfolding use capacity_checked by (intro fits_use [OF _ slot]) (simp_all add: roomy_def capacity_of_def)
  moreover have "capacity_of t = capacity_of (consolidation_members_update (\<lambda>rs. rs @ [m]) v)"
    using t by (auto simp: capacity_of_def map_update_first when_do_def split: if_splits)
  ultimately show ?thesis using assms(1) eq(1) by (simp add: roomy_def capacity_of_def)
qed

lemma linehaul_fits:
  fixes s :: "'m international_db_scheme"
  assumes "capacity_kept s" and "positive_limit (lh_maxWeightGrams lh)" and "positive_limit (lh_maxVolumeCubicCm lh)"
    and "createLinehaul ctx pr lh s = (Inr h, t)"
  shows "capacity_kept t"
proof -
  obtain i and u :: "'m international_db_scheme" where u: "random_uuid s = (Inr i, u)" and
    t: "create_row linehauls linehauls_update same_linehaul h u = (Inr h, t)" and
    h: "h = create_linehaul_dto.extend lh (linehaul.fields i (ctx_tenantId ctx)
          (''LNH-'' @ js_upper (take 8 i)) ''SCHEDULED'' 1 (pr_userId pr))"
    using assms(4) unfolding createLinehaul_def by (auto simp del: random_uuid_Inr)
  have "linehaul_slot h = ((ctx_tenantId ctx, i), lh_maxWeightGrams lh, lh_maxVolumeCubicCm lh)"
    unfolding h by (cases lh) (simp add: linehaul_slot_def create_linehaul_dto.defs linehaul.defs)
  moreover have eq: "capacity_of u = capacity_of s" by (rule capacity_before(2) [OF u])
  have "fst (linehaul_slot h) \<notin> fst ` set (map linehaul_slot (linehauls u))"
    using t by (auto simp: linehaul_slot_def same_linehaul_def)
  then have "fst (linehaul_slot h) \<notin> fst ` set (map linehaul_slot (linehauls s))"
    using eq by (simp only: capacity_of_def prod.inject not_False_eq_True)
  ultimately have "fits (map linehaul_slot (linehauls s) @ [linehaul_slot h]) (map allocation_use (linehaul_allocations s))"
    using assms(1-3) fits_slot by (simp add: roomy_def capacity_of_def)
  with assms(1) t eq show ?thesis by (simp add: roomy_def capacity_of_def)
qed

lemma allocation_fits:
  fixes s :: "'m international_db_scheme"
  assumes "capacity_kept s" and "allocateLinehaul ctx i lo s = (Inr a, t)"
  shows "capacity_kept t"
proof -
  obtain h k j and u :: "'m international_db_scheme" where
    h: "List.find (\<lambda>x. lh_id x = i \<and> lh_tenantId x = ctx_tenantId ctx) (linehauls s) = Some h" and
    check: "as_conflict (assertCapacity (lh_maxWeightGrams h) (lh_maxVolumeCubicCm h)
       (used fst (ctx_tenantId ctx, i) (map allocation_use (linehaul_allocations s)))
       (used snd (ctx_tenantId ctx, i) (map allocation_use (linehaul_allocations s)))
       (lo_allocatedWeightGrams lo) (or_default (lo_allocatedVolumeCubicCm lo) 0)) = Inr ()" and
    u: "random_uuid s = (Inr j, u)" and
    a: "a = \<lparr>la_id = j, la_tenantId = ctx_tenantId ctx, la_linehaulId = i, la_consolidationPlanId = k,
        la_allocatedWeightGrams = lo_allocatedWeightGrams lo,
        la_allocatedVolumeCubicCm = lo_allocatedVolumeCubicCm lo, la_status = ''BOOKED''\<rparr>" and
    t: "create_row linehaul_allocations linehaul_allocations_update same_linehaul_allocation a u = (Inr a, t)"
    using assms(2) unfolding allocateLinehaul_def used_by_allocations by (auto simp del: random_uuid_Inr)
  have slot: "((ctx_tenantId ctx, i), lh_maxWeightGrams h, lh_maxVolumeCubicCm h) \<in> set (map linehaul_slot (linehauls s))"
    using find_SomeD [OF h] by (force simp: linehaul_slot_def)
  have use: "allocation_use a = ((ctx_tenantId ctx, i), lo_allocatedWeightGrams lo, or_default (lo_allocatedVolumeCubicCm lo) 0)"
    by (simp add: a allocation_use_def)
  have "fits (map linehaul_slot (linehauls s)) (map allocation_use (linehaul_allocations s) @ [allocation_use a])"
    using assms(1) check unfolding use capacity_checked
    by (intro fits_use [OF _ slot]) (simp_all add: roomy_def capacity_of_def)
  with assms(1) t capacity_before(2) [OF u] show ?thesis by (simp add: roomy_def capacity_of_def)
qed

lemma content_fits:
  fixes s :: "'m international_db_scheme"
  assumes "capacity_kept s" and "addHandlingContent ctx i ac s = (Inr x, t)"
  shows "capacity_kept t"
proof -
  obtain c j and u :: "'m international_db_scheme" where
    c: "List.find (\<lambda>c. cg_id c = ac_cargoItemId ac \<and> cg_tenantId c = ctx_tenantId ctx) (cargo_items s) = Some c" and
    check: "used fst (ctx_tenantId ctx, cg_id c) (map content_use (handling_contents s)) + ac_packageCount ac \<le> cg_packageCount c"
      "used snd (ctx_tenantId ctx, cg_id c) (map content_use (handling_contents s)) + ac_weightGrams ac \<le> cg_weightGrams c" and
    u: "random_uuid s = (Inr j, u)" and
    x: "x = \<lparr>hc_id = j, hc_tenantId = ctx_tenantId ctx, hc_handlingUnitId = i, hc_cargoItemId = cg_id c,
        hc_packageCount = ac_packageCount ac, hc_weightGrams = ac_weightGrams ac,
        hc_volumeCubicCm = ac_volumeCubicCm ac\<rparr>" and
    t: "create_row handling_contents handling_contents_update same_content x u = (Inr x, t)"
    using assms(2) unfolding addHandlingContent_def used_by_contents require_row_def
    by (auto simp del: random_uuid_Inr)
  have slot: "((ctx_tenantId ctx, cg_id c), Some (cg_packageCount c), Some (cg_weightGrams c)) \<in> set (map cargo_slot (cargo_items s))"
    using find_SomeD [OF c] by (force simp: cargo_slot_def)
  have use: "content_use x = ((ctx_tenantId ctx, cg_id c), ac_packageCount ac, ac_weightGrams ac)"
    by (simp add: x content_use_def)
  have "fits (map cargo_slot (cargo_items s)) (map content_use (handling_contents s) @ [content_use x])"
    using assms(1) check unfolding use
    by (intro fits_use [OF _ slot]) (simp_all add: roomy_def capacity_of_def under_def)
  with assms(1) t capacity_before(2) [OF u] show ?thesis by (simp add: roomy_def capacity_of_def)
qed

lemma atomic_transit:
  "atomic (createConsolidationPlan ctx pr xp :: ('m international_db_scheme, _) prog)"
  "atomic (addConsolidationMember ctx i xm :: ('m international_db_scheme, _) prog)"
  "atomic (createLinehaul ctx pr lh :: ('m international_db_scheme, _) prog)"
  "atomic (allocateLinehaul ctx i lo :: ('m international_db_scheme, _) prog)"
  "atomic (addHandlingContent ctx i ac :: ('m international_db_scheme, _) prog)"
  unfolding createConsolidationPlan_def addConsolidationMember_def createLinehaul_def allocateLinehaul_def
    addHandlingContent_def transit_reads
  by (intro atomic_intros keeps_intros; simp)+

lemma always_capacity:
  "positive_limit (xp_maxWeightGrams xp) \<Longrightarrow> positive_limit (xp_maxVolumeCubicCm xp) \<Longrightarrow>
     always capacity_kept (createConsolidationPlan ctx pr xp)"
  "always capacity_kept (addConsolidationMember ctx i xm)"
  "positive_limit (lh_maxWeightGrams lh) \<Longrightarrow> positive_limit (lh_maxVolumeCubicCm lh) \<Longrightarrow>
     always capacity_kept (createLinehaul ctx pr lh)"
  "always capacity_kept (allocateLinehaul ctx i lo)"
  "always capacity_kept (addHandlingContent ctx i ac)"
  by (rule always_atomic [OF atomic_transit(1) capacity_kept_more plan_fits]
      always_atomic [OF atomic_transit(2) capacity_kept_more member_fits]
      always_atomic [OF atomic_transit(3) capacity_kept_more linehaul_fits]
      always_atomic [OF atomic_transit(4) capacity_kept_more allocation_fits]
      always_atomic [OF atomic_transit(5) capacity_kept_more content_fits]; assumption)+

lemma capacity_unchanged: "keeps capacity_of m \<Longrightarrow> always capacity_kept m"
  by (rule always_keeps)

lemmas capacity_promises = keeps_capacity [THEN capacity_unchanged, THEN alwaysD]
  keeps_capacity_transition [THEN capacity_unchanged, THEN alwaysD] always_capacity [THEN alwaysD]

lemma transit_step_capacity: "transit_step s t \<Longrightarrow> capacity_kept s \<Longrightarrow> capacity_kept t"
  by (induction rule: transit_step.induct) (blast intro: capacity_promises)+

lemma transit_run_capacity: "transit_step\<^sup>*\<^sup>* s t \<Longrightarrow> capacity_kept s \<Longrightarrow> capacity_kept t"
  by (induction rule: rtranclp_induct) (auto intro: transit_step_capacity)

section \<open>Sea containers\<close>

text \<open>Plans with their mode and status, loads, units with their type and verified gross mass.\<close>

type_synonym sea_view =
  "(uuid \<times> string \<times> string) list \<times> (uuid \<times> uuid) list \<times> (uuid \<times> string \<times> int) list"

definition sea_plan :: "consolidation_plan \<Rightarrow> uuid \<times> string \<times> string" where
  "sea_plan p = (xp_id p, xp_mode p, xp_status p)"

definition sea_load :: "consolidation_load \<Rightarrow> uuid \<times> uuid" where
  "sea_load l = (xo_planId l, xo_handlingUnitId l)"

definition sea_unit :: "handling_unit \<Rightarrow> uuid \<times> string \<times> int" where
  "sea_unit u = (hu_id u, hu_type u, or_default (hu_verifiedGrossMassGrams u) 0)"

definition sea_of :: "'m international_db_scheme \<Rightarrow> sea_view" where
  "sea_of s = (map sea_plan (consolidation_plans s), map sea_load (consolidation_loads s),
     map sea_unit (handling_units s))"

definition loaded_states :: "string set" where
  "loaded_states = {''LOADED'', ''DEPARTED'', ''EXCEPTION'', ''ARRIVED'', ''DECONSOLIDATED'', ''COMPLETED''}"

definition sea_ready :: "(uuid \<times> uuid) list \<Rightarrow> (uuid \<times> string \<times> int) list \<Rightarrow> uuid \<times> string \<times> string \<Rightarrow> bool" where
  "sea_ready ls us p \<longleftrightarrow> (case p of (i, mode, status) \<Rightarrow> mode = ''SEA'' \<longrightarrow> status \<in> loaded_states \<longrightarrow>
     (\<exists>u. (i, u) \<in> set ls) \<and> (\<forall>u g. (i, u) \<in> set ls \<longrightarrow> (u, ''CONTAINER'', g) \<in> set us \<longrightarrow> g \<noteq> 0))"

definition weighed :: "sea_view \<Rightarrow> bool" where
  "weighed v \<longleftrightarrow> (case v of (ps, ls, us) \<Rightarrow> distinct (map fst ps) \<and> snd ` set ls \<subseteq> fst ` set us
     \<and> (\<forall>p\<in>set ps. sea_ready ls us p))"

abbreviation sea_safe :: "'m international_db_scheme \<Rightarrow> bool" where
  "sea_safe s \<equiv> weighed (sea_of s)"

lemma sea_more: "runtime.more t = runtime.more s \<Longrightarrow> sea_of t = sea_of s"
  for s t :: "'m international_db_scheme"
  by (cases s; cases t) (simp add: sea_of_def)

lemma sea_safe_more: "runtime.more t = runtime.more s \<Longrightarrow> sea_safe s \<Longrightarrow> sea_safe t"
  for s t :: "'m international_db_scheme"
  using sea_more [of t s] by simp

lemma sea_ready_mono:
  assumes "sea_ready ls us p"
    and "\<And>u g. (fst p, u) \<in> set ls \<Longrightarrow> (u, ''CONTAINER'', g) \<in> set vs \<Longrightarrow> (u, ''CONTAINER'', g) \<in> set us \<or> g \<noteq> 0"
  shows "sea_ready ls vs p"
proof (cases p)
  case (fields i mode status)
  with assms show ?thesis unfolding sea_ready_def fields prod.case fst_conv by blast
qed

lemma weighed_unit:
  assumes "weighed (ps, ls, us)" and "fst u \<notin> fst ` set us" shows "weighed (ps, ls, us @ [u])"
proof -
  have ls: "snd ` set ls \<subseteq> fst ` set us" and ps: "\<forall>p\<in>set ps. sea_ready ls us p"
    using assms(1) by (simp_all add: weighed_def)
  have "sea_ready ls (us @ [u]) p" if "p \<in> set ps" for p
  proof (rule sea_ready_mono)
    show "sea_ready ls us p" using ps that by simp
    fix v g assume v: "(fst p, v) \<in> set ls" "(v, ''CONTAINER'', g) \<in> set (us @ [u])"
    from v(1) ls have "v \<in> fst ` set us" by force
    with assms(2) have "fst u \<noteq> v" by blast
    with v(2) show "(v, ''CONTAINER'', g) \<in> set us \<or> g \<noteq> 0" by auto
  qed
  with assms(1) ls show ?thesis by (auto simp: weighed_def)
qed

lemma weighed_verified:
  assumes "weighed (ps, ls, us)" and "map fst vs = map fst us"
    and "\<And>i k g. (i, k, g) \<in> set vs \<Longrightarrow> (i, k, g) \<in> set us \<or> g \<noteq> 0"
  shows "weighed (ps, ls, vs)"
proof -
  have "fst ` set vs = fst ` set us" using assms(2) by (metis list.set_map)
  moreover have "sea_ready ls vs p" if "sea_ready ls us p" for p
    using that by (rule sea_ready_mono) (rule assms(3))
  ultimately show ?thesis using assms(1) by (simp add: weighed_def)
qed

lemma weighed_plans:
  assumes "weighed (ps, ls, us)" and "distinct (map fst qs)"
    and "\<And>p. p \<in> set qs \<Longrightarrow> p \<in> set ps \<or> sea_ready ls us p"
  shows "weighed (qs, ls, us)"
proof -
  have "sea_ready ls us p" if "p \<in> set qs" for p using assms(3) [OF that] assms(1) by (auto simp: weighed_def)
  with assms(1,2) show ?thesis by (simp add: weighed_def)
qed

lemma weighed_load:
  assumes "weighed (ps, ls, us)" and "(i, mode, status) \<in> set ps" and "status \<notin> loaded_states" and "u \<in> fst ` set us"
  shows "weighed (ps, ls @ [(i, u)], us)"
proof -
  have ps: "distinct (map fst ps)" "\<forall>p\<in>set ps. sea_ready ls us p" using assms(1) by (simp_all add: weighed_def)
  have "sea_ready (ls @ [(i, u)]) us (j, m, st)" if "(j, m, st) \<in> set ps" for j m st
  proof (cases "j = i")
    case True
    with eq_key_imp_eq_value [OF ps(1) _ assms(2), of "(m, st)"] that have "st = status" by simp
    then show ?thesis using assms(3) by (simp add: sea_ready_def)
  next
    case False
    moreover have "sea_ready ls us (j, m, st)" using ps(2) that by simp
    ultimately show ?thesis by (simp add: sea_ready_def)
  qed
  with assms(1,4) show ?thesis by (simp add: weighed_def) auto
qed

lemma keeps_sea:
  "keeps sea_of (createLocation ctx pr xl)"
  "keeps sea_of (createParty ctx pr yp)"
  "keeps sea_of (createConsignment ctx pr xc)"
  "keeps sea_of (createDocument ctx pr i xd)"
  "keeps sea_of (transitionDocument ctx pr i status)"
  "keeps sea_of (createCustomsFiling ctx pr i xf)"
  "keeps sea_of (transitionCustomsFiling ctx pr i xt)"
  "keeps sea_of (createHub ctx pr xh)"
  "keeps sea_of (addHandlingContent ctx i ac)"
  "keeps sea_of (createLinehaul ctx pr lh)"
  "keeps sea_of (allocateLinehaul ctx i lo)"
  unfolding createLocation_def createParty_def createConsignment_def createDocument_def transitionDocument_def
    createCustomsFiling_def transitionCustomsFiling_def createHub_def addHandlingContent_def createLinehaul_def
    allocateLinehaul_def transit_reads freight_audit_def freight_outbox_def Let_def
  by (intro keeps_intros; (erule sea_more | simp add: sea_of_def))+

lemma sea_quiet:
  "keeps sea_of (now :: ('m international_db_scheme, instant) prog)"
  "keeps sea_of (random_uuid :: ('m international_db_scheme, uuid) prog)"
  "keeps sea_of (freight_audit ctx pr a b i)"
  "keeps sea_of (freight_outbox ctx b i j)"
  "keeps sea_of (create_row handling_events handling_events_update same_handling_event he)"
  "keeps sea_of (create_row consolidation_members consolidation_members_update same_member xm)"
  "keeps sea_of (set_members ctx i f)"
  unfolding freight_audit_def freight_outbox_def set_members_def by (intro keeps_intros; simp add: sea_of_def)+

lemmas sea_before = sea_quiet [THEN keepsD]

lemma sea_unit_at_hub:
  "sea_unit (u\<lparr>hu_currentHubId := h, hu_status := st, hu_version := v\<rparr>) = sea_unit u"
  by (simp add: sea_unit_def)

lemma keeps_sea_writes:
  "keeps sea_of (update_row handling_units handling_units_update P
     (\<lambda>x. x\<lparr>hu_currentHubId := Some h, hu_status := or_default (map_of STATUS_BY_EVENT k) (hu_status x),
            hu_version := hu_version x + 1\<rparr>))"
  "keeps sea_of (set_loads ctx i (\<lambda>x. x\<lparr>xo_status := st, xo_loadedAt := m\<rparr>))"
  "keeps sea_of (set_loads ctx i (\<lambda>x. x\<lparr>xo_status := st, xo_unloadedAt := m\<rparr>))"
  unfolding set_loads_def
  by (rule keeps_update_rowI, simp add: sea_of_def map_update_first sea_unit_at_hub)
     (rule keeps_seq, rule keeps_update_manyI, simp add: sea_of_def map_update_where sea_load_def, rule keeps_ret)+

lemma keeps_sea_event: "keeps sea_of (recordHandlingEvent ctx pr i he)"
  unfolding recordHandlingEvent_def transit_reads
  by (intro keeps_seq keeps_sea_writes keeps_transaction keeps_option sea_quiet keeps_find_row keeps_require keeps_ret sea_more)

lemma plan_sea:
  fixes s :: "'m international_db_scheme"
  assumes "sea_safe s" and "createConsolidationPlan ctx pr xp s = (Inr p, t)"
  shows "sea_safe t"
proof -
  obtain i and u v :: "'m international_db_scheme" where u: "random_uuid s = (Inr i, u)" and
    v: "create_row consolidation_plans consolidation_plans_update same_plan p u = (Inr p, v)" and
    p: "p = create_plan_dto.extend xp (consolidation_plan.fields i (ctx_tenantId ctx)
          (''CNS-'' @ js_upper (take 8 i)) ''DRAFT'' 1 (pr_userId pr) None None None None None)" and
    t: "freight_audit ctx pr ''consolidation.plan.created'' ''ConsolidationPlan'' i v = (Inr (), t)"
    using assms(2) unfolding createConsolidationPlan_def by (auto simp del: random_uuid_Inr)
  have "xp_status p = ''DRAFT''"
    unfolding p by (cases xp) (simp add: create_plan_dto.defs consolidation_plan.defs)
  then have new: "sea_ready ls us (sea_plan p)" for ls us by (simp add: sea_ready_def sea_plan_def loaded_states_def)
  have "xp_id p \<notin> xp_id ` set (consolidation_plans u)" using v by (auto simp: same_plan_def)
  moreover have safe: "weighed (sea_of u)" using assms(1) sea_before(2) [OF u] by simp
  ultimately have "weighed (map sea_plan (consolidation_plans v), map sea_load (consolidation_loads u),
      map sea_unit (handling_units u))"
    using v by (intro weighed_plans [OF safe [unfolded sea_of_def]])
      (auto simp: weighed_def sea_of_def sea_plan_def new [unfolded sea_plan_def] comp_def)
  with v sea_before(3) [OF t] show ?thesis by (auto simp: sea_of_def)
qed

lemma distinct_plans: "sea_safe s \<Longrightarrow> distinct (map xp_id (consolidation_plans s))"
  by (simp add: weighed_def sea_of_def sea_plan_def comp_def)

lemma sea_plans_changed:
  fixes s :: "'m international_db_scheme"
  assumes "sea_safe s" and "map xp_id qs = map xp_id (consolidation_plans s)"
    and "\<And>p. p \<in> set qs \<Longrightarrow> p \<in> set (consolidation_plans s)
      \<or> sea_ready (map sea_load (consolidation_loads s)) (map sea_unit (handling_units s)) (sea_plan p)"
  shows "weighed (map sea_plan qs, map sea_load (consolidation_loads s), map sea_unit (handling_units s))"
proof (rule weighed_plans)
  show "weighed (map sea_plan (consolidation_plans s), map sea_load (consolidation_loads s), map sea_unit (handling_units s))"
    using assms(1) by (simp add: sea_of_def)
  show "distinct (map fst (map sea_plan qs))"
    using distinct_plans [OF assms(1)] assms(2) by (simp add: comp_def sea_plan_def)
  fix v assume "v \<in> set (map sea_plan qs)"
  then obtain p where p: "p \<in> set qs" "v = sea_plan p" by auto
  from assms(3) [OF p(1)] show "v \<in> set (map sea_plan (consolidation_plans s))
      \<or> sea_ready (map sea_load (consolidation_loads s)) (map sea_unit (handling_units s)) v"
    unfolding p(2) by auto
qed

lemma in_set_update_first: "x \<in> set (update_first P f xs) \<Longrightarrow> x \<in> set xs \<or> (\<exists>y\<in>set xs. x = f y)"
  using set_update_first [of P f xs] by auto

lemma plan_opened:
  fixes s :: "'m international_db_scheme"
  assumes "sea_safe s"
  shows "sea_safe (consolidation_plans_update (update_first P (\<lambda>x. x\<lparr>xp_status := ''OPEN'', xp_version := xp_version x + 1\<rparr>)) s)"
proof -
  have "sea_ready ls us (sea_plan (x\<lparr>xp_status := ''OPEN'', xp_version := n\<rparr>))" for ls us x n
    by (simp add: sea_ready_def sea_plan_def loaded_states_def)
  then have "weighed (map sea_plan (update_first P (\<lambda>x. x\<lparr>xp_status := ''OPEN'', xp_version := xp_version x + 1\<rparr>)
      (consolidation_plans s)), map sea_load (consolidation_loads s), map sea_unit (handling_units s))"
    by (intro sea_plans_changed [OF assms]) (auto simp: map_update_first dest!: in_set_update_first)
  then show ?thesis by (simp add: sea_of_def)
qed

lemma unit_sea:
  fixes s :: "'m international_db_scheme"
  assumes "sea_safe s" and "createHandlingUnit ctx pr hu s = (Inr x, t)"
  shows "sea_safe t"
proof -
  obtain i and u v :: "'m international_db_scheme" where u: "random_uuid s = (Inr i, u)" and
    v: "create_row handling_units handling_units_update same_unit x u = (Inr x, v)" and
    t: "freight_audit ctx pr ''handling.unit.created'' ''HandlingUnit'' i v = (Inr (), t)"
    using assms(2) unfolding createHandlingUnit_def require_optional_def requireHub_def require_row_def
    by (auto simp del: random_uuid_Inr split: option.splits)
  have "fst (sea_unit x) \<notin> fst ` set (map sea_unit (handling_units u))"
    using v by (auto simp: same_unit_def sea_unit_def)
  moreover have "weighed (sea_of u)" using assms(1) sea_before(2) [OF u] by simp
  ultimately show ?thesis using v sea_before(3) [OF t] weighed_unit by (simp add: sea_of_def)
qed

lemma verified_sea:
  fixes s :: "'m international_db_scheme"
  assumes "sea_safe s" and "g \<ge> 1" and "verifyHandlingUnitVgm ctx pr i g k s = (Inr x, t)"
  shows "sea_safe t"
proof -
  obtain c and u :: "'m international_db_scheme" where u: "now s = (Inr c, u)" and
    t: "t = handling_units_update (update_first (\<lambda>x. hu_id x = i)
       (\<lambda>x. x\<lparr>hu_verifiedGrossMassGrams := Some g, hu_vgmMethod := Some k, hu_vgmVerifiedBy := Some (pr_userId pr),
              hu_vgmVerifiedAt := Some c, hu_version := hu_version x + 1\<rparr>)) u"
    using assms(3) unfolding verifyHandlingUnitVgm_def by (auto simp del: now_Inr)
  let ?f = "\<lambda>x. x\<lparr>hu_verifiedGrossMassGrams := Some g, hu_vgmMethod := Some k, hu_vgmVerifiedBy := Some (pr_userId pr),
              hu_vgmVerifiedAt := Some c, hu_version := hu_version x + 1\<rparr>"
  let ?us = "update_first (\<lambda>x. hu_id x = i) ?f (handling_units u)"
  have "weighed (map sea_plan (consolidation_plans u), map sea_load (consolidation_loads u), map sea_unit ?us)"
  proof (rule weighed_verified)
    show "weighed (map sea_plan (consolidation_plans u), map sea_load (consolidation_loads u), map sea_unit (handling_units u))"
      using assms(1) sea_before(1) [OF u] by (simp add: sea_of_def)
    show "map fst (map sea_unit ?us) = map fst (map sea_unit (handling_units u))"
      by (simp add: comp_def sea_unit_def map_update_first)
    fix j k' h assume "(j, k', h) \<in> set (map sea_unit ?us)"
    then obtain y where y: "y \<in> set ?us" "(j, k', h) = sea_unit y" by auto
    from in_set_update_first [OF y(1)] y(2) assms(2) show "(j, k', h) \<in> set (map sea_unit (handling_units u)) \<or> h \<noteq> 0"
      by (elim disjE bexE) (simp, simp add: sea_unit_def or_default_def)
  qed
  then show ?thesis by (simp add: sea_of_def t)
qed

lemma load_sea:
  fixes s :: "'m international_db_scheme"
  assumes "sea_safe s" and "addConsolidationLoad ctx i j n place s = (Inr l, t)"
  shows "sea_safe t"
proof -
  obtain p x k and u :: "'m international_db_scheme" where
    p: "List.find (\<lambda>x. xp_id x = i \<and> xp_tenantId x = ctx_tenantId ctx) (consolidation_plans s) = Some p"
      "xp_status p \<in> {''OPEN'', ''CLOSED''}" and
    x: "List.find (\<lambda>x. hu_id x = j \<and> hu_tenantId x = ctx_tenantId ctx) (handling_units s) = Some x" and
    u: "random_uuid s = (Inr k, u)" and
    t: "t = consolidation_loads_update (\<lambda>rs. rs @ [l]) u" "xo_planId l = i" "xo_handlingUnitId l = hu_id x"
    using assms(2) unfolding addConsolidationLoad_def by (auto simp del: random_uuid_Inr)
  have "(i, xp_mode p, xp_status p) \<in> set (map sea_plan (consolidation_plans s))"
    using find_SomeD [OF p(1)] by (force simp: sea_plan_def)
  moreover have "xp_status p \<notin> loaded_states" using p(2) by (auto simp: loaded_states_def)
  moreover have "hu_id x \<in> fst ` set (map sea_unit (handling_units s))"
    using find_SomeD [OF x] by (force simp: sea_unit_def)
  ultimately have "weighed (map sea_plan (consolidation_plans s), map sea_load (consolidation_loads s) @ [(i, hu_id x)],
      map sea_unit (handling_units s))"
    using assms(1) by (intro weighed_load) (simp_all add: sea_of_def)
  with t sea_before(2) [OF u] show ?thesis by (simp add: sea_of_def sea_load_def)
qed

lemma loaded_before: "workflow_step CONSOLIDATION a b \<Longrightarrow> b \<in> loaded_states \<Longrightarrow> b \<noteq> ''LOADED'' \<Longrightarrow> a \<in> loaded_states"
  by (auto simp: workflow_step_def assertTransition_def CONSOLIDATION_TRANSITIONS_def loaded_states_def
      split: option.splits if_splits)

lemma plan_moved:
  fixes s :: "'m international_db_scheme"
  assumes "transitionConsolidation ctx pr i wt s = (Inr x, t)"
  obtains p m and u :: "'m international_db_scheme" where
    "List.find (\<lambda>x. xp_id x = i \<and> xp_tenantId x = ctx_tenantId ctx) (consolidation_plans s) = Some p"
    "workflow_step CONSOLIDATION (xp_status p) (wt_status wt)"
    "wt_status wt = ''LOADED'' \<Longrightarrow> loads_of s i \<noteq> []"
    "wt_status wt = ''LOADED'' \<Longrightarrow> xp_mode p = ''SEA'' \<Longrightarrow> \<not> list_ex (lacks_vgm s) (loads_of s i)"
    "sea_of u = sea_of s" "consolidation_plans u = consolidation_plans s"
    "sea_of t = sea_of (consolidation_plans_update (update_where
       (\<lambda>x. xp_id x = i \<and> xp_tenantId x = ctx_tenantId ctx \<and> xp_version x = wt_version wt)
       (move_plan (wt_status wt) m)) u)"
proof -
  obtain p m and u :: "'m international_db_scheme" where
    p: "List.find (\<lambda>x. xp_id x = i \<and> xp_tenantId x = ctx_tenantId ctx) (consolidation_plans s) = Some p" and
    ok: "as_conflict (assertTransition CONSOLIDATION (xp_status p) (wt_status wt)) = Inr ()" and
    checks: "wt_status wt = ''LOADED'' \<Longrightarrow> loads_of s i \<noteq> []"
      "wt_status wt = ''LOADED'' \<Longrightarrow> xp_mode p = ''SEA'' \<Longrightarrow> \<not> list_ex (lacks_vgm s) (loads_of s i)" and
    u: "now s = (Inr m, u)" and
    tx: "transition_consolidation_tx ctx pr i wt m u = (Inr x, t)"
    using assms unfolding transitionConsolidation_def by (auto simp del: now_Inr)
  let ?v = "consolidation_plans_update (update_where
       (\<lambda>x. xp_id x = i \<and> xp_tenantId x = ctx_tenantId ctx \<and> xp_version x = wt_version wt)
       (move_plan (wt_status wt) m)) u"
  let ?rest = "seq (when_do (wt_status wt = ''LOADED'')
            (set_loads ctx i (\<lambda>x. x\<lparr>xo_status := ''LOADED'', xo_loadedAt := Some m\<rparr>))) (\<lambda>_.
     seq (when_do (wt_status wt = ''DECONSOLIDATED'')
            (seq (set_loads ctx i (\<lambda>x. x\<lparr>xo_status := ''UNLOADED'', xo_unloadedAt := Some m\<rparr>)) (\<lambda>_.
             set_members ctx i (\<lambda>x. x\<lparr>xm_status := ''UNLOADED'', xm_unloadedAt := Some m\<rparr>)))) (\<lambda>_.
     seq (freight_audit ctx pr (''consolidation.plan.'' @ map lower_char (wt_status wt)) ''ConsolidationPlan'' i) (\<lambda>_.
     seq (freight_outbox ctx (''consolidation.plan.'' @ map lower_char (wt_status wt) @ ''.v1'') i
            (JObj [(''planId'', JStr i)])) (\<lambda>_.
     find_row consolidation_plans (\<lambda>x. xp_id x = i)))))"
  have "keeps sea_of ?rest"
    by (intro keeps_seq keeps_when_do keeps_sea_writes sea_quiet keeps_find_row)
  moreover have "?rest ?v = (Inr x, t)"
    using tx unfolding transition_consolidation_tx_def seq_Inr [of "update_many _ _ _ _"] seq_Inr [of "ensure _ _"] by auto
  ultimately have t: "sea_of t = sea_of ?v" by (rule keepsD)
  have step: "workflow_step CONSOLIDATION (xp_status p) (wt_status wt)"
    using ok by (auto simp: as_conflict_def workflow_step_def split: sum.splits app_error.splits)
  have plans: "consolidation_plans u = consolidation_plans s" using u by auto
  show thesis by (rule that [OF p step checks sea_before(1) [OF u] plans t])
qed

lemma moved_sea:
  fixes s :: "'m international_db_scheme"
  assumes safe: "sea_safe s" and "transitionConsolidation ctx pr i wt s = (Inr x, t)"
  shows "sea_safe t"
proof -
  from plan_moved [OF assms(2)] obtain p m and u :: "'m international_db_scheme" where
    p: "List.find (\<lambda>x. xp_id x = i \<and> xp_tenantId x = ctx_tenantId ctx) (consolidation_plans s) = Some p" and
    step: "workflow_step CONSOLIDATION (xp_status p) (wt_status wt)" and
    checks: "wt_status wt = ''LOADED'' \<Longrightarrow> loads_of s i \<noteq> []"
      "wt_status wt = ''LOADED'' \<Longrightarrow> xp_mode p = ''SEA'' \<Longrightarrow> \<not> list_ex (lacks_vgm s) (loads_of s i)" and
    u: "sea_of u = sea_of s" "consolidation_plans u = consolidation_plans s" and
    t: "sea_of t = sea_of (consolidation_plans_update (update_where
       (\<lambda>x. xp_id x = i \<and> xp_tenantId x = ctx_tenantId ctx \<and> xp_version x = wt_version wt)
       (move_plan (wt_status wt) m)) u)" by blast
  let ?move = "move_plan (wt_status wt) m" and ?ls = "map sea_load (consolidation_loads s)"
    and ?us = "map sea_unit (handling_units s)"
  note p = find_SomeD [OF p]
  have moved: "sea_ready ?ls ?us (sea_plan (?move p))"
  proof (cases "wt_status wt = ''LOADED''")
    case True
    obtain l where l: "l \<in> set (loads_of s i)" using checks(1) [OF True] by (meson list.set_sel(1))
    then have "(i, xo_handlingUnitId l) \<in> set ?ls" by (force simp: loads_of_def sea_load_def)
    moreover have "g \<noteq> 0" if sea: "xp_mode p = ''SEA''" and "(i, j) \<in> set ?ls" "(j, ''CONTAINER'', g) \<in> set ?us" for j g
    proof -
      from that obtain k y where k: "k \<in> set (consolidation_loads s)" "(i, j) = sea_load k"
        and y: "y \<in> set (handling_units s)" "(j, ''CONTAINER'', g) = sea_unit y" by auto
      have "k \<in> set (loads_of s i)" using k by (auto simp: loads_of_def sea_load_def)
      with checks(2) [OF True sea] have "\<not> lacks_vgm s k" by (auto simp: list_ex_iff)
      with k y show ?thesis by (auto simp: lacks_vgm_def list_ex_iff sea_load_def sea_unit_def)
    qed
    ultimately show ?thesis using p by (auto simp: sea_ready_def sea_plan_def move_plan_def)
  next
    case False
    have "sea_ready ?ls ?us (sea_plan p)" using safe p by (simp add: weighed_def sea_of_def)
    then show ?thesis using loaded_before [OF step _ False] by (auto simp: sea_ready_def sea_plan_def move_plan_def)
  qed
  let ?P = "\<lambda>x. xp_id x = i \<and> xp_tenantId x = ctx_tenantId ctx \<and> xp_version x = wt_version wt"
  have "weighed (map sea_plan (update_where ?P ?move (consolidation_plans s)), ?ls, ?us)"
  proof (rule sea_plans_changed [OF safe])
    show "map xp_id (update_where ?P ?move (consolidation_plans s)) = map xp_id (consolidation_plans s)"
      by (rule map_update_where) (simp add: move_plan_def)
    fix q assume "q \<in> set (update_where ?P ?move (consolidation_plans s))"
    then obtain y where y: "y \<in> set (consolidation_plans s)" "q = (if ?P y then ?move y else y)"
      by (auto simp: update_where_def)
    have "y = p" if "xp_id y = i"
      using distinct_mapD [OF distinct_plans [OF safe] y(1)] p that by simp
    then show "q \<in> set (consolidation_plans s) \<or> sea_ready ?ls ?us (sea_plan q)"
      using y moved by (cases "?P y") simp_all
  qed
  with t u show ?thesis by (simp add: sea_of_def)
qed

lemma atomic_sea:
  "atomic (addConsolidationLoad ctx i j n place :: ('m international_db_scheme, _) prog)"
  "atomic (transitionConsolidation ctx pr i wt :: ('m international_db_scheme, _) prog)"
  "atomic (createHandlingUnit ctx pr hu :: ('m international_db_scheme, _) prog)"
  "atomic (verifyHandlingUnitVgm ctx pr i g k :: ('m international_db_scheme, _) prog)"
  unfolding addConsolidationLoad_def transitionConsolidation_def createHandlingUnit_def verifyHandlingUnitVgm_def
    transit_reads
  by (intro atomic_intros keeps_intros; simp)+

lemma always_opened: "always sea_safe (update_row consolidation_plans consolidation_plans_update P
    (\<lambda>x. x\<lparr>xp_status := ''OPEN'', xp_version := xp_version x + 1\<rparr>))"
  by (rule alwaysI) (auto simp: update_row_def plan_opened split: option.splits)

lemma sea_transaction: "always sea_safe m \<Longrightarrow> always sea_safe (transaction m)"
  by (rule always_transactionI) (auto intro: sea_safe_more dest: alwaysD)

lemma always_member: "always sea_safe (addConsolidationMember ctx i xm)"
  unfolding addConsolidationMember_def transit_reads
  by (intro always_seq always_option always_when_do always_ensure always_require always_lift_result always_ret
      sea_transaction always_opened sea_quiet [THEN always_keeps] keeps_find_row [THEN always_keeps]
      keeps_find_rows [THEN always_keeps])

lemma always_sea:
  "always sea_safe (createConsolidationPlan ctx pr xp)"
  "always sea_safe (addConsolidationLoad ctx i j n place)"
  "always sea_safe (transitionConsolidation ctx pr i wt)"
  "always sea_safe (createHandlingUnit ctx pr hu)"
  "g \<ge> 1 \<Longrightarrow> always sea_safe (verifyHandlingUnitVgm ctx pr i g k)"
  by (rule always_atomic [OF atomic_transit(1) sea_safe_more plan_sea]
      always_atomic [OF atomic_sea(1) sea_safe_more load_sea]
      always_atomic [OF atomic_sea(2) sea_safe_more moved_sea]
      always_atomic [OF atomic_sea(3) sea_safe_more unit_sea]
      always_atomic [OF atomic_sea(4) sea_safe_more verified_sea]; assumption)+

lemma sea_unchanged: "keeps sea_of m \<Longrightarrow> always sea_safe m"
  by (rule always_keeps)

lemmas sea_promises = keeps_sea [THEN sea_unchanged, THEN alwaysD] keeps_sea_event [THEN sea_unchanged, THEN alwaysD]
  always_member [THEN alwaysD] always_sea [THEN alwaysD]

lemma transit_step_sea: "transit_step s t \<Longrightarrow> sea_safe s \<Longrightarrow> sea_safe t"
  by (induction rule: transit_step.induct) (blast intro: sea_promises)+

lemma transit_run_sea: "transit_step\<^sup>*\<^sup>* s t \<Longrightarrow> sea_safe s \<Longrightarrow> sea_safe t"
  by (induction rule: rtranclp_induct) (auto intro: transit_step_sea)

section \<open>Documents\<close>

definition document_rank :: "string \<Rightarrow> nat" where
  "document_rank status = or_default (map_of [(''DRAFT'', 4), (''ISSUED'', 3), (''SIGNED'', 2), (''SURRENDERED'', 1)] status) 0"

text \<open>How often the document can still change; one that is not there yet counts as a draft.\<close>

definition changes_left :: "uuid \<Rightarrow> transport_document list \<Rightarrow> nat" where
  "changes_left i ds = (case List.find (\<lambda>d. xd_id d = i) ds of None \<Rightarrow> 4 | Some d \<Rightarrow> document_rank (xd_status d))"

definition documents_left :: "uuid \<Rightarrow> nat \<Rightarrow> transport_document list \<Rightarrow> bool" where
  "documents_left i k ds \<longleftrightarrow> distinct (map xd_id ds) \<and> changes_left i ds \<le> k"

lemma document_rank_falls: "permits DOCUMENT_TRANSITIONS a b \<Longrightarrow> document_rank b < document_rank a"
proof -
  assume "permits DOCUMENT_TRANSITIONS a b"
  then obtain nexts where "(a, nexts) \<in> set DOCUMENT_TRANSITIONS" "b \<in> set nexts"
    by (auto simp: permits_def split: option.splits dest: map_of_SomeD)
  moreover have "\<forall>(a, nexts)\<in>set DOCUMENT_TRANSITIONS. \<forall>b\<in>set nexts. document_rank b < document_rank a"
    by code_simp
  ultimately show ?thesis by blast
qed

lemma document_rank_le: "document_rank x \<le> 4"
  by (simp add: document_rank_def or_default_def)

lemma keeps_document_rows:
  "keeps transport_documents (createLocation ctx pr xl)"
  "keeps transport_documents (createParty ctx pr yp)"
  "keeps transport_documents (createConsignment ctx pr xc)"
  "keeps transport_documents (createCustomsFiling ctx pr i xf)"
  "keeps transport_documents (transitionCustomsFiling ctx pr i xt)"
  "keeps transport_documents (createHub ctx pr xh)"
  "keeps transport_documents (createHandlingUnit ctx pr hu)"
  "keeps transport_documents (verifyHandlingUnitVgm ctx pr i g k)"
  "keeps transport_documents (addHandlingContent ctx i ac)"
  "keeps transport_documents (recordHandlingEvent ctx pr i he)"
  "keeps transport_documents (createConsolidationPlan ctx pr xp)"
  "keeps transport_documents (addConsolidationMember ctx i xm)"
  "keeps transport_documents (addConsolidationLoad ctx i j n place)"
  "keeps transport_documents (transitionConsolidation ctx pr i wt)"
  "keeps transport_documents (createLinehaul ctx pr lh)"
  "keeps transport_documents (allocateLinehaul ctx i lo)"
  unfolding createLocation_def createParty_def createConsignment_def createCustomsFiling_def
    transitionCustomsFiling_def createHub_def createHandlingUnit_def verifyHandlingUnitVgm_def addHandlingContent_def
    recordHandlingEvent_def createConsolidationPlan_def addConsolidationMember_def addConsolidationLoad_def
    transitionConsolidation_def transition_consolidation_tx_def createLinehaul_def allocateLinehaul_def
    set_loads_def set_members_def transit_reads freight_audit_def freight_outbox_def Let_def
  by (intro keeps_intros; (erule international_more | simp))+

lemma document_moved:
  fixes s :: "'m international_db_scheme"
  assumes "transitionDocument ctx pr i status s = (Inr d, t)"
  obtains e m where "List.find (\<lambda>x. xd_id x = i \<and> xd_tenantId x = ctx_tenantId ctx) (transport_documents s) = Some e"
    "permits DOCUMENT_TRANSITIONS (xd_status e) status"
    "transport_documents t = update_first (\<lambda>x. xd_id x = i) (move_document pr status m) (transport_documents s)"
proof -
  obtain e m and u v :: "'m international_db_scheme" where
    e: "List.find (\<lambda>x. xd_id x = i \<and> xd_tenantId x = ctx_tenantId ctx) (transport_documents s) = Some e"
      "permits DOCUMENT_TRANSITIONS (xd_status e) status" and
    u: "now s = (Inr m, u)" and
    v: "v = transport_documents_update (update_first (\<lambda>x. xd_id x = i) (move_document pr status m)) u" and
    t: "freight_audit ctx pr (''transport.document.'' @ map lower_char status) ''TransportDocument'' i v = (Inr (), t)"
    using assms unfolding transitionDocument_def by (auto simp del: now_Inr)
  have "keeps transport_documents (freight_audit ctx pr a b j :: ('m international_db_scheme, _) prog)" for a b j
    unfolding freight_audit_def by (intro keeps_intros) simp_all
  from keepsD [OF this t] v u have
    "transport_documents t = update_first (\<lambda>x. xd_id x = i) (move_document pr status m) (transport_documents s)" by auto
  with e show thesis by (rule that)
qed

lemma changes_fall:
  assumes "distinct (map xd_id ds)" and "List.find (\<lambda>x. xd_id x = i \<and> Q x) ds = Some e"
    and "permits DOCUMENT_TRANSITIONS (xd_status e) status"
  shows "changes_left i (update_first (\<lambda>x. xd_id x = i) (move_document pr status m) ds) < changes_left i ds"
proof -
  have e: "e \<in> set ds" "xd_id e = i" using find_SomeD [OF assms(2)] by auto
  from distinct_found [OF assms(1) e(1)] e(2) have "List.find (\<lambda>x. xd_id x = i) ds = Some e" by simp
  moreover from this e(2) have "List.find (\<lambda>x. xd_id x = i) (update_first (\<lambda>x. xd_id x = i) (move_document pr status m) ds)
      = Some (move_document pr status m e)" by (intro find_update_first) (simp_all add: move_document_def)
  ultimately show ?thesis using document_rank_falls [OF assms(3)] by (simp add: changes_left_def move_document_def)
qed

lemma document_moved_left:
  fixes s :: "'m international_db_scheme"
  assumes "documents_left i k (transport_documents s)" and "transitionDocument ctx pr j status s = (Inr d, t)"
  shows "documents_left i k (transport_documents t) \<and> (j = i \<longrightarrow> changes_left i (transport_documents t) < k)"
proof -
  obtain e m where e: "List.find (\<lambda>x. xd_id x = j \<and> xd_tenantId x = ctx_tenantId ctx) (transport_documents s) = Some e"
      "permits DOCUMENT_TRANSITIONS (xd_status e) status"
    and t: "transport_documents t = update_first (\<lambda>x. xd_id x = j) (move_document pr status m) (transport_documents s)"
    using assms(2) by (rule document_moved)
  have dist: "distinct (map xd_id (transport_documents s))" and left: "changes_left i (transport_documents s) \<le> k"
    using assms(1) by (simp_all add: documents_left_def)
  have "distinct (map xd_id (transport_documents t))"
    using dist unfolding t by (simp add: map_update_first move_document_def)
  moreover have "changes_left i (transport_documents t) < k" if "j = i"
    using changes_fall [OF dist, of i, OF e [unfolded that]] left unfolding t that by (rule less_le_trans)
  moreover have "changes_left i (transport_documents t) \<le> k" if "j \<noteq> i"
  proof -
    have "List.find (\<lambda>d. xd_id d = i) (transport_documents t) = List.find (\<lambda>d. xd_id d = i) (transport_documents s)"
      unfolding t using that by (intro find_update_first_other) (simp_all add: move_document_def)
    then show ?thesis using left by (simp add: changes_left_def)
  qed
  ultimately show ?thesis by (cases "j = i") (simp_all add: documents_left_def)
qed

lemma document_created:
  fixes s :: "'m international_db_scheme"
  assumes "documents_left i k (transport_documents s)" and "createDocument ctx pr c xd s = (Inr d, t)"
  shows "documents_left i k (transport_documents t)"
proof -
  obtain j n and u v :: "'m international_db_scheme" where u: "random_uuid s = (Inr j, u)" and
    v: "create_row transport_documents transport_documents_update same_transport_document d u = (Inr d, v)" and
    d: "d = create_document_dto.extend xd
      (transport_document.fields j (ctx_tenantId ctx) c ''DRAFT'' n None None None None)" and
    t: "freight_audit ctx pr ''transport.document.created'' ''TransportDocument'' j v = (Inr (), t)"
    using assms(2) unfolding createDocument_def Let_def
    by (cases "xd_supersedesId xd") (auto simp del: random_uuid_Inr)
  have "transport_documents t = transport_documents s @ [d]"
  proof -
    have "keeps transport_documents (freight_audit ctx pr a b i :: ('m international_db_scheme, _) prog)" for a b i
      unfolding freight_audit_def by (intro keeps_intros) simp_all
    from keepsD [OF this t] v u show ?thesis by auto
  qed
  moreover have "xd_id d \<notin> xd_id ` set (transport_documents s)"
    using v u by (auto simp: same_transport_document_def)
  moreover have "xd_status d = ''DRAFT''"
    unfolding d by (cases xd) (simp add: create_document_dto.defs transport_document.defs)
  ultimately show ?thesis using assms(1)
    by (auto simp: documents_left_def changes_left_def find_append document_rank_def or_default_def split: option.splits)
qed

text \<open>A run in which the status of document \<open>i\<close> was changed \<open>n\<close> times.\<close>

inductive document_moves :: "uuid \<Rightarrow> nat \<Rightarrow> 'm international_db_scheme \<Rightarrow> 'm international_db_scheme \<Rightarrow> bool"
  for i :: uuid where
  Start: "document_moves i 0 s s"
| Other: "document_moves i n s t \<Longrightarrow> transit_step t u \<Longrightarrow> document_moves i n s u"
| Move: "document_moves i n s t \<Longrightarrow> transitionDocument ctx pr i status t = (Inr d, u) \<Longrightarrow>
    document_moves i (Suc n) s u"

lemma documents_more: "runtime.more t = runtime.more s \<Longrightarrow> documents_left i k (transport_documents s) \<Longrightarrow>
    documents_left i k (transport_documents t)"
  for s t :: "'m international_db_scheme"
  by (simp add: international_more [of t s])

lemma atomic_documents:
  "atomic (createDocument ctx pr i xd :: ('m international_db_scheme, _) prog)"
  "atomic (transitionDocument ctx pr i status :: ('m international_db_scheme, _) prog)"
  unfolding createDocument_def transitionDocument_def transit_reads Let_def by (intro atomic_intros keeps_intros; simp)+

lemma always_documents:
  "always (\<lambda>s. documents_left i k (transport_documents s)) (createDocument ctx pr c xd)"
  "always (\<lambda>s. documents_left i k (transport_documents s)) (transitionDocument ctx pr j status)"
  by (rule always_atomic [OF atomic_documents(1) documents_more document_created]
      always_atomic [OF atomic_documents(2) documents_more document_moved_left [THEN conjunct1]]; assumption)+

lemmas documents_promises = always_documents [THEN alwaysD]
  keeps_document_rows [THEN always_keeps, of "documents_left i k" for i k, THEN alwaysD]

lemma transit_step_documents: "transit_step s t \<Longrightarrow> documents_left i k (transport_documents s) \<Longrightarrow>
    documents_left i k (transport_documents t)"
  by (induction rule: transit_step.induct) (blast intro: documents_promises)+

lemma document_moves_left: "document_moves i n s t \<Longrightarrow> distinct (map xd_id (transport_documents s)) \<Longrightarrow>
    n + changes_left i (transport_documents t) \<le> 4 \<and> distinct (map xd_id (transport_documents t))"
proof (induction rule: document_moves.induct)
  case (Start s)
  show ?case using Start document_rank_le by (simp add: changes_left_def split: option.splits)
next
  case (Other n s t u)
  have "documents_left i (changes_left i (transport_documents t)) (transport_documents t)"
    using Other by (simp add: documents_left_def)
  from transit_step_documents [OF Other.hyps(2) this] Other show ?case by (simp add: documents_left_def)
next
  case (Move n s t ctx pr status d u)
  have "documents_left i (changes_left i (transport_documents t)) (transport_documents t)"
    using Move by (simp add: documents_left_def)
  from document_moved_left [OF this Move.hyps(2)] Move show ?case by (simp add: documents_left_def)
qed

section \<open>Customs filings\<close>

lemma max_of_append: "max_of (xs @ [y]) = Some (case max_of xs of None \<Rightarrow> y | Some m \<Rightarrow> max m y)"
  by (cases xs) (simp_all add: max_of_def)

lemma clash_free_tail: "clash_free clash (xs @ ys) \<Longrightarrow> clash_free clash ys"
  by (induction xs) auto

lemma filing_created:
  fixes s :: "'m international_db_scheme"
  assumes "createCustomsFiling ctx pr c xf s = (Inr f, t)"
  shows "customs_filings t = customs_filings s @ [f] \<and> (\<forall>x\<in>set (customs_filings s). xf_id x \<noteq> xf_id f)
    \<and> xf_tenantId f = ctx_tenantId ctx \<and> xf_consignmentId f = c \<and> xf_type f = xf_type xf
    \<and> xf_version f = or_default (max_of (map xf_version (filter (\<lambda>x. xf_tenantId x = ctx_tenantId ctx
         \<and> xf_consignmentId x = c \<and> xf_type x = xf_type xf) (customs_filings s)))) 0 + 1"
proof -
  obtain j and u v :: "'m international_db_scheme" where u: "random_uuid s = (Inr j, u)" and
    f: "f = create_filing_dto.extend xf (customs_filing.fields j (ctx_tenantId ctx) c ''DRAFT'' None None None None
       None None (or_default (max_of (map xf_version (filter (\<lambda>x. xf_tenantId x = ctx_tenantId ctx
         \<and> xf_consignmentId x = c \<and> xf_type x = xf_type xf) (customs_filings s)))) 0 + 1))" and
    v: "create_row customs_filings customs_filings_update same_filing f u = (Inr f, v)" and
    t: "freight_audit ctx pr ''customs.filing.created'' ''CustomsFiling'' j v = (Inr (), t)"
    using assms unfolding createCustomsFiling_def by (auto simp del: random_uuid_Inr)
  have "keeps customs_filings (freight_audit ctx pr a b i :: ('m international_db_scheme, _) prog)" for a b i
    unfolding freight_audit_def by (intro keeps_intros) simp_all
  from keepsD [OF this t] v u have "customs_filings t = customs_filings s @ [f]"
    and "\<forall>x\<in>set (customs_filings s). xf_id x \<noteq> xf_id f" by (auto simp: same_filing_def)
  then show ?thesis
    by (cases xf) (simp add: f create_filing_dto.defs customs_filing.defs)
qed

lemma next_version:
  fixes s :: "'m international_db_scheme"
  assumes "createCustomsFiling ctx pr c xf s = (Inr f, t)" and "createCustomsFiling ctx pr' c xf' t = (Inr g, u)"
    and "xf_type xf' = xf_type xf"
  shows "xf_version g = xf_version f + 1"
proof -
  note f = filing_created [OF assms(1)] and g = filing_created [OF assms(2)]
  have "or_default (max_of (xs @ [or_default (max_of xs) 0 + 1])) 0 = or_default (max_of xs) 0 + (1 :: int)" for xs
    by (simp add: max_of_append or_default_def split: option.splits)
  then show ?thesis using f g assms(3) by simp
qed

lemma filing_stuck:
  fixes s :: "'m international_db_scheme"
  assumes rows: "customs_filings s = xs @ [f, g]" and new: "\<forall>x\<in>set xs. xf_id x \<noteq> xf_id f" "xf_id g \<noteq> xf_id f"
    and same: "xf_tenantId g = xf_tenantId f" "xf_consignmentId g = xf_consignmentId f" "xf_type g = xf_type f"
      "xf_version g = xf_version f + 1"
  shows "transitionCustomsFiling ctx pr (xf_id f) xt s \<noteq> (Inr x, t)"
proof
  let ?P = "\<lambda>y. xf_id y = xf_id f \<and> xf_tenantId y = ctx_tenantId ctx \<and> xf_version y = xt_version xt"
  assume "transitionCustomsFiling ctx pr (xf_id f) xt s = (Inr x, t)"
  then obtain c m and u :: "'m international_db_scheme" where u: "now s = (Inr c, u)" and
    v: "clash_free same_filing (update_where ?P (move_filing pr xt c m) (customs_filings u))"
      "length (filter ?P (customs_filings u)) = 1"
    unfolding transitionCustomsFiling_def by (auto simp del: now_Inr)
  let ?h = "move_filing pr xt c m"
  have rows: "customs_filings u = xs @ [f, g]" using u rows by auto
  have "filter ?P xs = []" using new(1) by (auto simp: filter_empty_conv)
  with v(2) rows new(2) have "?P f" by (auto split: if_splits)
  then have "update_where ?P ?h (customs_filings u) = update_where ?P ?h xs @ [?h f, g]"
    using rows new(2) by (simp add: update_where_def)
  with v(1) have "\<not> same_filing (?h f) g" using clash_free_tail by fastforce
  then show False using same by (simp add: same_filing_def move_filing_def)
qed

lemma filing_refused:
  fixes s :: "'m international_db_scheme"
  assumes rows: "customs_filings s = xs @ [f, g]" and new: "\<forall>x\<in>set xs. xf_id x \<noteq> xf_id f" "xf_id g \<noteq> xf_id f"
    and run: "transitionCustomsFiling ctx pr (xf_id f) xt s = (Inl e, t)"
  shows "customs_filings t = customs_filings s"
proof -
  let ?P = "\<lambda>y. xf_id y = xf_id f \<and> xf_tenantId y = ctx_tenantId ctx \<and> xf_version y = xt_version xt"
  have "length (filter ?P (customs_filings s)) \<noteq> 1 \<Longrightarrow> update_where ?P h (customs_filings s) = customs_filings s" for h
  proof (rule update_where_none)
    assume "length (filter ?P (customs_filings s)) \<noteq> 1"
    then have "\<not> ?P f" using rows new by (auto split: if_splits)
    with rows new show "\<forall>y\<in>set (customs_filings s). \<not> ?P y" by auto
  qed
  then show ?thesis
    using run unfolding transitionCustomsFiling_def
    by (auto simp: update_unique_def update_many_def now_def split: if_splits)
qed

section \<open>A concrete port\<close>

definition some_plan :: consolidation_plan where
  "some_plan = \<lparr>xp_mode = ''SEA'', xp_serviceLevel = None, xp_originHubId = ''hub'', xp_destinationHubId = ''hub'',
     xp_cutoffAt = 1000, xp_plannedDepartureAt = 1001, xp_plannedArrivalAt = 1002, xp_maxWeightGrams = Some 100,
     xp_maxVolumeCubicCm = None, xp_equipmentType = None, xp_masterReference = None, xp_sealNumber = None,
     xp_route = None, xp_id = ''plan'', xp_tenantId = ''tenant'', xp_number = ''CNS-1'', xp_status = ''OPEN'',
     xp_version = 1, xp_createdBy = ''user'', xp_closedAt = None, xp_departedAt = None, xp_arrivedAt = None,
     xp_deconsolidatedAt = None, xp_completedAt = None\<rparr>"

definition some_container :: handling_unit where
  "some_container = \<lparr>hu_sscc = None, hu_externalIdentifier = Some ''C-1'', hu_type = ''CONTAINER'', hu_parentId = None,
     hu_currentHubId = None, hu_owner = None, hu_sealNumber = None, hu_tareWeightGrams = 20,
     hu_grossWeightGrams = 80, hu_volumeCubicCm = None, hu_dimensions = None, hu_dangerousGoods = None,
     hu_temperatureControl = None, hu_id = ''box'', hu_tenantId = ''tenant'', hu_status = ''BUILT'',
     hu_verifiedGrossMassGrams = None, hu_vgmMethod = None, hu_vgmVerifiedBy = None, hu_vgmVerifiedAt = None,
     hu_version = 1\<rparr>"

definition some_consignment :: transport_consignment where
  "some_consignment = \<lparr>xc_bookingId = ''booking'', xc_ginc = None, xc_gsIn = None, xc_consignorId = ''us'',
     xc_consigneeId = ''them'', xc_originLocationId = ''here'', xc_destinationLocationId = ''there'',
     xc_transportContractType = ''SEA_WAYBILL'', xc_serviceLevel = None, xc_incoterm = None, xc_packageCount = 1,
     xc_grossWeightGrams = 80, xc_grossVolumeCubicCm = None, xc_goodsDescription = ''Parts'',
     xc_commodityCodes = None, xc_dangerousGoods = None, xc_temperatureControl = None, xc_customsStatus = ''EXPORT'',
     xc_id = ''consignment'', xc_tenantId = ''tenant'', xc_number = ''CON-1'', xc_status = ''DRAFT'',
     xc_version = 1, xc_createdBy = ''user''\<rparr>"

definition some_document :: transport_document where
  "some_document = \<lparr>xd_type = ''BILL_OF_LADING'', xd_number = ''BL-1'', xd_standard = ''DCSA'', xd_standardVersion = None,
     xd_payload = JNull, xd_supersedesId = None, xd_id = ''document'', xd_tenantId = ''tenant'',
     xd_consignmentId = ''consignment'', xd_status = ''DRAFT'', xd_revision = 1, xd_issuedBy = None,
     xd_issuedAt = None, xd_signedAt = None, xd_surrenderedAt = None\<rparr>"

definition some_freight_at_port :: freight_booking where
  "some_freight_at_port = \<lparr>fb_id = ''booking'', fb_tenantId = ''tenant'', fb_requestId = ''request'',
     fb_quoteId = ''quote'', fb_number = ''FBK-1'', fb_status = ''CONFIRMED'', fb_customerId = ''user'',
     fb_businessAccountId = None, fb_invoiceId = None, fb_confirmedAt = Some 3, fb_dispatchedAt = None,
     fb_deliveredAt = None, fb_completedAt = None, fb_version = 1\<rparr>"

definition some_cargo :: cargo_item where
  "some_cargo = \<lparr>cg_description = ''Parts'', cg_commodityCode = None, cg_packageType = ''BOX'', cg_packageCount = 2,
     cg_weightGrams = 100, cg_volumeCubicCm = None, cg_dimensions = None, cg_declaredValueMinor = 500,
     cg_currency = ''USD'', cg_hazardous = False, cg_hazardousDetails = None, cg_temperatureMinC = None,
     cg_temperatureMaxC = None, cg_stackable = True, cg_id = ''cargo'', cg_tenantId = ''tenant'',
     cg_requestId = ''request''\<rparr>"

definition some_port :: international_db where
  "some_port = fresh_international\<lparr>freight_bookings := [some_freight_at_port], cargo_items := [some_cargo],
     consolidation_plans := [some_plan], handling_units := [some_container],
     handling_contents := [\<lparr>hc_id = ''content'', hc_tenantId = ''tenant'', hc_handlingUnitId = ''box'',
       hc_cargoItemId = ''cargo'', hc_packageCount = 1, hc_weightGrams = 60, hc_volumeCubicCm = None\<rparr>],
     consignments_table := [some_consignment], transport_documents := [some_document]\<rparr>"

lemmas port_defs = some_port_def some_freight_at_port_def some_plan_def some_container_def some_consignment_def
  some_document_def some_cargo_def fresh_international_def fresh_insurance_def fresh_freight_def fresh_billing_def
  fresh_finance_def fresh_inventory_def fresh_catalog_def fresh_events_def international_db.defs insurance_db.defs
  freight_db.defs billing_db.defs finance_db.defs inventory_db.defs catalog_db.defs events_db.defs

text \<open>Two allocations of sixty to a plan of a hundred, the second one refused.\<close>

definition some_member :: add_member_dto where
  "some_member = \<lparr>xm_bookingId = ''booking'', xm_consignmentId = None, xm_allocatedWeightGrams = 60,
     xm_allocatedVolumeCubicCm = None, xm_packageCount = 1, xm_loadingPriority = 1, xm_finalDestination = None\<rparr>"

definition booked_port :: international_db where
  "booked_port = snd (addConsolidationMember some_context ''plan'' some_member
     (snd (addConsolidationMember some_context ''plan'' some_member some_port)))"

text \<open>The plan is closed around an unweighed container, refused, weighed and loaded.\<close>

definition plan_to :: "string \<Rightarrow> int \<Rightarrow> international_db \<Rightarrow> international_db" where
  "plan_to status version s = snd (transitionConsolidation some_context some_principal ''plan''
     \<lparr>wt_status = status, wt_version = version\<rparr> s)"

definition closed_port :: international_db where
  "closed_port = plan_to ''LOADED'' 2 (plan_to ''CLOSED'' 1
     (snd (addConsolidationLoad some_context ''plan'' ''box'' 1 None booked_port)))"

definition loaded_port :: international_db where
  "loaded_port = plan_to ''LOADED'' 2
     (snd (verifyHandlingUnitVgm some_context some_principal ''box'' 80 ''METHOD_1'' closed_port))"

lemma then_transit: "transit_step\<^sup>*\<^sup>* s t \<Longrightarrow> transit_step t u \<Longrightarrow> transit_step\<^sup>*\<^sup>* s u"
  by simp

lemma plan_to_step: "transit_step s (plan_to status version s)"
  unfolding plan_to_def by (rule transit_step.Move_Plan, rule surjective_pairing)

lemma booked_run: "transit_step\<^sup>*\<^sup>* some_port booked_port"
  unfolding booked_port_def
  by (rule then_transit, rule r_into_rtranclp) (rule transit_step.Member, rule surjective_pairing)+

lemma loaded_run: "transit_step\<^sup>*\<^sup>* some_port loaded_port"
proof -
  let ?load = "snd (addConsolidationLoad some_context ''plan'' ''box'' 1 None booked_port)"
    and ?weigh = "snd (verifyHandlingUnitVgm some_context some_principal ''box'' 80 ''METHOD_1'' closed_port)"
  have "transit_step booked_port ?load" by (rule transit_step.Load, rule surjective_pairing)
  from then_transit [OF booked_run this] have "transit_step\<^sup>*\<^sup>* some_port closed_port"
    unfolding closed_port_def by (blast intro: then_transit plan_to_step)
  moreover have "transit_step closed_port ?weigh"
    by (rule transit_step.Verify [OF _ surjective_pairing]) simp
  ultimately show ?thesis unfolding loaded_port_def by (blast intro: then_transit plan_to_step)
qed

lemma port_sound: "capacity_kept some_port \<and> sea_safe some_port \<and> distinct (map xd_id (transport_documents some_port))"
  by (simp add: port_defs capacity_of_def roomy_def fits_def used_def under_def cargo_slot_def content_use_def
      plan_slot_def sea_of_def weighed_def sea_ready_def sea_plan_def loaded_states_def)

lemma loaded_scene: "map (\<lambda>p. (xp_id p, xp_mode p, xp_status p)) (consolidation_plans loaded_port) = [(''plan'', ''SEA'', ''LOADED'')]"
  by code_simp

lemma booked_scene: "map xm_allocatedWeightGrams (consolidation_members booked_port) = [60]"
  by code_simp

lemma document_scene:
  "let m = transitionDocument some_context some_principal ''document'';
       (r1, s1) = m ''ISSUED'' some_port; (r2, s2) = m ''SIGNED'' s1;
       (r3, s3) = m ''SURRENDERED'' s2; (r4, s4) = m ''VOID'' s3
   in returned r1 \<and> returned r2 \<and> returned r3 \<and> returned r4"
  by code_simp

lemma filing_scene:
  "let m = createCustomsFiling some_context some_principal ''consignment''
         \<lparr>xf_type = ''EXPORT'', xf_direction = ''OUT'', xf_customsOfficeCode = None, xf_dataModelVersion = None,
          xf_declaration = JNull\<rparr>;
       (r1, s1) = m some_port; (r2, s2) = m s1
   in returned r1 \<and> returned r2"
  by code_simp

section \<open>Properties\<close>

text \<open>
  C32. Along every run of the transport operations, refused calls included, the weights and volumes
  allocated to a consolidation plan or a linehaul stay within its limits, and the packages and
  weights put into handling units within the cargo item they come from.
\<close>

theorem capacity_never_exceeded:
  assumes "transit_step\<^sup>*\<^sup>* s t" and "capacity_kept s"
  shows "(\<forall>p\<in>set (consolidation_plans t).
       let ms = filter (\<lambda>x. xm_tenantId x = xp_tenantId p \<and> xm_planId x = xp_id p) (consolidation_members t)
       in under (sum_list (map xm_allocatedWeightGrams ms)) (xp_maxWeightGrams p)
        \<and> under (sum_list (map (\<lambda>x. or_default (xm_allocatedVolumeCubicCm x) 0) ms)) (xp_maxVolumeCubicCm p))
    \<and> (\<forall>h\<in>set (linehauls t).
       let as = filter (\<lambda>x. la_tenantId x = lh_tenantId h \<and> la_linehaulId x = lh_id h) (linehaul_allocations t)
       in under (sum_list (map la_allocatedWeightGrams as)) (lh_maxWeightGrams h)
        \<and> under (sum_list (map (\<lambda>x. or_default (la_allocatedVolumeCubicCm x) 0) as)) (lh_maxVolumeCubicCm h))
    \<and> (\<forall>c\<in>set (cargo_items t).
       let xs = filter (\<lambda>x. hc_tenantId x = cg_tenantId c \<and> hc_cargoItemId x = cg_id c) (handling_contents t)
       in sum_list (map hc_packageCount xs) \<le> cg_packageCount c \<and> sum_list (map hc_weightGrams xs) \<le> cg_weightGrams c)"
  using transit_run_capacity [OF assms]
  by (auto simp: roomy_def capacity_of_def fits_def plan_slot_def linehaul_slot_def cargo_slot_def Let_def
      used_by_members used_by_allocations used_by_contents under_def [of _ "Some _"])

theorem capacity_never_exceeded_witness:
  "transit_step\<^sup>*\<^sup>* some_port booked_port \<and> map xm_allocatedWeightGrams (consolidation_members booked_port) = [60]
   \<and> list_all (\<lambda>c. sum_list (map hc_weightGrams (filter (\<lambda>x. hc_tenantId x = cg_tenantId c \<and> hc_cargoItemId x = cg_id c)
        (handling_contents booked_port))) \<le> cg_weightGrams c) (cargo_items booked_port)"
  using capacity_never_exceeded [OF booked_run port_sound [THEN conjunct1]] booked_run booked_scene
  by (simp add: Let_def list_all_iff)

text \<open>
  C33. Along every run of the transport operations a consolidation by sea that was loaded, until it is
  cancelled or taken back, has handling units, and its containers have a verified gross mass.
\<close>

theorem sea_containers_verified:
  assumes "transit_step\<^sup>*\<^sup>* s t" and "sea_safe s" and "p \<in> set (consolidation_plans t)" and "xp_mode p = ''SEA''"
    and "xp_status p \<in> {''LOADED'', ''DEPARTED'', ''EXCEPTION'', ''ARRIVED'', ''DECONSOLIDATED'', ''COMPLETED''}"
  shows "loads_of t (xp_id p) \<noteq> []
    \<and> (\<forall>l\<in>set (loads_of t (xp_id p)). (\<exists>u\<in>set (handling_units t). hu_id u = xo_handlingUnitId l)
        \<and> (\<forall>u\<in>set (handling_units t). hu_id u = xo_handlingUnitId l \<and> hu_type u = ''CONTAINER'' \<longrightarrow>
             or_default (hu_verifiedGrossMassGrams u) 0 \<noteq> 0))"
proof -
  let ?ls = "map sea_load (consolidation_loads t)" and ?us = "map sea_unit (handling_units t)"
  have safe: "weighed (map sea_plan (consolidation_plans t), ?ls, ?us)"
    using transit_run_sea [OF assms(1,2)] by (simp add: sea_of_def)
  then have "sea_ready ?ls ?us (sea_plan p)" using assms(3) by (simp add: weighed_def)
  then have ready: "\<exists>u. (xp_id p, u) \<in> set ?ls"
    "\<And>u g. (xp_id p, u) \<in> set ?ls \<Longrightarrow> (u, ''CONTAINER'', g) \<in> set ?us \<Longrightarrow> g \<noteq> 0"
    using assms(4,5) by (auto simp: sea_ready_def sea_plan_def loaded_states_def)
  have "loads_of t (xp_id p) \<noteq> []" using ready(1) by (auto simp: loads_of_def sea_load_def filter_empty_conv)
  moreover have "\<exists>u\<in>set (handling_units t). hu_id u = xo_handlingUnitId l" if "l \<in> set (loads_of t (xp_id p))" for l
  proof -
    have "xo_handlingUnitId l \<in> fst ` set ?us"
      using safe that by (force simp: weighed_def loads_of_def sea_load_def)
    then show ?thesis by (auto simp: sea_unit_def)
  qed
  moreover have "or_default (hu_verifiedGrossMassGrams u) 0 \<noteq> 0"
    if "l \<in> set (loads_of t (xp_id p))" "u \<in> set (handling_units t)" "hu_id u = xo_handlingUnitId l" "hu_type u = ''CONTAINER''"
    for l u
    using that by (intro ready(2) [of "xo_handlingUnitId l"]) (force simp: loads_of_def sea_load_def sea_unit_def)+
  ultimately show ?thesis by blast
qed

theorem sea_containers_verified_witness:
  "\<exists>t. transit_step\<^sup>*\<^sup>* some_port t
     \<and> map (\<lambda>p. (xp_id p, xp_mode p, xp_status p)) (consolidation_plans t) = [(''plan'', ''SEA'', ''LOADED'')]
     \<and> loads_of t ''plan'' \<noteq> []"
proof -
  obtain p where p: "p \<in> set (consolidation_plans loaded_port)" "xp_id p = ''plan''"
    "xp_mode p = ''SEA''" "xp_status p = ''LOADED''" using loaded_scene by (auto simp: map_eq_Cons_conv)
  have loads: "loads_of loaded_port (xp_id p) \<noteq> []"
    by (rule sea_containers_verified [OF loaded_run port_sound [THEN conjunct2, THEN conjunct1] p(1,3), THEN conjunct1])
       (unfold p(4), rule insertI1)
  show ?thesis by (rule exI, rule conjI [OF loaded_run], rule conjI [OF loaded_scene], rule loads [unfolded p(2)])
qed

text \<open>
  C34. A transport document comes to rest: however its operations and those on other rows interleave,
  its status changes at most four times.
\<close>

theorem documents_settle:
  assumes "document_moves i n s t" and "distinct (map xd_id (transport_documents s))"
  shows "n \<le> 4"
  using document_moves_left [OF assms] by simp

theorem documents_settle_witness:
  "\<exists>t. document_moves ''document'' 4 some_port t \<and> (4 :: nat) \<le> 4"
proof -
  let ?m = "transitionDocument some_context some_principal ''document'' :: string \<Rightarrow> (international_db, _) prog"
  obtain d1 d2 d3 d4 s1 s2 s3 s4 where
    m: "?m ''ISSUED'' some_port = (Inr d1, s1)" "?m ''SIGNED'' s1 = (Inr d2, s2)"
      "?m ''SURRENDERED'' s2 = (Inr d3, s3)" "?m ''VOID'' s3 = (Inr d4, s4)"
    using document_scene unfolding Let_def returned_def
    by (simp split: prod.splits sum.splits)
  have "document_moves ''document'' (Suc (Suc (Suc (Suc 0)))) some_port s4"
    by (rule document_moves.Start [THEN document_moves.Move, OF m(1), THEN document_moves.Move, OF m(2),
          THEN document_moves.Move, OF m(3), THEN document_moves.Move, OF m(4)])
  then have "document_moves ''document'' 4 some_port s4" by (simp add: numeral_eq_Suc)
  moreover from documents_settle [OF this] port_sound have "(4 :: nat) \<le> 4" by simp
  ultimately show ?thesis by blast
qed



end
