(* ===== verification/Postal.thy ===== *)
theory Postal
  imports International
begin

text \<open>
  The postal exchange: operators and products, items with their S10 identifiers, receptacles,
  dispatches, postal consignments and events: the postal part of
  \<open>apps/api/src/international-logistics/international-logistics.repository.ts\<close>.
\<close>

section \<open>Rows\<close>

record create_operator_dto =
  yo_code :: string
  yo_name :: string
  yo_countryCode :: string
  yo_designated :: bool
  yo_identifiers :: "json option"

record postal_operator = create_operator_dto +
  yo_id :: uuid
  yo_tenantId :: uuid
  yo_status :: string

record create_postal_product_dto =
  yd_code :: string
  yd_name :: string
  yd_category :: string
  yd_tracked :: bool
  yd_registered :: bool
  yd_insured :: bool
  yd_signatureRequired :: bool
  yd_customsRequired :: bool
  yd_maxWeightGrams :: "int option"
  yd_maxDimensions :: "json option"
  yd_serviceStandard :: "json option"

record postal_product = create_postal_product_dto +
  yd_id :: uuid
  yd_tenantId :: uuid
  yd_operatorId :: uuid
  yd_status :: string

record create_postal_item_dto =
  yi_operatorId :: uuid
  yi_productId :: uuid
  yi_originCountryCode :: string
  yi_destinationCountryCode :: string
  yi_sender :: json
  yi_recipient :: json
  yi_contentDescription :: string
  yi_weightGrams :: int
  yi_dimensions :: "json option"
  yi_declaredValueMinor :: int
  yi_currency :: string
  yi_customsData :: "json option"
  yi_postageMinor :: int

record postal_item = create_postal_item_dto +
  yi_id :: uuid
  yi_tenantId :: uuid
  yi_customerId :: uuid
  yi_s10Identifier :: string
  yi_status :: string
  yi_deliveredAt :: "instant option"
  yi_version :: int

record receptacle_item =
  yr_id :: uuid
  yr_tenantId :: uuid
  yr_receptacleId :: uuid
  yr_itemId :: uuid

record create_dispatch_dto =
  ys_operatorId :: uuid
  ys_dispatchId :: string
  ys_originImpcCode :: string
  ys_destinationImpcCode :: string
  ys_mailCategory :: string
  ys_dispatchNumber :: int
  ys_scheduledDepartureAt :: "instant option"

record postal_dispatch = create_dispatch_dto +
  ys_id :: uuid
  ys_tenantId :: uuid
  ys_status :: string
  ys_closedAt :: "instant option"
  ys_handedOverAt :: "instant option"
  ys_receivedAt :: "instant option"
  ys_version :: int

record dispatch_receptacle =
  yl_id :: uuid
  yl_tenantId :: uuid
  yl_dispatchId :: uuid
  yl_receptacleId :: uuid
  yl_sequence :: int

record create_postal_consignment_dto =
  yc_operatorId :: uuid
  yc_consignmentId :: string
  yc_carrierId :: "uuid option"
  yc_transportReference :: "string option"
  yc_originImpcCode :: string
  yc_destinationImpcCode :: string
  yc_scheduledDepartureAt :: "instant option"
  yc_scheduledArrivalAt :: "instant option"

record postal_consignment = create_postal_consignment_dto +
  yc_id :: uuid
  yc_tenantId :: uuid
  yc_status :: string

record consignment_receptacle =
  yg_id :: uuid
  yg_tenantId :: uuid
  yg_consignmentId :: uuid
  yg_receptacleId :: uuid
  yg_sequence :: int

record postal_event_dto =
  ye_itemId :: "uuid option"
  ye_receptacleId :: "uuid option"
  ye_dispatchId :: "uuid option"
  ye_standard :: string
  ye_code :: string
  ye_description :: string
  ye_locationCode :: "string option"
  ye_occurredAt :: instant
  ye_source :: string
  ye_externalKey :: string
  ye_data :: "json option"

record postal_event = postal_event_dto +
  ye_id :: uuid
  ye_tenantId :: uuid
  ye_recordedBy :: "uuid option"

record postal_db = international_db +
  postal_operators :: "postal_operator list"
  postal_products :: "postal_product list"
  postal_items :: "postal_item list"
  receptacle_items :: "receptacle_item list"
  postal_dispatches :: "postal_dispatch list"
  dispatch_receptacles :: "dispatch_receptacle list"
  postal_consignments :: "postal_consignment list"
  consignment_receptacles :: "consignment_receptacle list"
  postal_events :: "postal_event list"

section \<open>Unique keys\<close>

definition same_operator :: "postal_operator \<Rightarrow> postal_operator \<Rightarrow> bool" where
  "same_operator a b \<longleftrightarrow> yo_id a = yo_id b \<or> yo_tenantId a = yo_tenantId b \<and> yo_code a = yo_code b"

definition same_postal_product :: "postal_product \<Rightarrow> postal_product \<Rightarrow> bool" where
  "same_postal_product a b \<longleftrightarrow> yd_id a = yd_id b
     \<or> yd_tenantId a = yd_tenantId b \<and> yd_operatorId a = yd_operatorId b \<and> yd_code a = yd_code b"

definition same_item :: "postal_item \<Rightarrow> postal_item \<Rightarrow> bool" where
  "same_item a b \<longleftrightarrow> yi_id a = yi_id b
     \<or> yi_tenantId a = yi_tenantId b \<and> yi_s10Identifier a = yi_s10Identifier b"

definition same_receptacle_item :: "receptacle_item \<Rightarrow> receptacle_item \<Rightarrow> bool" where
  "same_receptacle_item a b \<longleftrightarrow> yr_id a = yr_id b
     \<or> yr_tenantId a = yr_tenantId b \<and> yr_receptacleId a = yr_receptacleId b \<and> yr_itemId a = yr_itemId b"

definition same_dispatch :: "postal_dispatch \<Rightarrow> postal_dispatch \<Rightarrow> bool" where
  "same_dispatch a b \<longleftrightarrow> ys_id a = ys_id b
     \<or> ys_tenantId a = ys_tenantId b \<and> (ys_dispatchId a = ys_dispatchId b
         \<or> ys_originImpcCode a = ys_originImpcCode b \<and> ys_destinationImpcCode a = ys_destinationImpcCode b
           \<and> ys_mailCategory a = ys_mailCategory b \<and> ys_dispatchNumber a = ys_dispatchNumber b)"

definition same_dispatch_receptacle :: "dispatch_receptacle \<Rightarrow> dispatch_receptacle \<Rightarrow> bool" where
  "same_dispatch_receptacle a b \<longleftrightarrow> yl_id a = yl_id b
     \<or> yl_tenantId a = yl_tenantId b \<and> yl_dispatchId a = yl_dispatchId b
       \<and> (yl_receptacleId a = yl_receptacleId b \<or> yl_sequence a = yl_sequence b)"

definition same_postal_consignment :: "postal_consignment \<Rightarrow> postal_consignment \<Rightarrow> bool" where
  "same_postal_consignment a b \<longleftrightarrow> yc_id a = yc_id b
     \<or> yc_tenantId a = yc_tenantId b \<and> yc_consignmentId a = yc_consignmentId b"

definition same_consignment_receptacle :: "consignment_receptacle \<Rightarrow> consignment_receptacle \<Rightarrow> bool" where
  "same_consignment_receptacle a b \<longleftrightarrow> yg_id a = yg_id b
     \<or> yg_tenantId a = yg_tenantId b \<and> yg_consignmentId a = yg_consignmentId b
       \<and> (yg_receptacleId a = yg_receptacleId b \<or> yg_sequence a = yg_sequence b)"

definition same_postal_event :: "postal_event \<Rightarrow> postal_event \<Rightarrow> bool" where
  "same_postal_event a b \<longleftrightarrow> ye_id a = ye_id b
     \<or> ye_tenantId a = ye_tenantId b \<and> ye_standard a = ye_standard b \<and> ye_externalKey a = ye_externalKey b"

section \<open>Operators, products, items\<close>

record postal_view =
  yv_operators :: "(postal_operator \<times> postal_product list) list"
  yv_items :: "(postal_item \<times> postal_event list) list"
  yv_receptacles :: "(postal_receptacle \<times> receptacle_item list) list"
  yv_dispatches :: "(postal_dispatch \<times> dispatch_receptacle list) list"
  yv_consignments :: "(postal_consignment \<times> consignment_receptacle list) list"

definition links_of :: "'m postal_db_scheme \<Rightarrow> uuid \<Rightarrow> dispatch_receptacle list" where
  "links_of s dispatchId = filter (\<lambda>x. yl_dispatchId x = dispatchId) (dispatch_receptacles s)"

definition postalOverview ::
  "tenant_context \<Rightarrow> auth_principal option \<Rightarrow> ('m postal_db_scheme, postal_view) prog" where
  "postalOverview ctx customer = reads (\<lambda>s.
     \<lparr>yv_operators = map (\<lambda>p. (p, filter (\<lambda>x. yd_operatorId x = yo_id p) (postal_products s)))
        (sort_key yo_name (filter (\<lambda>x. yo_tenantId x = ctx_tenantId ctx) (postal_operators s))),
      yv_items = map (\<lambda>i. (i, sort_key ye_occurredAt (filter (\<lambda>e. ye_itemId e = Some (yi_id i)) (postal_events s))))
        (rev (filter (\<lambda>x. yi_tenantId x = ctx_tenantId ctx
            \<and> (case customer of None \<Rightarrow> True | Some p \<Rightarrow> yi_customerId x = pr_userId p)) (postal_items s))),
      yv_receptacles = map (\<lambda>r. (r, filter (\<lambda>x. yr_receptacleId x = ym_id r) (receptacle_items s)))
        (rev (filter (\<lambda>x. ym_tenantId x = ctx_tenantId ctx) (postal_receptacles s))),
      yv_dispatches = map (\<lambda>d. (d, links_of s (ys_id d)))
        (rev (filter (\<lambda>x. ys_tenantId x = ctx_tenantId ctx) (postal_dispatches s))),
      yv_consignments = map (\<lambda>c. (c, filter (\<lambda>x. yg_consignmentId x = yc_id c) (consignment_receptacles s)))
        (rev (filter (\<lambda>x. yc_tenantId x = ctx_tenantId ctx) (postal_consignments s)))\<rparr>)"

definition requirePostalOperator :: "tenant_context \<Rightarrow> uuid \<Rightarrow> ('m postal_db_scheme, postal_operator) prog" where
  "requirePostalOperator ctx i = require_row postal_operators (\<lambda>x. yo_id x = i \<and> yo_tenantId x = ctx_tenantId ctx)"

definition requireDispatch :: "tenant_context \<Rightarrow> uuid \<Rightarrow> ('m postal_db_scheme, postal_dispatch) prog" where
  "requireDispatch ctx i = require_row postal_dispatches (\<lambda>x. ys_id x = i \<and> ys_tenantId x = ctx_tenantId ctx)"

definition createPostalOperator ::
  "tenant_context \<Rightarrow> auth_principal \<Rightarrow> create_operator_dto \<Rightarrow> ('m postal_db_scheme, postal_operator) prog"
where
  "createPostalOperator ctx pr dto =
     seq random_uuid (\<lambda>i.
     transaction
       (seq (create_row postal_operators postal_operators_update same_operator
               (create_operator_dto.extend dto (postal_operator.fields i (ctx_tenantId ctx) ''ACTIVE''))) (\<lambda>x.
        seq (freight_audit ctx pr ''postal.operator.created'' ''PostalOperator'' i) (\<lambda>_.
        ret x))))"

definition createPostalProduct ::
  "tenant_context \<Rightarrow> uuid \<Rightarrow> create_postal_product_dto \<Rightarrow> ('m postal_db_scheme, postal_product) prog"
where
  "createPostalProduct ctx operatorId dto =
     seq (requirePostalOperator ctx operatorId) (\<lambda>_.
     seq random_uuid (\<lambda>i.
     create_row postal_products postal_products_update same_postal_product
       (create_postal_product_dto.extend dto (postal_product.fields i (ctx_tenantId ctx) operatorId ''ACTIVE''))))"

text \<open>The identifier of an item: the one given, in upper case, or built from its parts.\<close>

record s10_parts =
  tn_identifier :: "string option"
  tn_serviceIndicator :: "string option"
  tn_serial :: "string option"

definition item_identifier :: "s10_parts \<Rightarrow> string \<Rightarrow> app_error + string" where
  "item_identifier parts originCountryCode =
     (let given = js_upper (or_default (tn_identifier parts) []);
          service = or_default (tn_serviceIndicator parts) []; serial = or_default (tn_serial parts) [];
          identifier = (if given \<noteq> [] then Inr given
            else if service = [] \<or> serial = []
            then Inl (Conflict ''S10 identifier or service indicator and serial are required'')
            else buildS10Identifier service serial originCountryCode)
      in case identifier of
           Inl e \<Rightarrow> Inl e
         | Inr x \<Rightarrow> if \<not> isValidS10Identifier x then Inl (Conflict ''UPU S10 identifier check digit is invalid'')
             else Inr x)"

definition createPostalItem ::
  "tenant_context \<Rightarrow> auth_principal \<Rightarrow> create_postal_item_dto \<Rightarrow> s10_parts \<Rightarrow> ('m postal_db_scheme, postal_item) prog"
where
  "createPostalItem ctx pr dto parts =
     seq (require_row postal_products (\<lambda>d. yd_id d = yi_productId dto \<and> yd_tenantId d = ctx_tenantId ctx
            \<and> yd_operatorId d = yi_operatorId dto \<and> yd_status d = ''ACTIVE'')) (\<lambda>d.
     seq (ensure (\<not> (case yd_maxWeightGrams d of None \<Rightarrow> False | Some m \<Rightarrow> m \<noteq> 0 \<and> yi_weightGrams dto > m))
            (Conflict ''Postal product weight limit exceeded'')) (\<lambda>_.
     seq (ensure (\<not> (yd_customsRequired d \<and> yi_customsData dto = None))
            (Conflict ''Postal customs data is required'')) (\<lambda>_.
     seq (lift_result (item_identifier parts (yi_originCountryCode dto))) (\<lambda>identifier.
     seq random_uuid (\<lambda>i.
     transaction
       (seq (create_row postal_items postal_items_update same_item
               (create_postal_item_dto.extend dto
                  (postal_item.fields i (ctx_tenantId ctx) (pr_userId pr) identifier ''ACCEPTED'' None 1))) (\<lambda>x.
        seq random_uuid (\<lambda>e.
        seq now (\<lambda>accepted.
        seq (create_row postal_events postal_events_update same_postal_event
               \<lparr>ye_itemId = Some i, ye_receptacleId = None, ye_dispatchId = None, ye_standard = ''UPU_EMSEVT'',
                ye_code = ''EMA'', ye_description = ''Item accepted by the originating operator'',
                ye_locationCode = None, ye_occurredAt = accepted, ye_source = ''API'',
                ye_externalKey = ''accept:'' @ i, ye_data = None, ye_id = e, ye_tenantId = ctx_tenantId ctx,
                ye_recordedBy = Some (pr_userId pr)\<rparr>) (\<lambda>_.
        seq (freight_audit ctx pr ''postal.item.accepted'' ''PostalItem'' i) (\<lambda>_.
        seq (freight_outbox ctx ''postal.item.accepted.v1'' i
               (JObj [(''itemId'', JStr i), (''s10Identifier'', JStr identifier)])) (\<lambda>_.
        ret x))))))))))))"

section \<open>Receptacles\<close>

record create_receptacle_dto =
  yt_operatorId :: uuid
  yt_handlingUnitId :: "uuid option"
  yt_receptacleId :: string
  yt_type :: string
  yt_mailCategory :: string
  yt_originImpcCode :: string
  yt_destinationImpcCode :: string
  yt_sealNumber :: "string option"

definition createPostalReceptacle ::
  "tenant_context \<Rightarrow> create_receptacle_dto \<Rightarrow> ('m postal_db_scheme, postal_receptacle) prog"
where
  "createPostalReceptacle ctx dto =
     seq (requirePostalOperator ctx (yt_operatorId dto)) (\<lambda>_.
     seq (require_optional (yt_handlingUnitId dto) (requireHandlingUnit ctx)) (\<lambda>_.
     seq random_uuid (\<lambda>i.
     create_row postal_receptacles postal_receptacles_update same_receptacle
       \<lparr>ym_id = i, ym_tenantId = ctx_tenantId ctx, ym_operatorId = yt_operatorId dto,
        ym_handlingUnitId = yt_handlingUnitId dto, ym_receptacleId = yt_receptacleId dto,
        ym_type = yt_type dto, ym_mailCategory = yt_mailCategory dto,
        ym_originImpcCode = yt_originImpcCode dto, ym_destinationImpcCode = yt_destinationImpcCode dto,
        ym_status = ''OPEN'', ym_sealNumber = yt_sealNumber dto, ym_closedAt = None, ym_openedAt = None,
        ym_version = 1\<rparr>)))"

definition addPostalItem ::
  "tenant_context \<Rightarrow> uuid \<Rightarrow> uuid \<Rightarrow> ('m postal_db_scheme, receptacle_item) prog"
where
  "addPostalItem ctx receptacleId itemId =
     seq (requireReceptacle ctx receptacleId) (\<lambda>r.
     seq (require_row postal_items (\<lambda>x. yi_id x = itemId \<and> yi_tenantId x = ctx_tenantId ctx)) (\<lambda>x.
     seq (ensure (\<not> ym_status r \<noteq> ''OPEN'') (Conflict ''Postal receptacle is closed'')) (\<lambda>_.
     seq (ensure (\<not> (yi_originCountryCode x \<noteq> take 2 (ym_originImpcCode r)
                  \<or> yi_destinationCountryCode x \<noteq> take 2 (ym_destinationImpcCode r)))
            (Conflict ''Postal item route does not match the receptacle'')) (\<lambda>_.
     seq random_uuid (\<lambda>i.
     create_row receptacle_items receptacle_items_update same_receptacle_item
       \<lparr>yr_id = i, yr_tenantId = ctx_tenantId ctx, yr_receptacleId = receptacleId, yr_itemId = yi_id x\<rparr>)))))"

definition RECEPTACLE_TRANSITIONS :: transition_table where
  "RECEPTACLE_TRANSITIONS =
     [(''OPEN'', [''CLOSED'']),
      (''CLOSED'', [''DESPATCHED'', ''OPEN'']),
      (''DESPATCHED'', [''RECEIVED'']),
      (''RECEIVED'', [''OPENED''])]"

definition move_receptacle :: "string \<Rightarrow> instant \<Rightarrow> postal_receptacle \<Rightarrow> postal_receptacle" where
  "move_receptacle status moment r = r\<lparr>
     ym_status := status,
     ym_closedAt := (if status = ''CLOSED'' then Some moment else ym_closedAt r),
     ym_openedAt := (if status = ''OPENED'' then Some moment else ym_openedAt r),
     ym_version := ym_version r + 1\<rparr>"

definition transitionReceptacle ::
  "tenant_context \<Rightarrow> uuid \<Rightarrow> workflow_transition_dto \<Rightarrow> ('m postal_db_scheme, postal_receptacle option) prog"
where
  "transitionReceptacle ctx receptacleId dto =
     seq (requireReceptacle ctx receptacleId) (\<lambda>r.
     seq (ensure (permits RECEPTACLE_TRANSITIONS (ym_status r) (wt_status dto))
            (Conflict ''Invalid postal receptacle transition'')) (\<lambda>_.
     seq (count_rows receptacle_items (\<lambda>x. yr_tenantId x = ctx_tenantId ctx \<and> yr_receptacleId x = receptacleId)) (\<lambda>items.
     seq (ensure (\<not> (wt_status dto = ''CLOSED'' \<and> items = 0))
            (Conflict ''Cannot close an empty postal receptacle'')) (\<lambda>_.
     seq now (\<lambda>moment.
     seq (update_many postal_receptacles postal_receptacles_update
            (\<lambda>x. ym_id x = receptacleId \<and> ym_tenantId x = ctx_tenantId ctx \<and> ym_version x = wt_version dto)
            (move_receptacle (wt_status dto) moment)) (\<lambda>changed.
     seq (ensure (changed = 1) (Conflict ''Postal receptacle version changed'')) (\<lambda>_.
     find_row postal_receptacles (\<lambda>x. ym_id x = receptacleId))))))))"

section \<open>Dispatches\<close>

definition createPostalDispatch ::
  "tenant_context \<Rightarrow> create_dispatch_dto \<Rightarrow> ('m postal_db_scheme, postal_dispatch) prog"
where
  "createPostalDispatch ctx dto =
     seq (requirePostalOperator ctx (ys_operatorId dto)) (\<lambda>_.
     seq random_uuid (\<lambda>i.
     create_row postal_dispatches postal_dispatches_update same_dispatch
       (create_dispatch_dto.extend dto
          (postal_dispatch.fields i (ctx_tenantId ctx) ''OPEN'' None None None 1))))"

definition addPostalReceptacle ::
  "tenant_context \<Rightarrow> uuid \<Rightarrow> uuid \<Rightarrow> int \<Rightarrow> ('m postal_db_scheme, dispatch_receptacle) prog"
where
  "addPostalReceptacle ctx dispatchId receptacleId sequence =
     seq (requireDispatch ctx dispatchId) (\<lambda>d.
     seq (requireReceptacle ctx receptacleId) (\<lambda>r.
     seq (ensure (\<not> (ys_status d \<noteq> ''OPEN'' \<or> ym_status r \<noteq> ''CLOSED''))
            (Conflict ''Open dispatch and closed receptacle are required'')) (\<lambda>_.
     seq (ensure (\<not> (ys_originImpcCode d \<noteq> ym_originImpcCode r
                  \<or> ys_destinationImpcCode d \<noteq> ym_destinationImpcCode r
                  \<or> ys_mailCategory d \<noteq> ym_mailCategory r))
            (Conflict ''Receptacle does not match the postal dispatch'')) (\<lambda>_.
     seq random_uuid (\<lambda>i.
     create_row dispatch_receptacles dispatch_receptacles_update same_dispatch_receptacle
       \<lparr>yl_id = i, yl_tenantId = ctx_tenantId ctx, yl_dispatchId = dispatchId,
        yl_receptacleId = ym_id r, yl_sequence = sequence\<rparr>)))))"

definition move_dispatch :: "string \<Rightarrow> instant \<Rightarrow> postal_dispatch \<Rightarrow> postal_dispatch" where
  "move_dispatch status moment d = d\<lparr>
     ys_status := status,
     ys_closedAt := (if status = ''CLOSED'' then Some moment else ys_closedAt d),
     ys_handedOverAt := (if status = ''HANDED_OVER'' then Some moment else ys_handedOverAt d),
     ys_receivedAt := (if status = ''RECEIVED'' then Some moment else ys_receivedAt d),
     ys_version := ys_version d + 1\<rparr>"

text \<open>Handing a dispatch over despatches its receptacles.\<close>

definition despatch_receptacles ::
  "tenant_context \<Rightarrow> uuid \<Rightarrow> ('m postal_db_scheme, unit) prog" where
  "despatch_receptacles ctx dispatchId =
     seq (find_rows dispatch_receptacles (\<lambda>x. yl_tenantId x = ctx_tenantId ctx \<and> yl_dispatchId x = dispatchId)) (\<lambda>links.
     seq (update_many postal_receptacles postal_receptacles_update
            (\<lambda>x. ym_id x \<in> set (map yl_receptacleId links))
            (\<lambda>x. x\<lparr>ym_status := ''DESPATCHED'', ym_version := ym_version x + 1\<rparr>)) (\<lambda>_.
     ret ()))"

definition transition_dispatch_tx ::
  "tenant_context \<Rightarrow> auth_principal \<Rightarrow> uuid \<Rightarrow> workflow_transition_dto \<Rightarrow> instant
     \<Rightarrow> ('m postal_db_scheme, postal_dispatch option) prog"
where
  "transition_dispatch_tx ctx pr dispatchId dto moment =
     seq (update_many postal_dispatches postal_dispatches_update
            (\<lambda>x. ys_id x = dispatchId \<and> ys_tenantId x = ctx_tenantId ctx \<and> ys_version x = wt_version dto)
            (move_dispatch (wt_status dto) moment)) (\<lambda>changed.
     seq (ensure (changed = 1) (Conflict ''Postal dispatch version changed'')) (\<lambda>_.
     seq (when_do (wt_status dto = ''HANDED_OVER'') (despatch_receptacles ctx dispatchId)) (\<lambda>_.
     seq (freight_audit ctx pr (''postal.dispatch.'' @ map lower_char (wt_status dto)) ''PostalDispatch''
            dispatchId) (\<lambda>_.
     find_row postal_dispatches (\<lambda>x. ys_id x = dispatchId)))))"

definition transitionPostalDispatch ::
  "tenant_context \<Rightarrow> auth_principal \<Rightarrow> uuid \<Rightarrow> workflow_transition_dto
     \<Rightarrow> ('m postal_db_scheme, postal_dispatch option) prog"
where
  "transitionPostalDispatch ctx pr dispatchId dto =
     seq (requireDispatch ctx dispatchId) (\<lambda>d.
     seq (lift_result (as_conflict (assertTransition POSTAL_DISPATCH (ys_status d) (wt_status dto)))) (\<lambda>_.
     seq (reads (\<lambda>s. links_of s dispatchId)) (\<lambda>links.
     seq (ensure (\<not> (wt_status dto = ''CLOSED'' \<and> links = []))
            (Conflict ''Cannot close an empty postal dispatch'')) (\<lambda>_.
     seq now (\<lambda>moment.
     transaction (transition_dispatch_tx ctx pr dispatchId dto moment))))))"

section \<open>Postal consignments and events\<close>

definition createPostalConsignment ::
  "tenant_context \<Rightarrow> create_postal_consignment_dto \<Rightarrow> ('m postal_db_scheme, postal_consignment) prog"
where
  "createPostalConsignment ctx dto =
     seq (requirePostalOperator ctx (yc_operatorId dto)) (\<lambda>_.
     seq random_uuid (\<lambda>i.
     create_row postal_consignments postal_consignments_update same_postal_consignment
       (create_postal_consignment_dto.extend dto (postal_consignment.fields i (ctx_tenantId ctx) ''PLANNED''))))"

definition addReceptacleToConsignment ::
  "tenant_context \<Rightarrow> uuid \<Rightarrow> uuid \<Rightarrow> int \<Rightarrow> ('m postal_db_scheme, consignment_receptacle) prog"
where
  "addReceptacleToConsignment ctx consignmentId receptacleId sequence =
     seq (find_row postal_consignments (\<lambda>x. yc_id x = consignmentId \<and> yc_tenantId x = ctx_tenantId ctx)) (\<lambda>found.
     seq (requireReceptacle ctx receptacleId) (\<lambda>r.
     seq (require found (NotFound ''Resource not found'')) (\<lambda>c.
     seq (ensure (\<not> (yc_originImpcCode c \<noteq> ym_originImpcCode r
                  \<or> yc_destinationImpcCode c \<noteq> ym_destinationImpcCode r))
            (Conflict ''Receptacle route does not match the postal consignment'')) (\<lambda>_.
     seq random_uuid (\<lambda>i.
     create_row consignment_receptacles consignment_receptacles_update same_consignment_receptacle
       \<lparr>yg_id = i, yg_tenantId = ctx_tenantId ctx, yg_consignmentId = consignmentId,
        yg_receptacleId = ym_id r, yg_sequence = sequence\<rparr>)))))"

definition ITEM_STATUS_BY_CODE :: "(string \<times> string) list" where
  "ITEM_STATUS_BY_CODE =
     [(''EMA'', ''ACCEPTED''), (''EMB'', ''AT_ORIGIN_OFFICE''), (''EMC'', ''DEPARTED_ORIGIN''),
      (''EMD'', ''ARRIVED_DESTINATION''), (''EMG'', ''CUSTOMS_HELD''), (''EMH'', ''CUSTOMS_RELEASED''),
      (''EMJ'', ''AT_TRANSIT''), (''EMK'', ''DEPARTED_TRANSIT''), (''EMM'', ''DELIVERY_ATTEMPTED''),
      (''EMO'', ''DELIVERED'')]"

definition move_item :: "postal_event_dto \<Rightarrow> ('m postal_db_scheme, unit) prog" where
  "move_item dto = (case (ye_itemId dto, map_of ITEM_STATUS_BY_CODE (ye_code dto)) of
       (Some i, Some status) \<Rightarrow>
         seq (update_row postal_items postal_items_update (\<lambda>x. yi_id x = i)
                (\<lambda>x. x\<lparr>yi_status := status,
                       yi_deliveredAt := (if ye_code dto = ''EMO'' then Some (ye_occurredAt dto) else yi_deliveredAt x),
                       yi_version := yi_version x + 1\<rparr>)) (\<lambda>_.
         ret ())
     | _ \<Rightarrow> ret ())"

definition record_postal_event_tx ::
  "tenant_context \<Rightarrow> auth_principal \<Rightarrow> postal_event_dto \<Rightarrow> ('m postal_db_scheme, postal_event) prog"
where
  "record_postal_event_tx ctx pr dto =
     seq (find_row postal_events (\<lambda>e. ye_tenantId e = ctx_tenantId ctx \<and> ye_standard e = ye_standard dto
            \<and> ye_externalKey e = ye_externalKey dto)) (\<lambda>existing.
     case existing of
       Some e \<Rightarrow> ret e
     | None \<Rightarrow>
         seq random_uuid (\<lambda>i.
         seq (create_row postal_events postal_events_update same_postal_event
                (postal_event_dto.extend dto
                   (postal_event.fields i (ctx_tenantId ctx) (Some (pr_userId pr))))) (\<lambda>e.
         seq (move_item dto) (\<lambda>_.
         seq (freight_audit ctx pr ''postal.event.recorded'' ''PostalEvent'' (ye_id e)) (\<lambda>_.
         ret e)))))"

definition recordPostalEvent ::
  "tenant_context \<Rightarrow> auth_principal \<Rightarrow> postal_event_dto \<Rightarrow> ('m postal_db_scheme, postal_event) prog"
where
  "recordPostalEvent ctx pr dto =
     seq (ensure (\<not> (ye_itemId dto = None \<and> ye_receptacleId dto = None \<and> ye_dispatchId dto = None))
            (Conflict ''Postal event requires an item, receptacle, or dispatch'')) (\<lambda>_.
     seq (require_optional (ye_itemId dto)
            (\<lambda>i. require_row postal_items (\<lambda>x. yi_id x = i \<and> yi_tenantId x = ctx_tenantId ctx))) (\<lambda>_.
     seq (require_optional (ye_receptacleId dto) (requireReceptacle ctx)) (\<lambda>_.
     seq (require_optional (ye_dispatchId dto) (requireDispatch ctx)) (\<lambda>_.
     transaction (record_postal_event_tx ctx pr dto)))))"

section \<open>Tables\<close>

interpretation postal_items: row_store postal_items postal_items_update
  by unfold_locales simp_all

interpretation postal_events: row_store postal_events postal_events_update
  by unfold_locales simp_all

interpretation postal_receptacles: row_store postal_receptacles postal_receptacles_update
  by unfold_locales simp_all

interpretation postal_dispatches: row_store postal_dispatches postal_dispatches_update
  by unfold_locales simp_all

definition fresh_postal :: postal_db where
  "fresh_postal = international_db.extend fresh_international
     (postal_db.fields [] [] [] [] [] [] [] [] [])"

end
