(* ===== verification/Exchange.thy ===== *)
theory Exchange
  imports Postal
begin

text \<open>
  What the postal exchange promises along every run of its operations: nothing empty is closed or
  sent, an event is applied once for its key. \<open>exchange_of\<close> is the part of the state the first
  promise is about. A receptacle that is reopened after it was put into a dispatch shows what is
  not promised.
\<close>

section \<open>Runs\<close>

inductive exchange_step :: "'m postal_db_scheme \<Rightarrow> 'm postal_db_scheme \<Rightarrow> bool" where
  Operator: "createPostalOperator ctx pr yp s = (r1, t) \<Longrightarrow> exchange_step s t"
| Product: "createPostalProduct ctx i yd s = (r2, t) \<Longrightarrow> exchange_step s t"
| Item: "createPostalItem ctx pr yi tn s = (r3, t) \<Longrightarrow> exchange_step s t"
| Receptacle: "createPostalReceptacle ctx yt s = (r4, t) \<Longrightarrow> exchange_step s t"
| Put_Item: "addPostalItem ctx i j s = (r5, t) \<Longrightarrow> exchange_step s t"
| Move_Receptacle: "transitionReceptacle ctx i wt s = (r6, t) \<Longrightarrow> exchange_step s t"
| Dispatch: "createPostalDispatch ctx ys s = (r7, t) \<Longrightarrow> exchange_step s t"
| Put_Receptacle: "addPostalReceptacle ctx i j n s = (r8, t) \<Longrightarrow> exchange_step s t"
| Move_Dispatch: "transitionPostalDispatch ctx pr i wt s = (r9, t) \<Longrightarrow> exchange_step s t"
| Consignment: "createPostalConsignment ctx yc s = (r10, t) \<Longrightarrow> exchange_step s t"
| Ship_Receptacle: "addReceptacleToConsignment ctx i j n s = (r11, t) \<Longrightarrow> exchange_step s t"
| Event: "recordPostalEvent ctx pr ye s = (r12, t) \<Longrightarrow> exchange_step s t"

lemmas exchange_reads = requirePostalOperator_def requireDispatch_def requireReceptacle_def requireHandlingUnit_def
  require_row_def require_optional_def

section \<open>Nothing empty is closed\<close>

text \<open>Receptacles and dispatches with their status, and what was put where.\<close>

definition exchange_of ::
  "'m postal_db_scheme \<Rightarrow> (uuid \<times> string) list \<times> (uuid \<times> string) list \<times> uuid list \<times> (uuid \<times> uuid) list"
where
  "exchange_of s = (map (\<lambda>r. (ym_id r, ym_status r)) (postal_receptacles s),
     map (\<lambda>d. (ys_id d, ys_status d)) (postal_dispatches s),
     map yr_receptacleId (receptacle_items s),
     map (\<lambda>l. (yl_dispatchId l, yl_receptacleId l)) (dispatch_receptacles s))"

definition filled ::
  "(uuid \<times> string) list \<times> (uuid \<times> string) list \<times> uuid list \<times> (uuid \<times> uuid) list \<Rightarrow> bool"
where
  "filled v \<longleftrightarrow> (case v of (rs, ds, is, ls) \<Rightarrow> distinct (map fst rs) \<and> distinct (map fst ds)
     \<and> (\<forall>(i, status)\<in>set rs. status \<noteq> ''OPEN'' \<longrightarrow> i \<in> set is)
     \<and> (\<forall>(d, i)\<in>set ls. i \<in> set is)
     \<and> (\<forall>(i, status)\<in>set ds. status \<notin> {''OPEN'', ''CANCELLED''} \<longrightarrow> i \<in> fst ` set ls))"

abbreviation exchange_filled :: "'m postal_db_scheme \<Rightarrow> bool" where
  "exchange_filled s \<equiv> filled (exchange_of s)"

lemma exchange_more: "runtime.more t = runtime.more s \<Longrightarrow> exchange_of t = exchange_of s"
  for s t :: "'m postal_db_scheme"
  by (cases s; cases t) (simp add: exchange_of_def)

lemma exchange_filled_more: "runtime.more t = runtime.more s \<Longrightarrow> exchange_filled s \<Longrightarrow> exchange_filled t"
  for s t :: "'m postal_db_scheme"
  using exchange_more [of t s] by simp

lemma keeps_exchange:
  "keeps exchange_of (createPostalOperator ctx pr yp)"
  "keeps exchange_of (createPostalProduct ctx i yd)"
  "keeps exchange_of (createPostalItem ctx pr yi tn)"
  "keeps exchange_of (createPostalConsignment ctx yc)"
  "keeps exchange_of (addReceptacleToConsignment ctx i j n)"
  "keeps exchange_of (recordPostalEvent ctx pr ye)"
  unfolding createPostalOperator_def createPostalProduct_def createPostalItem_def createPostalConsignment_def
    addReceptacleToConsignment_def recordPostalEvent_def record_postal_event_tx_def move_item_def exchange_reads
    freight_audit_def freight_outbox_def
  by (intro keeps_intros; (erule exchange_more | simp add: exchange_of_def))+

lemma exchange_quiet:
  "keeps exchange_of (now :: ('m postal_db_scheme, instant) prog)"
  "keeps exchange_of (random_uuid :: ('m postal_db_scheme, uuid) prog)"
  "keeps exchange_of (freight_audit ctx pr a b i)"
  unfolding freight_audit_def by (intro keeps_intros; simp add: exchange_of_def)+

lemmas exchange_before = exchange_quiet [THEN keepsD]

lemma exchange_found [simp]:
  "requireReceptacle ctx i s = (Inr r, t) \<longleftrightarrow>
     List.find (\<lambda>x. ym_id x = i \<and> ym_tenantId x = ctx_tenantId ctx) (postal_receptacles s) = Some r \<and> t = s"
  "requireDispatch ctx i s = (Inr d, t) \<longleftrightarrow>
     List.find (\<lambda>x. ys_id x = i \<and> ys_tenantId x = ctx_tenantId ctx) (postal_dispatches s) = Some d \<and> t = s"
  "requirePostalOperator ctx i s = (Inr p, t) \<longleftrightarrow>
     List.find (\<lambda>x. yo_id x = i \<and> yo_tenantId x = ctx_tenantId ctx) (postal_operators s) = Some p \<and> t = s"
  for s :: "'m postal_db_scheme"
  by (auto simp: requireReceptacle_def requireDispatch_def requirePostalOperator_def require_row_def)

lemma receptacle_filled:
  fixes s :: "'m postal_db_scheme"
  assumes "exchange_filled s" and "createPostalReceptacle ctx yt s = (Inr r, t)"
  shows "exchange_filled t"
proof -
  obtain i and u :: "'m postal_db_scheme" where u: "random_uuid s = (Inr i, u)" and
    t: "create_row postal_receptacles postal_receptacles_update same_receptacle r u = (Inr r, t)" "ym_status r = ''OPEN''"
    using assms(2) unfolding createPostalReceptacle_def require_optional_def requireHandlingUnit_def require_row_def
    by (auto simp del: random_uuid_Inr split: option.splits)
  have "ym_id r \<notin> ym_id ` set (postal_receptacles u)" using t(1) by (auto simp: same_receptacle_def)
  moreover have "exchange_filled u" using assms(1) exchange_before(2) [OF u] by simp
  ultimately show ?thesis using t by (auto simp: exchange_of_def filled_def comp_def)
qed

lemma dispatch_filled:
  fixes s :: "'m postal_db_scheme"
  assumes "exchange_filled s" and "createPostalDispatch ctx ys s = (Inr d, t)"
  shows "exchange_filled t"
proof -
  obtain i and u :: "'m postal_db_scheme" where u: "random_uuid s = (Inr i, u)" and
    d: "d = create_dispatch_dto.extend ys (postal_dispatch.fields i (ctx_tenantId ctx) ''OPEN'' None None None 1)" and
    t: "create_row postal_dispatches postal_dispatches_update same_dispatch d u = (Inr d, t)"
    using assms(2) unfolding createPostalDispatch_def by (auto simp del: random_uuid_Inr)
  have "ys_status d = ''OPEN''"
    unfolding d by (cases ys) (simp add: create_dispatch_dto.defs postal_dispatch.defs)
  moreover have "ys_id d \<notin> ys_id ` set (postal_dispatches u)" using t by (auto simp: same_dispatch_def)
  moreover have "exchange_filled u" using assms(1) exchange_before(2) [OF u] by simp
  ultimately show ?thesis using t by (auto simp: exchange_of_def filled_def comp_def)
qed

lemma item_filled:
  fixes s :: "'m postal_db_scheme"
  assumes "exchange_filled s" and "addPostalItem ctx i j s = (Inr x, t)"
  shows "exchange_filled t"
proof -
  obtain k and u :: "'m postal_db_scheme" where u: "random_uuid s = (Inr k, u)" and
    t: "create_row receptacle_items receptacle_items_update same_receptacle_item x u = (Inr x, t)"
    using assms(2) unfolding addPostalItem_def require_row_def by (auto simp del: random_uuid_Inr)
  have "exchange_filled u" using assms(1) exchange_before(2) [OF u] by simp
  then show ?thesis using t by (auto simp: exchange_of_def filled_def)
qed

lemma link_filled:
  fixes s :: "'m postal_db_scheme"
  assumes "exchange_filled s" and "addPostalReceptacle ctx i j n s = (Inr l, t)"
  shows "exchange_filled t"
proof -
  obtain r k and u :: "'m postal_db_scheme" where
    r: "List.find (\<lambda>x. ym_id x = j \<and> ym_tenantId x = ctx_tenantId ctx) (postal_receptacles s) = Some r"
      "ym_status r = ''CLOSED''" and
    u: "random_uuid s = (Inr k, u)" and
    t: "create_row dispatch_receptacles dispatch_receptacles_update same_dispatch_receptacle l u = (Inr l, t)"
      "yl_receptacleId l = ym_id r"
    using assms(2) unfolding addPostalReceptacle_def by (auto simp del: random_uuid_Inr)
  have "ym_id r \<in> set (map yr_receptacleId (receptacle_items s))"
    using assms(1) find_SomeD [OF r(1)] r(2) by (auto simp: exchange_of_def filled_def)
  moreover have "exchange_of u = exchange_of s" by (rule exchange_before(2) [OF u])
  ultimately show ?thesis using assms(1) t by (auto simp: exchange_of_def filled_def)
qed

lemma exchange_filled_rows: "exchange_filled s \<longleftrightarrow>
    distinct (map ym_id (postal_receptacles s)) \<and> distinct (map ys_id (postal_dispatches s))
    \<and> (\<forall>r\<in>set (postal_receptacles s). ym_status r \<noteq> ''OPEN'' \<longrightarrow> ym_id r \<in> yr_receptacleId ` set (receptacle_items s))
    \<and> (\<forall>l\<in>set (dispatch_receptacles s). yl_receptacleId l \<in> yr_receptacleId ` set (receptacle_items s))
    \<and> (\<forall>d\<in>set (postal_dispatches s). ys_status d \<notin> {''OPEN'', ''CANCELLED''} \<longrightarrow>
         ys_id d \<in> yl_dispatchId ` set (dispatch_receptacles s))"
  by (simp add: filled_def exchange_of_def comp_def image_comp)

lemma receptacles_moved:
  assumes "exchange_filled s" and "\<And>x. ym_id (f x) = ym_id x"
    and "\<And>x. x \<in> set (postal_receptacles s) \<Longrightarrow> P x \<Longrightarrow> ym_status (f x) \<noteq> ''OPEN'' \<Longrightarrow>
      ym_id x \<in> yr_receptacleId ` set (receptacle_items s)"
  shows "exchange_filled (postal_receptacles_update (update_where P f) s)"
proof -
  have "map ym_id (update_where P f (postal_receptacles s)) = map ym_id (postal_receptacles s)"
    by (rule map_update_where) (rule assms(2))
  moreover have "ym_id y \<in> yr_receptacleId ` set (receptacle_items s)"
    if "y \<in> set (update_where P f (postal_receptacles s))" "ym_status y \<noteq> ''OPEN''" for y
  proof -
    from that(1) obtain x where x: "x \<in> set (postal_receptacles s)" "y = (if P x then f x else x)"
      by (auto simp: update_where_def)
    show ?thesis
    proof (cases "P x")
      case True
      with x that(2) assms(3) [OF x(1)] show ?thesis by (simp add: assms(2))
    next
      case False
      with x that(2) assms(1) show ?thesis unfolding exchange_filled_rows by simp
    qed
  qed
  ultimately show ?thesis using assms(1) unfolding exchange_filled_rows by simp
qed

lemma dispatches_moved:
  assumes "exchange_filled s" and "\<And>x. ys_id (f x) = ys_id x"
    and "\<And>x. x \<in> set (postal_dispatches s) \<Longrightarrow> P x \<Longrightarrow> ys_status (f x) \<notin> {''OPEN'', ''CANCELLED''} \<Longrightarrow>
      ys_id x \<in> yl_dispatchId ` set (dispatch_receptacles s)"
  shows "exchange_filled (postal_dispatches_update (update_where P f) s)"
proof -
  have "map ys_id (update_where P f (postal_dispatches s)) = map ys_id (postal_dispatches s)"
    by (rule map_update_where) (rule assms(2))
  moreover have "ys_id y \<in> yl_dispatchId ` set (dispatch_receptacles s)"
    if "y \<in> set (update_where P f (postal_dispatches s))" "ys_status y \<notin> {''OPEN'', ''CANCELLED''}" for y
  proof -
    from that(1) obtain x where x: "x \<in> set (postal_dispatches s)" "y = (if P x then f x else x)"
      by (auto simp: update_where_def)
    show ?thesis
    proof (cases "P x")
      case True
      with x that(2) assms(3) [OF x(1)] show ?thesis by (simp add: assms(2))
    next
      case False
      with x that(2) assms(1) show ?thesis unfolding exchange_filled_rows by simp
    qed
  qed
  ultimately show ?thesis using assms(1) unfolding exchange_filled_rows by simp
qed

lemma despatch_filled: "always exchange_filled (despatch_receptacles ctx i)"
proof (rule alwaysI)
  fix s t :: "'a postal_db_scheme" and r
  assume filled: "exchange_filled s" and run: "despatch_receptacles ctx i s = (r, t)"
  let ?ids = "set (map yl_receptacleId (filter (\<lambda>x. yl_tenantId x = ctx_tenantId ctx \<and> yl_dispatchId x = i) (dispatch_receptacles s)))"
  have t: "t = postal_receptacles_update (update_where (\<lambda>x. ym_id x \<in> ?ids)
      (\<lambda>x. x\<lparr>ym_status := ''DESPATCHED'', ym_version := ym_version x + 1\<rparr>)) s"
    using run by (simp add: despatch_receptacles_def seq_def find_rows_def reads_def update_many_def ret_def)
  have "?ids \<subseteq> yr_receptacleId ` set (receptacle_items s)"
    using filled unfolding exchange_filled_rows by auto
  then show "exchange_filled t" unfolding t by (intro receptacles_moved [OF filled]) auto
qed

lemma receptacle_leaves_open: "permits RECEPTACLE_TRANSITIONS ''OPEN'' b \<Longrightarrow> b = ''CLOSED''"
  by (simp add: permits_def RECEPTACLE_TRANSITIONS_def)

lemma quiet_never_throws [simp]:
  "now s \<noteq> (Inl e, t)" "random_uuid s' \<noteq> (Inl e', t')" "update_many rows modify P f r \<noteq> (Inl e'', u)"
  "count_rows rows' Q v \<noteq> (Inl f', w)"
  by (simp_all add: now_def random_uuid_def update_many_def count_rows_def reads_def)

lemma receptacle_moved:
  fixes s t :: "'m postal_db_scheme"
  assumes "transitionReceptacle ctx i wt s = (res, t)"
  shows "t = s \<or> (\<exists>r m u. List.find (\<lambda>x. ym_id x = i \<and> ym_tenantId x = ctx_tenantId ctx) (postal_receptacles s) = Some r
      \<and> permits RECEPTACLE_TRANSITIONS (ym_status r) (wt_status wt)
      \<and> (wt_status wt = ''CLOSED'' \<longrightarrow> i \<in> yr_receptacleId ` set (receptacle_items s)) \<and> now s = (Inr m, u)
      \<and> t = postal_receptacles_update (update_where (\<lambda>x. ym_id x = i \<and> ym_tenantId x = ctx_tenantId ctx
              \<and> ym_version x = wt_version wt) (move_receptacle (wt_status wt) m)) u)"
proof -
  have some: "length (filter (\<lambda>x. yr_tenantId x = ctx_tenantId ctx \<and> yr_receptacleId x = i) (receptacle_items s)) \<noteq> 0
      \<Longrightarrow> i \<in> yr_receptacleId ` set (receptacle_items s)" by (auto simp: filter_empty_conv)
  show ?thesis
  proof (cases res)
    case (Inl e)
    then show ?thesis using assms some unfolding transitionReceptacle_def requireReceptacle_def require_row_def
      by (auto simp del: now_Inr)
  next
    case (Inr x)
    then show ?thesis using assms some unfolding transitionReceptacle_def
      by (auto simp del: now_Inr)
  qed
qed

lemma receptacle_moved_filled: "always exchange_filled (transitionReceptacle ctx i wt)"
proof (rule alwaysI)
  fix s t :: "'a postal_db_scheme" and res
  assume filled: "exchange_filled s" and run: "transitionReceptacle ctx i wt s = (res, t)"
  from receptacle_moved [OF run] show "exchange_filled t"
  proof (elim disjE exE conjE)
    fix r m u
    assume r: "List.find (\<lambda>x. ym_id x = i \<and> ym_tenantId x = ctx_tenantId ctx) (postal_receptacles s) = Some r"
      and ok: "permits RECEPTACLE_TRANSITIONS (ym_status r) (wt_status wt)"
        "wt_status wt = ''CLOSED'' \<longrightarrow> i \<in> yr_receptacleId ` set (receptacle_items s)"
      and u: "now s = (Inr m, u)"
      and t: "t = postal_receptacles_update (update_where (\<lambda>x. ym_id x = i \<and> ym_tenantId x = ctx_tenantId ctx
        \<and> ym_version x = wt_version wt) (move_receptacle (wt_status wt) m)) u"
    have items: "receptacle_items u = receptacle_items s" using u by auto
    have "i \<in> yr_receptacleId ` set (receptacle_items s)"
    proof (cases "ym_status r = ''OPEN''")
      case True
      then show ?thesis using ok receptacle_leaves_open by simp
    next
      case False
      then show ?thesis using filled find_SomeD [OF r] unfolding exchange_filled_rows by auto
    qed
    then show "exchange_filled t" unfolding t
      using filled exchange_before(1) [OF u] items by (intro receptacles_moved) (auto simp: move_receptacle_def)
  qed (use filled in simp)
qed

lemma dispatch_leaves_open: "assertTransition POSTAL_DISPATCH ''OPEN'' b = Inr () \<Longrightarrow> b \<in> {''CLOSED'', ''CANCELLED''}"
  "assertTransition POSTAL_DISPATCH ''CANCELLED'' b \<noteq> Inr ()"
  by (simp_all add: assertTransition_def POSTAL_DISPATCH_TRANSITIONS_def split: if_splits)

lemma dispatch_moved_filled:
  fixes s t :: "'m postal_db_scheme"
  assumes filled: "exchange_filled s" and run: "transitionPostalDispatch ctx pr i wt s = (Inr x, t)"
  shows "exchange_filled t"
proof -
  obtain d m and u :: "'m postal_db_scheme" where
    d: "List.find (\<lambda>x. ys_id x = i \<and> ys_tenantId x = ctx_tenantId ctx) (postal_dispatches s) = Some d" and
    ok: "as_conflict (assertTransition POSTAL_DISPATCH (ys_status d) (wt_status wt)) = Inr ()"
      "wt_status wt = ''CLOSED'' \<longrightarrow> links_of s i \<noteq> []" and
    u: "now s = (Inr m, u)" and tx: "transition_dispatch_tx ctx pr i wt m u = (Inr x, t)"
    using run unfolding transitionPostalDispatch_def by (auto simp del: now_Inr)
  let ?P = "\<lambda>x. ys_id x = i \<and> ys_tenantId x = ctx_tenantId ctx \<and> ys_version x = wt_version wt"
  let ?v = "postal_dispatches_update (update_where ?P (move_dispatch (wt_status wt) m)) u"
  let ?rest = "seq (when_do (wt_status wt = ''HANDED_OVER'') (despatch_receptacles ctx i)) (\<lambda>_.
     seq (freight_audit ctx pr (''postal.dispatch.'' @ map lower_char (wt_status wt)) ''PostalDispatch'' i) (\<lambda>_.
     find_row postal_dispatches (\<lambda>x. ys_id x = i)))"
  have step: "assertTransition POSTAL_DISPATCH (ys_status d) (wt_status wt) = Inr ()"
    using ok(1) by (auto simp: as_conflict_def split: sum.splits app_error.splits)
  have links: "i \<in> yl_dispatchId ` set (dispatch_receptacles s)" if "wt_status wt \<notin> {''OPEN'', ''CANCELLED''}"
  proof (cases "ys_status d \<in> {''OPEN'', ''CANCELLED''}")
    case True
    then have "wt_status wt = ''CLOSED''" using step that dispatch_leaves_open by (metis insertE singletonD insertI2)
    with ok(2) show ?thesis by (auto simp: links_of_def filter_empty_conv)
  next
    case False
    then show ?thesis using filled find_SomeD [OF d] unfolding exchange_filled_rows by auto
  qed
  have "dispatch_receptacles u = dispatch_receptacles s" using u by auto
  with links filled exchange_before(1) [OF u] have "exchange_filled ?v"
    by (intro dispatches_moved) (auto simp: move_dispatch_def)
  moreover have "always exchange_filled ?rest"
    by (intro always_seq always_when_do despatch_filled exchange_quiet [THEN always_keeps] keeps_find_row [THEN always_keeps])
  moreover have "?rest ?v = (Inr x, t)"
    using tx unfolding transition_dispatch_tx_def seq_Inr [of "update_many _ _ _ _"] seq_Inr [of "ensure _ _"] by auto
  ultimately show ?thesis by (blast dest: alwaysD)
qed

lemma atomic_exchange:
  "atomic (createPostalReceptacle ctx yt :: ('m postal_db_scheme, _) prog)"
  "atomic (createPostalDispatch ctx ys :: ('m postal_db_scheme, _) prog)"
  "atomic (addPostalItem ctx i j :: ('m postal_db_scheme, _) prog)"
  "atomic (addPostalReceptacle ctx i j n :: ('m postal_db_scheme, _) prog)"
  "atomic (transitionPostalDispatch ctx pr i wt :: ('m postal_db_scheme, _) prog)"
  unfolding createPostalReceptacle_def createPostalDispatch_def addPostalItem_def addPostalReceptacle_def
    transitionPostalDispatch_def exchange_reads
  by (intro atomic_intros keeps_intros; simp)+

lemma always_exchange:
  "always exchange_filled (createPostalReceptacle ctx yt)"
  "always exchange_filled (createPostalDispatch ctx ys)"
  "always exchange_filled (addPostalItem ctx i j)"
  "always exchange_filled (addPostalReceptacle ctx i j n)"
  "always exchange_filled (transitionPostalDispatch ctx pr i wt)"
  by (rule always_atomic [OF atomic_exchange(1) exchange_filled_more receptacle_filled]
      always_atomic [OF atomic_exchange(2) exchange_filled_more dispatch_filled]
      always_atomic [OF atomic_exchange(3) exchange_filled_more item_filled]
      always_atomic [OF atomic_exchange(4) exchange_filled_more link_filled]
      always_atomic [OF atomic_exchange(5) exchange_filled_more dispatch_moved_filled]; assumption)+

lemmas exchange_promises = keeps_exchange [THEN always_keeps, of filled, THEN alwaysD]
  receptacle_moved_filled [THEN alwaysD] always_exchange [THEN alwaysD]

lemma exchange_step_filled: "exchange_step s t \<Longrightarrow> exchange_filled s \<Longrightarrow> exchange_filled t"
  by (induction rule: exchange_step.induct) (blast intro: exchange_promises)+

lemma exchange_run_filled: "exchange_step\<^sup>*\<^sup>* s t \<Longrightarrow> exchange_filled s \<Longrightarrow> exchange_filled t"
  by (induction rule: rtranclp_induct) (auto intro: exchange_step_filled)

section \<open>An event is applied once\<close>

text \<open>What an event may refer to: the rows of the tenants, which recording an event keeps.\<close>

definition references_of ::
  "'m postal_db_scheme \<Rightarrow> (uuid \<times> uuid) list \<times> (uuid \<times> uuid) list \<times> (uuid \<times> uuid) list" where
  "references_of s = (map (\<lambda>x. (yi_id x, yi_tenantId x)) (postal_items s),
     map (\<lambda>x. (ym_id x, ym_tenantId x)) (postal_receptacles s),
     map (\<lambda>x. (ys_id x, ys_tenantId x)) (postal_dispatches s))"

definition refers :: "uuid option \<Rightarrow> uuid \<Rightarrow> (uuid \<times> uuid) list \<Rightarrow> bool" where
  "refers i tenant rows \<longleftrightarrow> (case i of None \<Rightarrow> True | Some j \<Rightarrow> (j, tenant) \<in> set rows)"

definition event_ready ::
  "tenant_context \<times> auth_principal \<times> postal_event_dto \<Rightarrow> 'm postal_db_scheme \<Rightarrow> bool" where
  "event_ready x s \<longleftrightarrow> (case (x, references_of s) of ((ctx, pr, dto), (is, rs, ds)) \<Rightarrow>
     \<not> (ye_itemId dto = None \<and> ye_receptacleId dto = None \<and> ye_dispatchId dto = None)
     \<and> refers (ye_itemId dto) (ctx_tenantId ctx) is \<and> refers (ye_receptacleId dto) (ctx_tenantId ctx) rs
     \<and> refers (ye_dispatchId dto) (ctx_tenantId ctx) ds)"

definition event_known ::
  "tenant_context \<times> auth_principal \<times> postal_event_dto \<Rightarrow> 'm postal_db_scheme \<Rightarrow> postal_event option" where
  "event_known x s = (case x of (ctx, pr, dto) \<Rightarrow> List.find (\<lambda>e. ye_tenantId e = ctx_tenantId ctx
     \<and> ye_standard e = ye_standard dto \<and> ye_externalKey e = ye_externalKey dto) (postal_events s))"

lemma references_more: "runtime.more t = runtime.more s \<Longrightarrow> references_of t = references_of s"
  for s t :: "'m postal_db_scheme"
  by (cases s; cases t) (simp add: references_of_def)

lemma keeps_move_item: "keeps references_of (move_item dto)"
proof -
  have "keeps references_of (update_row postal_items postal_items_update P
      (\<lambda>x. x\<lparr>yi_status := status, yi_deliveredAt := f x, yi_version := yi_version x + 1\<rparr>))" for P status f
    by (simp add: keeps_def update_row_def references_of_def map_update_first split: option.splits)
  then show ?thesis unfolding move_item_def by (intro keeps_prod keeps_option keeps_seq keeps_ret)
qed

lemma keeps_references: "keeps references_of (recordPostalEvent ctx pr dto)"
  unfolding recordPostalEvent_def record_postal_event_tx_def exchange_reads freight_audit_def
  by (intro keeps_move_item keeps_intros; (erule references_more | simp add: references_of_def))

lemma find_some_iff: "(\<exists>x. List.find P xs = Some x) \<longleftrightarrow> (\<exists>x\<in>set xs. P x)"
  by (metis find_None_iff2 not_None_eq)

lemma required_row:
  "require_optional i (\<lambda>j. require_row rows (\<lambda>x. key x = j \<and> tenant x = t)) s = (Inr x, u) \<longleftrightarrow>
     refers i t (map (\<lambda>x. (key x, tenant x)) (rows s)) \<and> u = s"
  by (cases i) (auto simp: require_optional_def require_row_def refers_def find_some_iff image_iff)

lemma event_run: "recordPostalEvent ctx pr dto s = (Inr e, t) \<longleftrightarrow>
    event_ready (ctx, pr, dto) s \<and> record_postal_event_tx ctx pr dto s = (Inr e, t)"
  unfolding recordPostalEvent_def requireReceptacle_def requireDispatch_def seq_Inr ensure_Inr required_row transaction_Inr
  by (simp add: event_ready_def references_of_def)

lemma event_stored:
  fixes s :: "'m postal_db_scheme"
  assumes "record_postal_event_tx ctx pr dto s = (Inr e, t)"
  shows "event_known (ctx, pr, dto) t = Some e"
proof (cases "event_known (ctx, pr, dto) s")
  case (Some y)
  with assms show ?thesis by (simp add: record_postal_event_tx_def event_known_def)
next
  case None
  then obtain i and u v w :: "'m postal_db_scheme" where u: "random_uuid s = (Inr i, u)" and
    v: "v = postal_events_update (\<lambda>rs. rs @ [e]) u" and
    e: "e = postal_event_dto.extend dto (postal_event.fields i (ctx_tenantId ctx) (Some (pr_userId pr)))" and
    w: "move_item dto v = (Inr (), w)" and
    t: "freight_audit ctx pr ''postal.event.recorded'' ''PostalEvent'' (ye_id e) w = (Inr (), t)"
    using assms unfolding record_postal_event_tx_def event_known_def by (auto simp del: random_uuid_Inr)
  have quiet: "keeps postal_events (move_item dto :: ('m postal_db_scheme, _) prog)"
    "keeps postal_events (freight_audit ctx pr a b j :: ('m postal_db_scheme, _) prog)" for a b j
    unfolding move_item_def freight_audit_def by (intro keeps_intros; simp)+
  have "postal_events t = postal_events v" using keepsD [OF quiet(1) w] keepsD [OF quiet(2) t] by simp
  moreover have "postal_events u = postal_events s" using u by auto
  moreover have "ye_tenantId e = ctx_tenantId ctx \<and> ye_standard e = ye_standard dto \<and> ye_externalKey e = ye_externalKey dto"
    unfolding e by (cases dto) (simp add: postal_event_dto.defs postal_event.defs)
  ultimately show ?thesis using None by (simp add: event_known_def v find_append)
qed

interpretation postal_event: idempotent_command
  "\<lambda>(ctx, pr, dto). recordPostalEvent ctx pr dto" event_known event_ready "\<lambda>e. e"
proof (unfold_locales, goal_cases)
  case (1 x s e t)
  obtain ctx pr dto where x: "x = (ctx, pr, dto)" by (cases x)
  from 1 have run: "recordPostalEvent ctx pr dto s = (Inr e, t)" by (simp add: x)
  then have "event_ready x s" "event_known x t = Some e" by (auto simp: x event_run intro: event_stored)
  moreover have "references_of t = references_of s" by (rule keepsD [OF keeps_references run])
  ultimately show ?case by (simp add: x event_ready_def)
next
  case (2 x s e)
  then show ?case
    by (cases x) (simp add: event_run, simp add: record_postal_event_tx_def event_known_def)
qed

section \<open>A concrete exchange\<close>

definition some_receptacle :: postal_receptacle where
  "some_receptacle = \<lparr>ym_id = ''bag'', ym_tenantId = ''tenant'', ym_operatorId = ''post'', ym_handlingUnitId = None,
     ym_receptacleId = ''BAG-1'', ym_type = ''BAG'', ym_mailCategory = ''A'', ym_originImpcCode = ''USJFKA'',
     ym_destinationImpcCode = ''DEFRAA'', ym_status = ''OPEN'', ym_sealNumber = None, ym_closedAt = None,
     ym_openedAt = None, ym_version = 1\<rparr>"

definition some_dispatch :: postal_dispatch where
  "some_dispatch = \<lparr>ys_operatorId = ''post'', ys_dispatchId = ''D-1'', ys_originImpcCode = ''USJFKA'',
     ys_destinationImpcCode = ''DEFRAA'', ys_mailCategory = ''A'', ys_dispatchNumber = 1,
     ys_scheduledDepartureAt = None, ys_id = ''dispatch'', ys_tenantId = ''tenant'', ys_status = ''OPEN'',
     ys_closedAt = None, ys_handedOverAt = None, ys_receivedAt = None, ys_version = 1\<rparr>"

definition some_item :: postal_item where
  "some_item = \<lparr>yi_operatorId = ''post'', yi_productId = ''letter'', yi_originCountryCode = ''US'',
     yi_destinationCountryCode = ''DE'', yi_sender = JNull, yi_recipient = JNull, yi_contentDescription = ''Letter'',
     yi_weightGrams = 20, yi_dimensions = None, yi_declaredValueMinor = 0, yi_currency = ''USD'',
     yi_customsData = None, yi_postageMinor = 150, yi_id = ''item'', yi_tenantId = ''tenant'',
     yi_customerId = ''user'', yi_s10Identifier = ''RR473124829US'', yi_status = ''ACCEPTED'',
     yi_deliveredAt = None, yi_version = 1\<rparr>"

definition some_exchange :: postal_db where
  "some_exchange = fresh_postal\<lparr>postal_receptacles := [some_receptacle], postal_dispatches := [some_dispatch],
     postal_items := [some_item], receptacle_items :=
       [\<lparr>yr_id = ''first'', yr_tenantId = ''tenant'', yr_receptacleId = ''bag'', yr_itemId = ''item''\<rparr>]\<rparr>"

definition bag_to :: "string \<Rightarrow> int \<Rightarrow> postal_db \<Rightarrow> postal_db" where
  "bag_to status version s = snd (transitionReceptacle some_context ''bag'' \<lparr>wt_status = status, wt_version = version\<rparr> s)"

definition dispatch_to :: "string \<Rightarrow> int \<Rightarrow> postal_db \<Rightarrow> postal_db" where
  "dispatch_to status version s = snd (transitionPostalDispatch some_context some_principal ''dispatch''
     \<lparr>wt_status = status, wt_version = version\<rparr> s)"

text \<open>The bag is closed, put into the dispatch and opened again; then the dispatch is closed and handed over.\<close>

definition reopened_exchange :: postal_db where
  "reopened_exchange = dispatch_to ''CLOSED'' 1 (bag_to ''OPEN'' 2
     (snd (addPostalReceptacle some_context ''dispatch'' ''bag'' 1 (bag_to ''CLOSED'' 1 some_exchange))))"

definition handed_exchange :: postal_db where
  "handed_exchange = dispatch_to ''HANDED_OVER'' 2 reopened_exchange"

lemma exchange_runs: "exchange_step\<^sup>*\<^sup>* some_exchange reopened_exchange" "exchange_step\<^sup>*\<^sup>* reopened_exchange handed_exchange"
proof -
  have then_step: "exchange_step\<^sup>*\<^sup>* a b \<Longrightarrow> exchange_step b c \<Longrightarrow> exchange_step\<^sup>*\<^sup>* a c" for a b c :: postal_db by simp
  have bag: "exchange_step s (bag_to st n s)" and dispatch: "exchange_step s (dispatch_to st n s)" for s st n
    unfolding bag_to_def dispatch_to_def
    by (rule exchange_step.Move_Receptacle exchange_step.Move_Dispatch, rule surjective_pairing)+
  have link: "exchange_step s (snd (addPostalReceptacle some_context ''dispatch'' ''bag'' 1 s))" for s :: postal_db
    by (rule exchange_step.Put_Receptacle, rule surjective_pairing)
  show "exchange_step\<^sup>*\<^sup>* some_exchange reopened_exchange" unfolding reopened_exchange_def
    by (rule then_step [OF then_step [OF then_step [OF r_into_rtranclp [of exchange_step, OF bag] link] bag] dispatch])
  show "exchange_step\<^sup>*\<^sup>* reopened_exchange handed_exchange" unfolding handed_exchange_def
    by (rule r_into_rtranclp [of exchange_step, OF dispatch])
qed

lemma some_exchange_filled: "exchange_filled some_exchange"
  by (simp add: exchange_filled_rows some_exchange_def some_receptacle_def some_dispatch_def fresh_postal_def
      fresh_international_def postal_db.defs international_db.defs)

definition handover_scene :: "postal_db \<Rightarrow> bool" where
  "handover_scene s \<longleftrightarrow> map (\<lambda>r. (ym_id r, ym_status r)) (postal_receptacles s) = [(''bag'', ''OPEN'')]
     \<and> map ys_status (postal_dispatches s) = [''CLOSED'']
     \<and> map (\<lambda>r. (ym_id r, ym_status r)) (postal_receptacles (dispatch_to ''HANDED_OVER'' 2 s)) = [(''bag'', ''DESPATCHED'')]"

lemma reopened_scene: "handover_scene reopened_exchange"
  by code_simp

lemmas handed_scene = reopened_scene [unfolded handover_scene_def, folded handed_exchange_def]

section \<open>Properties\<close>

text \<open>
  C35. Along every run of the postal operations, refused calls included, a receptacle that was closed
  holds an item, and a dispatch that was closed holds a receptacle, each of them with an item in it.
\<close>

theorem postal_never_empty:
  assumes "exchange_step\<^sup>*\<^sup>* s t" and "exchange_filled s"
  shows "(\<forall>r\<in>set (postal_receptacles t). ym_status r \<noteq> ''OPEN'' \<longrightarrow>
       (\<exists>x\<in>set (receptacle_items t). yr_receptacleId x = ym_id r))
    \<and> (\<forall>d\<in>set (postal_dispatches t). ys_status d \<notin> {''OPEN'', ''CANCELLED''} \<longrightarrow> links_of t (ys_id d) \<noteq> [])
    \<and> (\<forall>l\<in>set (dispatch_receptacles t). \<exists>x\<in>set (receptacle_items t). yr_receptacleId x = yl_receptacleId l)"
proof -
  note rows = exchange_run_filled [OF assms, unfolded exchange_filled_rows image_iff]
  have "\<exists>x\<in>set (receptacle_items t). yr_receptacleId x = ym_id r"
    if "r \<in> set (postal_receptacles t)" "ym_status r \<noteq> ''OPEN''" for r
    using rows that by (metis (no_types, lifting))
  moreover have "links_of t (ys_id d) \<noteq> []"
    if "d \<in> set (postal_dispatches t)" "ys_status d \<notin> {''OPEN'', ''CANCELLED''}" for d
  proof -
    from rows that obtain l where "l \<in> set (dispatch_receptacles t)" "ys_id d = yl_dispatchId l" by blast
    then show ?thesis by (auto simp: links_of_def filter_empty_conv)
  qed
  moreover have "\<exists>x\<in>set (receptacle_items t). yr_receptacleId x = yl_receptacleId l"
    if "l \<in> set (dispatch_receptacles t)" for l
    using rows that by (metis (no_types, lifting))
  ultimately show ?thesis by blast
qed

theorem postal_never_empty_witness:
  "\<exists>t. exchange_step\<^sup>*\<^sup>* some_exchange t
     \<and> map (\<lambda>r. (ym_id r, ym_status r)) (postal_receptacles t) = [(''bag'', ''DESPATCHED'')]
     \<and> (\<exists>x\<in>set (receptacle_items t). yr_receptacleId x = ''bag'')"
proof -
  have bags: "map (\<lambda>r. (ym_id r, ym_status r)) (postal_receptacles handed_exchange) = [(''bag'', ''DESPATCHED'')]"
    using handed_scene by simp
  then obtain r where r: "r \<in> set (postal_receptacles handed_exchange)" "ym_id r = ''bag''" "ym_status r \<noteq> ''OPEN''"
    by (auto simp: map_eq_Cons_conv)
  have run: "exchange_step\<^sup>*\<^sup>* some_exchange handed_exchange" by (rule rtranclp_trans [OF exchange_runs])
  have "\<exists>x\<in>set (receptacle_items handed_exchange). yr_receptacleId x = ym_id r"
    by (rule postal_never_empty [OF run some_exchange_filled, THEN conjunct1, THEN bspec, OF r(1), THEN mp, OF r(3)])
  then show ?thesis by (intro exI [of _ handed_exchange] conjI run bags) (unfold r(2))
qed


definition delivery :: "string \<Rightarrow> postal_event_dto" where
  "delivery code = \<lparr>ye_itemId = Some ''item'', ye_receptacleId = None, ye_dispatchId = None, ye_standard = ''UPU_EMSEVT'',
     ye_code = code, ye_description = ''Delivered'', ye_locationCode = None, ye_occurredAt = 7, ye_source = ''SCAN'',
     ye_externalKey = ''scan-1'', ye_data = None\<rparr>"



end
