(* ===== verification/Outbox.thy ===== *)
theory Outbox
  imports Events
begin

text \<open>
  The outbox publisher of the worker, \<open>OutboxPublisher.publishBatch\<close> of
  \<open>apps/worker/src/worker.services.ts\<close>. The queue is BullMQ, a package: the model is parametric in
  what it answers to a job, given the calls so far, \<open>None\<close> for an accepted job and the name of the
  error otherwise.
\<close>

type_synonym queue_port = "external_call list \<Rightarrow> uuid \<Rightarrow> string option"

definition due_events :: "instant \<Rightarrow> outbox_event list \<Rightarrow> outbox_event list" where
  "due_events today events = take 20 (filter
     (\<lambda>e. ob_status e \<in> {OB_PENDING, OB_PROCESSING, OB_FAILED} \<and> ob_availableAt e \<le> today) events)"

definition claim_outbox_event :: "instant \<Rightarrow> outbox_event \<Rightarrow> ('m events_db_scheme, nat) prog" where
  "claim_outbox_event today e =
     seq now (\<lambda>c.
     update_many outbox outbox_update
       (\<lambda>x. ob_id x = ob_id e \<and> ob_tenantId x = ob_tenantId e \<and> ob_status x = ob_status e \<and> ob_availableAt x \<le> today)
       (\<lambda>x. x\<lparr>ob_status := OB_PROCESSING, ob_attempts := ob_attempts x + 1, ob_availableAt := c + 60000,
              ob_lastErrorCode := None\<rparr>))"

definition queued :: "outbox_event \<Rightarrow> external_call" where
  "queued e = QueueEvent (ob_id e) (ob_tenantId e) (ob_type e) (ob_eventVersion e) (ob_subject e) (ob_payload e)
     (ob_correlationId e) (ob_causationId e)"

definition mark_published :: "outbox_event \<Rightarrow> ('m events_db_scheme, unit) prog" where
  "mark_published e =
     seq now (\<lambda>c.
     seq (update_many outbox outbox_update
            (\<lambda>x. ob_id x = ob_id e \<and> ob_tenantId x = ob_tenantId e \<and> ob_status x = OB_PROCESSING)
            (\<lambda>x. x\<lparr>ob_status := OB_PUBLISHED, ob_publishedAt := Some c\<rparr>)) (\<lambda>_.
     ret ()))"

definition mark_failed :: "outbox_event \<Rightarrow> string \<Rightarrow> ('m events_db_scheme, unit) prog" where
  "mark_failed e name =
     (let attempts = ob_attempts e + 1 in
     seq now (\<lambda>c.
     seq (update_many outbox outbox_update
            (\<lambda>x. ob_id x = ob_id e \<and> ob_tenantId x = ob_tenantId e \<and> ob_status x = OB_PROCESSING)
            (\<lambda>x. x\<lparr>ob_status := OB_FAILED, ob_availableAt := c + min 3600 (2 ^ nat attempts * 5) * 1000,
                   ob_lastErrorCode := Some (take 120 name)\<rparr>)) (\<lambda>_.
     ret ())))"

definition publish_event :: "queue_port \<Rightarrow> instant \<Rightarrow> outbox_event \<Rightarrow> ('m events_db_scheme, unit) prog" where
  "publish_event port today e =
     seq (claim_outbox_event today e) (\<lambda>claimed.
     if claimed \<noteq> 1 then ret ()
     else
       seq (reads external_calls) (\<lambda>calls.
       seq (send (queued e)) (\<lambda>_.
       case port calls (ob_id e) of
         None \<Rightarrow> mark_published e
       | Some name \<Rightarrow> mark_failed e name)))"

definition publishBatch :: "queue_port \<Rightarrow> ('m events_db_scheme, unit) prog" where
  "publishBatch port =
     seq now (\<lambda>today.
     seq (reads (\<lambda>s. due_events today (outbox s))) (\<lambda>events.
     for_each events (publish_event port today)))"

section \<open>One event\<close>

text \<open>What a batch does to an event the queue accepts.\<close>

definition as_published :: "instant \<Rightarrow> instant \<Rightarrow> outbox_event \<Rightarrow> outbox_event" where
  "as_published c d x = x\<lparr>ob_status := OB_PUBLISHED, ob_attempts := ob_attempts x + 1, ob_availableAt := c + 60000,
     ob_lastErrorCode := None, ob_publishedAt := Some d\<rparr>"

definition unpublished :: "outbox_event list \<Rightarrow> outbox_event list" where
  "unpublished = filter (\<lambda>e. ob_status e \<noteq> OB_PUBLISHED)"

lemma one_row:
  assumes "distinct (map key xs)" and "e \<in> set xs" and "\<forall>x. Q x \<longrightarrow> key x = key e" and "Q e" and "x \<in> set xs"
  shows "Q x \<longleftrightarrow> key x = key e"
proof
  assume "key x = key e"
  with assms(1,2,5) have "x = e" by (blast dest: distinct_mapD)
  with assms(4) show "Q x" by simp
qed (use assms(3) in blast)

lemma update_one_row:
  assumes "distinct (map key xs)" and "e \<in> set xs" and "\<forall>x. Q x \<longrightarrow> key x = key e" and "Q e"
  shows "update_where Q f xs = map (\<lambda>x. if key x = key e then f x else x) xs"
  using one_row [of key xs e Q, OF assms] by (simp add: update_where_def)

lemma count_one_row:
  assumes "distinct (map key xs)" and "e \<in> set xs" and "\<forall>x. Q x \<longrightarrow> key x = key e" and "Q e"
  shows "length (filter Q xs) = 1"
proof -
  have "filter Q xs = filter (\<lambda>x. key x = key e) xs" using one_row [of key xs e Q, OF assms] by (rule filter_cong [OF refl])
  moreover have "length (filter (\<lambda>x. key x = key e) xs) = 1"
    using assms(1,2)
  proof (induction xs)
    case (Cons a xs)
    show ?case
    proof (cases "key a = key e")
      case True
      then have "key e \<notin> key ` set xs" using Cons.prems by auto
      then have "filter (\<lambda>x. key x = key e) xs = []" by (simp add: filter_empty_conv) (metis image_eqI)
      with True show ?thesis by simp
    qed (use Cons in auto)
  qed simp
  ultimately show ?thesis by simp
qed

lemma published_event:
  fixes s :: "'m events_db_scheme"
  assumes "distinct (map ob_id (outbox s))" and "e \<in> set (outbox s)" and "ob_availableAt e \<le> today"
    and "\<And>calls. port calls (ob_id e) = None"
  shows "\<exists>c d. publish_event port today e s =
    (Inr (), s\<lparr>clock_reads := clock_reads s + 2, external_calls := external_calls s @ [queued e],
       outbox := map (\<lambda>x. if ob_id x = ob_id e then as_published c d x else x) (outbox s)\<rparr>)"
proof -
  let ?c = "clock s (clock_reads s)" and ?d = "clock s (Suc (clock_reads s))"
  let ?claim = "\<lambda>x. x\<lparr>ob_status := OB_PROCESSING, ob_attempts := ob_attempts x + 1, ob_availableAt := ?c + 60000,
      ob_lastErrorCode := None\<rparr>"
  let ?rows = "map (\<lambda>x. if ob_id x = ob_id e then ?claim x else x) (outbox s)"
  let ?Q = "\<lambda>x. ob_id x = ob_id e \<and> ob_tenantId x = ob_tenantId e \<and> ob_status x = ob_status e \<and> ob_availableAt x \<le> today"
  have claim: "update_where ?Q ?claim (outbox s) = ?rows" "length (filter ?Q (outbox s)) = 1"
    by (rule update_one_row [OF assms(1,2)] count_one_row [OF assms(1,2)]; simp add: assms(3))+
  have "distinct (map ob_id ?rows)" using assms(1) by (simp add: comp_def if_distrib cong: if_cong)
  moreover have "?claim e \<in> set ?rows" using assms(2) by force
  ultimately have publish: "update_where (\<lambda>x. ob_id x = ob_id e \<and> ob_tenantId x = ob_tenantId e \<and> ob_status x = OB_PROCESSING)
      (\<lambda>x. x\<lparr>ob_status := OB_PUBLISHED, ob_publishedAt := Some ?d\<rparr>) ?rows
    = map (\<lambda>x. if ob_id x = ob_id (?claim e) then x\<lparr>ob_status := OB_PUBLISHED, ob_publishedAt := Some ?d\<rparr> else x) ?rows"
    by (intro update_one_row) auto
  have "publish_event port today e s = (Inr (), s\<lparr>clock_reads := clock_reads s + 2,
      external_calls := external_calls s @ [queued e],
      outbox := map (\<lambda>x. if ob_id x = ob_id e then as_published ?c ?d x else x) (outbox s)\<rparr>)"
    using claim assms(3,4) publish
    by (simp add: publish_event_def claim_outbox_event_def mark_published_def seq_def now_def update_many_def send_def writes_def
        reads_def ret_def comp_def as_published_def if_distrib cong: if_cong)
  then show ?thesis by blast
qed

section \<open>A batch\<close>

lemma unpublished_published:
  "unpublished (map (\<lambda>x. if ob_id x = i then as_published c d x else x) rows) = filter (\<lambda>x. ob_id x \<noteq> i) (unpublished rows)"
  by (induction rows) (auto simp: unpublished_def as_published_def)

lemma ids_published [simp]: "map ob_id (map (\<lambda>x. if ob_id x = i then as_published c d x else x) rows) = map ob_id rows"
  by (induction rows) (auto simp: as_published_def)

lemma published_events:
  fixes s :: "'m events_db_scheme"
  assumes "distinct (map ob_id (outbox s))" and "set es \<subseteq> set (outbox s)" and "distinct (map ob_id es)"
    and "\<forall>e\<in>set es. ob_availableAt e \<le> today" and accepts: "\<And>calls i. port calls i = None"
  shows "\<exists>t. for_each es (publish_event port today) s = (Inr (), t) \<and> map ob_id (outbox t) = map ob_id (outbox s)
    \<and> unpublished (outbox t) = filter (\<lambda>x. ob_id x \<notin> ob_id ` set es) (unpublished (outbox s))
    \<and> external_calls t = external_calls s @ map queued es \<and> clock t = clock s \<and> clock_reads s \<le> clock_reads t"
  using assms(1-4)
proof (induction es arbitrary: s)
  case Nil
  then show ?case by (simp add: ret_def)
next
  case (Cons e es)
  from published_event [of s e today port] Cons.prems accepts obtain c d where
    e: "publish_event port today e s = (Inr (), s\<lparr>clock_reads := clock_reads s + 2,
       external_calls := external_calls s @ [queued e],
       outbox := map (\<lambda>x. if ob_id x = ob_id e then as_published c d x else x) (outbox s)\<rparr>)"
    (is "_ = (Inr (), ?u)") by auto
  have "set es \<subseteq> set (outbox ?u)"
  proof
    fix x assume "x \<in> set es"
    with Cons.prems(2,3) have "x \<in> set (outbox s)" "ob_id x \<noteq> ob_id e" by (auto simp: rev_image_eqI)
    then show "x \<in> set (outbox ?u)" by force
  qed
  moreover have "distinct (map ob_id (outbox ?u))" using Cons.prems(1) by (simp del: map_map)
  ultimately obtain t where "for_each es (publish_event port today) ?u = (Inr (), t)"
    "map ob_id (outbox t) = map ob_id (outbox ?u)"
    "unpublished (outbox t) = filter (\<lambda>x. ob_id x \<notin> ob_id ` set es) (unpublished (outbox ?u))"
    "external_calls t = external_calls ?u @ map queued es" "clock t = clock ?u" "clock_reads ?u \<le> clock_reads t"
    using Cons.IH [of ?u] Cons.prems(3,4) by auto
  with e show ?case by (intro exI [of _ t]) (auto simp: unpublished_published seq_def simp del: map_map intro: filter_cong)
qed

lemma filter_take: "distinct (map f xs) \<Longrightarrow> filter (\<lambda>x. f x \<notin> f ` set (take n xs)) xs = drop n xs"
proof -
  assume dist: "distinct (map f xs)"
  then have "distinct (map f (take n xs) @ map f (drop n xs))" by (metis append_take_drop_id map_append)
  then have "f ` set (take n xs) \<inter> f ` set (drop n xs) = {}" by simp
  then have "filter (\<lambda>x. f x \<notin> f ` set (take n xs)) (take n xs @ drop n xs) = drop n xs"
    unfolding filter_append by (auto simp: filter_empty_conv filter_id_conv)
  then show ?thesis by simp
qed

lemma due_unpublished:
  assumes "\<forall>e\<in>set rows. ob_status e \<noteq> OB_PUBLISHED \<longrightarrow> ob_availableAt e \<le> today"
  shows "due_events today rows = take 20 (unpublished rows)"
proof -
  have "x \<in> {OB_PENDING, OB_PROCESSING, OB_FAILED} \<longleftrightarrow> x \<noteq> OB_PUBLISHED" for x by (cases x) simp_all
  then show ?thesis using assms unfolding due_events_def unpublished_def by (metis (mono_tags, lifting) filter_cong)
qed

text \<open>The state in which nothing waits for a later time.\<close>

definition all_due :: "'m events_db_scheme \<Rightarrow> bool" where
  "all_due s \<longleftrightarrow> distinct (map ob_id (outbox s)) \<and> mono (clock s)
     \<and> (\<forall>e\<in>set (unpublished (outbox s)). ob_availableAt e \<le> clock s (clock_reads s))"

lemma published_batch:
  fixes s :: "'m events_db_scheme"
  assumes "all_due s" and accepts: "\<And>calls i. port calls i = None"
  shows "\<exists>t. publishBatch port s = (Inr (), t) \<and> all_due t \<and> unpublished (outbox t) = drop 20 (unpublished (outbox s))
    \<and> external_calls t = external_calls s @ map queued (take 20 (unpublished (outbox s)))"
proof -
  let ?today = "clock s (clock_reads s)" and ?u = "s\<lparr>clock_reads := clock_reads s + 1\<rparr>"
    and ?es = "take 20 (unpublished (outbox s))"
  have dist: "distinct (map ob_id (outbox s))" and available: "\<forall>e\<in>set (unpublished (outbox s)). ob_availableAt e \<le> ?today"
    using assms(1) by (simp_all add: all_due_def)
  have distinct: "distinct (map ob_id (unpublished (outbox s)))"
    using dist by (simp add: unpublished_def distinct_map_filter)
  have "due_events ?today (outbox s) = ?es" using available by (intro due_unpublished) (simp add: unpublished_def)
  then have batch: "publishBatch port s = for_each ?es (publish_event port ?today) ?u"
    by (simp add: publishBatch_def seq_def now_def reads_def)
  have "\<exists>t. for_each ?es (publish_event port ?today) ?u = (Inr (), t) \<and> map ob_id (outbox t) = map ob_id (outbox ?u)
    \<and> unpublished (outbox t) = filter (\<lambda>x. ob_id x \<notin> ob_id ` set ?es) (unpublished (outbox ?u))
    \<and> external_calls t = external_calls ?u @ map queued ?es \<and> clock t = clock ?u \<and> clock_reads ?u \<le> clock_reads t"
  proof (rule published_events)
    show "set ?es \<subseteq> set (outbox ?u)" by (auto simp: unpublished_def dest: in_set_takeD)
    show "distinct (map ob_id ?es)" using distinct by (simp add: take_map [symmetric] distinct_take)
    show "\<forall>e\<in>set ?es. ob_availableAt e \<le> ?today" using available by (blast dest: in_set_takeD)
  qed (use dist accepts in simp_all)
  then obtain t where t: "for_each ?es (publish_event port ?today) ?u = (Inr (), t)" "map ob_id (outbox t) = map ob_id (outbox s)"
    "unpublished (outbox t) = filter (\<lambda>x. ob_id x \<notin> ob_id ` set ?es) (unpublished (outbox s))"
    "external_calls t = external_calls s @ map queued ?es" "clock t = clock s" "clock_reads s \<le> clock_reads t" by auto
  have rest: "unpublished (outbox t) = drop 20 (unpublished (outbox s))"
    unfolding t(3) by (rule filter_take [OF distinct])
  have "mono (clock s)" using assms(1) by (simp add: all_due_def)
  then have "?today \<le> clock t (clock_reads t)" using t(5,6) by (simp add: monoD)
  then have "all_due t" unfolding all_due_def t(2) rest
    using dist available t(5) \<open>mono (clock s)\<close> by (fastforce dest: in_set_dropD)
  with t rest batch show ?thesis by auto
qed

lemma published_batches:
  assumes "all_due s" and accepts: "\<And>calls i. port calls i = None"
  shows "all_due (((\<lambda>u. snd (publishBatch port u)) ^^ n) s)
    \<and> unpublished (outbox (((\<lambda>u. snd (publishBatch port u)) ^^ n) s)) = drop (20 * n) (unpublished (outbox s))
    \<and> external_calls (((\<lambda>u. snd (publishBatch port u)) ^^ n) s)
        = external_calls s @ map queued (take (20 * n) (unpublished (outbox s)))"
proof (induction n)
  case (Suc n)
  let ?t = "((\<lambda>u. snd (publishBatch port u)) ^^ n) s"
  from published_batch [of ?t port] Suc accepts obtain t where t: "publishBatch port ?t = (Inr (), t)" "all_due t"
    "unpublished (outbox t) = drop 20 (unpublished (outbox ?t))"
    "external_calls t = external_calls ?t @ map queued (take 20 (unpublished (outbox ?t)))" by auto
  have "take (20 * Suc n) xs = take (20 * n) xs @ take 20 (drop (20 * n) xs)" for xs :: "outbox_event list"
    by (simp add: take_add [symmetric] add.commute)
  with t Suc show ?case by (simp add: add.commute)
qed (use assms(1) in simp)

section \<open>Properties\<close>

text \<open>
  C37. The outbox drains: with a queue that accepts its jobs and no event waiting for a later time,
  \<open>n\<close> batches hand the first 20 \<open>n\<close> unpublished events to the queue, each of them once and in the
  order they were written, and leave just the others unpublished; enough batches publish them all.
\<close>

theorem outbox_drains:
  assumes "all_due s" and "\<And>calls i. port calls i = None" and "t = ((\<lambda>u. snd (publishBatch port u)) ^^ n) s"
  shows "unpublished (outbox t) = drop (20 * n) (unpublished (outbox s))
    \<and> external_calls t = external_calls s @ map queued (take (20 * n) (unpublished (outbox s)))
    \<and> (length (unpublished (outbox s)) \<le> 20 * n \<longrightarrow> (\<forall>e\<in>set (outbox t). ob_status e = OB_PUBLISHED))"
  using published_batches [OF assms(1,2), of n] unfolding assms(3)
  by (auto simp: unpublished_def filter_empty_conv)

definition some_outbox :: events_db where
  "some_outbox = fresh_events\<lparr>outbox := [\<lparr>ob_id = ''event'', ob_tenantId = ''tenant'', ob_type = ''order.placed.v1'',
     ob_eventVersion = 1, ob_subject = ''order'', ob_payload = JNull, ob_correlationId = ''corr'', ob_causationId = None,
     ob_status = OB_FAILED, ob_attempts = 3, ob_availableAt = 0, ob_publishedAt = None, ob_lastErrorCode = None\<rparr>]\<rparr>"

theorem outbox_drains_witness:
  "map queued (unpublished (outbox some_outbox)) \<noteq> []
   \<and> external_calls (snd (publishBatch (\<lambda>_ _. None) some_outbox)) = map queued (unpublished (outbox some_outbox))
   \<and> list_all (\<lambda>e. ob_status e = OB_PUBLISHED) (outbox (snd (publishBatch (\<lambda>_ _. None) some_outbox)))"
proof -
  have "all_due some_outbox"
    by (simp add: all_due_def some_outbox_def unpublished_def fresh_events_def fresh_runtime_def runtime.defs events_db.defs mono_def)
  from outbox_drains [OF this refl refl, where n = 1] show ?thesis
    by (simp add: some_outbox_def unpublished_def fresh_events_def fresh_runtime_def runtime.defs events_db.defs list_all_iff)
qed

end
