(* ===== verification/Spec2Isabelle.thy ===== *)
theory Spec2Isabelle
  imports Books Logistics_Rules Optimizer Stock_Runs Claims Transit Exchange Outbox
begin

text \<open>
  A verification library for LogiCommerce, a multi-tenant commerce and logistics platform: the
  API of \<open>src/apps/api\<close>, the background worker of \<open>src/apps/worker\<close> and the pure packages
  they share. Models are shallow: every method of the source is an Isabelle function over the
  database tables it reads and writes.

  \<^bold>\<open>The parts and how they interact.\<close> A customer fills a cart with the offers of the catalog, asks
  for a quote and checks out. The checkout authorises the payment with the adapter, then places
  the order, reserves stock, issues the invoice and opens purchase orders with the partners in
  one database transaction. A partner accepts its purchase order, which turns the reservations
  into allocations; the warehouse picks, packs, labels and dispatches; the carrier reports
  tracking. Payments arrive as webhooks of the providers and are booked as captures with a
  balanced journal entry. Goods arrive by shipping notices and by inventory feeds, come back
  as returns, and are restocked and refunded. Settlements pay the partners from the posted
  journals. Every operation leaves audit rows and outbox events, which the worker publishes; the
  worker also releases reservations that expired. The components meet in the tables: the stock
  balances and their ledger are written by feeds, checkouts, acceptances, expiries, picks,
  receipts and inspections; the journal by postings, captures, refunds, settlements and returns.

  \<^bold>\<open>The shared layer.\<close>
  \<^item> \<open>Prelude\<close>: values of the language (strings, instants, JSON, \<open>number\<close> rounding) and the list
    lemmas the components share; the collections \<open>keeps_intros\<close> and friends.
  \<^item> \<open>Program\<close>: a program maps a state to an error or a value, and a state. \<open>seq\<close> is \<open>await\<close>,
    \<open>throw\<close> the source's exceptions, \<open>transaction\<close> puts the state back when its body throws,
    \<open>try_catch\<close> keeps it. The random numbers and the clock are counters of the state that index
    functions of it.
  \<^item> \<open>Store\<close>: a table is a list of rows in order of insertion; \<open>find_first\<close>, \<open>update_many\<close>,
    \<open>create_row\<close> (refused by the unique keys) are the calls of the Prisma client. The locale
    \<open>row_store\<close> is the interface of one table; each table of the model interprets it.
  \<^item> \<open>Events\<close>: \<open>AuditEvent\<close> and \<open>OutboxEvent\<close>.

  The tables are the fields of one record that each component extends (\<open>events_db\<close>,
  \<open>catalog_db\<close>, \<open>stock_db\<close>, \<dots>); an operation is polymorphic in the rest of the record, so it
  runs unchanged in the state of every component built on top of it.

  \<^bold>\<open>The components\<close>, with the files under \<open>src\<close> they model:
  \<^item> \<open>Catalog\<close> (\<open>catalog/catalog.repository.ts\<close>): stores, partners, products, offers.
  \<^item> \<open>Inventory\<close> (\<open>commerce/commerce.repository.ts\<close>, \<open>worker.services.ts\<close>): feeds, views,
    reconciliation, the expiry of reservations. \<open>Stock_Ledger\<close> relates balances and ledger:
    \<open>imb\<close> is their difference, and the locale \<open>ledger_step\<close> collects the operations that
    leave it alone.
  \<^item> \<open>Billing\<close> (\<open>billing/billing.service.ts\<close>, \<open>invoice-issuance.ts\<close>): invoices, payment
    sessions, provider events, refunds, credit notes. \<open>Payments\<close> proves the accounts of every
    invoice along all runs.
  \<^item> \<open>Commerce\<close> (\<open>commerce.repository.ts\<close>, \<open>commerce.service.ts\<close>, \<open>commerce-adapters.ts\<close>):
    carts, promotions, quotes, checkout, purchase orders. \<open>Checkout\<close> and \<open>Checkout_Service\<close>
    prove what a checkout promises: one charge of the right amount, none left on failure,
    a repeated request answers the first order, and the money of the order adds up.
  \<^item> \<open>Fulfillment\<close> (\<open>fulfillment/fulfillment.repository.ts\<close>, \<open>carrier.adapter.ts\<close>): facilities
    and bins, shipping notices, picks, packages, labels, dispatch, tracking. \<open>Warehouse\<close> proves
    the life of a fulfilment order, \<open>Receiving\<close> the receipts.
  \<^item> \<open>Finance\<close> (\<open>returns-finance/returns-finance.repository.ts\<close>): journals, reversals,
    settlements, reconciliation runs. \<open>Books\<close> proves what the books promise.
  \<^item> \<open>Returns\<close> (the same file): request, approval, receipt, inspection, restock and refund.
  \<^item> \<open>Stock_Flow\<close> and \<open>Stock_Runs\<close>: the abstract stock, a function from tenant, item and
    state to units, with three kinds of step, and the proof that every operation of every
    component that moves stock refines it. Conservation and reconciliation across components
    follow.
  \<^item> \<open>Logistics_Rules\<close> (\<open>international-logistics.rules.ts\<close>): check digits, identifiers,
    capacity, workflow tables. \<open>Json\<close>: \<open>JSON.stringify\<close>.
  \<^item> \<open>Optimizer\<close> (\<open>optimization/deterministic-optimizer.service.ts\<close>,
    \<open>packages/logistics-engine\<close>): the ranking of lanes, canonical JSON, stock deltas.

  \<^bold>\<open>Numbers.\<close> Quantities and amounts in minor units are \<open>bigint\<close> in the source and \<open>int\<close> here;
  where the source converts with \<open>safeIntegerNumber\<close> the model throws beyond \<open>2 ^ 53 - 1\<close>
  as the source does. \<open>Number\<close> scores of the optimizer are exact rationals or reals; rounding
  of floating point is not modelled there.

  \<^bold>\<open>Runs.\<close> An invariant of a component is stated over runs: \<open>inductive\<close> relations whose steps are
  the operations with any arguments, failing calls included (the state of a failing call is the
  state the source leaves). The calls of one run do not overlap; each one is a transaction of
  the database. No fuel is used: loops run over finite lists of rows.

  \<^bold>\<open>Parameters.\<close> The payment providers, the carrier and the payment adapter over HTTP are
  arguments of the operations that call them, with no assumption on what they answer unless a
  theorem names one.

  \<^bold>\<open>Not modelled.\<close> Pure I/O and glue: controllers, guards, request validation by decorators,
  configuration, logging, the web client, seed data. Password hashing, tokens and the PDF of an
  invoice come from third-party packages. The list views only page over rows. The repositories
  of freight, C2C, B2B, partners, networks and analytics apply the same kinds of operation to
  further tables and are left for later.
\<close>

end
